(* ===== verification/Prelude.thy ===== *)
theory Prelude
  imports Complex_Main "HOL-Library.Word" "HOL-Library.List_Lexorder" "HOL-Library.Char_ord"
    "HOL-Library.Product_Lexorder" "HOL-Library.AList"
begin

text \<open>
  Shared vocabulary of the development: the exceptions of the program as values of
  \<open>py_error\<close>, results as the sum \<open>py_error + 'a\<close> with their sequencing
  \<open>bindR\<close>, Python strings, dictionaries, sorting and rounding as they are used by several
  components, and the generic lemmas that carry the component proofs.

  Conventions. A Python \<open>str\<close> is the list of the bytes of its UTF-8 encoding (a HOL
  \<open>string\<close>); UTF-8 keeps the order of code points, so comparing and sorting such lists
  is Python's comparison. A \<open>float\<close> is an exact rational of type \<open>rat\<close>: the
  thresholds, sums and quotients of the program are computed without rounding error and the
  explicit \<open>round\<close> calls are modelled (\<open>py_round\<close>, ties to even). A
  \<open>dict\<close> whose iteration order is observable is an association list updated in place
  (\<open>AList.update\<close>), which is the insertion order of Python.
\<close>

section \<open>Errors and results\<close>

text \<open>The exceptions the modelled code raises, built-in ones first. Messages that only
  repeat the arguments are left out; where the text is inspected by a caller it is an argument.
  \<open>Diverges\<close> is not an exception: it is the value of a call that never returns, and it
  is produced only from a loop whose \<open>partial_function\<close> value is \<open>None\<close>.\<close>

datatype py_error =
    ValueError
  | TypeError
  | IndexError
  | KeyError
  | OverflowError
  | AttributeError
  | ValidationError
  | BERError
  | MalformedBody
  | BodyTooLarge
  | SnmpError string
  | UnknownAgentError string
  | UnknownTopologyError string
  | UnknownNodeError string
  | UnknownServiceError string
  | UnknownDiagnosisError string
  | UnknownScheduleError string
  | UnknownAlertRuleError string
  | UnknownIncidentError string
  | NoVantageAgentsError string
  | NoBindingsError string
  | AuthorizationError
  | TargetNotAllowedError string
  | ControllerAPIError int string
  | OtherError string
  | Diverges

type_synonym 'a result = "py_error + 'a"

primrec bindR :: "'a result \<Rightarrow> ('a \<Rightarrow> 'b result) \<Rightarrow> 'b result" where
  "bindR (Inl e) f = Inl e"
| "bindR (Inr x) f = f x"

definition guardR :: "bool \<Rightarrow> py_error \<Rightarrow> unit result" where
  "guardR b e = (if b then Inr () else Inl e)"

lemma guardR_simps [simp]:
  "guardR True e = Inr ()" "guardR False e = Inl e"
  by (simp_all add: guardR_def)

lemma bindR_eq_Inr: "bindR r f = Inr y \<longleftrightarrow> (\<exists>x. r = Inr x \<and> f x = Inr y)"
  by (cases r) auto

lemma bindR_eq_Inl: "bindR r f = Inl e \<longleftrightarrow> r = Inl e \<or> (\<exists>x. r = Inr x \<and> f x = Inl e)"
  by (cases r) auto

lemma bindR_assoc: "bindR (bindR r f) g = bindR r (\<lambda>x. bindR (f x) g)"
  by (cases r) auto

lemma bindR_cong [fundef_cong]:
  "r = r' \<Longrightarrow> (\<And>x. r' = Inr x \<Longrightarrow> f x = f' x) \<Longrightarrow> bindR r f = bindR r' f'"
  by (cases r') auto

lemma guardR_eq_Inr: "guardR b e = Inr u \<longleftrightarrow> b"
  by (simp add: guardR_def)

lemma guardR_eq_Inl: "guardR b e = Inl e' \<longleftrightarrow> \<not> b \<and> e' = e"
  by (auto simp: guardR_def)

lemmas result_simps = bindR_eq_Inr bindR_eq_Inl guardR_eq_Inr guardR_eq_Inl

text \<open>A loop that applies a fallible step to every element, stopping at the first error.\<close>

fun mapR :: "('a \<Rightarrow> 'b result) \<Rightarrow> 'a list \<Rightarrow> 'b list result" where
  "mapR f [] = Inr []"
| "mapR f (x # xs) = bindR (f x) (\<lambda>y. bindR (mapR f xs) (\<lambda>ys. Inr (y # ys)))"

lemma mapR_eq_Inr_length: "mapR f xs = Inr ys \<Longrightarrow> length ys = length xs"
  by (induction xs arbitrary: ys) (auto simp: bindR_eq_Inr)

lemma mapR_all_Inr: "(\<And>x. x \<in> set xs \<Longrightarrow> f x = Inr (g x)) \<Longrightarrow> mapR f xs = Inr (map g xs)"
  by (induction xs) auto

text \<open>Indexing a list: \<open>xs[i]\<close> for a non-negative index.\<close>

definition nthR :: "'a list \<Rightarrow> nat \<Rightarrow> 'a result" where
  "nthR xs i = (if i < length xs then Inr (xs ! i) else Inl IndexError)"

lemma nthR_ok [simp]: "i < length xs \<Longrightarrow> nthR xs i = Inr (xs ! i)"
  by (simp add: nthR_def)

lemma nthR_eq_Inl: "nthR xs i = Inl e \<longleftrightarrow> length xs \<le> i \<and> e = IndexError"
  by (auto simp: nthR_def)

subsection \<open>State and errors\<close>

text \<open>An operation on the state \<open>'s\<close> that may raise: it returns the outcome together with the
  state it leaves, because the assignments made before an exception stay.\<close>

type_synonym ('s, 'a) act = "'s \<Rightarrow> 'a result \<times> 's"

definition returnA :: "'a \<Rightarrow> ('s, 'a) act" where
  "returnA x s = (Inr x, s)"

definition failA :: "py_error \<Rightarrow> ('s, 'a) act" where
  "failA e s = (Inl e, s)"

definition liftA :: "'a result \<Rightarrow> ('s, 'a) act" where
  "liftA r s = (r, s)"

definition getA :: "('s \<Rightarrow> 'a) \<Rightarrow> ('s, 'a) act" where
  "getA f s = (Inr (f s), s)"

definition modifyA :: "('s \<Rightarrow> 's) \<Rightarrow> ('s, unit) act" where
  "modifyA f s = (Inr (), f s)"

definition bindA :: "('s, 'a) act \<Rightarrow> ('a \<Rightarrow> ('s, 'b) act) \<Rightarrow> ('s, 'b) act" where
  "bindA m f s = (case m s of (Inl e, s') \<Rightarrow> (Inl e, s') | (Inr x, s') \<Rightarrow> f x s')"

definition whenA :: "bool \<Rightarrow> ('s, unit) act \<Rightarrow> ('s, unit) act" where
  "whenA b m = (if b then m else returnA ())"

primrec mapA :: "('a \<Rightarrow> ('s, 'b) act) \<Rightarrow> 'a list \<Rightarrow> ('s, 'b list) act" where
  "mapA f [] = returnA []"
| "mapA f (x # xs) = bindA (f x) (\<lambda>y. bindA (mapA f xs) (\<lambda>ys. returnA (y # ys)))"

lemmas act_defs = returnA_def failA_def liftA_def getA_def modifyA_def whenA_def

lemma bindA_Inr: "m s = (Inr x, s') \<Longrightarrow> bindA m f s = f x s'"
  by (simp add: bindA_def)

lemma bindA_Inl: "m s = (Inl e, s') \<Longrightarrow> bindA m f s = (Inl e, s')"
  by (simp add: bindA_def)

lemma bindA_returnA [simp]: "bindA (returnA x) f = f x"
  by (auto simp: bindA_def act_defs fun_eq_iff)

lemma bindA_failA [simp]: "bindA (failA e) f = failA e"
  by (auto simp: bindA_def act_defs fun_eq_iff)

lemma bindA_getA [simp]: "bindA (getA g) f s = f (g s) s"
  by (simp add: bindA_def act_defs)

lemma bindA_modifyA [simp]: "bindA (modifyA h) f s = f () (h s)"
  by (simp add: bindA_def act_defs)

lemma bindA_liftA [simp]: "bindA (liftA r) f s = (case r of Inl e \<Rightarrow> (Inl e, s) | Inr x \<Rightarrow> f x s)"
  by (auto simp: bindA_def act_defs split: sum.splits)

lemma bindA_eq_Inr:
  "bindA m f s = (Inr y, s'') \<longleftrightarrow> (\<exists>x s'. m s = (Inr x, s') \<and> f x s' = (Inr y, s''))"
  by (auto simp: bindA_def split: sum.splits prod.splits)

lemma bindA_eq_Inl:
  "bindA m f s = (Inl e, s'') \<longleftrightarrow>
     m s = (Inl e, s'') \<or> (\<exists>x s'. m s = (Inr x, s') \<and> f x s' = (Inl e, s''))"
  by (auto simp: bindA_def split: sum.splits prod.splits)

text \<open>What every operation of a component does to the state, on the error paths as well: a
  reflexive and transitive relation between the state before and after, established once for
  the combinators.\<close>

locale state_preorder =
  fixes R :: "'s \<Rightarrow> 's \<Rightarrow> bool"
  assumes refl: "R s s"
    and trans: "R s t \<Longrightarrow> R t u \<Longrightarrow> R s u"
begin

definition keeps :: "('s, 'a) act \<Rightarrow> bool" where
  "keeps m \<longleftrightarrow> (\<forall>s. R s (snd (m s)))"

lemma keepsI: "(\<And>s. R s (snd (m s))) \<Longrightarrow> keeps m"
  by (simp add: keeps_def)

lemma keepsD: "keeps m \<Longrightarrow> R s (snd (m s))"
  by (simp add: keeps_def)

lemma keeps_pure: "keeps (returnA x)" "keeps (failA e)" "keeps (liftA r)" "keeps (getA f)"
  by (simp_all add: keeps_def act_defs refl)

lemma keeps_modify: "(\<And>s. R s (f s)) \<Longrightarrow> keeps (modifyA f)"
  by (simp add: keeps_def act_defs)

lemma keeps_bind: "keeps m \<Longrightarrow> (\<And>x. keeps (f x)) \<Longrightarrow> keeps (bindA m f)"
  unfolding keeps_def bindA_def
  by (auto split: sum.splits prod.splits) (metis snd_conv trans)+

lemma keeps_if: "keeps m \<Longrightarrow> keeps m' \<Longrightarrow> keeps (if b then m else m')"
  by simp

lemma keeps_when: "keeps m \<Longrightarrow> keeps (whenA b m)"
  by (simp add: whenA_def keeps_pure)

lemma keeps_map: "(\<And>x. x \<in> set xs \<Longrightarrow> keeps (f x)) \<Longrightarrow> keeps (mapA f xs)"
  by (induction xs) (auto intro!: keeps_bind keeps_pure)

end

section \<open>Bytes\<close>

unbundle bit_operations_syntax

type_synonym byte = "8 word"

named_theorems byte_simps \<open>reading byte-level tests and masks as arithmetic on the byte's value\<close>

lemma or128 [byte_simps]: "k < 128 \<Longrightarrow> (k OR 128) = k + (128::nat)"
proof -
  assume k: "k < 128"
  have "k AND 128 = 0"
  proof (rule bit_eqI)
    fix n
    have "bit (128::nat) n \<longleftrightarrow> n = 7"
      using bit_exp_iff [of 7 n, where 'a = nat] by simp
    moreover have "\<not> bit k 7" using k by (simp add: bit_iff_odd)
    ultimately show "bit (k AND 128) n \<longleftrightarrow> bit 0 n" by (auto simp: bit_and_iff)
  qed
  then show ?thesis using disjunctive_add_eq_or [of k 128] by simp
qed
lemma msb8 [byte_simps]: "(b::8 word) AND 0x80 \<noteq> 0 \<longleftrightarrow> 128 \<le> unat b"
proof -
  have "b AND 0x80 \<noteq> 0 \<longleftrightarrow> bit b 7"
    using and_exp_eq_0_iff_not_bit [of b 7] by simp
  also have "\<dots> \<longleftrightarrow> bit (unat b) 7" by (simp add: bit_unsigned_iff)
  also have "\<dots> \<longleftrightarrow> 128 \<le> unat b"
  proof (cases "unat b < 128")
    case False
    moreover have "unat b < 256" using unsigned_less [of b, where 'a = nat] by simp
    ultimately have "unat b div 128 = 1" by (simp add: div_nat_eqI)
    with False show ?thesis by (simp add: bit_iff_odd)
  qed (simp add: bit_iff_odd)
  finally show ?thesis .
qed
lemma low7 [byte_simps]: "unat ((b::8 word) AND 0x7F) = unat b mod 128"
proof -
  have "b AND 0x7F = take_bit 7 b" by (simp only: take_bit_eq_mask mask_eq_exp_minus_1) simp
  then have "unat (b AND 0x7F) = take_bit 7 (unat b)" by (simp only: unsigned_take_bit_eq)
  then show ?thesis by (simp add: take_bit_eq_mod)
qed

lemma byte_lt [simp]: "unat (b :: byte) < 256"
  using unsigned_less [of b, where 'a = nat] by simp

text \<open>\<open>int.bit_length\<close>, \<open>int.to_bytes(k, "big")\<close> of a value that fits, and
  \<open>int.from_bytes(b, "big")\<close>.\<close>

fun bit_length :: "nat \<Rightarrow> nat" where
  "bit_length n = (if n = 0 then 0 else Suc (bit_length (n div 2)))"

declare bit_length.simps [simp del]

fun to_be :: "nat \<Rightarrow> nat \<Rightarrow> byte list" where
  "to_be 0 n = []"
| "to_be (Suc k) n = to_be k (n div 256) @ [word_of_nat n]"

definition from_be :: "byte list \<Rightarrow> nat" where
  "from_be bs = foldl (\<lambda>a b. 256 * a + unat b) 0 bs"

definition byte_size :: "nat \<Rightarrow> nat" where
  "byte_size n = (bit_length n + 7) div 8"

lemma bit_length_upper: "n < 2 ^ bit_length n"
proof (induction n rule: bit_length.induct)
  case (1 n)
  then show ?case by (subst bit_length.simps) auto
qed

lemma bit_length_lower: "0 < n \<Longrightarrow> 2 ^ bit_length n \<le> 2 * n"
proof (induction n rule: bit_length.induct)
  case (1 n)
  show ?case
  proof (cases "n = 1")
    case False
    with 1 have "2 ^ bit_length (n div 2) \<le> 2 * (n div 2)" by simp
    also have "\<dots> \<le> n" by simp
    finally show ?thesis using 1 by (subst bit_length.simps) simp
  qed (simp add: bit_length.simps)
qed

lemma length_to_be [simp]: "length (to_be k n) = k"
  by (induction k arbitrary: n) auto

lemma from_be_Nil [simp]: "from_be [] = 0"
  by (simp add: from_be_def)

lemma from_be_snoc [simp]: "from_be (bs @ [b]) = 256 * from_be bs + unat b"
  by (simp add: from_be_def)

lemma from_be_lt: "from_be bs < 256 ^ length bs"
proof (induction bs rule: rev_induct)
  case (snoc b bs)
  have "unat b < 256" by simp
  moreover have "256 * (from_be bs + 1) \<le> 256 * 256 ^ length bs"
    using snoc by (intro mult_left_mono) simp_all
  ultimately show ?case by (simp del: byte_lt)
qed simp

lemma from_be_Cons: "from_be (b # bs) = unat b * 256 ^ length bs + from_be bs"
proof (induction bs rule: rev_induct)
  case (snoc x bs)
  have "from_be ((b # bs) @ [x]) = 256 * from_be (b # bs) + unat x"
    by (rule from_be_snoc)
  with snoc show ?case by (simp add: algebra_simps)
qed (simp add: from_be_def)

lemma from_be_to_be: "from_be (to_be k n) = n mod 256 ^ k"
proof (induction k arbitrary: n)
  case (Suc k)
  have "256 * (n div 256 mod 256 ^ k) + n mod 256 = n mod (256 * 256 ^ k)"
    by (simp add: mod_mult2_eq)
  with Suc show ?case by (simp add: unat_of_nat)
qed simp

lemma byte_size_upper: "n < 256 ^ byte_size n"
proof -
  have "bit_length n \<le> 8 * byte_size n" by (simp add: byte_size_def)
  then have "(2 :: nat) ^ bit_length n \<le> 2 ^ (8 * byte_size n)" by (intro power_increasing) auto
  also have "\<dots> = 256 ^ byte_size n" by (simp only: power_mult) simp
  finally show ?thesis using bit_length_upper [of n] by (rule less_le_trans [rotated])
qed

lemma from_be_byte_size [simp]: "from_be (to_be (byte_size n) n) = n"
  by (simp only: from_be_to_be mod_less [OF byte_size_upper])

lemma byte_size_pos: "0 < n \<Longrightarrow> 0 < byte_size n"
  by (simp add: byte_size_def bit_length.simps [of n])

lemma byte_size_least: "n < 256 ^ k \<Longrightarrow> byte_size n \<le> k"
proof (rule ccontr)
  assume n: "n < 256 ^ k" "\<not> byte_size n \<le> k"
  then have k: "8 * k + 1 \<le> bit_length n" by (simp add: byte_size_def)
  then have n0: "0 < n" by (cases n) (simp_all add: bit_length.simps [of 0])
  have "(2 :: nat) ^ (8 * k + 1) \<le> 2 ^ bit_length n"
    using k by (intro power_increasing) auto
  also have "\<dots> \<le> 2 * n" using bit_length_lower [OF n0] .
  finally have "(2 :: nat) ^ (8 * k) \<le> n" by simp
  moreover have "(2 :: nat) ^ (8 * k) = 256 ^ k" by (simp only: power_mult) simp
  ultimately show False using n(1) by simp
qed

lemma to_be_Cons: "to_be (Suc k) n = word_of_nat (n div 256 ^ k) # to_be k n"
proof (induction k arbitrary: n)
  case (Suc k)
  have "to_be (Suc (Suc k)) n = to_be (Suc k) (n div 256) @ [word_of_nat n]" by simp
  also have "\<dots> = word_of_nat (n div 256 div 256 ^ k) # to_be k (n div 256) @ [word_of_nat n]"
    by (simp only: Suc append_Cons)
  finally show ?case by (simp add: div_mult2_eq)
qed simp

section \<open>Strings\<close>

definition lower_char :: "char \<Rightarrow> char" where
  "lower_char c = (let n = (of_char c :: nat) in if 65 \<le> n \<and> n \<le> 90 then char_of (n + 32) else c)"

definition py_lower :: "string \<Rightarrow> string" where
  "py_lower s = map lower_char s"

definition is_space :: "char \<Rightarrow> bool" where
  "is_space c = (let n = (of_char c :: nat) in n = 32 \<or> (9 \<le> n \<and> n \<le> 13) \<or> (28 \<le> n \<and> n \<le> 31))"

definition py_strip :: "string \<Rightarrow> string" where
  "py_strip s = rev (dropWhile is_space (rev (dropWhile is_space s)))"

fun strip_char :: "char \<Rightarrow> string \<Rightarrow> string" where
  "strip_char c s = rev (dropWhile (\<lambda>x. x = c) (rev (dropWhile (\<lambda>x. x = c) s)))"

fun split_on :: "char \<Rightarrow> string \<Rightarrow> string list" where
  "split_on c [] = [[]]"
| "split_on c (x # xs) =
     (if x = c then [] # split_on c xs
      else (case split_on c xs of [] \<Rightarrow> [[x]] | w # ws \<Rightarrow> (x # w) # ws))"

fun join :: "string \<Rightarrow> string list \<Rightarrow> string" where
  "join sep [] = []"
| "join sep [w] = w"
| "join sep (w # v # ws) = w @ sep @ join sep (v # ws)"

definition starts_with :: "string \<Rightarrow> string \<Rightarrow> bool" where
  "starts_with p s = (take (length p) s = p)"

fun contains :: "string \<Rightarrow> string \<Rightarrow> bool" where
  "contains p [] = (p = [])"
| "contains p (c # s) = (starts_with p (c # s) \<or> contains p s)"

text \<open>The dash and the arrow of the messages, in UTF-8.\<close>

definition em_dash :: string where
  "em_dash = [CHR 0xE2, CHR 0x80, CHR 0x94]"

definition arrow :: string where
  "arrow = [CHR 0xE2, CHR 0x86, CHR 0x92]"

lemma starts_with_append [simp]: "starts_with p (p @ s)"
  by (simp add: starts_with_def)

lemma starts_withD: "starts_with p s \<Longrightarrow> s = p @ drop (length p) s"
  by (metis append_take_drop_id starts_with_def)

lemma split_on_nonempty [simp]: "split_on c s \<noteq> []"
  by (induction s) (auto split: list.splits)

lemma split_on_append_sep:
  "c \<notin> set w \<Longrightarrow> split_on c (w @ c # s) = w # split_on c s"
  by (induction w) auto

lemma split_on_no_sep: "c \<notin> set w \<Longrightarrow> split_on c w = [w]"
  by (induction w) auto

lemma split_on_join:
  "ws \<noteq> [] \<Longrightarrow> (\<And>w. w \<in> set ws \<Longrightarrow> c \<notin> set w) \<Longrightarrow> split_on c (join [c] ws) = ws"
proof (induction ws rule: induct_list012)
  case (3 x y zs)
  then show ?case by (simp add: split_on_append_sep)
qed (auto simp: split_on_no_sep)

subsection \<open>Decimal numerals\<close>

definition digit_char :: "nat \<Rightarrow> char" where
  "digit_char d = char_of (48 + d)"

definition is_digit :: "char \<Rightarrow> bool" where
  "is_digit c = (let n = (of_char c :: nat) in 48 \<le> n \<and> n \<le> 57)"

definition digit_val :: "char \<Rightarrow> nat" where
  "digit_val c = of_char c - 48"

fun str_of_nat :: "nat \<Rightarrow> string" where
  "str_of_nat n =
     (if n < 10 then [digit_char n] else str_of_nat (n div 10) @ [digit_char (n mod 10)])"

declare str_of_nat.simps [simp del]

definition str_of_int :: "int \<Rightarrow> string" where
  "str_of_int i = (if i < 0 then ''-'' @ str_of_nat (nat (- i)) else str_of_nat (nat i))"

definition nat_of_digits :: "string \<Rightarrow> nat" where
  "nat_of_digits s = foldl (\<lambda>a c. 10 * a + digit_val c) 0 s"

text \<open>\<open>int(text)\<close> for a decimal text with optional surrounding blanks and sign.\<close>

definition int_of_str :: "string \<Rightarrow> int result" where
  "int_of_str s =
     (let t = py_strip s;
          sgn_t = (case t of c # r \<Rightarrow> if c = CHR ''-'' then (- 1, r) else if c = CHR ''+'' then (1, r) else (1, t)
                   | [] \<Rightarrow> (1, []))
      in if snd sgn_t \<noteq> [] \<and> (\<forall>c \<in> set (snd sgn_t). is_digit c)
         then Inr (fst sgn_t * int (nat_of_digits (snd sgn_t))) else Inl ValueError)"

lemma of_digit_char: "d < 10 \<Longrightarrow> of_char (digit_char d) = 48 + d"
  by (simp add: digit_char_def)

lemma digit_char_props [simp]:
  assumes "d < 10"
  shows "is_digit (digit_char d)" "digit_val (digit_char d) = d"
  using assms by (simp_all add: is_digit_def digit_val_def Let_def of_digit_char)

lemma str_of_nat_ne [simp]: "str_of_nat n \<noteq> []"
  by (subst str_of_nat.simps) simp

lemma str_of_nat_digits: "c \<in> set (str_of_nat n) \<Longrightarrow> is_digit c"
proof (induction n rule: str_of_nat.induct)
  case (1 n)
  then show ?case
    by (subst (asm) (2) str_of_nat.simps) (auto split: if_splits)
qed

lemma nat_of_digits_append: "nat_of_digits (s @ [c]) = 10 * nat_of_digits s + digit_val c"
  by (simp add: nat_of_digits_def)

lemma nat_of_digits_str [simp]: "nat_of_digits (str_of_nat n) = n"
proof (induction n rule: str_of_nat.induct)
  case (1 n)
  show ?case
  proof (cases "n < 10")
    case True
    then show ?thesis
      by (subst str_of_nat.simps) (simp add: nat_of_digits_def)
  next
    case False
    then have "nat_of_digits (str_of_nat (n div 10)) = n div 10" using 1 by simp
    with False show ?thesis
      by (subst str_of_nat.simps) (simp add: nat_of_digits_append)
  qed
qed

lemma is_digit_not_dot: "is_digit c \<Longrightarrow> c \<noteq> CHR ''.''"
  by (auto simp: is_digit_def)

lemma is_digit_not_space: "is_digit c \<Longrightarrow> \<not> is_space c"
  by (auto simp: is_digit_def is_space_def Let_def)

lemma is_digit_not_sign: "is_digit c \<Longrightarrow> c \<noteq> CHR ''-'' \<and> c \<noteq> CHR ''+''"
  by (auto simp: is_digit_def)

lemma dropWhile_none: "(\<And>c. c \<in> set s \<Longrightarrow> \<not> P c) \<Longrightarrow> dropWhile P s = s"
  by (cases s) auto

lemma py_strip_digits:
  assumes "\<And>c. c \<in> set s \<Longrightarrow> is_digit c"
  shows "py_strip s = s"
proof -
  have 1: "dropWhile is_space s = s"
    using assms by (intro dropWhile_none) (simp add: is_digit_not_space)
  have 2: "dropWhile is_space (rev s) = rev s"
    using assms by (intro dropWhile_none) (simp add: is_digit_not_space)
  show ?thesis by (simp add: py_strip_def 1 2)
qed

lemma int_of_str_digits:
  assumes "s \<noteq> []" "\<And>c. c \<in> set s \<Longrightarrow> is_digit c"
  shows "int_of_str s = Inr (int (nat_of_digits s))"
proof -
  obtain c r where s: "s = c # r" using assms(1) by (cases s) auto
  have "c \<noteq> CHR ''-''" "c \<noteq> CHR ''+''"
    using is_digit_not_sign [of c] assms(2) [of c] s by auto
  moreover have st: "py_strip s = s"
    by (rule py_strip_digits) (rule assms(2))
  ultimately show ?thesis
    using assms(2) by (simp add: int_of_str_def Let_def s [symmetric] st) (simp add: s)
qed

lemma int_of_str_nat [simp]: "int_of_str (str_of_nat n) = Inr (int n)"
  using int_of_str_digits [of "str_of_nat n"] str_of_nat_digits by simp

section \<open>Numbers\<close>

text \<open>\<open>round(x, n)\<close>: nearest multiple of \<open>10 ^ -n\<close>, ties to the even one.\<close>

definition round_half_even :: "rat \<Rightarrow> int" where
  "round_half_even x =
     (let f = \<lfloor>x\<rfloor>; d = x - of_int f
      in if d < 1 / 2 then f else if d > 1 / 2 then f + 1 else if even f then f else f + 1)"

definition py_round :: "rat \<Rightarrow> nat \<Rightarrow> rat" where
  "py_round x n = of_int (round_half_even (x * 10 ^ n)) / 10 ^ n"

text \<open>\<open>f"{x:.nf}"\<close>.\<close>

definition fmt_fixed :: "nat \<Rightarrow> rat \<Rightarrow> string" where
  "fmt_fixed n x =
     (let r = round_half_even (x * 10 ^ n); a = nat \<bar>r\<bar>;
          frac = str_of_nat (a mod 10 ^ n)
      in (if r < 0 then ''-'' else []) @ str_of_nat (a div 10 ^ n) @
         (if n = 0 then [] else ''.'' @ replicate (n - length frac) (CHR ''0'') @ frac))"

text \<open>\<open>int(x)\<close> of a float: truncation towards zero.\<close>

definition py_trunc :: "rat \<Rightarrow> int" where
  "py_trunc x = (if x < 0 then - \<lfloor>- x\<rfloor> else \<lfloor>x\<rfloor>)"

lemma round_half_even_bounds:
  "x - 1 / 2 \<le> of_int (round_half_even x)" "of_int (round_half_even x) \<le> x + 1 / 2"
proof -
  define f where "f = \<lfloor>x\<rfloor>"
  have f: "of_int f \<le> x" "x < of_int f + 1"
    unfolding f_def by linarith+
  show "x - 1 / 2 \<le> of_int (round_half_even x)" "of_int (round_half_even x) \<le> x + 1 / 2"
    using f by (auto simp: round_half_even_def Let_def simp flip: f_def)
qed

lemma round_half_even_of_int [simp]: "round_half_even (of_int i) = i"
  by (simp add: round_half_even_def)

lemma round_half_even_mono:
  assumes "x \<le> y"
  shows "round_half_even x \<le> round_half_even y"
proof (cases "\<lfloor>x\<rfloor> = \<lfloor>y\<rfloor>")
  case True
  with assms show ?thesis by (auto simp: round_half_even_def Let_def)
next
  case False
  with assms have "\<lfloor>x\<rfloor> + 1 \<le> \<lfloor>y\<rfloor>"
    using floor_mono [OF assms] by linarith
  moreover have "round_half_even x \<le> \<lfloor>x\<rfloor> + 1" "\<lfloor>y\<rfloor> \<le> round_half_even y"
    by (auto simp: round_half_even_def Let_def)
  ultimately show ?thesis by linarith
qed

lemma py_round_mono: "x \<le> y \<Longrightarrow> py_round x n \<le> py_round y n"
  by (simp add: py_round_def divide_right_mono round_half_even_mono)

lemma py_round_of_int [simp]: "py_round (of_int i) n = of_int i"
proof -
  have "of_int i * 10 ^ n = (of_int (i * 10 ^ n) :: rat)" by simp
  then have "round_half_even (of_int i * 10 ^ n) = i * 10 ^ n"
    by (simp only: round_half_even_of_int)
  then show ?thesis by (simp add: py_round_def)
qed

lemma py_round_numeral [simp]:
  "py_round 0 n = 0" "py_round 1 n = 1" "py_round (numeral k) n = numeral k"
  using py_round_of_int [of 0 n] py_round_of_int [of 1 n] py_round_of_int [of "numeral k" n]
  by simp_all

lemma py_round_nonneg: "0 \<le> x \<Longrightarrow> 0 \<le> py_round x n"
  using py_round_mono [of 0 x n] by simp

text \<open>Rounding moves a value by at most half a unit in the last place kept.\<close>

lemma py_round_error: "\<bar>py_round x n - x\<bar> \<le> 1 / (2 * 10 ^ n)"
proof -
  let ?r = "of_int (round_half_even (x * 10 ^ n)) :: rat"
  have "\<bar>?r - x * 10 ^ n\<bar> \<le> 1 / 2"
    using round_half_even_bounds [of "x * 10 ^ n"] by linarith
  then have "\<bar>?r - x * 10 ^ n\<bar> / 10 ^ n \<le> (1 / 2) / 10 ^ n"
    by (rule divide_right_mono) simp
  moreover have "py_round x n - x = (?r - x * 10 ^ n) / 10 ^ n"
    by (simp add: py_round_def diff_divide_distrib)
  ultimately show ?thesis by (simp add: abs_divide)
qed

end
