(* ===== verification/Aes.thy ===== *)
theory Aes
  imports Prelude
begin

unbundle bit_operations_syntax

text \<open>
  Model of \<open>ingest/aes.py\<close>: the AES-128 forward cipher and its use in 128-bit CFB mode.
  A byte is an \<open>8 word\<close>, a Python \<open>bytes\<close> value a \<open>byte list\<close>; the 4x4
  state is the list of its four rows, as in the code. Wrong key, block and IV lengths raise
  \<open>ValueError\<close>.

  The CFB loops depend on the cipher only through its block length, so their correctness is
  proved once in the locale \<open>cfb_cipher\<close> and interpreted on \<open>aes128_encrypt_block\<close>.
\<close>

section \<open>Tables\<close>

definition SBOX :: "byte list" where
  "SBOX = [
    0x63, 0x7C, 0x77, 0x7B, 0xF2, 0x6B, 0x6F, 0xC5, 0x30, 0x01, 0x67, 0x2B, 0xFE, 0xD7, 0xAB, 0x76,
    0xCA, 0x82, 0xC9, 0x7D, 0xFA, 0x59, 0x47, 0xF0, 0xAD, 0xD4, 0xA2, 0xAF, 0x9C, 0xA4, 0x72, 0xC0,
    0xB7, 0xFD, 0x93, 0x26, 0x36, 0x3F, 0xF7, 0xCC, 0x34, 0xA5, 0xE5, 0xF1, 0x71, 0xD8, 0x31, 0x15,
    0x04, 0xC7, 0x23, 0xC3, 0x18, 0x96, 0x05, 0x9A, 0x07, 0x12, 0x80, 0xE2, 0xEB, 0x27, 0xB2, 0x75,
    0x09, 0x83, 0x2C, 0x1A, 0x1B, 0x6E, 0x5A, 0xA0, 0x52, 0x3B, 0xD6, 0xB3, 0x29, 0xE3, 0x2F, 0x84,
    0x53, 0xD1, 0x00, 0xED, 0x20, 0xFC, 0xB1, 0x5B, 0x6A, 0xCB, 0xBE, 0x39, 0x4A, 0x4C, 0x58, 0xCF,
    0xD0, 0xEF, 0xAA, 0xFB, 0x43, 0x4D, 0x33, 0x85, 0x45, 0xF9, 0x02, 0x7F, 0x50, 0x3C, 0x9F, 0xA8,
    0x51, 0xA3, 0x40, 0x8F, 0x92, 0x9D, 0x38, 0xF5, 0xBC, 0xB6, 0xDA, 0x21, 0x10, 0xFF, 0xF3, 0xD2,
    0xCD, 0x0C, 0x13, 0xEC, 0x5F, 0x97, 0x44, 0x17, 0xC4, 0xA7, 0x7E, 0x3D, 0x64, 0x5D, 0x19, 0x73,
    0x60, 0x81, 0x4F, 0xDC, 0x22, 0x2A, 0x90, 0x88, 0x46, 0xEE, 0xB8, 0x14, 0xDE, 0x5E, 0x0B, 0xDB,
    0xE0, 0x32, 0x3A, 0x0A, 0x49, 0x06, 0x24, 0x5C, 0xC2, 0xD3, 0xAC, 0x62, 0x91, 0x95, 0xE4, 0x79,
    0xE7, 0xC8, 0x37, 0x6D, 0x8D, 0xD5, 0x4E, 0xA9, 0x6C, 0x56, 0xF4, 0xEA, 0x65, 0x7A, 0xAE, 0x08,
    0xBA, 0x78, 0x25, 0x2E, 0x1C, 0xA6, 0xB4, 0xC6, 0xE8, 0xDD, 0x74, 0x1F, 0x4B, 0xBD, 0x8B, 0x8A,
    0x70, 0x3E, 0xB5, 0x66, 0x48, 0x03, 0xF6, 0x0E, 0x61, 0x35, 0x57, 0xB9, 0x86, 0xC1, 0x1D, 0x9E,
    0xE1, 0xF8, 0x98, 0x11, 0x69, 0xD9, 0x8E, 0x94, 0x9B, 0x1E, 0x87, 0xE9, 0xCE, 0x55, 0x28, 0xDF,
    0x8C, 0xA1, 0x89, 0x0D, 0xBF, 0xE6, 0x42, 0x68, 0x41, 0x99, 0x2D, 0x0F, 0xB0, 0x54, 0xBB, 0x16
  ]"

definition RCON :: "byte list" where
  "RCON = [0x01, 0x02, 0x04, 0x08, 0x10, 0x20, 0x40, 0x80, 0x1B, 0x36]"

definition sbox :: "byte \<Rightarrow> byte" where
  "sbox b = SBOX ! unat b"

text \<open>The code doubles an unbounded integer below 256 and reduces it when bit 8 is set: nine bits
  are enough for the intermediate value.\<close>

definition xtime :: "byte \<Rightarrow> byte" where
  "xtime a =
     (let a' = push_bit 1 (ucast a :: 9 word)
      in if a' AND 0x100 \<noteq> 0 then ucast ((a' XOR 0x1B) AND 0xFF) else ucast a')"

section \<open>Key expansion\<close>

definition key_words :: "byte list \<Rightarrow> byte list list" where
  "key_words key = map (\<lambda>i. take 4 (drop i key)) [0, 4, 8, 12]"

definition next_word :: "byte list list \<Rightarrow> nat \<Rightarrow> byte list" where
  "next_word ws i =
     (let temp = ws ! (i - 1);
          temp = (if i mod 4 = 0
                  then (let rot = drop 1 temp @ take 1 temp; sub = map sbox rot
                        in sub[0 := sub ! 0 XOR RCON ! (i div 4 - 1)])
                  else temp)
      in map (\<lambda>j. (ws ! (i - 4)) ! j XOR temp ! j) [0..<4])"

definition round_key :: "byte list list \<Rightarrow> nat \<Rightarrow> byte list" where
  "round_key ws r = concat (map (\<lambda>c. ws ! (r * 4 + c)) [0..<4])"

definition expand_words :: "byte list \<Rightarrow> byte list list" where
  "expand_words key = foldl (\<lambda>ws i. ws @ [next_word ws i]) (key_words key) [4..<44]"

definition expand_key :: "byte list \<Rightarrow> byte list list result" where
  "expand_key key =
     (if length key \<noteq> 16 then Inl ValueError
      else Inr (map (round_key (expand_words key)) [0..<11]))"

section \<open>The block cipher\<close>

definition to_state :: "byte list \<Rightarrow> byte list list" where
  "to_state block = map (\<lambda>r. map (\<lambda>c. block ! (c * 4 + r)) [0..<4]) [0..<4]"

definition from_state :: "byte list list \<Rightarrow> byte list" where
  "from_state st = map (\<lambda>i. st ! (i mod 4) ! (i div 4)) [0..<16]"

definition add_round_key :: "byte list \<Rightarrow> byte list list \<Rightarrow> byte list list" where
  "add_round_key rk st = map (\<lambda>r. map (\<lambda>c. st ! r ! c XOR rk ! (c * 4 + r)) [0..<4]) [0..<4]"

definition sub_bytes :: "byte list list \<Rightarrow> byte list list" where
  "sub_bytes st = map (map sbox) st"

definition shift_rows :: "byte list list \<Rightarrow> byte list list" where
  "shift_rows st = (st ! 0) # map (\<lambda>r. drop r (st ! r) @ take r (st ! r)) [1..<4]"

text \<open>One column of MixColumns: the four assignments of the loop body.\<close>

definition mix_column :: "byte \<times> byte \<times> byte \<times> byte \<Rightarrow> byte \<times> byte \<times> byte \<times> byte" where
  "mix_column = (\<lambda>(a0, a1, a2, a3).
     (xtime a0 XOR (xtime a1 XOR a1) XOR a2 XOR a3,
      a0 XOR xtime a1 XOR (xtime a2 XOR a2) XOR a3,
      a0 XOR a1 XOR xtime a2 XOR (xtime a3 XOR a3),
      (xtime a0 XOR a0) XOR a1 XOR a2 XOR xtime a3))"

definition mix_columns :: "byte list list \<Rightarrow> byte list list" where
  "mix_columns st =
     (let col = (\<lambda>c. mix_column (st ! 0 ! c, st ! 1 ! c, st ! 2 ! c, st ! 3 ! c))
      in [map (\<lambda>c. fst (col c)) [0..<4],
          map (\<lambda>c. fst (snd (col c))) [0..<4],
          map (\<lambda>c. fst (snd (snd (col c)))) [0..<4],
          map (\<lambda>c. snd (snd (snd (col c)))) [0..<4]])"

definition aes_round :: "byte list list \<Rightarrow> byte list list \<Rightarrow> nat \<Rightarrow> byte list list" where
  "aes_round rks st rnd =
     (let st = shift_rows (sub_bytes st);
          st = (if rnd \<noteq> 10 then mix_columns st else st)
      in add_round_key (rks ! rnd) st)"

definition aes128_encrypt_block :: "byte list \<Rightarrow> byte list \<Rightarrow> byte list result" where
  "aes128_encrypt_block key block =
     (if length block \<noteq> 16 then Inl ValueError
      else bindR (expand_key key) (\<lambda>rks.
        Inr (from_state
          (foldl (aes_round rks) (add_round_key (rks ! 0) (to_state block)) [1..<11]))))"

section \<open>CFB mode\<close>

text \<open>The two loops over 16-byte segments. The cipher is an argument here and is
  \<open>aes128_encrypt_block key\<close> in the two operations below; a last, short segment leaves the
  feedback register unchanged, as in the code.\<close>

fun cfb_enc_loop :: "(byte list \<Rightarrow> byte list result) \<Rightarrow> byte list \<Rightarrow> byte list \<Rightarrow> byte list result" where
  "cfb_enc_loop E fb [] = Inr []"
| "cfb_enc_loop E fb (p # ps) =
     bindR (E fb) (\<lambda>ks.
       let cseg = map2 (XOR) (take 16 (p # ps)) ks
       in bindR (cfb_enc_loop E (if length cseg = 16 then cseg else fb) (drop 16 (p # ps)))
            (\<lambda>rest. Inr (cseg @ rest)))"

fun cfb_dec_loop :: "(byte list \<Rightarrow> byte list result) \<Rightarrow> byte list \<Rightarrow> byte list \<Rightarrow> byte list result" where
  "cfb_dec_loop E fb [] = Inr []"
| "cfb_dec_loop E fb (c # cs) =
     bindR (E fb) (\<lambda>ks.
       let seg = take 16 (c # cs); pseg = map2 (XOR) seg ks
       in bindR (cfb_dec_loop E (if length seg = 16 then seg else fb) (drop 16 (c # cs)))
            (\<lambda>rest. Inr (pseg @ rest)))"

definition aes128_cfb_encrypt :: "byte list \<Rightarrow> byte list \<Rightarrow> byte list \<Rightarrow> byte list result" where
  "aes128_cfb_encrypt key iv plaintext =
     (if length iv \<noteq> 16 then Inl ValueError
      else cfb_enc_loop (aes128_encrypt_block key) iv plaintext)"

definition aes128_cfb_decrypt :: "byte list \<Rightarrow> byte list \<Rightarrow> byte list \<Rightarrow> byte list result" where
  "aes128_cfb_decrypt key iv ciphertext =
     (if length iv \<noteq> 16 then Inl ValueError
      else cfb_dec_loop (aes128_encrypt_block key) iv ciphertext)"

lemma cfb_enc_step:
  assumes "pt \<noteq> []" "E fb = Inr ks"
    and "cseg = map2 (XOR) (take 16 pt) ks" "fb' = (if length cseg = 16 then cseg else fb)"
  shows "cfb_enc_loop E fb pt =
    bindR (cfb_enc_loop E fb' (drop 16 pt)) (\<lambda>rest. Inr (cseg @ rest))"
  using assms by (cases pt) (simp_all only: cfb_enc_loop.simps bindR.simps Let_def)

lemma cfb_dec_step:
  assumes "ct \<noteq> []" "E fb = Inr ks"
    and "seg = take 16 ct" "fb' = (if length seg = 16 then seg else fb)"
  shows "cfb_dec_loop E fb ct =
    bindR (cfb_dec_loop E fb' (drop 16 ct)) (\<lambda>rest. Inr (map2 (XOR) seg ks @ rest))"
  using assms by (cases ct) (simp_all only: cfb_dec_loop.simps bindR.simps Let_def)

section \<open>CFB over any block cipher\<close>

locale cfb_cipher =
  fixes enc :: "byte list \<Rightarrow> byte list \<Rightarrow> byte list result"
    and good_key :: "byte list \<Rightarrow> bool"
  assumes block_length:
      "good_key k \<Longrightarrow> length b = 16 \<Longrightarrow> \<exists>ks. enc k b = Inr ks \<and> length ks = 16"
    and bad_key: "\<not> good_key k \<Longrightarrow> length b = 16 \<Longrightarrow> enc k b = Inl ValueError"
begin

lemma enc_loop_returns:
  assumes k: "good_key k"
  shows "length fb = 16 \<Longrightarrow> \<exists>ct. cfb_enc_loop (enc k) fb pt = Inr ct \<and> length ct = length pt"
proof (induction pt arbitrary: fb rule: length_induct)
  case (1 pt)
  show ?case
  proof (cases pt)
    case Nil
    then show ?thesis by simp
  next
    case (Cons p ps)
    obtain ks where ks: "enc k fb = Inr ks" "length ks = 16"
      using block_length [OF k] 1 by blast
    define cseg where "cseg = map2 (XOR) (take 16 pt) ks"
    define fb' where "fb' = (if length cseg = 16 then cseg else fb)"
    have "length fb' = 16" using 1 by (simp add: fb'_def)
    moreover have "length (drop 16 pt) < length pt" using Cons by simp
    ultimately obtain ct where
      ct: "cfb_enc_loop (enc k) fb' (drop 16 pt) = Inr ct" "length ct = length (drop 16 pt)"
      using 1(1) by blast
    have "cfb_enc_loop (enc k) fb pt = Inr (cseg @ ct)"
      using cfb_enc_step [where E = "enc k", OF _ ks(1) cseg_def fb'_def] ct(1) Cons by simp
    moreover have "length (cseg @ ct) = length pt"
      using ct(2) ks(2) by (simp add: cseg_def)
    ultimately show ?thesis by blast
  qed
qed

lemma xor_twice: "length a \<le> length k \<Longrightarrow> map2 (XOR) (map2 (XOR) a k) k = (a :: byte list)"
  by (intro nth_equalityI) (auto simp: xor.assoc)

lemma dec_enc_loop:
  assumes k: "good_key k"
  shows "length fb = 16 \<Longrightarrow> cfb_enc_loop (enc k) fb pt = Inr ct \<Longrightarrow> cfb_dec_loop (enc k) fb ct = Inr pt"
proof (induction pt arbitrary: fb ct rule: length_induct)
  case (1 pt)
  show ?case
  proof (cases pt)
    case Nil
    with 1 show ?thesis by simp
  next
    case (Cons p ps)
    obtain ks where ks: "enc k fb = Inr ks" "length ks = 16"
      using block_length [OF k] 1 by blast
    define cseg where "cseg = map2 (XOR) (take 16 pt) ks"
    define fb' where "fb' = (if length cseg = 16 then cseg else fb)"
    have fb': "length fb' = 16" using 1 by (simp add: fb'_def)
    obtain ct' where ct': "cfb_enc_loop (enc k) fb' (drop 16 pt) = Inr ct'" "length ct' = length (drop 16 pt)"
      using enc_loop_returns [OF k fb'] by blast
    have ct: "ct = cseg @ ct'"
      using 1(3) cfb_enc_step [where E = "enc k", OF _ ks(1) cseg_def fb'_def] ct'(1) Cons by simp
    have short: "length pt \<le> 16 \<Longrightarrow> ct' = []" using ct'(2) by simp
    have seg: "take 16 ct = cseg" "drop 16 ct = ct'"
      using short ks(2) by (auto simp: ct cseg_def not_le min_def)
    have IH: "cfb_dec_loop (enc k) fb' ct' = Inr (drop 16 pt)"
      using 1(1) fb' ct'(1) Cons by simp
    have "ct \<noteq> []"
      using ct ks(2) Cons by (cases ks) (auto simp: cseg_def)
    then have "cfb_dec_loop (enc k) fb ct = Inr (map2 (XOR) cseg ks @ drop 16 pt)"
      using cfb_dec_step [where E = "enc k", OF _ ks(1) seg(1) [symmetric] fb'_def] IH seg(2) by simp
    moreover have "map2 (XOR) cseg ks = take 16 pt"
      unfolding cseg_def using ks(2) by (intro xor_twice) simp
    ultimately show ?thesis by simp
  qed
qed


lemma dec_loop_returns:
  assumes k: "good_key k"
  shows "length fb = 16 \<Longrightarrow> \<exists>pt. cfb_dec_loop (enc k) fb ct = Inr pt"
proof (induction ct arbitrary: fb rule: length_induct)
  case (1 ct)
  show ?case
  proof (cases ct)
    case (Cons c cs)
    obtain ks where ks: "enc k fb = Inr ks" "length ks = 16"
      using block_length [OF k] 1 by blast
    define fb' where "fb' = (if length (take 16 ct) = 16 then take 16 ct else fb)"
    have "length fb' = 16" using 1 by (simp add: fb'_def)
    moreover have "length (drop 16 ct) < length ct" using Cons by simp
    ultimately obtain pt where "cfb_dec_loop (enc k) fb' (drop 16 ct) = Inr pt"
      using 1(1) by blast
    then show ?thesis
      using cfb_dec_step [where E = "enc k", OF _ ks(1) refl fb'_def] Cons by simp
  qed simp
qed

lemma loops_bad_key:
  assumes "\<not> good_key k" "length fb = 16" "data \<noteq> []"
  shows "cfb_enc_loop (enc k) fb data = Inl ValueError"
    and "cfb_dec_loop (enc k) fb data = Inl ValueError"
  using bad_key [OF assms(1,2)] assms(3) by (cases data; simp)+

end


section \<open>Shapes\<close>

lemma expand_key_returns: "length key = 16 \<Longrightarrow> \<exists>rks. expand_key key = Inr rks \<and> length rks = 11"
  by (simp add: expand_key_def)

lemma length_from_state [simp]: "length (from_state st) = 16"
  by (simp add: from_state_def)

lemma aes128_block_length:
  assumes "length key = 16" "length b = 16"
  shows "\<exists>ks. aes128_encrypt_block key b = Inr ks \<and> length ks = 16"
  using expand_key_returns [OF assms(1)] assms(2) by (auto simp: aes128_encrypt_block_def)

section \<open>Properties of the two tables\<close>

lemma length_SBOX: "length SBOX = 256"
  by (simp add: SBOX_def)

lemma distinct_SBOX: "distinct SBOX"
proof -
  have "distinct (map unat SBOX)"
    by (simp only: SBOX_def list.map, simp only: unat_numeral unsigned_numeral, simp)
  then show ?thesis by (rule distinct_map [THEN iffD1, THEN conjunct1])
qed

lemma sbox_inj: "sbox a = sbox b \<Longrightarrow> a = b"
proof -
  assume "sbox a = sbox b"
  moreover have "unat a < length SBOX" "unat b < length SBOX"
    using unsigned_less [of a] unsigned_less [of b] by (simp_all add: length_SBOX)
  ultimately have "unat a = unat b"
    using nth_eq_iff_index_eq [OF distinct_SBOX] by (simp add: sbox_def)
  then show "a = b" by (rule unsigned_word_eqI)
qed

lemma xtime_bit:
  "bit (xtime a) n \<longleftrightarrow>
     n < 8 \<and> ((0 < n \<and> bit a (n - 1)) \<noteq> (bit a 7 \<and> n \<in> {0, 1, 3, 4}))"
proof (cases "n < 8")
  case True
  define d where "d = push_bit 1 (ucast a :: 9 word)"
  have dbl: "bit d m \<longleftrightarrow> m < 9 \<and> 0 < m \<and> bit a (m - 1)" for m
    unfolding d_def by (simp only: bit_push_bit_iff bit_ucast_iff) auto
  have top: "d AND 0x100 \<noteq> 0 \<longleftrightarrow> bit a 7"
    using and_exp_eq_0_iff_not_bit [of d 8] dbl [of 8] by simp
  have plain: "bit (ucast d :: byte) n \<longleftrightarrow> 0 < n \<and> bit a (n - 1)"
    using True by (auto simp: bit_ucast_iff dbl)
  from True have n: "n \<in> {0, 1, 2, 3, 4, 5, 6, 7}" by auto
  then have "bit (0x1B :: 9 word) n \<longleftrightarrow> n \<in> {0, 1, 3, 4}" and "bit (0xFF :: 9 word) n"
    by (auto simp: bit_numeral_rec)
  then have reduced: "bit (ucast ((d XOR 0x1B) AND 0xFF) :: byte) n \<longleftrightarrow>
      ((0 < n \<and> bit a (n - 1)) \<noteq> (n \<in> {0, 1, 3, 4}))"
    using True by (simp only: bit_ucast_iff bit_and_iff bit_xor_iff dbl) auto
  have "xtime a = (if bit a 7 then ucast ((d XOR 0x1B) AND 0xFF) else ucast d)"
    unfolding xtime_def Let_def d_def [symmetric] by (simp only: top if_cancel)
  then show ?thesis
    using True plain reduced by (cases "bit a 7") simp_all
next
  case False
  then show ?thesis using bit_imp_le_length [of "xtime a" n] by auto
qed

lemma xtime_xor: "xtime (a XOR b) = xtime a XOR xtime b"
  by (rule bit_word_eqI) (auto simp: bit_xor_iff xtime_bit)

lemma xor_cancel: "(a :: byte) XOR (a XOR b) = b"
  by (simp flip: xor.assoc)

text \<open>The inverse of one MixColumns column, used only to show that the column map is injective.\<close>

definition unmix_column :: "byte \<times> byte \<times> byte \<times> byte \<Rightarrow> byte \<times> byte \<times> byte \<times> byte" where
  "unmix_column = (\<lambda>(b0, b1, b2, b3).
     (let x2 = xtime; x4 = (\<lambda>b. xtime (xtime b)); x8 = (\<lambda>b. xtime (xtime (xtime b)));
          m9 = (\<lambda>b. x8 b XOR b); mb = (\<lambda>b. x8 b XOR x2 b XOR b);
          md = (\<lambda>b. x8 b XOR x4 b XOR b); me = (\<lambda>b. x8 b XOR x4 b XOR x2 b)
      in (me b0 XOR mb b1 XOR md b2 XOR m9 b3,
          m9 b0 XOR me b1 XOR mb b2 XOR md b3,
          md b0 XOR m9 b1 XOR me b2 XOR mb b3,
          mb b0 XOR md b1 XOR m9 b2 XOR me b3)))"

lemma unmix_mix: "unmix_column (mix_column col) = col"
  by (cases col) (simp add: unmix_column_def mix_column_def xtime_xor xor_cancel
      xor.assoc xor.commute xor.left_commute)

section \<open>The block cipher is injective\<close>

text \<open>Every step of a round is injective on 4x4 states, so the cipher is a permutation of the
  blocks for every key.\<close>

definition shaped :: "byte list list \<Rightarrow> bool" where
  "shaped st \<longleftrightarrow> length st = 4 \<and> (\<forall>r<4. length (st ! r) = 4)"

lemma shaped_eqI:
  assumes "shaped s" "shaped t" "\<And>r c. r < 4 \<Longrightarrow> c < 4 \<Longrightarrow> s ! r ! c = t ! r ! c"
  shows "s = t"
proof (rule nth_equalityI)
  show "length s = length t" using assms(1,2) by (simp add: shaped_def)
  show "s ! r = t ! r" if "r < length s" for r
    using assms that by (intro nth_equalityI) (auto simp: shaped_def)
qed

lemma less4: "(r::nat) < 4 \<longleftrightarrow> r = 0 \<or> r = 1 \<or> r = 2 \<or> r = 3"
  by auto

lemma all_less4: "(\<forall>r<4. P r) \<longleftrightarrow> P 0 \<and> P 1 \<and> P 2 \<and> P (3::nat)"
  by (auto simp: less4)

lemma shaped_iff:
  "shaped st \<longleftrightarrow> length st = 4 \<and> length (st ! 0) = 4 \<and> length (st ! 1) = 4 \<and>
     length (st ! 2) = 4 \<and> length (st ! 3) = 4"
  by (simp add: shaped_def all_less4)

lemma upt4: "[0..<4] = [0, 1, 2, 3::nat]" "[1..<4] = [1, 2, 3::nat]"
  by (simp_all add: upt_rec)

lemma shift_rows_list:
  "shift_rows st = [st ! 0, drop 1 (st ! 1) @ take 1 (st ! 1), drop 2 (st ! 2) @ take 2 (st ! 2),
     drop 3 (st ! 3) @ take 3 (st ! 3)]"
  by (simp only: shift_rows_def upt4 list.map)

lemma shaped_steps [simp]:
  "shaped (to_state b)" "shaped (add_round_key rk s)" "shaped (mix_columns s)"
  "shaped s \<Longrightarrow> shaped (sub_bytes s)" "shaped s \<Longrightarrow> shaped (shift_rows s)"
  by (simp_all add: shaped_iff to_state_def add_round_key_def mix_columns_def sub_bytes_def
      shift_rows_list Let_def)

lemma sub_bytes_inj: "shaped s \<Longrightarrow> shaped t \<Longrightarrow> sub_bytes s = sub_bytes t \<Longrightarrow> s = t"
proof (rule shaped_eqI)
  fix r c :: nat
  assume st: "shaped s" "shaped t" "sub_bytes s = sub_bytes t" and "r < 4" "c < 4"
  then have "sbox (s ! r ! c) = sbox (t ! r ! c)"
    by (metis (no_types, lifting) nth_map shaped_def sub_bytes_def)
  then show "s ! r ! c = t ! r ! c" by (rule sbox_inj)
qed

lemma shift_rows_nth:
  "shaped s \<Longrightarrow> r < 4 \<Longrightarrow> c < 4 \<Longrightarrow> shift_rows s ! r ! ((c + (4 - r)) mod 4) = s ! r ! c"
  by (auto simp: shaped_iff shift_rows_list less4 nth_append)
    (simp_all add: numeral_2_eq_2 numeral_3_eq_3)

lemma shift_rows_inj: "shaped s \<Longrightarrow> shaped t \<Longrightarrow> shift_rows s = shift_rows t \<Longrightarrow> s = t"
  by (rule shaped_eqI) (metis shift_rows_nth)+

lemma add_round_key_inj:
  assumes "shaped s" "shaped t" "add_round_key rk s = add_round_key rk t"
  shows "s = t"
proof (rule shaped_eqI [OF assms(1,2)])
  fix r c :: nat
  assume rc: "r < 4" "c < 4"
  have nth: "add_round_key rk u ! r ! c = u ! r ! c XOR rk ! (c * 4 + r)" for u
    using rc by (simp add: add_round_key_def)
  have "(s ! r ! c XOR rk ! (c * 4 + r)) XOR rk ! (c * 4 + r) =
        (t ! r ! c XOR rk ! (c * 4 + r)) XOR rk ! (c * 4 + r)"
    using nth [of s] nth [of t] assms(3) by simp
  then show "s ! r ! c = t ! r ! c" by (simp add: xor.assoc)
qed

lemma mix_columns_inj:
  assumes "shaped s" "shaped t" "mix_columns s = mix_columns t"
  shows "s = t"
proof (rule shaped_eqI [OF assms(1,2)])
  fix r c :: nat
  assume rc: "r < 4" "c < 4"
  define col where "col u = (u ! 0 ! c, u ! 1 ! c, u ! 2 ! c, u ! 3 ! c)" for u :: "byte list list"
  have "mix_column (col u) =
      (mix_columns u ! 0 ! c, mix_columns u ! 1 ! c, mix_columns u ! 2 ! c, mix_columns u ! 3 ! c)" for u
    using rc(2) by (simp add: mix_columns_def Let_def col_def)
  then have "mix_column (col s) = mix_column (col t)" using assms(3) by simp
  then have "col s = col t" by (metis unmix_mix)
  then show "s ! r ! c = t ! r ! c" using rc(1) by (auto simp: col_def less4)
qed

lemma aes_round_shaped [simp]: "shaped (aes_round rks s n)"
  unfolding aes_round_def Let_def by (rule shaped_steps)

lemma aes_round_inj:
  assumes "shaped s" "shaped t" "aes_round rks s n = aes_round rks t n"
  shows "s = t"
proof -
  define f where "f u = shift_rows (sub_bytes u)" for u
  have f: "shaped (f s)" "shaped (f t)" using assms(1,2) by (simp_all add: f_def)
  have "f s = f t"
  proof (cases "n = 10")
    case True
    with assms(3) have "add_round_key (rks ! n) (f s) = add_round_key (rks ! n) (f t)"
      by (simp only: aes_round_def Let_def f_def simp_thms if_False)
    with f show ?thesis by (rule add_round_key_inj)
  next
    case False
    with assms(3) have
      "add_round_key (rks ! n) (mix_columns (f s)) = add_round_key (rks ! n) (mix_columns (f t))"
      by (simp only: aes_round_def Let_def f_def simp_thms if_True)
    from add_round_key_inj [OF _ _ this] have "mix_columns (f s) = mix_columns (f t)" by simp
    with f show ?thesis by (rule mix_columns_inj)
  qed
  then have "sub_bytes s = sub_bytes t"
    using assms(1,2) shift_rows_inj [of "sub_bytes s" "sub_bytes t"] by (simp add: f_def)
  with assms(1,2) show ?thesis by (rule sub_bytes_inj)
qed

lemma rounds_inj:
  "shaped s \<Longrightarrow> shaped t \<Longrightarrow> foldl (aes_round rks) s ns = foldl (aes_round rks) t ns \<Longrightarrow> s = t"
proof (induction ns arbitrary: s t)
  case (Cons n ns)
  then have "aes_round rks s n = aes_round rks t n" by (auto intro: Cons.IH)
  with Cons.prems(1,2) show ?case by (rule aes_round_inj)
qed simp

lemma rounds_shaped: "shaped s \<Longrightarrow> shaped (foldl (aes_round rks) s ns)"
  by (induction ns arbitrary: s) auto

lemma from_state_inj: "shaped s \<Longrightarrow> shaped t \<Longrightarrow> from_state s = from_state t \<Longrightarrow> s = t"
proof (rule shaped_eqI)
  fix r c :: nat
  assume eq: "from_state s = from_state t" and rc: "r < 4" "c < 4"
  have nth: "from_state u ! (4 * c + r) = u ! r ! c" for u
    using rc by (simp add: from_state_def)
  show "s ! r ! c = t ! r ! c" using nth [of s] nth [of t] eq by simp
qed

lemma to_state_inj:
  assumes "length a = 16" "length b = 16" "to_state a = to_state b"
  shows "a = b"
proof (rule nth_equalityI)
  fix i assume "i < length a"
  then have i: "i div 4 < 4" "i mod 4 < 4" using assms(1) by auto
  have nth: "to_state u ! (i mod 4) ! (i div 4) = u ! i" for u
    using i by (simp add: to_state_def mult.commute [of "i div 4"])
  show "a ! i = b ! i" using nth [of a] nth [of b] assms(3) by simp
qed (use assms in simp)

lemma aes128_encrypt_block_inj:
  assumes "aes128_encrypt_block key a = Inr c" "aes128_encrypt_block key b = Inr c"
  shows "a = b"
proof -
  from assms obtain rks where len: "length a = 16" "length b = 16"
    and c: "from_state (foldl (aes_round rks) (add_round_key (rks ! 0) (to_state a)) [1..<11]) = c"
      "from_state (foldl (aes_round rks) (add_round_key (rks ! 0) (to_state b)) [1..<11]) = c"
    by (auto simp: aes128_encrypt_block_def bindR_eq_Inr split: if_splits)
  have "foldl (aes_round rks) (add_round_key (rks ! 0) (to_state a)) [1..<11] =
        foldl (aes_round rks) (add_round_key (rks ! 0) (to_state b)) [1..<11]"
    by (rule from_state_inj [OF _ _ trans [OF c(1) c(2) [symmetric]]]) (simp_all add: rounds_shaped)
  then have "add_round_key (rks ! 0) (to_state a) = add_round_key (rks ! 0) (to_state b)"
    by (rule rounds_inj [rotated 2]) simp_all
  from add_round_key_inj [OF _ _ this] have "to_state a = to_state b" by simp
  with len show ?thesis by (rule to_state_inj)
qed

section \<open>The cipher as a CFB provider\<close>

interpretation aes_cfb: cfb_cipher aes128_encrypt_block "\<lambda>k. length k = 16"
proof
  fix k b :: "byte list"
  show "length k = 16 \<Longrightarrow> length b = 16 \<Longrightarrow> \<exists>ks. aes128_encrypt_block k b = Inr ks \<and> length ks = 16"
    by (rule aes128_block_length)
  show "length k \<noteq> 16 \<Longrightarrow> length b = 16 \<Longrightarrow> aes128_encrypt_block k b = Inl ValueError"
    by (simp add: aes128_encrypt_block_def expand_key_def)
qed

lemma cfb_encrypt_returns:
  "length key = 16 \<Longrightarrow> length iv = 16 \<Longrightarrow>
     \<exists>ct. aes128_cfb_encrypt key iv pt = Inr ct \<and> length ct = length pt"
  by (simp add: aes128_cfb_encrypt_def aes_cfb.enc_loop_returns)

lemma cfb_decrypt_returns:
  "length key = 16 \<Longrightarrow> length iv = 16 \<Longrightarrow> \<exists>pt. aes128_cfb_decrypt key iv ct = Inr pt"
  by (simp add: aes128_cfb_decrypt_def aes_cfb.dec_loop_returns)

lemma cfb_decrypt_encrypt:
  "length key = 16 \<Longrightarrow> aes128_cfb_encrypt key iv pt = Inr ct \<Longrightarrow>
     aes128_cfb_decrypt key iv ct = Inr pt"
  by (auto simp: aes128_cfb_encrypt_def aes128_cfb_decrypt_def aes_cfb.dec_enc_loop
      split: if_splits)

lemma cfb_bad_key:
  "length key \<noteq> 16 \<Longrightarrow> length iv = 16 \<Longrightarrow> data \<noteq> [] \<Longrightarrow>
     aes128_cfb_encrypt key iv data = Inl ValueError \<and> aes128_cfb_decrypt key iv data = Inl ValueError"
  by (simp add: aes128_cfb_encrypt_def aes128_cfb_decrypt_def aes_cfb.loops_bad_key)

section \<open>The FIPS-197 example vector\<close>

text \<open>Appendix C.1 of FIPS-197, evaluated in two steps: the key schedule, then the cipher.\<close>

definition fips_key :: "byte list" where
  "fips_key = [0,1,2,3,4,5,6,7,8,9,10,11,12,13,14,15]"

definition fips_block :: "byte list" where
  "fips_block = [0x00,0x11,0x22,0x33,0x44,0x55,0x66,0x77,0x88,0x99,0xaa,0xbb,0xcc,0xdd,0xee,0xff]"

lemma fips_lengths: "length fips_key = 16" "length fips_block = 16"
  by (simp_all add: fips_key_def fips_block_def)

lemma fips_key_schedule:
  "expand_words fips_key = [
   [0x00,0x01,0x02,0x03], [0x04,0x05,0x06,0x07], [0x08,0x09,0x0a,0x0b], [0x0c,0x0d,0x0e,0x0f],
   [0xd6,0xaa,0x74,0xfd], [0xd2,0xaf,0x72,0xfa], [0xda,0xa6,0x78,0xf1], [0xd6,0xab,0x76,0xfe],
   [0xb6,0x92,0xcf,0x0b], [0x64,0x3d,0xbd,0xf1], [0xbe,0x9b,0xc5,0x00], [0x68,0x30,0xb3,0xfe],
   [0xb6,0xff,0x74,0x4e], [0xd2,0xc2,0xc9,0xbf], [0x6c,0x59,0x0c,0xbf], [0x04,0x69,0xbf,0x41],
   [0x47,0xf7,0xf7,0xbc], [0x95,0x35,0x3e,0x03], [0xf9,0x6c,0x32,0xbc], [0xfd,0x05,0x8d,0xfd],
   [0x3c,0xaa,0xa3,0xe8], [0xa9,0x9f,0x9d,0xeb], [0x50,0xf3,0xaf,0x57], [0xad,0xf6,0x22,0xaa],
   [0x5e,0x39,0x0f,0x7d], [0xf7,0xa6,0x92,0x96], [0xa7,0x55,0x3d,0xc1], [0x0a,0xa3,0x1f,0x6b],
   [0x14,0xf9,0x70,0x1a], [0xe3,0x5f,0xe2,0x8c], [0x44,0x0a,0xdf,0x4d], [0x4e,0xa9,0xc0,0x26],
   [0x47,0x43,0x87,0x35], [0xa4,0x1c,0x65,0xb9], [0xe0,0x16,0xba,0xf4], [0xae,0xbf,0x7a,0xd2],
   [0x54,0x99,0x32,0xd1], [0xf0,0x85,0x57,0x68], [0x10,0x93,0xed,0x9c], [0xbe,0x2c,0x97,0x4e],
   [0x13,0x11,0x1d,0x7f], [0xe3,0x94,0x4a,0x17], [0xf3,0x07,0xa7,0x8b], [0x4d,0x2b,0x30,0xc5]]"
  by (simp add: fips_key_def expand_words_def key_words_def next_word_def sbox_def SBOX_def RCON_def
      upt_rec)

definition fips_round_keys :: "byte list list" where
  "fips_round_keys = [
    [0x00,0x01,0x02,0x03,0x04,0x05,0x06,0x07,0x08,0x09,0x0a,0x0b,0x0c,0x0d,0x0e,0x0f],
    [0xd6,0xaa,0x74,0xfd,0xd2,0xaf,0x72,0xfa,0xda,0xa6,0x78,0xf1,0xd6,0xab,0x76,0xfe],
    [0xb6,0x92,0xcf,0x0b,0x64,0x3d,0xbd,0xf1,0xbe,0x9b,0xc5,0x00,0x68,0x30,0xb3,0xfe],
    [0xb6,0xff,0x74,0x4e,0xd2,0xc2,0xc9,0xbf,0x6c,0x59,0x0c,0xbf,0x04,0x69,0xbf,0x41],
    [0x47,0xf7,0xf7,0xbc,0x95,0x35,0x3e,0x03,0xf9,0x6c,0x32,0xbc,0xfd,0x05,0x8d,0xfd],
    [0x3c,0xaa,0xa3,0xe8,0xa9,0x9f,0x9d,0xeb,0x50,0xf3,0xaf,0x57,0xad,0xf6,0x22,0xaa],
    [0x5e,0x39,0x0f,0x7d,0xf7,0xa6,0x92,0x96,0xa7,0x55,0x3d,0xc1,0x0a,0xa3,0x1f,0x6b],
    [0x14,0xf9,0x70,0x1a,0xe3,0x5f,0xe2,0x8c,0x44,0x0a,0xdf,0x4d,0x4e,0xa9,0xc0,0x26],
    [0x47,0x43,0x87,0x35,0xa4,0x1c,0x65,0xb9,0xe0,0x16,0xba,0xf4,0xae,0xbf,0x7a,0xd2],
    [0x54,0x99,0x32,0xd1,0xf0,0x85,0x57,0x68,0x10,0x93,0xed,0x9c,0xbe,0x2c,0x97,0x4e],
    [0x13,0x11,0x1d,0x7f,0xe3,0x94,0x4a,0x17,0xf3,0x07,0xa7,0x8b,0x4d,0x2b,0x30,0xc5]]"

lemma fips_expand_key: "expand_key fips_key = Inr fips_round_keys"
proof -
  have "length fips_key = 16" by (simp add: fips_key_def)
  then show ?thesis
    by (simp add: expand_key_def fips_key_schedule round_key_def fips_round_keys_def upt_rec)
qed

lemma fips_rounds:
  "add_round_key (fips_round_keys ! 0) (to_state fips_block) =
    [[0x00,0x40,0x80,0xc0], [0x10,0x50,0x90,0xd0], [0x20,0x60,0xa0,0xe0], [0x30,0x70,0xb0,0xf0]]"
  "aes_round fips_round_keys
    [[0x00,0x40,0x80,0xc0], [0x10,0x50,0x90,0xd0], [0x20,0x60,0xa0,0xe0], [0x30,0x70,0xb0,0xf0]] 1 =
    [[0x89,0x85,0x2d,0xcb], [0xd8,0x5a,0x18,0x12], [0x10,0xce,0x43,0x8f], [0xe8,0x68,0xd8,0xe4]]"
  "aes_round fips_round_keys
    [[0x89,0x85,0x2d,0xcb], [0xd8,0x5a,0x18,0x12], [0x10,0xce,0x43,0x8f], [0xe8,0x68,0xd8,0xe4]] 2 =
    [[0x49,0x55,0xda,0x1f], [0x15,0xe5,0xca,0x0a], [0x59,0xd7,0x94,0x63], [0x8f,0xa0,0xfa,0xf7]]"
  "aes_round fips_round_keys
    [[0x49,0x55,0xda,0x1f], [0x15,0xe5,0xca,0x0a], [0x59,0xd7,0x94,0x63], [0x8f,0xa0,0xfa,0xf7]] 3 =
    [[0xfa,0x25,0x40,0x57], [0x63,0xb3,0x66,0x24], [0x6a,0x39,0x8a,0x4d], [0x28,0xc9,0x31,0x17]]"
  "aes_round fips_round_keys
    [[0xfa,0x25,0x40,0x57], [0x63,0xb3,0x66,0x24], [0x6a,0x39,0x8a,0x4d], [0x28,0xc9,0x31,0x17]] 4 =
    [[0x24,0x69,0x6e,0x88], [0x72,0x66,0xd2,0x42], [0x40,0xb3,0x75,0x5b], [0x23,0xfa,0x32,0x6c]]"
  "aes_round fips_round_keys
    [[0x24,0x69,0x6e,0x88], [0x72,0x66,0xd2,0x42], [0x40,0xb3,0x75,0x5b], [0x23,0xfa,0x32,0x6c]] 5 =
    [[0xc8,0x9b,0x25,0xb0], [0x16,0x7a,0x02,0x26], [0x77,0xc9,0x79,0x19], [0xbc,0x3b,0x92,0x96]]"
  "aes_round fips_round_keys
    [[0xc8,0x9b,0x25,0xb0], [0x16,0x7a,0x02,0x26], [0x77,0xc9,0x79,0x19], [0xbc,0x3b,0x92,0x96]] 6 =
    [[0xc6,0xf7,0xcc,0x84], [0x2f,0x5e,0x79,0xf9], [0xe1,0xed,0x39,0xcf], [0x09,0xc3,0x5d,0x5d]]"
  "aes_round fips_round_keys
    [[0xc6,0xf7,0xcc,0x84], [0x2f,0x5e,0x79,0xf9], [0xe1,0xed,0x39,0xcf], [0x09,0xc3,0x5d,0x5d]] 7 =
    [[0xd1,0x79,0xb4,0xd6], [0x87,0xc4,0x55,0x6f], [0x6c,0x30,0x94,0xf4], [0x0f,0x0a,0xad,0x1f]]"
  "aes_round fips_round_keys
    [[0xd1,0x79,0xb4,0xd6], [0x87,0xc4,0x55,0x6f], [0x6c,0x30,0x94,0xf4], [0x0f,0x0a,0xad,0x1f]] 8 =
    [[0xfd,0x05,0x35,0xf1], [0xe3,0xe5,0x47,0xfe], [0xba,0xd0,0x96,0x37], [0xd2,0xd7,0x4e,0xf1]]"
  "aes_round fips_round_keys
    [[0xfd,0x05,0x35,0xf1], [0xe3,0xe5,0x47,0xfe], [0xba,0xd0,0x96,0x37], [0xd2,0xd7,0x4e,0xf1]] 9 =
    [[0xbd,0xf2,0x0b,0x8b], [0x6e,0xb5,0x61,0x10], [0x7c,0x77,0x21,0xb6], [0x3d,0x9e,0x6e,0x89]]"
  "aes_round fips_round_keys
    [[0xbd,0xf2,0x0b,0x8b], [0x6e,0xb5,0x61,0x10], [0x7c,0x77,0x21,0xb6], [0x3d,0x9e,0x6e,0x89]] 10 =
    [[0x69,0x6a,0xd8,0x70], [0xc4,0x7b,0xcd,0xb4], [0xe0,0x04,0xb7,0xc5], [0xd8,0x30,0x80,0x5a]]"
  by (simp_all add: fips_block_def fips_round_keys_def to_state_def aes_round_def shift_rows_def
      sub_bytes_def sbox_def SBOX_def upt_rec mix_columns_def mix_column_def xtime_def add_round_key_def)

text \<open>On the example vector of FIPS-197 (appendix C.1) the block cipher returns the
  published ciphertext.\<close>

theorem fips_cipher:
  "aes128_encrypt_block fips_key fips_block =
     Inr [0x69,0xc4,0xe0,0xd8,0x6a,0x7b,0x04,0x30,0xd8,0xcd,0xb7,0x80,0x70,0xb4,0xc5,0x5a]"
proof -
  have len: "length fips_block = 16" by (simp add: fips_block_def)
  have upt: "[1..<11] = [1,2,3,4,5,6,7,8,9,10::nat]" by (simp add: upt_rec)
  have rounds: "foldl (aes_round fips_round_keys)
      (add_round_key (fips_round_keys ! 0) (to_state fips_block)) [1..<11] =
      [[0x69,0x6a,0xd8,0x70], [0xc4,0x7b,0xcd,0xb4], [0xe0,0x04,0xb7,0xc5], [0xd8,0x30,0x80,0x5a]]"
    by (simp only: upt foldl.simps fips_rounds)
  show ?thesis
    by (simp only: aes128_encrypt_block_def len fips_expand_key bindR.simps rounds)
      (simp add: from_state_def upt_rec)
qed

section \<open>Properties\<close>

text \<open>For every 16-byte key and 16-byte IV, CFB encryption of any plaintext (of any length,
  a last short segment included) returns a ciphertext of the same length, and decrypting it with
  the same key and IV returns the plaintext.\<close>

theorem cfb_round_trip:
  assumes "length key = 16" "length iv = 16"
  shows "\<exists>ct. aes128_cfb_encrypt key iv pt = Inr ct \<and> length ct = length pt \<and>
    aes128_cfb_decrypt key iv ct = Inr pt"
  using cfb_encrypt_returns [OF assms] cfb_decrypt_encrypt [OF assms(1)] by blast

theorem cfb_round_trip_witness:
  "\<exists>ct. aes128_cfb_encrypt fips_key fips_block [1, 2, 3] = Inr ct \<and> length ct = 3 \<and>
    aes128_cfb_decrypt fips_key fips_block ct = Inr [1, 2, 3]"
  using cfb_round_trip [OF fips_lengths, of "[1, 2, 3]"] by (simp add: numeral_3_eq_3)

text \<open>For every 16-byte key the block cipher is a permutation of the 16-byte blocks: each
  16-byte block is the ciphertext of exactly one block.\<close>

theorem aes_block_permutation:
  assumes "length key = 16" "length c = 16"
  shows "\<exists>!b. aes128_encrypt_block key b = Inr c"
proof -
  define f where "f b = projr (aes128_encrypt_block key b)" for b
  define B where "B = {b :: byte list. length b = 16}"
  have enc: "aes128_encrypt_block key b = Inr (f b)" "f b \<in> B" if "b \<in> B" for b
    using aes128_block_length [OF assms(1), of b] that by (auto simp: f_def B_def)
  have "inj_on f B"
    using enc(1) aes128_encrypt_block_inj by (metis inj_onI)
  moreover have "finite B" using finite_lists_length_eq [of "UNIV :: byte set"] by (simp add: B_def)
  moreover have "f ` B \<subseteq> B" using enc(2) by blast
  ultimately have "f ` B = B" by (metis endo_inj_surj)
  with assms(2) obtain b where "b \<in> B" "c = f b" by (auto simp: B_def)
  with enc(1) have "aes128_encrypt_block key b = Inr c" by simp
  then show ?thesis by (blast intro: aes128_encrypt_block_inj)
qed

theorem aes_block_permutation_witness:
  "\<exists>!b. aes128_encrypt_block fips_key b = Inr fips_block"
  by (rule aes_block_permutation [OF fips_lengths])

text \<open>The exact error behaviour of the two CFB operations: \<open>ValueError\<close> for an IV
  that is not 16 bytes, and for a key that is not 16 bytes as soon as there is data to process
  (with empty data the key is never looked at); no other error.\<close>

theorem cfb_errors:
  "(aes128_cfb_encrypt key iv data = Inl e \<longleftrightarrow>
      e = ValueError \<and> \<not> (length iv = 16 \<and> (length key = 16 \<or> data = []))) \<and>
   (aes128_cfb_decrypt key iv data = Inl e \<longleftrightarrow>
      e = ValueError \<and> \<not> (length iv = 16 \<and> (length key = 16 \<or> data = [])))"
proof (cases "length iv = 16 \<and> data \<noteq> []")
  case True
  then show ?thesis
    using cfb_encrypt_returns [of key iv data] cfb_decrypt_returns [of key iv data]
      cfb_bad_key [of key iv data] by (cases "length key = 16") auto
next
  case False
  then show ?thesis
    by (auto simp: aes128_cfb_encrypt_def aes128_cfb_decrypt_def)
qed

end
