(* ===== verification/Asn1.thy ===== *)
theory Asn1
  imports Prelude
begin

text \<open>
  Model of \<open>ingest/asn1.py\<close>, the BER encoder and decoder of the SNMPv3 subset. A
  Python \<open>bytes\<close> value is a \<open>byte list\<close>; decoding returns the tag, the value
  bytes and the next offset, or the exception. The digit loop of \<open>_base128\<close> does not
  end for a negative arc (shifting a negative Python int right stays at \<open>-1\<close>), so it is a
  \<open>partial_function\<close> whose value is then \<open>None\<close>.

  Lengths: \<open>encode_length\<close> is right below \<open>256 ^ 127\<close> bytes, the hypothesis of
  the round trips (a longer body would need more than 127 length octets).
\<close>

section \<open>Tags\<close>

definition INTEGER :: byte where "INTEGER = 0x02"
definition OCTET_STRING :: byte where "OCTET_STRING = 0x04"
definition NULL :: byte where "NULL = 0x05"
definition OBJECT_IDENTIFIER :: byte where "OBJECT_IDENTIFIER = 0x06"
definition SEQUENCE :: byte where "SEQUENCE = 0x30"
definition IP_ADDRESS :: byte where "IP_ADDRESS = 0x40"
definition COUNTER32 :: byte where "COUNTER32 = 0x41"
definition GAUGE32 :: byte where "GAUGE32 = 0x42"
definition TIME_TICKS :: byte where "TIME_TICKS = 0x43"
definition OPAQUE :: byte where "OPAQUE = 0x44"
definition COUNTER64 :: byte where "COUNTER64 = 0x46"
definition NO_SUCH_OBJECT :: byte where "NO_SUCH_OBJECT = 0x80"
definition NO_SUCH_INSTANCE :: byte where "NO_SUCH_INSTANCE = 0x81"
definition END_OF_MIB_VIEW :: byte where "END_OF_MIB_VIEW = 0x82"
definition GET_REQUEST :: byte where "GET_REQUEST = 0xA0"
definition GET_NEXT_REQUEST :: byte where "GET_NEXT_REQUEST = 0xA1"
definition GET_RESPONSE :: byte where "GET_RESPONSE = 0xA2"

lemmas tag_defs = INTEGER_def OCTET_STRING_def NULL_def OBJECT_IDENTIFIER_def SEQUENCE_def
  IP_ADDRESS_def COUNTER32_def GAUGE32_def TIME_TICKS_def OPAQUE_def COUNTER64_def
  NO_SUCH_OBJECT_def NO_SUCH_INSTANCE_def END_OF_MIB_VIEW_def
  GET_REQUEST_def GET_NEXT_REQUEST_def GET_RESPONSE_def

section \<open>Encoding\<close>

definition encode_length :: "nat \<Rightarrow> byte list" where
  "encode_length n =
     (if n < 0x80 then [word_of_nat n]
      else (let body = to_be (byte_size n) n in word_of_nat (0x80 OR length body) # body))"

definition tlv :: "byte \<Rightarrow> byte list \<Rightarrow> byte list" where
  "tlv tag body = [tag] @ encode_length (length body) @ body"

definition int_body :: "int \<Rightarrow> byte list" where
  "int_body v =
     (if v = 0 then [0]
      else if v > 0 then
        (let body = to_be (byte_size (nat v)) (nat v)
         in if hd body AND 0x80 \<noteq> 0 then 0 # body else body)
      else
        (let len = (bit_length (nat (- v)) + 8) div 8
         in to_be len (nat (v mod 256 ^ len))))"

definition enc_int :: "int \<Rightarrow> byte list" where
  "enc_int v = tlv INTEGER (int_body v)"

definition enc_oct :: "byte list \<Rightarrow> byte list" where
  "enc_oct v = tlv OCTET_STRING v"

definition enc_null :: "byte list" where
  "enc_null = tlv NULL []"

definition enc_seq :: "byte list list \<Rightarrow> byte list" where
  "enc_seq items = tlv SEQUENCE (concat items)"

text \<open>The digit loop of \<open>_base128\<close>; \<open>out\<close> is kept most significant digit first, so the
  code's final \<open>reverse\<close> is already done.\<close>

partial_function (option) base128_loop :: "int \<Rightarrow> nat list \<Rightarrow> nat list option" where
  "base128_loop v out =
     (if v = 0 then Some out else base128_loop (v div 128) (nat (v mod 128) # out))"

definition mark_groups :: "nat list \<Rightarrow> nat list" where
  "mark_groups gs = map (\<lambda>g. g OR 0x80) (butlast gs) @ [last gs]"

definition base128 :: "int \<Rightarrow> byte list result" where
  "base128 v =
     (if v = 0 then Inr [0]
      else (case base128_loop v [] of None \<Rightarrow> Inl Diverges
            | Some gs \<Rightarrow> Inr (map word_of_nat (mark_groups gs))))"

definition oid_parts :: "string \<Rightarrow> int list result" where
  "oid_parts oid = mapR int_of_str
     (filter (\<lambda>p. p \<noteq> []) (split_on (CHR ''.'') (strip_char (CHR ''.'') oid)))"

definition enc_oid :: "string \<Rightarrow> byte list result" where
  "enc_oid oid = bindR (oid_parts oid) (\<lambda>parts.
     if length parts < 2 then Inl BERError
     else bindR (base128 (40 * parts ! 0 + parts ! 1)) (\<lambda>first.
       bindR (mapR base128 (drop 2 parts)) (\<lambda>rest.
         Inr (tlv OBJECT_IDENTIFIER (first @ concat rest)))))"

definition enc_request_pdu :: "byte \<Rightarrow> int \<Rightarrow> string list \<Rightarrow> byte list result" where
  "enc_request_pdu tag request_id oids =
     bindR (mapR (\<lambda>oid. bindR (enc_oid oid) (\<lambda>e. Inr (enc_seq [e, enc_null]))) oids) (\<lambda>varbinds.
       Inr (tlv tag (enc_int request_id @ enc_int 0 @ enc_int 0 @ enc_seq varbinds)))"

section \<open>Decoding\<close>

definition decode :: "byte list \<Rightarrow> nat \<Rightarrow> (byte \<times> byte list \<times> nat) result" where
  "decode buf offset =
     (if length buf \<le> offset then Inl BERError
      else if length buf \<le> offset + 1 then Inl IndexError
      else
        (let tag = buf ! offset; len0 = buf ! (offset + 1); off = offset + 2 in
         bindR (if len0 AND 0x80 \<noteq> 0 then
                  (let n = unat (len0 AND 0x7F) in
                   if n = 0 then Inl BERError
                   else Inr (from_be (take n (drop off buf)), off + n))
                else Inr (unat len0, off))
           (\<lambda>(len, off'). if off' + len > length buf then Inl BERError
              else Inr (tag, take len (drop off' buf), off' + len))))"

lemma decode_progress: "decode buf off = Inr (t, v, off') \<Longrightarrow> off + 2 \<le> off' \<and> off' \<le> length buf"
  by (auto simp: decode_def bindR_eq_Inr Let_def split: if_splits)

function decode_children_from :: "byte list \<Rightarrow> nat \<Rightarrow> (byte \<times> byte list) list result" where
  "decode_children_from value offset =
     (if length value \<le> offset then Inr []
      else bindR (decode value offset) (\<lambda>(tag, v, off').
             bindR (decode_children_from value off') (\<lambda>rest. Inr ((tag, v) # rest))))"
  by pat_completeness auto
termination
  by (relation "measure (\<lambda>(value, offset). length value - offset)") (auto dest: decode_progress)

declare decode_children_from.simps [simp del]

definition decode_children :: "byte list \<Rightarrow> (byte \<times> byte list) list result" where
  "decode_children value = decode_children_from value 0"

definition parse_uint :: "byte list \<Rightarrow> nat" where
  "parse_uint bs = (if bs \<noteq> [] then from_be bs else 0)"

definition parse_int :: "byte list \<Rightarrow> int" where
  "parse_int bs =
     (if bs = [] then 0
      else if bs ! 0 AND 0x80 \<noteq> 0 then int (from_be bs) - 2 ^ (8 * length bs)
      else int (from_be bs))"

definition oid_step :: "nat list \<times> nat \<Rightarrow> byte \<Rightarrow> nat list \<times> nat" where
  "oid_step st b =
     (let acc = snd st * 128 OR unat (b AND 0x7F)
      in if b AND 0x80 = 0 then (fst st @ [acc], 0) else (fst st, acc))"

definition oid_groups :: "byte list \<Rightarrow> nat list" where
  "oid_groups bs = fst (foldl oid_step ([], 0) bs)"

definition oid_arcs :: "nat list \<Rightarrow> nat list" where
  "oid_arcs groups =
     (case groups of [] \<Rightarrow> []
      | first # rest \<Rightarrow> (let a = min (first div 40) 2 in a # (first - 40 * a) # rest))"

definition dotted :: "nat list \<Rightarrow> string" where
  "dotted arcs = join ''.'' (map str_of_nat arcs)"

definition parse_oid :: "byte list \<Rightarrow> string" where
  "parse_oid bs = dotted (oid_arcs (oid_groups bs))"

subsection \<open>Varbind values\<close>

datatype snmp_value = VNone | VInt int | VStr string

text \<open>\<open>bytes.decode("utf-8")\<close> succeeds on the well-formed sequences of the Unicode standard
  (no overlong forms, no surrogates, at most \<open>U+10FFFF\<close>).\<close>

definition utf8_cont :: "nat \<Rightarrow> bool" where
  "utf8_cont b = (0x80 \<le> b \<and> b \<le> 0xBF)"

fun utf8_ok :: "nat list \<Rightarrow> bool" where
  "utf8_ok [] = True"
| "utf8_ok (a # r) =
     (if a < 0x80 then utf8_ok r
      else (case r of [] \<Rightarrow> False
        | b # r1 \<Rightarrow>
          if 0xC2 \<le> a \<and> a \<le> 0xDF then utf8_cont b \<and> utf8_ok r1
          else (case r1 of [] \<Rightarrow> False
            | c # r2 \<Rightarrow>
              if 0xE0 \<le> a \<and> a \<le> 0xEF then
                utf8_cont b \<and> (a = 0xE0 \<longrightarrow> 0xA0 \<le> b) \<and> (a = 0xED \<longrightarrow> b \<le> 0x9F) \<and>
                utf8_cont c \<and> utf8_ok r2
              else (case r2 of [] \<Rightarrow> False
                | d # r3 \<Rightarrow>
                  0xF0 \<le> a \<and> a \<le> 0xF4 \<and> utf8_cont b \<and> (a = 0xF0 \<longrightarrow> 0x90 \<le> b) \<and>
                  (a = 0xF4 \<longrightarrow> b \<le> 0x8F) \<and> utf8_cont c \<and> utf8_cont d \<and> utf8_ok r3))))"

definition hex_digit :: "nat \<Rightarrow> char" where
  "hex_digit d = (if d < 10 then char_of (48 + d) else char_of (87 + d))"

definition bytes_hex :: "byte list \<Rightarrow> string" where
  "bytes_hex bs = concat (map (\<lambda>b. [hex_digit (unat b div 16), hex_digit (unat b mod 16)]) bs)"

definition bytes_str :: "byte list \<Rightarrow> string" where
  "bytes_str bs = map (\<lambda>b. char_of (unat b)) bs"

definition str_bytes :: "string \<Rightarrow> byte list" where
  "str_bytes s = map (\<lambda>c. word_of_nat (of_char c)) s"

definition decode_value :: "byte \<Rightarrow> byte list \<Rightarrow> snmp_value" where
  "decode_value tag value =
     (if tag = NO_SUCH_OBJECT then VStr ''noSuchObject''
      else if tag = NO_SUCH_INSTANCE then VStr ''noSuchInstance''
      else if tag = END_OF_MIB_VIEW then VStr ''endOfMibView''
      else if tag \<in> {INTEGER, COUNTER32, GAUGE32, TIME_TICKS, COUNTER64} then
        VInt (if tag = INTEGER then parse_int value else int (parse_uint value))
      else if tag = OBJECT_IDENTIFIER then VStr (parse_oid value)
      else if tag = IP_ADDRESS then VStr (dotted (map unat value))
      else if tag = OCTET_STRING \<or> tag = OPAQUE then
        (if utf8_ok (map unat value) then VStr (bytes_str value) else VStr (bytes_hex value))
      else if tag = NULL then VNone
      else VStr (bytes_hex value))"

section \<open>One TLV\<close>

lemma or128' [byte_simps]: "k < 128 \<Longrightarrow> 128 OR k = k + (128 :: nat)"
  by (simp add: or128 or.commute)

lemma unat_byte [simp]: "n < 256 \<Longrightarrow> unat (word_of_nat n :: byte) = n"
  by (simp add: unat_of_nat)

lemma unat_byte128 [simp]: "n < 128 \<Longrightarrow> unat (word_of_nat n + 128 :: byte) = n + 128"
  using unat_byte [of "n + 128"] by simp

lemma msb8_iff [byte_simps]: "(b :: byte) AND 0x80 = 0 \<longleftrightarrow> unat b < 128"
  using msb8 [of b] by auto

text \<open>The bodies whose length the long form can state.\<close>

definition fits :: "byte list \<Rightarrow> bool" where
  "fits body = (length body < 256 ^ 127)"

lemma decode_tlv:
  assumes "fits body"
  shows "decode (pre @ tlv tag body @ post) (length pre) =
    Inr (tag, body, length pre + length (tlv tag body))"
proof (cases "length body < 128")
  case True
  then show ?thesis
    by (simp add: decode_def tlv_def encode_length_def nth_append byte_simps)
next
  case False
  define k where "k = byte_size (length body)"
  have k: "0 < k" "k < 128"
    using False byte_size_pos [of "length body"] byte_size_least [OF assms [unfolded fits_def]]
    unfolding k_def by linarith+
  have "from_be (to_be k (length body)) = length body" by (simp add: k_def)
  with k False show ?thesis
    by (simp add: decode_def tlv_def encode_length_def nth_append byte_simps Let_def
        flip: k_def)
qed

lemma length_tlv_ge: "2 \<le> length (tlv tag body)"
  by (simp add: tlv_def encode_length_def Let_def)

lemma decode_children_from_tlvs:
  assumes "\<And>t v. (t, v) \<in> set xs \<Longrightarrow> fits v"
  shows "decode_children_from (pre @ concat (map (\<lambda>(t, v). tlv t v) xs)) (length pre) = Inr xs"
  using assms
proof (induction xs arbitrary: pre)
  case (Cons x xs)
  obtain t v where x: "x = (t, v)" by (cases x)
  let ?rest = "concat (map (\<lambda>(t, v). tlv t v) xs)"
  have 1: "decode (pre @ tlv t v @ ?rest) (length pre) = Inr (t, v, length pre + length (tlv t v))"
    using Cons.prems [of t v] x by (intro decode_tlv) simp
  have 2: "decode_children_from ((pre @ tlv t v) @ ?rest) (length (pre @ tlv t v)) = Inr xs"
    using Cons.prems by (intro Cons.IH) auto
  have "\<not> length (pre @ tlv t v @ ?rest) \<le> length pre"
    using length_tlv_ge [of t v] by (simp only: length_append)
  with 1 2 show ?case
    by (subst decode_children_from.simps) (simp add: x)
qed (simp add: decode_children_from.simps)

lemma decode_children_tlvs:
  assumes "\<And>t v. (t, v) \<in> set xs \<Longrightarrow> fits v"
  shows "decode_children (concat (map (\<lambda>(t, v). tlv t v) xs)) = Inr xs"
  using decode_children_from_tlvs [of xs "[]"] assms by (simp add: decode_children_def)

section \<open>Integers\<close>

lemma from_be_zero_Cons [simp]: "from_be (0 # bs) = from_be bs"
  by (simp add: from_be_Cons)

lemma to_be_eq_Nil [simp]: "to_be k n = [] \<longleftrightarrow> k = 0"
  using length_to_be [of k n] by (metis length_0_conv)

lemma parse_int_pos: "0 < v \<Longrightarrow> parse_int (int_body v) = v"
proof -
  assume v: "0 < v"
  let ?b = "to_be (byte_size (nat v)) (nat v)"
  have ne: "?b \<noteq> []" using v byte_size_pos [of "nat v"] by simp
  then have h: "?b ! 0 = hd ?b" by (simp add: hd_conv_nth)
  show ?thesis
    using v ne by (simp add: parse_int_def int_body_def Let_def h)
qed

lemma parse_int_neg: "v < 0 \<Longrightarrow> parse_int (int_body v) = v"
proof -
  assume v: "v < 0"
  define w where "w = nat (- v)"
  define k where "k = (bit_length w + 8) div 8 - 1"
  define m where "m = nat (v mod 256 ^ Suc k)"
  have len: "(bit_length w + 8) div 8 = Suc k" by (simp add: k_def)
  have "bit_length w \<le> 8 * k + 7" using len by simp
  then have "(2 :: nat) ^ bit_length w \<le> 2 ^ (8 * k + 7)" by (intro power_increasing) auto
  also have "\<dots> = 128 * 256 ^ k" by (simp only: power_add power_mult) simp
  finally have w: "w < 128 * 256 ^ k" using bit_length_upper [of w] by simp
  have w': "0 < w" "v = - int w" using v by (auto simp: w_def)
  have m: "int m = 256 ^ Suc k - int w"
  proof -
    have "v mod 256 ^ Suc k = (v + 256 ^ Suc k) mod 256 ^ Suc k" by simp
    also have "\<dots> = v + 256 ^ Suc k"
    proof (rule mod_pos_pos_trivial)
      have "int w < int (128 * 256 ^ k)" using w by (simp only: of_nat_less_iff)
      then show "0 \<le> v + 256 ^ Suc k" using w'(2) by simp
    qed (use v in simp)
    finally have "v mod 256 ^ Suc k = v + 256 ^ Suc k" .
    moreover have "int w < int (256 * 256 ^ k)" using w by (simp only: of_nat_less_iff)
    ultimately show ?thesis using w' by (simp add: m_def)
  qed
  have mk: "m div 256 ^ k < 256" "128 \<le> m div 256 ^ k"
  proof -
    have "int m < int (256 * 256 ^ k)" using m w' by simp
    then have "m < 256 * 256 ^ k" by (simp only: of_nat_less_iff)
    then show "m div 256 ^ k < 256" by (simp add: less_mult_imp_div_less mult.commute)
    have "int (128 * 256 ^ k) \<le> int m" using m w by (simp flip: of_nat_less_iff [where 'a = int])
    then have "128 * 256 ^ k \<le> m" by (simp only: of_nat_le_iff)
    then show "128 \<le> m div 256 ^ k" by (simp add: less_eq_div_iff_mult_less_eq)
  qed
  have b: "int_body v = to_be (Suc k) m"
    using v len by (simp add: int_body_def Let_def m_def flip: w_def)
  have hd: "to_be (Suc k) m ! 0 AND 0x80 \<noteq> 0"
    unfolding to_be_Cons using mk by (simp add: byte_simps)
  have "int m < 256 ^ Suc k" using m w' by simp
  then have "m < 256 ^ Suc k" by (simp flip: of_nat_less_iff [where 'a = int])
  then have "from_be (to_be (Suc k) m) = m" by (simp only: from_be_to_be mod_less)
  moreover have "(2 :: int) ^ (8 * Suc k) = 256 ^ Suc k" by (simp only: power_mult) simp
  moreover have "to_be (Suc k) m \<noteq> []" by simp
  ultimately show ?thesis
    using hd m w' unfolding parse_int_def b length_to_be by simp
qed

lemma parse_int_body: "parse_int (int_body v) = v"
proof (cases v "0 :: int" rule: linorder_cases)
  case equal
  then show ?thesis by (simp add: int_body_def parse_int_def byte_simps)
qed (simp_all add: parse_int_pos parse_int_neg)

section \<open>Object identifiers\<close>

fun groups128 :: "nat \<Rightarrow> nat list" where
  "groups128 n = (if n = 0 then [] else groups128 (n div 128) @ [n mod 128])"

declare groups128.simps [simp del]

lemma base128_loop_nat: "base128_loop (int n) out = Some (groups128 n @ out)"
proof (induction n arbitrary: out rule: groups128.induct)
  case (1 n)
  have "int n div 128 = int (n div 128)" "nat (int n mod 128) = n mod 128"
    by (simp_all add: zdiv_int nat_mod_distrib)
  with 1 show ?case
    by (subst base128_loop.simps, subst groups128.simps) simp
qed

lemma base128_loop_Some_nonneg:
  assumes "base128_loop v out = Some r"
  shows "0 \<le> v"
proof (rule base128_loop.raw_induct [OF _ assms])
  fix f :: "int \<Rightarrow> nat list \<Rightarrow> nat list option" and w o' y
  assume ih: "\<And>w o' y. f w o' = Some y \<Longrightarrow> 0 \<le> w"
    and st: "(if w = 0 then Some o' else f (w div 128) (nat (w mod 128) # o')) = Some y"
  show "0 \<le> w"
  proof (cases "w = 0")
    case False
    with st have "f (w div 128) (nat (w mod 128) # o') = Some y" by simp
    then have "0 \<le> w div 128" by (rule ih)
    then show ?thesis by simp
  qed simp
qed

lemma base128_negative: "v < 0 \<Longrightarrow> base128 v = Inl Diverges"
  using base128_loop_Some_nonneg [of v "[]"]
  by (cases "base128_loop v []") (auto simp: base128_def)

lemma groups128_lt: "g \<in> set (groups128 n) \<Longrightarrow> g < 128"
proof (induction n rule: groups128.induct)
  case (1 n)
  then show ?case by (subst (asm) (2) groups128.simps) (auto split: if_splits)
qed

lemma groups128_value: "foldl (\<lambda>a g. a * 128 + g) 0 (groups128 n) = n"
proof (induction n rule: groups128.induct)
  case (1 n)
  then show ?case by (subst groups128.simps) auto
qed

lemma groups128_ne: "0 < n \<Longrightarrow> groups128 n \<noteq> []"
  by (subst groups128.simps) simp

lemma shift_or: "g < 128 \<Longrightarrow> a * 128 OR g = a * 128 + (g :: nat)"
proof -
  assume g: "g < 128"
  have "(a * 128) AND g = 0"
  proof (rule bit_eqI)
    fix n
    have "bit (a * 128) n \<Longrightarrow> 7 \<le> n"
      using bit_push_bit_iff [of 7 a n] by (simp add: push_bit_eq_mult)
    moreover have "bit g n \<Longrightarrow> n < 7"
    proof (rule ccontr)
      assume "bit g n" "\<not> n < 7"
      moreover from this have "(2 :: nat) ^ 7 \<le> 2 ^ n" by (intro power_increasing) auto
      ultimately show False using g by (simp add: bit_iff_odd)
    qed
    ultimately show "bit ((a * 128) AND g) n \<longleftrightarrow> bit 0 n" by (auto simp: bit_and_iff)
  qed
  then show ?thesis using disjunctive_add_eq_or [of "a * 128" g] by simp
qed

lemma mark_groups_Cons [simp]:
  "mark_groups [g] = [g]"
  "mark_groups (g # h # gs) = (g OR 0x80) # mark_groups (h # gs)"
  by (simp_all add: mark_groups_def)

lemma oid_step_groups:
  assumes "gs \<noteq> []" "\<And>g. g \<in> set gs \<Longrightarrow> g < 128"
  shows "foldl oid_step (G, a) (map word_of_nat (mark_groups gs)) =
    (G @ [foldl (\<lambda>a g. a * 128 + g) a gs], 0)"
  using assms
proof (induction gs arbitrary: a rule: induct_list012)
  case (2 g)
  then show ?case by (simp add: oid_step_def Let_def byte_simps shift_or)
next
  case (3 g h gs)
  then have "g < 128" by simp
  then have "oid_step (G, a) (word_of_nat (g OR 0x80)) = (G, a * 128 + g)"
    by (simp add: oid_step_def Let_def byte_simps shift_or)
  with 3 show ?case by simp
qed simp

lemma base128_nat:
  "\<exists>bs. base128 (int n) = Inr bs \<and> (\<forall>G. foldl oid_step (G, 0) bs = (G @ [n], 0))"
proof (cases "n = 0")
  case True
  then show ?thesis by (simp add: base128_def oid_step_def Let_def byte_simps)
next
  case False
  then have "base128 (int n) = Inr (map word_of_nat (mark_groups (groups128 n)))"
    by (simp add: base128_def base128_loop_nat)
  moreover have "foldl oid_step (G, 0) (map word_of_nat (mark_groups (groups128 n))) = (G @ [n], 0)" for G
    using oid_step_groups [of "groups128 n" G 0] False
    by (simp add: groups128_ne groups128_lt groups128_value)
  ultimately show ?thesis by blast
qed

lemma base128_list:
  "\<exists>bss. mapR base128 (map int ns) = Inr bss \<and>
     (\<forall>G. foldl oid_step (G, 0) (concat bss) = (G @ ns, 0))"
proof (induction ns)
  case (Cons n ns)
  then show ?case using base128_nat [of n] by fastforce
qed simp

lemma dotted_edges:
  assumes "arcs \<noteq> []"
  shows "strip_char (CHR ''.'') (dotted arcs) = dotted arcs"
proof -
  have dg: "is_digit (hd (str_of_nat n)) \<and> is_digit (last (str_of_nat n))" for n
    using str_of_nat_digits hd_in_set last_in_set str_of_nat_ne by blast
  have hd: "dotted arcs \<noteq> [] \<and> is_digit (hd (dotted arcs)) \<and> is_digit (last (dotted arcs))"
    using assms
  proof (induction arcs rule: induct_list012)
    case (2 x)
    then show ?case by (simp add: dotted_def dg)
  next
    case (3 x y zs)
    then show ?case by (simp add: dotted_def dg)
  qed simp
  have dw: "s \<noteq> [] \<Longrightarrow> is_digit (hd s) \<Longrightarrow> dropWhile (\<lambda>x. x = CHR ''.'') s = s" for s
    using is_digit_not_dot by (cases s) auto
  show ?thesis using hd by (simp add: dw hd_rev)
qed

lemma oid_parts_dotted: "arcs \<noteq> [] \<Longrightarrow> oid_parts (dotted arcs) = Inr (map int arcs)"
proof -
  assume ne: "arcs \<noteq> []"
  have "split_on (CHR ''.'') (dotted arcs) = map str_of_nat arcs"
    unfolding dotted_def using ne str_of_nat_digits is_digit_not_dot
    by (intro split_on_join) auto
  moreover have "filter (\<lambda>p. p \<noteq> []) (map str_of_nat arcs) = map str_of_nat arcs"
    by (induction arcs) auto
  moreover have "mapR int_of_str (map str_of_nat arcs) = Inr (map int arcs)"
    by (induction arcs) auto
  ultimately show ?thesis by (simp only: oid_parts_def dotted_edges [OF ne])
qed

definition valid_arcs :: "nat list \<Rightarrow> bool" where
  "valid_arcs arcs = (2 \<le> length arcs \<and> arcs ! 0 \<le> 2 \<and> (arcs ! 0 < 2 \<longrightarrow> arcs ! 1 < 40))"

lemma enc_oid_parse_oid:
  assumes "valid_arcs arcs"
  shows "\<exists>body. enc_oid (dotted arcs) = Inr (tlv OBJECT_IDENTIFIER body) \<and>
    parse_oid body = dotted arcs"
proof -
  obtain a b r where arcs: "arcs = a # b # r"
    using assms unfolding valid_arcs_def by (cases arcs; cases "tl arcs") auto
  have ab: "a \<le> 2" "a < 2 \<longrightarrow> b < 40" using assms by (auto simp: valid_arcs_def arcs)
  obtain f where f: "base128 (int (40 * a + b)) = Inr f"
      "\<And>G. foldl oid_step (G, 0) f = (G @ [40 * a + b], 0)"
    using base128_nat by blast
  obtain bss where bss: "mapR base128 (map int r) = Inr bss"
      "\<And>G. foldl oid_step (G, 0) (concat bss) = (G @ r, 0)"
    using base128_list by blast
  have g: "oid_groups (f @ concat bss) = (40 * a + b) # r"
    by (simp add: oid_groups_def f bss)
  have "min ((40 * a + b) div 40) 2 = a"
    using ab by (cases "a = 2") (auto simp: min_def)
  then have "oid_arcs ((40 * a + b) # r) = arcs"
    by (simp add: oid_arcs_def Let_def arcs)
  then have "parse_oid (f @ concat bss) = dotted arcs"
    by (simp add: parse_oid_def g)
  moreover have "enc_oid (dotted arcs) = Inr (tlv OBJECT_IDENTIFIER (f @ concat bss))"
    using f(1) bss(1) by (simp add: enc_oid_def oid_parts_dotted arcs)
  ultimately show ?thesis by blast
qed

section \<open>Properties\<close>

lemma base128_Diverges_iff: "base128 v = Inl Diverges \<longleftrightarrow> v < 0"
proof (cases "v < 0")
  case False
  obtain bs where "base128 (int (nat v)) = Inr bs"
    using base128_nat [of "nat v"] by blast
  with False show ?thesis by simp
qed (simp add: base128_negative)

lemma decode_cases:
  assumes "off + 1 < length buf"
  obtains "decode buf off = Inl BERError"
  | len o' where "off + 2 \<le> o'" "o' + len \<le> length buf"
      "decode buf off = Inr (buf ! off, take len (drop o' buf), o' + len)"
proof -
  let ?b = "buf ! (off + 1)" and ?n = "unat (buf ! (off + 1) AND 0x7F)"
  let ?hdr = "if ?b AND 0x80 \<noteq> 0 then
      (if ?n = 0 then Inl BERError else Inr (from_be (take ?n (drop (off + 2) buf)), off + 2 + ?n))
    else Inr (unat ?b, off + 2) :: (nat \<times> nat) result"
  have d: "decode buf off = bindR ?hdr (\<lambda>(len, o'). if o' + len > length buf then Inl BERError
      else Inr (buf ! off, take len (drop o' buf), o' + len))"
    using assms unfolding decode_def Let_def by (simp only: if_False not_le if_not_P)
  have "?hdr = Inl BERError \<or> (\<exists>len o'. ?hdr = Inr (len, o') \<and> off + 2 \<le> o')"
    by auto
  then consider "?hdr = Inl BERError" | len o' where "?hdr = Inr (len, o')" "off + 2 \<le> o'"
    by blast
  then show ?thesis
  proof cases
    case 1
    then show ?thesis using that(1) by (simp only: d bindR.simps)
  next
    case (2 len o')
    then show ?thesis
      using that(1) that(2) [of o' len]
      by (cases "o' + len > length buf") (simp_all only: d bindR.simps prod.case if_True if_False not_le simp_thms)
  qed
qed

text \<open>An SNMP SEQUENCE built from any list of TLVs decodes, wherever it stands in a buffer, to
  its own body and the offset after it, and the children of that body are exactly the TLVs, in
  order.\<close>

theorem seq_round_trip:
  assumes "\<And>t v. (t, v) \<in> set xs \<Longrightarrow> fits v" "fits (concat (map (\<lambda>(t, v). tlv t v) xs))"
  shows "\<exists>body. decode (pre @ enc_seq (map (\<lambda>(t, v). tlv t v) xs) @ post) (length pre) =
           Inr (SEQUENCE, body, length pre + length (enc_seq (map (\<lambda>(t, v). tlv t v) xs))) \<and>
         decode_children body = Inr xs"
  unfolding enc_seq_def
  using decode_tlv [OF assms(2), of pre SEQUENCE post] decode_children_tlvs [OF assms(1)]
  by (intro exI conjI)

theorem seq_round_trip_witness:
  "\<exists>body. decode ([1, 2] @ enc_seq (map (\<lambda>(t, v). tlv t v) [(INTEGER, [5]), (NULL, [])]) @ [9])
       (length [1 :: byte, 2]) =
     Inr (SEQUENCE, body, length [1 :: byte, 2] +
       length (enc_seq (map (\<lambda>(t, v). tlv t v) [(INTEGER, [5]), (NULL, [])]))) \<and>
   decode_children body = Inr [(INTEGER, [5]), (NULL, [])]"
  by (rule seq_round_trip) (auto simp: fits_def tlv_def encode_length_def)

text \<open>every Python int, of either sign and any size, is recovered from its minimal
  two's-complement INTEGER encoding.\<close>

theorem integer_round_trip: "parse_int (int_body v) = v"
  by (rule parse_int_body)

text \<open>the OID text of a valid list of arcs is encoded to an OBJECT IDENTIFIER whose content
  octets decode back to the same text.\<close>

theorem oid_round_trip:
  assumes "valid_arcs arcs"
  shows "\<exists>body. enc_oid (dotted arcs) = Inr (tlv OBJECT_IDENTIFIER body) \<and>
    parse_oid body = dotted arcs"
  using assms by (rule enc_oid_parse_oid)

theorem oid_round_trip_witness:
  "\<exists>body. enc_oid (dotted [1, 3, 6, 1, 4, 1, 99999]) = Inr (tlv OBJECT_IDENTIFIER body) \<and>
    parse_oid body = dotted [1, 3, 6, 1, 4, 1, 99999]"
  by (rule oid_round_trip) (simp add: valid_arcs_def)

text \<open>decoding a TLV either fails with \<open>BERError\<close>, or with an \<open>IndexError\<close>
  that the code does not turn into one, exactly when the buffer ends after the tag byte; or it
  returns the tag at the offset and a slice that lies inside the buffer and ends at the returned
  offset.\<close>

theorem decode_total:
  "(decode buf off = Inl IndexError \<longleftrightarrow> off + 1 = length buf) \<and>
   (decode buf off = Inl BERError \<or> decode buf off = Inl IndexError \<or>
    (\<exists>v n. decode buf off = Inr (buf ! off, v, n) \<and> off + 2 \<le> n \<and> n \<le> length buf \<and>
       v = drop (n - length v) (take n buf)))"
proof (cases "off + 1 < length buf")
  case True
  then show ?thesis
  proof (cases rule: decode_cases)
    case (2 len o')
    then have "take len (drop o' buf) = drop (o' + len - length (take len (drop o' buf))) (take (o' + len) buf)"
      by (simp add: take_drop add.commute min_def)
    with 2 True show ?thesis by auto
  qed (use True in simp)
qed (auto simp: decode_def)

text \<open>the base-128 digit loop of the OID encoder returns for every arc that is not negative,
  and runs forever for a negative one.\<close>

theorem negative_arc_diverges: "base128 v = Inl Diverges \<longleftrightarrow> v < 0"
  by (rule base128_Diverges_iff)

end
