(* ===== verification/Snmp_Message.thy ===== *)
theory Snmp_Message
  imports Asn1 Aes
begin

text \<open>
  Model of the message layer of \<open>ingest/snmp_engine.py\<close>: password-to-key localization, the
  position of the authentication parameters, and \<open>encode_message\<close> /
  \<open>decode_message\<close> of an SNMPv3 message with optional HMAC authentication and AES privacy.

  The hash functions of \<open>hashlib\<close> are the parameter \<open>hashf name data\<close>, those of
  \<open>hmac\<close> the parameter \<open>hmacf name key data\<close>; nothing is used of them but that a
  digest has at least the 12 bytes the message carries (\<open>hmac_ok\<close>). The random salt of
  \<open>os.urandom\<close> is an argument. Flags are the byte they are on the wire.
\<close>

section \<open>Constants\<close>

definition AUTH_PARAM_LEN :: nat where "AUTH_PARAM_LEN = 12"
definition PRIV_PARAM_LEN :: nat where "PRIV_PARAM_LEN = 8"
definition TIME_WINDOW_SECONDS :: int where "TIME_WINDOW_SECONDS = 150"
definition MAX_WALK_OIDS :: nat where "MAX_WALK_OIDS = 10000"
definition MAX_MESSAGE_SIZE :: int where "MAX_MESSAGE_SIZE = 65507"
definition USM_SECURITY_MODEL :: int where "USM_SECURITY_MODEL = 3"
definition SNMP_VERSION_3 :: int where "SNMP_VERSION_3 = 3"
definition SYS_DESCR :: string where "SYS_DESCR = ''1.3.6.1.2.1.1.1.0''"
definition FLAG_AUTH :: byte where "FLAG_AUTH = 0x01"
definition FLAG_PRIV :: byte where "FLAG_PRIV = 0x02"
definition FLAG_REPORTABLE :: byte where "FLAG_REPORTABLE = 0x04"

definition AUTH_HASHES :: "(string \<times> string) list" where
  "AUTH_HASHES = [(''sha'', ''sha1''), (''sha1'', ''sha1''), (''md5'', ''md5''),
     (''sha224'', ''sha224''), (''sha256'', ''sha256''),
     (''sha384'', ''sha384''), (''sha512'', ''sha512'')]"

definition hash_name :: "string \<Rightarrow> string result" where
  "hash_name protocol =
     (case map_of AUTH_HASHES (py_lower protocol) of
        None \<Rightarrow> Inl (SnmpError ''unsupported auth protocol'')
      | Some name \<Rightarrow> Inr name)"

section \<open>Keys\<close>

text \<open>The 64-byte buffer filled from the password, and the loop that feeds 1 MiB of it to the
  running hash; the hash of successive updates is the hash of their concatenation.\<close>

definition password_chunk :: "byte list \<Rightarrow> nat \<Rightarrow> byte list" where
  "password_chunk pw index = map (\<lambda>i. pw ! ((index + i) mod length pw)) [0..<64]"

function fold_password :: "byte list \<Rightarrow> nat \<Rightarrow> nat \<Rightarrow> byte list" where
  "fold_password pw index consumed =
     (if consumed < 1048576
      then password_chunk pw index @ fold_password pw (index + 64) (consumed + 64)
      else [])"
  by pat_completeness auto
termination by (relation "measure (\<lambda>(pw, index, consumed). 1048576 - consumed)") auto

declare fold_password.simps [simp del]

definition password_to_key ::
  "(string \<Rightarrow> byte list \<Rightarrow> byte list) \<Rightarrow> byte list \<Rightarrow> byte list \<Rightarrow> string \<Rightarrow> byte list result" where
  "password_to_key hashf password engine_id name =
     (if password = [] then Inl (SnmpError ''password must be non-empty'')
      else (let ku = hashf name (fold_password password 0 0)
            in Inr (hashf name (ku @ engine_id @ ku))))"

section \<open>Messages\<close>

text \<open>The loop of \<open>auth_params_offset\<close> over the first five fields of the security
  parameters, ending at the value start of the fifth.\<close>

fun fifth_value_start :: "nat \<Rightarrow> byte list \<Rightarrow> nat \<Rightarrow> nat result" where
  "fifth_value_start 0 body oo =
     bindR (decode body oo) (\<lambda>(t, val, oo'). Inr (oo' - length val))"
| "fifth_value_start (Suc i) body oo =
     bindR (decode body oo) (\<lambda>(t, val, oo'). fifth_value_start i body oo')"

definition auth_params_offset :: "byte list \<Rightarrow> nat result" where
  "auth_params_offset data =
     bindR (decode data 0) (\<lambda>(_, msg_body, off).
     bindR (decode data (off - length msg_body)) (\<lambda>(_, _, o1).
     bindR (decode data o1) (\<lambda>(_, _, o2).
     bindR (decode data o2) (\<lambda>(_, sec_value, o3).
     bindR (decode sec_value 0) (\<lambda>(_, seq_body, seq_off).
     bindR (fifth_value_start 4 seq_body 0) (\<lambda>ap_in_seq.
       Inr ((o3 - length sec_value) + (seq_off - length seq_body) + ap_in_seq)))))))"

definition encode_scoped_pdu :: "byte list \<Rightarrow> byte list \<Rightarrow> byte list \<Rightarrow> byte list" where
  "encode_scoped_pdu context_engine_id context_name pdu =
     enc_seq [enc_oct context_engine_id, enc_oct context_name, pdu]"

text \<open>\<open>int.to_bytes(4, "big")\<close>.\<close>

definition to_bytes4 :: "int \<Rightarrow> byte list result" where
  "to_bytes4 v = (if 0 \<le> v \<and> v < 2 ^ 32 then Inr (to_be 4 (nat v)) else Inl OverflowError)"

text \<open>The keyword arguments of \<open>encode_message\<close>.\<close>

record message_args =
  ma_msg_id :: int
  ma_engine_id :: "byte list"
  ma_boots :: int
  ma_engine_time :: int
  ma_username :: "byte list"
  ma_flags :: byte
  ma_scoped_pdu :: "byte list"
  ma_auth_key :: "byte list option"
  ma_auth_hash :: string
  ma_priv_key :: "byte list option"

definition security_params :: "message_args \<Rightarrow> byte list \<Rightarrow> byte list \<Rightarrow> byte list" where
  "security_params a auth_params priv_params = enc_seq
     [enc_oct (ma_engine_id a), enc_int (ma_boots a), enc_int (ma_engine_time a),
      enc_oct (ma_username a), enc_oct auth_params, enc_oct priv_params]"

definition global_data :: "message_args \<Rightarrow> byte list" where
  "global_data a = enc_seq
     [enc_int (ma_msg_id a), enc_int MAX_MESSAGE_SIZE, enc_oct [ma_flags a],
      enc_int USM_SECURITY_MODEL]"

definition raw_message ::
  "message_args \<Rightarrow> byte list \<Rightarrow> byte list \<Rightarrow> byte list \<Rightarrow> byte list" where
  "raw_message a auth_params priv_params msg_data = enc_seq
     [enc_int SNMP_VERSION_3, global_data a, enc_oct (security_params a auth_params priv_params),
      msg_data]"

definition encode_msg_data :: "byte list \<Rightarrow> message_args \<Rightarrow> (byte list \<times> byte list) result" where
  "encode_msg_data salt a =
     (if ma_flags a AND FLAG_PRIV \<noteq> 0 then
        (case ma_priv_key a of
           None \<Rightarrow> Inl (SnmpError ''priv_key required when privFlag is set'')
         | Some priv_key \<Rightarrow>
             bindR (to_bytes4 (ma_boots a)) (\<lambda>b.
             bindR (to_bytes4 (ma_engine_time a)) (\<lambda>t.
             bindR (aes128_cfb_encrypt (take 16 priv_key) (b @ t @ salt) (ma_scoped_pdu a)) (\<lambda>ct.
               Inr (enc_oct ct, salt)))))
      else Inr (ma_scoped_pdu a, []))"

definition encode_message ::
  "(string \<Rightarrow> byte list \<Rightarrow> byte list \<Rightarrow> byte list) \<Rightarrow> byte list \<Rightarrow> message_args \<Rightarrow> byte list result" where
  "encode_message hmacf salt a =
     bindR (encode_msg_data salt a) (\<lambda>(msg_data, priv_params).
       let auth_params = (if ma_flags a AND FLAG_AUTH \<noteq> 0 then replicate AUTH_PARAM_LEN 0 else []);
           message = raw_message a auth_params priv_params msg_data
       in if ma_flags a AND FLAG_AUTH \<noteq> 0 then
            (case ma_auth_key a of
               None \<Rightarrow> Inl (SnmpError ''auth_key required when authFlag is set'')
             | Some auth_key \<Rightarrow>
                 bindR (auth_params_offset message) (\<lambda>offset.
                   let digest = take AUTH_PARAM_LEN (hmacf (ma_auth_hash a) auth_key message)
                   in Inr (take offset message @ digest @ drop (offset + AUTH_PARAM_LEN) message)))
          else Inr message)"

record parsed_message =
  pm_version :: int
  pm_msg_id :: int
  pm_flags :: byte
  pm_engine_id :: "byte list"
  pm_boots :: int
  pm_engine_time :: int
  pm_username :: "byte list"
  pm_auth_params :: "byte list"
  pm_priv_params :: "byte list"
  pm_context_engine_id :: "byte list"
  pm_context_name :: "byte list"
  pm_pdu_tag :: byte
  pm_request_id :: int
  pm_error_status :: int
  pm_error_index :: int
  pm_varbinds :: "(string \<times> snmp_value) list"

definition peek_msg_id :: "byte list \<Rightarrow> int result" where
  "peek_msg_id data =
     bindR (decode data 0) (\<lambda>(_, msg_body, _).
     bindR (decode_children msg_body) (\<lambda>children.
     bindR (nthR children 1) (\<lambda>(_, gd).
     bindR (decode_children gd) (\<lambda>fields.
     bindR (nthR fields 0) (\<lambda>(_, v). Inr (parse_int v))))))"

definition verify_digest ::
  "(string \<Rightarrow> byte list \<Rightarrow> byte list \<Rightarrow> byte list) \<Rightarrow> string \<Rightarrow> byte list option \<Rightarrow>
   byte list \<Rightarrow> byte list \<Rightarrow> unit result" where
  "verify_digest hmacf auth_hash auth_key data auth_params =
     (case auth_key of
        None \<Rightarrow> Inl (SnmpError ''auth_key required to verify an authenticated message'')
      | Some key \<Rightarrow>
          bindR (auth_params_offset data) (\<lambda>offset.
            let zeroed = take offset data @ replicate AUTH_PARAM_LEN 0 @
                           drop (offset + AUTH_PARAM_LEN) data;
                expected = take AUTH_PARAM_LEN (hmacf auth_hash key zeroed)
            in if expected = auth_params then Inr ()
               else Inl (SnmpError ''authentication failure: digest mismatch'')))"

definition decode_varbind :: "byte list \<Rightarrow> (string \<times> snmp_value) result" where
  "decode_varbind vb_val =
     bindR (decode_children vb_val) (\<lambda>parts.
     bindR (nthR parts 0) (\<lambda>(_, oid).
     bindR (nthR parts 1) (\<lambda>(tag, v). Inr (parse_oid oid, decode_value tag v))))"

definition scoped_body_of ::
  "byte list option \<Rightarrow> byte \<Rightarrow> int \<Rightarrow> int \<Rightarrow> byte list \<Rightarrow> byte \<times> byte list \<Rightarrow> byte list result" where
  "scoped_body_of priv_key flags boots engine_time priv_params md =
     (if flags AND FLAG_PRIV \<noteq> 0 \<and> fst md = OCTET_STRING then
        (case priv_key of
           None \<Rightarrow> Inl (SnmpError ''priv_key required to decrypt a private message'')
         | Some key \<Rightarrow>
             bindR (to_bytes4 boots) (\<lambda>b.
             bindR (to_bytes4 engine_time) (\<lambda>t.
             bindR (aes128_cfb_decrypt (take 16 key) (b @ t @ priv_params) (snd md)) (\<lambda>decrypted.
             bindR (decode decrypted 0) (\<lambda>(_, scoped_body, _). Inr scoped_body)))))
      else Inr (snd md))"

text \<open>The three stages of \<open>decode_message\<close>: the plaintext header and security parameters,
  the digest check, the scoped PDU.\<close>

record message_header =
  mh_children :: "(byte \<times> byte list) list"
  mh_version :: int
  mh_msg_id :: int
  mh_flags :: byte
  mh_sec :: "byte list list"

definition decode_header :: "byte list \<Rightarrow> message_header result" where
  "decode_header data =
     bindR (decode data 0) (\<lambda>(tag, msg_body, _).
     if tag \<noteq> SEQUENCE then Inl (SnmpError ''SNMPv3 message must be a SEQUENCE'') else
     bindR (decode_children msg_body) (\<lambda>ch.
     bindR (nthR ch 0) (\<lambda>c0.
     bindR (nthR ch 1) (\<lambda>c1.
     bindR (decode_children (snd c1)) (\<lambda>gd.
     bindR (nthR gd 0) (\<lambda>g0.
     bindR (nthR gd 2) (\<lambda>g2.
     bindR (nthR ch 2) (\<lambda>c2.
     bindR (decode (snd c2) 0) (\<lambda>(_, sec_body, _).
     bindR (decode_children sec_body) (\<lambda>sec.
     bindR (mapR (nthR sec) [0..<6]) (\<lambda>s.
       Inr \<lparr> mh_children = ch, mh_version = parse_int (snd c0), mh_msg_id = parse_int (snd g0),
             mh_flags = (if snd g2 \<noteq> [] then hd (snd g2) else 0),
             mh_sec = map snd s \<rparr>)))))))))))"

definition decode_payload :: "byte list option \<Rightarrow> message_header \<Rightarrow> parsed_message result" where
  "decode_payload priv_key hdr =
     (let s = mh_sec hdr; boots = parse_int (s ! 1); engine_time = parse_int (s ! 2) in
     bindR (nthR (mh_children hdr) 3) (\<lambda>c3.
     bindR (scoped_body_of priv_key (mh_flags hdr) boots engine_time (s ! 5) c3) (\<lambda>scoped_body.
     bindR (decode_children scoped_body) (\<lambda>sch.
     bindR (nthR sch 0) (\<lambda>x0.
     bindR (nthR sch 1) (\<lambda>x1.
     bindR (nthR sch 2) (\<lambda>x2.
     bindR (decode_children (snd x2)) (\<lambda>pch.
     bindR (nthR pch 0) (\<lambda>p0.
     bindR (nthR pch 1) (\<lambda>p1.
     bindR (nthR pch 2) (\<lambda>p2.
     bindR (nthR pch 3) (\<lambda>p3.
     bindR (decode_children (snd p3)) (\<lambda>vbs.
     bindR (mapR (\<lambda>vb. decode_varbind (snd vb)) vbs) (\<lambda>varbinds.
       Inr \<lparr> pm_version = mh_version hdr, pm_msg_id = mh_msg_id hdr, pm_flags = mh_flags hdr,
             pm_engine_id = s ! 0, pm_boots = boots, pm_engine_time = engine_time,
             pm_username = s ! 3, pm_auth_params = s ! 4, pm_priv_params = s ! 5,
             pm_context_engine_id = snd x0, pm_context_name = snd x1, pm_pdu_tag = fst x2,
             pm_request_id = parse_int (snd p0), pm_error_status = parse_int (snd p1),
             pm_error_index = parse_int (snd p2), pm_varbinds = varbinds \<rparr>))))))))))))))"

definition decode_message ::
  "(string \<Rightarrow> byte list \<Rightarrow> byte list \<Rightarrow> byte list) \<Rightarrow> byte list option \<Rightarrow> byte list option \<Rightarrow>
   string \<Rightarrow> bool \<Rightarrow> byte list \<Rightarrow> parsed_message result" where
  "decode_message hmacf priv_key auth_key auth_hash verify_auth data =
     bindR (decode_header data) (\<lambda>hdr.
     bindR (if mh_flags hdr AND FLAG_AUTH \<noteq> 0 \<and> verify_auth
            then verify_digest hmacf auth_hash auth_key data (mh_sec hdr ! 4) else Inr ()) (\<lambda>_.
       decode_payload priv_key hdr))"

lemma decode_payload_fields:
  "decode_payload pk hdr = Inr m \<Longrightarrow> pm_flags m = mh_flags hdr \<and> pm_auth_params m = mh_sec hdr ! 4"
  by (auto simp: decode_payload_def Let_def bindR_eq_Inr)

section \<open>Where the authentication parameters stand\<close>

definition tlv_header :: "byte \<Rightarrow> nat \<Rightarrow> byte list" where
  "tlv_header tag n = tag # encode_length n"

lemma tlv_header: "tlv tag body = tlv_header tag (length body) @ body"
  by (simp add: tlv_def tlv_header_def)

lemma length_tlv: "length (tlv tag body) = length (tlv_header tag (length body)) + length body"
  by (simp add: tlv_header)

lemma fits_mono: "fits w \<Longrightarrow> length v \<le> length w \<Longrightarrow> fits v"
  by (simp only: fits_def)

lemma fits_append: "fits (v @ w) \<Longrightarrow> fits v \<and> fits w"
  using fits_mono [of "v @ w" v] fits_mono [of "v @ w" w] by simp

lemma fits_tlv: "fits (tlv t v) \<Longrightarrow> fits v"
  by (erule fits_mono) (simp add: length_tlv)

named_theorems fits_parts \<open>the parts of a message whose length can be stated have such a length\<close>

lemmas [fits_parts] = fits_append [THEN conjunct1] fits_append [THEN conjunct2] fits_tlv

lemma decode_at:
  assumes "data = pre @ tlv tag body @ post" "off = length pre" "fits body"
  shows "decode data off = Inr (tag, body, off + length (tlv tag body))"
  using decode_tlv [OF assms(3), of pre tag post] assms(1, 2) by simp

lemma fifth_value_start_tlvs:
  assumes "\<And>t v. (t, v) \<in> set xs \<Longrightarrow> fits v" "fits body"
  shows "fifth_value_start (length xs)
      (pre @ concat (map (\<lambda>(t, v). tlv t v) xs) @ tlv tag body @ post) (length pre) =
    Inr (length pre + length (concat (map (\<lambda>(t, v). tlv t v) xs)) +
      length (tlv_header tag (length body)))"
  using assms(1)
proof (induction xs arbitrary: pre)
  case Nil
  then show ?case
    using decode_at [OF refl refl assms(2), of pre tag post] by (simp add: length_tlv)
next
  case (Cons x xs)
  obtain t v where x: "x = (t, v)" by (cases x)
  let ?rest = "concat (map (\<lambda>(t, v). tlv t v) xs) @ tlv tag body @ post"
  have "fits v" using Cons.prems x by auto
  then have 1: "decode (pre @ tlv t v @ ?rest) (length pre) =
      Inr (t, v, length pre + length (tlv t v))"
    by (intro decode_at [OF refl refl])
  have 2: "fifth_value_start (length xs) ((pre @ tlv t v) @ ?rest) (length (pre @ tlv t v)) =
      Inr (length (pre @ tlv t v) + length (concat (map (\<lambda>(t, v). tlv t v) xs)) +
        length (tlv_header tag (length body)))"
    using Cons.prems by (intro Cons.IH) auto
  from 1 2 show ?case by (simp add: x add.assoc)
qed

text \<open>The four fields before, the one after, and the bytes of a message around the
  authentication parameters.\<close>

definition sec_before :: "message_args \<Rightarrow> (byte \<times> byte list) list" where
  "sec_before a = [(OCTET_STRING, ma_engine_id a), (INTEGER, int_body (ma_boots a)),
     (INTEGER, int_body (ma_engine_time a)), (OCTET_STRING, ma_username a)]"

definition sec_prefix :: "message_args \<Rightarrow> byte list" where
  "sec_prefix a = concat (map (\<lambda>(t, v). tlv t v) (sec_before a))"

lemma security_params_parts:
  "security_params a ap pp =
     tlv SEQUENCE (sec_prefix a @ tlv OCTET_STRING ap @ tlv OCTET_STRING pp)"
  by (simp add: security_params_def enc_seq_def enc_oct_def enc_int_def sec_prefix_def sec_before_def)

lemma raw_message_parts:
  "raw_message a ap pp md = tlv SEQUENCE
     (enc_int SNMP_VERSION_3 @ global_data a @ tlv OCTET_STRING (security_params a ap pp) @ md)"
  by (simp add: raw_message_def enc_seq_def enc_oct_def)

definition sec_length :: "message_args \<Rightarrow> nat \<Rightarrow> byte list \<Rightarrow> nat" where
  "sec_length a n pp = length (security_params a (replicate n 0) pp)"

lemma length_security_params: "length (security_params a ap pp) = sec_length a (length ap) pp"
  by (simp add: sec_length_def security_params_parts length_tlv)

definition auth_prefix :: "message_args \<Rightarrow> nat \<Rightarrow> byte list \<Rightarrow> byte list \<Rightarrow> byte list" where
  "auth_prefix a n pp md =
     (let inner = length (sec_prefix a) + (length (tlv_header OCTET_STRING n) + n) +
            length (tlv OCTET_STRING pp);
          outer = length (enc_int SNMP_VERSION_3) + length (global_data a) +
            (length (tlv_header OCTET_STRING (sec_length a n pp)) + sec_length a n pp) + length md
      in tlv_header SEQUENCE outer @ enc_int SNMP_VERSION_3 @ global_data a @
         tlv_header OCTET_STRING (sec_length a n pp) @ tlv_header SEQUENCE inner @ sec_prefix a @
         tlv_header OCTET_STRING n)"

lemma raw_message_split:
  "raw_message a ap pp md = auth_prefix a (length ap) pp md @ ap @ tlv OCTET_STRING pp @ md"
  by (simp add: raw_message_parts auth_prefix_def Let_def tlv_header length_security_params add.assoc)
    (simp add: security_params_parts tlv_header add.assoc)

lemma auth_params_offset_raw:
  assumes "fits (raw_message a ap pp md)"
  shows "auth_params_offset (raw_message a ap pp md) = Inr (length (auth_prefix a (length ap) pp md))"
proof -
  let ?d = "raw_message a ap pp md" and ?sp = "security_params a ap pp"
  let ?inner = "sec_prefix a @ tlv OCTET_STRING ap @ tlv OCTET_STRING pp"
  let ?body = "enc_int SNMP_VERSION_3 @ global_data a @ tlv OCTET_STRING ?sp @ md"
  let ?gd = "concat [enc_int (ma_msg_id a), enc_int MAX_MESSAGE_SIZE, enc_oct [ma_flags a],
    enc_int USM_SECURITY_MODEL]"
  have gd: "global_data a = tlv SEQUENCE ?gd" by (simp only: global_data_def enc_seq_def)
  have ver: "enc_int SNMP_VERSION_3 = tlv INTEGER (int_body SNMP_VERSION_3)"
    by (simp only: enc_int_def)
  have f: "fits ?body" "fits ?sp" "fits ?inner" "fits ?gd" "fits (int_body SNMP_VERSION_3)"
  proof -
    show b: "fits ?body" using assms unfolding raw_message_parts by (rule fits_tlv)
    then show "fits ?sp" by (blast dest: fits_parts)
    then show "fits ?inner" unfolding security_params_parts by (rule fits_tlv)
    show "fits ?gd" using b unfolding gd by (blast dest: fits_parts)
    show "fits (int_body SNMP_VERSION_3)" using b unfolding ver by (blast dest: fits_parts)
  qed
  let ?h = "tlv_header SEQUENCE (length ?body)"
  have d: "?d = ?h @ ?body" unfolding raw_message_parts by (rule tlv_header)
  have 1: "decode ?d 0 = Inr (SEQUENCE, ?body, length ?d)"
    using decode_at [of ?d "[]" SEQUENCE ?body "[]" 0] f(1) unfolding raw_message_parts by simp
  have 2: "decode ?d (length ?h) = Inr (INTEGER, int_body SNMP_VERSION_3, length (?h @ enc_int SNMP_VERSION_3))"
    using decode_at [of ?d ?h INTEGER _ "global_data a @ tlv OCTET_STRING ?sp @ md", OF _ refl f(5)]
    unfolding d ver by simp
  have 3: "decode ?d (length (?h @ enc_int SNMP_VERSION_3)) =
      Inr (SEQUENCE, ?gd, length (?h @ enc_int SNMP_VERSION_3 @ global_data a))"
    using decode_at [of ?d "?h @ enc_int SNMP_VERSION_3" SEQUENCE _ "tlv OCTET_STRING ?sp @ md", OF _ refl f(4)]
    unfolding d gd by simp
  have 4: "decode ?d (length (?h @ enc_int SNMP_VERSION_3 @ global_data a)) =
      Inr (OCTET_STRING, ?sp, length (?h @ enc_int SNMP_VERSION_3 @ global_data a @ tlv OCTET_STRING ?sp))"
    using decode_at [of ?d "?h @ enc_int SNMP_VERSION_3 @ global_data a" OCTET_STRING _ md, OF _ refl f(2)]
    unfolding d by simp
  have 5: "decode ?sp 0 = Inr (SEQUENCE, ?inner, length ?sp)"
    using decode_at [of ?sp "[]" SEQUENCE ?inner "[]" 0] f(3) unfolding security_params_parts by simp
  have fs: "fits v" if "(t, v) \<in> set (sec_before a)" for t v
  proof -
    have "fits (sec_prefix a)" using f(3) by (blast dest: fits_parts)
    moreover have "length v \<le> length (sec_prefix a)"
      using that by (auto simp: sec_prefix_def sec_before_def length_tlv)
    ultimately show ?thesis by (rule fits_mono)
  qed
  have fap: "fits ap" using f(3) by (blast dest: fits_parts)
  have "length (sec_before a) = 4" by (simp add: sec_before_def)
  then have 6: "fifth_value_start 4 ?inner 0 =
      Inr (length (sec_prefix a) + length (tlv_header OCTET_STRING (length ap)))"
    using fifth_value_start_tlvs [of "sec_before a" ap "[]" OCTET_STRING "tlv OCTET_STRING pp",
      OF fs fap] by (simp add: sec_prefix_def)
  have off: "length ?d - length ?body = length ?h" unfolding d by simp
  have sp: "length ?sp - length ?inner = length (tlv_header SEQUENCE (length ?inner))"
    unfolding security_params_parts by (simp add: length_tlv)
  have "auth_params_offset ?d = Inr (length (?h @ enc_int SNMP_VERSION_3 @ global_data a @
      tlv OCTET_STRING ?sp) - length ?sp + (length ?sp - length ?inner) +
      (length (sec_prefix a) + length (tlv_header OCTET_STRING (length ap))))"
    unfolding auth_params_offset_def 1 bindR.simps prod.case off 2 3 4 5 6 ..
  also have "length (?h @ enc_int SNMP_VERSION_3 @ global_data a @ tlv OCTET_STRING ?sp) - length ?sp +
      (length ?sp - length ?inner) + (length (sec_prefix a) + length (tlv_header OCTET_STRING (length ap)))
      = length (auth_prefix a (length ap) pp md)"
    unfolding sp auth_prefix_def Let_def
    by (simp add: length_security_params length_tlv add.assoc)
  finally show ?thesis .
qed

section \<open>Decoding what was encoded\<close>

lemma children_of:
  assumes "body = concat (map (\<lambda>(t, v). tlv t v) xs)" "fits body"
  shows "decode_children body = Inr xs"
proof -
  have "fits v" if "(t, v) \<in> set xs" for t v
  proof -
    have "tlv t v \<in> set (map (\<lambda>(t, v). tlv t v) xs)" using that by force
    then obtain ys zs where "map (\<lambda>(t, v). tlv t v) xs = ys @ tlv t v # zs"
      by (auto dest: split_list)
    then have "length (tlv t v) \<le> length body" by (simp add: assms(1))
    then show ?thesis using assms(2) fits_tlv fits_mono by blast
  qed
  then show ?thesis unfolding assms(1) by (rule decode_children_tlvs)
qed

lemma tlv_all: "decode (tlv t v) 0 = Inr (t, v, length (tlv t v))" if "fits v"
  using decode_at [of "tlv t v" "[]" t v "[]" 0] that by simp

text \<open>The fields of a PDU and of a scoped PDU.\<close>

definition pdu_body :: "int \<Rightarrow> int \<Rightarrow> int \<Rightarrow> (byte list \<times> byte \<times> byte list) list \<Rightarrow> byte list" where
  "pdu_body rid es ei vbs = enc_int rid @ enc_int es @ enc_int ei @
     tlv SEQUENCE (concat (map (\<lambda>(o', t, v). tlv SEQUENCE (tlv OBJECT_IDENTIFIER o' @ tlv t v)) vbs))"

definition scoped_pdu :: "byte list \<Rightarrow> byte list \<Rightarrow> byte \<Rightarrow> byte list \<Rightarrow> byte list" where
  "scoped_pdu ce cn pt pb = tlv OCTET_STRING ce @ tlv OCTET_STRING cn @ tlv pt pb"

lemma decode_varbinds:
  assumes "fits (concat (map (\<lambda>(o', t, v). tlv SEQUENCE (tlv OBJECT_IDENTIFIER o' @ tlv t v)) vbs))"
    (is "fits ?b")
  shows "bindR (decode_children ?b) (mapR (\<lambda>vb. decode_varbind (snd vb))) =
    Inr (map (\<lambda>(o', t, v). (parse_oid o', decode_value t v)) vbs)"
proof -
  let ?xs = "map (\<lambda>(o', t, v). (SEQUENCE, tlv OBJECT_IDENTIFIER o' @ tlv t v)) vbs"
  have eq: "map (\<lambda>(t, v). tlv t v) ?xs =
      map (\<lambda>(o', t, v). tlv SEQUENCE (tlv OBJECT_IDENTIFIER o' @ tlv t v)) vbs"
    by auto
  have "decode_children ?b = Inr ?xs"
    by (rule children_of [OF _ assms]) (simp only: eq)
  moreover have "decode_varbind (tlv OBJECT_IDENTIFIER o' @ tlv t v) =
      Inr (parse_oid o', decode_value t v)" if "(o', t, v) \<in> set vbs" for o' t v
  proof -
    have "tlv SEQUENCE (tlv OBJECT_IDENTIFIER o' @ tlv t v) \<in>
        set (map (\<lambda>(o', t, v). tlv SEQUENCE (tlv OBJECT_IDENTIFIER o' @ tlv t v)) vbs)"
      using that by force
    then obtain ys zs where "map (\<lambda>(o', t, v). tlv SEQUENCE (tlv OBJECT_IDENTIFIER o' @ tlv t v)) vbs =
        ys @ tlv SEQUENCE (tlv OBJECT_IDENTIFIER o' @ tlv t v) # zs"
      by (auto dest: split_list)
    then have "length (tlv SEQUENCE (tlv OBJECT_IDENTIFIER o' @ tlv t v)) \<le> length ?b" by simp
    then have "fits (tlv OBJECT_IDENTIFIER o' @ tlv t v)"
      using assms fits_tlv fits_mono by blast
    then have "decode_children (tlv OBJECT_IDENTIFIER o' @ tlv t v) = Inr [(OBJECT_IDENTIFIER, o'), (t, v)]"
      by (intro children_of) simp_all
    then show ?thesis by (simp add: decode_varbind_def)
  qed
  moreover have "mapR f (map g ys) = Inr (map h ys)" if "\<And>y. y \<in> set ys \<Longrightarrow> f (g y) = Inr (h y)"
    for f :: "byte \<times> byte list \<Rightarrow> (string \<times> snmp_value) result" and g h and ys :: "(byte list \<times> byte \<times> byte list) list"
    using that by (induction ys) auto
  ultimately show ?thesis by (fastforce simp: case_prod_beta)
qed

text \<open>Decoding any message with the layout of \<open>raw_message\<close>: the outcome of the digest check
  and of the decryption decide, everything else is read back as it was written.\<close>

definition parsed_of ::
  "message_args \<Rightarrow> byte list \<Rightarrow> byte list \<Rightarrow> byte list \<Rightarrow> byte list \<Rightarrow> byte \<Rightarrow> int \<Rightarrow> int \<Rightarrow> int \<Rightarrow>
   (byte list \<times> byte \<times> byte list) list \<Rightarrow> parsed_message" where
  "parsed_of a ap pp ce cn pt rid es ei vbs =
     \<lparr> pm_version = 3, pm_msg_id = ma_msg_id a, pm_flags = ma_flags a,
       pm_engine_id = ma_engine_id a, pm_boots = ma_boots a, pm_engine_time = ma_engine_time a,
       pm_username = ma_username a, pm_auth_params = ap, pm_priv_params = pp,
       pm_context_engine_id = ce, pm_context_name = cn, pm_pdu_tag = pt, pm_request_id = rid,
       pm_error_status = es, pm_error_index = ei,
       pm_varbinds = map (\<lambda>(o', t, v). (parse_oid o', decode_value t v)) vbs \<rparr>"

lemma raw_children:
  assumes f: "fits (raw_message a ap pp (tlv mt mv))"
  defines "gdb \<equiv> concat [enc_int (ma_msg_id a), enc_int MAX_MESSAGE_SIZE, enc_oct [ma_flags a],
    enc_int USM_SECURITY_MODEL]"
    and "secb \<equiv> sec_prefix a @ tlv OCTET_STRING ap @ tlv OCTET_STRING pp"
  obtains body n where
    "decode (raw_message a ap pp (tlv mt mv)) 0 = Inr (SEQUENCE, body, n)"
    "decode_children body = Inr [(INTEGER, int_body SNMP_VERSION_3), (SEQUENCE, gdb),
       (OCTET_STRING, security_params a ap pp), (mt, mv)]"
    "decode_children gdb = Inr [(INTEGER, int_body (ma_msg_id a)),
       (INTEGER, int_body MAX_MESSAGE_SIZE), (OCTET_STRING, [ma_flags a]),
       (INTEGER, int_body USM_SECURITY_MODEL)]"
    "\<exists>n. decode (security_params a ap pp) 0 = Inr (SEQUENCE, secb, n)"
    "decode_children secb = Inr (sec_before a @ [(OCTET_STRING, ap), (OCTET_STRING, pp)])"
proof -
  let ?sp = "security_params a ap pp"
  let ?body = "enc_int SNMP_VERSION_3 @ global_data a @ tlv OCTET_STRING ?sp @ tlv mt mv"
  have b: "fits ?body" using f unfolding raw_message_parts by (rule fits_tlv)
  have gd: "global_data a = tlv SEQUENCE gdb" by (simp only: global_data_def enc_seq_def gdb_def)
  have "fits ?sp" using b by (blast dest: fits_parts)
  then have fsec: "fits secb" unfolding security_params_parts secb_def by (rule fits_tlv)
  have fgd: "fits gdb" using b unfolding gd by (blast dest: fits_parts)
  show ?thesis
  proof (rule that)
    show "decode (raw_message a ap pp (tlv mt mv)) 0 =
        Inr (SEQUENCE, ?body, length (raw_message a ap pp (tlv mt mv)))"
      unfolding raw_message_parts by (rule tlv_all [OF b])
    show "decode_children ?body = Inr [(INTEGER, int_body SNMP_VERSION_3), (SEQUENCE, gdb),
        (OCTET_STRING, ?sp), (mt, mv)]"
      by (rule children_of [OF _ b]) (simp add: gd enc_int_def)
    show "decode_children gdb = Inr [(INTEGER, int_body (ma_msg_id a)),
       (INTEGER, int_body MAX_MESSAGE_SIZE), (OCTET_STRING, [ma_flags a]),
       (INTEGER, int_body USM_SECURITY_MODEL)]"
      by (rule children_of [OF _ fgd]) (simp add: gdb_def enc_int_def enc_oct_def)
    show "\<exists>n. decode ?sp 0 = Inr (SEQUENCE, secb, n)"
      using tlv_all [OF fsec] unfolding security_params_parts secb_def by blast
    show "decode_children secb = Inr (sec_before a @ [(OCTET_STRING, ap), (OCTET_STRING, pp)])"
      by (rule children_of [OF _ fsec]) (simp add: secb_def sec_prefix_def)
  qed
qed

lemma decode_raw:
  assumes f: "fits (raw_message a ap pp (tlv mt mv))"
    and auth: "ma_flags a AND FLAG_AUTH \<noteq> 0 \<Longrightarrow> verify \<Longrightarrow>
      verify_digest hmacf h ak (raw_message a ap pp (tlv mt mv)) ap = Inr ()"
    and scoped: "scoped_body_of pk (ma_flags a) (ma_boots a) (ma_engine_time a) pp (mt, mv) =
      Inr (scoped_pdu ce cn pt (pdu_body rid es ei vbs))"
    and fs: "fits (scoped_pdu ce cn pt (pdu_body rid es ei vbs))"
  shows "decode_message hmacf pk ak h verify (raw_message a ap pp (tlv mt mv)) =
    Inr (parsed_of a ap pp ce cn pt rid es ei vbs)"
proof -
  let ?d = "raw_message a ap pp (tlv mt mv)"
  let ?vb = "concat (map (\<lambda>(o', t, v). tlv SEQUENCE (tlv OBJECT_IDENTIFIER o' @ tlv t v)) vbs)"
  have fp: "fits (pdu_body rid es ei vbs)"
    using fs unfolding scoped_pdu_def by (blast dest: fits_parts)
  have c1: "decode_children (scoped_pdu ce cn pt (pdu_body rid es ei vbs)) =
      Inr [(OCTET_STRING, ce), (OCTET_STRING, cn), (pt, pdu_body rid es ei vbs)]"
    by (rule children_of [OF _ fs]) (simp add: scoped_pdu_def)
  have c2: "decode_children (pdu_body rid es ei vbs) =
      Inr [(INTEGER, int_body rid), (INTEGER, int_body es), (INTEGER, int_body ei), (SEQUENCE, ?vb)]"
    by (rule children_of [OF _ fp]) (simp add: pdu_body_def enc_int_def)
  have "fits ?vb" using fp unfolding pdu_body_def by (blast dest: fits_parts)
  from decode_varbinds [OF this] obtain vbl where
    c3: "decode_children ?vb = Inr vbl"
      "mapR (\<lambda>vb. decode_varbind (snd vb)) vbl =
        Inr (map (\<lambda>(o', t, v). (parse_oid o', decode_value t v)) vbs)"
    by (auto simp: bindR_eq_Inr)
  obtain body n gdb secb m where
    d: "decode ?d 0 = Inr (SEQUENCE, body, n)"
      "decode_children body = Inr [(INTEGER, int_body SNMP_VERSION_3), (SEQUENCE, gdb),
         (OCTET_STRING, security_params a ap pp), (mt, mv)]"
      "decode_children gdb = Inr [(INTEGER, int_body (ma_msg_id a)),
         (INTEGER, int_body MAX_MESSAGE_SIZE), (OCTET_STRING, [ma_flags a]),
         (INTEGER, int_body USM_SECURITY_MODEL)]"
      "decode (security_params a ap pp) 0 = Inr (SEQUENCE, secb, m)"
      "decode_children secb = Inr (sec_before a @ [(OCTET_STRING, ap), (OCTET_STRING, pp)])"
    using raw_children [OF f] by metis
  let ?hdr = "\<lparr> mh_children = [(INTEGER, int_body SNMP_VERSION_3), (SEQUENCE, gdb),
         (OCTET_STRING, security_params a ap pp), (mt, mv)],
       mh_version = 3, mh_msg_id = ma_msg_id a, mh_flags = ma_flags a,
       mh_sec = [ma_engine_id a, int_body (ma_boots a), int_body (ma_engine_time a),
         ma_username a, ap, pp] \<rparr>"
  have s6: "mapR (nthR (sec_before a @ [(OCTET_STRING, ap), (OCTET_STRING, pp)])) [0..<6] =
      Inr (sec_before a @ [(OCTET_STRING, ap), (OCTET_STRING, pp)])"
    by (simp add: sec_before_def upt_rec)
  have h: "decode_header ?d = Inr ?hdr"
    unfolding decode_header_def d(1) bindR.simps prod.case
    by (simp add: d s6 parse_int_body SNMP_VERSION_3_def Let_def)
      (simp add: sec_before_def)
  have p: "decode_payload pk ?hdr = Inr (parsed_of a ap pp ce cn pt rid es ei vbs)"
    by (simp add: decode_payload_def Let_def parse_int_body scoped c1 c2 c3 parsed_of_def)
  show ?thesis
    by (simp add: decode_message_def h p auth)
qed

section \<open>The round trip of a message\<close>

lemma replace_slice:
  assumes "length x = length y"
  shows "take (length p) (p @ x @ s) @ y @ drop (length p + length y) (p @ x @ s) = p @ y @ s"
  using assms by simp

lemma length_raw_message:
  "length ap = length ap' \<Longrightarrow> length (raw_message a ap pp md) = length (raw_message a ap' pp md)"
  by (simp add: raw_message_split)

text \<open>An authenticated message is the raw message with the digest of its zeroed form.\<close>

definition auth_field ::
  "(string \<Rightarrow> byte list \<Rightarrow> byte list \<Rightarrow> byte list) \<Rightarrow> message_args \<Rightarrow> byte list \<Rightarrow> byte list \<Rightarrow> byte list" where
  "auth_field hmacf a pp md =
     (if ma_flags a AND FLAG_AUTH \<noteq> 0
      then take AUTH_PARAM_LEN (hmacf (ma_auth_hash a) (the (ma_auth_key a))
             (raw_message a (replicate AUTH_PARAM_LEN 0) pp md))
      else [])"

lemma encode_message_raw:
  assumes "encode_message hmacf salt a = Inr msg" "encode_msg_data salt a = Inr (md, pp)"
    and dig: "\<And>k m. AUTH_PARAM_LEN \<le> length (hmacf (ma_auth_hash a) k m)"
    and f: "fits (raw_message a (replicate AUTH_PARAM_LEN 0) pp md)"
  shows "msg = raw_message a (auth_field hmacf a pp md) pp md"
proof (cases "ma_flags a AND FLAG_AUTH = 0")
  case True
  with assms(1,2) show ?thesis by (simp add: encode_message_def auth_field_def)
next
  case False
  define z where "z = (replicate AUTH_PARAM_LEN 0 :: byte list)"
  from False assms(1,2) obtain k where k: "ma_auth_key a = Some k"
    by (cases "ma_auth_key a") (auto simp: encode_message_def Let_def)
  define dg where "dg = take AUTH_PARAM_LEN (hmacf (ma_auth_hash a) k (raw_message a z pp md))"
  have lz: "length z = AUTH_PARAM_LEN" "length dg = AUTH_PARAM_LEN"
    using dig by (simp_all add: z_def dg_def min_absorb2)
  have off: "auth_params_offset (raw_message a z pp md) = Inr (length (auth_prefix a AUTH_PARAM_LEN pp md))"
    using auth_params_offset_raw [OF f] by (simp add: z_def)
  have "msg = take (length (auth_prefix a AUTH_PARAM_LEN pp md)) (raw_message a z pp md) @ dg @
      drop (length (auth_prefix a AUTH_PARAM_LEN pp md) + AUTH_PARAM_LEN) (raw_message a z pp md)"
    using assms(1,2) False k off by (simp add: encode_message_def Let_def z_def dg_def)
  also have "\<dots> = raw_message a dg pp md"
    using replace_slice [of z dg "auth_prefix a AUTH_PARAM_LEN pp md" "tlv OCTET_STRING pp @ md"] lz
    by (simp add: raw_message_split)
  finally show ?thesis using False k by (simp add: auth_field_def dg_def z_def)
qed

lemma verify_own_digest:
  assumes "ma_flags a AND FLAG_AUTH \<noteq> 0" "ma_auth_key a = Some k"
    and dig: "\<And>k m. AUTH_PARAM_LEN \<le> length (hmacf (ma_auth_hash a) k m)"
    and f: "fits (raw_message a (auth_field hmacf a pp md) pp md)"
  shows "verify_digest hmacf (ma_auth_hash a) (Some k)
    (raw_message a (auth_field hmacf a pp md) pp md) (auth_field hmacf a pp md) = Inr ()"
proof -
  define z where "z = (replicate AUTH_PARAM_LEN 0 :: byte list)"
  define dg where "dg = auth_field hmacf a pp md"
  have dg: "dg = take AUTH_PARAM_LEN (hmacf (ma_auth_hash a) k (raw_message a z pp md))"
    using assms(1,2) by (simp add: dg_def auth_field_def z_def)
  have lz: "length z = AUTH_PARAM_LEN" "length dg = AUTH_PARAM_LEN"
    using dig by (simp_all add: z_def dg min_absorb2)
  have off: "auth_params_offset (raw_message a dg pp md) = Inr (length (auth_prefix a AUTH_PARAM_LEN pp md))"
    using auth_params_offset_raw [OF f [folded dg_def]] lz by simp
  have "take (length (auth_prefix a AUTH_PARAM_LEN pp md)) (raw_message a dg pp md) @ z @
      drop (length (auth_prefix a AUTH_PARAM_LEN pp md) + AUTH_PARAM_LEN) (raw_message a dg pp md)
      = raw_message a z pp md"
    using replace_slice [of dg z "auth_prefix a AUTH_PARAM_LEN pp md" "tlv OCTET_STRING pp @ md"] lz
    by (simp add: raw_message_split)
  then show ?thesis
    by (simp add: verify_digest_def off Let_def dg [symmetric] flip: z_def dg_def)
qed

lemma no_priv_data:
  "ma_flags a AND FLAG_PRIV = 0 \<Longrightarrow> encode_msg_data salt a = Inr (ma_scoped_pdu a, [])"
  by (simp add: encode_msg_data_def)

lemma encode_msg_data_decodes:
  assumes e: "encode_msg_data salt a = Inr (md, pp)" and s: "ma_scoped_pdu a = tlv SEQUENCE sb"
    and f: "fits sb"
  shows "\<exists>mt mv. md = tlv mt mv \<and>
    scoped_body_of (ma_priv_key a) (ma_flags a) (ma_boots a) (ma_engine_time a) pp (mt, mv) = Inr sb \<and>
    length sb \<le> length md"
proof (cases "ma_flags a AND FLAG_PRIV = 0")
  case True
  have "md = tlv SEQUENCE sb" using e True s by (simp add: no_priv_data)
  with True show ?thesis
    by (intro exI [of _ SEQUENCE] exI [of _ sb]) (simp add: scoped_body_of_def length_tlv)
next
  case False
  with e obtain k b t ct where k: "ma_priv_key a = Some k"
      "to_bytes4 (ma_boots a) = Inr b" "to_bytes4 (ma_engine_time a) = Inr t"
      "aes128_cfb_encrypt (take 16 k) (b @ t @ salt) (tlv SEQUENCE sb) = Inr ct"
      "md = enc_oct ct" "pp = salt"
    by (auto simp: encode_msg_data_def s bindR_eq_Inr split: option.splits)
  have ne: "tlv SEQUENCE sb \<noteq> []" by (simp add: tlv_def)
  have iv: "length (b @ t @ salt) = 16"
    using k(4) by (auto simp: aes128_cfb_encrypt_def split: if_splits)
  have key: "length (take 16 k) = 16"
    using cfb_bad_key [OF _ iv ne] k(4) by fastforce
  have dec: "aes128_cfb_decrypt (take 16 k) (b @ t @ salt) ct = Inr (tlv SEQUENCE sb)"
    using cfb_decrypt_encrypt [OF key k(4)] .
  obtain ct' where "aes128_cfb_encrypt (take 16 k) (b @ t @ salt) (tlv SEQUENCE sb) = Inr ct'"
      "length ct' = length (tlv SEQUENCE sb)"
    using cfb_encrypt_returns [OF key iv] by blast
  then have "length ct = length (tlv SEQUENCE sb)" using k(4) by simp
  then have len: "length sb \<le> length (enc_oct ct)" by (simp add: enc_oct_def length_tlv)
  show ?thesis
    using False k dec len
    by (intro exI [of _ OCTET_STRING] exI [of _ ct])
      (simp add: scoped_body_of_def enc_oct_def tlv_all [OF f])
qed

text \<open>The IV of the encoder, and so the message, exists whenever the keys it needs are given and
  the numbers fit.\<close>

lemma message_decodes:
  assumes e: "encode_message hmacf salt a = Inr msg"
    and s: "ma_scoped_pdu a = encode_scoped_pdu ce cn (tlv pt (pdu_body rid es ei vbs))"
    and f: "\<And>ap pp md. length ap \<le> AUTH_PARAM_LEN \<Longrightarrow> encode_msg_data salt a = Inr (md, pp) \<Longrightarrow>
      fits (raw_message a ap pp md)"
    and dig: "\<And>k m. AUTH_PARAM_LEN \<le> length (hmacf (ma_auth_hash a) k m)"
  shows "\<exists>ap pp. decode_message hmacf (ma_priv_key a) (ma_auth_key a) (ma_auth_hash a) verify msg =
    Inr (parsed_of a ap pp ce cn pt rid es ei vbs)"
proof -
  let ?sb = "scoped_pdu ce cn pt (pdu_body rid es ei vbs)"
  obtain md pp where md: "encode_msg_data salt a = Inr (md, pp)"
    using e by (auto simp: encode_message_def bindR_eq_Inr)
  have s': "ma_scoped_pdu a = tlv SEQUENCE ?sb"
    by (simp add: s encode_scoped_pdu_def scoped_pdu_def enc_seq_def enc_oct_def)
  have msg: "msg = raw_message a (auth_field hmacf a pp md) pp md"
    using encode_message_raw [OF e md dig f] md by simp
  have fm: "fits (raw_message a (auth_field hmacf a pp md) pp md)"
    by (rule f [OF _ md]) (simp add: auth_field_def)
  have fb: "fits ?sb"
  proof (cases "ma_flags a AND FLAG_PRIV = 0")
    case True
    then have "md = tlv SEQUENCE ?sb" using md s' by (simp add: no_priv_data)
    then show ?thesis using fm unfolding raw_message_parts by (blast dest: fits_parts)
  next
    case False
    with md obtain k b t ct where k: "aes128_cfb_encrypt (take 16 k) (b @ t @ salt) (tlv SEQUENCE ?sb) = Inr ct"
        "md = enc_oct ct"
      by (auto simp: encode_msg_data_def s' bindR_eq_Inr split: option.splits)
    have "fits ct"
      using fm unfolding raw_message_parts k(2) enc_oct_def by (blast dest: fits_parts)
    moreover have "length ct = length (tlv SEQUENCE ?sb)"
    proof -
      have ne: "tlv SEQUENCE ?sb \<noteq> []" by (simp add: tlv_def)
      have iv: "length (b @ t @ salt) = 16"
        using k(1) by (auto simp: aes128_cfb_encrypt_def split: if_splits)
      have "length (take 16 k) = 16" using cfb_bad_key [OF _ iv ne] k(1) by fastforce
      from cfb_encrypt_returns [OF this iv, of "tlv SEQUENCE ?sb"] k(1) show ?thesis by auto
    qed
    ultimately have "fits (tlv SEQUENCE ?sb)" by (auto intro: fits_mono)
    then show ?thesis by (rule fits_tlv)
  qed
  obtain mt mv where m: "md = tlv mt mv"
      "scoped_body_of (ma_priv_key a) (ma_flags a) (ma_boots a) (ma_engine_time a) pp (mt, mv) = Inr ?sb"
    using encode_msg_data_decodes [OF md s' fb] by blast
  have au: "verify_digest hmacf (ma_auth_hash a) (ma_auth_key a)
      (raw_message a (auth_field hmacf a pp md) pp (tlv mt mv)) (auth_field hmacf a pp md) = Inr ()"
    if flag: "ma_flags a AND FLAG_AUTH \<noteq> 0"
  proof -
    from flag e md obtain k where "ma_auth_key a = Some k"
      by (cases "ma_auth_key a") (auto simp: encode_message_def Let_def)
    with verify_own_digest [OF flag this dig fm] show ?thesis by (simp add: m(1))
  qed
  show ?thesis
    unfolding msg m(1)
    by (intro exI, rule decode_raw [OF fm [unfolded m(1)] _ m(2) fb]) (use au m(1) in auto)
qed

section \<open>Sizes\<close>

text \<open>The bounds under which every length of a message can be stated: what a UDP datagram can
  carry, and 32-bit numbers.\<close>

definition small_args :: "message_args \<Rightarrow> bool" where
  "small_args a = (length (ma_engine_id a) \<le> 65507 \<and> length (ma_username a) \<le> 65507 \<and>
     length (ma_scoped_pdu a) \<le> 65507 \<and> \<bar>ma_msg_id a\<bar> < 2 ^ 32 \<and> \<bar>ma_boots a\<bar> < 2 ^ 32 \<and>
     \<bar>ma_engine_time a\<bar> < 2 ^ 32)"

definition keys_present :: "byte list \<Rightarrow> message_args \<Rightarrow> bool" where
  "keys_present salt a =
     ((ma_flags a AND FLAG_AUTH \<noteq> 0 \<longrightarrow> ma_auth_key a \<noteq> None) \<and>
      (ma_flags a AND FLAG_PRIV \<noteq> 0 \<longrightarrow>
         (case ma_priv_key a of None \<Rightarrow> False | Some k \<Rightarrow> 16 \<le> length k) \<and>
         0 \<le> ma_boots a \<and> 0 \<le> ma_engine_time a \<and> length salt = PRIV_PARAM_LEN))"

lemma length_encode_length: "n < 256 ^ 8 \<Longrightarrow> length (encode_length n) \<le> 9"
  using byte_size_least [of n 8] by (simp add: encode_length_def Let_def)

lemma length_tlv_le: "length v < 256 ^ 8 \<Longrightarrow> length (tlv t v) \<le> length v + 10"
  using length_encode_length [of "length v"] by (simp add: tlv_def)

lemma bit_length_le: "n < 2 ^ k \<Longrightarrow> bit_length n \<le> k"
proof (rule ccontr)
  assume n: "n < 2 ^ k" "\<not> bit_length n \<le> k"
  then have "0 < n" by (cases n) (simp_all add: bit_length.simps [of 0])
  then have "2 ^ bit_length n \<le> 2 * n" by (rule bit_length_lower)
  moreover have "(2 :: nat) ^ Suc k \<le> 2 ^ bit_length n"
    using n(2) by (intro power_increasing) auto
  ultimately show False using n(1) by simp
qed

lemma length_int_body: "\<bar>v\<bar> < 2 ^ 32 \<Longrightarrow> length (int_body v) \<le> 5"
proof -
  assume v: "\<bar>v\<bar> < 2 ^ 32"
  then have "nat v < 2 ^ 32" "nat (- v) < 2 ^ 32" by auto
  then have "bit_length (nat v) \<le> 32" "bit_length (nat (- v)) \<le> 32" by (auto intro: bit_length_le)
  then have "byte_size (nat v) \<le> 4" "(bit_length (nat (- v)) + 8) div 8 \<le> 5"
    by (simp_all add: byte_size_def)
  then show ?thesis by (simp add: int_body_def Let_def)
qed

lemma length_enc_int: "\<bar>v\<bar> < 2 ^ 32 \<Longrightarrow> length (enc_int v) \<le> 15"
  using length_int_body [of v] length_tlv_le [of "int_body v" INTEGER] by (simp add: enc_int_def)

lemma length_enc_oct: "length v \<le> 100000 \<Longrightarrow> length (enc_oct v) \<le> length v + 10"
  using length_tlv_le [of v OCTET_STRING] by (simp add: enc_oct_def)

lemma encode_msg_data_length:
  assumes "encode_msg_data salt a = Inr (md, pp)" "length (ma_scoped_pdu a) \<le> 65507"
    "keys_present salt a"
  shows "length md \<le> 65517 \<and> length pp \<le> 8"
proof (cases "ma_flags a AND FLAG_PRIV = 0")
  case True
  with assms show ?thesis by (simp add: no_priv_data)
next
  case False
  with assms obtain b t k ct where
    k: "ma_priv_key a = Some k" "16 \<le> length k" and
    ct: "aes128_cfb_encrypt (take 16 k) (b @ t @ salt) (ma_scoped_pdu a) = Inr ct" and
    md: "md = enc_oct ct" "pp = salt"
    by (auto simp: encode_msg_data_def keys_present_def bindR_eq_Inr split: option.splits)
  have "length (b @ t @ salt) = 16"
    using ct by (auto simp: aes128_cfb_encrypt_def split: if_splits)
  from cfb_encrypt_returns [OF _ this, of "take 16 k" "ma_scoped_pdu a"] k ct
  have "length ct = length (ma_scoped_pdu a)" by (simp add: min_absorb2)
  with assms(2,3) False md length_enc_oct [of ct] show ?thesis
    by (simp add: keys_present_def PRIV_PARAM_LEN_def)
qed

lemma raw_message_fits:
  assumes s: "small_args a" and k: "keys_present salt a"
    and md: "encode_msg_data salt a = Inr (md, pp)" and ap: "length ap \<le> AUTH_PARAM_LEN"
  shows "fits (raw_message a ap pp md)"
proof -
  have l: "length md \<le> 65517" "length pp \<le> 8"
    using encode_msg_data_length [OF md _ k] s by (auto simp: small_args_def)
  have ints: "length (enc_int (ma_msg_id a)) \<le> 15" "length (enc_int (ma_boots a)) \<le> 15"
      "length (enc_int (ma_engine_time a)) \<le> 15" "length (enc_int MAX_MESSAGE_SIZE) \<le> 15"
      "length (enc_int USM_SECURITY_MODEL) \<le> 15" "length (enc_int SNMP_VERSION_3) \<le> 15"
    using s by (auto simp: small_args_def MAX_MESSAGE_SIZE_def USM_SECURITY_MODEL_def
        SNMP_VERSION_3_def intro!: length_enc_int)
  have octs: "length (enc_oct (ma_engine_id a)) \<le> 65517" "length (enc_oct (ma_username a)) \<le> 65517"
      "length (enc_oct ap) \<le> 22" "length (enc_oct pp) \<le> 18" "length (enc_oct [ma_flags a]) \<le> 11"
    using s ap l length_enc_oct [of "ma_engine_id a"] length_enc_oct [of "ma_username a"]
      length_enc_oct [of ap] length_enc_oct [of pp] length_enc_oct [of "[ma_flags a]"]
    by (auto simp: small_args_def AUTH_PARAM_LEN_def)
  have gd: "length (global_data a) \<le> 66"
    unfolding global_data_def enc_seq_def
    using ints octs by (intro order_trans [OF length_tlv_le]) auto
  have sp: "length (security_params a ap pp) \<le> 131114"
    unfolding security_params_def enc_seq_def
    using ints octs by (intro order_trans [OF length_tlv_le]) auto
  have so: "length (enc_oct (security_params a ap pp)) \<le> 131124"
    unfolding enc_oct_def using sp by (intro order_trans [OF length_tlv_le]) auto
  have "length (raw_message a ap pp md) \<le> 196732"
    unfolding raw_message_def enc_seq_def
    using ints gd so l by (intro order_trans [OF length_tlv_le]) auto
  also have "(196732 :: nat) < 256 ^ 127" by simp
  finally show ?thesis by (simp only: fits_def)
qed

lemma encode_message_returns:
  assumes s: "small_args a" and k: "keys_present salt a"
  shows "\<exists>msg. encode_message hmacf salt a = Inr msg"
proof -
  have "\<exists>r. encode_msg_data salt a = Inr r"
  proof (cases "ma_flags a AND FLAG_PRIV = 0")
    case False
    with k s obtain key where key: "ma_priv_key a = Some key" "16 \<le> length key"
        "length salt = 8" and
      b: "to_bytes4 (ma_boots a) = Inr (to_be 4 (nat (ma_boots a)))"
        "to_bytes4 (ma_engine_time a) = Inr (to_be 4 (nat (ma_engine_time a)))"
      by (auto simp: keys_present_def small_args_def to_bytes4_def PRIV_PARAM_LEN_def
          split: option.splits)
    have "\<exists>ct. aes128_cfb_encrypt (take 16 key)
        (to_be 4 (nat (ma_boots a)) @ to_be 4 (nat (ma_engine_time a)) @ salt) (ma_scoped_pdu a) = Inr ct"
      using cfb_encrypt_returns [of "take 16 key" "to_be 4 (nat (ma_boots a)) @
        to_be 4 (nat (ma_engine_time a)) @ salt" "ma_scoped_pdu a"] key
      by (auto simp: min_absorb2)
    with False key b show ?thesis by (auto simp: encode_msg_data_def)
  qed (simp add: no_priv_data)
  then obtain md pp where md: "encode_msg_data salt a = Inr (md, pp)" by auto
  have "fits (raw_message a (replicate AUTH_PARAM_LEN 0) pp md)"
    by (rule raw_message_fits [OF s k md]) simp
  then have "auth_params_offset (raw_message a (replicate AUTH_PARAM_LEN 0) pp md) =
      Inr (length (auth_prefix a AUTH_PARAM_LEN pp md))"
    using auth_params_offset_raw by fastforce
  with md k show ?thesis
    by (cases "ma_auth_key a") (auto simp: encode_message_def Let_def keys_present_def)
qed

lemma request_pdu_body:
  assumes "list_all valid_arcs arcss"
  shows "\<exists>bodies. enc_request_pdu tag rid (map dotted arcss) =
      Inr (tlv tag (pdu_body rid 0 0 (map (\<lambda>b. (b, NULL, [])) bodies))) \<and>
    map parse_oid bodies = map dotted arcss"
proof -
  have "\<exists>bodies. mapR (\<lambda>oid. bindR (enc_oid oid) (\<lambda>e. Inr (enc_seq [e, enc_null]))) (map dotted arcss) =
      Inr (map (\<lambda>b. tlv SEQUENCE (tlv OBJECT_IDENTIFIER b @ tlv NULL [])) bodies) \<and>
    map parse_oid bodies = map dotted arcss"
    using assms
  proof (induction arcss)
    case (Cons x xs)
    obtain b where b: "enc_oid (dotted x) = Inr (tlv OBJECT_IDENTIFIER b)" "parse_oid b = dotted x"
      using enc_oid_parse_oid Cons.prems by auto
    obtain bs where bs: "mapR (\<lambda>oid. bindR (enc_oid oid) (\<lambda>e. Inr (enc_seq [e, enc_null]))) (map dotted xs) =
        Inr (map (\<lambda>b. tlv SEQUENCE (tlv OBJECT_IDENTIFIER b @ tlv NULL [])) bs)"
        "map parse_oid bs = map dotted xs"
      using Cons by auto
    show ?case using b bs
      by (intro exI [of _ "b # bs"]) (simp add: enc_seq_def enc_null_def)
  qed simp
  then obtain bodies where
    b: "mapR (\<lambda>oid. bindR (enc_oid oid) (\<lambda>e. Inr (enc_seq [e, enc_null]))) (map dotted arcss) =
      Inr (map (\<lambda>b. tlv SEQUENCE (tlv OBJECT_IDENTIFIER b @ tlv NULL [])) bodies)"
      "map parse_oid bodies = map dotted arcss" by blast
  then show ?thesis
    by (intro exI [of _ bodies])
      (simp add: enc_request_pdu_def pdu_body_def enc_seq_def comp_def)
qed

lemma decode_value_null [simp]: "decode_value NULL v = VNone"
  by (simp add: decode_value_def tag_defs)

section \<open>Properties\<close>

text \<open>C17: An SNMPv3 message (of any security level, with the keys its flags need and arguments of
  datagram size) is encoded without an error, and decoding it with the same keys - verifying the
  digest, decrypting the scoped PDU - returns every field that was encoded: ids, flags, engine id,
  boots, time, user, context, PDU type, error fields and the varbinds.\<close>

theorem message_round_trip:
  assumes "small_args a" "keys_present salt a"
    and "ma_scoped_pdu a = encode_scoped_pdu ce cn (tlv pt (pdu_body rid es ei vbs))"
    and "\<And>k m. AUTH_PARAM_LEN \<le> length (hmacf (ma_auth_hash a) k m)"
  shows "\<exists>msg ap pp. encode_message hmacf salt a = Inr msg \<and>
    decode_message hmacf (ma_priv_key a) (ma_auth_key a) (ma_auth_hash a) verify msg =
      Inr (parsed_of a ap pp ce cn pt rid es ei vbs)"
proof -
  obtain msg where msg: "encode_message hmacf salt a = Inr msg"
    using encode_message_returns [OF assms(1,2)] by blast
  have "\<exists>ap pp. decode_message hmacf (ma_priv_key a) (ma_auth_key a) (ma_auth_hash a) verify msg =
      Inr (parsed_of a ap pp ce cn pt rid es ei vbs)"
    by (rule message_decodes [OF msg assms(3) _ assms(4)])
      (rule raw_message_fits [OF assms(1,2)])
  with msg show ?thesis by blast
qed

definition sample_args :: message_args where
  "sample_args = \<lparr> ma_msg_id = 7, ma_engine_id = [128, 1], ma_boots = 3, ma_engine_time = 1000,
     ma_username = str_bytes ''nms'', ma_flags = 7,
     ma_scoped_pdu = encode_scoped_pdu [128, 1] [] (tlv GET_REQUEST (pdu_body 42 0 0 [])),
     ma_auth_key = Some [1], ma_auth_hash = ''sha1'', ma_priv_key = Some (replicate 16 9) \<rparr>"

lemma sample_args_ok:
  "small_args sample_args" "keys_present (replicate 8 0) sample_args"
  by (simp_all add: small_args_def keys_present_def sample_args_def str_bytes_def FLAG_AUTH_def
      FLAG_PRIV_def PRIV_PARAM_LEN_def encode_scoped_pdu_def enc_seq_def enc_oct_def tlv_def
      pdu_body_def enc_int_def int_body_def encode_length_def byte_size_def bit_length.simps)

theorem message_round_trip_witness:
  "\<exists>msg ap pp. encode_message (\<lambda>h k m. replicate 20 (of_nat (length m))) (replicate 8 0) sample_args = Inr msg \<and>
    decode_message (\<lambda>h k m. replicate 20 (of_nat (length m))) (Some (replicate 16 9)) (Some [1]) ''sha1'' True msg =
      Inr (parsed_of sample_args ap pp [128, 1] [] GET_REQUEST 42 0 0 [])"
  using message_round_trip [OF sample_args_ok, of "[128, 1]" "[]" GET_REQUEST 42 0 0 "[]"
      "\<lambda>h k m. replicate 20 (of_nat (length m))" True]
  by (simp add: sample_args_def AUTH_PARAM_LEN_def)

text \<open>A GET or GETNEXT request for any list of valid OIDs is readable by the other end: the
  PDU the engine builds is the encoding whose varbinds decode to exactly those OIDs, in order, with
  null values, under the request id and tag given.\<close>

theorem request_round_trip:
  assumes "list_all valid_arcs arcss" "small_args a" "keys_present salt a"
    and "enc_request_pdu tag rid (map dotted arcss) = Inr pdu"
    and "ma_scoped_pdu a = encode_scoped_pdu ce cn pdu"
    and "\<And>k m. AUTH_PARAM_LEN \<le> length (hmacf (ma_auth_hash a) k m)"
  shows "\<exists>msg pm. encode_message hmacf salt a = Inr msg \<and>
    decode_message hmacf (ma_priv_key a) (ma_auth_key a) (ma_auth_hash a) verify msg = Inr pm \<and>
    pm_varbinds pm = map (\<lambda>arcs. (dotted arcs, VNone)) arcss \<and> pm_request_id pm = rid \<and>
    pm_pdu_tag pm = tag \<and> pm_msg_id pm = ma_msg_id a"
proof -
  obtain bodies where b: "pdu = tlv tag (pdu_body rid 0 0 (map (\<lambda>b. (b, NULL, [])) bodies))"
      "map parse_oid bodies = map dotted arcss"
    using request_pdu_body [OF assms(1), of tag rid] assms(4) by auto
  obtain msg where msg: "encode_message hmacf salt a = Inr msg"
    using encode_message_returns [OF assms(2,3)] by blast
  obtain ap pp where "decode_message hmacf (ma_priv_key a) (ma_auth_key a) (ma_auth_hash a) verify msg =
      Inr (parsed_of a ap pp ce cn tag rid 0 0 (map (\<lambda>b. (b, NULL, [])) bodies))"
    using message_decodes [OF msg assms(5) [unfolded b(1)] raw_message_fits [OF assms(2,3)] assms(6)]
    by blast
  moreover have "map (\<lambda>b. (parse_oid b, VNone)) bodies = map (\<lambda>arcs. (dotted arcs, VNone)) arcss"
    using arg_cong [OF b(2), of "map (\<lambda>s. (s, VNone))"] by (simp add: comp_def)
  ultimately show ?thesis
    using msg by (intro exI [of _ msg] exI [of _ "parsed_of a ap pp ce cn tag rid 0 0
      (map (\<lambda>b. (b, NULL, [])) bodies)"]) (simp add: parsed_of_def comp_def)
qed

definition sample_request :: "byte list" where
  "sample_request = [160, 24, 2, 1, 42, 2, 1, 0, 2, 1, 0, 48, 13, 48, 11, 6, 7, 43, 6, 1, 2, 1, 1, 1, 5, 0]"

lemma sample_request:
  "enc_request_pdu GET_REQUEST 42 [dotted [1, 3, 6, 1, 2, 1, 1, 1]] = Inr sample_request"
proof -
  have b: "base128 43 = Inr [43]" "base128 6 = Inr [6]" "base128 1 = Inr [1]" "base128 2 = Inr [2]"
    using base128_loop_nat [of 43 "[]"] base128_loop_nat [of 6 "[]"] base128_loop_nat [of 1 "[]"]
      base128_loop_nat [of 2 "[]"]
    by (simp_all add: base128_def groups128.simps [of 43] groups128.simps [of 6] groups128.simps [of "Suc 0"]
        groups128.simps [of 2] groups128.simps [of 0] mark_groups_def)
  have "enc_oid (dotted [1, 3, 6, 1, 2, 1, 1, 1]) = Inr [6, 7, 43, 6, 1, 2, 1, 1, 1]"
    by (simp add: enc_oid_def oid_parts_dotted b [simplified] tlv_def encode_length_def tag_defs)
  then show ?thesis
    by (simp add: enc_request_pdu_def sample_request_def enc_seq_def enc_null_def tlv_def enc_int_def
        int_body_def encode_length_def byte_size_def bit_length.simps tag_defs)
qed

theorem request_round_trip_witness:
  "\<exists>msg pm. encode_message (\<lambda>h k m. replicate 20 0) []
      (sample_args \<lparr> ma_flags := FLAG_AUTH, ma_scoped_pdu := encode_scoped_pdu [] [] sample_request \<rparr>) = Inr msg \<and>
    decode_message (\<lambda>h k m. replicate 20 0) (Some (replicate 16 9)) (Some [1]) ''sha1'' True msg = Inr pm \<and>
    pm_varbinds pm = map (\<lambda>arcs. (dotted arcs, VNone)) [[1, 3, 6, 1, 2, 1, 1, 1]] \<and> pm_request_id pm = 42 \<and>
    pm_pdu_tag pm = GET_REQUEST \<and> pm_msg_id pm = 7"
proof -
  let ?a = "sample_args \<lparr> ma_flags := FLAG_AUTH, ma_scoped_pdu := encode_scoped_pdu [] [] sample_request \<rparr>"
  have v: "list_all valid_arcs [[1, 3, 6, 1, 2, 1, 1, 1]]" by (simp add: valid_arcs_def)
  have small: "small_args ?a"
    by (simp add: small_args_def sample_args_def sample_request_def encode_scoped_pdu_def
        str_bytes_def enc_seq_def enc_oct_def tlv_def encode_length_def)
  have keys: "keys_present [] ?a"
    by (simp add: keys_present_def sample_args_def FLAG_AUTH_def FLAG_PRIV_def)
  show ?thesis
    using request_round_trip [OF v small keys, of GET_REQUEST 42 sample_request "[]" "[]"
        "\<lambda>h k m. replicate 20 0" True] sample_request
    by (simp add: sample_args_def AUTH_PARAM_LEN_def)
qed

text \<open>C18: With verification on, a message whose authentication flag is set is accepted only if its
  authentication parameters are the truncated HMAC, under the key of the receiver, of the message
  with those 12 bytes zeroed; without a key it is refused.\<close>

theorem accepted_digest:
  assumes "decode_message hmacf pk ak h True data = Inr m" "pm_flags m AND FLAG_AUTH \<noteq> 0"
  shows "\<exists>key off. ak = Some key \<and> auth_params_offset data = Inr off \<and>
    pm_auth_params m = take AUTH_PARAM_LEN (hmacf h key
      (take off data @ replicate AUTH_PARAM_LEN 0 @ drop (off + AUTH_PARAM_LEN) data))"
proof -
  have "verify_digest hmacf h ak data (pm_auth_params m) = Inr ()"
    using assms by (auto simp: decode_message_def bindR_eq_Inr dest: decode_payload_fields
        split: if_split_asm)
  then show ?thesis
    by (auto simp: verify_digest_def bindR_eq_Inr Let_def split: option.splits if_splits)
qed

lemma sample_decodes:
  assumes "small_args a" "keys_present salt a"
    and "ma_scoped_pdu a = encode_scoped_pdu [128, 1] [] (tlv GET_REQUEST (pdu_body 42 0 0 []))"
  shows "\<exists>msg ap pp. decode_message (\<lambda>h k m. replicate 20 (of_nat (length m))) (ma_priv_key a)
      (ma_auth_key a) (ma_auth_hash a) verify msg = Inr (parsed_of a ap pp [128, 1] [] GET_REQUEST 42 0 0 [])"
proof -
  let ?h = "\<lambda>h k m. replicate 20 (of_nat (length m)) :: byte list"
  obtain msg where msg: "encode_message ?h salt a = Inr msg"
    using encode_message_returns [OF assms(1,2)] by blast
  from message_decodes [OF msg assms(3) raw_message_fits [OF assms(1,2)]] show ?thesis
    by (simp add: AUTH_PARAM_LEN_def) blast
qed

theorem accepted_digest_witness:
  "\<exists>data m key off. decode_message (\<lambda>h k m. replicate 20 (of_nat (length m))) (Some (replicate 16 9))
      (Some [1]) ''sha1'' True data = Inr m \<and> key = [1] \<and> auth_params_offset data = Inr off \<and>
    pm_auth_params m = take AUTH_PARAM_LEN (replicate 20 (of_nat (length
      (take off data @ replicate AUTH_PARAM_LEN (0 :: byte) @ drop (off + AUTH_PARAM_LEN) data))))"
proof -
  obtain msg ap pp where d: "decode_message (\<lambda>h k m. replicate 20 (of_nat (length m)))
      (Some (replicate 16 9)) (Some [1]) ''sha1'' True msg =
      Inr (parsed_of sample_args ap pp [128, 1] [] GET_REQUEST 42 0 0 [])"
    using sample_decodes [OF sample_args_ok, of True] by (auto simp: sample_args_def)
  have "pm_flags (parsed_of sample_args ap pp [128, 1] [] GET_REQUEST 42 0 0 []) AND FLAG_AUTH \<noteq> 0"
    by (simp add: parsed_of_def sample_args_def FLAG_AUTH_def)
  from accepted_digest [OF d this] d show ?thesis by blast
qed

text \<open>C27: The flags are read from the message itself: a message that decodes with the
  authentication flag clear is accepted with verification on exactly as with verification off,
  whatever the key and hash of the receiver - also by an engine whose security level demands
  authentication.\<close>

theorem clear_flag_skips_verification:
  assumes "decode_message hmacf pk ak h False data = Inr m" "pm_flags m AND FLAG_AUTH = 0"
  shows "decode_message hmacf' pk ak' h' True data = Inr m"
proof -
  obtain hdr where hdr: "decode_header data = Inr hdr" "decode_payload pk hdr = Inr m"
    using assms(1) by (auto simp: decode_message_def bindR_eq_Inr)
  then have "mh_flags hdr AND FLAG_AUTH = 0" using decode_payload_fields assms(2) by metis
  with hdr show ?thesis by (simp add: decode_message_def)
qed

theorem clear_flag_skips_verification_witness:
  "\<exists>data m. decode_message (\<lambda>h k m. replicate 20 0) (Some (replicate 16 9)) (Some [1]) ''sha1'' True data = Inr m \<and>
    pm_request_id m = 42"
proof -
  let ?a = "sample_args \<lparr> ma_flags := FLAG_REPORTABLE \<rparr>"
  have "small_args ?a" "keys_present [] ?a"
    using sample_args_ok(1)
    by (simp_all add: small_args_def keys_present_def FLAG_REPORTABLE_def FLAG_AUTH_def FLAG_PRIV_def)
  from sample_decodes [OF this, of False] obtain data ap pp where
    d: "decode_message (\<lambda>h k m. replicate 20 (of_nat (length m))) (Some (replicate 16 9)) (Some [1])
        ''sha1'' False data = Inr (parsed_of ?a ap pp [128, 1] [] GET_REQUEST 42 0 0 [])"
    by (auto simp: sample_args_def)
  have "pm_flags (parsed_of ?a ap pp [128, 1] [] GET_REQUEST 42 0 0 []) AND FLAG_AUTH = 0"
    by (simp add: parsed_of_def FLAG_REPORTABLE_def FLAG_AUTH_def)
  from clear_flag_skips_verification [OF d this, of "\<lambda>h k m. replicate 20 0" "Some [1]" "''sha1''"]
  show ?thesis
    by (intro exI [of _ data] exI [of _ "parsed_of ?a ap pp [128, 1] [] GET_REQUEST 42 0 0 []"])
      (simp add: parsed_of_def)
qed

end
