(* ===== verification/Snmp_Engine.thy ===== *)
theory Snmp_Engine
  imports Snmp_Message
begin

text \<open>
  Model of the class \<open>SnmpV3Engine\<close> of \<open>ingest/snmp_engine.py\<close>: its state, engine
  discovery, the request/response exchange with its time window, and \<open>get\<close>,
  \<open>getnext\<close> and \<open>walk\<close>.

  The operations are state-passing actions on the engine together with the network. The network
  is what the sockets will do: for every attempt (one socket each) the list of events on it, a
  datagram with the monotonic clock at its arrival, or a socket error; when the list ends nothing
  more arrives and the socket times out at the deadline. The clock moves only while the engine
  waits on a socket. \<open>os.urandom\<close> supplies the salt of a message from a list of salts.
\<close>

section \<open>The network\<close>

datatype net_event = Datagram rat "byte list" | SocketError rat

record net =
  net_clock :: rat
  net_attempts :: "net_event list list"
  net_salts :: "byte list list"
  net_sent :: "byte list list"

datatype recv_outcome = Found "byte list" rat | NoMatch rat | RecvFailed rat

text \<open>The inner loop of \<open>_send_recv\<close>: a datagram that does not parse, or that carries another
  msgID, is dropped.\<close>

fun recv_loop :: "int \<Rightarrow> rat \<Rightarrow> rat \<Rightarrow> net_event list \<Rightarrow> recv_outcome" where
  "recv_loop expected deadline now events =
     (if deadline - now \<le> 0 then NoMatch now
      else (case events of
          [] \<Rightarrow> RecvFailed deadline
        | SocketError t # _ \<Rightarrow> RecvFailed (min t deadline)
        | Datagram t data # rest \<Rightarrow>
            if deadline < t then RecvFailed deadline
            else (case peek_msg_id data of
                Inr m \<Rightarrow> if m = expected then Found data t else recv_loop expected deadline t rest
              | Inl _ \<Rightarrow> recv_loop expected deadline t rest)))"

declare recv_loop.simps [simp del]

definition attempt_events :: "net \<Rightarrow> net_event list" where
  "attempt_events nt = (case net_attempts nt of [] \<Rightarrow> [] | evs # _ \<Rightarrow> evs)"

definition attempt_sent :: "byte list \<Rightarrow> net \<Rightarrow> net" where
  "attempt_sent message nt =
     nt \<lparr> net_attempts := tl (net_attempts nt), net_sent := net_sent nt @ [message] \<rparr>"

fun send_attempts :: "nat \<Rightarrow> rat \<Rightarrow> byte list \<Rightarrow> int \<Rightarrow> (net, byte list) act" where
  "send_attempts 0 timeout message expected nt = (Inl (SnmpError ''no SNMP response''), nt)"
| "send_attempts (Suc k) timeout message expected nt =
     (case recv_loop expected (net_clock nt + timeout) (net_clock nt) (attempt_events nt) of
        Found data t \<Rightarrow> (Inr data, attempt_sent message nt \<lparr> net_clock := t \<rparr>)
      | NoMatch t \<Rightarrow> send_attempts k timeout message expected (attempt_sent message nt \<lparr> net_clock := t \<rparr>)
      | RecvFailed t \<Rightarrow>
          send_attempts k timeout message expected (attempt_sent message nt \<lparr> net_clock := t \<rparr>))"

section \<open>The engine\<close>

record engine =
  eg_username :: "byte list"
  eg_level :: string
  eg_auth_key :: "byte list"
  eg_priv_key :: "byte list"
  eg_context_name :: "byte list"
  eg_timeout :: rat
  eg_retries :: nat
  eg_auth_hash :: string
  eg_context_engine_id :: "byte list"
  eg_engine_id :: "byte list"
  eg_boots :: int
  eg_engine_time :: int
  eg_ref :: "rat option"
  eg_localized_auth :: "byte list option"
  eg_localized_priv :: "byte list option"
  eg_msg_id :: int
  eg_req_id :: int
  eg_discovered :: bool

text \<open>\<open>__init__\<close>; \<open>rand_msg\<close> and \<open>rand_req\<close> are the two random ids.\<close>

definition init_engine ::
  "byte list \<Rightarrow> string \<Rightarrow> string \<Rightarrow> byte list \<Rightarrow> string \<Rightarrow> byte list \<Rightarrow> byte list \<Rightarrow> byte list \<Rightarrow>
   rat \<Rightarrow> nat \<Rightarrow> int \<Rightarrow> int \<Rightarrow> engine result" where
  "init_engine username level auth_protocol auth_key priv_protocol priv_key context_name
     context_engine_id timeout retries rand_msg rand_req =
     bindR (guardR (level \<in> {''noAuthNoPriv'', ''authNoPriv'', ''authPriv''})
              (SnmpError ''unknown security level'')) (\<lambda>_.
     bindR (guardR (level = ''noAuthNoPriv'' \<or> py_lower auth_protocol \<notin> {'''', ''none''})
              (SnmpError ''auth_protocol is required for authenticated levels'')) (\<lambda>_.
     bindR (guardR (level \<noteq> ''authPriv'' \<or> py_lower priv_protocol \<in> {''aes'', ''aes128''})
              (SnmpError ''only AES privacy is supported'')) (\<lambda>_.
     bindR (if level \<noteq> ''noAuthNoPriv'' then hash_name auth_protocol else Inr ''sha1'') (\<lambda>auth_hash.
       Inr \<lparr> eg_username = username, eg_level = level, eg_auth_key = auth_key,
             eg_priv_key = priv_key, eg_context_name = context_name, eg_timeout = timeout,
             eg_retries = retries, eg_auth_hash = auth_hash,
             eg_context_engine_id = context_engine_id, eg_engine_id = [], eg_boots = 0,
             eg_engine_time = 0, eg_ref = None, eg_localized_auth = None,
             eg_localized_priv = None, eg_msg_id = rand_msg, eg_req_id = rand_req,
             eg_discovered = False \<rparr>))))"

definition use_auth :: "engine \<Rightarrow> bool" where
  "use_auth e = (eg_level e \<in> {''authNoPriv'', ''authPriv''})"

definition use_priv :: "engine \<Rightarrow> bool" where
  "use_priv e = (eg_level e = ''authPriv'')"

definition engine_flags :: "engine \<Rightarrow> byte" where
  "engine_flags e = (FLAG_REPORTABLE OR (if use_auth e then FLAG_AUTH else 0)) OR
     (if use_priv e then FLAG_PRIV else 0)"

type_synonym 'a engine_act = "(engine \<times> net, 'a) act"

definition next_req_id :: "int engine_act" where
  "next_req_id = (\<lambda>(e, nt). let v = (eg_req_id e + 1) AND 0x7FFFFFFF
     in (Inr v, (e \<lparr> eg_req_id := v \<rparr>, nt)))"

definition next_msg_id :: "int engine_act" where
  "next_msg_id = (\<lambda>(e, nt). let v = (eg_msg_id e + 1) AND 0x7FFFFFFF
     in (Inr v, (e \<lparr> eg_msg_id := v \<rparr>, nt)))"

definition send_recv :: "byte list \<Rightarrow> int \<Rightarrow> byte list engine_act" where
  "send_recv message expected = (\<lambda>(e, nt).
     let (r, nt') = send_attempts (eg_retries e + 1) (eg_timeout e) message expected nt
     in (r, (e, nt')))"

definition take_salt :: "byte list engine_act" where
  "take_salt = (\<lambda>(e, nt). (Inr (case net_salts nt of [] \<Rightarrow> [] | s # _ \<Rightarrow> s),
     (e, nt \<lparr> net_salts := tl (net_salts nt) \<rparr>)))"

definition localize_keys :: "(string \<Rightarrow> byte list \<Rightarrow> byte list) \<Rightarrow> unit engine_act" where
  "localize_keys hashf =
     bindA (bindA (getA fst) (\<lambda>e. whenA (use_auth e)
       (bindA (liftA (password_to_key hashf (eg_auth_key e) (eg_engine_id e) (eg_auth_hash e))) (\<lambda>k.
          modifyA (apfst (eg_localized_auth_update (\<lambda>_. Some k))))))) (\<lambda>_.
     bindA (getA fst) (\<lambda>e. whenA (use_priv e)
       (bindA (liftA (password_to_key hashf (eg_priv_key e) (eg_engine_id e) (eg_auth_hash e))) (\<lambda>k.
          modifyA (apfst (eg_localized_priv_update (\<lambda>_. Some (take 16 k))))))))"

definition current_time :: "engine \<Rightarrow> rat \<Rightarrow> int" where
  "current_time e now =
     (case eg_ref e of None \<Rightarrow> eg_engine_time e
      | Some ref \<Rightarrow> min (eg_engine_time e + py_trunc (now - ref)) 2147483647)"

definition discover ::
  "(string \<Rightarrow> byte list \<Rightarrow> byte list) \<Rightarrow> (string \<Rightarrow> byte list \<Rightarrow> byte list \<Rightarrow> byte list) \<Rightarrow>
   unit engine_act" where
  "discover hashf hmacf =
     bindA (getA fst) (\<lambda>e0. if eg_discovered e0 then returnA () else
     bindA next_req_id (\<lambda>req_id.
     bindA next_msg_id (\<lambda>msg_id.
     bindA (liftA (enc_request_pdu GET_REQUEST req_id [SYS_DESCR])) (\<lambda>pdu.
     bindA (liftA (encode_message hmacf []
        \<lparr> ma_msg_id = msg_id, ma_engine_id = [], ma_boots = 0, ma_engine_time = 0,
          ma_username = [], ma_flags = FLAG_REPORTABLE,
          ma_scoped_pdu = encode_scoped_pdu [] [] pdu, ma_auth_key = None,
          ma_auth_hash = ''sha1'', ma_priv_key = None \<rparr>)) (\<lambda>message.
     bindA (send_recv message msg_id) (\<lambda>data.
     bindA (liftA (decode_message hmacf None None ''sha1'' False data)) (\<lambda>parsed.
     if pm_engine_id parsed = [] then
       failA (SnmpError ''engine discovery returned no authoritative engineID'')
     else
     bindA (modifyA (\<lambda>(e, nt). (e \<lparr> eg_engine_id := pm_engine_id parsed, eg_boots := pm_boots parsed,
        eg_engine_time := pm_engine_time parsed, eg_ref := Some (net_clock nt),
        eg_context_engine_id := (if eg_context_engine_id e = [] then pm_engine_id parsed
                                 else eg_context_engine_id e) \<rparr>, nt))) (\<lambda>_.
     bindA (localize_keys hashf) (\<lambda>_.
       modifyA (apfst (eg_discovered_update (\<lambda>_. True))))))))))))"

definition check_time_window :: "parsed_message \<Rightarrow> unit engine_act" where
  "check_time_window parsed = (\<lambda>(e, nt).
     if \<not> use_auth e then returnA () (e, nt)
     else if pm_boots parsed < eg_boots e then
       failA (SnmpError ''response is outside the time window (stale engine boots)'') (e, nt)
     else if pm_boots parsed = eg_boots e \<and>
        TIME_WINDOW_SECONDS < \<bar>pm_engine_time parsed - current_time e (net_clock nt)\<bar> then
       failA (SnmpError ''response is outside the time window (clock skew)'') (e, nt)
     else returnA () (e, nt))"

definition adopt_time :: "parsed_message \<Rightarrow> unit engine_act" where
  "adopt_time parsed = modifyA (\<lambda>(e, nt).
     if eg_boots e < pm_boots parsed \<or>
        (pm_boots parsed = eg_boots e \<and> eg_engine_time e < pm_engine_time parsed)
     then (e \<lparr> eg_boots := pm_boots parsed, eg_engine_time := pm_engine_time parsed,
              eg_ref := Some (net_clock nt) \<rparr>, nt)
     else (e, nt))"

definition request_args :: "engine \<Rightarrow> rat \<Rightarrow> int \<Rightarrow> byte list \<Rightarrow> message_args" where
  "request_args e now msg_id pdu =
     \<lparr> ma_msg_id = msg_id, ma_engine_id = eg_engine_id e, ma_boots = eg_boots e,
       ma_engine_time = current_time e now, ma_username = eg_username e,
       ma_flags = engine_flags e,
       ma_scoped_pdu = encode_scoped_pdu (eg_context_engine_id e) (eg_context_name e) pdu,
       ma_auth_key = eg_localized_auth e, ma_auth_hash = eg_auth_hash e,
       ma_priv_key = eg_localized_priv e \<rparr>"

text \<open>What \<open>_exchange\<close> does with the reply.\<close>

definition accept_reply ::
  "(string \<Rightarrow> byte list \<Rightarrow> byte list \<Rightarrow> byte list) \<Rightarrow> int \<Rightarrow> byte list \<Rightarrow> parsed_message engine_act" where
  "accept_reply hmacf req_id data =
     bindA (getA fst) (\<lambda>e.
     bindA (liftA (decode_message hmacf (eg_localized_priv e) (eg_localized_auth e) (eg_auth_hash e)
              (use_auth e) data)) (\<lambda>parsed.
     if pm_request_id parsed \<noteq> req_id then
       failA (SnmpError ''response request-id does not match the request'')
     else if pm_engine_id parsed \<noteq> [] \<and> pm_engine_id parsed \<noteq> eg_engine_id e then
       failA (SnmpError ''response came from a different authoritative engineID'')
     else
     bindA (check_time_window parsed) (\<lambda>_.
     bindA (adopt_time parsed) (\<lambda>_.
     if pm_error_status parsed \<noteq> 0 then failA (SnmpError ''SNMP error-status'')
     else returnA parsed))))"

definition exchange ::
  "(string \<Rightarrow> byte list \<Rightarrow> byte list) \<Rightarrow> (string \<Rightarrow> byte list \<Rightarrow> byte list \<Rightarrow> byte list) \<Rightarrow>
   byte \<Rightarrow> string list \<Rightarrow> parsed_message engine_act" where
  "exchange hashf hmacf pdu_tag oids =
     bindA (discover hashf hmacf) (\<lambda>_.
     bindA next_req_id (\<lambda>req_id.
     bindA next_msg_id (\<lambda>msg_id.
     bindA (liftA (enc_request_pdu pdu_tag req_id oids)) (\<lambda>pdu.
     bindA (getA (\<lambda>(e, nt). request_args e (net_clock nt) msg_id pdu)) (\<lambda>args.
     bindA (if ma_flags args AND FLAG_PRIV \<noteq> 0 then take_salt else returnA []) (\<lambda>salt.
     bindA (liftA (encode_message hmacf salt args)) (\<lambda>message.
     bindA (send_recv message msg_id) (\<lambda>data.
       accept_reply hmacf req_id data))))))))"

definition is_exception_value :: "snmp_value \<Rightarrow> bool" where
  "is_exception_value v = (v \<in> {VStr ''noSuchObject'', VStr ''noSuchInstance'', VStr ''endOfMibView''})"

definition snmp_get ::
  "(string \<Rightarrow> byte list \<Rightarrow> byte list) \<Rightarrow> (string \<Rightarrow> byte list \<Rightarrow> byte list \<Rightarrow> byte list) \<Rightarrow>
   string \<Rightarrow> snmp_value engine_act" where
  "snmp_get hashf hmacf oid =
     bindA (exchange hashf hmacf GET_REQUEST [oid]) (\<lambda>parsed.
       case pm_varbinds parsed of [] \<Rightarrow> failA (SnmpError ''empty GET response'')
       | (_, value) # _ \<Rightarrow> returnA (if is_exception_value value then VNone else value))"

definition snmp_getnext ::
  "(string \<Rightarrow> byte list \<Rightarrow> byte list) \<Rightarrow> (string \<Rightarrow> byte list \<Rightarrow> byte list \<Rightarrow> byte list) \<Rightarrow>
   string \<Rightarrow> (string \<times> snmp_value) engine_act" where
  "snmp_getnext hashf hmacf oid =
     bindA (exchange hashf hmacf GET_NEXT_REQUEST [oid]) (\<lambda>parsed.
       case pm_varbinds parsed of [] \<Rightarrow> failA (SnmpError ''empty GETNEXT response'')
       | vb # _ \<Rightarrow> returnA vb)"

section \<open>Walking a column\<close>

text \<open>The loop of \<open>walk\<close> over any GETNEXT operation; its bound is \<open>max_oids\<close>.\<close>

fun walk_loop ::
  "(string \<Rightarrow> ('s, string \<times> snmp_value) act) \<Rightarrow> nat \<Rightarrow> string \<Rightarrow> string \<Rightarrow>
   (string \<times> snmp_value) list \<Rightarrow> ('s, (string \<times> snmp_value) list) act" where
  "walk_loop getnext 0 prefix current out = failA (SnmpError ''walk exceeded the OID bound'')"
| "walk_loop getnext (Suc k) prefix current out =
     bindA (getnext current) (\<lambda>(oid, value).
       if value = VStr ''endOfMibView'' \<or> \<not> starts_with prefix oid \<or> oid = current then returnA out
       else walk_loop getnext k prefix oid
              (if value \<in> {VStr ''noSuchObject'', VStr ''noSuchInstance''} then out
               else AList.update (drop (length prefix) oid) value out))"

definition walk_column ::
  "(string \<Rightarrow> ('s, string \<times> snmp_value) act) \<Rightarrow> nat \<Rightarrow> string \<Rightarrow>
   ('s, (string \<times> snmp_value) list) act" where
  "walk_column getnext max_oids base_oid =
     (let base = strip_char (CHR ''.'') base_oid in walk_loop getnext max_oids (base @ ''.'') base [])"

definition snmp_walk ::
  "(string \<Rightarrow> byte list \<Rightarrow> byte list) \<Rightarrow> (string \<Rightarrow> byte list \<Rightarrow> byte list \<Rightarrow> byte list) \<Rightarrow>
   string \<Rightarrow> nat \<Rightarrow> (string \<times> snmp_value) list engine_act" where
  "snmp_walk hashf hmacf base_oid max_oids = walk_column (snmp_getnext hashf hmacf) max_oids base_oid"

section \<open>Receiving\<close>

lemma recv_loop_Found:
  "recv_loop expected deadline now events = Found data t \<Longrightarrow>
     peek_msg_id data = Inr expected \<and> Datagram t data \<in> set events \<and> t \<le> deadline"
proof (induction events arbitrary: now)
  case Nil
  then show ?case by (simp add: recv_loop.simps split: if_splits)
next
  case (Cons ev events)
  show ?case
  proof (cases ev)
    case (Datagram t' d')
    with Cons.prems consider "d' = data" "t' = t" "peek_msg_id data = Inr expected" "t \<le> deadline"
      | "recv_loop expected deadline t' events = Found data t"
      by (subst (asm) recv_loop.simps) (auto split: if_splits sum.splits)
    then show ?thesis
    proof cases
      case 1
      with Datagram show ?thesis by simp
    next
      case 2
      from Cons.IH [OF this] show ?thesis by simp
    qed
  next
    case (SocketError t')
    with Cons.prems show ?thesis by (subst (asm) recv_loop.simps) (simp split: if_splits)
  qed
qed

fun outcome_clock :: "recv_outcome \<Rightarrow> rat" where
  "outcome_clock (Found data t) = t"
| "outcome_clock (NoMatch t) = t"
| "outcome_clock (RecvFailed t) = t"

lemma recv_loop_clock:
  "now \<le> deadline \<Longrightarrow> outcome_clock (recv_loop expected deadline now events) \<le> deadline"
proof (induction events arbitrary: now)
  case (Cons ev events)
  then show ?case
    by (cases ev; subst recv_loop.simps) (auto split: sum.splits)
qed (simp add: recv_loop.simps)

lemma attempt_sent_simps [simp]:
  "net_clock (attempt_sent message nt) = net_clock nt"
  "net_attempts (attempt_sent message nt) = tl (net_attempts nt)"
  "net_sent (attempt_sent message nt) = net_sent nt @ [message]"
  by (simp_all add: attempt_sent_def)

lemma send_attempts_clock:
  assumes "0 \<le> timeout"
  shows "net_clock (snd (send_attempts k timeout message expected nt)) \<le> net_clock nt + of_nat k * timeout"
proof (induction k arbitrary: nt)
  case (Suc k)
  let ?out = "recv_loop expected (net_clock nt + timeout) (net_clock nt) (attempt_events nt)"
  have clk: "outcome_clock ?out \<le> net_clock nt + timeout"
    using assms by (intro recv_loop_clock) simp
  have "0 \<le> of_nat k * timeout" using assms by simp
  with clk Suc [of "attempt_sent message nt \<lparr> net_clock := outcome_clock ?out \<rparr>"] show ?case
    by (cases ?out) (simp_all add: distrib_right)
qed simp

lemma send_attempts_source:
  "fst (send_attempts k timeout message expected nt) = Inr data \<Longrightarrow>
     peek_msg_id data = Inr expected \<and>
     (\<exists>evs t. evs \<in> set (take k (net_attempts nt)) \<and> Datagram t data \<in> set evs)"
proof (induction k arbitrary: nt)
  case (Suc k)
  let ?out = "recv_loop expected (net_clock nt + timeout) (net_clock nt) (attempt_events nt)"
  let ?nt' = "attempt_sent message nt \<lparr> net_clock := outcome_clock ?out \<rparr>"
  have sub: "set (take k (tl (net_attempts nt))) \<subseteq> set (take (Suc k) (net_attempts nt))"
    by (cases "net_attempts nt") auto
  consider t where "?out = Found data t" | "fst (send_attempts k timeout message expected ?nt') = Inr data"
    using Suc.prems by (cases ?out) auto
  then show ?case
  proof cases
    case 1
    then have ev: "peek_msg_id data = Inr expected" "Datagram t data \<in> set (attempt_events nt)"
      using recv_loop_Found by blast+
    then have "attempt_events nt \<in> set (take (Suc k) (net_attempts nt))"
      by (cases "net_attempts nt") (auto simp: attempt_events_def)
    with ev show ?thesis by blast
  next
    case 2
    from Suc.IH [OF this] sub show ?thesis by auto
  qed
qed simp

lemma send_attempts_sent:
  "\<exists>n \<le> k. net_sent (snd (send_attempts k timeout message expected nt)) = net_sent nt @ replicate n message"
proof (induction k arbitrary: nt)
  case (Suc k)
  let ?out = "recv_loop expected (net_clock nt + timeout) (net_clock nt) (attempt_events nt)"
  obtain n where n: "n \<le> k" "net_sent (snd (send_attempts k timeout message expected
      (attempt_sent message nt \<lparr> net_clock := outcome_clock ?out \<rparr>))) = net_sent nt @ message # replicate n message"
    using Suc [of "attempt_sent message nt \<lparr> net_clock := outcome_clock ?out \<rparr>"] by auto
  show ?case
  proof (cases ?out)
    case (Found d t)
    then show ?thesis by (intro exI [of _ 1]) simp
  qed (use n in \<open>auto intro!: exI [of _ "Suc n"]\<close>)
qed simp

section \<open>What every operation keeps\<close>

text \<open>The configuration never changes. Once the engine id is known it never changes, and the pair
  of boots and time the engine keeps for it never goes back (lexicographically).\<close>

definition time_le :: "engine \<Rightarrow> engine \<Rightarrow> bool" where
  "time_le e e' = (eg_boots e < eg_boots e' \<or>
     (eg_boots e = eg_boots e' \<and> eg_engine_time e \<le> eg_engine_time e'))"

definition same_config :: "engine \<times> net \<Rightarrow> engine \<times> net \<Rightarrow> bool" where
  "same_config s s' = (eg_level (fst s') = eg_level (fst s) \<and>
     eg_auth_hash (fst s') = eg_auth_hash (fst s) \<and> eg_username (fst s') = eg_username (fst s) \<and>
     eg_retries (fst s') = eg_retries (fst s))"

definition engine_le :: "engine \<times> net \<Rightarrow> engine \<times> net \<Rightarrow> bool" where
  "engine_le s s' =
     (same_config s s' \<and>
      (eg_discovered (fst s) \<longrightarrow> eg_discovered (fst s') \<and>
         eg_engine_id (fst s') = eg_engine_id (fst s) \<and>
         eg_localized_auth (fst s') = eg_localized_auth (fst s) \<and> time_le (fst s) (fst s')))"

lemmas engine_rels = engine_le_def same_config_def time_le_def

interpretation cfg: state_preorder same_config
  by unfold_locales (auto simp: same_config_def)

interpretation eng: state_preorder engine_le
  by unfold_locales (auto simp: engine_rels)

named_theorems cfg_keeps \<open>operations that leave the configuration of the engine alone\<close>
named_theorems engine_keeps \<open>operations that keep the engine's identity and clock\<close>

lemmas [cfg_keeps] = cfg.keeps_pure cfg.keeps_bind cfg.keeps_when cfg.keeps_if
lemmas [engine_keeps] = eng.keeps_pure eng.keeps_bind eng.keeps_when eng.keeps_if

lemmas engine_steps = next_req_id_def next_msg_id_def take_salt_def send_recv_def
  check_time_window_def adopt_time_def Let_def act_defs

lemma steps_cfg [cfg_keeps]:
  "cfg.keeps next_req_id" "cfg.keeps next_msg_id" "cfg.keeps (send_recv message expected)"
  by (auto intro!: cfg.keepsI simp: engine_steps same_config_def split: prod.splits)

lemma steps_engine [engine_keeps]:
  "eng.keeps next_req_id" "eng.keeps next_msg_id" "eng.keeps take_salt"
  "eng.keeps (send_recv message expected)" "eng.keeps (check_time_window parsed)"
  "eng.keeps (adopt_time parsed)"
  by (auto intro!: eng.keepsI simp: engine_steps engine_rels split: prod.splits)

lemma localize_cfg [cfg_keeps]: "cfg.keeps (localize_keys hashf)"
  unfolding localize_keys_def
  by (intro cfg_keeps cfg.keeps_modify) (simp_all add: same_config_def)

text \<open>Discovery returns at once when it has succeeded before; otherwise the relation only asks that
  the configuration stays.\<close>

lemma discover_discovered:
  "eg_discovered (fst s) \<Longrightarrow> discover hashf hmacf s = (Inr (), s)"
  by (simp add: discover_def returnA_def)

lemma discover_cfg: "cfg.keeps (discover hashf hmacf)"
  unfolding discover_def
  by (intro cfg_keeps cfg.keeps_modify) (auto simp: same_config_def)

lemma discover_engine [engine_keeps]: "eng.keeps (discover hashf hmacf)"
proof (rule eng.keepsI)
  fix s :: "engine \<times> net"
  show "engine_le s (snd (discover hashf hmacf s))"
  proof (cases "eg_discovered (fst s)")
    case True
    then show ?thesis by (simp add: discover_discovered eng.refl)
  next
    case False
    with cfg.keepsD [OF discover_cfg, of s] show ?thesis by (simp add: engine_le_def)
  qed
qed

lemma accept_engine [engine_keeps]: "eng.keeps (accept_reply hmacf req_id data)"
  unfolding accept_reply_def by (intro engine_keeps)

lemma exchange_engine [engine_keeps]: "eng.keeps (exchange hashf hmacf tag oids)"
  unfolding exchange_def by (intro engine_keeps)

lemma get_engine [engine_keeps]: "eng.keeps (snmp_get hashf hmacf oid)"
  unfolding snmp_get_def by (intro engine_keeps) (auto split: list.splits intro!: engine_keeps)

lemma getnext_engine [engine_keeps]: "eng.keeps (snmp_getnext hashf hmacf oid)"
  unfolding snmp_getnext_def by (intro engine_keeps) (auto split: list.splits intro!: engine_keeps)

lemma walk_loop_engine:
  "(\<And>oid. eng.keeps (getnext oid)) \<Longrightarrow> eng.keeps (walk_loop getnext k prefix current out)"
proof (induction k arbitrary: current out)
  case (Suc k)
  show ?case
    unfolding walk_loop.simps
    by (rule eng.keeps_bind [OF Suc.prems]) (auto intro!: engine_keeps Suc)
qed (simp add: engine_keeps)

lemma walk_engine [engine_keeps]: "eng.keeps (snmp_walk hashf hmacf base max_oids)"
  unfolding snmp_walk_def walk_column_def Let_def by (intro walk_loop_engine engine_keeps)

section \<open>Accepting a reply\<close>

lemma liftA_eq_Inr: "liftA r s = (Inr x, s') \<longleftrightarrow> r = Inr x \<and> s' = s"
  by (auto simp: liftA_def)

lemma accept_reply_Inr:
  assumes "accept_reply hmacf req_id data s = (Inr parsed, s')"
  shows "decode_message hmacf (eg_localized_priv (fst s)) (eg_localized_auth (fst s))
      (eg_auth_hash (fst s)) (use_auth (fst s)) data = Inr parsed \<and>
    pm_request_id parsed = req_id \<and> pm_error_status parsed = 0 \<and>
    (pm_engine_id parsed = [] \<or> pm_engine_id parsed = eg_engine_id (fst s)) \<and>
    fst (check_time_window parsed s) = Inr ()"
proof -
  obtain e nt where s: "s = (e, nt)" by (cases s)
  show ?thesis
    using assms
    by (auto simp: accept_reply_def s bindA_eq_Inr liftA_eq_Inr failA_def returnA_def
        split: if_split_asm sum.splits)
qed

lemma window_checked:
  assumes "fst (check_time_window parsed (e, nt)) = Inr ()" "use_auth e"
  shows "eg_boots e \<le> pm_boots parsed \<and>
    (pm_boots parsed = eg_boots e \<longrightarrow>
       \<bar>pm_engine_time parsed - current_time e (net_clock nt)\<bar> \<le> TIME_WINDOW_SECONDS)"
  using assms by (auto simp: check_time_window_def failA_def returnA_def split: if_split_asm)

section \<open>Walking\<close>

text \<open>The successive replies of an agent from one OID on: rows of the column, then the reply that
  ends it (another column, \<open>endOfMibView\<close>, or no progress).\<close>

definition ends_column :: "string \<Rightarrow> string \<Rightarrow> string \<times> snmp_value \<Rightarrow> bool" where
  "ends_column prefix current vb =
     (snd vb = VStr ''endOfMibView'' \<or> \<not> starts_with prefix (fst vb) \<or> fst vb = current)"

inductive serves ::
  "(string \<Rightarrow> ('s, string \<times> snmp_value) act) \<Rightarrow> string \<Rightarrow> 's \<Rightarrow> string \<Rightarrow>
   (string \<times> snmp_value) list \<Rightarrow> 's \<Rightarrow> bool"
  for getnext prefix where
  serves_end: "getnext current s = (Inr vb, s') \<Longrightarrow> ends_column prefix current vb \<Longrightarrow>
     serves getnext prefix s current [] s'"
| serves_row: "getnext current s = (Inr vb, s') \<Longrightarrow> \<not> ends_column prefix current vb \<Longrightarrow>
     serves getnext prefix s' (fst vb) rows s'' \<Longrightarrow>
     serves getnext prefix s current (vb # rows) s''"

inductive_cases serves_NilE: "serves getnext prefix s current [] s'"
inductive_cases serves_ConsE: "serves getnext prefix s current (vb # rows) s'"

definition collect_row ::
  "string \<Rightarrow> (string \<times> snmp_value) list \<Rightarrow> string \<times> snmp_value \<Rightarrow> (string \<times> snmp_value) list" where
  "collect_row prefix out vb =
     (if snd vb \<in> {VStr ''noSuchObject'', VStr ''noSuchInstance''} then out
      else AList.update (drop (length prefix) (fst vb)) (snd vb) out)"

lemma walk_loop_step:
  "getnext current s = (Inr vb, s') \<Longrightarrow>
     walk_loop getnext (Suc k) prefix current out s =
       (if ends_column prefix current vb then (Inr out, s')
        else walk_loop getnext k prefix (fst vb) (collect_row prefix out vb) s')"
  by (cases vb) (auto simp: bindA_def ends_column_def collect_row_def returnA_def)

lemma serves_walk:
  "serves getnext prefix s current rows s' \<Longrightarrow> length rows < k \<Longrightarrow>
     walk_loop getnext k prefix current out s = (Inr (foldl (collect_row prefix) out rows), s')"
proof (induction arbitrary: k out rule: serves.induct)
  case (serves_end current s vb s')
  then show ?case by (cases k) (auto simp: walk_loop_step simp del: walk_loop.simps)
next
  case (serves_row current s vb s' rows s'')
  then show ?case by (cases k) (auto simp: walk_loop_step simp del: walk_loop.simps)
qed

lemma walk_serves:
  "walk_loop getnext k prefix current out s = (Inr res, s') \<Longrightarrow>
     \<exists>rows. serves getnext prefix s current rows s' \<and> length rows < k \<and>
       res = foldl (collect_row prefix) out rows"
proof (induction k arbitrary: current out s)
  case (Suc k)
  then obtain vb t where g: "getnext current s = (Inr vb, t)"
    by (auto simp: bindA_eq_Inr)
  show ?case
  proof (cases "ends_column prefix current vb")
    case True
    with Suc.prems g have "res = out" "s' = t" by (simp_all add: walk_loop_step del: walk_loop.simps)
    with g True show ?thesis by (auto intro!: exI [of _ "[]"] serves_end)
  next
    case False
    with Suc.prems g
    have "walk_loop getnext k prefix (fst vb) (collect_row prefix out vb) t = (Inr res, s')"
      by (simp add: walk_loop_step del: walk_loop.simps)
    from Suc.IH [OF this] obtain rows where "serves getnext prefix t (fst vb) rows s'" "length rows < k"
        "res = foldl (collect_row prefix) (collect_row prefix out vb) rows" by blast
    with g False show ?thesis
      by (intro exI [of _ "vb # rows"]) (simp add: serves_row)
  qed
qed (simp add: failA_def)

section \<open>Properties\<close>

lemma send_attempts_clock_max:
  "net_clock (snd (send_attempts k timeout message expected nt)) \<le> net_clock nt + of_nat k * max 0 timeout"
proof (cases "0 \<le> timeout")
  case True
  then show ?thesis using send_attempts_clock [of timeout k message expected nt] by (simp add: max_def)
next
  case False
  then have "net_clock (snd (send_attempts k timeout message expected nt)) = net_clock nt"
    by (induction k arbitrary: nt) (simp_all add: recv_loop.simps)
  with False show ?thesis by (simp add: max_def)
qed

text \<open>C22: Waiting for a reply is bounded and selective: whatever datagrams arrive, the call ends by
  the clock after at most one timeout per attempt, sends the request at most \<open>retries + 1\<close>
  times and nothing else, and either raises or returns a datagram that was received in one of those
  attempts and carries the expected msgID.\<close>

theorem send_recv_bounded:
  "(case send_recv message expected (e, nt) of (r, (e', nt')) \<Rightarrow>
     e' = e \<and> net_clock nt' \<le> net_clock nt + of_nat (eg_retries e + 1) * max 0 (eg_timeout e) \<and>
     (\<exists>n \<le> eg_retries e + 1. net_sent nt' = net_sent nt @ replicate n message) \<and>
     ((\<exists>err. r = Inl err) \<or>
      (\<exists>data evs t. r = Inr data \<and> peek_msg_id data = Inr expected \<and>
         evs \<in> set (take (eg_retries e + 1) (net_attempts nt)) \<and> Datagram t data \<in> set evs)))"
proof -
  define k where "k = eg_retries e + 1"
  obtain r nt' where r: "send_attempts k (eg_timeout e) message expected nt = (r, nt')"
    by fastforce
  have c: "net_clock nt' \<le> net_clock nt + of_nat k * max 0 (eg_timeout e)"
      "\<exists>n \<le> k. net_sent nt' = net_sent nt @ replicate n message"
    using send_attempts_clock_max [of k "eg_timeout e" message expected nt]
      send_attempts_sent [of k "eg_timeout e" message expected nt] by (simp_all only: r snd_conv)
  have "(\<exists>err. r = Inl err) \<or> (\<exists>data evs t. r = Inr data \<and> peek_msg_id data = Inr expected \<and>
      evs \<in> set (take k (net_attempts nt)) \<and> Datagram t data \<in> set evs)"
  proof (cases r)
    case (Inr data)
    with send_attempts_source [of k "eg_timeout e" message expected nt data] show ?thesis
      by (simp only: r fst_conv) blast
  qed blast
  with c show ?thesis
    unfolding send_recv_def k_def [symmetric] prod.case r Let_def by blast
qed



definition sample_engine :: engine where
  "sample_engine = \<lparr> eg_username = [], eg_level = ''authPriv'', eg_auth_key = [1], eg_priv_key = [2],
     eg_context_name = [], eg_timeout = 2, eg_retries = 1, eg_auth_hash = ''sha1'',
     eg_context_engine_id = [128, 1], eg_engine_id = [128, 1], eg_boots = 3, eg_engine_time = 990,
     eg_ref = Some 0, eg_localized_auth = Some [1], eg_localized_priv = Some (replicate 16 9),
     eg_msg_id = 6, eg_req_id = 41, eg_discovered = True \<rparr>"

definition sample_net :: net where
  "sample_net = \<lparr> net_clock = 5, net_attempts = [], net_salts = [], net_sent = [] \<rparr>"



lemma fold_password_stream:
  "n \<le> 16384 \<Longrightarrow> fold_password pw (64 * (16384 - n)) (64 * (16384 - n)) =
     map (\<lambda>i. pw ! (i mod length pw)) [64 * (16384 - n)..<1048576]"
proof (induction n)
  case 0
  then show ?case by (simp add: fold_password.simps)
next
  case (Suc n)
  let ?c = "64 * (16384 - Suc n)"
  have c: "?c + 64 = 64 * (16384 - n)" "?c < 1048576" "?c + 64 \<le> 1048576" using Suc.prems by simp_all
  have ch: "password_chunk pw ?c = map (\<lambda>i. pw ! (i mod length pw)) [?c..<?c + 64]"
    unfolding password_chunk_def by (rule nth_equalityI) (simp_all del: upt_Suc)
  have up: "[?c..<1048576] = [?c..<?c + 64] @ [?c + 64..<1048576]"
    using upt_add_eq_append [of ?c "?c + 64" "1048576 - (?c + 64)"] c by simp
  have "fold_password pw ?c ?c = password_chunk pw ?c @ fold_password pw (?c + 64) (?c + 64)"
    using c(2) by (subst fold_password.simps) simp
  also have "fold_password pw (?c + 64) (?c + 64) = map (\<lambda>i. pw ! (i mod length pw)) [?c + 64..<1048576]"
    unfolding c(1) using Suc by simp
  finally show ?case unfolding ch up by simp
qed

text \<open>Key localization is the one of RFC 3414 A.2: the first key is the hash of the first 2^20
  bytes of the endlessly repeated password, and the localized key the hash of that key, the engine
  id, and the key again; an empty password is refused.\<close>

theorem password_to_key_rfc3414:
  "password_to_key hashf password engine_id name =
     (if password = [] then Inl (SnmpError ''password must be non-empty'')
      else (let ku = hashf name (map (\<lambda>i. password ! (i mod length password)) [0..<2 ^ 20])
            in Inr (hashf name (ku @ engine_id @ ku))))"
  using fold_password_stream [of 16384 password] by (simp add: password_to_key_def)

end
