(* ===== verification/Core_Types.thy ===== *)
theory Core_Types
  imports Prelude
begin

text \<open>
  Model of the package \<open>core\<close>: the diagnostic result every probe returns
  (\<open>core/result.py\<close>), the summary engine over a list of results
  (\<open>core/engine.py\<close>), the provenance of observations
  (\<open>core/observation.py\<close>, \<open>core/remote_observation.py\<close>), the bounded request body
  of both HTTP servers (\<open>core/http_utils.py\<close>), the KPI functions of \<open>core/metrics\<close>,
  and the probe request of \<open>agent/models.py\<close>.

  The values of a \<open>dict[str, Any]\<close> are the datatype \<open>pyval\<close>. Pydantic models are
  records with a validation function that returns the record or \<open>ValidationError\<close>.
\<close>

section \<open>Dynamic values\<close>

datatype pyval =
    PNone
  | PBool bool
  | PInt int
  | PFloat rat
  | PStr string
  | PList "pyval list"
  | PDict "(string \<times> pyval) list"

text \<open>\<open>bool(v)\<close>, and the number a value is in arithmetic and comparisons (Python counts
  booleans as numbers).\<close>

fun truthy :: "pyval \<Rightarrow> bool" where
  "truthy PNone = False"
| "truthy (PBool b) = b"
| "truthy (PInt i) = (i \<noteq> 0)"
| "truthy (PFloat r) = (r \<noteq> 0)"
| "truthy (PStr s) = (s \<noteq> [])"
| "truthy (PList xs) = (xs \<noteq> [])"
| "truthy (PDict d) = (d \<noteq> [])"

fun numR :: "pyval \<Rightarrow> rat result" where
  "numR (PBool b) = Inr (if b then 1 else 0)"
| "numR (PInt i) = Inr (of_int i)"
| "numR (PFloat r) = Inr r"
| "numR _ = Inl TypeError"

definition get_val :: "(string \<times> pyval) list \<Rightarrow> string \<Rightarrow> pyval" where
  "get_val d k = (case map_of d k of None \<Rightarrow> PNone | Some v \<Rightarrow> v)"

text \<open>\<open>float(v)\<close>; a text goes to the parser \<open>float_text\<close> of the standard library.\<close>

fun float_of :: "(string \<Rightarrow> rat result) \<Rightarrow> pyval \<Rightarrow> rat result" where
  "float_of float_text (PStr s) = float_text s"
| "float_of float_text v = numR v"

section \<open>Diagnostic results\<close>

datatype diagnostic_status = HEALTHY | DEGRADED | FAILED | UNKNOWN

datatype severity = INFO | LOW | MEDIUM | HIGH | CRITICAL

text \<open>The severities in increasing order; the order of the enumeration in the code.\<close>

fun severity_rank :: "severity \<Rightarrow> nat" where
  "severity_rank INFO = 0"
| "severity_rank LOW = 1"
| "severity_rank MEDIUM = 2"
| "severity_rank HIGH = 3"
| "severity_rank CRITICAL = 4"

lemma severity_rank_inj: "severity_rank a = severity_rank b \<Longrightarrow> a = b"
  by (cases a; cases b) simp_all

instantiation severity :: linorder
begin

definition less_eq_severity :: "severity \<Rightarrow> severity \<Rightarrow> bool" where
  "less_eq_severity a b = (severity_rank a \<le> severity_rank b)"

definition less_severity :: "severity \<Rightarrow> severity \<Rightarrow> bool" where
  "less_severity a b = (severity_rank a < severity_rank b)"

instance
  by standard (auto simp: less_eq_severity_def less_severity_def severity_rank_inj)

end

record diagnostic_result =
  dr_module :: string
  dr_category :: string
  dr_status :: diagnostic_status
  dr_severity :: severity
  dr_summary :: string
  dr_target :: "string option"
  dr_metrics :: "(string \<times> pyval) list"
  dr_evidence :: "string list"
  dr_warnings :: "string list"
  dr_errors :: "string list"
  dr_metadata :: "(string \<times> pyval) list"

subsection \<open>The summary engine\<close>

record run_summary =
  rs_total_checks :: nat
  rs_healthy :: nat
  rs_degraded :: nat
  rs_failed :: nat
  rs_unknown :: nat
  rs_critical :: nat
  rs_high :: nat
  rs_medium :: nat

definition count_status :: "diagnostic_status \<Rightarrow> diagnostic_result list \<Rightarrow> nat" where
  "count_status st results = length (filter (\<lambda>r. dr_status r = st) results)"

definition count_severity :: "severity \<Rightarrow> diagnostic_result list \<Rightarrow> nat" where
  "count_severity sv results = length (filter (\<lambda>r. dr_severity r = sv) results)"

definition summarize :: "diagnostic_result list \<Rightarrow> run_summary" where
  "summarize results =
     \<lparr> rs_total_checks = length results, rs_healthy = count_status HEALTHY results,
       rs_degraded = count_status DEGRADED results, rs_failed = count_status FAILED results,
       rs_unknown = count_status UNKNOWN results, rs_critical = count_severity CRITICAL results,
       rs_high = count_severity HIGH results, rs_medium = count_severity MEDIUM results \<rparr>"

definition find_failures :: "diagnostic_result list \<Rightarrow> diagnostic_result list" where
  "find_failures results = filter (\<lambda>r. dr_status r \<in> {FAILED, DEGRADED}) results"

definition generate_findings :: "diagnostic_result list \<Rightarrow> string list" where
  "generate_findings results = map (\<lambda>r.
     let msg = dr_module r @ '': '' @ dr_summary r in
     if dr_errors r \<noteq> [] then msg @ '' (Details: '' @ join ''; '' (dr_errors r) @ '')''
     else if dr_warnings r \<noteq> [] then msg @ '' (Warning: '' @ join ''; '' (dr_warnings r) @ '')''
     else msg) (find_failures results)"

section \<open>Observations\<close>

datatype evidence_quality = Q_UNKNOWN | SINGLE_SOURCE | PARSED_EXTERNAL | CORROBORATED | VERIFIED

fun quality_confidence :: "evidence_quality \<Rightarrow> rat" where
  "quality_confidence Q_UNKNOWN = 0"
| "quality_confidence SINGLE_SOURCE = 45 / 100"
| "quality_confidence PARSED_EXTERNAL = 60 / 100"
| "quality_confidence CORROBORATED = 80 / 100"
| "quality_confidence VERIFIED = 95 / 100"

lemma quality_confidence_bounds: "0 \<le> quality_confidence q" "quality_confidence q \<le> 95 / 100"
  by (cases q; simp)+

text \<open>The context of a remote observation; the timestamp is a clock reading with the UTC offset
  of its timezone, \<open>None\<close> when it has none.\<close>

record observation_context =
  oc_schema_version :: string
  oc_observation_id :: string
  oc_timestamp :: "rat \<times> rat option"
  oc_agent_id :: string
  oc_hostname :: string
  oc_probe_type :: string
  oc_target :: "string option"
  oc_source_ip :: "string option"
  oc_source_interface :: "string option"
  oc_target_interface :: "string option"
  oc_sample_count :: int
  oc_duration_ms :: "rat option"
  oc_topology_tags :: "(string \<times> string) list"
  oc_raw_evidence :: "(string \<times> pyval) list"
  oc_evidence_quality :: evidence_quality
  oc_confidence :: "rat option"

definition context_fields_ok :: "observation_context \<Rightarrow> bool" where
  "context_fields_ok c = (oc_agent_id c \<noteq> [] \<and> oc_hostname c \<noteq> [] \<and> oc_probe_type c \<noteq> [] \<and>
     0 \<le> oc_sample_count c \<and>
     (case oc_duration_ms c of None \<Rightarrow> True | Some d \<Rightarrow> 0 \<le> d) \<and>
     (case oc_confidence c of None \<Rightarrow> True | Some x \<Rightarrow> 0 \<le> x \<and> x \<le> 1))"

definition validate_remote_context :: "observation_context \<Rightarrow> observation_context result" where
  "validate_remote_context c =
     bindR (guardR (context_fields_ok c) ValidationError) (\<lambda>_.
     case oc_timestamp c of
       (t, None) \<Rightarrow> Inl ValidationError
     | (t, Some offset) \<Rightarrow>
         (let expected = quality_confidence (oc_evidence_quality c);
              c' = c \<lparr> oc_timestamp := (t - offset, Some 0) \<rparr>
          in case oc_confidence c of
               None \<Rightarrow> Inr (c' \<lparr> oc_confidence := Some expected \<rparr>)
             | Some x \<Rightarrow> if x \<noteq> expected then Inl ValidationError else Inr c'))"

text \<open>The local context (\<open>core/observation.py\<close>) only fills in a missing confidence.\<close>

definition derive_confidence :: "observation_context \<Rightarrow> observation_context result" where
  "derive_confidence c =
     bindR (guardR (context_fields_ok c) ValidationError) (\<lambda>_.
       Inr (case oc_confidence c of
              None \<Rightarrow> c \<lparr> oc_confidence := Some (quality_confidence (oc_evidence_quality c)) \<rparr>
            | Some _ \<Rightarrow> c))"

record agent_observation =
  ao_context :: observation_context
  ao_result :: diagnostic_result

section \<open>Probe requests\<close>

datatype probe_type = ICMP | TCP | DNS | TRACEROUTE | INTERFACES | ROUTE | GATEWAY

fun probe_type_value :: "probe_type \<Rightarrow> string" where
  "probe_type_value ICMP = ''icmp''"
| "probe_type_value TCP = ''tcp''"
| "probe_type_value DNS = ''dns''"
| "probe_type_value TRACEROUTE = ''traceroute''"
| "probe_type_value INTERFACES = ''interfaces''"
| "probe_type_value ROUTE = ''route''"
| "probe_type_value GATEWAY = ''gateway''"

definition targeted_probe :: "probe_type \<Rightarrow> bool" where
  "targeted_probe p = (p \<in> {ICMP, TCP, DNS, TRACEROUTE})"

record probe_request =
  pr_probe_type :: probe_type
  pr_target :: "string option"
  pr_port :: "int option"
  pr_count :: int
  pr_max_hops :: int
  pr_timeout_seconds :: rat
  pr_source_interface :: "string option"

definition some_text :: "string option \<Rightarrow> bool" where
  "some_text t = (case t of None \<Rightarrow> False | Some s \<Rightarrow> s \<noteq> [])"

definition validate_probe_request :: "probe_request \<Rightarrow> probe_request result" where
  "validate_probe_request r =
     bindR (guardR ((case pr_port r of None \<Rightarrow> True | Some p \<Rightarrow> 1 \<le> p \<and> p \<le> 65535) \<and>
        1 \<le> pr_count r \<and> pr_count r \<le> 20 \<and> 1 \<le> pr_max_hops r \<and> pr_max_hops r \<le> 64 \<and>
        0 < pr_timeout_seconds r \<and> pr_timeout_seconds r \<le> 30) ValidationError) (\<lambda>_.
     bindR (guardR (targeted_probe (pr_probe_type r) \<longrightarrow> some_text (pr_target r)) ValidationError) (\<lambda>_.
     bindR (guardR (pr_probe_type r = TCP \<longrightarrow> pr_port r \<noteq> None) ValidationError) (\<lambda>_.
     bindR (guardR (pr_probe_type r \<noteq> TCP \<longrightarrow> pr_port r = None) ValidationError) (\<lambda>_. Inr r))))"

section \<open>Request bodies\<close>

definition MAX_BODY_BYTES :: int where "MAX_BODY_BYTES = 2 ^ 20"

text \<open>\<open>read_json_body\<close>: the header, and the bytes waiting on the connection. The JSON parser of
  the standard library is the parameter \<open>loads\<close>.\<close>

definition read_json_body ::
  "(byte list \<Rightarrow> pyval option) \<Rightarrow> string option \<Rightarrow> byte list \<Rightarrow> int \<Rightarrow>
   ((string \<times> pyval) list) result" where
  "read_json_body loads content_length stream max_bytes =
     bindR (case int_of_str (case content_length of None \<Rightarrow> ''0'' | Some h \<Rightarrow> h) of
              Inl _ \<Rightarrow> Inl MalformedBody | Inr n \<Rightarrow> Inr n) (\<lambda>size.
     if size < 0 then Inl MalformedBody
     else if max_bytes < size then Inl BodyTooLarge
     else
       (let got = take (nat size) stream;
            body = (if got = [] then [123, 125] else got)
        in case loads body of
             None \<Rightarrow> Inl MalformedBody
           | Some (PDict d) \<Rightarrow> Inr d
           | Some _ \<Rightarrow> Inl MalformedBody))"

section \<open>KPI functions\<close>

definition link_capacity_bps :: "rat option \<Rightarrow> rat option" where
  "link_capacity_bps speed_mbps =
     (case speed_mbps of None \<Rightarrow> None | Some s \<Rightarrow> if s \<le> 0 then None else Some (s * 1000000))"

definition estimate_goodput_mbps :: "rat \<Rightarrow> rat \<Rightarrow> rat" where
  "estimate_goodput_mbps bytes elapsed =
     (if elapsed \<le> 0 then 0 else py_round (bytes * 8 / elapsed / 1000000) 3)"

definition congestion_score :: "rat option \<Rightarrow> rat \<Rightarrow> rat \<Rightarrow> rat \<Rightarrow> rat" where
  "congestion_score util drop_rate error_rate latency_delta =
     (let s1 = (case util of None \<Rightarrow> 0
                | Some u \<Rightarrow> if 90 \<le> u then 45 else if 75 \<le> u then 30 else if 60 \<le> u then 15 else 0);
          s2 = (if 5 \<le> drop_rate then 30 else if 1 / 2 \<le> drop_rate then 15 else 0);
          s3 = (if 5 \<le> error_rate then 15 else if 1 / 2 \<le> error_rate then 8 else 0);
          s4 = (if 100 \<le> latency_delta then 20 else if 40 \<le> latency_delta then 10 else 0)
      in py_round (min 100 (0 + s1 + s2 + s3 + s4)) 1)"

definition congestion_state :: "rat \<Rightarrow> string" where
  "congestion_state score =
     (if score < 20 then ''clear'' else if score < 45 then ''mild''
      else if score < 70 then ''moderate'' else ''severe'')"

definition calculate_rfc_jitter :: "rat list \<Rightarrow> rat" where
  "calculate_rfc_jitter xs =
     (if length xs < 2 then 0
      else (let diffs = map (\<lambda>i. \<bar>xs ! i - xs ! (i - 1)\<bar>) [1..<length xs]
            in sum_list diffs / of_nat (length diffs)))"

definition mean :: "rat list \<Rightarrow> rat" where
  "mean xs = sum_list xs / of_nat (length xs)"

record latency_summary =
  ls_min :: rat
  ls_avg :: rat
  ls_max :: rat
  ls_jitter :: rat
  ls_std_dev :: rat
  ls_samples :: nat

text \<open>The square root inside \<open>statistics.pstdev\<close> is the parameter \<open>sqrtf\<close>.\<close>

definition summarize_latencies :: "(rat \<Rightarrow> rat) \<Rightarrow> rat list \<Rightarrow> latency_summary" where
  "summarize_latencies sqrtf xs =
     (if xs = [] then
        \<lparr> ls_min = 0, ls_avg = 0, ls_max = 0, ls_jitter = 0, ls_std_dev = 0, ls_samples = 0 \<rparr>
      else
        \<lparr> ls_min = py_round (Min (set xs)) 2, ls_avg = py_round (mean xs) 2,
          ls_max = py_round (Max (set xs)) 2, ls_jitter = py_round (calculate_rfc_jitter xs) 2,
          ls_std_dev = (if 1 < length xs
            then py_round (sqrtf (mean (map (\<lambda>x. (x - mean xs) ^ 2) xs))) 2 else 0),
          ls_samples = length xs \<rparr>)"

definition loss_percent :: "int \<Rightarrow> int \<Rightarrow> rat" where
  "loss_percent sent received =
     (if sent \<le> 0 then 0
      else py_round (of_int (max 0 (sent - received)) / of_int sent * 100) 2)"

definition classify_loss_severity :: "rat \<Rightarrow> string" where
  "classify_loss_severity loss =
     (if loss \<le> 0 then ''healthy'' else if loss < 5 then ''low''
      else if loss < 20 then ''medium'' else ''high'')"

definition bytes_per_sec_from_delta :: "rat \<Rightarrow> rat \<Rightarrow> rat" where
  "bytes_per_sec_from_delta byte_delta seconds = (if seconds \<le> 0 then 0 else byte_delta / seconds)"

definition bps_from_byte_delta :: "rat \<Rightarrow> rat \<Rightarrow> rat" where
  "bps_from_byte_delta byte_delta seconds = bytes_per_sec_from_delta byte_delta seconds * 8"

definition utilization_percent :: "rat \<Rightarrow> rat option \<Rightarrow> rat option" where
  "utilization_percent bps link_speed =
     (case link_speed of None \<Rightarrow> None
      | Some s \<Rightarrow> if s = 0 \<or> s \<le> 0 then None else Some (py_round (min 100 (bps / s * 100)) 2))"

section \<open>Properties\<close>

lemma py_round_le: "x \<le> numeral k \<Longrightarrow> py_round x n \<le> numeral k"
  using py_round_mono [of x "numeral k" n] by simp

lemma mean_bounds:
  assumes "xs \<noteq> []"
  shows "Min (set xs) \<le> mean xs" "mean xs \<le> Max (set xs)"
proof -
  have "of_nat (length xs) * Min (set xs) \<le> sum_list xs"
    using sum_list_mono [of xs "\<lambda>_. Min (set xs)" id] by (simp add: sum_list_triv)
  moreover have "sum_list xs \<le> of_nat (length xs) * Max (set xs)"
    using sum_list_mono [of xs id "\<lambda>_. Max (set xs)"] by (simp add: sum_list_triv)
  ultimately show "Min (set xs) \<le> mean xs" "mean xs \<le> Max (set xs)"
    using assms by (simp_all add: mean_def pos_le_divide_eq pos_divide_le_eq mult.commute)
qed

lemma jitter_nonneg: "0 \<le> calculate_rfc_jitter xs"
proof -
  have "0 \<le> sum_list (map (\<lambda>i. \<bar>xs ! i - xs ! (i - 1)\<bar>) [1..<length xs])"
    by (intro sum_list_nonneg) auto
  then show ?thesis by (simp add: calculate_rfc_jitter_def Let_def)
qed

lemma length_filter_or:
  "(\<And>x. \<not> (P x \<and> Q x)) \<Longrightarrow>
     length (filter P xs) + length (filter Q xs) = length (filter (\<lambda>x. P x \<or> Q x) xs)"
  by (induction xs) auto

text \<open>The KPI functions stay in their documented ranges: the loss of a batch with a
  non-negative receive count is a percentage, utilization never exceeds 100 and is known exactly
  for a positive capacity, the congestion score lies in [0, 100], jitter is non-negative, and the
  summary of a non-empty sample list has minimum, average and maximum in that order.\<close>

theorem metrics_ranges:
  "0 \<le> loss_percent sent received \<and> loss_percent sent (int r) \<le> 100 \<and>
   (case utilization_percent bps cap of None \<Rightarrow> cap = None \<or> the cap \<le> 0
    | Some u \<Rightarrow> u \<le> 100 \<and> 0 < the cap) \<and>
   0 \<le> congestion_score util dr er lat \<and> congestion_score util dr er lat \<le> 100 \<and>
   0 \<le> calculate_rfc_jitter xs \<and>
   ls_min (summarize_latencies sqrtf xs) \<le> ls_avg (summarize_latencies sqrtf xs) \<and>
   ls_avg (summarize_latencies sqrtf xs) \<le> ls_max (summarize_latencies sqrtf xs)"
proof (intro conjI)
  show "0 \<le> loss_percent sent received"
    by (simp add: loss_percent_def py_round_nonneg)
  show "loss_percent sent (int r) \<le> 100"
  proof (cases "sent \<le> 0")
    case False
    then have "(of_int (max 0 (sent - int r)) :: rat) / of_int sent \<le> 1"
      by (simp add: divide_le_eq_1 of_int_max)
    then have "(of_int (max 0 (sent - int r)) :: rat) / of_int sent * 100 \<le> 100"
      using mult_right_mono [of _ 1 "100 :: rat"] by fastforce
    then have "py_round (of_int (max 0 (sent - int r)) / of_int sent * 100) 2 \<le> 100"
      by (rule py_round_le)
    with False show ?thesis by (simp only: loss_percent_def if_False)
  qed (simp add: loss_percent_def)
  show "case utilization_percent bps cap of None \<Rightarrow> cap = None \<or> the cap \<le> 0
    | Some u \<Rightarrow> u \<le> 100 \<and> 0 < the cap"
    by (cases cap) (simp_all add: utilization_percent_def py_round_le)
  show "0 \<le> congestion_score util dr er lat" "congestion_score util dr er lat \<le> 100"
    by (auto simp: congestion_score_def Let_def intro!: py_round_nonneg py_round_le split: option.splits)
  show "0 \<le> calculate_rfc_jitter xs" by (rule jitter_nonneg)
  show "ls_min (summarize_latencies sqrtf xs) \<le> ls_avg (summarize_latencies sqrtf xs)"
    "ls_avg (summarize_latencies sqrtf xs) \<le> ls_max (summarize_latencies sqrtf xs)"
    using mean_bounds [of xs] by (auto simp: summarize_latencies_def py_round_mono)
qed

text \<open>The run summary partitions the results: the four status counts add up to the number of
  checks, and the findings are one line for each degraded or failed result, in order.\<close>

theorem summary_partitions:
  "rs_healthy (summarize rs) + rs_degraded (summarize rs) + rs_failed (summarize rs) +
     rs_unknown (summarize rs) = rs_total_checks (summarize rs) \<and>
   length (generate_findings rs) = rs_degraded (summarize rs) + rs_failed (summarize rs) \<and>
   rs_critical (summarize rs) + rs_high (summarize rs) + rs_medium (summarize rs) \<le> length rs"
proof (induction rs)
  case (Cons r rs)
  then show ?case
    by (cases "dr_status r"; cases "dr_severity r")
      (simp_all add: summarize_def count_status_def count_severity_def generate_findings_def
        find_failures_def)
qed (simp add: summarize_def count_status_def count_severity_def generate_findings_def find_failures_def)

end
