(* ===== verification/Multivantage.thy ===== *)
theory Multivantage
  imports Core_Types "HOL-Library.Multiset"
begin

text \<open>
  Model of \<open>analysis/multivantage.py\<close>: fault localization from the results of the same probe
  at several vantage points, and the evidence trail of the verdict. The report id and its timestamp
  are arguments (\<open>uuid4\<close>, the clock). Observations are sorted by role and vantage with the
  stable \<open>sort_key\<close>, Python's \<open>sorted\<close>.
\<close>

section \<open>Observations\<close>

definition ROLE_DESTINATION :: string where "ROLE_DESTINATION = ''destination''"
definition ROLE_SOURCE :: string where "ROLE_SOURCE = ''source''"
definition ROLE_THIRD :: string where "ROLE_THIRD = ''third''"
definition ROLE_PEER :: string where "ROLE_PEER = ''peer''"

lemmas role_defs = ROLE_DESTINATION_def ROLE_SOURCE_def ROLE_THIRD_def ROLE_PEER_def

definition role_order :: "string \<Rightarrow> nat" where
  "role_order r = (if r = ROLE_DESTINATION then 0 else if r = ROLE_SOURCE then 1
     else if r = ROLE_THIRD then 2 else 3)"

datatype fault_localization =
  LOC_HEALTHY | SOURCE_SIDE | VANTAGE_ISOLATED | TARGET_SIDE | PATH_SHARED | INCONCLUSIVE

record vantage_observation =
  vo_agent_id :: string
  vo_node_id :: "string option"
  vo_role :: string
  vo_target :: string
  vo_probe_type :: string
  vo_status :: diagnostic_status
  vo_quality :: evidence_quality
  vo_confidence :: "rat option"
  vo_summary :: string
  vo_evidence :: "string list"

text \<open>Validation of the model: the range of the confidence, and its default.\<close>

definition validate_vantage_observation :: "vantage_observation \<Rightarrow> vantage_observation result" where
  "validate_vantage_observation o' =
     (case vo_confidence o' of
        None \<Rightarrow> Inr (o' \<lparr> vo_confidence := Some (quality_confidence (vo_quality o')) \<rparr>)
      | Some c \<Rightarrow> if 0 \<le> c \<and> c \<le> 1 then Inr o' else Inl ValidationError)"

definition vantage :: "vantage_observation \<Rightarrow> string" where
  "vantage o' = (case vo_node_id o' of None \<Rightarrow> vo_agent_id o'
     | Some n \<Rightarrow> if n \<noteq> [] then n else vo_agent_id o')"

definition confidence_of :: "vantage_observation \<Rightarrow> rat" where
  "confidence_of o' = (case vo_confidence o' of Some c \<Rightarrow> c | None \<Rightarrow> quality_confidence (vo_quality o'))"

record evidence_step =
  es_order :: nat
  es_vantage :: string
  es_role :: string
  es_observation :: string
  es_status :: diagnostic_status
  es_quality :: evidence_quality
  es_confidence :: rat

record multi_vantage_report =
  mv_diagnosis_id :: string
  mv_timestamp :: string
  mv_target :: string
  mv_service_id :: "string option"
  mv_topology :: "string option"
  mv_localization :: fault_localization
  mv_status :: diagnostic_status
  mv_verdict :: string
  mv_confidence :: rat
  mv_vantage_count :: nat
  mv_reachable_count :: nat
  mv_failed_count :: nat
  mv_degraded_count :: nat
  mv_agent_errors :: "(string \<times> string) list"
  mv_observations :: "vantage_observation list"
  mv_evidence_trail :: "evidence_step list"

section \<open>The verdict\<close>

definition clamp_conf :: "rat \<Rightarrow> rat" where
  "clamp_conf v = max (5 / 100) (min (99 / 100) (py_round v 2))"

definition verdict_text ::
  "fault_localization \<Rightarrow> string \<Rightarrow> vantage_observation option \<Rightarrow> vantage_observation list \<Rightarrow> nat \<Rightarrow> string" where
  "verdict_text localization target dest unreach vantages =
     (let failed_names = join '', '' (map vantage unreach) in
      case localization of
        LOC_HEALTHY \<Rightarrow> target @ '' is reachable from all '' @ str_of_nat vantages @
          '' vantage point(s); no fault localized.''
      | TARGET_SIDE \<Rightarrow>
          (case dest of
             Some d \<Rightarrow> if vo_status d = FAILED then
               target @ '' is unreachable even from its own host agent ('' @ vantage d @ '') and from '' @
               str_of_nat (length unreach) @ '' vantage(s) total '' @ em_dash @
               '' fault localized to the target/service itself.''
             else
               target @ '' is unreachable from all '' @ str_of_nat vantages @
               '' vantage points with no destination-local agent to confirm; the target/service is the most likely common cause (a broad upstream event cannot be ruled out without a control probe).''
           | None \<Rightarrow>
               target @ '' is unreachable from all '' @ str_of_nat vantages @
               '' vantage points with no destination-local agent to confirm; the target/service is the most likely common cause (a broad upstream event cannot be ruled out without a control probe).'')
      | SOURCE_SIDE \<Rightarrow> target @ '' is reachable from other vantage(s) but not from the source ('' @
          failed_names @ '') '' @ em_dash @
          '' fault localized to the source host or its access path, not the target.''
      | VANTAGE_ISOLATED \<Rightarrow> target @ '' is reachable from most vantage(s); only '' @ failed_names @
          '' fails '' @ em_dash @
          '' isolated vantage/access issue rather than a target or shared-path fault.''
      | PATH_SHARED \<Rightarrow> target @ '' responds but is unreachable/degraded from multiple vantage(s) ('' @
          failed_names @ '') '' @ em_dash @
          '' fault localized to the shared network path or target-side inbound filtering (ACL/firewall).''
      | INCONCLUSIVE \<Rightarrow> ''Insufficient or conflicting vantage evidence to localize a fault for '' @
          target @ ''.'')"

definition status_is :: "diagnostic_status \<Rightarrow> vantage_observation option \<Rightarrow> bool" where
  "status_is st o' = (case o' of None \<Rightarrow> False | Some x \<Rightarrow> vo_status x = st)"

definition opt_list :: "'a option \<Rightarrow> 'a list" where
  "opt_list o' = (case o' of None \<Rightarrow> [] | Some x \<Rightarrow> [x])"

definition decide ::
  "vantage_observation option \<Rightarrow> vantage_observation option \<Rightarrow> vantage_observation option \<Rightarrow>
   vantage_observation list \<Rightarrow> vantage_observation list \<Rightarrow> vantage_observation list \<Rightarrow>
   vantage_observation list \<Rightarrow> nat \<Rightarrow> fault_localization \<times> rat \<times> vantage_observation list" where
  "decide dest source third unreach degrad reachable all_obs vantage_count =
     (if unreach = [] \<and> degrad = [] then (LOC_HEALTHY, 9 / 10, all_obs)
      else if unreach = [] \<and> degrad \<noteq> [] then
        (if length degrad = 1 then
           (if vo_role (hd degrad) = ROLE_SOURCE then SOURCE_SIDE else VANTAGE_ISOLATED, 6 / 10, degrad)
         else (PATH_SHARED, 6 / 10, degrad))
      else if status_is FAILED dest then (TARGET_SIDE, 9 / 10, opt_list dest @ unreach)
      else if status_is HEALTHY dest then
        (let src_fail = status_is FAILED source; third_fail = status_is FAILED third in
         if src_fail \<and> third_fail then
           (PATH_SHARED, 75 / 100, opt_list dest @ opt_list source @ opt_list third)
         else if src_fail then
           (SOURCE_SIDE, 82 / 100, opt_list dest @ opt_list source @ opt_list third)
         else if third_fail then (VANTAGE_ISOLATED, 78 / 100, opt_list dest @ opt_list third)
         else (if 1 < length unreach then PATH_SHARED else VANTAGE_ISOLATED, 7 / 10,
               opt_list dest @ unreach))
      else if length unreach = vantage_count then (TARGET_SIDE, 6 / 10, unreach)
      else if length unreach = 1 then
        (if vo_role (hd unreach) = ROLE_SOURCE then SOURCE_SIDE else VANTAGE_ISOLATED, 72 / 100, all_obs)
      else (PATH_SHARED, 65 / 100, unreach @ reachable))"

definition overall_status ::
  "fault_localization \<Rightarrow> vantage_observation list \<Rightarrow> vantage_observation list \<Rightarrow> diagnostic_status" where
  "overall_status localization unreach degrad =
     (if localization = LOC_HEALTHY then HEALTHY
      else if localization = INCONCLUSIVE then UNKNOWN
      else if unreach \<noteq> [] then FAILED
      else if degrad \<noteq> [] then DEGRADED
      else UNKNOWN)"

definition step_detail :: "vantage_observation \<Rightarrow> string" where
  "step_detail o' =
     (case vo_evidence o' of [] \<Rightarrow> vo_summary o'
      | e # _ \<Rightarrow> if vo_summary o' \<noteq> [] then vo_summary o' @ '' | '' @ e else e)"

definition observation_step :: "nat \<Rightarrow> vantage_observation \<Rightarrow> evidence_step" where
  "observation_step idx o' =
     \<lparr> es_order = idx, es_vantage = vantage o', es_role = vo_role o',
       es_observation = step_detail o', es_status = vo_status o', es_quality = vo_quality o',
       es_confidence = py_round (confidence_of o') 2 \<rparr>"

definition build_trail ::
  "vantage_observation list \<Rightarrow> string \<Rightarrow> diagnostic_status \<Rightarrow> rat \<Rightarrow> nat \<Rightarrow> evidence_step list" where
  "build_trail obs_sorted verdict status confidence vantage_count =
     (let trail = map2 observation_step [1..<length obs_sorted + 1] obs_sorted in
      trail @ [\<lparr> es_order = length trail + 1, es_vantage = ''controller'', es_role = ''verdict'',
                 es_observation = verdict, es_status = status,
                 es_quality = (if 2 \<le> vantage_count then CORROBORATED else SINGLE_SOURCE),
                 es_confidence = confidence \<rparr>])"

definition obs_key :: "vantage_observation \<Rightarrow> nat \<times> string" where
  "obs_key o' = (role_order (vo_role o'), vantage o')"

definition first_role :: "string \<Rightarrow> vantage_observation list \<Rightarrow> vantage_observation option" where
  "first_role r obs = find (\<lambda>o'. vo_role o' = r) obs"

definition with_status :: "diagnostic_status \<Rightarrow> vantage_observation list \<Rightarrow> vantage_observation list" where
  "with_status st obs = filter (\<lambda>o'. vo_status o' = st) obs"

definition decision :: "vantage_observation list \<Rightarrow> fault_localization \<times> rat \<times> vantage_observation list" where
  "decision obs = decide (first_role ROLE_DESTINATION obs) (first_role ROLE_SOURCE obs)
     (first_role ROLE_THIRD obs) (with_status FAILED obs) (with_status DEGRADED obs)
     (with_status HEALTHY obs) obs (length obs)"

definition evidence_factor :: "vantage_observation list \<Rightarrow> rat" where
  "evidence_factor drivers =
     (if drivers \<noteq> [] then sum_list (map confidence_of drivers) / of_nat (length drivers) else 1 / 2)"

definition localize_fault ::
  "string \<Rightarrow> string \<Rightarrow> vantage_observation list \<Rightarrow> string \<Rightarrow> string option \<Rightarrow> string option \<Rightarrow>
   (string \<times> string) list \<Rightarrow> multi_vantage_report" where
  "localize_fault diag_id now observations target service_id topology agent_errors =
     (let obs_sorted = sort_key obs_key observations;
          vantage_count = length obs_sorted
      in if vantage_count = 0 then
        \<lparr> mv_diagnosis_id = diag_id, mv_timestamp = now, mv_target = target,
          mv_service_id = service_id, mv_topology = topology, mv_localization = INCONCLUSIVE,
          mv_status = UNKNOWN, mv_verdict = verdict_text INCONCLUSIVE target None [] 0,
          mv_confidence = 5 / 100, mv_vantage_count = 0, mv_reachable_count = 0,
          mv_failed_count = 0, mv_degraded_count = 0, mv_agent_errors = agent_errors,
          mv_observations = [],
          mv_evidence_trail =
            [\<lparr> es_order = 1, es_vantage = ''controller'', es_role = ''verdict'',
               es_observation = ''No vantage observations were collected.'', es_status = UNKNOWN,
               es_quality = Q_UNKNOWN, es_confidence = 5 / 100 \<rparr>] \<rparr>
      else
        (let dest = first_role ROLE_DESTINATION obs_sorted;
             unreach = with_status FAILED obs_sorted;
             degrad = with_status DEGRADED obs_sorted;
             reachable = with_status HEALTHY obs_sorted;
             (localization, base_conf, drivers) = decision obs_sorted;
             confidence = clamp_conf (base_conf * (6 / 10 + 4 / 10 * evidence_factor drivers));
             status = overall_status localization unreach degrad;
             verdict = verdict_text localization target dest unreach vantage_count
         in \<lparr> mv_diagnosis_id = diag_id, mv_timestamp = now, mv_target = target,
              mv_service_id = service_id, mv_topology = topology, mv_localization = localization,
              mv_status = status, mv_verdict = verdict, mv_confidence = confidence,
              mv_vantage_count = vantage_count, mv_reachable_count = length reachable,
              mv_failed_count = length unreach, mv_degraded_count = length degrad,
              mv_agent_errors = agent_errors, mv_observations = obs_sorted,
              mv_evidence_trail = build_trail obs_sorted verdict status confidence vantage_count \<rparr>))"

section \<open>The decision\<close>

lemma with_status_Nil: "with_status st obs = [] \<longleftrightarrow> (\<forall>o' \<in> set obs. vo_status o' \<noteq> st)"
  by (simp add: with_status_def filter_empty_conv)

lemma first_role_Some: "first_role r obs = Some o' \<Longrightarrow> o' \<in> set obs \<and> vo_role o' = r"
  by (auto simp: first_role_def find_Some_iff)

lemma status_is_first: "status_is st (first_role r obs) \<Longrightarrow> \<exists>o' \<in> set obs. vo_status o' = st"
  by (cases "first_role r obs") (auto simp: status_is_def dest: first_role_Some)

lemma decision_never_inconclusive: "fst (decision obs) \<noteq> INCONCLUSIVE"
  by (simp add: decision_def decide_def Let_def)

lemma decision_healthy:
  "fst (decision obs) = LOC_HEALTHY \<longleftrightarrow> (\<forall>o' \<in> set obs. vo_status o' \<notin> {FAILED, DEGRADED})"
  by (auto simp: decision_def decide_def Let_def with_status_Nil split: if_split_asm)

text \<open>The abstract account of a decision that found a failure: who is blamed depends only on the
  destination's own view, then on the source and the third vantage, then on how many fail.\<close>

definition blame :: "vantage_observation list \<Rightarrow> fault_localization" where
  "blame obs =
     (let failed = with_status FAILED obs; dest = first_role ROLE_DESTINATION obs;
          src = status_is FAILED (first_role ROLE_SOURCE obs);
          third = status_is FAILED (first_role ROLE_THIRD obs)
      in if status_is FAILED dest then TARGET_SIDE
         else if status_is HEALTHY dest then
           (if src then (if third then PATH_SHARED else SOURCE_SIDE)
            else if third \<or> length failed = 1 then VANTAGE_ISOLATED else PATH_SHARED)
         else if length failed = length obs then TARGET_SIDE
         else if length failed = 1 then
           (if vo_role (hd failed) = ROLE_SOURCE then SOURCE_SIDE else VANTAGE_ISOLATED)
         else PATH_SHARED)"

lemma decision_blame:
  assumes "with_status FAILED obs \<noteq> []"
  shows "fst (decision obs) = blame obs"
proof -
  consider "length (with_status FAILED obs) = 1" | "1 < length (with_status FAILED obs)"
    using assms by (cases "with_status FAILED obs") force+
  then show ?thesis
    by cases (use assms in \<open>auto simp: decision_def decide_def blame_def Let_def\<close>)
qed

lemma decision_drivers:
  assumes "obs \<noteq> []"
  shows "snd (snd (decision obs)) \<noteq> [] \<and> set (snd (snd (decision obs))) \<subseteq> set obs"
proof -
  have sub: "set (with_status st obs) \<subseteq> set obs" for st by (auto simp: with_status_def)
  have opt: "set (opt_list (first_role r obs)) \<subseteq> set obs" for r
  proof (cases "first_role r obs")
    case (Some x)
    with first_role_Some [OF this] show ?thesis by (simp add: opt_list_def)
  qed (simp add: opt_list_def)
  have ne: "status_is st (first_role r obs) \<Longrightarrow> opt_list (first_role r obs) \<noteq> []" for st r
    by (auto simp: status_is_def opt_list_def split: option.splits)
  show ?thesis
    using assms sub opt ne by (simp add: decision_def decide_def Let_def)
qed

lemma decision_base: "6 / 10 \<le> fst (snd (decision obs))" "fst (snd (decision obs)) \<le> 9 / 10"
  by (simp_all add: decision_def decide_def Let_def)

section \<open>The report\<close>

lemma clamp_bounds: "5 / 100 \<le> clamp_conf v" "clamp_conf v \<le> 99 / 100"
  by (simp_all add: clamp_conf_def)

lemma sort_key_Nil: "sort_key f xs = [] \<longleftrightarrow> xs = []"
  by (metis length_0_conv length_sort)

lemma localize_nonempty:
  assumes "observations \<noteq> []"
  defines "obs \<equiv> sort_key obs_key observations"
  shows "localize_fault diag_id now observations target service_id topology agent_errors =
    (let localization = fst (decision obs);
         status = overall_status localization (with_status FAILED obs) (with_status DEGRADED obs);
         verdict = verdict_text localization target (first_role ROLE_DESTINATION obs)
           (with_status FAILED obs) (length obs);
         confidence = clamp_conf (fst (snd (decision obs)) *
           (6 / 10 + 4 / 10 * evidence_factor (snd (snd (decision obs)))))
     in \<lparr> mv_diagnosis_id = diag_id, mv_timestamp = now, mv_target = target,
          mv_service_id = service_id, mv_topology = topology, mv_localization = localization,
          mv_status = status, mv_verdict = verdict, mv_confidence = confidence,
          mv_vantage_count = length obs, mv_reachable_count = length (with_status HEALTHY obs),
          mv_failed_count = length (with_status FAILED obs),
          mv_degraded_count = length (with_status DEGRADED obs),
          mv_agent_errors = agent_errors, mv_observations = obs,
          mv_evidence_trail = build_trail obs verdict status confidence (length obs) \<rparr>)"
  using assms sort_key_Nil [of obs_key observations]
  by (simp add: localize_fault_def Let_def case_prod_beta)

lemma localize_empty:
  "mv_localization (localize_fault d n [] t s tp ae) = INCONCLUSIVE"
  "mv_status (localize_fault d n [] t s tp ae) = UNKNOWN"
  "mv_confidence (localize_fault d n [] t s tp ae) = 5 / 100"
  by (simp_all add: localize_fault_def)

lemma localize_fields:
  assumes "observations \<noteq> []"
  shows "mv_localization (localize_fault d n observations t s tp ae) =
      fst (decision (sort_key obs_key observations))"
    and "mv_status (localize_fault d n observations t s tp ae) =
      overall_status (fst (decision (sort_key obs_key observations)))
        (with_status FAILED (sort_key obs_key observations))
        (with_status DEGRADED (sort_key obs_key observations))"
    and "mv_observations (localize_fault d n observations t s tp ae) = sort_key obs_key observations"
  using assms by (simp_all add: localize_nonempty Let_def)

lemma build_trail_orders: "map es_order (build_trail obs v st c k) = [1..<length obs + 2]"
proof -
  have "map es_order (map2 observation_step [1..<length obs + 1] obs) = [1..<length obs + 1]"
    by (rule nth_equalityI) (simp_all add: observation_step_def del: upt_Suc)
  then show ?thesis by (simp add: build_trail_def Let_def del: upt_Suc) (simp add: upt_Suc)
qed

lemma sort_key_permute:
  assumes "mset xs = mset ys" "inj_on f (set xs)"
  shows "sort_key f xs = sort_key f ys"
proof (rule properties_for_sort_key [symmetric])
  show "mset (sort_key f xs) = mset ys" using assms(1) by simp
  show "sorted (map f (sort_key f xs))" by simp
  fix k
  assume k: "k \<in> set (sort_key f xs)"
  have set_eq: "set xs = set ys" using assms(1) by (rule mset_eq_setD)
  have single: "filter (\<lambda>x. f k = f x) zs = filter (\<lambda>x. k = x) zs" if "set zs = set xs" for zs
    using that assms(2) k by (intro filter_cong) (auto simp: inj_on_def)
  have rep: "filter (\<lambda>x. k = x) zs = replicate (count (mset zs) k) k" for zs
    by (induction zs) auto
  show "filter (\<lambda>x. f k = f x) (sort_key f xs) = filter (\<lambda>x. f k = f x) ys"
    using single [of "sort_key f xs"] single [of ys] rep set_eq assms(1) by simp
qed

section \<open>Properties\<close>


definition sample_obs :: "string \<Rightarrow> string \<Rightarrow> diagnostic_status \<Rightarrow> vantage_observation" where
  "sample_obs a r st = \<lparr> vo_agent_id = a, vo_node_id = None, vo_role = r, vo_target = ''web'',
     vo_probe_type = ''tcp'', vo_status = st, vo_quality = VERIFIED, vo_confidence = Some (95 / 100),
     vo_summary = ''s'', vo_evidence = [] \<rparr>"


text \<open>C7: The verdict is complete and consistent with the evidence. With no observation it is
  inconclusive; with observations it is never inconclusive; it is healthy exactly when no vantage
  failed or degraded; the overall status is failed exactly when some vantage failed, degraded
  exactly when some degraded and none failed; and when some vantage failed the localization is the
  one of the abstract account \<open>blame\<close>.\<close>

theorem localize_decision:
  "let obs = sort_key obs_key observations;
       r = localize_fault d n observations target service_id topology agent_errors
   in (mv_localization r = INCONCLUSIVE \<longleftrightarrow> observations = []) \<and>
      (mv_localization r = LOC_HEALTHY \<longleftrightarrow>
         observations \<noteq> [] \<and> (\<forall>o' \<in> set observations. vo_status o' \<notin> {FAILED, DEGRADED})) \<and>
      (mv_status r = FAILED \<longleftrightarrow> (\<exists>o' \<in> set observations. vo_status o' = FAILED)) \<and>
      (mv_status r = DEGRADED \<longleftrightarrow> (\<exists>o' \<in> set observations. vo_status o' = DEGRADED) \<and>
         (\<forall>o' \<in> set observations. vo_status o' \<noteq> FAILED)) \<and>
      (mv_status r = FAILED \<longrightarrow> mv_localization r = blame obs)"
proof (cases "observations = []")
  case True
  then show ?thesis by (simp add: localize_empty Let_def)
next
  case False
  let ?obs = "sort_key obs_key observations"
  have st: "with_status st ?obs = [] \<longleftrightarrow> (\<forall>o' \<in> set observations. vo_status o' \<noteq> st)" for st
    by (simp add: with_status_Nil)
  show ?thesis
    using False decision_never_inconclusive [of ?obs] decision_healthy [of ?obs] decision_blame [of ?obs]
    by (auto simp: Let_def localize_fields overall_status_def st)
qed

theorem localize_decision_witness:
  "mv_localization (localize_fault [] [] [sample_obs ''b'' ''destination'' FAILED] ''web'' None None []) =
     blame (sort_key obs_key [sample_obs ''b'' ''destination'' FAILED])"
  using localize_decision [of "[sample_obs ''b'' ''destination'' FAILED]" "[]" "[]" "''web''" None None "[]"]
  by (simp add: Let_def sample_obs_def)

text \<open>The destination's own agent decides about the target: when it cannot reach the target the
  fault is localized to the target, and when it can reach it the target is never blamed.\<close>

theorem destination_is_ground_truth:
  assumes "first_role ROLE_DESTINATION (sort_key obs_key observations) = Some dest"
  shows "(vo_status dest = FAILED \<longrightarrow>
      mv_localization (localize_fault d n observations target s tp ae) = TARGET_SIDE) \<and>
    (vo_status dest = HEALTHY \<longrightarrow>
      mv_localization (localize_fault d n observations target s tp ae) \<noteq> TARGET_SIDE)"
proof -
  let ?obs = "sort_key obs_key observations"
  have ne: "observations \<noteq> []" using assms by (auto simp: first_role_def)
  have "vo_status dest = FAILED \<Longrightarrow> with_status FAILED ?obs \<noteq> []"
    using first_role_Some [OF assms] by (auto simp: with_status_Nil)
  then show ?thesis
    using assms by (auto simp: localize_fields [OF ne] decision_def decide_def status_is_def Let_def)
qed

theorem destination_is_ground_truth_witness:
  "mv_localization (localize_fault [] [] [sample_obs ''a'' ''source'' FAILED,
      sample_obs ''b'' ''destination'' HEALTHY] ''web'' None None []) \<noteq> TARGET_SIDE"
proof -
  have "first_role ROLE_DESTINATION (sort_key obs_key [sample_obs ''a'' ''source'' FAILED,
      sample_obs ''b'' ''destination'' HEALTHY]) = Some (sample_obs ''b'' ''destination'' HEALTHY)"
    by (simp add: first_role_def role_defs obs_key_def role_order_def sample_obs_def)
  from destination_is_ground_truth [OF this, of "[]" "[]" "''web''" None None "[]"]
  show ?thesis by (simp add: sample_obs_def)
qed

text \<open>The report is well formed. Its trail has one step per observation, in the order of the
  report's observations, and one last step that repeats the verdict, the status and the confidence
  of the report; the steps are numbered from 1; the observations are those given; and the
  confidence is between 0.05 and 0.99.\<close>

theorem report_trail:
  "let r = localize_fault d n observations target service_id topology agent_errors in
   map es_order (mv_evidence_trail r) = [1..<length observations + 2] \<and>
   mset (mv_observations r) = mset observations \<and>
   map es_vantage (butlast (mv_evidence_trail r)) = map vantage (mv_observations r) \<and>
   es_role (last (mv_evidence_trail r)) = ''verdict'' \<and>
   es_status (last (mv_evidence_trail r)) = mv_status r \<and>
   es_confidence (last (mv_evidence_trail r)) = mv_confidence r \<and>
   5 / 100 \<le> mv_confidence r \<and> mv_confidence r \<le> 99 / 100 \<and>
   mv_reachable_count r + mv_failed_count r + mv_degraded_count r \<le> mv_vantage_count r \<and>
   mv_vantage_count r = length observations"
proof (cases "observations = []")
  case True
  then show ?thesis by (simp add: localize_fault_def Let_def upt_rec)
next
  case False
  let ?obs = "sort_key obs_key observations"
  have v: "map es_vantage (map2 observation_step [1..<length ?obs + 1] ?obs) = map vantage ?obs"
    by (rule nth_equalityI) (simp_all add: observation_step_def del: upt_Suc)
  have cnt: "length (with_status HEALTHY obs) + length (with_status FAILED obs) +
      length (with_status DEGRADED obs) \<le> length obs" for obs
    unfolding with_status_def by (induction obs) auto
  have o: "map es_order (build_trail ?obs vd st c k) = [1..<length observations + 2]" for vd st c k
    using build_trail_orders [of ?obs] by simp
  have bt: "map es_vantage (butlast (build_trail ?obs vd st c k)) = map vantage ?obs"
    "es_role (last (build_trail ?obs vd st c k)) = ''verdict''"
    "es_status (last (build_trail ?obs vd st c k)) = st"
    "es_confidence (last (build_trail ?obs vd st c k)) = c" for vd st c k
    using v by (simp_all add: build_trail_def Let_def del: upt_Suc)
  show ?thesis
    unfolding localize_nonempty [OF False] Let_def
    using clamp_bounds cnt [of ?obs] by (simp add: o bt del: upt_Suc)
qed

end
