(* ===== verification/Topology.thy ===== *)
theory Topology
  imports Multivantage
begin

text \<open>
  Model of \<open>controller/topology.py\<close> (the validated network graph and service inventory)
  and \<open>controller/vantage.py\<close> (choice of the vantage points of a diagnosis). A Pydantic
  model is a record together with its validation; a validator that raises is
  \<open>Inl ValidationError\<close>. The correlation document that vantage selection reads is a list of
  node records with the keys the code looks up.
\<close>

section \<open>Topology\<close>

datatype node_role = R_AGENT | R_GATEWAY | R_SWITCH | R_HOST | R_TARGET | R_SERVICE

datatype edge_kind = LAN | WAN | LINK

datatype service_protocol = PROTO_TCP | PROTO_UDP

record topology_node =
  tn_node_id :: string
  tn_label :: "string option"
  tn_role :: node_role
  tn_agent_id :: "string option"
  tn_address :: "string option"
  tn_tags :: "(string \<times> string) list"

record topology_edge =
  te_src :: string
  te_dst :: string
  te_kind :: edge_kind
  te_capacity_mbps :: "rat option"
  te_tags :: "(string \<times> string) list"

record network_topology =
  nt_name :: string
  nt_nodes :: "topology_node list"
  nt_edges :: "topology_edge list"

definition validate_node :: "topology_node \<Rightarrow> topology_node result" where
  "validate_node n = bindR (guardR (tn_node_id n \<noteq> []) ValidationError) (\<lambda>_. Inr n)"

definition validate_edge :: "topology_edge \<Rightarrow> topology_edge result" where
  "validate_edge e =
     bindR (guardR (te_src e \<noteq> [] \<and> te_dst e \<noteq> [] \<and>
       (case te_capacity_mbps e of None \<Rightarrow> True | Some c \<Rightarrow> 0 < c)) ValidationError) (\<lambda>_.
     bindR (guardR (te_src e \<noteq> te_dst e) ValidationError) (\<lambda>_. Inr e))"

definition duplicates :: "string list \<Rightarrow> string list" where
  "duplicates ids = sort (remdups (filter (\<lambda>i. 1 < count_list ids i) ids))"

fun check_edges :: "string set \<Rightarrow> topology_edge list \<Rightarrow> unit result" where
  "check_edges known [] = Inr ()"
| "check_edges known (e # es) =
     (if te_src e \<notin> known then Inl ValidationError
      else if te_dst e \<notin> known then Inl ValidationError
      else check_edges known es)"

definition validate_graph :: "network_topology \<Rightarrow> network_topology result" where
  "validate_graph t =
     (let node_ids = map tn_node_id (nt_nodes t) in
      if duplicates node_ids \<noteq> [] then Inl ValidationError
      else bindR (check_edges (set node_ids) (nt_edges t)) (\<lambda>_. Inr t))"

text \<open>\<open>NetworkTopology.model_validate\<close>: the parts first, then the graph.\<close>

definition validate_topology :: "network_topology \<Rightarrow> network_topology result" where
  "validate_topology t =
     bindR (guardR (nt_name t \<noteq> []) ValidationError) (\<lambda>_.
     bindR (mapR validate_node (nt_nodes t)) (\<lambda>_.
     bindR (mapR validate_edge (nt_edges t)) (\<lambda>_. validate_graph t)))"

definition has_node :: "network_topology \<Rightarrow> string \<Rightarrow> bool" where
  "has_node t i = (\<exists>n \<in> set (nt_nodes t). tn_node_id n = i)"

definition node :: "network_topology \<Rightarrow> string \<Rightarrow> topology_node option" where
  "node t i = find (\<lambda>n. tn_node_id n = i) (nt_nodes t)"

definition neighbor_step :: "string \<Rightarrow> string list \<Rightarrow> topology_edge \<Rightarrow> string list" where
  "neighbor_step i res e =
     (if te_src e = i \<and> te_dst e \<notin> set res then res @ [te_dst e]
      else if te_dst e = i \<and> te_src e \<notin> set res then res @ [te_src e]
      else res)"

definition neighbors :: "network_topology \<Rightarrow> string \<Rightarrow> string list" where
  "neighbors t i = foldl (neighbor_step i) [] (nt_edges t)"

definition nodes_with_role :: "network_topology \<Rightarrow> node_role \<Rightarrow> topology_node list" where
  "nodes_with_role t r = filter (\<lambda>n. tn_role n = r) (nt_nodes t)"

definition agent_nodes :: "network_topology \<Rightarrow> topology_node list" where
  "agent_nodes t = filter (\<lambda>n. some_text (tn_agent_id n) \<or> tn_role n = R_AGENT) (nt_nodes t)"

record service_endpoint =
  se_service_id :: string
  se_name :: string
  se_node_id :: "string option"
  se_host :: string
  se_port :: int
  se_protocol :: service_protocol
  se_tags :: "(string \<times> string) list"

definition validate_service :: "service_endpoint \<Rightarrow> service_endpoint result" where
  "validate_service s =
     bindR (guardR (se_service_id s \<noteq> [] \<and> se_name s \<noteq> [] \<and> se_host s \<noteq> [] \<and>
       1 \<le> se_port s \<and> se_port s \<le> 65535) ValidationError) (\<lambda>_. Inr s)"

definition validate_inventory :: "service_endpoint list \<Rightarrow> service_endpoint list result" where
  "validate_inventory services =
     bindR (mapR validate_service services) (\<lambda>_.
       if duplicates (map se_service_id services) \<noteq> [] then Inl ValidationError else Inr services)"

section \<open>Vantage selection\<close>

record correlation_node =
  cn_node_id :: string
  cn_agent_id :: "string option"
  cn_registered :: bool
  cn_enabled :: bool
  cn_last_seen_at :: "rat option"

record vantage_assignment =
  va_role :: string
  va_node_id :: string
  va_agent_id :: string

record vantage_plan =
  vp_target :: string
  vp_service_id :: "string option"
  vp_topology :: "string option"
  vp_assignments :: "vantage_assignment list"

definition plan_agent_ids :: "vantage_plan \<Rightarrow> string list" where
  "plan_agent_ids p = map va_agent_id (vp_assignments p)"

definition role_of :: "vantage_plan \<Rightarrow> string \<Rightarrow> string option" where
  "role_of p a = map_option va_role (find (\<lambda>x. va_agent_id x = a) (vp_assignments p))"

definition node_of :: "vantage_plan \<Rightarrow> string \<Rightarrow> string option" where
  "node_of p a = map_option va_node_id (find (\<lambda>x. va_agent_id x = a) (vp_assignments p))"

definition eligible_step :: "(string \<times> string) list \<Rightarrow> correlation_node \<Rightarrow> (string \<times> string) list" where
  "eligible_step d c =
     (case cn_agent_id c of
        None \<Rightarrow> d
      | Some a \<Rightarrow> if cn_registered c \<and> cn_enabled c \<and> a \<noteq> [] then AList.update (cn_node_id c) a d else d)"

definition eligible_nodes :: "correlation_node list \<Rightarrow> (string \<times> string) list" where
  "eligible_nodes nodes = foldl eligible_step [] nodes"

definition assignment :: "(string \<times> string) list \<Rightarrow> string \<Rightarrow> string \<Rightarrow> vantage_assignment" where
  "assignment eligible role nid =
     \<lparr> va_role = role, va_node_id = nid, va_agent_id = the (map_of eligible nid) \<rparr>"

text \<open>The three choices of \<open>select_vantages\<close>; \<open>candidates\<close> are the eligible nodes
  without the destination, in order.\<close>

definition destination_choice :: "(string \<times> string) list \<Rightarrow> service_endpoint \<Rightarrow> string option" where
  "destination_choice eligible service =
     (case se_node_id service of None \<Rightarrow> None
      | Some d \<Rightarrow> if d \<noteq> [] \<and> d \<in> fst ` set eligible then Some d else None)"

definition first_of :: "string list \<Rightarrow> string option" where
  "first_of xs = (case xs of [] \<Rightarrow> None | x # _ \<Rightarrow> Some x)"

definition source_choice ::
  "(string \<times> string) list \<Rightarrow> string option \<Rightarrow> string list \<Rightarrow> string option \<Rightarrow> string option" where
  "source_choice eligible dest candidates requested =
     (case requested of
        Some s \<Rightarrow> if s \<noteq> [] \<and> s \<in> fst ` set eligible \<and> dest \<noteq> Some s then Some s
          else first_of candidates
      | None \<Rightarrow> first_of candidates)"

definition third_choice :: "network_topology \<Rightarrow> service_endpoint \<Rightarrow> string list \<Rightarrow> string option" where
  "third_choice topology service remaining =
     (let distant = (case se_node_id service of None \<Rightarrow> None
            | Some d \<Rightarrow> if d = [] then None
                else find (\<lambda>n. n \<notin> set (neighbors topology d)) remaining)
      in case distant of Some n \<Rightarrow> Some n
         | None \<Rightarrow> first_of remaining)"

definition candidates_of :: "(string \<times> string) list \<Rightarrow> string option \<Rightarrow> string list" where
  "candidates_of eligible dest = sort (filter (\<lambda>n. dest \<noteq> Some n) (map fst eligible))"

text \<open>A choice counts only when the node id is not empty (\<open>if source_node:\<close>).\<close>

definition filled :: "string option \<Rightarrow> string option" where
  "filled o' = (case o' of None \<Rightarrow> None | Some s \<Rightarrow> if s = [] then None else Some s)"

definition remaining_of ::
  "(string \<times> string) list \<Rightarrow> string option \<Rightarrow> string option \<Rightarrow> string list" where
  "remaining_of eligible dest source =
     filter (\<lambda>n. dest \<noteq> Some n \<and> source \<noteq> Some n) (candidates_of eligible dest)"

definition choose_nodes ::
  "network_topology \<Rightarrow> service_endpoint \<Rightarrow> (string \<times> string) list \<Rightarrow> string option \<Rightarrow>
   string option \<times> string option \<times> string option" where
  "choose_nodes topology service eligible source_node_id =
     (let dest = destination_choice eligible service;
          source = filled (source_choice eligible dest (candidates_of eligible dest) source_node_id);
          third = filled (third_choice topology service (remaining_of eligible dest source))
      in (dest, source, third))"

definition select_vantages ::
  "network_topology \<Rightarrow> service_endpoint \<Rightarrow> correlation_node list \<Rightarrow> string option \<Rightarrow> vantage_plan" where
  "select_vantages topology service correlation source_node_id =
     (let eligible = eligible_nodes correlation;
          plan = \<lparr> vp_target = se_host service, vp_service_id = Some (se_service_id service),
                   vp_topology = Some (nt_name topology), vp_assignments = [] \<rparr>
      in if eligible = [] then plan
         else (case choose_nodes topology service eligible source_node_id of
           (dest, source, third) \<Rightarrow> plan \<lparr> vp_assignments :=
             map (assignment eligible ROLE_DESTINATION) (opt_list dest) @
             map (assignment eligible ROLE_SOURCE) (opt_list source) @
             map (assignment eligible ROLE_THIRD) (opt_list third) \<rparr>))"

section \<open>Validation\<close>

lemma duplicates_Nil: "duplicates ids = [] \<longleftrightarrow> distinct ids"
proof -
  have "duplicates ids = [] \<longleftrightarrow> (\<forall>i \<in> set ids. count_list ids i \<le> 1)"
    by (auto simp: duplicates_def filter_empty_conv not_less sort_key_Nil)
  also have "\<dots> \<longleftrightarrow> distinct ids"
    by (induction ids) (auto simp: count_list_0_iff dest: count_notin split: if_splits)
  finally show ?thesis .
qed

lemma check_edges_Inr:
  "check_edges known es = Inr u \<longleftrightarrow> (\<forall>e \<in> set es. te_src e \<in> known \<and> te_dst e \<in> known)"
  by (induction es) auto

lemma mapR_guard:
  assumes "\<And>x. f x = (if P x then Inr x else Inl e)"
  shows "mapR f xs = (if \<forall>x \<in> set xs. P x then Inr xs else Inl e)"
  by (induction xs) (auto simp: assms)

definition edge_ok :: "topology_edge \<Rightarrow> bool" where
  "edge_ok e = (te_src e \<noteq> [] \<and> te_dst e \<noteq> [] \<and> te_src e \<noteq> te_dst e \<and>
     (case te_capacity_mbps e of None \<Rightarrow> True | Some c \<Rightarrow> 0 < c))"

lemma has_node_image: "has_node t i \<longleftrightarrow> i \<in> tn_node_id ` set (nt_nodes t)"
  by (auto simp: has_node_def)

text \<open>What a consumer of the graph may rely on.\<close>

definition topology_ok :: "network_topology \<Rightarrow> bool" where
  "topology_ok t = (nt_name t \<noteq> [] \<and> (\<forall>n \<in> set (nt_nodes t). tn_node_id n \<noteq> []) \<and>
     distinct (map tn_node_id (nt_nodes t)) \<and>
     (\<forall>e \<in> set (nt_edges t). edge_ok e \<and> has_node t (te_src e) \<and> has_node t (te_dst e)))"

lemma validate_node_if: "validate_node n = (if tn_node_id n \<noteq> [] then Inr n else Inl ValidationError)"
  by (simp add: validate_node_def)

lemma validate_edge_if: "validate_edge e = (if edge_ok e then Inr e else Inl ValidationError)"
  by (auto simp: validate_edge_def edge_ok_def guardR_def)

lemma validate_topology_iff:
  "validate_topology t = (if topology_ok t then Inr t else Inl ValidationError)"
proof -
  have g: "validate_graph t = (if distinct (map tn_node_id (nt_nodes t)) \<and>
      (\<forall>e \<in> set (nt_edges t). has_node t (te_src e) \<and> has_node t (te_dst e))
      then Inr t else Inl ValidationError)"
  proof -
    have "check_edges known es = Inr () \<or> check_edges known es = Inl ValidationError" for known es
      by (induction es) auto
    then consider "check_edges (tn_node_id ` set (nt_nodes t)) (nt_edges t) = Inr ()"
      | "check_edges (tn_node_id ` set (nt_nodes t)) (nt_edges t) = Inl ValidationError" by blast
    then show ?thesis
    proof cases
      case 1
      then show ?thesis
        using check_edges_Inr [of "tn_node_id ` set (nt_nodes t)" "nt_edges t" "()"]
        by (auto simp: validate_graph_def Let_def duplicates_Nil has_node_image)
    next
      case 2
      then show ?thesis
        using check_edges_Inr [of "tn_node_id ` set (nt_nodes t)" "nt_edges t" "()"]
        by (auto simp: validate_graph_def Let_def duplicates_Nil has_node_image)
    qed
  qed
  show ?thesis
    unfolding validate_topology_def mapR_guard [OF validate_node_if] mapR_guard [OF validate_edge_if] g
    by (auto simp: topology_ok_def guardR_def)
qed

section \<open>Neighbours\<close>

lemma neighbor_fold:
  "set (foldl (neighbor_step i) res es) =
     set res \<union> {b. \<exists>e \<in> set es. (te_src e = i \<and> te_dst e = b) \<or> (te_dst e = i \<and> te_src e = b)}"
  (is "?L res es = ?R res es")
proof (induction es arbitrary: res)
  case (Cons e es)
  then show ?case by (auto simp: neighbor_step_def)
qed simp

lemma neighbor_fold_distinct: "distinct res \<Longrightarrow> distinct (foldl (neighbor_step i) res es)"
  by (induction es arbitrary: res) (simp_all add: neighbor_step_def)

lemma set_neighbors:
  "b \<in> set (neighbors t i) \<longleftrightarrow>
     (\<exists>e \<in> set (nt_edges t). (te_src e = i \<and> te_dst e = b) \<or> (te_dst e = i \<and> te_src e = b))"
  by (simp add: neighbors_def neighbor_fold)

section \<open>The vantage plan\<close>

lemma eligible_fold:
  assumes "distinct (map fst d)"
    "\<And>n a. (n, a) \<in> set d \<Longrightarrow> \<exists>c \<in> C. cn_node_id c = n \<and> cn_agent_id c = Some a \<and> cn_registered c \<and> cn_enabled c"
    "set cs \<subseteq> C"
  shows "distinct (map fst (foldl eligible_step d cs)) \<and>
    (\<forall>(n, a) \<in> set (foldl eligible_step d cs).
       \<exists>c \<in> C. cn_node_id c = n \<and> cn_agent_id c = Some a \<and> cn_registered c \<and> cn_enabled c)"
  using assms
proof (induction cs arbitrary: d)
  case (Cons c cs)
  have d: "distinct (map fst (eligible_step d c))"
    using Cons.prems(1) by (simp add: eligible_step_def distinct_update split: option.splits)
  have "\<exists>c \<in> C. cn_node_id c = n \<and> cn_agent_id c = Some a \<and> cn_registered c \<and> cn_enabled c"
    if "(n, a) \<in> set (eligible_step d c)" for n a
  proof -
    have "map_of (eligible_step d c) n = Some a"
      using that d by (simp add: map_of_is_SomeI)
    then have "map_of d n = Some a \<or> (cn_node_id c = n \<and> cn_agent_id c = Some a \<and> cn_registered c \<and> cn_enabled c)"
      by (auto simp: eligible_step_def update_conv split: option.splits if_splits)
    then show ?thesis using Cons.prems(2,3) by (auto dest: map_of_SomeD)
  qed
  from Cons.IH [OF d this] Cons.prems(3) show ?case by simp
qed auto

lemma eligible_distinct: "distinct (map fst (eligible_nodes cs))"
  using eligible_fold [of "[]" "set cs" cs] by (simp add: eligible_nodes_def)

lemma eligible_sound:
  "map_of (eligible_nodes cs) n = Some a \<Longrightarrow>
     \<exists>c \<in> set cs. cn_node_id c = n \<and> cn_agent_id c = Some a \<and> cn_registered c \<and> cn_enabled c"
  using eligible_fold [of "[]" "set cs" cs] by (auto simp: eligible_nodes_def dest: map_of_SomeD)

lemma candidates_iff:
  "n \<in> set (candidates_of eligible dest) \<longleftrightarrow> n \<in> fst ` set eligible \<and> dest \<noteq> Some n"
  by (auto simp: candidates_of_def)

lemma remaining_iff:
  "n \<in> set (remaining_of eligible dest source) \<longleftrightarrow>
     n \<in> fst ` set eligible \<and> dest \<noteq> Some n \<and> source \<noteq> Some n"
  by (auto simp: remaining_of_def candidates_iff)

lemma first_of_in: "first_of xs = Some x \<Longrightarrow> x \<in> set xs"
  by (auto simp: first_of_def split: list.splits)

lemma first_of_None: "first_of xs = None \<longleftrightarrow> xs = []"
  by (auto simp: first_of_def split: list.splits)

lemma filled_Some: "filled x = Some s \<longleftrightarrow> x = Some s \<and> s \<noteq> []"
  by (auto simp: filled_def split: option.splits if_splits)

lemma destination_choice_Some:
  "destination_choice eligible service = Some d \<longleftrightarrow>
     se_node_id service = Some d \<and> d \<noteq> [] \<and> d \<in> fst ` set eligible"
  by (auto simp: destination_choice_def split: option.splits)

lemma source_choice_in:
  "source_choice eligible dest (candidates_of eligible dest) requested = Some s \<Longrightarrow>
     s \<in> set (candidates_of eligible dest)"
  by (auto simp: source_choice_def candidates_iff split: option.splits if_splits
      dest!: first_of_in)

lemma third_choice_in:
  "third_choice topology service remaining = Some t \<Longrightarrow> t \<in> set remaining"
  by (auto simp: third_choice_def Let_def find_Some_iff split: option.splits if_splits
      dest!: first_of_in)

lemma third_choice_distant:
  assumes "se_node_id service = Some d" "d \<noteq> []" "n \<in> set remaining" "n \<notin> set (neighbors topology d)"
  shows "\<exists>t. third_choice topology service remaining = Some t \<and> t \<notin> set (neighbors topology d)"
proof -
  obtain t where "find (\<lambda>n. n \<notin> set (neighbors topology d)) remaining = Some t"
    using assms(3,4) by (cases "find (\<lambda>n. n \<notin> set (neighbors topology d)) remaining")
      (auto simp: find_None_iff)
  moreover from this have "t \<notin> set (neighbors topology d)" by (auto simp: find_Some_iff)
  ultimately show ?thesis
    using assms(1,2) by (simp add: third_choice_def Let_def)
qed

lemma third_choice_None: "third_choice topology service remaining = None \<Longrightarrow> remaining = []"
  by (auto simp: third_choice_def Let_def first_of_None split: option.splits if_splits)

lemma source_choice_None:
  "source_choice eligible dest cands requested = None \<Longrightarrow> cands = []"
  by (auto simp: source_choice_def first_of_None split: option.splits if_splits)

text \<open>The three nodes chosen are different eligible nodes.\<close>

lemma chosen_nodes:
  assumes "choose_nodes topology service eligible requested = (dest, source, third)"
  shows "distinct (opt_list dest @ opt_list source @ opt_list third)"
    and "set (opt_list dest @ opt_list source @ opt_list third) \<subseteq> fst ` set eligible"
proof -
  have d: "dest = destination_choice eligible service"
    and s: "source = filled (source_choice eligible dest (candidates_of eligible dest) requested)"
    and t: "third = filled (third_choice topology service (remaining_of eligible dest source))"
    using assms by (auto simp: choose_nodes_def Let_def)
  have 0: "dest = Some n \<Longrightarrow> n \<in> fst ` set eligible" for n
    using d destination_choice_Some by metis
  have 1: "source = Some n \<Longrightarrow> n \<in> fst ` set eligible \<and> dest \<noteq> Some n" for n
    using s source_choice_in filled_Some candidates_iff by metis
  have 2: "third = Some n \<Longrightarrow> n \<in> fst ` set eligible \<and> dest \<noteq> Some n \<and> source \<noteq> Some n" for n
    using t third_choice_in filled_Some remaining_iff by metis
  show "distinct (opt_list dest @ opt_list source @ opt_list third)"
    using 1 2 by (cases dest; cases source; cases third) (auto simp: opt_list_def)
  show "set (opt_list dest @ opt_list source @ opt_list third) \<subseteq> fst ` set eligible"
    using 0 1 2 by (cases dest; cases source; cases third) (auto simp: opt_list_def)
qed

lemma select_assignments:
  assumes "choose_nodes topology service (eligible_nodes correlation) requested = (dest, source, third)"
    "eligible_nodes correlation \<noteq> []"
  shows "vp_assignments (select_vantages topology service correlation requested) =
    map (assignment (eligible_nodes correlation) ROLE_DESTINATION) (opt_list dest) @
    map (assignment (eligible_nodes correlation) ROLE_SOURCE) (opt_list source) @
    map (assignment (eligible_nodes correlation) ROLE_THIRD) (opt_list third)"
  using assms by (simp add: select_vantages_def Let_def)

section \<open>Properties\<close>

text \<open>C25: Validation accepts a topology document exactly when it has a name, non-empty and unique
  node ids, and edges of positive capacity that join two different declared nodes; what it returns
  is the document unchanged, and every other document is refused with \<open>ValidationError\<close>.\<close>

theorem topology_validation:
  "validate_topology t = (if topology_ok t then Inr t else Inl ValidationError)"
  by (rule validate_topology_iff)

text \<open>The one-hop neighbours of a node are listed once each, are exactly the other ends of the
  edges at the node, and the relation is symmetric.\<close>

theorem neighbors_symmetric:
  "distinct (neighbors t i) \<and>
   (j \<in> set (neighbors t i) \<longleftrightarrow> (\<exists>e \<in> set (nt_edges t). {te_src e, te_dst e} = {i, j})) \<and>
   (j \<in> set (neighbors t i) \<longleftrightarrow> i \<in> set (neighbors t j))"
  using neighbor_fold_distinct [of "[]" i "nt_edges t"]
  by (auto simp: set_neighbors doubleton_eq_iff neighbors_def [symmetric])

text \<open>C26: A vantage plan has at most one destination, one source and one third vantage, in this
  order, on different nodes, and each assigned agent is the registered and enabled agent of its
  node.\<close>

theorem vantage_plan_sound:
  "let p = select_vantages topology service correlation requested in
   length (vp_assignments p) \<le> 3 \<and>
   distinct (map va_node_id (vp_assignments p)) \<and>
   distinct (map va_role (vp_assignments p)) \<and>
   sorted (map (\<lambda>a. role_order (va_role a)) (vp_assignments p)) \<and>
   (\<forall>a \<in> set (vp_assignments p). \<exists>c \<in> set correlation.
      cn_node_id c = va_node_id a \<and> cn_agent_id c = Some (va_agent_id a) \<and> cn_registered c \<and> cn_enabled c)"
proof (cases "eligible_nodes correlation = []")
  case True
  then show ?thesis by (simp add: select_vantages_def Let_def)
next
  case False
  obtain dest source third where
    c: "choose_nodes topology service (eligible_nodes correlation) requested = (dest, source, third)"
    by (cases "choose_nodes topology service (eligible_nodes correlation) requested")
  let ?as = "vp_assignments (select_vantages topology service correlation requested)"
  have as: "?as = map (assignment (eligible_nodes correlation) ROLE_DESTINATION) (opt_list dest) @
    map (assignment (eligible_nodes correlation) ROLE_SOURCE) (opt_list source) @
    map (assignment (eligible_nodes correlation) ROLE_THIRD) (opt_list third)"
    by (rule select_assignments [OF c False])
  have nodes: "map va_node_id ?as = opt_list dest @ opt_list source @ opt_list third"
    by (simp add: as assignment_def comp_def)
  have roles: "distinct (map va_role ?as) \<and> sorted (map (\<lambda>a. role_order (va_role a)) ?as) \<and> length ?as \<le> 3"
    by (cases dest; cases source; cases third)
      (simp_all add: as assignment_def opt_list_def role_defs role_order_def)
  have "\<exists>c \<in> set correlation. cn_node_id c = va_node_id a \<and> cn_agent_id c = Some (va_agent_id a) \<and>
      cn_registered c \<and> cn_enabled c" if a: "a \<in> set ?as" for a
  proof -
    have "va_node_id a \<in> fst ` set (eligible_nodes correlation)"
      using a chosen_nodes(2) [OF c] nodes by (metis image_eqI list.set_map subsetD)
    then obtain ag where ag: "map_of (eligible_nodes correlation) (va_node_id a) = Some ag"
      by (metis (no_types) map_of_eq_None_iff option.exhaust)
    have "va_agent_id a = the (map_of (eligible_nodes correlation) (va_node_id a))"
      using a by (auto simp: as assignment_def)
    with eligible_sound [OF ag] ag show ?thesis by simp
  qed
  then show ?thesis
    unfolding Let_def nodes using chosen_nodes(1) [OF c] roles by blast
qed

text \<open>The third vantage is topologically distant whenever one can be: if an eligible node that
  is left out of the plan is not adjacent to the service's node, then the plan has a third vantage
  and that one is not adjacent to it either.\<close>

theorem third_vantage_distant:
  assumes "se_node_id service = Some d" "d \<noteq> []" "[] \<notin> fst ` set (eligible_nodes correlation)"
    and "n \<in> fst ` set (eligible_nodes correlation)" "n \<notin> set (neighbors topology d)"
    and "n \<notin> va_node_id ` set (vp_assignments (select_vantages topology service correlation requested))"
  shows "\<exists>a \<in> set (vp_assignments (select_vantages topology service correlation requested)).
    va_role a = ROLE_THIRD \<and> va_node_id a \<notin> set (neighbors topology d)"
proof -
  obtain dest source third where
    c: "choose_nodes topology service (eligible_nodes correlation) requested = (dest, source, third)"
    by (cases "choose_nodes topology service (eligible_nodes correlation) requested")
  have ne: "eligible_nodes correlation \<noteq> []" using assms(4) by auto
  let ?as = "vp_assignments (select_vantages topology service correlation requested)"
  note as = select_assignments [OF c ne]
  have "va_node_id ` set ?as = set (opt_list dest @ opt_list source @ opt_list third)"
    by (simp add: as assignment_def image_Un image_image)
  then have n: "dest \<noteq> Some n" "source \<noteq> Some n"
    using assms(6) by (auto simp: opt_list_def)
  let ?r = "remaining_of (eligible_nodes correlation) dest source"
  have third: "third = filled (third_choice topology service ?r)"
    using c by (auto simp: choose_nodes_def Let_def)
  have "n \<in> set ?r" using assms(4) n by (simp add: remaining_iff)
  from third_choice_distant [OF assms(1,2) this assms(5)] obtain t where
    t: "third_choice topology service ?r = Some t" "t \<notin> set (neighbors topology d)" by blast
  have "t \<noteq> []"
    using third_choice_in [OF t(1)] assms(3) by (metis remaining_iff)
  with third t have "third = Some t" by (simp add: filled_def)
  then have "assignment (eligible_nodes correlation) ROLE_THIRD t \<in> set ?as"
    by (simp add: as opt_list_def)
  with t(2) show ?thesis by (force simp: assignment_def)
qed

definition sample_service :: service_endpoint where
  "sample_service = \<lparr> se_service_id = ''s'', se_name = ''s'', se_node_id = Some ''d'', se_host = ''h'',
     se_port = 80, se_protocol = PROTO_TCP, se_tags = [] \<rparr>"

definition sample_topology :: network_topology where
  "sample_topology = \<lparr> nt_name = ''t'', nt_nodes = [], nt_edges =
     [\<lparr> te_src = ''b'', te_dst = ''d'', te_kind = LAN, te_capacity_mbps = None, te_tags = [] \<rparr>] \<rparr>"

definition sample_correlation :: "correlation_node list" where
  "sample_correlation = map (\<lambda>n. \<lparr> cn_node_id = n, cn_agent_id = Some n, cn_registered = True,
     cn_enabled = True, cn_last_seen_at = None \<rparr>) [''a'', ''b'', ''c'', ''e'']"

theorem third_vantage_distant_witness:
  "\<exists>a \<in> set (vp_assignments (select_vantages sample_topology sample_service sample_correlation None)).
    va_role a = ROLE_THIRD \<and> va_node_id a \<notin> set (neighbors sample_topology ''d'')"
  by (rule third_vantage_distant [where n = "''e''"])
    (simp_all add: sample_service_def sample_topology_def sample_correlation_def eligible_nodes_def
      eligible_step_def neighbors_def neighbor_step_def select_vantages_def Let_def choose_nodes_def
      destination_choice_def candidates_of_def source_choice_def first_of_def filled_def
      remaining_of_def third_choice_def opt_list_def assignment_def)

theorem vantage_plan_sound_witness:
  "\<exists>a \<in> set (vp_assignments (select_vantages sample_topology sample_service sample_correlation None)).
    \<exists>c \<in> set sample_correlation. cn_node_id c = va_node_id a \<and> cn_agent_id c = Some (va_agent_id a)"
proof -
  have "vp_assignments (select_vantages sample_topology sample_service sample_correlation None) \<noteq> []"
    by code_simp
  then obtain a where "a \<in> set (vp_assignments (select_vantages sample_topology sample_service sample_correlation None))"
    by fastforce
  with vantage_plan_sound [of sample_topology sample_service sample_correlation None] show ?thesis
    by (fastforce simp: Let_def)
qed

end
