(* ===== verification/History.thy ===== *)
theory History
  imports Core_Types "HOL-Library.Multiset"
begin

text \<open>
  Model of \<open>storage/history.py\<close> (the snapshot table and its rolling statistics) and
  \<open>storage/baselines.py\<close> (comparison of a sample with its baseline).

  The table is the list of its rows in the order of insertion (the autoincremented id); a query
  \<open>ORDER BY created_at DESC LIMIT n\<close> is a stable descending sort by time followed by
  \<open>take n\<close>, which is the order of the index the code creates. The time of an insertion is an
  argument. \<open>rp\<close> is Python's \<open>repr\<close> of a float.
\<close>

section \<open>The snapshot table\<close>

record snapshot =
  sn_domain :: string
  sn_key :: string
  sn_fingerprint :: "string option"
  sn_payload :: "(string \<times> pyval) list"
  sn_created_at :: rat

type_synonym history = "snapshot list"

definition save_snapshot ::
  "rat \<Rightarrow> string \<Rightarrow> string \<Rightarrow> (string \<times> pyval) list \<Rightarrow> string option \<Rightarrow> history \<Rightarrow> history" where
  "save_snapshot now domain key payload fingerprint h =
     h @ [\<lparr> sn_domain = domain, sn_key = key, sn_fingerprint = fingerprint, sn_payload = payload,
            sn_created_at = now \<rparr>]"

definition recent :: "string \<Rightarrow> string \<Rightarrow> nat \<Rightarrow> history \<Rightarrow> snapshot list" where
  "recent domain key limit h =
     take limit (sort_key (\<lambda>s. - sn_created_at s)
       (filter (\<lambda>s. sn_domain s = domain \<and> sn_key s = key) h))"

definition latest_snapshot :: "string \<Rightarrow> string \<Rightarrow> history \<Rightarrow> snapshot option" where
  "latest_snapshot domain key h =
     (case recent domain key 1 h of [] \<Rightarrow> None | s # _ \<Rightarrow> Some s)"

definition previous_snapshot :: "string \<Rightarrow> string \<Rightarrow> history \<Rightarrow> snapshot option" where
  "previous_snapshot domain key h =
     (let rows = recent domain key 2 h in if length rows < 2 then None else Some (rows ! 1))"

section \<open>Rolling statistics\<close>

definition median :: "rat list \<Rightarrow> rat" where
  "median xs =
     (let s = sort xs; n = length s in
      if n mod 2 = 1 then s ! (n div 2) else (s ! (n div 2 - 1) + s ! (n div 2)) / 2)"

text \<open>The last of \<open>statistics.quantiles(xs, n=20, method="inclusive")\<close>.\<close>

definition last_quantile20 :: "rat list \<Rightarrow> rat" where
  "last_quantile20 xs =
     (let s = sort xs; m = length s - 1; j = 19 * m div 20; delta = 19 * m mod 20
      in (s ! j * of_nat (20 - delta) + s ! (j + 1) * of_nat delta) / 20)"

fun numeric_value :: "pyval \<Rightarrow> rat option" where
  "numeric_value (PBool b) = Some (if b then 1 else 0)"
| "numeric_value (PInt i) = Some (of_int i)"
| "numeric_value (PFloat r) = Some r"
| "numeric_value _ = None"

definition metric_values :: "string \<Rightarrow> snapshot list \<Rightarrow> rat list" where
  "metric_values metric rows = List.map_filter (\<lambda>s. numeric_value (get_val (sn_payload s) metric)) rows"

definition rolling_baseline :: "string \<Rightarrow> string \<Rightarrow> string \<Rightarrow> nat \<Rightarrow> history \<Rightarrow> rat option" where
  "rolling_baseline domain key metric limit h =
     (let values = metric_values metric (recent domain key limit h)
      in if values = [] then None else Some (median values))"

record rolling =
  ro_sample_count :: nat
  ro_median :: rat
  ro_p95 :: rat
  ro_mad :: rat

definition rolling_stats :: "string \<Rightarrow> string \<Rightarrow> string \<Rightarrow> nat \<Rightarrow> history \<Rightarrow> rolling option" where
  "rolling_stats domain key metric limit h =
     (let values = metric_values metric (recent domain key limit h)
      in if values = [] then None
         else
           (let m = median values
            in Some \<lparr> ro_sample_count = length values, ro_median = m,
                 ro_p95 = (if length values < 2 then Max (set values) else last_quantile20 values),
                 ro_mad = median (map (\<lambda>v. \<bar>v - m\<bar>) values) \<rparr>))"

section \<open>Comparison with the baseline\<close>

definition abs_guard :: "string \<Rightarrow> rat" where
  "abs_guard metric_name = (if contains ''percent'' (py_lower metric_name) then 1 else 5)"

definition meaningful_delta :: "string \<Rightarrow> rat \<Rightarrow> rolling \<Rightarrow> bool" where
  "meaningful_delta metric_name current st =
     (let abs_delta = \<bar>current - ro_median st\<bar>
      in (abs_guard metric_name \<le> abs_delta \<or> 10 \<le> current) \<and>
         (ro_p95 st < current \<or> (0 < ro_mad st \<and> 3 * ro_mad st \<le> abs_delta)))"

definition worsened :: "string \<Rightarrow> rat \<Rightarrow> bool \<Rightarrow> rat \<Rightarrow> rolling \<Rightarrow> bool" where
  "worsened metric_name current higher_is_worse warn_ratio st =
     (let ratio = current / ro_median st in
      5 \<le> ro_sample_count st \<and>
      (if higher_is_worse then warn_ratio \<le> ratio \<and> meaningful_delta metric_name current st
       else if warn_ratio \<noteq> 0 then ratio \<le> 1 / warn_ratio else False))"

definition failed_delta :: "string \<Rightarrow> rat \<Rightarrow> bool \<Rightarrow> rat \<Rightarrow> rolling \<Rightarrow> bool" where
  "failed_delta metric_name current higher_is_worse fail_ratio st =
     (higher_is_worse \<and> 5 \<le> ro_sample_count st \<and> fail_ratio \<le> current / ro_median st \<and>
      meaningful_delta metric_name current st)"

definition opt_rat :: "rat option \<Rightarrow> pyval" where
  "opt_rat x = (case x of None \<Rightarrow> PNone | Some r \<Rightarrow> PFloat r)"

definition compare_result ::
  "(rat \<Rightarrow> string) \<Rightarrow> string \<Rightarrow> string \<Rightarrow> string \<Rightarrow> rat \<Rightarrow> bool \<Rightarrow> rat \<Rightarrow> rat \<Rightarrow> rolling option \<Rightarrow>
   diagnostic_result" where
  "compare_result rp domain key metric_name current higher_is_worse warn_ratio fail_ratio stats =
     (let sample_count = (case stats of None \<Rightarrow> 0 | Some st \<Rightarrow> ro_sample_count st);
          seeded = \<lparr> dr_module = ''baseline_delta'', dr_category = domain, dr_status = HEALTHY,
            dr_severity = INFO,
            dr_summary = ''Baseline seeded for '' @ domain @ ''/'' @ key @ ''.'' @ metric_name @ ''='' @
              rp current,
            dr_target = Some key,
            dr_metrics = [(''metric'', PStr metric_name), (''current'', PFloat current),
              (''baseline'', PNone), (''ratio'', PNone), (''deviated'', PBool False),
              (''sample_count'', PInt (int sample_count))],
            dr_evidence = [''First samples stored for '' @ metric_name],
            dr_warnings = [], dr_errors = [], dr_metadata = [] \<rparr>
      in case stats of
           None \<Rightarrow> seeded
         | Some st \<Rightarrow>
             if ro_median st = 0 then seeded
             else
               (let baseline = ro_median st; ratio = current / baseline;
                    dev = worsened metric_name current higher_is_worse warn_ratio st
                in \<lparr> dr_module = ''baseline_delta'', dr_category = domain,
                     dr_status = (if failed_delta metric_name current higher_is_worse fail_ratio st
                       then FAILED else if dev then DEGRADED else HEALTHY),
                     dr_severity = (if failed_delta metric_name current higher_is_worse fail_ratio st
                       then HIGH else if dev then MEDIUM else INFO),
                     dr_summary = metric_name @ '' for '' @ key @ '': current='' @ fmt_fixed 2 current @
                       '', baseline='' @ fmt_fixed 2 baseline @ '', ratio='' @ fmt_fixed 2 ratio,
                     dr_target = Some key,
                     dr_metrics = [(''metric'', PStr metric_name), (''current'', PFloat current),
                       (''baseline'', PFloat (py_round baseline 4)), (''ratio'', PFloat (py_round ratio 3)),
                       (''deviated'', PBool dev), (''higher_is_worse'', PBool higher_is_worse),
                       (''sample_count'', PInt (int sample_count)),
                       (''baseline_mad'', PFloat (py_round (ro_mad st) 4)),
                       (''baseline_p95'', PFloat (py_round (ro_p95 st) 4))],
                     dr_evidence = [''Rolling baseline median ('' @ metric_name @ '')='' @
                         fmt_fixed 4 baseline, ''Current value='' @ fmt_fixed 4 current],
                     dr_warnings = (if dev then [metric_name @ '' significantly worse than baseline''] else []),
                     dr_errors = [], dr_metadata = [] \<rparr>))"

text \<open>The statistics are read before the sample is saved.\<close>

definition record_and_compare ::
  "(rat \<Rightarrow> string) \<Rightarrow> rat \<Rightarrow> string \<Rightarrow> string \<Rightarrow> string \<Rightarrow> rat \<Rightarrow> bool \<Rightarrow> rat \<Rightarrow> rat \<Rightarrow> history \<Rightarrow>
   diagnostic_result \<times> history" where
  "record_and_compare rp now domain key metric_name current higher_is_worse warn_ratio fail_ratio h =
     (let stats = rolling_stats domain key metric_name 20 h;
          h' = save_snapshot now domain key [(metric_name, PFloat current)] None h
      in (compare_result rp domain key metric_name current higher_is_worse warn_ratio fail_ratio stats, h'))"

definition WARN_RATIO :: rat where "WARN_RATIO = 3 / 2"
definition FAIL_RATIO :: rat where "FAIL_RATIO = 5 / 2"

definition probe_metric :: "diagnostic_result \<Rightarrow> (string \<times> string \<times> string) option" where
  "probe_metric r =
     (let key = (case dr_target r of None \<Rightarrow> dr_module r | Some t \<Rightarrow> if t = [] then dr_module r else t) in
      if dr_module r = ''latency'' \<and> get_val (dr_metrics r) ''avg_ms'' \<noteq> PNone then
        Some (''host'', ''latency:'' @ key, ''avg_ms'')
      else if dr_module r = ''packet_loss'' \<and> get_val (dr_metrics r) ''packet_loss_percent'' \<noteq> PNone then
        Some (''host'', ''loss:'' @ key, ''packet_loss_percent'')
      else if dr_module r = ''link_utilization'' \<and> get_val (dr_metrics r) ''util_percent'' \<noteq> PNone then
        Some (''link'', ''util:'' @ key, ''util_percent'')
      else None)"

fun compare_probe_metrics ::
  "(rat \<Rightarrow> string) \<Rightarrow> (string \<Rightarrow> rat result) \<Rightarrow> rat \<Rightarrow> diagnostic_result list \<Rightarrow>
   (history, diagnostic_result list) act" where
  "compare_probe_metrics rp float_text now [] h = (Inr [], h)"
| "compare_probe_metrics rp float_text now (r # rs) h =
     (case probe_metric r of
        None \<Rightarrow> compare_probe_metrics rp float_text now rs h
      | Some (domain, key, metric) \<Rightarrow>
          (case float_of float_text (get_val (dr_metrics r) metric) of
             Inl e \<Rightarrow> (Inl e, h)
           | Inr v \<Rightarrow>
               (case record_and_compare rp now domain key metric v True WARN_RATIO FAIL_RATIO h of
                  (d, h') \<Rightarrow> bindA (compare_probe_metrics rp float_text now rs)
                               (\<lambda>ds. returnA (d # ds)) h')))"

section \<open>Statistics\<close>

lemma sort_bounds:
  assumes "i < length xs"
  shows "Min (set xs) \<le> sort xs ! i" "sort xs ! i \<le> Max (set xs)"
proof -
  have "sort xs ! i \<in> set xs" using assms nth_mem [of i "sort xs"] by simp
  then show "Min (set xs) \<le> sort xs ! i" "sort xs ! i \<le> Max (set xs)" by auto
qed

lemma median_bounds:
  fixes xs :: "rat list"
  assumes "xs \<noteq> []"
  shows "Min (set xs) \<le> median xs" "median xs \<le> Max (set xs)"
proof -
  let ?n = "length xs"
  have n: "?n div 2 < ?n" "?n div 2 - 1 < ?n" using assms by (cases xs; simp)+
  note b = sort_bounds [OF n(1)] sort_bounds [OF n(2)]
  show "Min (set xs) \<le> median xs" "median xs \<le> Max (set xs)"
    using b by (auto simp: median_def Let_def field_simps)
qed

lemma median_nonneg: "xs \<noteq> [] \<Longrightarrow> (\<And>x. x \<in> set xs \<Longrightarrow> 0 \<le> x) \<Longrightarrow> 0 \<le> median (xs :: rat list)"
proof -
  assume xs: "xs \<noteq> []" "\<And>x. x \<in> set xs \<Longrightarrow> 0 \<le> x"
  then have "Min (set xs) \<in> set xs" by (intro Min_in) auto
  then have "0 \<le> Min (set xs)" by (rule xs(2))
  also have "\<dots> \<le> median xs" by (rule median_bounds [OF xs(1)])
  finally show ?thesis .
qed

lemma interpolate_bounds:
  fixes a b :: rat
  assumes "a \<le> b" "d \<le> 20"
  shows "a \<le> (a * of_nat (20 - d) + b * of_nat d) / 20" "(a * of_nat (20 - d) + b * of_nat d) / 20 \<le> b"
proof -
  have s: "of_nat (20 - d) = (20 - of_nat d :: rat)" using assms(2) by simp
  have d: "0 \<le> (of_nat d :: rat)" "(of_nat d :: rat) \<le> 20" using assms(2) by simp_all
  have "0 \<le> (b - a) * of_nat d" using assms(1) by simp
  moreover have "0 \<le> (b - a) * (20 - of_nat d)" using assms(1) d by simp
  ultimately show "a \<le> (a * of_nat (20 - d) + b * of_nat d) / 20"
    "(a * of_nat (20 - d) + b * of_nat d) / 20 \<le> b"
    unfolding s by (simp_all add: field_simps)
qed

lemma last_quantile_bounds:
  fixes xs :: "rat list"
  assumes "2 \<le> length xs"
  shows "median xs \<le> last_quantile20 xs" "last_quantile20 xs \<le> Max (set xs)"
proof -
  let ?s = "sort xs" let ?n = "length xs" let ?m = "?n - 1"
  let ?j = "19 * ?m div 20" let ?d = "19 * ?m mod 20"
  have j: "?j + 1 < ?n" using assms by simp
  have ab: "?s ! ?j \<le> ?s ! (?j + 1)" using j by (intro sorted_nth_mono) simp_all
  have d: "?d \<le> 20" by (simp add: less_imp_le)
  have q: "last_quantile20 xs = (?s ! ?j * of_nat (20 - ?d) + ?s ! (?j + 1) * of_nat ?d) / 20"
    by (simp add: last_quantile20_def Let_def)
  note b = interpolate_bounds [OF ab d]
  show "last_quantile20 xs \<le> Max (set xs)"
    using b(2) sort_bounds(2) [OF j] unfolding q by simp
  show "median xs \<le> last_quantile20 xs"
  proof (cases "?n = 2")
    case True
    then have s: "?j = 0" "?d = 19" by simp_all
    have "?s ! 0 \<le> ?s ! 1" using ab s(1) by simp
    with True show ?thesis unfolding q s by (simp add: median_def Let_def field_simps)
  next
    case False
    with assms have "?n div 2 \<le> ?j" by linarith
    then have "?s ! (?n div 2) \<le> ?s ! ?j" "?s ! (?n div 2 - 1) \<le> ?s ! (?n div 2)"
      using j by (auto intro!: sorted_nth_mono)
    then have "median xs \<le> ?s ! ?j"
      by (auto simp: median_def Let_def field_simps)
    with b(1) show ?thesis unfolding q by simp
  qed
qed

lemma metric_values_length: "length (metric_values metric rows) \<le> length rows"
  by (induction rows) (auto simp: metric_values_def List.map_filter_simps split: option.splits)

lemma recent_other:
  "\<not> (sn_domain s = domain \<and> sn_key s = key) \<Longrightarrow> recent domain key limit (h @ [s]) = recent domain key limit h"
  by (auto simp: recent_def)

lemma sort_newest:
  assumes "\<And>s. s \<in> set xs \<Longrightarrow> sn_created_at s < sn_created_at x"
  shows "sort_key (\<lambda>s. - sn_created_at s) (xs @ [x]) = x # sort_key (\<lambda>s. - sn_created_at s) xs"
proof (rule properties_for_sort_key)
  let ?f = "\<lambda>s. - sn_created_at s"
  show "mset (x # sort_key ?f xs) = mset (xs @ [x])" by simp
  show "sorted (map ?f (x # sort_key ?f xs))" using assms by (auto simp: less_imp_le)
  fix k
  assume "k \<in> set (x # sort_key ?f xs)"
  show "filter (\<lambda>y. ?f k = ?f y) (x # sort_key ?f xs) = filter (\<lambda>y. ?f k = ?f y) (xs @ [x])"
  proof (cases "?f k = ?f x")
    case True
    have "?f k \<noteq> ?f y" if "y \<in> set xs" for y using True assms [OF that] by simp
    then have "filter (\<lambda>y. ?f k = ?f y) xs = []" by (simp add: filter_empty_conv)
    moreover from this have "filter (\<lambda>y. ?f k = ?f y) (sort_key ?f xs) = []"
      by (auto simp: filter_empty_conv)
    ultimately show ?thesis using True by simp
  next
    case False
    have "filter (\<lambda>y. ?f k = ?f y) (sort_key ?f xs) = filter (\<lambda>y. ?f k = ?f y) xs"
      using sort_key_stable [of ?f "?f k" xs] by (subst (1 2) eq_commute)
    with False show ?thesis by simp
  qed
qed

lemma compare_deviated:
  "get_val (dr_metrics (compare_result rp domain key metric current hw wr fr stats)) ''deviated'' =
     PBool (case stats of None \<Rightarrow> False | Some st \<Rightarrow> ro_median st \<noteq> 0 \<and> worsened metric current hw wr st)"
  by (simp add: compare_result_def get_val_def Let_def split: option.splits)

lemma compare_status:
  assumes "\<And>st. stats = Some st \<Longrightarrow> failed_delta metric current hw fr st \<Longrightarrow> worsened metric current hw wr st"
  shows "dr_status (compare_result rp domain key metric current hw wr fr stats) \<noteq> HEALTHY \<longleftrightarrow>
     (case stats of None \<Rightarrow> False | Some st \<Rightarrow> ro_median st \<noteq> 0 \<and> worsened metric current hw wr st)"
  using assms by (simp add: compare_result_def Let_def split: option.splits)

lemma failed_worsened:
  "failed_delta metric current hw (5 / 2) st \<Longrightarrow> worsened metric current hw (3 / 2) st"
  by (simp add: failed_delta_def worsened_def Let_def)

section \<open>Properties\<close>

text \<open>The rolling statistics describe the last samples: there are between one and
  \<open>limit\<close> of them, the median lies between their minimum and the 95th percentile, the
  percentile does not exceed their maximum, and the median absolute deviation is not negative;
  there are no statistics exactly when no recent snapshot has a numeric value.\<close>

theorem rolling_stats_sound:
  "let values = metric_values metric (recent domain key limit h) in
   case rolling_stats domain key metric limit h of
     None \<Rightarrow> values = []
   | Some st \<Rightarrow> 1 \<le> ro_sample_count st \<and> ro_sample_count st \<le> limit \<and>
       Min (set values) \<le> ro_median st \<and> ro_median st \<le> ro_p95 st \<and>
       ro_p95 st \<le> Max (set values) \<and> 0 \<le> ro_mad st"
proof -
  let ?v = "metric_values metric (recent domain key limit h)"
  have len: "length ?v \<le> limit"
    using metric_values_length [of metric "recent domain key limit h"] by (simp add: recent_def)
  show ?thesis
  proof (cases "?v = []")
    case False
    then have "0 \<le> median (map (\<lambda>v. \<bar>v - median ?v\<bar>) ?v)"
      by (intro median_nonneg) auto
    moreover have "1 \<le> length ?v" using False by (cases ?v) simp_all
    moreover have "2 \<le> length ?v \<Longrightarrow> median ?v \<le> last_quantile20 ?v \<and> last_quantile20 ?v \<le> Max (set ?v)"
      using last_quantile_bounds [of ?v] by simp
    ultimately show ?thesis
      using False len median_bounds [OF False] by (simp add: rolling_stats_def Let_def not_less)
  qed (simp add: rolling_stats_def)
qed

text \<open>A comparison stores exactly the one sample, under its own domain and key, leaves the
  statistics of every other series as they were, and is made against the samples before it. It is a
  deviation only with a non-zero baseline of at least five samples; for a metric where low values
  are bad, exactly when the sample is at most \<open>1 / warn_ratio\<close> of the median; with a zero or
  missing baseline nothing is ever flagged.\<close>

theorem baseline_comparison:
  "case record_and_compare rp now domain key metric current worse_high (3 / 2) (5 / 2) h of (r, h') \<Rightarrow>
     h' = save_snapshot now domain key [(metric, PFloat current)] None h \<and>
     ((d', k') = (domain, key) \<or>
        rolling_stats d' k' m' n h' = rolling_stats d' k' m' n h) \<and>
     (case rolling_stats domain key metric 20 h of
        None \<Rightarrow> get_val (dr_metrics r) ''deviated'' = PBool False \<and> dr_status r = HEALTHY
      | Some st \<Rightarrow>
          (get_val (dr_metrics r) ''deviated'' = PBool True \<longleftrightarrow>
             ro_median st \<noteq> 0 \<and> worsened metric current worse_high (3 / 2) st) \<and>
          (dr_status r \<noteq> HEALTHY \<longleftrightarrow> get_val (dr_metrics r) ''deviated'' = PBool True) \<and>
          (\<not> worse_high \<longrightarrow> (get_val (dr_metrics r) ''deviated'' = PBool True \<longleftrightarrow>
             ro_median st \<noteq> 0 \<and> 5 \<le> ro_sample_count st \<and> current / ro_median st \<le> 1 / (3 / 2))))"
proof -
  have iso: "\<not> (d' = domain \<and> k' = key) \<Longrightarrow>
      rolling_stats d' k' m' n (save_snapshot now domain key p fp h) = rolling_stats d' k' m' n h" for p fp
    unfolding rolling_stats_def save_snapshot_def by (subst recent_other) auto
  have low: "worsened metric current False (3 / 2) st \<longleftrightarrow>
      5 \<le> ro_sample_count st \<and> current / ro_median st \<le> 1 / (3 / 2)" for st
    unfolding worsened_def Let_def by simp
  let ?r = "compare_result rp domain key metric current worse_high (3 / 2) (5 / 2)
    (rolling_stats domain key metric 20 h)"
  note dev = compare_deviated [of rp domain key metric current worse_high "3 / 2" "5 / 2"
      "rolling_stats domain key metric 20 h"]
  note status = compare_status [of "rolling_stats domain key metric 20 h" metric current worse_high
      "5 / 2" "3 / 2" rp domain key, OF failed_worsened]
  have "case rolling_stats domain key metric 20 h of
      None \<Rightarrow> get_val (dr_metrics ?r) ''deviated'' = PBool False \<and> dr_status ?r = HEALTHY
    | Some st \<Rightarrow> (get_val (dr_metrics ?r) ''deviated'' = PBool True \<longleftrightarrow>
          ro_median st \<noteq> 0 \<and> worsened metric current worse_high (3 / 2) st) \<and>
        (dr_status ?r \<noteq> HEALTHY \<longleftrightarrow> get_val (dr_metrics ?r) ''deviated'' = PBool True) \<and>
        (\<not> worse_high \<longrightarrow> (get_val (dr_metrics ?r) ''deviated'' = PBool True \<longleftrightarrow>
             ro_median st \<noteq> 0 \<and> 5 \<le> ro_sample_count st \<and> current / ro_median st \<le> 1 / (3 / 2)))"
    using dev status low by (cases "rolling_stats domain key metric 20 h"; cases worse_high) auto
  then show ?thesis
    using iso unfolding record_and_compare_def Let_def prod.case by blast
qed

theorem baseline_comparison_witness:
  "get_val (dr_metrics (fst (record_and_compare (\<lambda>_. []) 1 ''service'' ''web'' ''ratio'' 0 False (3 / 2) (5 / 2)
      []))) ''deviated'' = PBool False"
proof -
  have n: "rolling_stats ''service'' ''web'' ''ratio'' 20 [] = None"
    by (simp add: rolling_stats_def recent_def metric_values_def List.map_filter_simps)
  show ?thesis
    using baseline_comparison [where rp = "\<lambda>_. []" and now = 1 and domain = "''service''" and
        key = "''web''" and metric = "''ratio''" and current = 0 and worse_high = False and h = "[]"]
    by (simp add: n case_prod_beta)
qed

text \<open>When samples carry increasing times, the latest snapshot of a series is the one just
  saved, and the previous one is what was the latest before.\<close>

theorem latest_after_save:
  assumes "\<And>s. s \<in> set h \<Longrightarrow> sn_created_at s < now"
  shows "latest_snapshot domain key (save_snapshot now domain key payload fp h) =
      Some \<lparr> sn_domain = domain, sn_key = key, sn_fingerprint = fp, sn_payload = payload, sn_created_at = now \<rparr> \<and>
    previous_snapshot domain key (save_snapshot now domain key payload fp h) = latest_snapshot domain key h"
proof -
  let ?x = "\<lparr> sn_domain = domain, sn_key = key, sn_fingerprint = fp, sn_payload = payload, sn_created_at = now \<rparr>"
  let ?rows = "filter (\<lambda>s. sn_domain s = domain \<and> sn_key s = key) h"
  have r: "recent domain key n (h @ [?x]) = take n (?x # sort_key (\<lambda>s. - sn_created_at s) ?rows)" for n
    using sort_newest [of ?rows ?x] assms by (simp add: recent_def)
  show ?thesis
    unfolding save_snapshot_def latest_snapshot_def previous_snapshot_def r
    by (cases "sort_key (\<lambda>s. - sn_created_at s) ?rows") (simp_all add: recent_def Let_def numeral_2_eq_2)
qed

theorem latest_after_save_witness:
  "latest_snapshot ''path'' ''h'' (save_snapshot 2 ''path'' ''h'' [] (Some ''f'')
      (save_snapshot 1 ''path'' ''h'' [] None [])) =
    Some \<lparr> sn_domain = ''path'', sn_key = ''h'', sn_fingerprint = Some ''f'', sn_payload = [], sn_created_at = 2 \<rparr>"
  using latest_after_save [of "save_snapshot 1 ''path'' ''h'' [] None []" 2 "''path''" "''h''" "[]" "Some ''f''"]
  by (simp add: save_snapshot_def)

end
