(* ===== verification/Telemetry.thy ===== *)
theory Telemetry
  imports Core_Types Snmp_Engine
begin

text \<open>
  Model of \<open>ingest/snmp_counters.py\<close> (interface counters and bridge tables read over an SNMP
  transport, and their evaluation) and \<open>ingest/lldp.py\<close> (LLDP neighbours).

  The transport is an interface with two providers, the replay of a captured walk and the SNMPv3
  engine: the locale \<open>snmp_transport\<close> states what the polling code relies on, that a walk
  returns a dictionary, and both providers interpret it. Walk values are \<open>pyval\<close>.
  \<open>py_str\<close> is Python's \<open>str\<close> of a value and \<open>rp\<close> its \<open>repr\<close> of a
  float; both are parameters.
\<close>

section \<open>Transports\<close>

type_synonym table = "(string \<times> pyval) list"

definition dict_of :: "(string \<times> 'v) list \<Rightarrow> (string \<times> 'v) list" where
  "dict_of xs = foldl (\<lambda>d (k, v). AList.update k v d) [] xs"

text \<open>\<open>ReplaySnmpTransport\<close>: the document is a JSON object of JSON objects.\<close>

type_synonym replay = "(string \<times> table) list"

definition replay_walk :: "string \<Rightarrow> (replay, table) act" where
  "replay_walk base_oid =
     (\<lambda>data. (Inr (dict_of (case map_of data base_oid of None \<Rightarrow> [] | Some t \<Rightarrow> t)), data))"

text \<open>\<open>oid.rpartition(".")\<close> without the separator.\<close>

definition rpartition_dot :: "string \<Rightarrow> string \<times> string" where
  "rpartition_dot s =
     (let r = rev s; sfx = rev (takeWhile (\<lambda>c. c \<noteq> CHR ''.'') r);
          rest = dropWhile (\<lambda>c. c \<noteq> CHR ''.'') r
      in (rev (tl rest), sfx))"

definition replay_get :: "string \<Rightarrow> (replay, pyval) act" where
  "replay_get oid = (\<lambda>data.
     let (base, sfx) = rpartition_dot oid;
         column = (case map_of data base of None \<Rightarrow> [] | Some t \<Rightarrow> t)
     in (Inr (case map_of column sfx of Some v \<Rightarrow> v
              | None \<Rightarrow> get_val (case map_of data oid of None \<Rightarrow> [] | Some t \<Rightarrow> t) []), data))"

text \<open>\<open>LiveSnmpV3Transport\<close>: the engine of \<open>Snmp_Engine\<close>.\<close>

fun pyval_of_snmp :: "snmp_value \<Rightarrow> pyval" where
  "pyval_of_snmp VNone = PNone"
| "pyval_of_snmp (VInt i) = PInt i"
| "pyval_of_snmp (VStr s) = PStr s"

definition live_walk ::
  "(string \<Rightarrow> byte list \<Rightarrow> byte list) \<Rightarrow> (string \<Rightarrow> byte list \<Rightarrow> byte list \<Rightarrow> byte list) \<Rightarrow>
   string \<Rightarrow> (engine \<times> net, table) act" where
  "live_walk hashf hmacf base_oid =
     bindA (snmp_walk hashf hmacf base_oid MAX_WALK_OIDS) (\<lambda>t.
       returnA (map (\<lambda>(k, v). (k, pyval_of_snmp v)) t))"

definition live_get ::
  "(string \<Rightarrow> byte list \<Rightarrow> byte list) \<Rightarrow> (string \<Rightarrow> byte list \<Rightarrow> byte list \<Rightarrow> byte list) \<Rightarrow>
   string \<Rightarrow> (engine \<times> net, pyval) act" where
  "live_get hashf hmacf oid =
     bindA (snmp_get hashf hmacf oid) (\<lambda>v. returnA (pyval_of_snmp v))"

text \<open>\<open>SnmpV3Credentials.__post_init__\<close>.\<close>

definition validate_credentials :: "string \<Rightarrow> string \<Rightarrow> string \<Rightarrow> unit result" where
  "validate_credentials security_level auth_key priv_key =
     bindR (guardR (security_level = ''noAuthNoPriv'' \<or> auth_key \<noteq> []) ValueError) (\<lambda>_.
       guardR (security_level \<noteq> ''authPriv'' \<or> priv_key \<noteq> []) ValueError)"

section \<open>Interface counters\<close>

definition OID_IF_DESCR :: string where "OID_IF_DESCR = ''1.3.6.1.2.1.2.2.1.2''"
definition OID_IF_ALIAS :: string where "OID_IF_ALIAS = ''1.3.6.1.2.1.31.1.1.1.18''"
definition OID_IF_OPER_STATUS :: string where "OID_IF_OPER_STATUS = ''1.3.6.1.2.1.2.2.1.8''"
definition OID_IF_HIGH_SPEED :: string where "OID_IF_HIGH_SPEED = ''1.3.6.1.2.1.31.1.1.1.15''"
definition OID_IF_HC_IN_OCTETS :: string where "OID_IF_HC_IN_OCTETS = ''1.3.6.1.2.1.31.1.1.1.6''"
definition OID_IF_HC_OUT_OCTETS :: string where "OID_IF_HC_OUT_OCTETS = ''1.3.6.1.2.1.31.1.1.1.10''"
definition OID_IF_IN_ERRORS :: string where "OID_IF_IN_ERRORS = ''1.3.6.1.2.1.2.2.1.14''"
definition OID_IF_OUT_ERRORS :: string where "OID_IF_OUT_ERRORS = ''1.3.6.1.2.1.2.2.1.20''"
definition OID_IF_IN_DISCARDS :: string where "OID_IF_IN_DISCARDS = ''1.3.6.1.2.1.2.2.1.13''"
definition OID_IF_OUT_DISCARDS :: string where "OID_IF_OUT_DISCARDS = ''1.3.6.1.2.1.2.2.1.19''"
definition OID_DOT1D_TP_FDB_ADDRESS :: string where
  "OID_DOT1D_TP_FDB_ADDRESS = ''1.3.6.1.2.1.17.4.3.1.1''"
definition OID_DOT1D_TP_FDB_PORT :: string where
  "OID_DOT1D_TP_FDB_PORT = ''1.3.6.1.2.1.17.4.3.1.2''"
definition OID_DOT1D_BASE_PORT_IFINDEX :: string where
  "OID_DOT1D_BASE_PORT_IFINDEX = ''1.3.6.1.2.1.17.1.4.1.2''"

definition OPER_STATUS_NAMES :: "(int \<times> string) list" where
  "OPER_STATUS_NAMES = [(1, ''up''), (2, ''down''), (3, ''testing''), (4, ''unknown''),
     (5, ''dormant''), (6, ''notPresent''), (7, ''lowerLayerDown'')]"

record interface_counters =
  ic_if_index :: int
  ic_name :: string
  ic_alias :: "string option"
  ic_oper_status :: string
  ic_speed_mbps :: "rat option"
  ic_in_octets :: int
  ic_out_octets :: int
  ic_in_errors :: int
  ic_out_errors :: int
  ic_in_discards :: int
  ic_out_discards :: int
  ic_collected_at :: rat

text \<open>\<open>_to_int\<close>: what \<open>int(value)\<close> returns, 0 where it raises.\<close>

fun to_int :: "pyval \<Rightarrow> int" where
  "to_int (PInt i) = i"
| "to_int (PBool b) = (if b then 1 else 0)"
| "to_int (PFloat r) = py_trunc r"
| "to_int (PStr s) = (case int_of_str s of Inr i \<Rightarrow> i | Inl _ \<Rightarrow> 0)"
| "to_int _ = 0"

definition blank_val :: "pyval \<Rightarrow> bool" where
  "blank_val v = (v = PNone \<or> v = PStr [])"

definition index_key :: "string \<Rightarrow> bool" where
  "index_key k = (let t = dropWhile (\<lambda>c. c = CHR ''-'') k in t \<noteq> [] \<and> list_all is_digit t)"

definition index_list :: "table \<Rightarrow> int list result" where
  "index_list descr =
     bindR (mapR int_of_str (filter index_key (map fst descr))) (\<lambda>ids. Inr (sort (remdups ids)))"

definition speed_of :: "(string \<Rightarrow> rat result) \<Rightarrow> pyval \<Rightarrow> rat option result" where
  "speed_of float_text v =
     (if blank_val v then Inr None
      else bindR (case v of PStr s \<Rightarrow> float_text s | _ \<Rightarrow> numR v) (\<lambda>r.
             if r < 0 then Inl ValidationError else Inr (Some r)))"

definition interface_row ::
  "(pyval \<Rightarrow> string) \<Rightarrow> (string \<Rightarrow> rat result) \<Rightarrow> rat \<Rightarrow> (string \<Rightarrow> table) \<Rightarrow> int \<Rightarrow> interface_counters result" where
  "interface_row py_str float_text collected_at col idx =
     (let key = str_of_int idx; alias = get_val (col OID_IF_ALIAS) key in
      bindR (speed_of float_text (get_val (col OID_IF_HIGH_SPEED) key)) (\<lambda>speed.
        Inr \<lparr> ic_if_index = idx,
              ic_name = (case map_of (col OID_IF_DESCR) key of
                 Some v \<Rightarrow> py_str v | None \<Rightarrow> ''if'' @ str_of_int idx),
              ic_alias = (if blank_val alias then None else Some (py_str alias)),
              ic_oper_status = (case map_of OPER_STATUS_NAMES
                  (to_int (get_val (col OID_IF_OPER_STATUS) key)) of Some n \<Rightarrow> n | None \<Rightarrow> ''unknown''),
              ic_speed_mbps = speed,
              ic_in_octets = to_int (get_val (col OID_IF_HC_IN_OCTETS) key),
              ic_out_octets = to_int (get_val (col OID_IF_HC_OUT_OCTETS) key),
              ic_in_errors = to_int (get_val (col OID_IF_IN_ERRORS) key),
              ic_out_errors = to_int (get_val (col OID_IF_OUT_ERRORS) key),
              ic_in_discards = to_int (get_val (col OID_IF_IN_DISCARDS) key),
              ic_out_discards = to_int (get_val (col OID_IF_OUT_DISCARDS) key),
              ic_collected_at = collected_at \<rparr>))"

definition IF_COLUMNS :: "string list" where
  "IF_COLUMNS = [OID_IF_DESCR, OID_IF_ALIAS, OID_IF_OPER_STATUS, OID_IF_HIGH_SPEED,
     OID_IF_HC_IN_OCTETS, OID_IF_HC_OUT_OCTETS, OID_IF_IN_ERRORS, OID_IF_OUT_ERRORS,
     OID_IF_IN_DISCARDS, OID_IF_OUT_DISCARDS]"

definition column :: "(string \<times> table) list \<Rightarrow> string \<Rightarrow> table" where
  "column walked oid = (case map_of walked oid of None \<Rightarrow> [] | Some t \<Rightarrow> t)"

definition poll_interface_counters ::
  "(pyval \<Rightarrow> string) \<Rightarrow> (string \<Rightarrow> rat result) \<Rightarrow> (string \<Rightarrow> ('s, table) act) \<Rightarrow> rat \<Rightarrow>
   ('s, interface_counters list) act" where
  "poll_interface_counters py_str float_text walk collected_at =
     bindA (mapA walk IF_COLUMNS) (\<lambda>tables.
       let col = column (zip IF_COLUMNS tables) in
       liftA (bindR (index_list (col OID_IF_DESCR)) (\<lambda>indices.
         mapR (interface_row py_str float_text collected_at col) indices)))"

section \<open>The bridge table\<close>

record mac_table_entry =
  me_mac :: string
  me_bridge_port :: int
  me_if_index :: "int option"

definition octet_hex :: "int \<Rightarrow> string" where
  "octet_hex i = (let n = nat (i AND 0xFF) in [hex_digit (n div 16), hex_digit (n mod 16)])"

definition mac_from_oid_suffix :: "string \<Rightarrow> string result" where
  "mac_from_oid_suffix sfx =
     (let parts = filter (\<lambda>p. p \<noteq> []) (split_on (CHR ''.'') sfx);
          octets = (if 6 \<le> length parts then drop (length parts - 6) parts else parts)
      in bindR (mapR int_of_str octets) (\<lambda>ns. Inr (join '':'' (map octet_hex ns))))"

fun mac_rows :: "table \<Rightarrow> table \<Rightarrow> string list \<Rightarrow> mac_table_entry list result" where
  "mac_rows fdb_port base_port [] = Inr []"
| "mac_rows fdb_port base_port (sfx # rest) =
     (let bridge_port = to_int (get_val fdb_port sfx) in
      if bridge_port = 0 then mac_rows fdb_port base_port rest
      else
        (let raw = get_val base_port (str_of_int bridge_port) in
         bindR (mac_from_oid_suffix sfx) (\<lambda>mac.
         bindR (mac_rows fdb_port base_port rest) (\<lambda>rows.
           Inr (\<lparr> me_mac = mac, me_bridge_port = bridge_port,
                  me_if_index = (if blank_val raw then None else Some (to_int raw)) \<rparr> # rows)))))"

definition poll_mac_table :: "(string \<Rightarrow> ('s, table) act) \<Rightarrow> ('s, mac_table_entry list) act" where
  "poll_mac_table walk =
     bindA (walk OID_DOT1D_TP_FDB_PORT) (\<lambda>fdb_port.
     bindA (walk OID_DOT1D_BASE_PORT_IFINDEX) (\<lambda>base_port.
     bindA (walk OID_DOT1D_TP_FDB_ADDRESS) (\<lambda>addresses.
       liftA (mac_rows fdb_port base_port (map fst addresses)))))"

section \<open>Two snapshots\<close>

definition util_result ::
  "(rat \<Rightarrow> string) \<Rightarrow> rat \<Rightarrow> string \<Rightarrow> interface_counters \<Rightarrow> interface_counters \<Rightarrow> diagnostic_result" where
  "util_result rp interval device prev cur =
     (let rx = bps_from_byte_delta (of_int (ic_in_octets cur - ic_in_octets prev)) interval;
          tx = bps_from_byte_delta (of_int (ic_out_octets cur - ic_out_octets prev)) interval;
          total = rx + tx;
          capacity = (case ic_speed_mbps cur of None \<Rightarrow> None
             | Some s \<Rightarrow> if s = 0 then None else Some (s * 1000000));
          util = utilization_percent total capacity;
          sev = (case util of None \<Rightarrow> INFO | Some u \<Rightarrow> if 90 \<le> u then HIGH else if 75 \<le> u then MEDIUM else INFO);
          label = (case ic_alias cur of None \<Rightarrow> ic_name cur | Some a \<Rightarrow> if a = [] then ic_name cur else a)
      in \<lparr> dr_module = ''snmp_link_utilization'', dr_category = ''link'',
           dr_status = (if sev = INFO then HEALTHY else DEGRADED), dr_severity = sev,
           dr_summary = device @ '' '' @ label @ '': '' @
             (case util of Some u \<Rightarrow> fmt_fixed 1 u @ ''% util''
              | None \<Rightarrow> fmt_fixed 2 (total / 1000000) @ '' Mbps (speed unknown)''),
           dr_target = Some label,
           dr_metrics = [(''device'', PStr device), (''if_index'', PInt (ic_if_index cur)),
             (''rx_bps'', PFloat (py_round rx 1)), (''tx_bps'', PFloat (py_round tx 1)),
             (''total_bps'', PFloat (py_round total 1)),
             (''util_percent'', case util of None \<Rightarrow> PNone | Some u \<Rightarrow> PFloat u),
             (''speed_mbps'', case ic_speed_mbps cur of None \<Rightarrow> PNone | Some s \<Rightarrow> PFloat s)],
           dr_evidence = [''SNMP ifHCInOctets/ifHCOutOctets delta over '' @ rp interval @ ''s on '' @ device,
             ''RX '' @ fmt_fixed 2 (rx / 1000000) @ '' Mbps / TX '' @ fmt_fixed 2 (tx / 1000000) @ '' Mbps''],
           dr_warnings = [], dr_errors = [], dr_metadata = [] \<rparr>)"

definition error_result ::
  "(rat \<Rightarrow> string) \<Rightarrow> rat \<Rightarrow> string \<Rightarrow> interface_counters \<Rightarrow> interface_counters \<Rightarrow> diagnostic_result" where
  "error_result rp interval device prev cur =
     (let err = of_int ((ic_in_errors cur - ic_in_errors prev) + (ic_out_errors cur - ic_out_errors prev)) / interval;
          disc = of_int ((ic_in_discards cur - ic_in_discards prev) + (ic_out_discards cur - ic_out_discards prev)) / interval;
          label = (case ic_alias cur of None \<Rightarrow> ic_name cur | Some a \<Rightarrow> if a = [] then ic_name cur else a);
          bad = (5 \<le> err \<or> 5 \<le> disc); rising = (1 / 2 \<le> err \<or> 1 / 2 \<le> disc)
      in \<lparr> dr_module = ''snmp_link_errors'', dr_category = ''link'',
           dr_status = (if bad then FAILED else if rising then DEGRADED else HEALTHY),
           dr_severity = (if bad then HIGH else if rising then MEDIUM else INFO),
           dr_summary = device @ '' '' @ label @ '': '' @ fmt_fixed 2 err @ '' errs/s, '' @
             fmt_fixed 2 disc @ '' discards/s'',
           dr_target = Some label,
           dr_metrics = [(''device'', PStr device), (''if_index'', PInt (ic_if_index cur)),
             (''errors_per_sec'', PFloat (py_round err 3)), (''discards_per_sec'', PFloat (py_round disc 3))],
           dr_evidence = [''SNMP ifInErrors/ifOutErrors/discards delta over '' @ rp interval @ ''s on '' @ device],
           dr_warnings = (if rising then [''Device-level interface errors/discards rising''] else []),
           dr_errors = [], dr_metadata = [] \<rparr>)"

definition previous_counters :: "interface_counters list \<Rightarrow> int \<Rightarrow> interface_counters option" where
  "previous_counters before idx = map_of (rev (map (\<lambda>c. (ic_if_index c, c)) before)) idx"

definition interface_results ::
  "(rat \<Rightarrow> string) \<Rightarrow> interface_counters list \<Rightarrow> rat \<Rightarrow> string \<Rightarrow> interface_counters \<Rightarrow> diagnostic_result list" where
  "interface_results rp before interval device cur =
     (case previous_counters before (ic_if_index cur) of
        None \<Rightarrow> []
      | Some prev \<Rightarrow>
          if ic_oper_status cur \<noteq> ''up'' then []
          else [util_result rp interval device prev cur, error_result rp interval device prev cur])"

definition evaluate_interface_delta ::
  "(rat \<Rightarrow> string) \<Rightarrow> interface_counters list \<Rightarrow> interface_counters list \<Rightarrow> rat \<Rightarrow> string \<Rightarrow>
   diagnostic_result list result" where
  "evaluate_interface_delta rp before after interval device =
     (if interval \<le> 0 then Inl ValueError
      else Inr (concat (map (interface_results rp before interval device) after)))"

section \<open>LLDP neighbours\<close>

definition OID_LLDP_REM_CHASSIS_ID :: string where
  "OID_LLDP_REM_CHASSIS_ID = ''1.0.8802.1.1.2.1.4.1.1.5''"
definition OID_LLDP_REM_PORT_ID :: string where "OID_LLDP_REM_PORT_ID = ''1.0.8802.1.1.2.1.4.1.1.7''"
definition OID_LLDP_REM_SYS_NAME :: string where "OID_LLDP_REM_SYS_NAME = ''1.0.8802.1.1.2.1.4.1.1.9''"
definition OID_LLDP_REM_SYS_DESC :: string where "OID_LLDP_REM_SYS_DESC = ''1.0.8802.1.1.2.1.4.1.1.10''"

record lldp_neighbor =
  ln_local_port :: string
  ln_chassis_id :: "string option"
  ln_port_id :: "string option"
  ln_sys_name :: "string option"
  ln_sys_desc :: "string option"
  ln_mgmt_addr :: "string option"

definition clean_text :: "string \<Rightarrow> string" where
  "clean_text s = py_lower (py_strip s)"

definition filled_texts :: "string option list \<Rightarrow> string list" where
  "filled_texts xs = concat (map (\<lambda>x. case x of None \<Rightarrow> [] | Some s \<Rightarrow> if s = [] then [] else [s]) xs)"

definition identities :: "lldp_neighbor \<Rightarrow> string set" where
  "identities nb = clean_text ` set (filled_texts
     [ln_chassis_id nb, ln_sys_name nb, ln_mgmt_addr nb, ln_port_id nb])"

definition str_or_none :: "(pyval \<Rightarrow> string) \<Rightarrow> pyval \<Rightarrow> string option" where
  "str_or_none py_str v =
     (if v = PNone then None else if py_str v = [] then None else Some (py_str v))"

definition lldp_neighbors_from_walk :: "(pyval \<Rightarrow> string) \<Rightarrow> replay \<Rightarrow> lldp_neighbor list" where
  "lldp_neighbors_from_walk py_str walk =
     (let col = column walk;
          chassis = col OID_LLDP_REM_CHASSIS_ID; port_id = col OID_LLDP_REM_PORT_ID;
          sys_name = col OID_LLDP_REM_SYS_NAME; sys_desc = col OID_LLDP_REM_SYS_DESC;
          local_ports = sort (remdups (map fst (chassis @ port_id @ sys_name @ sys_desc)));
          neighbor = (\<lambda>sfx. \<lparr> ln_local_port = hd (split_on (CHR ''.'') sfx),
            ln_chassis_id = str_or_none py_str (get_val chassis sfx),
            ln_port_id = str_or_none py_str (get_val port_id sfx),
            ln_sys_name = str_or_none py_str (get_val sys_name sfx),
            ln_sys_desc = str_or_none py_str (get_val sys_desc sfx),
            ln_mgmt_addr = None \<rparr>)
      in filter (\<lambda>nb. identities nb \<noteq> {}) (map neighbor local_ports))"

section \<open>The interface of a transport\<close>

text \<open>What the polling code relies on: the result of a walk is a dictionary, so an index appears
  once.\<close>

locale snmp_transport =
  fixes walk :: "string \<Rightarrow> ('s, table) act"
  assumes walk_dict: "walk oid s = (Inr t, s') \<Longrightarrow> distinct (map fst t)"
begin

lemma mac_rows_of:
  "mac_rows fdb base keys = Inr rows \<Longrightarrow>
     mapR mac_from_oid_suffix (filter (\<lambda>x. to_int (get_val fdb x) \<noteq> 0) keys) = Inr (map me_mac rows) \<and>
     (\<forall>r \<in> set rows. me_bridge_port r \<noteq> 0)"
  by (induction keys arbitrary: rows) (auto simp: Let_def bindR_eq_Inr split: if_splits)

text \<open>The bridge table read through any transport: one row per used suffix, no suffix twice, no
  row for port 0.\<close>

lemma mac_table_rows:
  assumes "poll_mac_table walk s = (Inr rows, s')"
  shows "\<exists>used. distinct used \<and> mapR mac_from_oid_suffix used = Inr (map me_mac rows) \<and>
    (\<forall>r \<in> set rows. me_bridge_port r \<noteq> 0)"
proof -
  obtain fdb base addr s2 s3 where w: "walk OID_DOT1D_TP_FDB_ADDRESS s2 = (Inr addr, s3)"
      "mac_rows fdb base (map fst addr) = Inr rows"
    using assms unfolding poll_mac_table_def bindA_eq_Inr liftA_eq_Inr by blast
  have "distinct (map fst addr)" by (rule walk_dict [OF w(1)])
  then have "distinct (filter (\<lambda>x. to_int (get_val fdb x) \<noteq> 0) (map fst addr))" by (rule distinct_filter)
  with mac_rows_of [OF w(2)] show ?thesis by blast
qed

end

lemma dict_of_distinct: "distinct (map fst (dict_of xs))"
proof -
  have "distinct (map fst d) \<Longrightarrow> distinct (map fst (foldl (\<lambda>d (k, v). AList.update k v d) d xs))" for d
    by (induction xs arbitrary: d) (auto simp: distinct_update split: prod.splits)
  then show ?thesis by (simp add: dict_of_def)
qed

lemma collect_distinct:
  "distinct (map fst out) \<Longrightarrow> distinct (map fst (foldl (collect_row prefix) out rows))"
  by (induction rows arbitrary: out) (simp_all add: collect_row_def distinct_update)

interpretation replay: snmp_transport replay_walk
  by unfold_locales (auto simp: replay_walk_def dict_of_distinct)

interpretation live: snmp_transport "live_walk hashf hmacf"
proof
  fix oid s t s'
  assume "live_walk hashf hmacf oid s = (Inr t, s')"
  then obtain t0 s1 where w: "snmp_walk hashf hmacf oid MAX_WALK_OIDS s = (Inr t0, s1)"
      and r: "returnA (map (\<lambda>(k, v). (k, pyval_of_snmp v)) t0) s1 = (Inr t, s')"
    unfolding live_walk_def bindA_eq_Inr by blast
  have t: "t = map (\<lambda>(k, v). (k, pyval_of_snmp v)) t0" using r by (simp add: returnA_def)
  from walk_serves [OF w [unfolded snmp_walk_def walk_column_def Let_def]] obtain rows
    where "t0 = foldl (collect_row (strip_char (CHR ''.'') oid @ ''.'')) [] rows" by blast
  then have "distinct (map fst t0)" using collect_distinct [of "[]"] by simp
  moreover have "map fst t = map fst t0" by (simp add: t comp_def case_prod_beta)
  ultimately show "distinct (map fst t)" by simp
qed

section \<open>Properties\<close>

text \<open>Over either transport, captured or live, the bridge table read has one row for each
  forwarding entry it uses, never two for one entry and never one for port 0, and the MAC of a row
  is the one its OID suffix spells.\<close>

theorem bridge_table_sound:
  "(case poll_mac_table replay_walk data of
      (Inl e, _) \<Rightarrow> True
    | (Inr rows, _) \<Rightarrow> \<exists>used. distinct used \<and> mapR mac_from_oid_suffix used = Inr (map me_mac rows) \<and>
        (\<forall>r \<in> set rows. me_bridge_port r \<noteq> 0)) \<and>
   (case poll_mac_table (live_walk hashf hmacf) s of
      (Inl e, _) \<Rightarrow> True
    | (Inr rows, _) \<Rightarrow> \<exists>used. distinct used \<and> mapR mac_from_oid_suffix used = Inr (map me_mac rows) \<and>
        (\<forall>r \<in> set rows. me_bridge_port r \<noteq> 0))"
  using replay.mac_table_rows [of data] live.mac_table_rows [of hashf hmacf s]
  by (auto split: prod.splits sum.splits)

lemma mapR_map_field:
  assumes "mapR f xs = Inr ys" "\<And>x y. f x = Inr y \<Longrightarrow> g y = x"
  shows "map g ys = xs"
  using assms(1) by (induction xs arbitrary: ys) (auto simp: bindR_eq_Inr assms(2))

text \<open>A poll of the interface columns, over any transport, returns the interfaces in strictly
  increasing order of their index.\<close>

theorem interfaces_sorted:
  assumes "poll_interface_counters py_str float_text walk t s = (Inr cs, s')"
  shows "sorted (map ic_if_index cs) \<and> distinct (map ic_if_index cs)"
proof -
  obtain col ids where m: "index_list (col OID_IF_DESCR) = Inr ids"
      "mapR (interface_row py_str float_text t col) ids = Inr cs"
    using assms by (auto simp: poll_interface_counters_def bindA_eq_Inr liftA_eq_Inr Let_def bindR_eq_Inr)
  have "map ic_if_index cs = ids"
    by (rule mapR_map_field [OF m(2)]) (auto simp: interface_row_def Let_def bindR_eq_Inr)
  moreover have "sorted ids \<and> distinct ids"
    using m(1) by (auto simp: index_list_def bindR_eq_Inr)
  ultimately show ?thesis by simp
qed

lemma status_of_severity: "(if s = INFO then HEALTHY else DEGRADED) = HEALTHY \<longleftrightarrow> s = INFO"
  by simp

lemma status_of_flags:
  "(if b then FAILED else if c then DEGRADED else HEALTHY) = HEALTHY \<longleftrightarrow>
     (if b then HIGH else if c then MEDIUM else INFO) = INFO"
  by simp

text \<open>The evaluation of two snapshots refuses a non-positive interval and otherwise gives, for
  every interface that is up and was already in the first snapshot, one utilization and one error
  result, whose status is healthy exactly when its severity is informational.\<close>

theorem interface_delta_results:
  "(interval \<le> 0 \<longrightarrow> evaluate_interface_delta rp before after interval device = Inl ValueError) \<and>
   (0 < interval \<longrightarrow> (\<exists>rs. evaluate_interface_delta rp before after interval device = Inr rs \<and>
      length rs = 2 * length (filter (\<lambda>c. ic_oper_status c = ''up'' \<and>
        ic_if_index c \<in> ic_if_index ` set before) after) \<and>
      (\<forall>r \<in> set rs. dr_status r = HEALTHY \<longleftrightarrow> dr_severity r = INFO)))"
proof -
  have p: "previous_counters before i = None \<longleftrightarrow> i \<notin> ic_if_index ` set before" for i
    by (simp add: previous_counters_def map_of_eq_None_iff image_image)
  have l: "length (concat (map (interface_results rp before interval device) after)) =
      2 * length (filter (\<lambda>c. ic_oper_status c = ''up'' \<and> ic_if_index c \<in> ic_if_index ` set before) after)"
  proof (induction after)
    case (Cons c cs)
    then show ?case
      using p [of "ic_if_index c"] by (auto simp: interface_results_def split: option.splits)
  qed simp
  have u: "dr_status (util_result rp interval device prev c) = HEALTHY \<longleftrightarrow>
      dr_severity (util_result rp interval device prev c) = INFO" for prev c
    unfolding util_result_def Let_def diagnostic_result.simps by (rule status_of_severity)
  have e: "dr_status (error_result rp interval device prev c) = HEALTHY \<longleftrightarrow>
      dr_severity (error_result rp interval device prev c) = INFO" for prev c
    unfolding error_result_def Let_def diagnostic_result.simps by (rule status_of_flags)
  have "dr_status r = HEALTHY \<longleftrightarrow> dr_severity r = INFO"
    if "r \<in> set (interface_results rp before interval device c)" for r c
    using that u e by (auto simp: interface_results_def simp del: diagnostic_result.simps
        split: option.splits if_splits)
  then have "\<forall>r \<in> set (concat (map (interface_results rp before interval device) after)).
      dr_status r = HEALTHY \<longleftrightarrow> dr_severity r = INFO" by auto
  with l show ?thesis unfolding evaluate_interface_delta_def by (simp add: not_le [symmetric])
qed

theorem interface_delta_results_witness:
  "evaluate_interface_delta (\<lambda>_. []) [] [] 0 ''sw'' = Inl ValueError"
  using interface_delta_results [of 0 "\<lambda>_. []" "[]" "[]" "''sw''"] by simp

end
