(* ===== verification/Py_Regex.thy ===== *)
theory Py_Regex
  imports Prelude
begin

text \<open>
  The part of Python's module \<open>re\<close> that the probes use to read the output of system commands:
  character classes, sequence, alternation, the greedy quantifiers, capturing groups and tests of
  the text ahead, with the backtracking semantics of the library. A matcher returns every way to match at
  the current position in the order in which backtracking tries them; \<open>re.match\<close> is the first,
  \<open>re.search\<close> the first position that has one, \<open>re.findall\<close> the matches from left to
  right that do not overlap. \<open>language\<close> says which texts an expression matches, and the
  matcher finds exactly those.

  Texts are UTF-8 bytes and the classes \<open>\d\<close>, \<open>\s\<close> are those of ASCII; every
  character outside ASCII counts as a word character. None of
  the expressions of the program matches the empty text.
\<close>

section \<open>Expressions and matching\<close>

text \<open>The character classes on the bits of a character, for evaluation.\<close>

lemma is_digit_code [code]:
  "is_digit (Char b0 b1 b2 b3 b4 b5 b6 b7) =
     (\<not> b7 \<and> \<not> b6 \<and> b5 \<and> b4 \<and> (b3 \<longrightarrow> \<not> b2 \<and> \<not> b1))"
  by (cases b0; cases b1; cases b2; cases b3; cases b4; cases b5; cases b6; cases b7; simp add: is_digit_def)

lemma is_space_code [code]:
  "is_space (Char b0 b1 b2 b3 b4 b5 b6 b7) =
     (\<not> b7 \<and> \<not> b6 \<and>
      (if b5 then \<not> b4 \<and> \<not> b3 \<and> \<not> b2 \<and> \<not> b1 \<and> \<not> b0
       else if b4 then b3 \<and> b2
       else b3 \<and> (if b2 then \<not> b1 else b1 \<or> b0)))"
  by (cases b0; cases b1; cases b2; cases b3; cases b4; cases b5; cases b6; cases b7; simp add: is_space_def)

lemma lower_char_code [code]:
  "lower_char (Char b0 b1 b2 b3 b4 b5 b6 b7) =
     (if \<not> b7 \<and> b6 \<and> \<not> b5 \<and> (if b4 then \<not> b3 \<or> (\<not> b2 \<and> (\<not> b1 \<or> \<not> b0)) else b3 \<or> b2 \<or> b1 \<or> b0)
      then Char b0 b1 b2 b3 b4 True b6 b7 else Char b0 b1 b2 b3 b4 b5 b6 b7)"
  by (cases b0; cases b1; cases b2; cases b3; cases b4; cases b5; cases b6; cases b7; simp add: lower_char_def char_of_def bit_0)

datatype regex =
    Eps
  | Chars "char \<Rightarrow> bool"
  | Cat regex regex
  | Alt regex regex
  | Opt regex
  | Many regex
  | Group nat regex
  | Ahead "string \<Rightarrow> bool"

text \<open>The rest of the text and the groups captured so far, the latest first.\<close>

type_synonym match_state = "string \<times> (nat \<times> string) list"

text \<open>The repetitions of a quantifier, at most as many as the text has characters: each one has to
  read something. The text between two positions.\<close>

primrec repeat_match :: "string \<Rightarrow> (match_state \<Rightarrow> match_state list) \<Rightarrow> match_state \<Rightarrow> match_state list" where
  "repeat_match [] f st = [st]"
| "repeat_match (c # n) f st =
     concat (map (\<lambda>st'. if fst st' \<noteq> fst st then repeat_match n f st' else []) (f st)) @ [st]"

fun text_before :: "string \<Rightarrow> string \<Rightarrow> string" where
  "text_before [] t = []"
| "text_before (c # s) t = (if c # s = t then [] else c # text_before s t)"

primrec matches :: "regex \<Rightarrow> match_state \<Rightarrow> match_state list" where
  "matches Eps st = [st]"
| "matches (Chars P) st =
     (case fst st of [] \<Rightarrow> [] | c # s \<Rightarrow> if P c then [(s, snd st)] else [])"
| "matches (Cat a b) st = concat (map (matches b) (matches a st))"
| "matches (Alt a b) st = matches a st @ matches b st"
| "matches (Opt a) st = matches a st @ [st]"
| "matches (Many a) st = repeat_match (fst st) (matches a) st"
| "matches (Group n a) st =
     map (\<lambda>st'. (fst st', (n, text_before (fst st) (fst st')) # snd st')) (matches a st)"
| "matches (Ahead Q) st = (if Q (fst st) then [st] else [])"

definition first_match :: "regex \<Rightarrow> match_state \<Rightarrow> match_state option" where
  "first_match r st = (case matches r st of [] \<Rightarrow> None | m # _ \<Rightarrow> Some m)"

definition re_match :: "regex \<Rightarrow> string \<Rightarrow> match_state option" where
  "re_match r s = first_match r (s, [])"

fun re_search :: "regex \<Rightarrow> string \<Rightarrow> match_state option" where
  "re_search r [] = re_match r []"
| "re_search r (c # s) =
     (case re_match r (c # s) of Some m \<Rightarrow> Some m | None \<Rightarrow> re_search r s)"

definition group :: "nat \<Rightarrow> match_state \<Rightarrow> string" where
  "group n m = (case map_of (snd m) n of None \<Rightarrow> [] | Some w \<Rightarrow> w)"

subsection \<open>Building blocks\<close>

definition digit :: regex where "digit = Chars is_digit"
definition some_digits :: regex where "some_digits = Cat digit (Many digit)"
definition spaces :: regex where "spaces = Many (Chars is_space)"
definition some_spaces :: regex where "some_spaces = Cat (Chars is_space) spaces"
definition sign :: "char \<Rightarrow> regex" where "sign c = Chars (\<lambda>x. x = c)"

text \<open>\<open>$\<close>; and \<open>\b\<close> after a word character.\<close>

definition is_word :: "char \<Rightarrow> bool" where
  "is_word c =
     (is_digit c \<or> c = CHR ''_'' \<or>
      (let n = (of_char (lower_char c) :: nat) in (97 \<le> n \<and> n \<le> 122) \<or> 128 \<le> n))"

definition at_end :: regex where "at_end = Ahead (\<lambda>s. s = [] \<or> s = [CHR 0x0A])"
definition word_end :: regex where "word_end = Ahead (\<lambda>s. case s of [] \<Rightarrow> True | c # _ \<Rightarrow> \<not> is_word c)"

text \<open>A literal under \<open>re.IGNORECASE\<close>, given in lower case; a literal as it is.\<close>

primrec word_ci :: "string \<Rightarrow> regex" where
  "word_ci [] = Eps"
| "word_ci (c # w) = Cat (Chars (\<lambda>x. lower_char x = c)) (word_ci w)"

declare word_ci.simps [simp del]

primrec word_exact :: "string \<Rightarrow> regex" where
  "word_exact [] = Eps"
| "word_exact (c # w) = Cat (sign c) (word_exact w)"

text \<open>\<open>\d+(?:\.\d+)?\<close>, and the number it reads.\<close>

definition decimal :: regex where
  "decimal = Cat some_digits (Opt (Cat (sign CHR ''.'') some_digits))"

definition digits_value :: "string \<Rightarrow> int" where
  "digits_value w = foldl (\<lambda>a c. 10 * a + int (digit_val c)) 0 w"

definition decimal_value :: "string \<Rightarrow> rat" where
  "decimal_value w =
     (case split_on CHR ''.'' w of
        [ds, fs] \<Rightarrow> of_int (digits_value ds) + of_int (digits_value fs) / 10 ^ length fs
      | _ \<Rightarrow> of_int (digits_value w))"

section \<open>The texts an expression matches\<close>

inductive language :: "regex \<Rightarrow> string \<Rightarrow> bool" where
  "language Eps []"
| "P c \<Longrightarrow> language (Chars P) [c]"
| "language a u \<Longrightarrow> language b v \<Longrightarrow> language (Cat a b) (u @ v)"
| "language a u \<Longrightarrow> language (Alt a b) u"
| "language b u \<Longrightarrow> language (Alt a b) u"
| "language (Opt a) []"
| "language a u \<Longrightarrow> language (Opt a) u"
| "language (Many a) []"
| "language a u \<Longrightarrow> u \<noteq> [] \<Longrightarrow> language (Many a) v \<Longrightarrow> language (Many a) (u @ v)"
| "language a u \<Longrightarrow> language (Group n a) u"
| "language (Ahead Q) []"

inductive_cases language_EpsE: "language Eps w"
inductive_cases language_CharsE: "language (Chars P) w"
inductive_cases language_CatE: "language (Cat a b) w"
inductive_cases language_AltE: "language (Alt a b) w"
inductive_cases language_OptE: "language (Opt a) w"
inductive_cases language_GroupE: "language (Group n a) w"

definition consumes :: "regex \<Rightarrow> match_state \<Rightarrow> match_state \<Rightarrow> bool" where
  "consumes r st st' = (\<exists>w. fst st = w @ fst st' \<and> language r w)"

lemma repeat_consumes:
  assumes "st' \<in> set (repeat_match n f st)" "\<And>s s'. s' \<in> set (f s) \<Longrightarrow> consumes a s s'"
  shows "consumes (Many a) st st'"
  using assms(1)
proof (induction n arbitrary: st)
  case Nil
  then show ?case by (auto simp: consumes_def intro: language.intros)
next
  case (Cons c n)
  show ?case
  proof (cases "st' = st")
    case True
    then show ?thesis by (auto simp: consumes_def intro: language.intros)
  next
    case False
    with Cons.prems obtain st1 where st1: "st1 \<in> set (f st)" "fst st1 \<noteq> fst st"
      "st' \<in> set (repeat_match n f st1)" by (auto split: if_splits)
    obtain u v where u: "fst st = u @ fst st1" "language a u" and v: "fst st1 = v @ fst st'" "language (Many a) v"
      using assms(2) [OF st1(1)] Cons.IH [OF st1(3)] by (auto simp: consumes_def)
    have "u \<noteq> []" using u(1) st1(2) by auto
    then have "language (Many a) (u @ v)" using u(2) v(2) by (intro language.intros)
    then show ?thesis using u(1) v(1) by (auto simp: consumes_def)
  qed
qed

lemma consumes_mono: "consumes a s s' \<Longrightarrow> (\<And>w. language a w \<Longrightarrow> language b w) \<Longrightarrow> consumes b s s'"
  by (auto simp: consumes_def)

lemma consumes_Cat: "consumes a s t \<Longrightarrow> consumes b t u \<Longrightarrow> consumes (Cat a b) s u"
  unfolding consumes_def by (metis append.assoc language.intros(3))

text \<open>A match reads a text of the language, and every text of the language can be read.\<close>

lemma matches_sound: "st' \<in> set (matches r st) \<Longrightarrow> consumes r st st'"
proof (induction r arbitrary: st st')
  case (Cat a b)
  then obtain st1 where "st1 \<in> set (matches a st)" "st' \<in> set (matches b st1)" by auto
  then show ?case using Cat.IH consumes_Cat by blast
next
  case (Many a)
  show ?case using Many.prems Many.IH by (auto intro: repeat_consumes)
next
  case (Alt a b)
  then have "consumes a st st' \<or> consumes b st st'" by (metis Un_iff matches.simps(4) set_append)
  then show ?case by (auto elim: consumes_mono intro: language.intros)
next
  case (Opt a)
  then have "consumes a st st' \<or> st' = st" using Opt by (cases st; cases st') auto
  then show ?case by (auto simp: consumes_def intro: language.intros)
next
  case (Group n a)
  then obtain st1 where "st1 \<in> set (matches a st)" "fst st' = fst st1" by auto
  with Group.IH [of st1 st] show ?case by (auto simp: consumes_def intro: language.intros)
next
  case (Chars P)
  then obtain c s where "fst st = c # s" "P c" "fst st' = s"
    by (cases st; cases "fst st") (auto split: if_splits)
  then show ?case using language.intros(2) [of P c] by (auto simp: consumes_def)
qed (auto simp: consumes_def intro: language.intros split: if_splits)

lemma re_match_language:
  assumes "re_match r s = Some m"
  shows "\<exists>w. s = w @ fst m \<and> language r w"
  using assms matches_sound [of m r "(s, [])"]
  by (auto simp: re_match_def first_match_def consumes_def split: list.splits)

text \<open>\<open>re.findall\<close> of an expression with one group.\<close>

function findall :: "regex \<Rightarrow> string \<Rightarrow> string list" where
  "findall r [] = []"
| "findall r (c # s) =
     (case re_match r (c # s) of
        Some m \<Rightarrow> if fst m \<noteq> c # s then group 1 m # findall r (fst m) else findall r s
      | None \<Rightarrow> findall r s)"
  by pat_completeness auto
termination
proof (relation "measure (\<lambda>(r, s). length s)")
  fix r c s m assume "re_match r (c # s) = Some m" "fst m \<noteq> c # s"
  then obtain w where "c # s = w @ fst m" "w \<noteq> []" using re_match_language [of r "c # s" m] by auto
  then have "length (fst m) < length (c # s)" by simp
  then show "((r, fst m), (r, c # s)) \<in> measure (\<lambda>(r, s). length s)" by simp
qed auto

text \<open>An expression without a test of the text ahead.\<close>

primrec unanchored :: "regex \<Rightarrow> bool" where
  "unanchored Eps = True"
| "unanchored (Chars P) = True"
| "unanchored (Cat a b) = (unanchored a \<and> unanchored b)"
| "unanchored (Alt a b) = (unanchored a \<and> unanchored b)"
| "unanchored (Opt a) = unanchored a"
| "unanchored (Many a) = unanchored a"
| "unanchored (Group n a) = unanchored a"
| "unanchored (Ahead Q) = False"

definition reads :: "(match_state \<Rightarrow> match_state list) \<Rightarrow> string \<Rightarrow> bool" where
  "reads f w = (\<forall>t g. \<exists>g'. (t, g') \<in> set (f (w @ t, g)))"

lemma readsD: "reads f w \<Longrightarrow> \<exists>g'. (t, g') \<in> set (f (w @ t, g))"
  by (simp add: reads_def)

lemma in_repeat_Cons:
  "st' \<in> set (repeat_match (c # n) f st) \<longleftrightarrow>
     st' = st \<or> (\<exists>st1 \<in> set (f st). fst st1 \<noteq> fst st \<and> st' \<in> set (repeat_match n f st1))"
  by auto

lemma in_repeat_self: "st \<in> set (repeat_match n f st)"
  by (cases n) auto

lemma repeat_more:
  "st' \<in> set (repeat_match n f st) \<Longrightarrow> length n \<le> length m \<Longrightarrow> st' \<in> set (repeat_match m f st)"
proof (induction n arbitrary: m st)
  case Nil
  then show ?case using in_repeat_self by auto
next
  case (Cons c n)
  then obtain d m' where m: "m = d # m'" "length n \<le> length m'" by (cases m) auto
  with Cons show ?case unfolding m in_repeat_Cons by blast
qed

lemma matches_complete: "language r w \<Longrightarrow> unanchored r \<Longrightarrow> reads (matches r) w"
proof (induction rule: language.induct)
  case (3 a u b v)
  then have "reads (matches a) u" "reads (matches b) v" by auto
  then show ?case by (fastforce simp: reads_def)
next
  case (9 a u v)
  then have u: "reads (matches a) u" and v: "reads (matches (Many a)) v" by (simp_all del: matches.simps)
  show ?case unfolding reads_def
  proof (intro allI)
    fix t g
    obtain c k where k: "u @ v @ t = c # k" using 9(2) by (cases "u @ v @ t") auto
    obtain g1 where g1: "(v @ t, g1) \<in> set (matches a (u @ v @ t, g))" using readsD [OF u] by blast
    obtain g2 where "(t, g2) \<in> set (repeat_match (v @ t) (matches a) (v @ t, g1))"
      using readsD [OF v, of t g1] by auto
    moreover have "length (v @ t) \<le> length k" using arg_cong [OF k, of length] 9(2) by (cases u) auto
    ultimately have "(t, g2) \<in> set (repeat_match k (matches a) (v @ t, g1))"
      using repeat_more by blast
    then show "\<exists>g'. (t, g') \<in> set (matches (Many a) ((u @ v) @ t, g))"
      using g1 9(2) k by (intro exI [of _ g2]) (auto intro!: bexI [of _ "(v @ t, g1)"])
  qed
next
  case (8 a)
  show ?case using in_repeat_self by (fastforce simp: reads_def)
next
  case (10 a u n)
  show ?case unfolding reads_def
  proof (intro allI)
    fix t g
    obtain g' where "(t, g') \<in> set (matches a (u @ t, g))" using readsD 10 by fastforce
    then show "\<exists>g'. (t, g') \<in> set (matches (Group n a) (u @ t, g))"
      unfolding matches.simps set_map by (metis (no_types, lifting) fst_conv image_eqI)
  qed
qed (auto simp: reads_def)

text \<open>A search finds a match exactly when the text contains a text of the language.\<close>

lemma re_match_None: "unanchored r \<Longrightarrow> re_match r s = None \<longleftrightarrow> \<not> (\<exists>w t. s = w @ t \<and> language r w)"
proof
  assume r: "unanchored r" and "re_match r s = None"
  then have "matches r (s, []) = []" by (auto simp: re_match_def first_match_def split: list.splits)
  then show "\<not> (\<exists>w t. s = w @ t \<and> language r w)"
    using readsD [OF matches_complete [OF _ r]] by (metis empty_iff empty_set)
next
  assume "\<not> (\<exists>w t. s = w @ t \<and> language r w)"
  then have "matches r (s, []) = []"
    using matches_sound [of "hd (matches r (s, []))" r "(s, [])"]
    by (cases "matches r (s, [])") (auto simp: consumes_def)
  then show "re_match r s = None" by (simp add: re_match_def first_match_def)
qed

lemma search_None:
  "unanchored r \<Longrightarrow> re_search r s = None \<longleftrightarrow> \<not> (\<exists>u w t. s = u @ w @ t \<and> language r w)"
proof (induction s)
  case (Cons c s)
  have "(\<exists>u w t. c # s = u @ w @ t \<and> language r w) \<longleftrightarrow>
      (\<exists>w t. c # s = w @ t \<and> language r w) \<or> (\<exists>u w t. s = u @ w @ t \<and> language r w)"
    by (metis append_Cons append_Nil list.inject neq_Nil_conv)
  with Cons re_match_None [of r "c # s"] show ?case by (auto split: option.splits)
qed (auto simp: re_match_None)

section \<open>The first match\<close>

lemma first_of_concat:
  "xs = y # ys \<Longrightarrow> f y = z # zs \<Longrightarrow> \<exists>ws. concat (map f xs) = z # ws"
  by simp

lemma first_Cat: "first_match a st = Some st1 \<Longrightarrow> first_match b st1 = Some st2 \<Longrightarrow>
    first_match (Cat a b) st = Some st2"
  by (auto simp: first_match_def split: list.splits)

lemma first_Alt1: "first_match a st = Some m \<Longrightarrow> first_match (Alt a b) st = Some m"
  by (auto simp: first_match_def split: list.splits)

lemma first_Alt2: "first_match a st = None \<Longrightarrow> first_match (Alt a b) st = first_match b st"
  by (auto simp: first_match_def split: list.splits)

lemma first_Opt_None: "first_match a st = None \<Longrightarrow> first_match (Opt a) st = Some st"
  by (auto simp: first_match_def split: list.splits)

lemma first_Opt_Some: "first_match a st = Some m \<Longrightarrow> first_match (Opt a) st = Some m"
  by (auto simp: first_match_def split: list.splits)

lemma text_before_append [simp]: "text_before (w @ t) t = w"
proof (induction w)
  case Nil
  then show ?case by (cases t) auto
next
  case (Cons c w)
  then show ?case using arg_cong [of "c # w @ t" t length] by auto
qed

lemma first_Group: "first_match a (w @ t, g) = Some (t, g') \<Longrightarrow>
    first_match (Group n a) (w @ t, g) = Some (t, (n, w) # g')"
  by (auto simp: first_match_def split: list.splits)

lemma first_Chars: "first_match (Chars P) (s, g) =
    (case s of [] \<Rightarrow> None | c # s' \<Rightarrow> if P c then Some (s', g) else None)"
  by (auto simp: first_match_def split: list.splits)

lemma first_Eps: "first_match Eps st = Some st"
  by (simp add: first_match_def)

definition stops :: "(char \<Rightarrow> bool) \<Rightarrow> string \<Rightarrow> bool" where
  "stops P t = (t = [] \<or> \<not> P (hd t))"

lemma repeat_Chars:
  "P c \<Longrightarrow> repeat_match (d # m) (matches (Chars P)) (c # s, g) =
     repeat_match m (matches (Chars P)) (s, g) @ [(c # s, g)]"
proof -
  assume "P c"
  then have "matches (Chars P) (c # s, g) = [(s, g)]" by simp
  then show ?thesis by (simp del: matches.simps)
qed

lemma first_Many_Chars:
  assumes "\<forall>c \<in> set w. P c" "stops P t"
  shows "first_match (Many (Chars P)) (w @ t, g) = Some (t, g)"
proof -
  have "length w \<le> length n \<Longrightarrow> \<exists>ms. repeat_match n (matches (Chars P)) (w @ t, g) = (t, g) # ms" for n
    using assms(1)
  proof (induction w arbitrary: n)
    case Nil
    then show ?case using assms(2) by (cases n; cases t) (auto simp: stops_def)
  next
    case (Cons c w)
    then obtain d m where m: "n = d # m" by (cases n) auto
    then obtain ms where "repeat_match m (matches (Chars P)) (w @ t, g) = (t, g) # ms"
      using Cons.IH [of m] Cons.prems by (auto simp del: matches.simps)
    then show ?case using Cons.prems by (simp add: m repeat_Chars del: matches.simps repeat_match.simps)
  qed
  from this [of "w @ t"] show ?thesis by (auto simp: first_match_def)
qed

text \<open>A match that no other match overlaps from the left is in the list of \<open>findall\<close>.\<close>

lemma findall_step:
  "s \<noteq> [] \<Longrightarrow> re_match r s = Some m \<Longrightarrow> fst m \<noteq> s \<Longrightarrow> findall r s = group 1 m # findall r (fst m)"
  by (cases s) auto

lemma findall_hit:
  assumes "re_match r s = Some m" "fst m \<noteq> s" "group 1 m = v"
    and "\<And>p u t. p \<noteq> [] \<Longrightarrow> u \<noteq> [] \<Longrightarrow> s = u @ t \<Longrightarrow> \<not> language r (p @ u)"
  shows "v \<in> set (findall r (pre @ s))"
proof (induction pre rule: length_induct)
  case (1 pre)
  show ?case
  proof (cases pre)
    case Nil
    have "s \<noteq> []" using assms(1,2) re_match_language [OF assms(1)] by auto
    then show ?thesis using findall_step [OF _ assms(1,2)] assms(3) Nil by simp
  next
    case (Cons c pre')
    have later: "v \<in> set (findall r (pre' @ s))" using 1 Cons by auto
    show ?thesis
    proof (cases "re_match r (pre @ s)")
      case None
      then show ?thesis using later Cons by simp
    next
      case (Some m')
      then obtain w where w: "pre @ s = w @ fst m'" "language r w" using re_match_language by blast
      have "length w \<le> length pre"
      proof (rule ccontr)
        assume "\<not> length w \<le> length pre"
        then obtain u where "w = pre @ u" "u \<noteq> []" "s = u @ fst m'"
          using w(1) by (auto simp: append_eq_append_conv2)
        then show False using assms(4) [of pre u "fst m'"] w(2) Cons by simp
      qed
      then obtain pre2 where "pre = w @ pre2" "pre2 @ s = fst m'"
        using w(1) by (auto simp: append_eq_append_conv2)
      then have pre2: "fst m' = pre2 @ s" "pre = w @ pre2" by simp_all
      show ?thesis
      proof (cases "fst m' \<noteq> pre @ s")
        case True
        then have "length pre2 < length pre" using pre2 by auto
        then have "v \<in> set (findall r (fst m'))" using 1 pre2(1) by simp
        then show ?thesis using Some True Cons by simp
      next
        case False
        then show ?thesis using Some Cons later by simp
      qed
    qed
  qed
qed

end
