(* ===== verification/Host_Env.thy ===== *)
theory Host_Env
  imports Py_Regex History
begin

text \<open>
  The host the probes run on. What the operating system answers is the record \<open>host_env\<close>: the
  name of the platform, the readings of the clock, and the outcome of every call, numbered by the
  calls before it. An outcome is a value, an exception of the classes a probe catches with its text,
  or another exception. The state \<open>host\<close> is the process: how often the clock was read and the
  system asked, the cache of the ping module and the history database.

  The section on texts models \<open>str.splitlines\<close> and \<open>str.split\<close>.
\<close>

section \<open>Outcomes of system calls\<close>

text \<open>\<open>subprocess.run\<close>: exit status and output, an exception of the classes
  \<open>SubprocessError\<close> and \<open>OSError\<close>, or another one, with its text.\<close>

datatype run_outcome =
    Completed int string string
  | Run_Failed string
  | Run_Raised py_error string

text \<open>A transfer: bytes and seconds. A TCP connection: seconds. A name resolution: the addresses and
  seconds. A \<open>connect_ex\<close>: the code and seconds. A datagram and its answer: the bytes of the answer
  and seconds. A file: its text.\<close>

datatype download_outcome =
    Transferred int rat
  | Transfer_Failed string
  | Transfer_Raised py_error

datatype connect_outcome =
    Connected rat
  | Connect_Failed string
  | Connect_Raised py_error

datatype resolve_outcome =
    Resolved "string list" rat
  | Resolve_Failed string
  | Resolve_Raised py_error

datatype tcp_outcome =
    Tcp_Unresolved
  | Tcp_Code int rat
  | Tcp_Failed string
  | Tcp_Raised py_error

datatype udp_outcome =
    Udp_Unresolved
  | Udp_Done nat rat
  | Udp_Timeout
  | Udp_Failed string
  | Udp_Raised py_error

datatype file_outcome =
    File_Text string
  | File_Missing
  | File_Raised py_error

text \<open>What \<open>psutil\<close> reports.\<close>

datatype address_family = AF_INET | AF_INET6 | AF_HARDWARE | AF_OTHER

record if_stats =
  is_isup :: bool
  is_speed :: int
  is_mtu :: int

record io_counters =
  io_bytes_sent :: int
  io_bytes_recv :: int
  io_packets_sent :: int
  io_packets_recv :: int
  io_errin :: int
  io_errout :: int
  io_dropin :: int
  io_dropout :: int

record memory_stats =
  me_percent :: rat
  me_available :: int

section \<open>Environment and state\<close>

record host_env =
  he_system :: string
  he_clock :: "nat \<Rightarrow> rat"
  he_run :: "nat \<Rightarrow> string list \<Rightarrow> rat \<Rightarrow> run_outcome"
  he_download :: "nat \<Rightarrow> string \<Rightarrow> rat \<Rightarrow> download_outcome"
  he_connect :: "nat \<Rightarrow> string \<Rightarrow> int \<Rightarrow> rat \<Rightarrow> connect_outcome"
  he_resolve :: "nat \<Rightarrow> string \<Rightarrow> resolve_outcome"
  he_tcp :: "nat \<Rightarrow> string \<Rightarrow> int \<Rightarrow> rat \<Rightarrow> tcp_outcome"
  he_udp :: "nat \<Rightarrow> string \<Rightarrow> int \<Rightarrow> byte list \<Rightarrow> rat \<Rightarrow> udp_outcome"
  he_read_file :: "nat \<Rightarrow> string \<Rightarrow> file_outcome"
  he_if_addrs :: "nat \<Rightarrow> (string \<times> (address_family \<times> string) list) list"
  he_if_stats :: "nat \<Rightarrow> (string \<times> if_stats) list"
  he_net_io :: "nat \<Rightarrow> io_counters"
  he_nic_io :: "nat \<Rightarrow> (string \<times> io_counters) list"
  he_cpu :: "nat \<Rightarrow> rat"
  he_memory :: "nat \<Rightarrow> memory_stats"
  he_sqrt :: "rat \<Rightarrow> rat"
  he_repr :: "rat \<Rightarrow> string"
  he_sha256 :: "string \<Rightarrow> string"
  he_float_text :: "string \<Rightarrow> rat result"

record ping_data =
  pd_host :: string
  pd_count :: int
  pd_packet_loss_percent :: "rat option"
  pd_latencies :: "rat list"
  pd_min_ms :: rat
  pd_avg_ms :: rat
  pd_max_ms :: rat
  pd_jitter_ms :: rat
  pd_std_dev_ms :: rat
  pd_raw_output :: string
  pd_error :: "string option"

record host =
  ho_clock :: nat
  ho_calls :: nat
  ho_ping_cache :: "((string \<times> int) \<times> (rat \<times> ping_data)) list"
  ho_history :: history

definition read_clock :: "host_env \<Rightarrow> host \<Rightarrow> rat \<times> host" where
  "read_clock env h = (he_clock env (ho_clock h), h \<lparr> ho_clock := ho_clock h + 1 \<rparr>)"

text \<open>A call to the system: the answer with the number of the call, which is then counted.\<close>

definition ask :: "(nat \<Rightarrow> 'a) \<Rightarrow> host \<Rightarrow> 'a \<times> host" where
  "ask f h = (f (ho_calls h), h \<lparr> ho_calls := ho_calls h + 1 \<rparr>)"

definition askA :: "(nat \<Rightarrow> 'a) \<Rightarrow> (host, 'a) act" where
  "askA f h = (Inr (f (ho_calls h)), h \<lparr> ho_calls := ho_calls h + 1 \<rparr>)"

definition run_command :: "host_env \<Rightarrow> string list \<Rightarrow> rat \<Rightarrow> host \<Rightarrow> run_outcome \<times> host" where
  "run_command env command timeout = ask (\<lambda>n. he_run env n command timeout)"

text \<open>A probe that cannot raise, as an action.\<close>

definition totalA :: "(host \<Rightarrow> 'a \<times> host) \<Rightarrow> (host, 'a) act" where
  "totalA f h = (case f h of (x, h') \<Rightarrow> (Inr x, h'))"

text \<open>A result with the defaults of the model for all other fields.\<close>

definition new_result ::
  "string \<Rightarrow> string \<Rightarrow> diagnostic_status \<Rightarrow> severity \<Rightarrow> string \<Rightarrow> diagnostic_result" where
  "new_result md category status sev summary =
     \<lparr> dr_module = md, dr_category = category, dr_status = status, dr_severity = sev,
       dr_summary = summary, dr_target = None, dr_metrics = [], dr_evidence = [], dr_warnings = [],
       dr_errors = [], dr_metadata = [] \<rparr>"

text \<open>A probe over a list of targets, one after the other.\<close>

primrec for_each :: "('a \<Rightarrow> host \<Rightarrow> 'b \<times> host) \<Rightarrow> 'a list \<Rightarrow> host \<Rightarrow> 'b list \<times> host" where
  "for_each f [] h = ([], h)"
| "for_each f (x # xs) h =
     (case f x h of (r, h1) \<Rightarrow> (case for_each f xs h1 of (rs, h2) \<Rightarrow> (r # rs, h2)))"

lemma length_for_each: "length (fst (for_each f xs h)) = length xs"
  by (induction xs arbitrary: h) (auto simp: case_prod_beta)

section \<open>Texts\<close>

text \<open>The number of bytes of a line boundary at the start of a text, 0 for none.\<close>

fun line_break :: "string \<Rightarrow> nat" where
  "line_break [] = 0"
| "line_break (c # s) =
     (if c = CHR 0x0D then (case s of d # _ \<Rightarrow> if d = CHR 0x0A then 2 else 1 | [] \<Rightarrow> 1)
      else if c \<in> {CHR 0x0A, CHR 0x0B, CHR 0x0C, CHR 0x1C, CHR 0x1D, CHR 0x1E} then 1
      else if starts_with [CHR 0xC2, CHR 0x85] (c # s) then 2
      else if starts_with [CHR 0xE2, CHR 0x80, CHR 0xA8] (c # s) \<or>
              starts_with [CHR 0xE2, CHR 0x80, CHR 0xA9] (c # s) then 3
      else 0)"

function lines_from :: "string \<Rightarrow> string \<Rightarrow> string list" where
  "lines_from cur [] = (if cur = [] then [] else [cur])"
| "lines_from cur (c # s) =
     (case line_break (c # s) of
        0 \<Rightarrow> lines_from (cur @ [c]) s
      | Suc n \<Rightarrow> cur # lines_from [] (drop n s))"
  by pat_completeness auto
termination by (relation "measure (\<lambda>(cur, s). length s)") auto

definition splitlines :: "string \<Rightarrow> string list" where
  "splitlines s = lines_from [] s"

fun words_from :: "string \<Rightarrow> string \<Rightarrow> string list" where
  "words_from cur [] = (if cur = [] then [] else [cur])"
| "words_from cur (c # s) =
     (if is_space c then (if cur = [] then words_from [] s else cur # words_from [] s)
      else words_from (cur @ [c]) s)"

definition py_split :: "string \<Rightarrow> string list" where
  "py_split s = words_from [] s"

lemma words_from_word:
  "\<forall>c \<in> set w. \<not> is_space c \<Longrightarrow> words_from cur (w @ s) = words_from (cur @ w) s"
  by (induction w arbitrary: cur) auto

text \<open>The words of a text that is words separated by single blanks are these words.\<close>

lemma py_split_join:
  assumes "\<forall>w \<in> set ws. w \<noteq> [] \<and> (\<forall>c \<in> set w. \<not> is_space c)"
  shows "py_split (join '' '' ws) = ws"
proof -
  have "words_from [] (join '' '' ws) = ws"
    using assms
  proof (induction ws rule: induct_list012)
    case (2 w)
    then show ?case using words_from_word [of w "[]" "[]"] by simp
  next
    case (3 w v ws)
    then have "words_from [] (w @ '' '' @ join '' '' (v # ws)) = w # words_from [] (join '' '' (v # ws))"
      using words_from_word [of w "[]" "'' '' @ join '' '' (v # ws)"] by (simp add: is_space_def)
    with 3 show ?case by simp
  qed simp
  then show ?thesis by (simp add: py_split_def)
qed

lemma py_split_words: "w \<in> set (py_split s) \<Longrightarrow> w \<noteq> []"
proof -
  have "w \<in> set (words_from cur s) \<Longrightarrow> w \<noteq> []" for cur
    by (induction cur s rule: words_from.induct) (auto split: if_splits)
  then show "w \<in> set (py_split s) \<Longrightarrow> w \<noteq> []" by (simp add: py_split_def)
qed

end
