(* ===== verification/Captures.thy ===== *)
theory Captures
  imports Telemetry Host_Env
begin

text \<open>
  Where the telemetry comes from: the credentials of a managed device and the live transport
  (\<open>SnmpV3Credentials\<close>, \<open>LiveSnmpV3Transport\<close> of \<open>ingest/snmp_counters.py\<close>), and the
  captured walks and neighbour lists read from files (\<open>load_snmp_replay\<close>,
  \<open>load_lldp_neighbors\<close> of \<open>ingest/lldp.py\<close>), with the stubs of live collection. A file is its text; the JSON parser
  \<open>loads\<close> and the validation of a row as an \<open>LldpNeighbor\<close> are arguments.
\<close>

section \<open>Credentials and the live transport\<close>

datatype security_level = NO_AUTH_NO_PRIV | AUTH_NO_PRIV | AUTH_PRIV

fun level_name :: "security_level \<Rightarrow> string" where
  "level_name NO_AUTH_NO_PRIV = ''noAuthNoPriv''" | "level_name AUTH_NO_PRIV = ''authNoPriv''"
| "level_name AUTH_PRIV = ''authPriv''"

record snmp_credentials =
  cr_host :: string
  cr_username :: string
  cr_security_level :: security_level
  cr_auth_protocol :: string
  cr_auth_key :: string
  cr_priv_protocol :: string
  cr_priv_key :: string
  cr_context_name :: string
  cr_port :: int

definition make_credentials :: "snmp_credentials \<Rightarrow> snmp_credentials result" where
  "make_credentials c =
     bindR (validate_credentials (level_name (cr_security_level c)) (cr_auth_key c) (cr_priv_key c)) (\<lambda>_. Inr c)"

text \<open>The engine is created with one retry and an empty context engine id; \<open>rand_msg\<close> and \<open>rand_req\<close>
  are its two random ids.\<close>

definition live_transport :: "snmp_credentials \<Rightarrow> rat \<Rightarrow> int \<Rightarrow> int \<Rightarrow> engine result" where
  "live_transport c timeout rand_msg rand_req =
     init_engine (str_bytes (cr_username c)) (level_name (cr_security_level c)) (cr_auth_protocol c)
       (str_bytes (cr_auth_key c)) (cr_priv_protocol c) (str_bytes (cr_priv_key c)) (str_bytes (cr_context_name c)) []
       timeout 1 rand_msg rand_req"

section \<open>Captured files\<close>

definition load_snmp_replay :: "(string \<Rightarrow> pyval result) \<Rightarrow> string \<Rightarrow> (string \<times> pyval) list result" where
  "load_snmp_replay loads file_text =
     (let text = py_strip file_text in
      if text = [] then Inr []
      else bindR (loads text) (\<lambda>data. case data of PDict d \<Rightarrow> Inr d | _ \<Rightarrow> Inl ValueError))"

text \<open>A JSON array, or one JSON value on every line that is not blank.\<close>

definition load_lldp_neighbors ::
  "(string \<Rightarrow> pyval result) \<Rightarrow> (pyval \<Rightarrow> lldp_neighbor result) \<Rightarrow> string \<Rightarrow> lldp_neighbor list result" where
  "load_lldp_neighbors loads validate file_text =
     (let text = py_strip file_text in
      if text = [] then Inr []
      else if starts_with ''['' text then
        bindR (loads text) (\<lambda>data. case data of PList xs \<Rightarrow> mapR validate xs | _ \<Rightarrow> Inl ValueError)
      else mapR (\<lambda>line. bindR (loads line) validate) (filter (\<lambda>line. py_strip line \<noteq> []) (splitlines text)))"

text \<open>Live collection is not implemented and says so.\<close>

definition not_implemented :: py_error where
  "not_implemented = OtherError ''NotImplementedError''"

definition start_lldp_collector :: "string \<Rightarrow> int \<Rightarrow> unit result" where
  "start_lldp_collector host port = Inl not_implemented"

definition start_sflow_collector :: "string \<Rightarrow> int \<Rightarrow> unit result" where
  "start_sflow_collector bind port = Inl not_implemented"

definition start_ipfix_collector :: "string \<Rightarrow> int \<Rightarrow> unit result" where
  "start_ipfix_collector bind port = Inl not_implemented"

section \<open>What credentials are good for\<close>

text \<open>Which credentials give a transport: the checks of the credentials and those of the engine
  together.\<close>

definition usable_credentials :: "snmp_credentials \<Rightarrow> bool" where
  "usable_credentials c =
     (case cr_security_level c of
        NO_AUTH_NO_PRIV \<Rightarrow> True
      | AUTH_NO_PRIV \<Rightarrow> cr_auth_key c \<noteq> [] \<and> py_lower (cr_auth_protocol c) \<in> fst ` set AUTH_HASHES
      | AUTH_PRIV \<Rightarrow> cr_auth_key c \<noteq> [] \<and> cr_priv_key c \<noteq> [] \<and>
          py_lower (cr_auth_protocol c) \<in> fst ` set AUTH_HASHES \<and> py_lower (cr_priv_protocol c) \<in> {''aes'', ''aes128''})"

lemma hash_name_returns: "(\<exists>name. hash_name p = Inr name) \<longleftrightarrow> py_lower p \<in> fst ` set AUTH_HASHES"
  by (auto simp: hash_name_def map_of_eq_None_iff image_iff split: option.splits) (force dest: map_of_SomeD)+

lemma named_hashes: "p \<in> fst ` set AUTH_HASHES \<Longrightarrow> p \<notin> {'''', ''none''}"
  by (auto simp: AUTH_HASHES_def)

lemma transport_of_credentials:
  "(\<exists>e. bindR (make_credentials c) (\<lambda>c'. live_transport c' timeout m r) = Inr e) \<longleftrightarrow> usable_credentials c"
  using hash_name_returns [of "cr_auth_protocol c"] named_hashes [of "py_lower (cr_auth_protocol c)"]
  by (cases "cr_security_level c", auto simp: make_credentials_def validate_credentials_def live_transport_def init_engine_def usable_credentials_def
      guardR_def bindR_eq_Inr) (metis fst_conv image_eqI)+

text \<open>The credentials accept \<open>des\<close>, the documented alternative of \<open>aes\<close>; no transport can be made of them.\<close>

lemma des_has_no_transport:
  "cr_security_level c = AUTH_PRIV \<Longrightarrow> cr_auth_key c \<noteq> [] \<Longrightarrow> cr_priv_key c \<noteq> [] \<Longrightarrow> cr_priv_protocol c = ''des'' \<Longrightarrow>
    make_credentials c = Inr c \<and> (\<exists>msg. live_transport c timeout m r = Inl (SnmpError msg))"
  by (auto simp: make_credentials_def validate_credentials_def live_transport_def init_engine_def guardR_def
      py_lower_def lower_char_def)

lemma array_or_lines:
  assumes "py_strip a \<noteq> []" "starts_with ''['' (py_strip a)" "loads (py_strip a) = Inr (PList rs)"
    and "py_strip b \<noteq> []" "\<not> starts_with ''['' (py_strip b)"
    and "mapR loads (filter (\<lambda>line. py_strip line \<noteq> []) (splitlines (py_strip b))) = Inr rs"
  shows "load_lldp_neighbors loads validate a = load_lldp_neighbors loads validate b"
proof -
  have "mapR loads ls = Inr rs \<Longrightarrow> mapR (\<lambda>line. bindR (loads line) validate) ls = mapR validate rs" for ls
    by (induction ls arbitrary: rs) (auto simp: bindR_eq_Inr)
  then show ?thesis using assms by (simp add: load_lldp_neighbors_def)
qed

end
