(* ===== verification/Correlation.thy ===== *)
theory Correlation
  imports Topology Telemetry
begin

text \<open>
  Model of \<open>controller/correlation.py\<close>: host-to-switch-port bindings from LLDP and MAC-table
  telemetry, and the topology with the access edges they imply. The dictionaries of partial evidence
  and of edge tags are association lists in insertion order.
\<close>

section \<open>Identities\<close>

definition is_hex :: "char \<Rightarrow> bool" where
  "is_hex c = (let n = (of_char c :: nat) in
     (48 \<le> n \<and> n \<le> 57) \<or> (65 \<le> n \<and> n \<le> 70) \<or> (97 \<le> n \<and> n \<le> 102))"

definition normalize_mac :: "string option \<Rightarrow> string option" where
  "normalize_mac value =
     (case value of None \<Rightarrow> None
      | Some v \<Rightarrow>
          (let hexchars = filter is_hex v
           in if v \<noteq> [] \<and> length hexchars = 12 then Some (py_lower hexchars) else None))"

text \<open>The tags of a node: every non-empty one is a name, and a MAC as soon as it has the shape of
  one (the test of the tag's name in the code is subsumed by \<open>or mac\<close>).\<close>

definition tag_texts :: "topology_node \<Rightarrow> string list" where
  "tag_texts n = map clean_text (filter (\<lambda>t. t \<noteq> []) (map snd (tn_tags n)))"

definition host_names :: "topology_node \<Rightarrow> string list" where
  "host_names n = map clean_text (filled_texts
     [Some (tn_node_id n), tn_label n, tn_address n, tn_agent_id n]) @ tag_texts n"

definition host_macs :: "topology_node \<Rightarrow> string list" where
  "host_macs n = List.map_filter (\<lambda>t. normalize_mac (Some t)) (tag_texts n)"

definition neighbor_names :: "lldp_neighbor \<Rightarrow> string list" where
  "neighbor_names nb = map clean_text (filled_texts
     [ln_sys_name nb, ln_mgmt_addr nb, ln_port_id nb, ln_chassis_id nb])"

definition neighbor_macs :: "lldp_neighbor \<Rightarrow> string list" where
  "neighbor_macs nb = opt_list (normalize_mac (ln_chassis_id nb))"

section \<open>Bindings\<close>

definition CONF_LLD_NAME :: rat where "CONF_LLD_NAME = 82 / 100"
definition CONF_LLD_MAC :: rat where "CONF_LLD_MAC = 90 / 100"
definition CONF_MAC_TABLE :: rat where "CONF_MAC_TABLE = 75 / 100"
definition CONF_CORROBORATED :: rat where "CONF_CORROBORATED = 95 / 100"

lemmas conf_defs = CONF_LLD_NAME_def CONF_LLD_MAC_def CONF_MAC_TABLE_def CONF_CORROBORATED_def

datatype correlation_method = M_LLDP | M_MAC_TABLE | M_LLDP_AND_MAC

fun method_value :: "correlation_method \<Rightarrow> string" where
  "method_value M_LLDP = ''lldp''"
| "method_value M_MAC_TABLE = ''mac_table''"
| "method_value M_LLDP_AND_MAC = ''lldp_and_mac''"

record host_port_binding =
  hb_host_node_id :: string
  hb_host_identity :: string
  hb_switch_node_id :: string
  hb_switch_port :: string
  hb_if_index :: "int option"
  hb_method :: correlation_method
  hb_confidence :: rat
  hb_quality :: evidence_quality
  hb_evidence :: "string list"

record switch_telemetry =
  sw_node_id :: string
  sw_lldp :: "lldp_neighbor list"
  sw_mac_table :: "mac_table_entry list"

text \<open>One source of evidence in a slot of \<open>partial\<close>.\<close>

record evidence_entry =
  ee_host_identity :: string
  ee_switch_port :: string
  ee_if_index :: "int option"
  ee_confidence :: rat
  ee_evidence :: string

record slot =
  sl_lldp :: "evidence_entry option"
  sl_mac :: "evidence_entry option"

type_synonym partial = "((string \<times> string) \<times> slot) list"

definition slot_of :: "string \<times> string \<Rightarrow> partial \<Rightarrow> slot" where
  "slot_of key d = (case map_of d key of None \<Rightarrow> \<lparr> sl_lldp = None, sl_mac = None \<rparr> | Some s \<Rightarrow> s)"

definition common :: "string list \<Rightarrow> string list \<Rightarrow> string list" where
  "common xs ys = sort (filter (\<lambda>x. x \<in> set ys) xs)"

definition lldp_match :: "topology_node \<Rightarrow> lldp_neighbor \<Rightarrow> (string \<times> rat) option" where
  "lldp_match n nb =
     (case common (host_macs n) (neighbor_macs nb) of
        m # _ \<Rightarrow> Some (m, CONF_LLD_MAC)
      | [] \<Rightarrow> (case common (host_names n) (neighbor_names nb) of
                 m # _ \<Rightarrow> Some (m, CONF_LLD_NAME)
               | [] \<Rightarrow> None))"

definition lldp_step :: "string \<Rightarrow> lldp_neighbor \<Rightarrow> partial \<Rightarrow> topology_node \<Rightarrow> partial" where
  "lldp_step switch_id nb d n =
     (case lldp_match n nb of
        None \<Rightarrow> d
      | Some (identity, confidence) \<Rightarrow>
          (let key = (tn_node_id n, switch_id)
           in AList.update key (slot_of key d \<lparr> sl_lldp := Some
                \<lparr> ee_host_identity = identity, ee_switch_port = ln_local_port nb, ee_if_index = None,
                  ee_confidence = confidence,
                  ee_evidence = ''LLDP on switch '' @ switch_id @ '' port '' @ ln_local_port nb @
                    '' reports neighbor '' @ [CHR 0x27] @ identity @ [CHR 0x27] @ '' matching node '' @
                    tn_node_id n \<rparr> \<rparr>) d))"

definition mac_step :: "string \<Rightarrow> mac_table_entry \<Rightarrow> partial \<Rightarrow> topology_node \<Rightarrow> partial" where
  "mac_step switch_id entry d n =
     (case normalize_mac (Some (me_mac entry)) of
        None \<Rightarrow> d
      | Some entry_mac \<Rightarrow>
          if entry_mac \<notin> set (host_macs n) then d
          else
            (let key = (tn_node_id n, switch_id);
                 port = (case me_if_index entry of
                   Some i \<Rightarrow> ''ifIndex '' @ str_of_int i
                 | None \<Rightarrow> ''bridge-port '' @ str_of_int (me_bridge_port entry))
             in AList.update key (slot_of key d \<lparr> sl_mac := Some
                  \<lparr> ee_host_identity = entry_mac, ee_switch_port = port,
                    ee_if_index = me_if_index entry, ee_confidence = CONF_MAC_TABLE,
                    ee_evidence = ''MAC table on '' @ switch_id @ '': '' @ entry_mac @ '' learned on '' @
                      port \<rparr> \<rparr>) d))"

definition switch_step :: "topology_node list \<Rightarrow> partial \<Rightarrow> switch_telemetry \<Rightarrow> partial" where
  "switch_step hosts d sw =
     foldl (\<lambda>d entry. foldl (mac_step (sw_node_id sw) entry) d hosts)
       (foldl (\<lambda>d nb. foldl (lldp_step (sw_node_id sw) nb) d hosts) d (sw_lldp sw))
       (sw_mac_table sw)"

definition host_nodes :: "network_topology \<Rightarrow> topology_node list" where
  "host_nodes t = filter (\<lambda>n. tn_role n \<in> {R_HOST, R_AGENT, R_SERVICE} \<or> some_text (tn_agent_id n)) (nt_nodes t)"

text \<open>The binding of a slot; a slot always holds at least one source.\<close>

definition binding_of :: "(string \<times> string) \<times> slot \<Rightarrow> host_port_binding" where
  "binding_of ks =
     (case ks of ((host, switch), s) \<Rightarrow>
       (case (sl_lldp s, sl_mac s) of
          (Some l, Some m) \<Rightarrow>
            \<lparr> hb_host_node_id = host, hb_host_identity = ee_host_identity l, hb_switch_node_id = switch,
              hb_switch_port = ee_switch_port l, hb_if_index = ee_if_index m,
              hb_method = M_LLDP_AND_MAC, hb_confidence = py_round CONF_CORROBORATED 2,
              hb_quality = CORROBORATED,
              hb_evidence = [ee_evidence l, ee_evidence m, ''Corroborated by LLDP and MAC table''] \<rparr>
        | (Some l, None) \<Rightarrow>
            \<lparr> hb_host_node_id = host, hb_host_identity = ee_host_identity l, hb_switch_node_id = switch,
              hb_switch_port = ee_switch_port l, hb_if_index = None,
              hb_method = M_LLDP, hb_confidence = py_round (ee_confidence l) 2,
              hb_quality = SINGLE_SOURCE, hb_evidence = [ee_evidence l] \<rparr>
        | (None, m) \<Rightarrow>
            \<lparr> hb_host_node_id = host, hb_host_identity = ee_host_identity (the m),
              hb_switch_node_id = switch, hb_switch_port = ee_switch_port (the m),
              hb_if_index = ee_if_index (the m), hb_method = M_MAC_TABLE,
              hb_confidence = py_round (ee_confidence (the m)) 2,
              hb_quality = SINGLE_SOURCE, hb_evidence = [ee_evidence (the m)] \<rparr>))"

definition binding_key :: "host_port_binding \<Rightarrow> string \<times> string" where
  "binding_key b = (hb_host_node_id b, hb_switch_node_id b)"

definition correlate_host_ports ::
  "network_topology \<Rightarrow> switch_telemetry list \<Rightarrow> host_port_binding list" where
  "correlate_host_ports topology switches =
     sort_key binding_key (map binding_of (foldl (switch_step (host_nodes topology)) [] switches))"

section \<open>The augmented topology\<close>

definition add_switch :: "topology_node list \<Rightarrow> host_port_binding \<Rightarrow> topology_node list" where
  "add_switch nodes b =
     (if hb_switch_node_id b \<in> tn_node_id ` set nodes then nodes
      else nodes @ [\<lparr> tn_node_id = hb_switch_node_id b, tn_label = Some (hb_switch_node_id b),
             tn_role = R_SWITCH, tn_agent_id = None, tn_address = None, tn_tags = [] \<rparr>])"

definition binding_tags :: "host_port_binding \<Rightarrow> (string \<times> string) list" where
  "binding_tags b =
     [(''switch_port'', hb_switch_port b), (''correlation'', method_value (hb_method b)),
      (''confidence'', fmt_fixed 2 (hb_confidence b))] @
     (case hb_if_index b of None \<Rightarrow> [] | Some i \<Rightarrow> [(''if_index'', str_of_int i)])"

definition edge_tags :: "host_port_binding list \<Rightarrow> ((string \<times> string) \<times> (string \<times> string) list) list" where
  "edge_tags bs = foldl (\<lambda>d b. AList.update (binding_key b) (binding_tags b) d) [] bs"

definition merge_tags :: "(string \<times> string) list \<Rightarrow> (string \<times> string) list \<Rightarrow> (string \<times> string) list" where
  "merge_tags tags new = foldl (\<lambda>d (k, v). AList.update k v d) tags new"

definition edge_key :: "topology_edge \<Rightarrow> string \<times> string" where
  "edge_key e = (te_src e, te_dst e)"

definition refresh_edge ::
  "((string \<times> string) \<times> (string \<times> string) list) list \<Rightarrow> topology_edge \<Rightarrow> topology_edge result" where
  "refresh_edge tags e =
     (case map_of tags (edge_key e) of
        None \<Rightarrow> Inr e
      | Some new \<Rightarrow> validate_edge (e \<lparr> te_tags := merge_tags (te_tags e) new \<rparr>))"

definition new_edge ::
  "((string \<times> string) \<times> (string \<times> string) list) list \<Rightarrow> host_port_binding \<Rightarrow> topology_edge result" where
  "new_edge tags b = validate_edge
     \<lparr> te_src = hb_host_node_id b, te_dst = hb_switch_node_id b, te_kind = LAN,
       te_capacity_mbps = None, te_tags = the (map_of tags (binding_key b)) \<rparr>"

definition augment_topology_with_bindings ::
  "network_topology \<Rightarrow> host_port_binding list \<Rightarrow> network_topology result" where
  "augment_topology_with_bindings topology bindings =
     (let nodes = foldl add_switch (nt_nodes topology) bindings;
          tags = edge_tags bindings;
          seen = set (filter (\<lambda>k. k \<in> fst ` set tags) (map edge_key (nt_edges topology)))
      in bindR (mapR (refresh_edge tags) (nt_edges topology)) (\<lambda>old.
         bindR (mapR (new_edge tags) (filter (\<lambda>b. binding_key b \<notin> seen) bindings)) (\<lambda>new.
           validate_topology \<lparr> nt_name = nt_name topology, nt_nodes = nodes, nt_edges = old @ new \<rparr>)))"

section \<open>The bindings\<close>

text \<open>What holds of every slot: it belongs to a host of the topology and a reporting switch, it is
  not empty, and an LLDP entry has one of the two LLDP confidences.\<close>

definition slot_ok :: "string set \<Rightarrow> string set \<Rightarrow> (string \<times> string) \<times> slot \<Rightarrow> bool" where
  "slot_ok H S ks = (fst (fst ks) \<in> H \<and> snd (fst ks) \<in> S \<and>
     (sl_lldp (snd ks) \<noteq> None \<or> sl_mac (snd ks) \<noteq> None) \<and>
     (\<forall>l. sl_lldp (snd ks) = Some l \<longrightarrow> ee_confidence l \<in> {CONF_LLD_MAC, CONF_LLD_NAME}) \<and>
     (\<forall>m. sl_mac (snd ks) = Some m \<longrightarrow> ee_confidence m = CONF_MAC_TABLE))"

definition partial_ok :: "string set \<Rightarrow> string set \<Rightarrow> partial \<Rightarrow> bool" where
  "partial_ok H S d = (distinct (map fst d) \<and> (\<forall>ks \<in> set d. slot_ok H S ks))"

lemma partial_ok_update:
  assumes "partial_ok H S d" "slot_ok H S (key, s)"
  shows "partial_ok H S (AList.update key s d)"
proof -
  have "distinct (map fst (AList.update key s d))"
    using assms(1) by (simp add: partial_ok_def distinct_update)
  moreover have "slot_ok H S ks" if "ks \<in> set (AList.update key s d)" for ks
  proof -
    have "map_of (AList.update key s d) (fst ks) = Some (snd ks)"
      using calculation that by (simp add: map_of_is_SomeI)
    then have "ks = (key, s) \<or> map_of d (fst ks) = Some (snd ks)"
      by (cases ks) (auto simp: update_conv split: if_splits)
    then show ?thesis
      using assms by (auto simp: partial_ok_def dest: map_of_SomeD)
  qed
  ultimately show ?thesis by (simp add: partial_ok_def)
qed

lemma slot_of_ok:
  assumes "partial_ok H S d" "sl_lldp (slot_of key d) = Some l"
  shows "ee_confidence l \<in> {CONF_LLD_MAC, CONF_LLD_NAME}"
  using assms by (auto simp: slot_of_def partial_ok_def slot_ok_def split: option.splits dest!: map_of_SomeD)

lemma slot_of_ok_mac:
  assumes "partial_ok H S d" "sl_mac (slot_of key d) = Some m"
  shows "ee_confidence m = CONF_MAC_TABLE"
  using assms by (auto simp: slot_of_def partial_ok_def slot_ok_def split: option.splits dest!: map_of_SomeD)

lemma lldp_match_confidence:
  "lldp_match n nb = Some (i, c) \<Longrightarrow> c \<in> {CONF_LLD_MAC, CONF_LLD_NAME}"
  by (auto simp: lldp_match_def split: list.splits)

lemma lldp_step_ok:
  "partial_ok H S d \<Longrightarrow> tn_node_id n \<in> H \<Longrightarrow> sid \<in> S \<Longrightarrow> partial_ok H S (lldp_step sid nb d n)"
  using slot_of_ok_mac [of H S d "(tn_node_id n, sid)"]
  by (auto simp: lldp_step_def Let_def slot_ok_def split: option.splits
      intro!: partial_ok_update dest!: lldp_match_confidence)

lemma mac_step_ok:
  "partial_ok H S d \<Longrightarrow> tn_node_id n \<in> H \<Longrightarrow> sid \<in> S \<Longrightarrow> partial_ok H S (mac_step sid entry d n)"
  using slot_of_ok [of H S d "(tn_node_id n, sid)"]
  by (auto simp: mac_step_def Let_def slot_ok_def split: option.splits intro!: partial_ok_update)

lemma foldl_inv: "P d \<Longrightarrow> (\<And>d x. P d \<Longrightarrow> x \<in> set xs \<Longrightarrow> P (f d x)) \<Longrightarrow> P (foldl f d xs)"
  by (induction xs arbitrary: d) simp_all

lemma switch_step_ok:
  assumes "partial_ok H S d" "\<And>n. n \<in> set hosts \<Longrightarrow> tn_node_id n \<in> H" "sw_node_id sw \<in> S"
  shows "partial_ok H S (switch_step hosts d sw)"
  unfolding switch_step_def using assms
  by (intro foldl_inv [where P = "partial_ok H S"]) (auto intro!: lldp_step_ok mac_step_ok)

lemma partial_final_ok:
  "partial_ok (tn_node_id ` set (host_nodes t)) (sw_node_id ` set switches)
     (foldl (switch_step (host_nodes t)) [] switches)"
  by (intro foldl_inv [where P = "partial_ok _ _"] switch_step_ok) (auto simp: partial_ok_def)

lemma binding_of_key: "binding_key (binding_of ks) = fst ks"
  by (auto simp: binding_of_def binding_key_def split: prod.splits option.splits)

lemma conf_round [simp]:
  "py_round CONF_LLD_NAME 2 = 82 / 100" "py_round CONF_LLD_MAC 2 = 90 / 100"
  "py_round CONF_MAC_TABLE 2 = 75 / 100" "py_round CONF_CORROBORATED 2 = 95 / 100"
  by (simp_all add: conf_defs py_round_def round_half_even_def)

lemma binding_of_slot:
  assumes "slot_ok H S ks"
  shows "hb_host_node_id (binding_of ks) \<in> H \<and> hb_switch_node_id (binding_of ks) \<in> S \<and>
    hb_confidence (binding_of ks) \<in> {75 / 100, 82 / 100, 90 / 100, 95 / 100} \<and>
    (hb_confidence (binding_of ks) = 95 / 100 \<longleftrightarrow> hb_method (binding_of ks) = M_LLDP_AND_MAC) \<and>
    (hb_quality (binding_of ks) = CORROBORATED \<longleftrightarrow> hb_method (binding_of ks) = M_LLDP_AND_MAC) \<and>
    hb_evidence (binding_of ks) \<noteq> []"
proof -
  obtain host switch s where ks: "ks = ((host, switch), s)" by (metis prod.exhaust)
  show ?thesis
  proof (cases "sl_lldp s")
    case None
    then obtain m where "sl_mac s = Some m" "ee_confidence m = CONF_MAC_TABLE"
      using assms by (auto simp: slot_ok_def ks)
    with None assms show ?thesis by (simp add: slot_ok_def ks binding_of_def)
  next
    case (Some l)
    then have "ee_confidence l = CONF_LLD_MAC \<or> ee_confidence l = CONF_LLD_NAME"
      using assms by (simp add: slot_ok_def ks)
    with Some assms show ?thesis
      by (cases "sl_mac s") (auto simp: slot_ok_def ks binding_of_def)
  qed
qed

section \<open>The new graph\<close>

lemma mapR_Inr_iff:
  assumes "\<And>x. x \<in> set xs \<Longrightarrow> f x = Inr (g x)"
  shows "mapR f xs = Inr (map g xs)"
  using mapR_all_Inr [of xs f g] assms by blast

lemma add_switch_ids:
  "tn_node_id ` set (foldl add_switch nodes bs) = tn_node_id ` set nodes \<union> hb_switch_node_id ` set bs"
  by (induction bs arbitrary: nodes) (auto simp: add_switch_def)

lemma add_switch_distinct:
  "distinct (map tn_node_id nodes) \<Longrightarrow> distinct (map tn_node_id (foldl add_switch nodes bs))"
  by (induction bs arbitrary: nodes) (simp_all add: add_switch_def)

lemma add_switch_prefix: "\<exists>new. foldl add_switch nodes bs = nodes @ new"
proof (induction bs arbitrary: nodes)
  case (Cons b bs)
  have "\<exists>x. add_switch nodes b = nodes @ x" by (simp add: add_switch_def)
  then obtain x where x: "add_switch nodes b = nodes @ x" by blast
  obtain new where "foldl add_switch (nodes @ x) bs = (nodes @ x) @ new"
    using Cons.IH by blast
  with x show ?case by simp
qed simp

lemma edge_tags_fold:
  "map_of (foldl (\<lambda>d b. AList.update (binding_key b) (binding_tags b) d) d bs) k =
     (case filter (\<lambda>b. binding_key b = k) bs of [] \<Rightarrow> map_of d k
      | _ \<Rightarrow> Some (binding_tags (last (filter (\<lambda>b. binding_key b = k) bs))))"
proof (induction bs arbitrary: d)
  case (Cons b bs)
  then show ?case by (cases "filter (\<lambda>b. binding_key b = k) bs") (auto simp: update_conv')
qed simp

lemma edge_tags_of:
  assumes "distinct (map binding_key bs)" "b \<in> set bs"
  shows "map_of (edge_tags bs) (binding_key b) = Some (binding_tags b)"
proof -
  have "filter (\<lambda>b'. binding_key b' = binding_key b) bs = [b]"
    using assms by (induction bs) (auto simp: filter_empty_conv image_iff)
  then show ?thesis by (simp add: edge_tags_def edge_tags_fold)
qed

lemma edge_tags_dom: "fst ` set (edge_tags bs) = binding_key ` set bs"
proof -
  have "fst ` set (foldl (\<lambda>d b. AList.update (binding_key b) (binding_tags b) d) d bs) =
      fst ` set d \<union> binding_key ` set bs" for d
    by (induction bs arbitrary: d) (auto simp: dom_update [unfolded map_of_eq_None_iff])
  then show ?thesis by (simp add: edge_tags_def)
qed

lemma merge_tags_of:
  assumes "distinct (map fst new)" "(k, v) \<in> set new"
  shows "map_of (merge_tags tags new) k = Some v"
proof -
  have "map_of (foldl (\<lambda>d (k, v). AList.update k v d) tags new) k =
      (case map_of new k of Some v \<Rightarrow> Some v | None \<Rightarrow> map_of tags k)"
    if "distinct (map fst new)" for new
    using that
  proof (induction new arbitrary: tags)
    case (Cons x xs)
    then show ?case
      by (cases x) (auto simp: update_conv' map_of_eq_None_iff image_iff split: option.splits)
  qed simp
  with assms show ?thesis by (simp add: merge_tags_def map_of_is_SomeI)
qed

lemma binding_tags_distinct: "distinct (map fst (binding_tags b))"
  by (simp add: binding_tags_def split: option.splits)

text \<open>The bindings a graph can be augmented with.\<close>

definition bindings_ok :: "network_topology \<Rightarrow> host_port_binding list \<Rightarrow> bool" where
  "bindings_ok t bs = (distinct (map binding_key bs) \<and>
     (\<forall>b \<in> set bs. has_node t (hb_host_node_id b) \<and> hb_switch_node_id b \<noteq> [] \<and>
        hb_host_node_id b \<noteq> hb_switch_node_id b))"

lemma topology_okD:
  assumes "topology_ok t"
  shows "has_node t i \<Longrightarrow> i \<noteq> []" and "e \<in> set (nt_edges t) \<Longrightarrow> edge_ok e"
  using assms by (auto simp: topology_ok_def has_node_def)

definition refreshed :: "host_port_binding list \<Rightarrow> topology_edge \<Rightarrow> topology_edge" where
  "refreshed bs e = (case map_of (edge_tags bs) (edge_key e) of None \<Rightarrow> e
     | Some new \<Rightarrow> e \<lparr> te_tags := merge_tags (te_tags e) new \<rparr>)"

definition created :: "host_port_binding \<Rightarrow> topology_edge" where
  "created b = \<lparr> te_src = hb_host_node_id b, te_dst = hb_switch_node_id b, te_kind = LAN,
     te_capacity_mbps = None, te_tags = binding_tags b \<rparr>"

lemma refreshed_simps [simp]: "te_src (refreshed bs e) = te_src e" "te_dst (refreshed bs e) = te_dst e"
  "edge_ok (refreshed bs e) = edge_ok e" "edge_key (refreshed bs e) = edge_key e"
  by (auto simp: refreshed_def edge_ok_def edge_key_def split: option.splits)

lemma augment_result:
  assumes t: "topology_ok t" and b: "bindings_ok t bs"
  shows "augment_topology_with_bindings t bs =
    Inr \<lparr> nt_name = nt_name t, nt_nodes = foldl add_switch (nt_nodes t) bs,
          nt_edges = map (refreshed bs) (nt_edges t) @
            map created (filter (\<lambda>b. binding_key b \<notin> edge_key ` set (nt_edges t)) bs) \<rparr> \<and>
   topology_ok \<lparr> nt_name = nt_name t, nt_nodes = foldl add_switch (nt_nodes t) bs,
          nt_edges = map (refreshed bs) (nt_edges t) @
            map created (filter (\<lambda>b. binding_key b \<notin> edge_key ` set (nt_edges t)) bs) \<rparr>"
  (is "_ = Inr ?t' \<and> topology_ok ?t'")
proof -
  have old: "mapR (refresh_edge (edge_tags bs)) (nt_edges t) = Inr (map (refreshed bs) (nt_edges t))"
    using topology_okD(2) [OF t]
    by (intro mapR_Inr_iff)
      (auto simp: refresh_edge_def refreshed_def validate_edge_if edge_ok_def split: option.splits)
  have cr: "edge_ok (created b)" if "b \<in> set bs" for b
    using b that topology_okD(1) [OF t] by (auto simp: bindings_ok_def created_def edge_ok_def)
  have new: "mapR (new_edge (edge_tags bs)) (filter P bs) = Inr (map created (filter P bs))" for P
    using b cr
    by (intro mapR_Inr_iff)
      (auto simp: new_edge_def created_def validate_edge_if edge_tags_of bindings_ok_def)
  have seen: "filter (\<lambda>b. binding_key b \<notin> set (filter (\<lambda>k. k \<in> fst ` set (edge_tags bs))
        (map edge_key (nt_edges t)))) bs =
      filter (\<lambda>b. binding_key b \<notin> edge_key ` set (nt_edges t)) bs"
    by (rule filter_cong) (auto simp: edge_tags_dom)
  have nodes: "has_node ?t' i \<longleftrightarrow> has_node t i \<or> i \<in> hb_switch_node_id ` set bs" for i
    by (simp add: has_node_image add_switch_ids)
  have ne: "\<forall>n \<in> set (foldl add_switch (nt_nodes t) bs). tn_node_id n \<noteq> []"
  proof
    fix n assume "n \<in> set (foldl add_switch (nt_nodes t) bs)"
    then have "tn_node_id n \<in> tn_node_id ` set (nt_nodes t) \<union> hb_switch_node_id ` set bs"
      by (metis add_switch_ids imageI)
    then show "tn_node_id n \<noteq> []"
      using b topology_okD(1) [OF t] by (auto simp: bindings_ok_def has_node_image)
  qed
  have "topology_ok ?t'"
    unfolding topology_ok_def nodes
    using t b ne cr add_switch_distinct [of "nt_nodes t" bs]
    by (auto simp: topology_ok_def bindings_ok_def created_def)
  then show ?thesis
    unfolding augment_topology_with_bindings_def Let_def seen old new
    by (simp add: validate_topology_iff)
qed

section \<open>Properties\<close>

text \<open>C23: Host-port correlation returns one binding per pair of a host of the topology and a
  reporting switch, sorted by the pair; its confidence is one of the four documented values, and it
  is 0.95 with corroborated quality exactly when both LLDP and the MAC table support it; every
  binding carries evidence.\<close>

theorem correlation_sound:
  "let bs = correlate_host_ports t switches in
   sorted (map binding_key bs) \<and> distinct (map binding_key bs) \<and>
   (\<forall>b \<in> set bs. hb_host_node_id b \<in> tn_node_id ` set (host_nodes t) \<and>
      hb_switch_node_id b \<in> sw_node_id ` set switches \<and>
      hb_confidence b \<in> {75 / 100, 82 / 100, 90 / 100, 95 / 100} \<and>
      (hb_confidence b = 95 / 100 \<longleftrightarrow> hb_method b = M_LLDP_AND_MAC) \<and>
      (hb_quality b = CORROBORATED \<longleftrightarrow> hb_method b = M_LLDP_AND_MAC) \<and> hb_evidence b \<noteq> [])"
proof -
  let ?d = "foldl (switch_step (host_nodes t)) [] switches"
  have ok: "partial_ok (tn_node_id ` set (host_nodes t)) (sw_node_id ` set switches) ?d"
    by (rule partial_final_ok)
  have keys: "map binding_key (map binding_of ?d) = map fst ?d"
    by (simp add: comp_def binding_of_key)
  have "distinct (map binding_key (sort_key binding_key (map binding_of ?d)))"
  proof -
    have "distinct (map binding_key (map binding_of ?d))"
      using ok keys by (simp only: partial_ok_def)
    moreover have "mset (map binding_key (sort_key binding_key (map binding_of ?d))) =
        mset (map binding_key (map binding_of ?d))"
      by (simp only: mset_map mset_sort)
    ultimately show ?thesis using mset_eq_imp_distinct_iff by blast
  qed
  moreover have "\<forall>b \<in> set (map binding_of ?d).
      hb_host_node_id b \<in> tn_node_id ` set (host_nodes t) \<and>
      hb_switch_node_id b \<in> sw_node_id ` set switches \<and>
      hb_confidence b \<in> {75 / 100, 82 / 100, 90 / 100, 95 / 100} \<and>
      (hb_confidence b = 95 / 100 \<longleftrightarrow> hb_method b = M_LLDP_AND_MAC) \<and>
      (hb_quality b = CORROBORATED \<longleftrightarrow> hb_method b = M_LLDP_AND_MAC) \<and> hb_evidence b \<noteq> []"
    using ok binding_of_slot unfolding partial_ok_def by (simp only: set_map ball_simps) blast
  moreover have "sorted (map binding_key (sort_key binding_key (map binding_of ?d)))"
    by simp
  ultimately show ?thesis unfolding correlate_host_ports_def Let_def set_sort by blast
qed

text \<open>C24: Augmenting a valid topology with usable bindings gives a valid topology again. The nodes
  and edges it had stay, in order, only edges a binding speaks of get new tags; every binding has
  an edge, carrying its port, and no edge is there twice because of a binding.\<close>

theorem augment_valid:
  assumes "topology_ok t" "bindings_ok t bs"
  shows "\<exists>t' new. augment_topology_with_bindings t bs = Inr t' \<and> topology_ok t' \<and>
    nt_nodes t' = nt_nodes t @ new \<and>
    map edge_key (take (length (nt_edges t)) (nt_edges t')) = map edge_key (nt_edges t) \<and>
    (\<forall>b \<in> set bs. \<exists>e \<in> set (nt_edges t'). edge_key e = binding_key b \<and>
       map_of (te_tags e) ''switch_port'' = Some (hb_switch_port b)) \<and>
    (distinct (map edge_key (nt_edges t)) \<longrightarrow> distinct (map edge_key (nt_edges t')))"
proof -
  let ?new = "filter (\<lambda>b. binding_key b \<notin> edge_key ` set (nt_edges t)) bs"
  let ?edges = "map (refreshed bs) (nt_edges t) @ map created ?new"
  obtain new where new: "foldl add_switch (nt_nodes t) bs = nt_nodes t @ new"
    using add_switch_prefix by blast
  have dist: "distinct (map binding_key bs)" using assms(2) by (simp add: bindings_ok_def)
  have ck: "edge_key (created b) = binding_key b" for b
    by (simp add: created_def edge_key_def binding_key_def)
  have port: "(''switch_port'', hb_switch_port b) \<in> set (binding_tags b)" for b
    by (simp add: binding_tags_def)
  have "\<exists>e \<in> set ?edges. edge_key e = binding_key b \<and> map_of (te_tags e) ''switch_port'' = Some (hb_switch_port b)"
    if b: "b \<in> set bs" for b
  proof (cases "binding_key b \<in> edge_key ` set (nt_edges t)")
    case True
    then obtain e where e: "e \<in> set (nt_edges t)" "edge_key e = binding_key b" by auto
    have "map_of (te_tags (refreshed bs e)) ''switch_port'' = Some (hb_switch_port b)"
      using merge_tags_of [OF binding_tags_distinct port, where tags = "te_tags e"]
      by (simp add: refreshed_def e(2) edge_tags_of [OF dist b])
    with e show ?thesis by (intro bexI [of _ "refreshed bs e"]) simp_all
  next
    case False
    with b have "created b \<in> set ?edges" by simp
    moreover have "map_of (te_tags (created b)) ''switch_port'' = Some (hb_switch_port b)"
      by (simp add: created_def binding_tags_def)
    ultimately show ?thesis using ck by blast
  qed
  moreover have "distinct (map edge_key ?edges)" if "distinct (map edge_key (nt_edges t))"
    using that dist by (auto simp: comp_def ck distinct_map intro: inj_on_subset)
  ultimately show ?thesis
    using augment_result [OF assms] new by (intro exI conjI) (assumption | simp add: comp_def)+
qed

definition sample_graph :: network_topology where
  "sample_graph = \<lparr> nt_name = ''lab'', nt_nodes = [\<lparr> tn_node_id = ''h'', tn_label = None, tn_role = R_HOST,
     tn_agent_id = None, tn_address = None, tn_tags = [] \<rparr>], nt_edges = [] \<rparr>"

definition sample_binding :: host_port_binding where
  "sample_binding = \<lparr> hb_host_node_id = ''h'', hb_host_identity = ''h'', hb_switch_node_id = ''sw'',
     hb_switch_port = ''7'', hb_if_index = None, hb_method = M_LLDP, hb_confidence = 82 / 100,
     hb_quality = SINGLE_SOURCE, hb_evidence = [] \<rparr>"

theorem augment_valid_witness:
  "\<exists>t'. augment_topology_with_bindings sample_graph [sample_binding] = Inr t' \<and> topology_ok t' \<and>
     (\<exists>e \<in> set (nt_edges t'). edge_key e = (''h'', ''sw'') \<and> map_of (te_tags e) ''switch_port'' = Some ''7'')"
proof -
  have "topology_ok sample_graph" "bindings_ok sample_graph [sample_binding]"
    by (simp_all add: topology_ok_def bindings_ok_def sample_graph_def sample_binding_def has_node_def)
  from augment_valid [OF this] show ?thesis
    by (auto simp: binding_key_def sample_binding_def)
qed

definition sample_switch :: switch_telemetry where
  "sample_switch = \<lparr> sw_node_id = ''sw'', sw_lldp = [\<lparr> ln_local_port = ''7'', ln_chassis_id = None,
     ln_port_id = None, ln_sys_name = Some '' H '', ln_sys_desc = None, ln_mgmt_addr = None \<rparr>],
     sw_mac_table = [] \<rparr>"

theorem correlation_sound_witness:
  "\<exists>b \<in> set (correlate_host_ports sample_graph [sample_switch]).
     hb_host_node_id b = ''h'' \<and> hb_switch_node_id b = ''sw'' \<and> hb_evidence b \<noteq> []"
proof -
  have "correlate_host_ports sample_graph [sample_switch] \<noteq> []" by code_simp
  then obtain b where b: "b \<in> set (correlate_host_ports sample_graph [sample_switch])" by fastforce
  moreover have "hb_host_node_id b = ''h'' \<and> hb_switch_node_id b = ''sw'' \<and> hb_evidence b \<noteq> []"
    using correlation_sound [of sample_graph "[sample_switch]"] b
    by (auto simp: Let_def host_nodes_def sample_graph_def sample_switch_def)
  ultimately show ?thesis by blast
qed

end
