(* ===== verification/Monitoring.thy ===== *)
theory Monitoring
  imports Multivantage
begin

text \<open>
  Model of \<open>controller/monitoring.py\<close>: schedules, alert rules, alerts and incidents, and the
  pure decisions of the monitoring pipeline. Ids that the code draws from \<open>uuid4\<close> are
  arguments of the constructors. The life of an incident is the step relation
  \<open>incident_step\<close>, with one rule per way the controller changes an incident.
\<close>

section \<open>Data\<close>

datatype alert_state = AL_FIRING | AL_RESOLVED

datatype incident_state = INC_OPEN | INC_ACKNOWLEDGED | INC_RESOLVED

record schedule_entry =
  sc_schedule_id :: string
  sc_service_id :: string
  sc_interval_seconds :: rat
  sc_enabled :: bool
  sc_count :: int
  sc_probe_type :: "probe_type option"
  sc_source_node_id :: "string option"
  sc_topology :: "string option"
  sc_created_at :: rat
  sc_last_run_at :: "rat option"
  sc_next_run_at :: "rat option"
  sc_last_error :: "string option"
  sc_consecutive_failures :: nat

record alert_rule =
  ru_rule_id :: string
  ru_name :: string
  ru_service_id :: "string option"
  ru_fire_on_localizations :: "fault_localization list"
  ru_min_confidence :: rat
  ru_severity :: severity
  ru_enabled :: bool

record alert =
  al_alert_id :: string
  al_rule_id :: string
  al_service_id :: "string option"
  al_target :: string
  al_localization :: fault_localization
  al_status :: diagnostic_status
  al_confidence :: rat
  al_severity :: severity
  al_diagnosis_id :: string
  al_message :: string
  al_regression :: bool
  al_state :: alert_state
  al_created_at :: rat
  al_updated_at :: rat
  al_resolved_at :: "rat option"

record incident =
  in_incident_id :: string
  in_service_id :: "string option"
  in_target :: string
  in_state :: incident_state
  in_severity :: severity
  in_summary :: string
  in_alert_ids :: "string list"
  in_opened_at :: rat
  in_updated_at :: rat
  in_resolved_at :: "rat option"

definition validate_schedule :: "schedule_entry \<Rightarrow> schedule_entry result" where
  "validate_schedule s =
     bindR (guardR (sc_service_id s \<noteq> [] \<and> 0 < sc_interval_seconds s \<and> 1 \<le> sc_count s \<and> sc_count s \<le> 20)
       ValidationError) (\<lambda>_. Inr s)"

definition validate_rule :: "alert_rule \<Rightarrow> alert_rule result" where
  "validate_rule r = bindR (guardR (0 \<le> ru_min_confidence r \<and> ru_min_confidence r \<le> 1) ValidationError) (\<lambda>_. Inr r)"

section \<open>Decisions\<close>

definition UNHEALTHY_LOCALIZATIONS :: "fault_localization list" where
  "UNHEALTHY_LOCALIZATIONS = [SOURCE_SIDE, VANTAGE_ISOLATED, TARGET_SIDE, PATH_SHARED, INCONCLUSIVE]"

definition default_alert_rule :: "string \<Rightarrow> string option \<Rightarrow> severity \<Rightarrow> alert_rule" where
  "default_alert_rule rule_id service_id severity =
     \<lparr> ru_rule_id = rule_id, ru_name = ''Any unhealthy localization'', ru_service_id = service_id,
       ru_fire_on_localizations = UNHEALTHY_LOCALIZATIONS, ru_min_confidence = 1 / 2,
       ru_severity = severity, ru_enabled = True \<rparr>"

definition is_healthy :: "multi_vantage_report \<Rightarrow> bool" where
  "is_healthy report = (mv_localization report = LOC_HEALTHY)"

definition rule_matches :: "alert_rule \<Rightarrow> multi_vantage_report \<Rightarrow> bool" where
  "rule_matches rule report =
     (if \<not> ru_enabled rule \<or> is_healthy report then False
      else if ru_service_id rule \<noteq> None \<and> ru_service_id rule \<noteq> mv_service_id report then False
      else if mv_confidence report < ru_min_confidence rule then False
      else if ru_fire_on_localizations rule \<noteq> [] \<and>
              mv_localization report \<notin> set (ru_fire_on_localizations rule) then False
      else True)"

definition matching_rules :: "alert_rule list \<Rightarrow> multi_vantage_report \<Rightarrow> alert_rule list" where
  "matching_rules rules report = filter (\<lambda>rule. rule_matches rule report) rules"

fun max_severity :: "severity list \<Rightarrow> severity" where
  "max_severity [] = INFO"
| "max_severity (s # ss) = foldl (\<lambda>m x. if m < x then x else m) s ss"

definition is_due :: "schedule_entry \<Rightarrow> rat \<Rightarrow> bool" where
  "is_due schedule now =
     (if \<not> sc_enabled schedule then False
      else (case sc_next_run_at schedule of None \<Rightarrow> True | Some t \<Rightarrow> t \<le> now))"

definition advance_schedule :: "schedule_entry \<Rightarrow> rat \<Rightarrow> string option \<Rightarrow> schedule_entry" where
  "advance_schedule schedule now err =
     schedule \<lparr> sc_last_run_at := Some now, sc_next_run_at := Some (now + sc_interval_seconds schedule),
       sc_last_error := err,
       sc_consecutive_failures :=
         (if some_text err then sc_consecutive_failures schedule + 1 else 0) \<rparr>"

definition build_alert ::
  "string \<Rightarrow> alert_rule \<Rightarrow> multi_vantage_report \<Rightarrow> rat \<Rightarrow> bool \<Rightarrow> alert" where
  "build_alert alert_id rule report now regression =
     (let message = ''['' @ ru_name rule @ ''] '' @ mv_verdict report
      in \<lparr> al_alert_id = alert_id, al_rule_id = ru_rule_id rule, al_service_id = mv_service_id report,
           al_target = mv_target report, al_localization = mv_localization report,
           al_status = mv_status report, al_confidence = mv_confidence report,
           al_severity = ru_severity rule, al_diagnosis_id = mv_diagnosis_id report,
           al_message = (if regression then message @ '' (regression vs baseline)'' else message),
           al_regression = regression, al_state = AL_FIRING, al_created_at = now,
           al_updated_at = now, al_resolved_at = None \<rparr>)"

section \<open>Changes of an incident\<close>

definition active :: "incident \<Rightarrow> bool" where
  "active i = (in_state i \<in> {INC_OPEN, INC_ACKNOWLEDGED})"

definition acknowledge :: "rat \<Rightarrow> incident \<Rightarrow> incident" where
  "acknowledge now i = i \<lparr> in_state := INC_ACKNOWLEDGED, in_updated_at := now \<rparr>"

definition close_incident :: "rat \<Rightarrow> incident \<Rightarrow> incident" where
  "close_incident now i = i \<lparr> in_state := INC_RESOLVED, in_resolved_at := Some now, in_updated_at := now \<rparr>"

definition open_incident :: "string \<Rightarrow> alert \<Rightarrow> multi_vantage_report \<Rightarrow> rat \<Rightarrow> incident" where
  "open_incident incident_id a report now =
     \<lparr> in_incident_id = incident_id, in_service_id = al_service_id a, in_target = mv_target report,
       in_state = INC_OPEN, in_severity = al_severity a, in_summary = mv_verdict report,
       in_alert_ids = [al_alert_id a], in_opened_at = now, in_updated_at = now,
       in_resolved_at = None \<rparr>"

definition absorb_alert :: "alert \<Rightarrow> multi_vantage_report \<Rightarrow> rat \<Rightarrow> incident \<Rightarrow> incident" where
  "absorb_alert a report now i =
     i \<lparr> in_alert_ids := (if al_alert_id a \<in> set (in_alert_ids i) then in_alert_ids i
           else in_alert_ids i @ [al_alert_id a]),
         in_severity := max_severity [in_severity i, al_severity a],
         in_summary := mv_verdict report, in_updated_at := now \<rparr>"

definition refire_alert :: "string \<Rightarrow> rat \<Rightarrow> bool \<Rightarrow> alert \<Rightarrow> alert" where
  "refire_alert diagnosis_id now regression a =
     a \<lparr> al_diagnosis_id := diagnosis_id, al_updated_at := now,
         al_regression := al_regression a \<or> regression \<rparr>"

definition close_alert :: "rat \<Rightarrow> alert \<Rightarrow> alert" where
  "close_alert now a = a \<lparr> al_state := AL_RESOLVED, al_resolved_at := Some now, al_updated_at := now \<rparr>"

inductive incident_step :: "incident \<Rightarrow> incident \<Rightarrow> bool" where
  step_ack: "active i \<Longrightarrow> incident_step i (acknowledge now i)"
| step_absorb: "active i \<Longrightarrow> al_service_id a = in_service_id i \<Longrightarrow> incident_step i (absorb_alert a report now i)"
| step_close: "active i \<Longrightarrow> incident_step i (close_incident now i)"

inductive_cases incident_stepE: "incident_step i j"

abbreviation incident_steps :: "incident \<Rightarrow> incident \<Rightarrow> bool" where
  "incident_steps \<equiv> incident_step\<^sup>*\<^sup>*"

section \<open>Lemmas\<close>

lemma max_severity_Max: "ss \<noteq> [] \<Longrightarrow> max_severity ss = Max (set ss)"
proof (cases ss)
  case (Cons s xs)
  have "foldl (\<lambda>m x. if m < x then x else m) m xs = Max (insert m (set xs))" for m
  proof (induction xs arbitrary: m)
    case (Cons x xs)
    have "(if m < x then x else m) = max m x" by (auto simp: max_def)
    then show ?case using Cons [of "max m x"]
      by (cases "xs = []") (simp_all add: Max_insert max.assoc)
  qed simp
  with Cons show ?thesis by simp
qed simp

lemma max_severity_ge: "s \<in> set ss \<Longrightarrow> s \<le> max_severity ss"
  by (cases ss) (simp_all add: max_severity_Max del: max_severity.simps)

lemma rule_matches_iff:
  "rule_matches rule report \<longleftrightarrow> ru_enabled rule \<and> \<not> is_healthy report \<and>
     (ru_service_id rule = None \<or> ru_service_id rule = mv_service_id report) \<and>
     ru_min_confidence rule \<le> mv_confidence report \<and>
     (ru_fire_on_localizations rule = [] \<or> mv_localization report \<in> set (ru_fire_on_localizations rule))"
  by (auto simp: rule_matches_def)

lemma incident_changes [simp]:
  "in_incident_id (acknowledge now i) = in_incident_id i" "in_service_id (acknowledge now i) = in_service_id i"
  "in_incident_id (close_incident now i) = in_incident_id i" "in_service_id (close_incident now i) = in_service_id i"
  "in_incident_id (absorb_alert a report now i) = in_incident_id i"
  "in_service_id (absorb_alert a report now i) = in_service_id i"
  "in_opened_at (acknowledge now i) = in_opened_at i" "in_opened_at (close_incident now i) = in_opened_at i"
  "in_opened_at (absorb_alert a report now i) = in_opened_at i"
  "in_state (absorb_alert a report now i) = in_state i"
  "in_state (acknowledge now i) = INC_ACKNOWLEDGED" "in_state (close_incident now i) = INC_RESOLVED"
  "active (acknowledge now i)" "\<not> active (close_incident now i)"
  "active (absorb_alert a report now i) = active i"
  by (simp_all add: acknowledge_def close_incident_def absorb_alert_def active_def)

lemma open_incident_simps [simp]:
  "in_incident_id (open_incident k a report now) = k"
  "in_service_id (open_incident k a report now) = al_service_id a"
  "in_opened_at (open_incident k a report now) = now"
  "in_severity (open_incident k a report now) = al_severity a"
  "in_alert_ids (open_incident k a report now) = [al_alert_id a]"
  "active (open_incident k a report now)"
  by (simp_all add: open_incident_def active_def)

lemma alert_changes [simp]:
  "al_alert_id (refire_alert d now r a) = al_alert_id a" "al_alert_id (close_alert now a) = al_alert_id a"
  "al_rule_id (refire_alert d now r a) = al_rule_id a" "al_rule_id (close_alert now a) = al_rule_id a"
  "al_service_id (refire_alert d now r a) = al_service_id a" "al_service_id (close_alert now a) = al_service_id a"
  "al_state (refire_alert d now r a) = al_state a" "al_state (close_alert now a) = AL_RESOLVED"
  "al_created_at (refire_alert d now r a) = al_created_at a" "al_created_at (close_alert now a) = al_created_at a"
  "al_diagnosis_id (refire_alert d now r a) = d" "al_severity (refire_alert d now r a) = al_severity a"
  "al_regression (refire_alert d now r a) = (al_regression a \<or> r)"
  by (simp_all add: refire_alert_def close_alert_def)

lemma build_alert_simps [simp]:
  "al_alert_id (build_alert k rule report now r) = k"
  "al_rule_id (build_alert k rule report now r) = ru_rule_id rule"
  "al_service_id (build_alert k rule report now r) = mv_service_id report"
  "al_state (build_alert k rule report now r) = AL_FIRING"
  "al_created_at (build_alert k rule report now r) = now"
  "al_diagnosis_id (build_alert k rule report now r) = mv_diagnosis_id report"
  "al_severity (build_alert k rule report now r) = ru_severity rule"
  "al_regression (build_alert k rule report now r) = r"
  by (simp_all add: build_alert_def Let_def)

lemma active_iff: "active i \<longleftrightarrow> in_state i \<noteq> INC_RESOLVED"
  by (cases "in_state i") (simp_all add: active_def)

lemma incident_step_keeps:
  "incident_step i j \<Longrightarrow> in_incident_id j = in_incident_id i \<and> in_service_id j = in_service_id i \<and>
     in_opened_at j = in_opened_at i \<and> in_target j = in_target i \<and> in_severity i \<le> in_severity j \<and>
     set (in_alert_ids i) \<subseteq> set (in_alert_ids j) \<and> active i"
  by (erule incident_stepE)
    (auto simp: acknowledge_def close_incident_def absorb_alert_def intro: max_severity_ge simp del: max_severity.simps)

lemma incident_steps_keep:
  "incident_steps i j \<Longrightarrow> in_incident_id j = in_incident_id i \<and> in_service_id j = in_service_id i \<and>
     in_opened_at j = in_opened_at i \<and> in_target j = in_target i \<and> in_severity i \<le> in_severity j \<and>
     set (in_alert_ids i) \<subseteq> set (in_alert_ids j)"
  by (induction rule: rtranclp_induct) (auto dest!: incident_step_keeps intro: order_trans)

lemma resolved_terminal: "incident_steps i j \<Longrightarrow> \<not> active i \<Longrightarrow> j = i"
  by (erule converse_rtranclpE) (auto dest: incident_step_keeps)

section \<open>Properties\<close>

text \<open>A schedule that ran is not due again before its interval has passed, and it is due from
  then on while it stays enabled; a failure is counted, a success clears the count; nothing else of
  the schedule changes.\<close>

theorem advance_schedule_due:
  assumes "0 < sc_interval_seconds s"
  shows "(let s' = advance_schedule s now err in
    (is_due s' later \<longleftrightarrow> sc_enabled s \<and> now + sc_interval_seconds s \<le> later) \<and> \<not> is_due s' now \<and>
    sc_consecutive_failures s' = (if some_text err then sc_consecutive_failures s + 1 else 0) \<and>
    sc_schedule_id s' = sc_schedule_id s \<and> sc_service_id s' = sc_service_id s \<and>
    sc_interval_seconds s' = sc_interval_seconds s \<and> sc_enabled s' = sc_enabled s)"
  using assms by (simp add: advance_schedule_def is_due_def Let_def)

text \<open>Witness.\<close>

lemma advance_schedule_due_witness:
  "(let s = \<lparr> sc_schedule_id = ''s'', sc_service_id = ''web'', sc_interval_seconds = 60, sc_enabled = True,
       sc_count = 3, sc_probe_type = None, sc_source_node_id = None, sc_topology = None,
       sc_created_at = 0, sc_last_run_at = None, sc_next_run_at = None, sc_last_error = None,
       sc_consecutive_failures = 2 \<rparr>;
       s' = advance_schedule s 100 (Some ''ValueError: x'')
   in is_due s 100 \<and> \<not> is_due s' 100 \<and> is_due s' 160 \<and> sc_consecutive_failures s' = 3)"
  using advance_schedule_due [of "\<lparr> sc_schedule_id = ''s'', sc_service_id = ''web'', sc_interval_seconds = 60, sc_enabled = True,
       sc_count = 3, sc_probe_type = None, sc_source_node_id = None, sc_topology = None,
       sc_created_at = 0, sc_last_run_at = None, sc_next_run_at = None, sc_last_error = None,
       sc_consecutive_failures = 2 \<rparr>" 100 "Some ''ValueError: x''" 160]
  by (simp add: Let_def is_due_def some_text_def advance_schedule_def)

end
