(* ===== verification/Store.thy ===== *)
theory Store
  imports Correlation Monitoring
begin

text \<open>
  Model of \<open>controller/store.py\<close> and of the records of \<open>controller/models.py\<close>. A table is an
  association list from the primary key to the row, in rowid order: \<open>INSERT ... ON CONFLICT DO
  UPDATE\<close> appends a new row or changes the listed columns of the old one in place. A row holds the
  columns that some query reads and the payload; a payload that is written as JSON and validated
  when it is read back is the value itself. \<open>ORDER BY\<close> is a stable sort of the rows in rowid
  order. Times are arguments.
\<close>

section \<open>Tables\<close>

type_synonym ('k, 'r) table = "('k \<times> 'r) list"

text \<open>\<open>merge\<close> carries the columns of the \<open>DO UPDATE SET\<close> clause from the new row to the
  old one.\<close>

definition upsert :: "('r \<Rightarrow> 'r \<Rightarrow> 'r) \<Rightarrow> 'k \<Rightarrow> 'r \<Rightarrow> ('k, 'r) table \<Rightarrow> ('k, 'r) table" where
  "upsert merge k row t =
     (case map_of t k of None \<Rightarrow> t @ [(k, row)] | Some old \<Rightarrow> AList.update k (merge old row) t)"

definition delete_where :: "('k \<Rightarrow> 'r \<Rightarrow> bool) \<Rightarrow> ('k, 'r) table \<Rightarrow> nat \<times> ('k, 'r) table" where
  "delete_where P t = (length (filter (\<lambda>(k, r). P k r) t), filter (\<lambda>(k, r). \<not> P k r) t)"

definition rows :: "('k, 'r) table \<Rightarrow> 'r list" where
  "rows t = map snd t"

definition hd_option :: "'r list \<Rightarrow> 'r option" where
  "hd_option rs = (case rs of [] \<Rightarrow> None | r # _ \<Rightarrow> Some r)"

definition by_key :: "('k :: linorder, 'r) table \<Rightarrow> 'r list" where
  "by_key t = map snd (sort_key fst t)"

lemma map_of_append_new: "map_of (t @ [(k, r)]) k' = (case map_of t k' of None \<Rightarrow> if k' = k then Some r else None | Some x \<Rightarrow> Some x)"
  by (simp add: map_add_def split: option.splits)

lemma map_of_upsert:
  "map_of (upsert merge k row t) k' =
     (if k' = k then Some (case map_of t k of None \<Rightarrow> row | Some old \<Rightarrow> merge old row) else map_of t k')"
  by (auto simp: upsert_def map_add_def update_conv' split: option.splits)

lemma distinct_upsert: "distinct (map fst t) \<Longrightarrow> distinct (map fst (upsert merge k row t))"
  by (auto simp: upsert_def distinct_update map_of_eq_None_iff split: option.splits)

lemma map_of_delete_where:
  "distinct (map fst t) \<Longrightarrow>
     map_of (snd (delete_where P t)) k = (case map_of t k of None \<Rightarrow> None | Some r \<Rightarrow> if P k r then None else Some r)"
proof (induction t)
  case (Cons x t)
  then have "fst x \<notin> dom (map_of t)" by (simp add: dom_map_of_conv_image_fst)
  with Cons show ?case
    by (cases x) (auto simp: delete_where_def map_of_eq_None_iff split: option.splits)
qed (simp add: delete_where_def)

lemma map_of_delete_key: "map_of (snd (delete_where (\<lambda>k' _. k' = k) t)) k' = (if k' = k then None else map_of t k')"
  by (induction t) (auto simp: delete_where_def)

lemma fst_delete_key: "0 < fst (delete_where (\<lambda>k' _. k' = k) t) \<longleftrightarrow> map_of t k \<noteq> None"
  by (induction t) (auto simp: delete_where_def)

lemma distinct_delete_where: "distinct (map fst t) \<Longrightarrow> distinct (map fst (snd (delete_where P t)))"
  by (simp add: delete_where_def distinct_map_filter)

lemma set_upsert:
  "distinct (map fst t) \<Longrightarrow> (k', r) \<in> set (upsert merge k row t) \<longleftrightarrow> map_of (upsert merge k row t) k' = Some r"
  by (simp add: distinct_upsert)

section \<open>The interface of a keyed table\<close>

text \<open>What the callers of the store rely on: what was saved under a key is read back, and saving or
  deleting one key does not touch the others.\<close>

locale kv_store =
  fixes get :: "'k \<Rightarrow> 's \<Rightarrow> 'v option" and put :: "'v \<Rightarrow> 's \<Rightarrow> 's" and key :: "'v \<Rightarrow> 'k"
  assumes get_put: "get k (put v s) = (if k = key v then Some v else get k s)"
begin

lemma get_same [simp]: "get (key v) (put v s) = Some v"
  by (simp add: get_put)

lemma get_other: "k \<noteq> key v \<Longrightarrow> get k (put v s) = get k s"
  by (simp add: get_put)

lemma get_put_all:
  "get k (foldl (\<lambda>s v. put v s) s vs) =
     (case find (\<lambda>v. key v = k) (rev vs) of Some v \<Rightarrow> Some v | None \<Rightarrow> get k s)"
  by (induction vs rule: rev_induct) (auto simp: get_put)

lemma get_put_all_distinct:
  "distinct (map key vs) \<Longrightarrow> v \<in> set vs \<Longrightarrow> get (key v) (foldl (\<lambda>s v. put v s) s vs) = Some v"
  by (induction vs rule: rev_induct) (auto simp: get_put image_iff)

lemma get_put_all_other:
  "k \<notin> key ` set vs \<Longrightarrow> get k (foldl (\<lambda>s v. put v s) s vs) = get k s"
  by (induction vs rule: rev_induct) (auto simp: get_put)

end

locale kv_table = kv_store +
  fixes del :: "'k \<Rightarrow> 's \<Rightarrow> bool \<times> 's"
  assumes get_del: "get k (snd (del k' s)) = (if k = k' then None else get k s)"
    and del_found: "fst (del k s) \<longleftrightarrow> get k s \<noteq> None"
begin

lemma del_twice: "\<not> fst (del k (snd (del k s)))"
  by (simp add: del_found get_del)

lemma del_put: "fst (del (key v) (put v s)) \<and> get k (snd (del (key v) (put v s))) = (if k = key v then None else get k s)"
  by (simp add: del_found get_del get_put)

end

section \<open>Records\<close>

record registered_agent =
  ra_agent_id :: string
  ra_url :: string
  ra_topology_tags :: "(string \<times> string) list"
  ra_enabled :: bool
  ra_last_seen_at :: "rat option"

record fanout_job_request =
  fr_agent_ids :: "string list"
  fr_probe :: probe_request

definition validate_fanout_request :: "fanout_job_request \<Rightarrow> fanout_job_request result" where
  "validate_fanout_request r =
     bindR (guardR (1 \<le> length (fr_agent_ids r) \<and> length (fr_agent_ids r) \<le> 32) ValidationError) (\<lambda>_. Inr r)"

record fanout_job =
  fj_job_id :: string
  fj_created_at :: rat
  fj_completed_at :: "rat option"
  fj_request :: fanout_job_request
  fj_status :: string
  fj_observations :: "(string \<times> agent_observation list) list"
  fj_errors :: "(string \<times> string) list"

text \<open>The rows of the tables whose queries read more than the key and the payload.\<close>

record diagnosis_row =
  dg_created_at :: rat
  dg_payload :: multi_vantage_report

record alert_row =
  ar_service_id :: "string option"
  ar_rule_id :: string
  ar_state :: alert_state
  ar_created_at :: rat
  ar_payload :: alert

record incident_row =
  ir_service_id :: "string option"
  ir_state :: incident_state
  ir_opened_at :: rat
  ir_payload :: incident

record binding_row =
  br_topology :: string
  br_host_node_id :: string
  br_switch_node_id :: string
  br_payload :: host_port_binding

record store =
  st_agents :: "(string, registered_agent) table"
  st_jobs :: "(string, fanout_job) table"
  st_topologies :: "(string, network_topology) table"
  st_services :: "(string, service_endpoint) table"
  st_diagnoses :: "(string, diagnosis_row) table"
  st_schedules :: "(string, schedule_entry) table"
  st_rules :: "(string, alert_rule) table"
  st_alerts :: "(string, alert_row) table"
  st_incidents :: "(string, incident_row) table"
  st_bindings :: "(string, binding_row) table"

definition empty_store :: store where
  "empty_store = \<lparr> st_agents = [], st_jobs = [], st_topologies = [], st_services = [],
     st_diagnoses = [], st_schedules = [], st_rules = [], st_alerts = [], st_incidents = [],
     st_bindings = [] \<rparr>"

section \<open>Agents and jobs\<close>

definition upsert_agent :: "registered_agent \<Rightarrow> store \<Rightarrow> store" where
  "upsert_agent a st = st \<lparr> st_agents := upsert (\<lambda>_ new. new) (ra_agent_id a) a (st_agents st) \<rparr>"

definition get_agent :: "string \<Rightarrow> store \<Rightarrow> registered_agent option" where
  "get_agent i st = map_of (st_agents st) i"

definition list_agents :: "store \<Rightarrow> registered_agent list" where
  "list_agents st = by_key (st_agents st)"

definition mark_seen :: "rat \<Rightarrow> string \<Rightarrow> store \<Rightarrow> store" where
  "mark_seen now i st = st \<lparr> st_agents :=
     map (\<lambda>(k, a). (k, if k = i then a \<lparr> ra_last_seen_at := Some now \<rparr> else a)) (st_agents st) \<rparr>"

definition save_job :: "fanout_job \<Rightarrow> store \<Rightarrow> store" where
  "save_job j st = st \<lparr> st_jobs := upsert (\<lambda>_ new. new) (fj_job_id j) j (st_jobs st) \<rparr>"

definition get_job :: "string \<Rightarrow> store \<Rightarrow> fanout_job option" where
  "get_job i st = map_of (st_jobs st) i"

section \<open>Topologies and services\<close>

definition save_topology :: "network_topology \<Rightarrow> store \<Rightarrow> store" where
  "save_topology t st = st \<lparr> st_topologies := upsert (\<lambda>_ new. new) (nt_name t) t (st_topologies st) \<rparr>"

definition get_topology :: "string \<Rightarrow> store \<Rightarrow> network_topology option" where
  "get_topology i st = map_of (st_topologies st) i"

definition list_topology_names :: "store \<Rightarrow> string list" where
  "list_topology_names st = sort (map fst (st_topologies st))"

definition upsert_service :: "service_endpoint \<Rightarrow> store \<Rightarrow> store" where
  "upsert_service s st = st \<lparr> st_services := upsert (\<lambda>_ new. new) (se_service_id s) s (st_services st) \<rparr>"

definition get_service :: "string \<Rightarrow> store \<Rightarrow> service_endpoint option" where
  "get_service i st = map_of (st_services st) i"

definition list_services :: "store \<Rightarrow> service_endpoint list" where
  "list_services st = by_key (st_services st)"

definition delete_service :: "string \<Rightarrow> store \<Rightarrow> bool \<times> store" where
  "delete_service i st =
     (case delete_where (\<lambda>k _. k = i) (st_services st) of
        (n, t) \<Rightarrow> (0 < n, st \<lparr> st_services := t \<rparr>))"

section \<open>Diagnoses and schedules\<close>

definition save_diagnosis :: "rat \<Rightarrow> multi_vantage_report \<Rightarrow> store \<Rightarrow> store" where
  "save_diagnosis now r st = st \<lparr> st_diagnoses :=
     upsert (\<lambda>old new. old \<lparr> dg_payload := dg_payload new \<rparr>) (mv_diagnosis_id r)
       \<lparr> dg_created_at = now, dg_payload = r \<rparr> (st_diagnoses st) \<rparr>"

definition get_diagnosis :: "string \<Rightarrow> store \<Rightarrow> multi_vantage_report option" where
  "get_diagnosis i st = map_option dg_payload (map_of (st_diagnoses st) i)"

definition list_diagnoses :: "nat \<Rightarrow> store \<Rightarrow> multi_vantage_report list" where
  "list_diagnoses limit st =
     map dg_payload (take limit (sort_key (\<lambda>r. - dg_created_at r) (rows (st_diagnoses st))))"

definition upsert_schedule :: "schedule_entry \<Rightarrow> store \<Rightarrow> store" where
  "upsert_schedule s st =
     st \<lparr> st_schedules := upsert (\<lambda>_ new. new) (sc_schedule_id s) s (st_schedules st) \<rparr>"

definition get_schedule :: "string \<Rightarrow> store \<Rightarrow> schedule_entry option" where
  "get_schedule i st = map_of (st_schedules st) i"

definition list_schedules :: "string option \<Rightarrow> store \<Rightarrow> schedule_entry list" where
  "list_schedules service_id st =
     sort_key sc_service_id
       (filter (\<lambda>s. service_id = None \<or> service_id = Some (sc_service_id s)) (rows (st_schedules st)))"

definition delete_schedule :: "string \<Rightarrow> store \<Rightarrow> bool \<times> store" where
  "delete_schedule i st =
     (case delete_where (\<lambda>k _. k = i) (st_schedules st) of
        (n, t) \<Rightarrow> (0 < n, st \<lparr> st_schedules := t \<rparr>))"

section \<open>Alert rules, alerts and incidents\<close>

definition upsert_alert_rule :: "alert_rule \<Rightarrow> store \<Rightarrow> store" where
  "upsert_alert_rule r st = st \<lparr> st_rules := upsert (\<lambda>_ new. new) (ru_rule_id r) r (st_rules st) \<rparr>"

definition get_alert_rule :: "string \<Rightarrow> store \<Rightarrow> alert_rule option" where
  "get_alert_rule i st = map_of (st_rules st) i"

definition list_alert_rules :: "store \<Rightarrow> alert_rule list" where
  "list_alert_rules st = by_key (st_rules st)"

definition delete_alert_rule :: "string \<Rightarrow> store \<Rightarrow> bool \<times> store" where
  "delete_alert_rule i st =
     (case delete_where (\<lambda>k _. k = i) (st_rules st) of (n, t) \<Rightarrow> (0 < n, st \<lparr> st_rules := t \<rparr>))"

definition alert_row_of :: "alert \<Rightarrow> alert_row" where
  "alert_row_of a = \<lparr> ar_service_id = al_service_id a, ar_rule_id = al_rule_id a,
     ar_state = al_state a, ar_created_at = al_created_at a, ar_payload = a \<rparr>"

definition save_alert :: "alert \<Rightarrow> store \<Rightarrow> store" where
  "save_alert a st = st \<lparr> st_alerts :=
     upsert (\<lambda>old new. old \<lparr> ar_state := ar_state new, ar_payload := ar_payload new \<rparr>)
       (al_alert_id a) (alert_row_of a) (st_alerts st) \<rparr>"

definition get_alert :: "string \<Rightarrow> store \<Rightarrow> alert option" where
  "get_alert i st = map_option ar_payload (map_of (st_alerts st) i)"

definition list_alerts :: "string option \<Rightarrow> alert_state option \<Rightarrow> nat \<Rightarrow> store \<Rightarrow> alert list" where
  "list_alerts service_id state limit st =
     map ar_payload (take limit (sort_key (\<lambda>r. - ar_created_at r)
       (filter (\<lambda>r. (service_id = None \<or> ar_service_id r = service_id) \<and>
                    (state = None \<or> state = Some (ar_state r))) (rows (st_alerts st)))))"

definition find_firing_alert :: "string \<Rightarrow> string option \<Rightarrow> store \<Rightarrow> alert option" where
  "find_firing_alert rule_id service_id st =
     map_option ar_payload (hd_option (sort_key (\<lambda>r. - ar_created_at r)
       (filter (\<lambda>r. ar_rule_id r = rule_id \<and> ar_service_id r = service_id \<and> ar_state r = AL_FIRING)
         (rows (st_alerts st)))))"

definition incident_row_of :: "incident \<Rightarrow> incident_row" where
  "incident_row_of i = \<lparr> ir_service_id = in_service_id i, ir_state = in_state i,
     ir_opened_at = in_opened_at i, ir_payload = i \<rparr>"

definition save_incident :: "incident \<Rightarrow> store \<Rightarrow> store" where
  "save_incident i st = st \<lparr> st_incidents :=
     upsert (\<lambda>old new. old \<lparr> ir_state := ir_state new, ir_payload := ir_payload new \<rparr>)
       (in_incident_id i) (incident_row_of i) (st_incidents st) \<rparr>"

definition get_incident :: "string \<Rightarrow> store \<Rightarrow> incident option" where
  "get_incident i st = map_option ir_payload (map_of (st_incidents st) i)"

definition list_incidents :: "string option \<Rightarrow> incident_state option \<Rightarrow> nat \<Rightarrow> store \<Rightarrow> incident list" where
  "list_incidents service_id state limit st =
     map ir_payload (take limit (sort_key (\<lambda>r. - ir_opened_at r)
       (filter (\<lambda>r. (service_id = None \<or> ir_service_id r = service_id) \<and>
                    (state = None \<or> state = Some (ir_state r))) (rows (st_incidents st)))))"

definition find_active_incident :: "string option \<Rightarrow> store \<Rightarrow> incident option" where
  "find_active_incident service_id st =
     map_option ir_payload (hd_option (sort_key (\<lambda>r. - ir_opened_at r)
       (filter (\<lambda>r. ir_service_id r = service_id \<and> ir_state r \<in> {INC_OPEN, INC_ACKNOWLEDGED})
         (rows (st_incidents st)))))"

section \<open>Bindings\<close>

definition binding_id :: "string \<Rightarrow> host_port_binding \<Rightarrow> string" where
  "binding_id topology b = topology @ '':'' @ hb_host_node_id b @ '':'' @ hb_switch_node_id b"

definition insert_binding :: "string \<Rightarrow> (string, binding_row) table \<Rightarrow> host_port_binding \<Rightarrow> (string, binding_row) table" where
  "insert_binding topology t b =
     upsert (\<lambda>old new. old \<lparr> br_payload := br_payload new \<rparr>) (binding_id topology b)
       \<lparr> br_topology = topology, br_host_node_id = hb_host_node_id b,
         br_switch_node_id = hb_switch_node_id b, br_payload = b \<rparr> t"

definition replace_bindings :: "string \<Rightarrow> host_port_binding list \<Rightarrow> store \<Rightarrow> store" where
  "replace_bindings topology bindings st = st \<lparr> st_bindings :=
     foldl (insert_binding topology)
       (snd (delete_where (\<lambda>_ r. br_topology r = topology) (st_bindings st))) bindings \<rparr>"

definition list_bindings :: "string option \<Rightarrow> store \<Rightarrow> host_port_binding list" where
  "list_bindings topology st =
     map br_payload (sort_key (\<lambda>r. (br_host_node_id r, br_switch_node_id r))
       (filter (\<lambda>r. topology = None \<or> topology = Some (br_topology r)) (rows (st_bindings st))))"

definition delete_bindings :: "string \<Rightarrow> store \<Rightarrow> nat \<times> store" where
  "delete_bindings topology st =
     (case delete_where (\<lambda>_ r. br_topology r = topology) (st_bindings st) of
        (n, t) \<Rightarrow> (n, st \<lparr> st_bindings := t \<rparr>))"

section \<open>The tables provide the interface\<close>

lemmas store_get_defs = get_agent_def get_job_def get_topology_def get_service_def get_diagnosis_def
  get_schedule_def get_alert_rule_def get_alert_def get_incident_def

lemmas store_put_defs = upsert_agent_def save_job_def save_topology_def upsert_service_def
  save_diagnosis_def upsert_schedule_def upsert_alert_rule_def save_alert_def save_incident_def

interpretation agents: kv_store get_agent upsert_agent ra_agent_id
  by unfold_locales (auto simp: store_get_defs store_put_defs map_of_upsert split: option.splits)

interpretation jobs: kv_store get_job save_job fj_job_id
  by unfold_locales (auto simp: store_get_defs store_put_defs map_of_upsert split: option.splits)

interpretation topologies: kv_store get_topology save_topology nt_name
  by unfold_locales (auto simp: store_get_defs store_put_defs map_of_upsert split: option.splits)

lemma delete_by_key:
  "delete_service i st = (get_service i st \<noteq> None,
     st \<lparr> st_services := snd (delete_where (\<lambda>k _. k = i) (st_services st)) \<rparr>)"
  "delete_schedule i st = (get_schedule i st \<noteq> None,
     st \<lparr> st_schedules := snd (delete_where (\<lambda>k _. k = i) (st_schedules st)) \<rparr>)"
  "delete_alert_rule i st = (get_alert_rule i st \<noteq> None,
     st \<lparr> st_rules := snd (delete_where (\<lambda>k _. k = i) (st_rules st)) \<rparr>)"
  by (simp_all only: delete_service_def delete_schedule_def delete_alert_rule_def case_prod_beta
      fst_delete_key store_get_defs)

interpretation services: kv_table get_service upsert_service se_service_id delete_service
  by unfold_locales
    (simp_all add: delete_by_key get_service_def upsert_service_def map_of_upsert map_of_delete_key split: option.splits)

interpretation schedules: kv_table get_schedule upsert_schedule sc_schedule_id delete_schedule
  by unfold_locales
    (simp_all add: delete_by_key get_schedule_def upsert_schedule_def map_of_upsert map_of_delete_key split: option.splits)

interpretation rules: kv_table get_alert_rule upsert_alert_rule ru_rule_id delete_alert_rule
  by unfold_locales
    (simp_all add: delete_by_key get_alert_rule_def upsert_alert_rule_def map_of_upsert map_of_delete_key split: option.splits)

interpretation diagnoses: kv_store get_diagnosis "save_diagnosis now" mv_diagnosis_id for now
  by unfold_locales (auto simp: get_diagnosis_def save_diagnosis_def map_of_upsert split: option.splits)

interpretation alerts: kv_store get_alert save_alert al_alert_id
  by unfold_locales (auto simp: get_alert_def save_alert_def alert_row_of_def map_of_upsert split: option.splits)

interpretation incidents: kv_store get_incident save_incident in_incident_id
  by unfold_locales (auto simp: get_incident_def save_incident_def incident_row_of_def map_of_upsert split: option.splits)

section \<open>Consistency of the tables\<close>

text \<open>The keys are unique, every row satisfies what its table promises, and the columns the queries
  read agree with the payload.\<close>

definition table_rows :: "('k \<Rightarrow> 'r \<Rightarrow> bool) \<Rightarrow> ('k, 'r) table \<Rightarrow> bool" where
  "table_rows P t = (distinct (map fst t) \<and> (\<forall>(k, r) \<in> set t. P k r))"

lemma table_rows_get: "table_rows P t \<Longrightarrow> map_of t k = Some r \<Longrightarrow> P k r"
  by (auto simp: table_rows_def dest!: map_of_SomeD)

lemma table_rows_in: "table_rows P t \<Longrightarrow> (k, r) \<in> set t \<longleftrightarrow> map_of t k = Some r"
  by (simp add: table_rows_def)

lemma table_rows_Nil [simp]: "table_rows P []"
  by (simp add: table_rows_def)

lemma table_rowsI: "distinct (map fst t) \<Longrightarrow> (\<And>k r. map_of t k = Some r \<Longrightarrow> P k r) \<Longrightarrow> table_rows P t"
  by (auto simp: table_rows_def)

lemma table_rows_upsert:
  assumes "table_rows P t" "map_of t k = None \<Longrightarrow> P k row"
    "\<And>old. map_of t k = Some old \<Longrightarrow> P k old \<Longrightarrow> P k (merge old row)"
  shows "table_rows P (upsert merge k row t)"
proof (rule table_rowsI)
  show "distinct (map fst (upsert merge k row t))"
    using assms(1) by (simp add: table_rows_def distinct_upsert)
  fix k' r assume "map_of (upsert merge k row t) k' = Some r"
  then show "P k' r"
    using assms table_rows_get [OF assms(1)] by (auto simp: map_of_upsert split: if_splits option.splits)
qed

lemma table_rows_delete: "table_rows P t \<Longrightarrow> table_rows P (snd (delete_where Q t))"
  by (auto simp: table_rows_def distinct_delete_where) (auto simp: delete_where_def)

definition alert_row_ok :: "string \<Rightarrow> alert_row \<Rightarrow> bool" where
  "alert_row_ok k r = (k = al_alert_id (ar_payload r) \<and> r = alert_row_of (ar_payload r))"

definition incident_row_ok :: "string \<Rightarrow> incident_row \<Rightarrow> bool" where
  "incident_row_ok k r = (k = in_incident_id (ir_payload r) \<and> r = incident_row_of (ir_payload r))"

definition binding_row_ok :: "string \<Rightarrow> binding_row \<Rightarrow> bool" where
  "binding_row_ok k r = (k = binding_id (br_topology r) (br_payload r))"

definition tables_ok :: "store \<Rightarrow> bool" where
  "tables_ok st =
     (table_rows (\<lambda>k a. k = ra_agent_id a) (st_agents st) \<and>
      table_rows (\<lambda>k j. k = fj_job_id j) (st_jobs st) \<and>
      table_rows (\<lambda>k t. k = nt_name t \<and> topology_ok t) (st_topologies st) \<and>
      table_rows (\<lambda>k s. k = se_service_id s) (st_services st) \<and>
      table_rows (\<lambda>k r. k = mv_diagnosis_id (dg_payload r)) (st_diagnoses st) \<and>
      table_rows (\<lambda>k s. k = sc_schedule_id s) (st_schedules st) \<and>
      table_rows (\<lambda>k r. k = ru_rule_id r) (st_rules st) \<and>
      table_rows alert_row_ok (st_alerts st) \<and>
      table_rows incident_row_ok (st_incidents st))"

lemma alert_row_of_simps [simp]:
  "ar_service_id (alert_row_of a) = al_service_id a" "ar_rule_id (alert_row_of a) = al_rule_id a"
  "ar_state (alert_row_of a) = al_state a" "ar_created_at (alert_row_of a) = al_created_at a"
  "ar_payload (alert_row_of a) = a"
  by (simp_all add: alert_row_of_def)

lemma incident_row_of_simps [simp]:
  "ir_service_id (incident_row_of i) = in_service_id i" "ir_state (incident_row_of i) = in_state i"
  "ir_opened_at (incident_row_of i) = in_opened_at i" "ir_payload (incident_row_of i) = i"
  by (simp_all add: incident_row_of_def)

lemma alert_rows:
  assumes "tables_ok st" "r \<in> set (rows (st_alerts st))"
  shows "r = alert_row_of (ar_payload r)" "get_alert (al_alert_id (ar_payload r)) st = Some (ar_payload r)"
proof -
  from assms obtain k where k: "map_of (st_alerts st) k = Some r"
    by (auto simp: rows_def tables_ok_def table_rows_def)
  then have "alert_row_ok k r" using assms(1) table_rows_get unfolding tables_ok_def by metis
  with k show "r = alert_row_of (ar_payload r)" "get_alert (al_alert_id (ar_payload r)) st = Some (ar_payload r)"
    by (auto simp: alert_row_ok_def get_alert_def)
qed

lemma incident_rows:
  assumes "tables_ok st" "r \<in> set (rows (st_incidents st))"
  shows "r = incident_row_of (ir_payload r)"
    "get_incident (in_incident_id (ir_payload r)) st = Some (ir_payload r)"
proof -
  from assms obtain k where k: "map_of (st_incidents st) k = Some r"
    by (auto simp: rows_def tables_ok_def table_rows_def)
  then have "incident_row_ok k r" using assms(1) table_rows_get unfolding tables_ok_def by metis
  with k show "r = incident_row_of (ir_payload r)"
      "get_incident (in_incident_id (ir_payload r)) st = Some (ir_payload r)"
    by (auto simp: incident_row_ok_def get_incident_def)
qed

lemma get_alert_row:
  assumes "tables_ok st" "get_alert k st = Some a"
  shows "al_alert_id a = k" "alert_row_of a \<in> set (rows (st_alerts st))"
proof -
  from assms(2) obtain r where r: "map_of (st_alerts st) k = Some r" "ar_payload r = a"
    by (auto simp: get_alert_def)
  then have "alert_row_ok k r" using assms(1) table_rows_get unfolding tables_ok_def by metis
  with r show "al_alert_id a = k" "alert_row_of a \<in> set (rows (st_alerts st))"
    by (auto simp: alert_row_ok_def rows_def intro: rev_image_eqI dest!: map_of_SomeD)
qed

lemma get_incident_row:
  assumes "tables_ok st" "get_incident k st = Some i"
  shows "in_incident_id i = k" "incident_row_of i \<in> set (rows (st_incidents st))"
proof -
  from assms(2) obtain r where r: "map_of (st_incidents st) k = Some r" "ir_payload r = i"
    by (auto simp: get_incident_def)
  then have "incident_row_ok k r" using assms(1) table_rows_get unfolding tables_ok_def by metis
  with r show "in_incident_id i = k" "incident_row_of i \<in> set (rows (st_incidents st))"
    by (auto simp: incident_row_ok_def rows_def intro: rev_image_eqI dest!: map_of_SomeD)
qed

lemma hd_option_None [simp]: "hd_option rs = None \<longleftrightarrow> rs = []"
  by (simp add: hd_option_def split: list.splits)

lemma hd_option_in: "hd_option rs = Some r \<Longrightarrow> r \<in> set rs"
  by (simp add: hd_option_def split: list.splits)

lemma find_firing_Some:
  assumes "tables_ok st" "find_firing_alert rid sid st = Some a"
  shows "get_alert (al_alert_id a) st = Some a \<and> al_rule_id a = rid \<and> al_service_id a = sid \<and> al_state a = AL_FIRING"
proof -
  from assms(2) obtain r where r: "r \<in> set (rows (st_alerts st))" "ar_payload r = a"
    "ar_rule_id r = rid" "ar_service_id r = sid" "ar_state r = AL_FIRING"
    by (auto simp: find_firing_alert_def dest!: hd_option_in)
  show ?thesis using alert_rows [OF assms(1) r(1)] r(2-)
    by (metis alert_row_of_simps)
qed

lemma find_firing_None:
  assumes "tables_ok st" "find_firing_alert rid sid st = None" "get_alert k st = Some a"
    "al_rule_id a = rid" "al_service_id a = sid"
  shows "al_state a \<noteq> AL_FIRING"
proof
  assume "al_state a = AL_FIRING"
  with get_alert_row(2) [OF assms(1,3)] assms(4,5) have
    "alert_row_of a \<in> set (filter (\<lambda>r. ar_rule_id r = rid \<and> ar_service_id r = sid \<and> ar_state r = AL_FIRING)
       (rows (st_alerts st)))" by simp
  moreover have "\<dots> = {}"
    using assms(2) by (simp add: find_firing_alert_def sort_key_Nil)
  ultimately show False by (metis empty_iff)
qed

lemma find_active_Some:
  assumes "tables_ok st" "find_active_incident sid st = Some i"
  shows "get_incident (in_incident_id i) st = Some i \<and> in_service_id i = sid \<and> active i"
proof -
  from assms(2) obtain r where r: "r \<in> set (rows (st_incidents st))" "ir_payload r = i"
    "ir_service_id r = sid" "ir_state r \<in> {INC_OPEN, INC_ACKNOWLEDGED}"
    by (auto simp: find_active_incident_def dest!: hd_option_in)
  show ?thesis using incident_rows [OF assms(1) r(1)] r(2-)
    unfolding active_def by (metis incident_row_of_simps)
qed

lemma find_active_None:
  assumes "tables_ok st" "find_active_incident sid st = None" "get_incident k st = Some i" "in_service_id i = sid"
  shows "\<not> active i"
proof
  assume "active i"
  with get_incident_row(2) [OF assms(1,3)] assms(4) have
    "incident_row_of i \<in> set (filter (\<lambda>r. ir_service_id r = sid \<and> ir_state r \<in> {INC_OPEN, INC_ACKNOWLEDGED})
       (rows (st_incidents st)))" by (simp add: active_def)
  moreover have "\<dots> = {}"
    using assms(2) by (simp add: find_active_incident_def sort_key_Nil)
  ultimately show False by (metis empty_iff)
qed

section \<open>Queries\<close>

lemma distinct_query:
  "distinct (map f xs) \<Longrightarrow> distinct (map f (take n (sort_key k (filter P xs))))"
proof -
  assume "distinct (map f xs)"
  then have "distinct (map f (filter P xs))" by (simp add: distinct_map_filter)
  moreover have "mset (map f (sort_key k (filter P xs))) = mset (map f (filter P xs))"
    by (simp only: mset_map mset_sort)
  ultimately have "distinct (map f (sort_key k (filter P xs)))"
    using mset_eq_imp_distinct_iff by blast
  then show ?thesis by (simp add: take_map [symmetric])
qed

lemma alert_keys: "tables_ok st \<Longrightarrow> map (\<lambda>r. al_alert_id (ar_payload r)) (rows (st_alerts st)) = map fst (st_alerts st)"
  by (auto simp: rows_def tables_ok_def table_rows_def alert_row_ok_def)

lemma incident_keys:
  "tables_ok st \<Longrightarrow> map (\<lambda>r. in_incident_id (ir_payload r)) (rows (st_incidents st)) = map fst (st_incidents st)"
  by (auto simp: rows_def tables_ok_def table_rows_def incident_row_ok_def)

lemma list_alerts_distinct: "tables_ok st \<Longrightarrow> distinct (map al_alert_id (list_alerts sid state n st))"
  unfolding list_alerts_def map_map comp_def
  by (rule distinct_query) (simp add: alert_keys, simp add: tables_ok_def table_rows_def)

lemma list_incidents_distinct: "tables_ok st \<Longrightarrow> distinct (map in_incident_id (list_incidents sid state n st))"
  unfolding list_incidents_def map_map comp_def
  by (rule distinct_query) (simp add: incident_keys, simp add: tables_ok_def table_rows_def)

lemma set_take_sort: "x \<in> set (take n (sort_key k (filter P xs))) \<Longrightarrow> x \<in> set xs \<and> P x"
  by (auto dest!: in_set_takeD)

lemma list_alerts_in:
  assumes "tables_ok st" "a \<in> set (list_alerts sid state n st)"
  shows "get_alert (al_alert_id a) st = Some a \<and> (sid = None \<or> al_service_id a = sid) \<and>
    (state = None \<or> state = Some (al_state a))"
proof -
  obtain r where r: "r \<in> set (rows (st_alerts st))" "a = ar_payload r"
    "sid = None \<or> ar_service_id r = sid" "state = None \<or> state = Some (ar_state r)"
    using assms(2) unfolding list_alerts_def by (auto dest!: set_take_sort)
  show ?thesis using alert_rows [OF assms(1) r(1)] r(2-) by (metis alert_row_of_simps(1,3))
qed

lemma list_incidents_in:
  assumes "tables_ok st" "i \<in> set (list_incidents sid state n st)"
  shows "get_incident (in_incident_id i) st = Some i \<and> (sid = None \<or> in_service_id i = sid) \<and>
    (state = None \<or> state = Some (in_state i))"
proof -
  obtain r where r: "r \<in> set (rows (st_incidents st))" "i = ir_payload r"
    "sid = None \<or> ir_service_id r = sid" "state = None \<or> state = Some (ir_state r)"
    using assms(2) unfolding list_incidents_def by (auto dest!: set_take_sort)
  show ?thesis using incident_rows [OF assms(1) r(1)] r(2-) by (metis incident_row_of_simps(1,2))
qed

text \<open>A query whose limit is not reached returns every row that matches.\<close>

lemma list_alerts_all:
  assumes "tables_ok st" "get_alert k st = Some a" "sid = None \<or> al_service_id a = sid"
    "state = None \<or> state = Some (al_state a)"
    "length (filter (\<lambda>r. (sid = None \<or> ar_service_id r = sid) \<and> (state = None \<or> state = Some (ar_state r)))
       (rows (st_alerts st))) \<le> n"
  shows "a \<in> set (list_alerts sid state n st)"
  using get_alert_row(2) [OF assms(1,2)] assms(3-5) unfolding list_alerts_def
  by (intro image_eqI [where x = "alert_row_of a", THEN set_mp [OF equalityD2 [OF set_map]]]) simp_all

lemma list_incidents_all:
  assumes "tables_ok st" "get_incident k st = Some i" "sid = None \<or> in_service_id i = sid"
    "state = None \<or> state = Some (in_state i)"
    "length (filter (\<lambda>r. (sid = None \<or> ir_service_id r = sid) \<and> (state = None \<or> state = Some (ir_state r)))
       (rows (st_incidents st))) \<le> n"
  shows "i \<in> set (list_incidents sid state n st)"
  using get_incident_row(2) [OF assms(1,2)] assms(3-5) unfolding list_incidents_def
  by (intro image_eqI [where x = "incident_row_of i", THEN set_mp [OF equalityD2 [OF set_map]]]) simp_all

end
