(* ===== verification/Service.thy ===== *)
theory Service
  imports Store History
begin

text \<open>
  Model of \<open>controller/service.py\<close> with the fan-out of \<open>controller/dispatch.py\<close>: the
  operations of the controller over its store and its history. An operation that can raise is an
  action (the state it leaves is part of the result, because every database call commits on its
  own); one that cannot is a function from a state to a value and a state.

  The world outside the code is the record \<open>env\<close>: the clock, \<open>uuid4\<close> and the ISO time of
  a report as sequences of readings, the answer of each agent to a probe, the order in which the
  futures of a fan-out complete, \<open>repr\<close> of a float and the text of a validation error.
\<close>

section \<open>State and environment\<close>

record env =
  ev_clock :: "nat \<Rightarrow> rat"
  ev_stamp :: "nat \<Rightarrow> string"
  ev_uuid :: "nat \<Rightarrow> string"
  ev_probe :: "nat \<Rightarrow> nat \<Rightarrow> registered_agent \<Rightarrow> probe_request \<Rightarrow> string + agent_observation list"
  ev_order :: "nat \<Rightarrow> nat \<Rightarrow> nat list"
  ev_repr :: "rat \<Rightarrow> string"
  ev_message :: "py_error \<Rightarrow> string"

record controller =
  ct_store :: store
  ct_history :: history
  ct_clock :: nat
  ct_uuids :: nat
  ct_calls :: nat

definition on_store :: "(store \<Rightarrow> store) \<Rightarrow> controller \<Rightarrow> controller" where
  "on_store f s = s \<lparr> ct_store := f (ct_store s) \<rparr>"

definition next_time :: "env \<Rightarrow> controller \<Rightarrow> rat \<times> controller" where
  "next_time env s = (ev_clock env (ct_clock s), s \<lparr> ct_clock := ct_clock s + 1 \<rparr>)"

definition next_uuid :: "env \<Rightarrow> controller \<Rightarrow> string \<times> controller" where
  "next_uuid env s = (ev_uuid env (ct_uuids s), s \<lparr> ct_uuids := ct_uuids s + 1 \<rparr>)"

text \<open>A function that cannot raise, as an action; a read of the store; a write to it.\<close>

definition pureA :: "(controller \<Rightarrow> 'a \<times> controller) \<Rightarrow> (controller, 'a) act" where
  "pureA f s = (case f s of (x, s') \<Rightarrow> (Inr x, s'))"

definition readA :: "(store \<Rightarrow> 'a) \<Rightarrow> (controller, 'a) act" where
  "readA f = getA (\<lambda>s. f (ct_store s))"

definition writeA :: "(store \<Rightarrow> store) \<Rightarrow> (controller, unit) act" where
  "writeA f = modifyA (on_store f)"

text \<open>The lookup that raises when the row is missing.\<close>

definition requireA :: "(store \<Rightarrow> 'a option) \<Rightarrow> py_error \<Rightarrow> (controller, 'a) act" where
  "requireA f e = bindA (readA f) (\<lambda>x. case x of None \<Rightarrow> failA e | Some v \<Rightarrow> returnA v)"

text \<open>\<open>time.time() if now is None else now\<close>.\<close>

definition time_or :: "env \<Rightarrow> rat option \<Rightarrow> controller \<Rightarrow> rat \<times> controller" where
  "time_or env now s = (case now of None \<Rightarrow> next_time env s | Some t \<Rightarrow> (t, s))"

section \<open>Fan-out\<close>

definition collect_future ::
  "(string \<times> agent_observation list) list \<times> (string \<times> string) list \<Rightarrow>
   string \<times> (string + agent_observation list) \<Rightarrow>
   (string \<times> agent_observation list) list \<times> (string \<times> string) list" where
  "collect_future acc future =
     (case (acc, future) of
        ((observations, errors), (agent_id, Inr obs)) \<Rightarrow> (AList.update agent_id obs observations, errors)
      | ((observations, errors), (agent_id, Inl msg)) \<Rightarrow> (observations, AList.update agent_id msg errors))"

definition futures ::
  "env \<Rightarrow> nat \<Rightarrow> registered_agent list \<Rightarrow> probe_request \<Rightarrow> (string \<times> (string + agent_observation list)) list" where
  "futures env call agents request =
     map (\<lambda>i. (ra_agent_id (agents ! i), ev_probe env call i (agents ! i) request))
       (filter (\<lambda>i. i < length agents) (ev_order env call (length agents)))"

text \<open>An executor needs at least one worker: \<open>ThreadPoolExecutor(max_workers=0)\<close> raises.\<close>

definition fanout ::
  "env \<Rightarrow> registered_agent list \<Rightarrow> probe_request \<Rightarrow>
   (controller, (string \<times> agent_observation list) list \<times> (string \<times> string) list) act" where
  "fanout env agents request s =
     (if agents = [] then (Inl ValueError, s)
      else (Inr (foldl collect_future ([], []) (futures env (ct_calls s) agents request)),
            s \<lparr> ct_calls := ct_calls s + 1 \<rparr>))"

section \<open>Agents and jobs\<close>

definition register_agent :: "string \<Rightarrow> string \<Rightarrow> (string \<times> string) list \<Rightarrow> (controller, registered_agent) act" where
  "register_agent agent_id url tags =
     (let agent = \<lparr> ra_agent_id = agent_id, ra_url = url, ra_topology_tags = tags, ra_enabled = True,
            ra_last_seen_at = None \<rparr>
      in bindA (liftA (guardR (agent_id \<noteq> []) ValidationError)) (\<lambda>_.
         bindA (writeA (upsert_agent agent)) (\<lambda>_. returnA agent)))"

text \<open>\<open>dict.fromkeys\<close>: the first occurrence of each.\<close>

fun dedup :: "string list \<Rightarrow> string list" where
  "dedup [] = []"
| "dedup (x # xs) = x # filter (\<lambda>y. y \<noteq> x) (dedup xs)"

definition enabled_agent :: "store \<Rightarrow> string \<Rightarrow> registered_agent result" where
  "enabled_agent st agent_id =
     (case get_agent agent_id st of
        None \<Rightarrow> Inl (UnknownAgentError (''unknown or disabled agent: '' @ agent_id))
      | Some agent \<Rightarrow>
          if \<not> ra_enabled agent then Inl (UnknownAgentError (''unknown or disabled agent: '' @ agent_id))
          else Inr agent)"

definition job_status :: "(string \<times> agent_observation list) list \<Rightarrow> (string \<times> string) list \<Rightarrow> string" where
  "job_status observations errors =
     (if errors = [] then ''completed'' else if observations \<noteq> [] then ''partial'' else ''failed'')"

definition mark_all :: "env \<Rightarrow> string list \<Rightarrow> (controller, unit list) act" where
  "mark_all env = mapA (\<lambda>agent_id. bindA (pureA (next_time env)) (\<lambda>now. writeA (mark_seen now agent_id)))"

definition dispatch_job :: "env \<Rightarrow> fanout_job_request \<Rightarrow> (controller, fanout_job) act" where
  "dispatch_job env request =
     bindA (getA (\<lambda>s. mapR (enabled_agent (ct_store s)) (dedup (fr_agent_ids request)))) (\<lambda>found.
     bindA (liftA found) (\<lambda>agents.
     bindA (pureA (next_uuid env)) (\<lambda>job_id.
     bindA (pureA (next_time env)) (\<lambda>created.
     let job = \<lparr> fj_job_id = job_id, fj_created_at = created, fj_completed_at = None,
                 fj_request = request, fj_status = ''running'', fj_observations = [], fj_errors = [] \<rparr>
     in bindA (writeA (save_job job)) (\<lambda>_.
     bindA (fanout env agents (fr_probe request)) (\<lambda>(observations, errors).
     bindA (mark_all env (map fst observations)) (\<lambda>_.
     bindA (pureA (next_time env)) (\<lambda>completed.
     let done' = job \<lparr> fj_observations := observations, fj_errors := errors,
                 fj_completed_at := Some completed, fj_status := job_status observations errors \<rparr>
     in bindA (writeA (save_job done')) (\<lambda>_. returnA done')))))))))"

section \<open>Topologies and services\<close>

definition import_topology :: "network_topology \<Rightarrow> (controller, network_topology) act" where
  "import_topology topology =
     bindA (liftA (validate_topology topology)) (\<lambda>t. bindA (writeA (save_topology t)) (\<lambda>_. returnA t))"

definition require_named_topology :: "string \<Rightarrow> (controller, network_topology) act" where
  "require_named_topology name =
     requireA (get_topology name) (UnknownTopologyError (''unknown topology: '' @ name))"

definition resolve_topology :: "string option \<Rightarrow> (controller, network_topology option) act" where
  "resolve_topology name =
     (case name of
        Some n \<Rightarrow> bindA (require_named_topology n) (\<lambda>t. returnA (Some t))
      | None \<Rightarrow> readA (\<lambda>st. case list_topology_names st of [n] \<Rightarrow> get_topology n st | _ \<Rightarrow> None))"

definition check_service_node :: "network_topology \<Rightarrow> service_endpoint \<Rightarrow> unit result" where
  "check_service_node topology service =
     (case se_node_id service of
        None \<Rightarrow> Inr ()
      | Some n \<Rightarrow> if has_node topology n then Inr ()
          else Inl (UnknownNodeError (''service '' @ se_service_id service @ '' references unknown node: '' @ n)))"

definition register_services ::
  "service_endpoint list \<Rightarrow> string option \<Rightarrow> (controller, service_endpoint list) act" where
  "register_services inventory topology_name =
     bindA (resolve_topology topology_name) (\<lambda>topology.
     bindA (liftA (case topology of None \<Rightarrow> Inr [] | Some t \<Rightarrow> mapR (check_service_node t) inventory)) (\<lambda>_.
     bindA (writeA (\<lambda>st. foldl (\<lambda>st s. upsert_service s st) st inventory)) (\<lambda>_. returnA inventory)))"

record agent_correlation =
  ac_topology :: string
  ac_agent_node_count :: nat
  ac_registered_count :: nat
  ac_nodes :: "correlation_node list"

definition correlate_node :: "store \<Rightarrow> topology_node \<Rightarrow> correlation_node" where
  "correlate_node st n =
     (let agent = (if some_text (tn_agent_id n) then get_agent (the (tn_agent_id n)) st else None)
      in \<lparr> cn_node_id = tn_node_id n, cn_agent_id = tn_agent_id n, cn_registered = (agent \<noteq> None),
           cn_enabled = (case agent of None \<Rightarrow> False | Some a \<Rightarrow> ra_enabled a),
           cn_last_seen_at = (case agent of None \<Rightarrow> None | Some a \<Rightarrow> ra_last_seen_at a) \<rparr>)"

definition correlate_agents :: "string \<Rightarrow> (controller, agent_correlation) act" where
  "correlate_agents topology_name =
     bindA (require_named_topology topology_name) (\<lambda>topology.
     bindA (readA (\<lambda>st. map (correlate_node st) (agent_nodes topology))) (\<lambda>nodes.
       returnA \<lparr> ac_topology = topology_name, ac_agent_node_count = length nodes,
                 ac_registered_count = length (filter cn_registered nodes), ac_nodes = nodes \<rparr>))"

section \<open>Diagnosis\<close>

record diagnosis_request =
  dq_service_id :: string
  dq_probe_type :: "probe_type option"
  dq_count :: int
  dq_source_node_id :: "string option"
  dq_topology :: "string option"

definition validate_diagnosis_request :: "diagnosis_request \<Rightarrow> diagnosis_request result" where
  "validate_diagnosis_request r =
     bindR (guardR (dq_service_id r \<noteq> [] \<and> 1 \<le> dq_count r \<and> dq_count r \<le> 20) ValidationError) (\<lambda>_. Inr r)"

definition contains_node :: "store \<Rightarrow> string option \<Rightarrow> string \<Rightarrow> bool" where
  "contains_node st node_id candidate =
     (case get_topology candidate st of None \<Rightarrow> False
      | Some t \<Rightarrow> some_text node_id \<and> has_node t (the node_id))"

definition topology_for_service :: "service_endpoint \<Rightarrow> string option \<Rightarrow> (controller, network_topology) act" where
  "topology_for_service service name =
     (case name of
        Some n \<Rightarrow> require_named_topology n
      | None \<Rightarrow>
          bindA (readA (\<lambda>st.
            case find (contains_node st (se_node_id service)) (list_topology_names st) of
              Some c \<Rightarrow> Inr (get_topology c st)
            | None \<Rightarrow> (case list_topology_names st of
                [n] \<Rightarrow> Inr (get_topology n st)
              | _ \<Rightarrow> Inl (UnknownTopologyError
                  ''no imported topology contains the service node; import a topology first''))))
          (\<lambda>r. bindA (liftA r) (\<lambda>t. case t of None \<Rightarrow> failA AttributeError | Some x \<Rightarrow> returnA x)))"

definition diagnosis_probe :: "service_endpoint \<Rightarrow> diagnosis_request \<Rightarrow> probe_request" where
  "diagnosis_probe service request =
     (let probe_type = (case dq_probe_type request of Some p \<Rightarrow> p
            | None \<Rightarrow> if se_protocol service = PROTO_TCP then TCP else ICMP)
      in \<lparr> pr_probe_type = probe_type, pr_target = Some (se_host service),
           pr_port = (if probe_type = TCP then Some (se_port service) else None),
           pr_count = dq_count request, pr_max_hops = 20, pr_timeout_seconds = 5,
           pr_source_interface = None \<rparr>)"

definition vantage_observation_of ::
  "service_endpoint \<Rightarrow> vantage_assignment \<Rightarrow> agent_observation \<Rightarrow> vantage_observation" where
  "vantage_observation_of service a obs =
     \<lparr> vo_agent_id = va_agent_id a, vo_node_id = Some (va_node_id a), vo_role = va_role a,
       vo_target = (if some_text (oc_target (ao_context obs)) then the (oc_target (ao_context obs))
         else se_host service),
       vo_probe_type = oc_probe_type (ao_context obs), vo_status = dr_status (ao_result obs),
       vo_quality = oc_evidence_quality (ao_context obs), vo_confidence = oc_confidence (ao_context obs),
       vo_summary = dr_summary (ao_result obs), vo_evidence = dr_evidence (ao_result obs) \<rparr>"

definition vantage_observations ::
  "service_endpoint \<Rightarrow> vantage_plan \<Rightarrow> (string \<times> agent_observation list) list \<Rightarrow> vantage_observation list" where
  "vantage_observations service plan observations =
     concat (map (\<lambda>a. map (vantage_observation_of service a)
       (case map_of observations (va_agent_id a) of None \<Rightarrow> [] | Some obs \<Rightarrow> obs)) (vp_assignments plan))"

definition plan_agents :: "vantage_plan \<Rightarrow> store \<Rightarrow> registered_agent list" where
  "plan_agents plan st = List.map_filter (\<lambda>a. get_agent (va_agent_id a) st) (vp_assignments plan)"

definition save_report :: "env \<Rightarrow> multi_vantage_report \<Rightarrow> (controller, multi_vantage_report) act" where
  "save_report env report =
     bindA (pureA (next_time env)) (\<lambda>now. bindA (writeA (save_diagnosis now report)) (\<lambda>_. returnA report))"

definition next_stamp :: "env \<Rightarrow> controller \<Rightarrow> string \<times> controller" where
  "next_stamp env s = (ev_stamp env (ct_clock s), s \<lparr> ct_clock := ct_clock s + 1 \<rparr>)"

definition localize ::
  "env \<Rightarrow> service_endpoint \<Rightarrow> network_topology \<Rightarrow> vantage_observation list \<Rightarrow> (string \<times> string) list \<Rightarrow>
   (controller, multi_vantage_report) act" where
  "localize env service topology observations errors =
     bindA (pureA (next_uuid env)) (\<lambda>diag_id.
     bindA (pureA (next_stamp env)) (\<lambda>stamp.
       save_report env (localize_fault diag_id stamp observations (se_host service)
         (Some (se_service_id service)) (Some (nt_name topology)) errors)))"

definition run_plan ::
  "env \<Rightarrow> diagnosis_request \<Rightarrow> service_endpoint \<Rightarrow> network_topology \<Rightarrow> vantage_plan \<Rightarrow>
   (controller, multi_vantage_report) act" where
  "run_plan env request service topology plan =
     bindA (liftA (validate_probe_request (diagnosis_probe service request))) (\<lambda>probe.
     bindA (readA (plan_agents plan)) (\<lambda>agents.
     bindA (fanout env agents probe) (\<lambda>(observations, errors).
     bindA (liftA (mapR validate_vantage_observation (vantage_observations service plan observations))) (\<lambda>vos.
       localize env service topology vos errors))))"

definition diagnose_service :: "env \<Rightarrow> diagnosis_request \<Rightarrow> (controller, multi_vantage_report) act" where
  "diagnose_service env request =
     bindA (requireA (get_service (dq_service_id request))
       (UnknownServiceError (''unknown service: '' @ dq_service_id request))) (\<lambda>service.
     bindA (topology_for_service service (dq_topology request)) (\<lambda>topology.
     bindA (correlate_agents (nt_name topology)) (\<lambda>correlation.
     let plan = select_vantages topology service (ac_nodes correlation) (dq_source_node_id request)
     in if vp_assignments plan = [] then
          failA (NoVantageAgentsError (''no registered agents available in topology '' @ [CHR 0x27] @
            nt_name topology @ [CHR 0x27] @ '' to diagnose '' @ se_service_id service))
        else run_plan env request service topology plan)))"

definition require_diagnosis :: "string \<Rightarrow> (controller, multi_vantage_report) act" where
  "require_diagnosis i = requireA (get_diagnosis i) (UnknownDiagnosisError (''unknown diagnosis: '' @ i))"

section \<open>Schedules and rules\<close>

definition create_schedule :: "env \<Rightarrow> schedule_entry \<Rightarrow> (controller, schedule_entry) act" where
  "create_schedule env schedule =
     bindA (liftA (validate_schedule schedule)) (\<lambda>sc.
     bindA (requireA (get_service (sc_service_id sc))
       (UnknownServiceError (''unknown service: '' @ sc_service_id sc))) (\<lambda>_.
     bindA (pureA (next_time env)) (\<lambda>now.
     let sc' = sc \<lparr> sc_created_at := (if sc_created_at sc = 0 then now else sc_created_at sc),
                 sc_next_run_at := (if sc_next_run_at sc = None then Some now else sc_next_run_at sc) \<rparr>
     in bindA (writeA (upsert_schedule sc')) (\<lambda>_. returnA sc'))))"

definition require_schedule :: "string \<Rightarrow> (controller, schedule_entry) act" where
  "require_schedule i = requireA (get_schedule i) (UnknownScheduleError (''unknown schedule: '' @ i))"

text \<open>A deletion that raises when there was no row.\<close>

definition deleteA :: "(store \<Rightarrow> bool \<times> store) \<Rightarrow> py_error \<Rightarrow> (controller, bool) act" where
  "deleteA f e =
     bindA (pureA (\<lambda>s. case f (ct_store s) of (b, st) \<Rightarrow> (b, s \<lparr> ct_store := st \<rparr>))) (\<lambda>found.
       if found then returnA True else failA e)"

definition remove_schedule :: "string \<Rightarrow> (controller, bool) act" where
  "remove_schedule i = deleteA (delete_schedule i) (UnknownScheduleError (''unknown schedule: '' @ i))"

definition register_alert_rule :: "alert_rule \<Rightarrow> (controller, alert_rule) act" where
  "register_alert_rule rule =
     bindA (liftA (validate_rule rule)) (\<lambda>r.
     bindA (readA (\<lambda>st. case ru_service_id r of None \<Rightarrow> Inr ()
       | Some sid \<Rightarrow> if get_service sid st = None
           then Inl (UnknownServiceError (''unknown service: '' @ sid)) else Inr ())) (\<lambda>check.
     bindA (liftA check) (\<lambda>_. bindA (writeA (upsert_alert_rule r)) (\<lambda>_. returnA r))))"

definition remove_alert_rule :: "string \<Rightarrow> (controller, bool) act" where
  "remove_alert_rule i = deleteA (delete_alert_rule i) (UnknownAlertRuleError (''unknown alert rule: '' @ i))"

section \<open>The monitoring pipeline\<close>

definition record_service_baseline :: "env \<Rightarrow> multi_vantage_report \<Rightarrow> controller \<Rightarrow> bool \<times> controller" where
  "record_service_baseline env report s =
     (let ratio = (if mv_vantage_count report \<noteq> 0
            then of_nat (mv_reachable_count report) / of_nat (mv_vantage_count report) else 0);
          key = (if some_text (mv_service_id report) then the (mv_service_id report) else mv_target report)
      in case next_time env s of (now, s1) \<Rightarrow>
         (case record_and_compare (ev_repr env) now ''service'' key ''reachable_ratio'' ratio False
                 WARN_RATIO FAIL_RATIO (ct_history s1) of
            (result, h) \<Rightarrow> (truthy (get_val (dr_metrics result) ''deviated''), s1 \<lparr> ct_history := h \<rparr>)))"

definition attach_to_incident ::
  "env \<Rightarrow> alert \<Rightarrow> multi_vantage_report \<Rightarrow> rat \<Rightarrow> controller \<Rightarrow> incident \<times> controller" where
  "attach_to_incident env a report now s =
     (case find_active_incident (al_service_id a) (ct_store s) of
        None \<Rightarrow>
          (case next_uuid env s of (k, s1) \<Rightarrow>
             (let i = open_incident k a report now in (i, on_store (save_incident i) s1)))
      | Some old \<Rightarrow>
          (let i = absorb_alert a report now old in (i, on_store (save_incident i) s)))"

definition fire_rule ::
  "env \<Rightarrow> alert_rule \<Rightarrow> multi_vantage_report \<Rightarrow> rat \<Rightarrow> bool \<Rightarrow> controller \<Rightarrow> alert \<times> controller" where
  "fire_rule env rule report now regression s =
     (case find_firing_alert (ru_rule_id rule) (mv_service_id report) (ct_store s) of
        Some old \<Rightarrow>
          (let a = refire_alert (mv_diagnosis_id report) now regression old
           in (a, on_store (save_alert a) s))
      | None \<Rightarrow>
          (case next_uuid env s of (k, s1) \<Rightarrow>
             (let a = build_alert k rule report now regression in (a, on_store (save_alert a) s1))))"

fun fire_rules ::
  "env \<Rightarrow> alert_rule list \<Rightarrow> multi_vantage_report \<Rightarrow> rat \<Rightarrow> bool \<Rightarrow> controller \<Rightarrow>
   (alert \<times> incident) list \<times> controller" where
  "fire_rules env [] report now regression s = ([], s)"
| "fire_rules env (rule # rules) report now regression s =
     (case fire_rule env rule report now regression s of (a, s1) \<Rightarrow>
      (case attach_to_incident env a report now s1 of (i, s2) \<Rightarrow>
      (case fire_rules env rules report now regression s2 of (rest, s3) \<Rightarrow> ((a, i) # rest, s3))))"

definition list_limit :: nat where "list_limit = 100"

definition resolve_service :: "string option \<Rightarrow> rat \<Rightarrow> controller \<Rightarrow> incident list \<times> controller" where
  "resolve_service service_id now s =
     (let s1 = on_store (\<lambda>st. foldl (\<lambda>st a. save_alert (close_alert now a) st) st
            (list_alerts service_id (Some AL_FIRING) list_limit (ct_store s))) s;
          open' = filter active (list_incidents service_id None list_limit (ct_store s1));
          resolved = map (close_incident now) open'
      in (resolved, on_store (\<lambda>st. foldl (\<lambda>st i. save_incident i st) st resolved) s1))"

record outcome =
  po_regression :: bool
  po_alerts :: "alert list"
  po_incidents :: "incident list"
  po_resolved_incidents :: "incident list option"

definition process_diagnosis ::
  "env \<Rightarrow> multi_vantage_report \<Rightarrow> rat option \<Rightarrow> controller \<Rightarrow> outcome \<times> controller" where
  "process_diagnosis env report now s =
     (case time_or env now s of (t, s0) \<Rightarrow>
      (case record_service_baseline env report s0 of (regression, s1) \<Rightarrow>
        if is_healthy report then
          (case resolve_service (mv_service_id report) t s1 of (resolved, s2) \<Rightarrow>
            (\<lparr> po_regression = regression, po_alerts = [], po_incidents = [],
               po_resolved_incidents = Some resolved \<rparr>, s2))
        else
          (case fire_rules env (matching_rules (list_alert_rules (ct_store s1)) report) report t regression s1 of
             (fired, s2) \<Rightarrow>
               (\<lparr> po_regression = regression, po_alerts = map fst fired, po_incidents = map snd fired,
                  po_resolved_incidents = None \<rparr>, s2))))"

definition require_incident :: "string \<Rightarrow> (controller, incident) act" where
  "require_incident i = requireA (get_incident i) (UnknownIncidentError (''unknown incident: '' @ i))"

definition change_incident ::
  "env \<Rightarrow> string \<Rightarrow> rat option \<Rightarrow> (rat \<Rightarrow> incident \<Rightarrow> incident) \<Rightarrow> (controller, incident) act" where
  "change_incident env incident_id now change =
     bindA (require_incident incident_id) (\<lambda>i.
     bindA (pureA (time_or env now)) (\<lambda>t.
       if in_state i \<noteq> INC_RESOLVED then
         bindA (writeA (save_incident (change t i))) (\<lambda>_. returnA (change t i))
       else returnA i))"

definition acknowledge_incident :: "env \<Rightarrow> string \<Rightarrow> rat option \<Rightarrow> (controller, incident) act" where
  "acknowledge_incident env incident_id now = change_incident env incident_id now acknowledge"

definition resolve_incident :: "env \<Rightarrow> string \<Rightarrow> rat option \<Rightarrow> (controller, incident) act" where
  "resolve_incident env incident_id now = change_incident env incident_id now close_incident"

section \<open>The scheduler\<close>

definition error_class :: "py_error \<Rightarrow> string" where
  "error_class e = (case e of
      UnknownTopologyError _ \<Rightarrow> ''UnknownTopologyError''
    | UnknownServiceError _ \<Rightarrow> ''UnknownServiceError''
    | NoVantageAgentsError _ \<Rightarrow> ''NoVantageAgentsError''
    | ValidationError \<Rightarrow> ''ValidationError'' | AttributeError \<Rightarrow> ''AttributeError''
    | _ \<Rightarrow> ''ValueError'')"

definition error_text :: "env \<Rightarrow> py_error \<Rightarrow> string" where
  "error_text env e = error_class e @ '': '' @ (case e of
      UnknownTopologyError m \<Rightarrow> m | UnknownServiceError m \<Rightarrow> m | NoVantageAgentsError m \<Rightarrow> m
    | _ \<Rightarrow> ev_message env e)"

definition schedule_request :: "schedule_entry \<Rightarrow> diagnosis_request" where
  "schedule_request sc =
     \<lparr> dq_service_id = sc_service_id sc, dq_probe_type = sc_probe_type sc, dq_count = sc_count sc,
       dq_source_node_id = sc_source_node_id sc, dq_topology = sc_topology sc \<rparr>"

text \<open>The body of the \<open>try\<close>.\<close>

definition scheduled_run :: "env \<Rightarrow> schedule_entry \<Rightarrow> rat \<Rightarrow> (controller, multi_vantage_report) act" where
  "scheduled_run env sc now =
     bindA (liftA (validate_diagnosis_request (schedule_request sc))) (\<lambda>request.
     bindA (diagnose_service env request) (\<lambda>report.
     bindA (pureA (process_diagnosis env report (Some now))) (\<lambda>_. returnA report)))"

fun run_schedules :: "env \<Rightarrow> rat \<Rightarrow> schedule_entry list \<Rightarrow> controller \<Rightarrow> multi_vantage_report list \<times> controller" where
  "run_schedules env now [] s = ([], s)"
| "run_schedules env now (sc # scs) s =
     (if \<not> is_due sc now then run_schedules env now scs s
      else
        (case scheduled_run env sc now s of
           (Inr report, s1) \<Rightarrow>
             (case run_schedules env now scs (on_store (upsert_schedule (advance_schedule sc now None)) s1) of
                (reports, s2) \<Rightarrow> (report # reports, s2))
         | (Inl e, s1) \<Rightarrow>
             run_schedules env now scs
               (on_store (upsert_schedule (advance_schedule sc now (Some (error_text env e)))) s1)))"

definition run_due_schedules :: "env \<Rightarrow> rat option \<Rightarrow> controller \<Rightarrow> multi_vantage_report list \<times> controller" where
  "run_due_schedules env now s =
     (case time_or env now s of (t, s1) \<Rightarrow> run_schedules env t (list_schedules None (ct_store s1)) s1)"

section \<open>Device correlation\<close>

definition require_topology :: "string option \<Rightarrow> (controller, network_topology) act" where
  "require_topology name =
     bindA (resolve_topology name) (\<lambda>t. case t of
       None \<Rightarrow> failA (UnknownTopologyError
         ''no topology specified and none/multiple imported; pass an explicit topology name'')
     | Some x \<Rightarrow> returnA x)"

definition correlate_ports ::
  "string option \<Rightarrow> switch_telemetry list \<Rightarrow> (controller, host_port_binding list) act" where
  "correlate_ports topology_name switches =
     bindA (require_topology topology_name) (\<lambda>topology.
     let bindings = correlate_host_ports topology switches
     in bindA (writeA (replace_bindings (nt_name topology) bindings)) (\<lambda>_. returnA bindings))"

definition stored_bindings :: "string option \<Rightarrow> (controller, host_port_binding list) act" where
  "stored_bindings topology =
     bindA (readA (\<lambda>st. case topology of None \<Rightarrow> True | Some t \<Rightarrow> get_topology t st \<noteq> None)) (\<lambda>known.
       if \<not> known then failA (UnknownTopologyError (''unknown topology: '' @ the topology))
       else readA (list_bindings topology))"

definition augment_topology :: "string option \<Rightarrow> (controller, network_topology) act" where
  "augment_topology topology_name =
     bindA (require_topology topology_name) (\<lambda>topology.
     bindA (readA (list_bindings (Some (nt_name topology)))) (\<lambda>bindings.
     if bindings = [] then
       failA (NoBindingsError (''no host-port bindings for topology '' @ [CHR 0x27] @ nt_name topology @
         [CHR 0x27] @ ''; correlate device telemetry first''))
     else
       bindA (liftA (augment_topology_with_bindings topology bindings)) (\<lambda>augmented.
       bindA (writeA (save_topology augmented)) (\<lambda>_. returnA augmented))))"

end
