(* ===== verification/Lifecycle.thy ===== *)
theory Lifecycle
  imports Service
begin

text \<open>
  The invariant of the controller and what its operations do to alerts and incidents. The relation
  \<open>evolves\<close> says of two states that the second keeps the invariant and that every incident of the
  first went on by steps of its life cycle; it is established once for each write and carried
  through the actions by \<open>state_preorder\<close>.
\<close>

section \<open>The invariant\<close>

definition firing :: "alert \<Rightarrow> bool" where
  "firing a = (al_state a = AL_FIRING)"

definition one_active :: "store \<Rightarrow> bool" where
  "one_active st = (\<forall>k k' i j. get_incident k st = Some i \<longrightarrow> get_incident k' st = Some j \<longrightarrow>
     active i \<longrightarrow> active j \<longrightarrow> in_service_id i = in_service_id j \<longrightarrow> k = k')"

definition one_firing :: "store \<Rightarrow> bool" where
  "one_firing st = (\<forall>k k' a b. get_alert k st = Some a \<longrightarrow> get_alert k' st = Some b \<longrightarrow>
     firing a \<longrightarrow> firing b \<longrightarrow> al_rule_id a = al_rule_id b \<longrightarrow> al_service_id a = al_service_id b \<longrightarrow> k = k')"

definition ids_drawn :: "env \<Rightarrow> controller \<Rightarrow> bool" where
  "ids_drawn env s = (\<forall>k. get_incident k (ct_store s) \<noteq> None \<or> get_alert k (ct_store s) \<noteq> None \<longrightarrow>
     (\<exists>n < ct_uuids s. k = ev_uuid env n))"

definition controller_ok :: "env \<Rightarrow> controller \<Rightarrow> bool" where
  "controller_ok env s = (tables_ok (ct_store s) \<and> one_active (ct_store s) \<and> one_firing (ct_store s) \<and> ids_drawn env s)"

lemma controller_okD:
  assumes "controller_ok env s"
  shows "tables_ok (ct_store s)" "one_active (ct_store s)" "one_firing (ct_store s)" "ids_drawn env s"
  using assms by (simp_all add: controller_ok_def)

definition incidents_go_on :: "store \<Rightarrow> store \<Rightarrow> bool" where
  "incidents_go_on st st' = (\<forall>k i. get_incident k st = Some i \<longrightarrow>
     (\<exists>j. get_incident k st' = Some j \<and> incident_steps i j))"

definition evolves :: "env \<Rightarrow> controller \<Rightarrow> controller \<Rightarrow> bool" where
  "evolves env s t = (inj (ev_uuid env) \<longrightarrow> controller_ok env s \<longrightarrow> controller_ok env t \<and> incidents_go_on (ct_store s) (ct_store t))"

lemma incidents_go_on_refl: "incidents_go_on st st"
  by (auto simp: incidents_go_on_def)

lemma incidents_go_on_trans: "incidents_go_on st st' \<Longrightarrow> incidents_go_on st' st'' \<Longrightarrow> incidents_go_on st st''"
  unfolding incidents_go_on_def by (meson rtranclp_trans)

interpretation life: state_preorder "evolves env" for env
  by unfold_locales (auto simp: evolves_def incidents_go_on_refl intro: incidents_go_on_trans)

lemma evolvesI:
  "(inj (ev_uuid env) \<Longrightarrow> controller_ok env s \<Longrightarrow> controller_ok env t \<and> incidents_go_on (ct_store s) (ct_store t)) \<Longrightarrow> evolves env s t"
  by (simp add: evolves_def)

lemma evolvesD:
  "evolves env s t \<Longrightarrow> inj (ev_uuid env) \<Longrightarrow> controller_ok env s \<Longrightarrow> controller_ok env t \<and> incidents_go_on (ct_store s) (ct_store t)"
  by (simp add: evolves_def)

section \<open>Writes\<close>

lemma on_store_simps [simp]:
  "ct_store (on_store f s) = f (ct_store s)" "ct_uuids (on_store f s) = ct_uuids s"
  "ct_history (on_store f s) = ct_history s" "ct_clock (on_store f s) = ct_clock s"
  by (simp_all add: on_store_def)

text \<open>A write to one of the other tables.\<close>

lemma evolves_other:
  assumes "tables_ok (ct_store s) \<Longrightarrow> tables_ok (ct_store t)" "st_alerts (ct_store t) = st_alerts (ct_store s)"
    "st_incidents (ct_store t) = st_incidents (ct_store s)" "ct_uuids s \<le> ct_uuids t"
  shows "evolves env s t"
proof (rule evolvesI)
  assume ok: "controller_ok env s"
  have i: "get_incident k (ct_store t) = get_incident k (ct_store s)" for k
    by (simp add: get_incident_def assms)
  have a: "get_alert k (ct_store t) = get_alert k (ct_store s)" for k
    by (simp add: get_alert_def assms)
  have "ids_drawn env t"
    using controller_okD(4) [OF ok] assms(4) unfolding ids_drawn_def i a by (meson less_le_trans)
  then show "controller_ok env t \<and> incidents_go_on (ct_store s) (ct_store t)"
    using ok assms(1) incidents_go_on_refl
    by (simp add: controller_ok_def one_active_def one_firing_def incidents_go_on_def i a)
qed

lemma tables_ok_save_incident:
  assumes "tables_ok st"
    "\<And>old. get_incident (in_incident_id i) st = Some old \<Longrightarrow>
       in_service_id i = in_service_id old \<and> in_opened_at i = in_opened_at old"
  shows "tables_ok (save_incident i st)"
proof -
  have old: "in_service_id i = ir_service_id r \<and> in_opened_at i = ir_opened_at r"
    if "map_of (st_incidents st) (in_incident_id i) = Some r" "incident_row_ok (in_incident_id i) r" for r
    using assms(2) [of "ir_payload r"] that
    by (metis get_incident_def incident_row_of_simps(1,3) incident_row_ok_def option.simps(9))
  show ?thesis
    using assms(1) old unfolding tables_ok_def save_incident_def
    by (auto intro!: table_rows_upsert simp: incident_row_ok_def incident_row_of_def)
qed

lemma tables_ok_save_alert:
  assumes "tables_ok st"
    "\<And>old. get_alert (al_alert_id a) st = Some old \<Longrightarrow>
       al_service_id a = al_service_id old \<and> al_rule_id a = al_rule_id old \<and> al_created_at a = al_created_at old"
  shows "tables_ok (save_alert a st)"
proof -
  have old: "al_service_id a = ar_service_id r \<and> al_rule_id a = ar_rule_id r \<and> al_created_at a = ar_created_at r"
    if "map_of (st_alerts st) (al_alert_id a) = Some r" "alert_row_ok (al_alert_id a) r" for r
    using assms(2) [of "ar_payload r"] that
    by (metis get_alert_def alert_row_of_simps(1,2,4) alert_row_ok_def option.simps(9))
  show ?thesis
    using assms(1) old unfolding tables_ok_def save_alert_def
    by (auto intro!: table_rows_upsert simp: alert_row_ok_def alert_row_of_def)
qed

lemma other_table [simp]:
  "get_alert k (save_incident i st) = get_alert k st" "get_incident k (save_alert a st) = get_incident k st"
  "st_rules (save_incident i st) = st_rules st" "st_rules (save_alert a st) = st_rules st"
  "st_schedules (save_incident i st) = st_schedules st" "st_schedules (save_alert a st) = st_schedules st"
  by (simp_all add: get_alert_def get_incident_def save_alert_def save_incident_def)

lemma evolves_change_incident:
  assumes "get_incident (in_incident_id j) (ct_store s) = Some i" "incident_step i j"
  shows "evolves env s (on_store (save_incident j) s)"
proof (rule evolvesI)
  assume ok: "controller_ok env s"
  note keeps = incident_step_keeps [OF assms(2)]
  have get: "get_incident k (save_incident j (ct_store s)) =
      (if k = in_incident_id j then Some j else get_incident k (ct_store s))" for k
    by (simp add: incidents.get_put)
  have "tables_ok (save_incident j (ct_store s))"
    using controller_okD(1) [OF ok] assms(1) keeps by (intro tables_ok_save_incident) auto
  moreover have "one_active (save_incident j (ct_store s))"
  proof -
    have "get_incident k (save_incident j (ct_store s)) = Some x \<Longrightarrow> active x \<Longrightarrow>
        \<exists>x'. get_incident k (ct_store s) = Some x' \<and> active x' \<and> in_service_id x' = in_service_id x" for k x
      using assms(1) keeps by (auto simp: get split: if_splits)
    then show ?thesis
      using controller_okD(2) [OF ok] unfolding one_active_def by metis
  qed
  moreover have "one_firing (save_incident j (ct_store s))"
    using controller_okD(3) [OF ok] by (simp add: one_firing_def)
  moreover have "ids_drawn env (on_store (save_incident j) s)"
    using controller_okD(4) [OF ok] assms(1) by (auto simp: ids_drawn_def get)
  moreover have "incidents_go_on (ct_store s) (save_incident j (ct_store s))"
    using assms by (auto simp: incidents_go_on_def get)
  ultimately show "controller_ok env (on_store (save_incident j) s) \<and>
      incidents_go_on (ct_store s) (ct_store (on_store (save_incident j) s))"
    by (simp add: controller_ok_def)
qed

lemma evolves_change_alert:
  assumes "get_alert (al_alert_id b) (ct_store s) = Some a" "firing b \<Longrightarrow> firing a"
    "al_service_id b = al_service_id a" "al_rule_id b = al_rule_id a" "al_created_at b = al_created_at a"
  shows "evolves env s (on_store (save_alert b) s)"
proof (rule evolvesI)
  assume ok: "controller_ok env s"
  have get: "get_alert k (save_alert b (ct_store s)) =
      (if k = al_alert_id b then Some b else get_alert k (ct_store s))" for k
    by (simp add: alerts.get_put)
  have "tables_ok (save_alert b (ct_store s))"
    using controller_okD(1) [OF ok] assms by (intro tables_ok_save_alert) auto
  moreover have "one_firing (save_alert b (ct_store s))"
  proof -
    have "get_alert k (save_alert b (ct_store s)) = Some x \<Longrightarrow> firing x \<Longrightarrow>
        \<exists>x'. get_alert k (ct_store s) = Some x' \<and> firing x' \<and> al_service_id x' = al_service_id x \<and>
          al_rule_id x' = al_rule_id x" for k x
      using assms by (auto simp: get split: if_splits)
    then show ?thesis
      using controller_okD(3) [OF ok] unfolding one_firing_def by metis
  qed
  moreover have "ids_drawn env (on_store (save_alert b) s)"
    using controller_okD(4) [OF ok] assms(1) by (auto simp: ids_drawn_def get)
  ultimately show "controller_ok env (on_store (save_alert b) s) \<and>
      incidents_go_on (ct_store s) (ct_store (on_store (save_alert b) s))"
    using controller_okD(2) [OF ok] by (simp add: controller_ok_def one_active_def incidents_go_on_def)
qed

lemma fresh_uuid:
  assumes "inj (ev_uuid env)" "ids_drawn env s"
  shows "get_incident (ev_uuid env (ct_uuids s)) (ct_store s) = None"
    "get_alert (ev_uuid env (ct_uuids s)) (ct_store s) = None"
  using assms unfolding ids_drawn_def by (metis injD less_irrefl)+

lemma evolves_new_incident:
  assumes "next_uuid env s = (k, s1)" "in_incident_id j = k"
    "\<And>k i. controller_ok env s \<Longrightarrow> get_incident k (ct_store s) = Some i \<Longrightarrow> in_service_id i = in_service_id j \<Longrightarrow> \<not> active i"
  shows "evolves env s (on_store (save_incident j) s1)"
proof (rule evolvesI)
  assume u: "inj (ev_uuid env)" and ok: "controller_ok env s"
  have k: "k = ev_uuid env (ct_uuids s)" and s1: "ct_store s1 = ct_store s" "ct_uuids s1 = ct_uuids s + 1"
    using assms(1) by (auto simp: next_uuid_def)
  have new: "get_incident k (ct_store s) = None"
    using fresh_uuid [OF u controller_okD(4) [OF ok]] k by simp
  have get: "get_incident l (save_incident j (ct_store s)) =
      (if l = k then Some j else get_incident l (ct_store s))" for l
    using assms(2) by (simp add: incidents.get_put)
  have "tables_ok (save_incident j (ct_store s))"
    using controller_okD(1) [OF ok] new assms(2) by (intro tables_ok_save_incident) auto
  moreover have "one_active (save_incident j (ct_store s))"
    using controller_okD(2) [OF ok] assms(3) [OF ok] unfolding one_active_def get by (metis option.inject)
  moreover have "one_firing (save_incident j (ct_store s))"
    using controller_okD(3) [OF ok] by (simp add: one_firing_def)
  moreover have "ids_drawn env (on_store (save_incident j) s1)"
    using controller_okD(4) [OF ok] k by (auto simp: ids_drawn_def get s1 less_Suc_eq)
  moreover have "incidents_go_on (ct_store s) (save_incident j (ct_store s))"
    using new by (auto simp: incidents_go_on_def get)
  ultimately show "controller_ok env (on_store (save_incident j) s1) \<and>
      incidents_go_on (ct_store s) (ct_store (on_store (save_incident j) s1))"
    by (simp add: controller_ok_def s1)
qed

lemma evolves_new_alert:
  assumes "next_uuid env s = (k, s1)" "al_alert_id b = k"
    "\<And>k a. controller_ok env s \<Longrightarrow> get_alert k (ct_store s) = Some a \<Longrightarrow> al_rule_id a = al_rule_id b \<Longrightarrow>
       al_service_id a = al_service_id b \<Longrightarrow> \<not> firing a"
  shows "evolves env s (on_store (save_alert b) s1)"
proof (rule evolvesI)
  assume u: "inj (ev_uuid env)" and ok: "controller_ok env s"
  have k: "k = ev_uuid env (ct_uuids s)" and s1: "ct_store s1 = ct_store s" "ct_uuids s1 = ct_uuids s + 1"
    using assms(1) by (auto simp: next_uuid_def)
  have new: "get_alert k (ct_store s) = None"
    using fresh_uuid [OF u controller_okD(4) [OF ok]] k by simp
  have get: "get_alert l (save_alert b (ct_store s)) = (if l = k then Some b else get_alert l (ct_store s))" for l
    using assms(2) by (simp add: alerts.get_put)
  have "tables_ok (save_alert b (ct_store s))"
    using controller_okD(1) [OF ok] new assms(2) by (intro tables_ok_save_alert) auto
  moreover have "one_firing (save_alert b (ct_store s))"
    using controller_okD(3) [OF ok] assms(3) [OF ok] unfolding one_firing_def get by (metis option.inject)
  moreover have "ids_drawn env (on_store (save_alert b) s1)"
    using controller_okD(4) [OF ok] k by (auto simp: ids_drawn_def get s1 less_Suc_eq)
  ultimately show "controller_ok env (on_store (save_alert b) s1) \<and>
      incidents_go_on (ct_store s) (ct_store (on_store (save_alert b) s1))"
    using controller_okD(2) [OF ok]
    by (simp add: controller_ok_def s1 one_active_def incidents_go_on_def)
qed

section \<open>The pipeline\<close>

lemma next_time_simps [simp]: "ct_store (snd (next_time env s)) = ct_store s"
  "ct_uuids (snd (next_time env s)) = ct_uuids s"
  by (simp_all add: next_time_def)

lemma evolves_clock: "evolves env s (snd (next_time env s))" "evolves env s (snd (time_or env now s))"
  "evolves env s (snd (next_uuid env s))" "evolves env s (snd (next_stamp env s))"
  "evolves env s (snd (record_service_baseline env report s))"
  by (auto intro!: evolves_other simp: time_or_def next_time_def next_uuid_def next_stamp_def
      record_service_baseline_def record_and_compare_def Let_def split: option.splits)

lemma evolves_fire_rule: "evolves env s (snd (fire_rule env rule report now r s))"
proof (cases "find_firing_alert (ru_rule_id rule) (mv_service_id report) (ct_store s)")
  case None
  obtain k s1 where k: "next_uuid env s = (k, s1)" by fastforce
  have "evolves env s (on_store (save_alert (build_alert k rule report now r)) s1)"
    using find_firing_None [OF controller_okD(1) None]
    by (intro evolves_new_alert [OF k]) (auto simp: firing_def)
  then show ?thesis by (simp add: fire_rule_def None k Let_def)
next
  case (Some a)
  have "evolves env s (on_store (save_alert (refire_alert (mv_diagnosis_id report) now r a)) s)"
    if ok: "controller_ok env s"
    using find_firing_Some [OF controller_okD(1) [OF ok] Some]
    by (intro evolves_change_alert [where a = a]) (auto simp: firing_def)
  then show ?thesis by (auto simp: fire_rule_def Some Let_def intro: evolvesI dest: evolvesD)
qed

lemma evolves_attach: "evolves env s (snd (attach_to_incident env a report now s))"
proof (cases "find_active_incident (al_service_id a) (ct_store s)")
  case None
  obtain k s1 where k: "next_uuid env s = (k, s1)" by fastforce
  have "evolves env s (on_store (save_incident (open_incident k a report now)) s1)"
    using find_active_None [OF controller_okD(1) None] by (intro evolves_new_incident [OF k]) auto
  then show ?thesis by (simp add: attach_to_incident_def None k Let_def)
next
  case (Some i)
  have "evolves env s (on_store (save_incident (absorb_alert a report now i)) s)"
    if ok: "controller_ok env s"
    using find_active_Some [OF controller_okD(1) [OF ok] Some]
    by (intro evolves_change_incident [where i = i]) (auto intro: incident_step.intros)
  then show ?thesis by (auto simp: attach_to_incident_def Some Let_def intro: evolvesI dest: evolvesD)
qed

lemma evolves_fire_rules: "evolves env s (snd (fire_rules env rules report now r s))"
proof (induction rules arbitrary: s)
  case (Cons rule rules)
  obtain a s1 where a: "fire_rule env rule report now r s = (a, s1)" by fastforce
  obtain i s2 where i: "attach_to_incident env a report now s1 = (i, s2)" by fastforce
  have "evolves env s s1" using evolves_fire_rule [of env s rule report now r] by (simp add: a)
  moreover have "evolves env s1 s2" using evolves_attach [of env s1 a report now] by (simp add: i)
  moreover have "evolves env s2 (snd (fire_rules env rules report now r s2))" by (rule Cons.IH)
  ultimately have "evolves env s (snd (fire_rules env rules report now r s2))"
    by (blast intro: life.trans)
  then show ?case by (simp add: a i case_prod_beta)
qed (simp add: life.refl)

text \<open>Closing the alerts and incidents of a service.\<close>

lemma on_store_comp: "on_store f (on_store g s) = on_store (\<lambda>st. f (g st)) s"
  by (simp add: on_store_def)

lemma evolves_close_incidents:
  assumes "distinct (map in_incident_id xs)"
    "\<And>i. i \<in> set xs \<Longrightarrow> get_incident (in_incident_id i) (ct_store s) = Some i \<and> active i"
  shows "evolves env s (on_store (\<lambda>st. foldl (\<lambda>st i. save_incident i st) st (map (close_incident now) xs)) s)"
  using assms
proof (induction xs arbitrary: s)
  case Nil
  then show ?case by (simp add: on_store_def life.refl)
next
  case (Cons x xs)
  let ?s1 = "on_store (save_incident (close_incident now x)) s"
  have "evolves env s ?s1"
    using Cons.prems(2) [of x] by (intro evolves_change_incident [where i = x]) (auto intro: incident_step.intros)
  moreover have "evolves env ?s1 (on_store (\<lambda>st. foldl (\<lambda>st i. save_incident i st) st (map (close_incident now) xs)) ?s1)"
  proof (rule Cons.IH)
    fix i assume i: "i \<in> set xs"
    then have "in_incident_id i \<noteq> in_incident_id x" using Cons.prems(1) by (auto simp: image_iff)
    with i show "get_incident (in_incident_id i) (ct_store ?s1) = Some i \<and> active i"
      using Cons.prems(2) by (simp add: incidents.get_put)
  qed (use Cons.prems(1) in simp)
  ultimately have "evolves env s (on_store (\<lambda>st. foldl (\<lambda>st i. save_incident i st) st (map (close_incident now) xs)) ?s1)"
    by (rule life.trans)
  then show ?case by (simp add: on_store_comp)
qed

lemma evolves_close_alerts:
  assumes "distinct (map al_alert_id xs)"
    "\<And>a. a \<in> set xs \<Longrightarrow> get_alert (al_alert_id a) (ct_store s) = Some a"
  shows "evolves env s (on_store (\<lambda>st. foldl (\<lambda>st a. save_alert (close_alert now a) st) st xs) s)"
  using assms
proof (induction xs arbitrary: s)
  case Nil
  then show ?case by (simp add: on_store_def life.refl)
next
  case (Cons x xs)
  let ?s1 = "on_store (save_alert (close_alert now x)) s"
  have "evolves env s ?s1"
    using Cons.prems(2) [of x] by (intro evolves_change_alert [where a = x]) (auto simp: firing_def)
  moreover have "evolves env ?s1 (on_store (\<lambda>st. foldl (\<lambda>st a. save_alert (close_alert now a) st) st xs) ?s1)"
  proof (rule Cons.IH)
    fix a assume a: "a \<in> set xs"
    then have "al_alert_id a \<noteq> al_alert_id x" using Cons.prems(1) by (auto simp: image_iff)
    with a show "get_alert (al_alert_id a) (ct_store ?s1) = Some a"
      using Cons.prems(2) by (simp add: alerts.get_put)
  qed (use Cons.prems(1) in simp)
  ultimately have "evolves env s (on_store (\<lambda>st. foldl (\<lambda>st a. save_alert (close_alert now a) st) st xs) ?s1)"
    by (rule life.trans)
  then show ?case by (simp add: on_store_comp)
qed

lemma evolves_resolve: "evolves env s (snd (resolve_service sid now s))"
proof (cases "tables_ok (ct_store s) \<and> inj (ev_uuid env) \<and> controller_ok env s")
  case True
  let ?al = "list_alerts sid (Some AL_FIRING) list_limit (ct_store s)"
  define s1 where "s1 = on_store (\<lambda>st. foldl (\<lambda>st a. save_alert (close_alert now a) st) st ?al) s"
  let ?in = "filter active (list_incidents sid None list_limit (ct_store s1))"
  have 1: "evolves env s s1"
    unfolding s1_def
    by (rule evolves_close_alerts) (use True list_alerts_in list_alerts_distinct in blast)+
  then have t1: "tables_ok (ct_store s1)" using True by (auto dest!: evolvesD simp: controller_ok_def)
  have "evolves env s1 (on_store (\<lambda>st. foldl (\<lambda>st i. save_incident i st) st (map (close_incident now) ?in)) s1)"
    using list_incidents_in [OF t1, of _ sid None list_limit] list_incidents_distinct [OF t1]
    by (intro evolves_close_incidents) (auto intro: distinct_map_filter)
  with 1 have "evolves env s (on_store (\<lambda>st. foldl (\<lambda>st i. save_incident i st) st (map (close_incident now) ?in)) s1)"
    by (rule life.trans)
  then show ?thesis by (simp add: resolve_service_def Let_def s1_def)
next
  case False
  then show ?thesis by (auto simp: evolves_def controller_ok_def)
qed

lemma evolves_process: "evolves env s (snd (process_diagnosis env report now s))"
proof -
  obtain t s0 where t: "time_or env now s = (t, s0)" by fastforce
  obtain r s1 where r: "record_service_baseline env report s0 = (r, s1)" by fastforce
  have "evolves env s s0" "evolves env s0 s1"
    using evolves_clock(2) [of env s now] evolves_clock(5) [of env s0 report] by (simp_all add: t r)
  then have 1: "evolves env s s1" by (rule life.trans)
  show ?thesis
  proof (cases "is_healthy report")
    case True
    then show ?thesis
      using life.trans [OF 1 evolves_resolve [of env s1 "mv_service_id report" t]]
      by (simp add: process_diagnosis_def t r case_prod_beta)
  next
    case False
    then show ?thesis
      using life.trans [OF 1 evolves_fire_rules [of env s1 "matching_rules (list_alert_rules (ct_store s1)) report" report t r]]
      by (simp add: process_diagnosis_def t r case_prod_beta)
  qed
qed

section \<open>The operations as steps\<close>

text \<open>A relation between the states of the controller that holds whenever only the clock, the ids or
  the history move. The operations keep it as soon as their writes do.\<close>

locale controller_relation = state_preorder R for R :: "controller \<Rightarrow> controller \<Rightarrow> bool" +
  assumes internal: "ct_store t = ct_store s \<Longrightarrow> ct_uuids s \<le> ct_uuids t \<Longrightarrow> R s t"
begin

lemma keeps_lift_bind: "(\<And>x. r = Inr x \<Longrightarrow> keeps (f x)) \<Longrightarrow> keeps (bindA (liftA r) f)"
  by (cases r) (auto simp: keeps_def bindA_def act_defs refl)

lemma keeps_pureA: "(\<And>s. R s (snd (f s))) \<Longrightarrow> keeps (pureA f)"
  by (auto simp: keeps_def pureA_def case_prod_beta)

lemma keeps_write: "(\<And>s. R s (on_store f s)) \<Longrightarrow> keeps (writeA f)"
  by (simp add: keeps_def writeA_def modifyA_def)

lemma keeps_read: "keeps (readA f)"
  by (simp add: readA_def keeps_pure)

lemma keeps_require: "keeps (requireA f e)"
  unfolding requireA_def by (intro keeps_bind keeps_read) (simp add: keeps_pure split: option.splits)

lemma keeps_clock: "keeps (pureA (next_time env))" "keeps (pureA (time_or env now))"
  "keeps (pureA (next_uuid env))" "keeps (pureA (next_stamp env))"
  by (auto intro!: keeps_pureA internal simp: time_or_def next_time_def next_uuid_def next_stamp_def
      split: option.splits)

lemma keeps_fanout: "keeps (fanout env agents request)"
  by (auto simp: keeps_def fanout_def intro!: internal refl)

lemmas keeps_basic = keeps_pure keeps_read keeps_require keeps_clock keeps_fanout

lemma keeps_dispatch:
  assumes "\<And>s j. R s (on_store (save_job j) s)" "\<And>s now i. R s (on_store (mark_seen now i) s)"
  shows "keeps (dispatch_job env request)"
  unfolding dispatch_job_def mark_all_def Let_def
  by (intro keeps_bind keeps_lift_bind keeps_map keeps_write keeps_basic assms | clarsimp simp: split_paired_all)+

lemma keeps_resolve_topology: "keeps (resolve_topology name)"
  unfolding resolve_topology_def require_named_topology_def
  by (cases name) (auto intro!: keeps_bind keeps_basic)

lemma keeps_require_topology: "keeps (require_topology name)"
  unfolding require_topology_def
  by (intro keeps_bind keeps_resolve_topology) (simp add: keeps_pure split: option.splits)

lemma keeps_register_services:
  assumes "\<And>s xs. R s (on_store (\<lambda>st. foldl (\<lambda>st s. upsert_service s st) st xs) s)"
  shows "keeps (register_services inventory name)"
  unfolding register_services_def
  by (intro keeps_bind keeps_resolve_topology keeps_write keeps_basic assms)

lemma keeps_topology_for_service: "keeps (topology_for_service service name)"
  unfolding topology_for_service_def require_named_topology_def
  by (cases name) (auto intro!: keeps_bind keeps_basic simp: keeps_pure split: option.splits)

lemma keeps_correlate_agents: "keeps (correlate_agents name)"
  unfolding correlate_agents_def require_named_topology_def by (intro keeps_bind keeps_basic)

lemma keeps_run_plan:
  assumes "\<And>s now r. R s (on_store (save_diagnosis now r) s)"
  shows "keeps (run_plan env request service topology plan)"
  unfolding run_plan_def localize_def save_report_def
  by (intro keeps_bind keeps_write keeps_basic assms | clarsimp simp: split_paired_all)+

lemma keeps_diagnose:
  assumes "\<And>s now r. R s (on_store (save_diagnosis now r) s)"
  shows "keeps (diagnose_service env request)"
  unfolding diagnose_service_def Let_def
  by (intro keeps_bind keeps_if keeps_run_plan keeps_topology_for_service keeps_correlate_agents keeps_basic assms)

lemma keeps_create_schedule:
  assumes "\<And>s sc. R s (on_store (upsert_schedule sc) s)"
  shows "keeps (create_schedule env schedule)"
  unfolding create_schedule_def Let_def by (intro keeps_bind keeps_write keeps_basic assms)

lemma keeps_delete:
  assumes "\<And>s. R s (s \<lparr> ct_store := snd (f (ct_store s)) \<rparr>)"
  shows "keeps (deleteA f e)"
  unfolding deleteA_def
  by (intro keeps_bind keeps_pureA) (auto simp: case_prod_beta keeps_pure assms)

lemma keeps_register_rule:
  assumes "\<And>s r. R s (on_store (upsert_alert_rule r) s)"
  shows "keeps (register_alert_rule rule)"
  unfolding register_alert_rule_def by (intro keeps_bind keeps_write keeps_basic assms)

lemma keeps_scheduled_run:
  assumes "\<And>s now r. R s (on_store (save_diagnosis now r) s)"
    "\<And>s r now. R s (snd (process_diagnosis env r now s))"
  shows "keeps (scheduled_run env sc now)"
  unfolding scheduled_run_def by (intro keeps_bind keeps_diagnose keeps_pureA keeps_basic assms)

lemma keeps_run_schedules:
  assumes "\<And>s now r. R s (on_store (save_diagnosis now r) s)"
    "\<And>s r now. R s (snd (process_diagnosis env r now s))" "\<And>s sc. R s (on_store (upsert_schedule sc) s)"
  shows "R s (snd (run_schedules env now scs s))"
proof (induction scs arbitrary: s)
  case (Cons sc scs)
  obtain r s1 where r: "scheduled_run env sc now s = (r, s1)" by fastforce
  have 1: "R s s1" using keepsD [OF keeps_scheduled_run [OF assms(1,2)], where s = s] by (metis r snd_conv)
  show ?case
    using Cons.IH trans [OF 1 trans [OF assms(3) Cons.IH]]
    by (cases r) (simp_all add: r case_prod_beta)
qed (simp add: refl)

lemma keeps_run_due:
  assumes "\<And>s now r. R s (on_store (save_diagnosis now r) s)"
    "\<And>s r now. R s (snd (process_diagnosis env r now s))" "\<And>s sc. R s (on_store (upsert_schedule sc) s)"
  shows "R s (snd (run_due_schedules env now s))"
proof -
  have "R s (snd (time_or env now s))" by (auto intro: internal simp: time_or_def next_time_def split: option.splits)
  then show ?thesis
    using trans keeps_run_schedules [OF assms] by (simp add: run_due_schedules_def case_prod_beta)
qed

lemma keeps_correlate_ports:
  assumes "\<And>s t b. R s (on_store (replace_bindings t b) s)"
  shows "keeps (correlate_ports name switches)"
  unfolding correlate_ports_def Let_def by (intro keeps_bind keeps_require_topology keeps_write keeps_basic assms)

lemma keeps_augment:
  assumes "\<And>s t. topology_ok t \<Longrightarrow> R s (on_store (save_topology t) s)"
  shows "keeps (augment_topology name)"
proof -
  have "topology_ok t'" if "augment_topology_with_bindings t bs = Inr t'" for t bs t'
    using that by (auto simp: augment_topology_with_bindings_def Let_def bindR_eq_Inr validate_topology_iff split: if_splits)
  then show ?thesis
    unfolding augment_topology_def
    by (intro keeps_bind keeps_require_topology keeps_if keeps_lift_bind keeps_write keeps_basic assms) blast
qed

lemma keeps_import:
  assumes "\<And>s t. topology_ok t \<Longrightarrow> R s (on_store (save_topology t) s)"
  shows "keeps (import_topology t)"
  unfolding import_topology_def
  by (intro keeps_bind keeps_lift_bind keeps_write keeps_basic assms) (simp add: validate_topology_iff split: if_splits)

end

section \<open>Reachable controllers\<close>

definition initial :: controller where
  "initial = \<lparr> ct_store = empty_store, ct_history = [], ct_clock = 0, ct_uuids = 0, ct_calls = 0 \<rparr>"

text \<open>The calls of the service that change its state, as the HTTP API and the scheduler make them.\<close>

datatype command =
    Register_Agent string string "(string \<times> string) list"
  | Dispatch_Job fanout_job_request
  | Import_Topology network_topology
  | Register_Services "service_endpoint list" "string option"
  | Diagnose diagnosis_request
  | Create_Schedule schedule_entry
  | Delete_Schedule string
  | Register_Rule alert_rule
  | Delete_Rule string
  | Process multi_vantage_report "rat option"
  | Run_Due "rat option"
  | Acknowledge string "rat option"
  | Resolve string "rat option"
  | Correlate_Ports "string option" "switch_telemetry list"
  | Augment "string option"

fun perform :: "env \<Rightarrow> command \<Rightarrow> controller \<Rightarrow> controller" where
  "perform env (Register_Agent i url tags) s = snd (register_agent i url tags s)"
| "perform env (Dispatch_Job r) s = snd (dispatch_job env r s)"
| "perform env (Import_Topology t) s = snd (import_topology t s)"
| "perform env (Register_Services services name) s = snd (register_services services name s)"
| "perform env (Diagnose r) s = snd (diagnose_service env r s)"
| "perform env (Create_Schedule sc) s = snd (create_schedule env sc s)"
| "perform env (Delete_Schedule i) s = snd (remove_schedule i s)"
| "perform env (Register_Rule r) s = snd (register_alert_rule r s)"
| "perform env (Delete_Rule i) s = snd (remove_alert_rule i s)"
| "perform env (Process report now) s = snd (process_diagnosis env report now s)"
| "perform env (Run_Due now) s = snd (run_due_schedules env now s)"
| "perform env (Acknowledge i now) s = snd (acknowledge_incident env i now s)"
| "perform env (Resolve i now) s = snd (resolve_incident env i now s)"
| "perform env (Correlate_Ports name sw) s = snd (correlate_ports name sw s)"
| "perform env (Augment name) s = snd (augment_topology name s)"

inductive reachable :: "env \<Rightarrow> controller \<Rightarrow> bool" for env where
  start: "reachable env initial"
| step: "reachable env s \<Longrightarrow> reachable env (perform env c s)"

lemma evolves_write_other:
  assumes "tables_ok (ct_store s) \<Longrightarrow> tables_ok (f (ct_store s))" "st_alerts (f (ct_store s)) = st_alerts (ct_store s)"
    "st_incidents (f (ct_store s)) = st_incidents (ct_store s)"
  shows "evolves env s (on_store f s)"
  using assms by (intro evolves_other) simp_all

interpretation live: controller_relation "evolves env" for env
  by unfold_locales (auto intro: evolves_other)

lemma tables_ok_writes:
  assumes "tables_ok st"
  shows "tables_ok (upsert_agent a st)" "tables_ok (mark_seen now i st)" "tables_ok (save_job j st)"
    "topology_ok t \<Longrightarrow> tables_ok (save_topology t st)" "tables_ok (upsert_service sv st)"
    "tables_ok (save_diagnosis now rep st)" "tables_ok (upsert_schedule sc st)"
    "tables_ok (snd (delete_schedule i st))" "tables_ok (upsert_alert_rule ru st)"
    "tables_ok (snd (delete_alert_rule i st))" "tables_ok (replace_bindings n bs st)"
proof -
  have ms: "table_rows (\<lambda>k a. k = ra_agent_id a) (map (\<lambda>(k, a). (k, if k = i then a \<lparr> ra_last_seen_at := Some now \<rparr> else a)) t)"
    if "table_rows (\<lambda>k a. k = ra_agent_id a) t" for t :: "(string, registered_agent) table"
  proof -
    have "map fst (map (\<lambda>(k, a). (k, if k = i then a \<lparr> ra_last_seen_at := Some now \<rparr> else a)) t) = map fst t"
      by (induction t) auto
    then have "distinct (map fst (map (\<lambda>(k, a). (k, if k = i then a \<lparr> ra_last_seen_at := Some now \<rparr> else a)) t))"
      using that unfolding table_rows_def by (simp only:)
    with that show ?thesis unfolding table_rows_def by auto
  qed
  show "tables_ok (upsert_agent a st)" "tables_ok (mark_seen now i st)" "tables_ok (save_job j st)"
    "topology_ok t \<Longrightarrow> tables_ok (save_topology t st)" "tables_ok (upsert_service sv st)"
    "tables_ok (save_diagnosis now rep st)" "tables_ok (upsert_schedule sc st)"
    "tables_ok (snd (delete_schedule i st))" "tables_ok (upsert_alert_rule ru st)"
    "tables_ok (snd (delete_alert_rule i st))" "tables_ok (replace_bindings n bs st)"
    using assms ms
    by (simp_all add: tables_ok_def store_put_defs mark_seen_def replace_bindings_def delete_by_key
        table_rows_upsert table_rows_delete)
qed

lemma tables_ok_services: "tables_ok st \<Longrightarrow> tables_ok (foldl (\<lambda>st s. upsert_service s st) st xs)"
  by (induction xs arbitrary: st) (simp_all add: tables_ok_writes)

lemma other_services:
  "st_alerts (foldl (\<lambda>st s. upsert_service s st) st xs) = st_alerts st"
  "st_incidents (foldl (\<lambda>st s. upsert_service s st) st xs) = st_incidents st"
  by (induction xs arbitrary: st) (simp_all add: upsert_service_def)

lemmas write_defs = upsert_agent_def mark_seen_def save_job_def save_topology_def save_diagnosis_def
  upsert_schedule_def upsert_alert_rule_def replace_bindings_def

lemma evolves_writes:
  "evolves env s (on_store (upsert_agent a) s)" "evolves env s (on_store (mark_seen now i) s)"
  "evolves env s (on_store (save_job j) s)" "topology_ok t \<Longrightarrow> evolves env s (on_store (save_topology t) s)"
  "evolves env s (on_store (\<lambda>st. foldl (\<lambda>st s. upsert_service s st) st xs) s)"
  "evolves env s (on_store (save_diagnosis now rep) s)" "evolves env s (on_store (upsert_schedule sc) s)"
  "evolves env s (on_store (upsert_alert_rule ru) s)" "evolves env s (on_store (replace_bindings n bs) s)"
  by (auto intro!: evolves_write_other simp: tables_ok_writes tables_ok_services other_services)
    (simp_all add: write_defs)

lemma evolves_deletes:
  "evolves env s (s \<lparr> ct_store := snd (delete_schedule i (ct_store s)) \<rparr>)"
  "evolves env s (s \<lparr> ct_store := snd (delete_alert_rule i (ct_store s)) \<rparr>)"
  by (auto intro!: evolves_other simp: tables_ok_writes) (simp_all add: delete_by_key)

lemma change_incident_evolves:
  assumes "\<And>t i. active i \<Longrightarrow> incident_step i (change t i)" "\<And>t i. in_incident_id (change t i) = in_incident_id i"
  shows "evolves env s (snd (change_incident env k now change s))"
proof (cases "get_incident k (ct_store s)")
  case (Some i)
  obtain t s1 where t: "time_or env now s = (t, s1)" by fastforce
  have st: "ct_store s1 = ct_store s" and 1: "evolves env s s1"
    using t evolves_clock(2) [of env s now] by (auto simp: time_or_def next_time_def split: option.splits)
  have "evolves env s1 (on_store (save_incident (change t i)) s1)" if "active i" "tables_ok (ct_store s)"
    using get_incident_row(1) [OF that(2) Some] Some st assms that(1)
    by (intro evolves_change_incident [where i = i]) simp_all
  then have "evolves env s (on_store (save_incident (change t i)) s1)" if "active i"
    using that life.trans [OF 1] by (metis evolves_def controller_okD(1))
  with 1 show ?thesis
    by (simp add: change_incident_def require_incident_def requireA_def readA_def writeA_def pureA_def
        bindA_def act_defs Some t active_iff)
qed (simp add: change_incident_def require_incident_def requireA_def readA_def bindA_def act_defs life.refl)

lemma evolves_perform: "evolves env s (perform env c s)"
proof (cases c)
  case (Register_Agent i url tags)
  then show ?thesis
    by (simp only: perform.simps register_agent_def Let_def)
      (intro life.keepsD live.keeps_lift_bind life.keeps_bind live.keeps_write life.keeps_pure evolves_writes)
next
  case (Acknowledge i now)
  then show ?thesis
    by (simp add: acknowledge_incident_def change_incident_evolves incident_step.intros)
next
  case (Resolve i now)
  then show ?thesis
    by (simp add: resolve_incident_def change_incident_evolves incident_step.intros)
next
  case (Delete_Schedule i)
  then show ?thesis
    by (simp add: remove_schedule_def life.keepsD live.keeps_delete evolves_deletes)
next
  case (Delete_Rule i)
  then show ?thesis
    by (simp add: remove_alert_rule_def life.keepsD live.keeps_delete evolves_deletes)
qed (simp_all add: life.keepsD live.keeps_dispatch live.keeps_import live.keeps_register_services
    live.keeps_diagnose live.keeps_create_schedule live.keeps_register_rule live.keeps_run_due
    live.keeps_correlate_ports live.keeps_augment evolves_process evolves_writes)

lemma initial_ok: "controller_ok env initial"
  by (simp add: controller_ok_def initial_def empty_store_def tables_ok_def one_active_def one_firing_def
      ids_drawn_def get_incident_def get_alert_def)

lemma reachable_ok: "reachable env s \<Longrightarrow> inj (ev_uuid env) \<Longrightarrow> controller_ok env s"
  by (induction rule: reachable.induct) (auto simp: initial_ok dest: evolvesD [OF evolves_perform])

end
