(* ===== verification/Pipeline.thy ===== *)
theory Pipeline
  imports Lifecycle
begin

text \<open>
  What the monitoring pipeline of the controller guarantees: the incidents of a service, the effect
  of healthy and unhealthy diagnoses, the isolation of failing schedules, the atomicity of
  diagnoses and registrations.
\<close>

section \<open>Resolving a service\<close>

lemma get_close_alerts:
  assumes "distinct (map al_alert_id xs)"
  shows "get_alert k (foldl (\<lambda>st a. save_alert (close_alert now a) st) st xs) =
    (if k \<in> al_alert_id ` set xs then Some (close_alert now (the (find (\<lambda>a. al_alert_id a = k) xs))) else get_alert k st)"
  using assms
proof (induction xs arbitrary: st)
  case (Cons x xs)
  then show ?case by (auto simp: alerts.get_put)
qed simp

lemma get_close_incidents:
  assumes "distinct (map in_incident_id xs)"
  shows "get_incident k (foldl (\<lambda>st i. save_incident i st) st (map (close_incident now) xs)) =
    (if k \<in> in_incident_id ` set xs then Some (close_incident now (the (find (\<lambda>i. in_incident_id i = k) xs))) else get_incident k st)"
  using assms
proof (induction xs arbitrary: st)
  case (Cons x xs)
  then show ?case by (auto simp: incidents.get_put)
qed simp

lemma fold_other_table:
  "get_incident k (foldl (\<lambda>st a. save_alert (close_alert now a) st) st xs) = get_incident k st"
  "st_incidents (foldl (\<lambda>st a. save_alert (close_alert now a) st) st xs) = st_incidents st"
  "get_alert k (foldl (\<lambda>st i. save_incident i st) st ys) = get_alert k st"
  by (induction xs arbitrary: st, simp_all, induction ys arbitrary: st, simp_all add: save_alert_def)

text \<open>The number of rows the two queries of \<open>resolve_service\<close> range over.\<close>

definition firing_rows :: "string option \<Rightarrow> store \<Rightarrow> alert_row list" where
  "firing_rows sid st = filter (\<lambda>r. (sid = None \<or> ar_service_id r = sid) \<and> ar_state r = AL_FIRING) (rows (st_alerts st))"

definition incident_rows_of :: "string option \<Rightarrow> store \<Rightarrow> incident_row list" where
  "incident_rows_of sid st = filter (\<lambda>r. sid = None \<or> ir_service_id r = sid) (rows (st_incidents st))"

lemma find_in_distinct: "distinct (map f xs) \<Longrightarrow> x \<in> set xs \<Longrightarrow> find (\<lambda>y. f y = f x) xs = Some x"
  by (induction xs) (auto simp: image_iff)

lemma resolve_service_alerts:
  assumes "tables_ok (ct_store s)" "length (firing_rows sid (ct_store s)) \<le> list_limit"
  shows "get_alert k (ct_store (snd (resolve_service sid now s))) =
    (case get_alert k (ct_store s) of None \<Rightarrow> None
     | Some a \<Rightarrow> Some (if firing a \<and> (sid = None \<or> al_service_id a = sid) then close_alert now a else a))"
proof -
  let ?xs = "list_alerts sid (Some AL_FIRING) list_limit (ct_store s)"
  have d: "distinct (map al_alert_id ?xs)" by (rule list_alerts_distinct [OF assms(1)])
  have "get_alert k (ct_store (snd (resolve_service sid now s))) =
      get_alert k (foldl (\<lambda>st a. save_alert (close_alert now a) st) (ct_store s) ?xs)"
    by (simp add: resolve_service_def Let_def fold_other_table)
  also have "\<dots> = (case get_alert k (ct_store s) of None \<Rightarrow> None
     | Some a \<Rightarrow> Some (if firing a \<and> (sid = None \<or> al_service_id a = sid) then close_alert now a else a))"
  proof (cases "get_alert k (ct_store s)")
    case None
    then have "k \<notin> al_alert_id ` set ?xs" using list_alerts_in [OF assms(1)] by fastforce
    with None show ?thesis by (simp add: get_close_alerts [OF d])
  next
    case (Some a)
    have k: "al_alert_id a = k" by (rule get_alert_row(1) [OF assms(1) Some])
    show ?thesis
    proof (cases "firing a \<and> (sid = None \<or> al_service_id a = sid)")
      case True
      have "a \<in> set ?xs"
        using True assms(2) by (intro list_alerts_all [OF assms(1) Some]) (auto simp: firing_def firing_rows_def eq_commute)
      then have "find (\<lambda>a. al_alert_id a = k) ?xs = Some a" "k \<in> al_alert_id ` set ?xs"
        using find_in_distinct [OF d, of a] k by auto
      then show ?thesis using True Some by (simp add: get_close_alerts [OF d])
    next
      case False
      have "k \<notin> al_alert_id ` set ?xs"
      proof
        assume "k \<in> al_alert_id ` set ?xs"
        then obtain b where "b \<in> set ?xs" "al_alert_id b = k" by auto
        with list_alerts_in [OF assms(1), of b sid "Some AL_FIRING" list_limit] Some False show False by (auto simp: firing_def)
      qed
      with False Some show ?thesis by (auto simp: get_close_alerts [OF d])
    qed
  qed
  finally show ?thesis .
qed

lemma resolve_service_incidents:
  assumes "tables_ok (ct_store s)" "length (incident_rows_of sid (ct_store s)) \<le> list_limit"
  shows "get_incident k (ct_store (snd (resolve_service sid now s))) =
    (case get_incident k (ct_store s) of None \<Rightarrow> None
     | Some i \<Rightarrow> Some (if active i \<and> (sid = None \<or> in_service_id i = sid) then close_incident now i else i))"
proof -
  let ?st = "foldl (\<lambda>st a. save_alert (close_alert now a) st) (ct_store s)
    (list_alerts sid (Some AL_FIRING) list_limit (ct_store s))"
  let ?xs = "filter active (list_incidents sid None list_limit (ct_store s))"
  have eq: "list_incidents sid None list_limit ?st = list_incidents sid None list_limit (ct_store s)"
    by (simp add: list_incidents_def fold_other_table)
  have d: "distinct (map in_incident_id ?xs)"
    using list_incidents_distinct [OF assms(1)] by (simp add: distinct_map_filter)
  have "get_incident k (ct_store (snd (resolve_service sid now s))) =
      get_incident k (foldl (\<lambda>st i. save_incident i st) ?st (map (close_incident now) ?xs))"
    by (simp add: resolve_service_def Let_def eq)
  also have "\<dots> = (case get_incident k (ct_store s) of None \<Rightarrow> None
     | Some i \<Rightarrow> Some (if active i \<and> (sid = None \<or> in_service_id i = sid) then close_incident now i else i))"
  proof (cases "get_incident k (ct_store s)")
    case None
    then have "k \<notin> in_incident_id ` set ?xs" using list_incidents_in [OF assms(1)] by fastforce
    with None show ?thesis by (simp add: get_close_incidents [OF d] fold_other_table)
  next
    case (Some i)
    have k: "in_incident_id i = k" by (rule get_incident_row(1) [OF assms(1) Some])
    show ?thesis
    proof (cases "active i \<and> (sid = None \<or> in_service_id i = sid)")
      case True
      have "i \<in> set ?xs"
        using True assms(2) list_incidents_all [OF assms(1) Some, of sid None list_limit]
        by (simp add: incident_rows_of_def)
      with True have x: "i \<in> set ?xs" by simp
      then have "find (\<lambda>i. in_incident_id i = k) ?xs = Some i" using find_in_distinct [OF d x] k by simp
      moreover have "k \<in> in_incident_id ` set ?xs" using x k by blast
      ultimately show ?thesis using True Some by (simp only: get_close_incidents [OF d]) simp
    next
      case False
      have "k \<notin> in_incident_id ` set ?xs"
      proof
        assume "k \<in> in_incident_id ` set ?xs"
        then obtain j where "j \<in> set ?xs" "in_incident_id j = k" by auto
        with list_incidents_in [OF assms(1), of j sid None list_limit] Some False show False by auto
      qed
      with False Some show ?thesis by (auto simp: get_close_incidents [OF d] fold_other_table)
    qed
  qed
  finally show ?thesis .
qed


section \<open>Firing rules\<close>

text \<open>A rule whose condition the diagnosis \<open>d\<close> of the service met: its alert is firing, speaks of
  the diagnosis, and belongs to the active incident of the service.\<close>

definition raised :: "store \<Rightarrow> string \<Rightarrow> string option \<Rightarrow> string \<Rightarrow> bool" where
  "raised st rule_id sid d = (\<exists>k a j i. get_alert k st = Some a \<and> firing a \<and> al_rule_id a = rule_id \<and>
     al_service_id a = sid \<and> al_diagnosis_id a = d \<and> get_incident j st = Some i \<and> active i \<and>
     in_service_id i = sid \<and> k \<in> set (in_alert_ids i) \<and> al_severity a \<le> in_severity i)"

lemma fire_rule_store:
  assumes ok: "controller_ok env s" and u: "inj (ev_uuid env)"
    and f: "fire_rule env rule report now r s = (a, s1)"
  shows "ct_store s1 = save_alert a (ct_store s)" "firing a" "al_rule_id a = ru_rule_id rule"
    "al_service_id a = mv_service_id report" "al_diagnosis_id a = mv_diagnosis_id report"
    "\<And>b. get_alert (al_alert_id a) (ct_store s) = Some b \<Longrightarrow>
       a = refire_alert (mv_diagnosis_id report) now r b"
    "get_alert (al_alert_id a) (ct_store s1) = Some a"
proof -
  note t = controller_okD(1) [OF ok]
  have "ct_store s1 = save_alert a (ct_store s) \<and> firing a \<and> al_rule_id a = ru_rule_id rule \<and>
      al_service_id a = mv_service_id report \<and> al_diagnosis_id a = mv_diagnosis_id report \<and>
      (\<forall>b. get_alert (al_alert_id a) (ct_store s) = Some b \<longrightarrow> a = refire_alert (mv_diagnosis_id report) now r b)"
  proof (cases "find_firing_alert (ru_rule_id rule) (mv_service_id report) (ct_store s)")
    case None
    then show ?thesis
      using f fresh_uuid(2) [OF u controller_okD(4) [OF ok]]
      by (auto simp: fire_rule_def next_uuid_def Let_def firing_def)
  next
    case (Some b)
    then show ?thesis using f find_firing_Some [OF t Some]
      by (auto simp: fire_rule_def Let_def firing_def)
  qed
  then show "ct_store s1 = save_alert a (ct_store s)" "firing a" "al_rule_id a = ru_rule_id rule"
    "al_service_id a = mv_service_id report" "al_diagnosis_id a = mv_diagnosis_id report"
    "\<And>b. get_alert (al_alert_id a) (ct_store s) = Some b \<Longrightarrow> a = refire_alert (mv_diagnosis_id report) now r b"
    by blast+
  then show "get_alert (al_alert_id a) (ct_store s1) = Some a" by simp
qed

lemma attach_store:
  assumes ok: "controller_ok env s" and u: "inj (ev_uuid env)"
    and f: "attach_to_incident env a report now s = (i, s1)"
  shows "ct_store s1 = save_incident i (ct_store s)" "active i" "in_service_id i = al_service_id a"
    "al_alert_id a \<in> set (in_alert_ids i)" "al_severity a \<le> in_severity i"
    "\<And>j k. get_incident k (ct_store s) = Some j \<Longrightarrow> active j \<Longrightarrow> in_service_id j = al_service_id a \<Longrightarrow>
       k = in_incident_id i \<and> set (in_alert_ids j) \<subseteq> set (in_alert_ids i) \<and> in_severity j \<le> in_severity i"
    "\<And>j. get_incident (in_incident_id i) (ct_store s) = Some j \<Longrightarrow> active j \<and> in_service_id j = al_service_id a"
proof -
  note t = controller_okD(1) [OF ok]
  have "ct_store s1 = save_incident i (ct_store s) \<and> active i \<and> in_service_id i = al_service_id a \<and>
      al_alert_id a \<in> set (in_alert_ids i) \<and> al_severity a \<le> in_severity i \<and>
      (\<forall>j k. get_incident k (ct_store s) = Some j \<longrightarrow> active j \<longrightarrow> in_service_id j = al_service_id a \<longrightarrow>
         k = in_incident_id i \<and> set (in_alert_ids j) \<subseteq> set (in_alert_ids i) \<and> in_severity j \<le> in_severity i) \<and>
      (\<forall>j. get_incident (in_incident_id i) (ct_store s) = Some j \<longrightarrow> active j \<and> in_service_id j = al_service_id a)"
  proof (cases "find_active_incident (al_service_id a) (ct_store s)")
    case None
    then show ?thesis
      using f fresh_uuid(1) [OF u controller_okD(4) [OF ok]] find_active_None [OF t None]
      by (auto simp: attach_to_incident_def next_uuid_def Let_def)
  next
    case (Some j)
    note j = find_active_Some [OF t Some]
    have i: "i = absorb_alert a report now j" "ct_store s1 = save_incident i (ct_store s)"
      using f by (auto simp: attach_to_incident_def Some Let_def)
    have sev: "in_severity j \<le> in_severity i" "al_severity a \<le> in_severity i"
      by (auto simp: i absorb_alert_def intro!: max_severity_ge simp del: max_severity.simps)
    have ids: "set (in_alert_ids i) = insert (al_alert_id a) (set (in_alert_ids j))"
      by (auto simp: i absorb_alert_def)
    have one: "k = in_incident_id j \<and> j' = j"
      if "get_incident k (ct_store s) = Some j'" "active j'" "in_service_id j' = al_service_id a" for k j'
      using controller_okD(2) [OF ok] that j unfolding one_active_def by (metis option.inject)
    show ?thesis using j i sev ids one by auto
  qed
  then show "ct_store s1 = save_incident i (ct_store s)" "active i" "in_service_id i = al_service_id a"
    "al_alert_id a \<in> set (in_alert_ids i)" "al_severity a \<le> in_severity i"
    "\<And>j k. get_incident k (ct_store s) = Some j \<Longrightarrow> active j \<Longrightarrow> in_service_id j = al_service_id a \<Longrightarrow>
       k = in_incident_id i \<and> set (in_alert_ids j) \<subseteq> set (in_alert_ids i) \<and> in_severity j \<le> in_severity i"
    "\<And>j. get_incident (in_incident_id i) (ct_store s) = Some j \<Longrightarrow> active j \<and> in_service_id j = al_service_id a"
    by blast+
qed

lemma raised_fire_rule:
  assumes "controller_ok env s" "inj (ev_uuid env)" "fire_rule env rule report now r s = (a, s1)"
    "raised (ct_store s) rid (mv_service_id report) (mv_diagnosis_id report)"
  shows "raised (ct_store s1) rid (mv_service_id report) (mv_diagnosis_id report)"
proof -
  note f = fire_rule_store [OF assms(1-3)]
  from assms(4) obtain k b j i where *: "get_alert k (ct_store s) = Some b" "firing b" "al_rule_id b = rid"
    "al_service_id b = mv_service_id report" "al_diagnosis_id b = mv_diagnosis_id report"
    "get_incident j (ct_store s) = Some i" "active i" "in_service_id i = mv_service_id report"
    "k \<in> set (in_alert_ids i)" "al_severity b \<le> in_severity i"
    by (auto simp: raised_def)
  obtain b' where "get_alert k (ct_store s1) = Some b'" "firing b'" "al_rule_id b' = rid"
    "al_service_id b' = mv_service_id report" "al_diagnosis_id b' = mv_diagnosis_id report"
    "al_severity b' = al_severity b"
  proof (cases "k = al_alert_id a")
    case True
    then have "a = refire_alert (mv_diagnosis_id report) now r b" using f(6) *(1) by simp
    then show ?thesis using that [of a] f(7) True *(2-5) by (simp add: firing_def)
  next
    case False
    then show ?thesis using that [of b] * by (simp add: f(1) alerts.get_put)
  qed
  moreover have "get_incident j (ct_store s1) = Some i" using *(6) by (simp add: f(1))
  ultimately show ?thesis unfolding raised_def using *(7-10) by metis
qed

lemma raised_attach:
  assumes "controller_ok env s" "inj (ev_uuid env)" "attach_to_incident env a report now s = (i, s1)"
    "al_service_id a = sid" "raised (ct_store s) rid sid d"
  shows "raised (ct_store s1) rid sid d"
proof -
  note f = attach_store [OF assms(1-3)]
  from assms(5) obtain k b j i' where *: "get_alert k (ct_store s) = Some b" "firing b" "al_rule_id b = rid"
    "al_service_id b = sid" "al_diagnosis_id b = d" "get_incident j (ct_store s) = Some i'" "active i'"
    "in_service_id i' = sid" "k \<in> set (in_alert_ids i')" "al_severity b \<le> in_severity i'"
    by (auto simp: raised_def)
  have i: "j = in_incident_id i" "set (in_alert_ids i') \<subseteq> set (in_alert_ids i)" "in_severity i' \<le> in_severity i"
    using f(6) [OF *(6,7)] *(8) assms(4) by auto
  have "get_alert k (ct_store s1) = Some b" "get_incident (in_incident_id i) (ct_store s1) = Some i"
    using *(1) by (simp_all add: f(1))
  moreover have "k \<in> set (in_alert_ids i)" "al_severity b \<le> in_severity i"
    using *(9,10) i(2,3) by auto
  ultimately show ?thesis
    unfolding raised_def using *(2-5) f(2,3) assms(4) by metis
qed

lemma raised_now:
  assumes ok: "controller_ok env s" and u: "inj (ev_uuid env)"
    and f: "fire_rule env rule report now r s = (a, s1)"
    and at: "attach_to_incident env a report now s1 = (i, s2)"
  shows "raised (ct_store s2) (ru_rule_id rule) (mv_service_id report) (mv_diagnosis_id report)"
proof -
  have ok1: "controller_ok env s1"
    using evolvesD [OF evolves_fire_rule u ok, of rule report now r] by (simp add: f)
  note fs = fire_rule_store [OF ok u f] and as = attach_store [OF ok1 u at]
  have "get_alert (al_alert_id a) (ct_store s2) = Some a" "get_incident (in_incident_id i) (ct_store s2) = Some i"
    using fs(7) by (simp_all add: as(1))
  then show ?thesis unfolding raised_def using fs(2-5) as(2-5) by metis
qed

lemma raised_fire_rules:
  assumes "controller_ok env s" "inj (ev_uuid env)"
    "raised (ct_store s) rid (mv_service_id report) (mv_diagnosis_id report) \<or> (\<exists>rule \<in> set rules. ru_rule_id rule = rid)"
  shows "raised (ct_store (snd (fire_rules env rules report now r s))) rid (mv_service_id report) (mv_diagnosis_id report)"
  using assms(1,3)
proof (induction rules arbitrary: s)
  case (Cons rule rules)
  obtain a s1 where f: "fire_rule env rule report now r s = (a, s1)" by fastforce
  obtain i s2 where at: "attach_to_incident env a report now s1 = (i, s2)" by fastforce
  have ok1: "controller_ok env s1"
    using evolvesD [OF evolves_fire_rule assms(2) Cons.prems(1), of rule report now r] by (simp add: f)
  have ok2: "controller_ok env s2"
    using evolvesD [OF evolves_attach assms(2) ok1, of a report now] by (simp add: at)
  have sid: "al_service_id a = mv_service_id report" by (rule fire_rule_store(4) [OF Cons.prems(1) assms(2) f])
  have "raised (ct_store s2) rid (mv_service_id report) (mv_diagnosis_id report) \<or> (\<exists>rule \<in> set rules. ru_rule_id rule = rid)"
    using Cons.prems(2) raised_attach [OF ok1 assms(2) at sid] raised_fire_rule [OF Cons.prems(1) assms(2) f]
      raised_now [OF Cons.prems(1) assms(2) f at] by auto
  from Cons.IH [OF ok2 this] show ?case by (simp add: f at case_prod_beta)
qed simp


section \<open>Running schedules\<close>

definition same_schedules :: "controller \<Rightarrow> controller \<Rightarrow> bool" where
  "same_schedules s t = (st_schedules (ct_store t) = st_schedules (ct_store s))"

interpretation sched: controller_relation same_schedules
  by unfold_locales (auto simp: same_schedules_def)

lemma schedules_fire_rules: "same_schedules s (snd (fire_rules env rules report now r s))"
proof (induction rules arbitrary: s)
  case (Cons rule rules)
  have 1: "same_schedules s (snd (fire_rule env rule report now r s))" for s
    by (auto simp: fire_rule_def next_uuid_def Let_def same_schedules_def split: option.splits)
  have 2: "same_schedules s (snd (attach_to_incident env a report now s))" for a s
    by (auto simp: attach_to_incident_def next_uuid_def Let_def same_schedules_def split: option.splits)
  show ?case
    using sched.trans [OF sched.trans [OF 1 2] Cons.IH] by (simp add: case_prod_beta)
qed (simp add: same_schedules_def)

lemma schedules_process: "same_schedules s (snd (process_diagnosis env report now s))"
proof -
  have al: "st_schedules (foldl (\<lambda>st a. save_alert (close_alert n a) st) st xs) = st_schedules st" for n st xs
    by (induction xs arbitrary: st) simp_all
  have il: "st_schedules (foldl (\<lambda>st i. save_incident i st) st xs) = st_schedules st" for st xs
    by (induction xs arbitrary: st) simp_all
  have 1: "same_schedules s (snd (time_or env now s))" for now s
    by (simp add: same_schedules_def time_or_def next_time_def split: option.splits)
  have 2: "same_schedules s (snd (record_service_baseline env report s))" for s
    by (simp add: same_schedules_def record_service_baseline_def Let_def next_time_def record_and_compare_def)
  have 3: "same_schedules s (snd (resolve_service sid n s))" for sid n s
    by (simp add: resolve_service_def Let_def same_schedules_def al il)
  show ?thesis
    unfolding process_diagnosis_def case_prod_beta
    using sched.trans [OF sched.trans [OF 1 2] 3] sched.trans [OF sched.trans [OF 1 2] schedules_fire_rules]
    by simp
qed

lemma schedules_run: "same_schedules s (snd (scheduled_run env sc now s))"
  by (intro sched.keepsD sched.keeps_scheduled_run schedules_process)
    (simp add: same_schedules_def save_diagnosis_def)

lemma same_get_schedule: "same_schedules s t \<Longrightarrow> get_schedule k (ct_store t) = get_schedule k (ct_store s)"
  by (simp add: same_schedules_def get_schedule_def)

lemma get_upsert_schedule:
  "get_schedule k (ct_store (on_store (upsert_schedule sc) s)) =
     (if k = sc_schedule_id sc then Some sc else get_schedule k (ct_store s))"
  by (simp add: schedules.get_put)

lemma advance_id [simp]: "sc_schedule_id (advance_schedule sc now err) = sc_schedule_id sc"
  "sc_last_error (advance_schedule sc now err) = err"
  by (simp_all add: advance_schedule_def)

definition run_ok :: "rat \<Rightarrow> schedule_entry \<Rightarrow> store \<Rightarrow> bool" where
  "run_ok now sc st = (is_due sc now \<and> map_option sc_last_error (get_schedule (sc_schedule_id sc) st) = Some None)"

lemma run_schedules_effect:
  assumes "distinct (map sc_schedule_id scs)"
    "\<And>sc. sc \<in> set scs \<Longrightarrow> get_schedule (sc_schedule_id sc) (ct_store s) = Some sc"
  shows "(\<forall>sc \<in> set scs. \<exists>err. get_schedule (sc_schedule_id sc) (ct_store (snd (run_schedules env now scs s))) =
       Some (if is_due sc now then advance_schedule sc now err else sc)) \<and>
    (\<forall>k. k \<notin> sc_schedule_id ` set scs \<longrightarrow>
       get_schedule k (ct_store (snd (run_schedules env now scs s))) = get_schedule k (ct_store s)) \<and>
    length (fst (run_schedules env now scs s)) =
      length (filter (\<lambda>sc. run_ok now sc (ct_store (snd (run_schedules env now scs s)))) scs)"
  using assms
proof (induction scs arbitrary: s)
  case (Cons sc scs)
  have new: "sc_schedule_id sc \<notin> sc_schedule_id ` set scs" and d: "distinct (map sc_schedule_id scs)"
    using Cons.prems(1) by auto
  show ?case
  proof (cases "is_due sc now")
    case False
    have p: "get_schedule (sc_schedule_id x) (ct_store s) = Some x" if "x \<in> set scs" for x
      using Cons.prems(2) that by simp
    note IH = Cons.IH [OF d p]
    have "get_schedule (sc_schedule_id sc) (ct_store (snd (run_schedules env now scs s))) = Some sc"
      using IH new Cons.prems(2) [of sc] by simp
    with False IH new show ?thesis by (simp add: run_ok_def)
  next
    case True
    obtain r s1 where r: "scheduled_run env sc now s = (r, s1)" by fastforce
    define err where "err = (case r of Inl e \<Rightarrow> Some (error_text env e) | Inr _ \<Rightarrow> None)"
    let ?s2 = "on_store (upsert_schedule (advance_schedule sc now err)) s1"
    let ?res = "run_schedules env now scs ?s2"
    have run: "snd (run_schedules env now (sc # scs) s) = snd ?res"
      "length (fst (run_schedules env now (sc # scs) s)) = (if err = None then 1 else 0) + length (fst ?res)"
      using True by (auto simp: r err_def case_prod_beta split: sum.splits)
    have s1: "get_schedule k (ct_store s1) = get_schedule k (ct_store s)" for k
      using same_get_schedule [OF schedules_run [of s env sc now], of k] by (simp add: r)
    have p: "get_schedule (sc_schedule_id x) (ct_store ?s2) = Some x" if "x \<in> set scs" for x
    proof -
      have "sc_schedule_id x \<noteq> sc_schedule_id sc" using that new by (auto simp: image_iff)
      then show ?thesis using Cons.prems(2) that by (simp only: get_upsert_schedule advance_id s1) simp
    qed
    note IH = Cons.IH [OF d p]
    have sc: "get_schedule (sc_schedule_id sc) (ct_store (snd ?res)) = Some (advance_schedule sc now err)"
      using IH new by (simp only: get_upsert_schedule advance_id) simp
    have other: "get_schedule k (ct_store (snd ?res)) = get_schedule k (ct_store s)"
      if "k \<notin> sc_schedule_id ` set (sc # scs)" for k
      using IH that by (simp only: get_upsert_schedule advance_id s1) simp
    have "run_ok now sc (ct_store (snd ?res)) \<longleftrightarrow> err = None"
      using sc True by (simp add: run_ok_def)
    with IH sc other True show ?thesis unfolding run by (auto simp del: on_store_simps)
  qed
qed simp

lemma list_schedules_all:
  assumes "tables_ok st"
  shows "distinct (map sc_schedule_id (list_schedules None st))"
    "sc \<in> set (list_schedules None st) \<longleftrightarrow> get_schedule (sc_schedule_id sc) st = Some sc"
proof -
  have t: "table_rows (\<lambda>k s. k = sc_schedule_id s) (st_schedules st)"
    using assms by (simp add: tables_ok_def)
  have "map sc_schedule_id (rows (st_schedules st)) = map fst (st_schedules st)"
    using t by (auto simp: rows_def table_rows_def)
  then have "distinct (map sc_schedule_id (rows (st_schedules st)))"
    using t by (simp add: table_rows_def)
  moreover have "mset (map sc_schedule_id (list_schedules None st)) = mset (map sc_schedule_id (rows (st_schedules st)))"
    by (simp add: list_schedules_def)
  ultimately show "distinct (map sc_schedule_id (list_schedules None st))"
    using mset_eq_imp_distinct_iff by metis
  have "sc \<in> set (rows (st_schedules st)) \<longleftrightarrow> get_schedule (sc_schedule_id sc) st = Some sc"
    using t by (auto simp: rows_def get_schedule_def table_rows_def intro: rev_image_eqI dest!: map_of_SomeD)
  then show "sc \<in> set (list_schedules None st) \<longleftrightarrow> get_schedule (sc_schedule_id sc) st = Some sc"
    by (simp add: list_schedules_def)
qed

end
