(* ===== verification/Controller_Props.thy ===== *)
theory Controller_Props
  imports Pipeline
begin

text \<open>
  The properties of the controller service over its reachable states, with the sample environment
  and the sample state on which their hypotheses are shown to hold.
\<close>

section \<open>A sample\<close>

definition sample_env :: env where
  "sample_env = \<lparr> ev_clock = (\<lambda>n. of_nat n), ev_stamp = (\<lambda>_. ''2024-01-01T00:00:00Z''),
     ev_uuid = (\<lambda>n. replicate n (CHR ''u'')), ev_probe = (\<lambda>_ _ _ _. Inr []), ev_order = (\<lambda>_ n. [0..<n]),
     ev_repr = (\<lambda>_. ''0''), ev_message = (\<lambda>_. ''invalid'') \<rparr>"

definition sample_report :: "fault_localization \<Rightarrow> multi_vantage_report" where
  "sample_report loc = \<lparr> mv_diagnosis_id = ''d1'', mv_timestamp = ''t'', mv_target = ''10.0.0.1'',
     mv_service_id = Some ''web'', mv_topology = Some ''lab'', mv_localization = loc,
     mv_status = FAILED, mv_verdict = ''down'', mv_confidence = 9 / 10, mv_vantage_count = 2,
     mv_reachable_count = 1, mv_failed_count = 1, mv_degraded_count = 0, mv_agent_errors = [],
     mv_observations = [], mv_evidence_trail = [] \<rparr>"

definition sample_rule :: alert_rule where
  "sample_rule = default_alert_rule ''r1'' None HIGH"

definition sample_state :: controller where
  "sample_state = perform sample_env (Process (sample_report SOURCE_SIDE) (Some 10))
     (perform sample_env (Register_Rule sample_rule) initial)"

lemma sample_inj: "inj (ev_uuid sample_env)"
  by (auto simp: sample_env_def inj_def replicate_eq_replicate)

lemma sample_reachable: "reachable sample_env sample_state"
  unfolding sample_state_def by (intro reachable.intros)

lemma sample_run:
  "ct_store sample_state =
     save_incident (open_incident ''u'' (build_alert [] sample_rule (sample_report SOURCE_SIDE) 10 False)
         (sample_report SOURCE_SIDE) 10)
       (save_alert (build_alert [] sample_rule (sample_report SOURCE_SIDE) 10 False)
         (upsert_alert_rule sample_rule empty_store))"
  unfolding sample_state_def by code_simp

lemma sample_incident:
  "get_incident ''u'' (ct_store sample_state) = Some (open_incident ''u''
     (build_alert [] sample_rule (sample_report SOURCE_SIDE) 10 False) (sample_report SOURCE_SIDE) 10)"
  by (simp add: sample_run incidents.get_put)

lemma sample_rules: "sample_rule \<in> set (list_alert_rules (ct_store sample_state))"
  unfolding sample_run by code_simp

section \<open>Incidents and alerts\<close>

text \<open>C1: In every reachable state of the controller a service has at most one open or acknowledged
  incident, and a rule has at most one firing alert for a service.\<close>

theorem one_active_incident:
  assumes "reachable env s" "inj (ev_uuid env)"
  shows "(\<forall>k k' i j. get_incident k (ct_store s) = Some i \<longrightarrow> get_incident k' (ct_store s) = Some j \<longrightarrow>
      active i \<longrightarrow> active j \<longrightarrow> in_service_id i = in_service_id j \<longrightarrow> k = k') \<and>
    (\<forall>k k' a b. get_alert k (ct_store s) = Some a \<longrightarrow> get_alert k' (ct_store s) = Some b \<longrightarrow>
      firing a \<longrightarrow> firing b \<longrightarrow> al_rule_id a = al_rule_id b \<longrightarrow> al_service_id a = al_service_id b \<longrightarrow> k = k')"
  using controller_okD(2,3) [OF reachable_ok [OF assms]] by (simp add: one_active_def one_firing_def)

theorem one_active_incident_witness:
  "\<exists>i. get_incident ''u'' (ct_store sample_state) = Some i \<and> active i \<and>
     (\<forall>k j. get_incident k (ct_store sample_state) = Some j \<longrightarrow> active j \<longrightarrow>
        in_service_id j = in_service_id i \<longrightarrow> k = ''u'')"
proof (intro exI conjI)
  show "get_incident ''u'' (ct_store sample_state) = Some (open_incident ''u''
     (build_alert [] sample_rule (sample_report SOURCE_SIDE) 10 False) (sample_report SOURCE_SIDE) 10)"
    by (rule sample_incident)
qed (use one_active_incident [OF sample_reachable sample_inj] sample_incident in \<open>simp, metis open_incident_simps(6)\<close>)

text \<open>C2: Whatever the controller does next, an incident stays in the store under its id and goes on
  only by acknowledging, absorbing alerts of its service, or closing; its alerts are kept, its
  severity does not fall, and a resolved incident never changes again.\<close>

theorem incident_life_cycle:
  assumes "reachable env s" "inj (ev_uuid env)" "get_incident k (ct_store s) = Some i"
  shows "\<exists>j. get_incident k (ct_store (foldl (\<lambda>s c. perform env c s) s cs)) = Some j \<and>
    incident_steps i j \<and> in_service_id j = in_service_id i \<and>
    set (in_alert_ids i) \<subseteq> set (in_alert_ids j) \<and> in_severity i \<le> in_severity j \<and>
    (in_state i = INC_RESOLVED \<longrightarrow> j = i)"
proof -
  have "evolves env s (foldl (\<lambda>s c. perform env c s) s cs)"
  proof (induction cs arbitrary: s)
    case (Cons c cs)
    from life.trans [OF evolves_perform Cons] show ?case by simp
  qed (simp add: life.refl)
  from evolvesD [OF this assms(2) reachable_ok [OF assms(1,2)]] assms(3)
  obtain j where j: "get_incident k (ct_store (foldl (\<lambda>s c. perform env c s) s cs)) = Some j" "incident_steps i j"
    unfolding incidents_go_on_def by blast
  with incident_steps_keep [OF j(2)] resolved_terminal [OF j(2)] show ?thesis by (auto simp: active_iff)
qed

theorem incident_life_cycle_witness:
  "\<exists>j. get_incident ''u'' (ct_store (foldl (\<lambda>s c. perform sample_env c s) sample_state
     [Acknowledge ''u'' (Some 20), Process (sample_report LOC_HEALTHY) None])) = Some j"
  using incident_life_cycle [OF sample_reachable sample_inj sample_incident] by blast

text \<open>C9: A healthy diagnosis of a service resolves exactly its firing alerts and its open or
  acknowledged incidents, as long as they are within the 100 rows the queries return; the rows of
  other services stay as they are. (A diagnosis that names no service resolves those of every
  service.)\<close>

theorem healthy_resolves:
  assumes "reachable env s" "inj (ev_uuid env)" "is_healthy report"
    "length (firing_rows (mv_service_id report) (ct_store s)) \<le> 100"
    "length (incident_rows_of (mv_service_id report) (ct_store s)) \<le> 100"
  shows "let sid = mv_service_id report; s' = snd (process_diagnosis env report (Some now) s) in
    get_alert k (ct_store s') = (case get_alert k (ct_store s) of None \<Rightarrow> None
      | Some a \<Rightarrow> Some (if firing a \<and> (sid = None \<or> al_service_id a = sid) then close_alert now a else a)) \<and>
    get_incident k (ct_store s') = (case get_incident k (ct_store s) of None \<Rightarrow> None
      | Some i \<Rightarrow> Some (if active i \<and> (sid = None \<or> in_service_id i = sid) then close_incident now i else i))"
proof -
  obtain r s1 where r: "record_service_baseline env report s = (r, s1)" by fastforce
  have st: "ct_store s1 = ct_store s"
    using r by (auto simp: record_service_baseline_def Let_def next_time_def record_and_compare_def)
  have t: "tables_ok (ct_store s1)"
    using controller_okD(1) [OF reachable_ok [OF assms(1,2)]] st by simp
  have s': "snd (process_diagnosis env report (Some now) s) = snd (resolve_service (mv_service_id report) now s1)"
    using assms(3) by (simp add: process_diagnosis_def time_or_def r case_prod_beta)
  show ?thesis
    unfolding Let_def s'
    using resolve_service_alerts [OF t, of "mv_service_id report" k now]
      resolve_service_incidents [OF t, of "mv_service_id report" k now] assms(4,5)
    by (simp add: list_limit_def st)
qed

theorem healthy_resolves_witness:
  "get_incident ''u'' (ct_store (snd (process_diagnosis sample_env (sample_report LOC_HEALTHY) (Some 30) sample_state))) =
     Some (close_incident 30 (open_incident ''u'' (build_alert [] sample_rule (sample_report SOURCE_SIDE) 10 False)
       (sample_report SOURCE_SIDE) 10))"
proof -
  have "is_healthy (sample_report LOC_HEALTHY)" "mv_service_id (sample_report LOC_HEALTHY) = Some ''web''"
    by (simp_all add: is_healthy_def sample_report_def)
  moreover have "length (firing_rows (Some ''web'') (ct_store sample_state)) \<le> 100"
    "length (incident_rows_of (Some ''web'') (ct_store sample_state)) \<le> 100"
    unfolding sample_run by code_simp+
  ultimately show ?thesis
    using healthy_resolves [OF sample_reachable sample_inj, of "sample_report LOC_HEALTHY" 30 "''u''"] sample_incident
    by (simp add: Let_def) (simp add: open_incident_def build_alert_def sample_report_def Let_def)
qed

text \<open>C8: After an unhealthy diagnosis every rule that matches it has a firing alert that refers to
  this diagnosis, and the alert is listed in an active incident of the same service whose severity
  is at least the alert's.\<close>

theorem unhealthy_raises:
  assumes "reachable env s" "inj (ev_uuid env)" "rule \<in> set (list_alert_rules (ct_store s))"
    "rule_matches rule report"
  shows "let st = ct_store (snd (process_diagnosis env report now s)) in
    \<exists>k a j i. get_alert k st = Some a \<and> al_state a = AL_FIRING \<and> al_rule_id a = ru_rule_id rule \<and>
      al_service_id a = mv_service_id report \<and> al_diagnosis_id a = mv_diagnosis_id report \<and>
      get_incident j st = Some i \<and> active i \<and> in_service_id i = mv_service_id report \<and>
      k \<in> set (in_alert_ids i) \<and> al_severity a \<le> in_severity i"
proof -
  obtain t s0 where t: "time_or env now s = (t, s0)" by fastforce
  obtain r s1 where r: "record_service_baseline env report s0 = (r, s1)" by fastforce
  have st: "ct_store s1 = ct_store s"
    using t r by (auto simp: time_or_def record_service_baseline_def Let_def next_time_def
        record_and_compare_def split: option.splits)
  have "evolves env s s1"
    using life.trans [OF evolves_clock(2) [of env s now] evolves_clock(5) [of env "snd (time_or env now s)" report]]
    by (simp add: t r)
  then have ok: "controller_ok env s1"
    using evolvesD [OF _ assms(2) reachable_ok [OF assms(1,2)]] by blast
  have nh: "\<not> is_healthy report" using assms(4) by (simp add: rule_matches_iff)
  have "raised (ct_store (snd (fire_rules env (matching_rules (list_alert_rules (ct_store s)) report) report t r s1)))
      (ru_rule_id rule) (mv_service_id report) (mv_diagnosis_id report)"
    using assms(3,4) by (intro raised_fire_rules [OF ok assms(2)]) (auto simp: matching_rules_def)
  then have "raised (ct_store (snd (process_diagnosis env report now s)))
      (ru_rule_id rule) (mv_service_id report) (mv_diagnosis_id report)"
    using nh by (simp add: process_diagnosis_def t r st case_prod_beta)
  then show ?thesis by (simp add: raised_def firing_def Let_def)
qed

theorem unhealthy_raises_witness:
  "\<exists>k a. get_alert k (ct_store (snd (process_diagnosis sample_env (sample_report PATH_SHARED) None sample_state))) = Some a \<and>
     al_state a = AL_FIRING \<and> al_rule_id a = ''r1''"
proof -
  have "rule_matches sample_rule (sample_report PATH_SHARED)" by code_simp
  from unhealthy_raises [OF sample_reachable sample_inj sample_rules this, of None]
  show ?thesis by (auto simp: Let_def sample_rule_def default_alert_rule_def)
qed

section \<open>Schedules\<close>

text \<open>C11: A scheduler pass advances exactly the due schedules, whether their diagnosis succeeds or
  raises, and leaves every other schedule as it was; no schedule is lost or invented, and the
  reports it returns are one for each due schedule that is left without an error.\<close>

theorem schedules_isolated:
  assumes "reachable env s" "inj (ev_uuid env)" "run_due_schedules env (Some now) s = (reports, s')"
  shows "(\<forall>k sc. get_schedule k (ct_store s) = Some sc \<longrightarrow> (\<exists>err. get_schedule k (ct_store s') =
        Some (if is_due sc now then advance_schedule sc now err else sc))) \<and>
    (\<forall>k. get_schedule k (ct_store s) = None \<longrightarrow> get_schedule k (ct_store s') = None) \<and>
    length reports = length (filter (\<lambda>sc. is_due sc now \<and>
       map_option sc_last_error (get_schedule (sc_schedule_id sc) (ct_store s')) = Some None)
       (list_schedules None (ct_store s)))"
proof -
  have t: "tables_ok (ct_store s)" by (rule controller_okD(1) [OF reachable_ok [OF assms(1,2)]])
  note l = list_schedules_all [OF t]
  have run: "run_schedules env now (list_schedules None (ct_store s)) s = (reports, s')"
    using assms(3) by (simp add: run_due_schedules_def time_or_def)
  have key: "sc_schedule_id sc = k" if "get_schedule k (ct_store s) = Some sc" for k sc
  proof -
    have "table_rows (\<lambda>k s. k = sc_schedule_id s) (st_schedules (ct_store s))"
      using t by (simp add: tables_ok_def)
    from table_rows_get [OF this that [unfolded get_schedule_def]] show ?thesis by simp
  qed
  have stored: "get_schedule (sc_schedule_id sc) (ct_store s) = Some sc"
    if "sc \<in> set (list_schedules None (ct_store s))" for sc
    using that l(2) [of sc] by (rule iffD1 [rotated])
  note eff = run_schedules_effect [OF l(1) stored, where env = env and now = now, unfolded run fst_conv snd_conv run_ok_def]
  show ?thesis
  proof (intro conjI allI impI)
    fix k sc assume k: "get_schedule k (ct_store s) = Some sc"
    then have "sc \<in> set (list_schedules None (ct_store s))" using key [OF k] by (intro iffD2 [OF l(2)]) simp
    from bspec [OF conjunct1 [OF eff] this] show "\<exists>err. get_schedule k (ct_store s') =
        Some (if is_due sc now then advance_schedule sc now err else sc)"
      by (simp only: key [OF k])
  next
    fix k assume k: "get_schedule k (ct_store s) = None"
    then have "k \<notin> sc_schedule_id ` set (list_schedules None (ct_store s))"
      using stored by (metis imageE option.distinct(1))
    with conjunct1 [OF conjunct2 [OF eff]] k show "get_schedule k (ct_store s') = None" by simp
  qed (rule conjunct2 [OF conjunct2 [OF eff]])
qed

theorem schedules_isolated_witness:
  "\<exists>reports s'. run_due_schedules sample_env (Some 5) sample_state = (reports, s') \<and>
     length reports = length (filter (\<lambda>sc. is_due sc 5 \<and>
       map_option sc_last_error (get_schedule (sc_schedule_id sc) (ct_store s')) = Some None)
       (list_schedules None (ct_store sample_state)))"
proof -
  obtain reports s' where r: "run_due_schedules sample_env (Some 5) sample_state = (reports, s')" by fastforce
  with schedules_isolated [OF sample_reachable sample_inj r] show ?thesis by blast
qed

section \<open>Diagnosis, jobs and services\<close>

text \<open>Reading: the actions that leave the tables alone.\<close>

definition same_store :: "controller \<Rightarrow> controller \<Rightarrow> bool" where
  "same_store s t = (ct_store t = ct_store s)"

interpretation still: controller_relation same_store
  by unfold_locales (auto simp: same_store_def)

lemma read_bind:
  assumes "still.keeps m"
    "\<And>x s1. m s = (Inr x, s1) \<Longrightarrow> ct_store s1 = ct_store s \<Longrightarrow> P (f x s1)"
    "\<And>e s1. m s = (Inl e, s1) \<Longrightarrow> ct_store s1 = ct_store s \<Longrightarrow> P (Inl e, s1)"
  shows "P (bindA m f s)"
proof -
  obtain r s1 where m: "m s = (r, s1)" by fastforce
  have "ct_store s1 = ct_store s" using still.keepsD [OF assms(1), of s] by (simp add: m same_store_def)
  then show ?thesis using assms(2,3) m by (cases r) (auto simp: bindA_def)
qed

definition diagnosed :: "diagnosis_request \<Rightarrow> store \<Rightarrow> multi_vantage_report result \<times> controller \<Rightarrow> bool" where
  "diagnosed request st rs = (case rs of
     (Inl e, s') \<Rightarrow> ct_store s' = st
   | (Inr report, s') \<Rightarrow> (\<exists>now service. ct_store s' = save_diagnosis now report st \<and>
        get_service (dq_service_id request) st = Some service \<and>
        mv_target report = se_host service \<and> mv_service_id report = Some (se_service_id service)))"

lemma localize_report:
  "mv_diagnosis_id (localize_fault d n obs target sid tpl errs) = d"
  "mv_target (localize_fault d n obs target sid tpl errs) = target"
  "mv_service_id (localize_fault d n obs target sid tpl errs) = sid"
  by (simp_all add: localize_fault_def Let_def case_prod_beta)

lemma diagnosed_run_plan:
  assumes sv: "get_service (dq_service_id request) (ct_store s) = Some service"
  shows "diagnosed request (ct_store s) (run_plan env request service topology plan s)"
  unfolding run_plan_def
proof (rule read_bind)
  fix probe and s1 :: controller assume 1: "ct_store s1 = ct_store s"
  show "diagnosed request (ct_store s) (bindA (readA (plan_agents plan)) (\<lambda>agents.
      bindA (fanout env agents probe) (\<lambda>(observations, errors).
      bindA (liftA (mapR validate_vantage_observation (vantage_observations service plan observations))) (\<lambda>vos.
        localize env service topology vos errors))) s1)"
  proof (rule read_bind)
    fix agents and s2 :: controller assume 2: "ct_store s2 = ct_store s1"
    show "diagnosed request (ct_store s) (bindA (fanout env agents probe) (\<lambda>(observations, errors).
      bindA (liftA (mapR validate_vantage_observation (vantage_observations service plan observations))) (\<lambda>vos.
        localize env service topology vos errors)) s2)"
    proof (rule read_bind)
      fix oe and s3 :: controller assume 3: "ct_store s3 = ct_store s2"
      show "diagnosed request (ct_store s) ((case oe of (observations, errors) \<Rightarrow>
        bindA (liftA (mapR validate_vantage_observation (vantage_observations service plan observations))) (\<lambda>vos.
          localize env service topology vos errors)) s3)"
        unfolding case_prod_beta
      proof (rule read_bind)
        fix vos and s4 :: controller assume 4: "ct_store s4 = ct_store s3"
        show "diagnosed request (ct_store s) (localize env service topology vos (snd oe) s4)"
          using sv 1 2 3 4
          by (auto simp: diagnosed_def localize_def save_report_def pureA_def writeA_def bindA_def act_defs
              next_uuid_def next_stamp_def next_time_def localize_report)
      qed (use 1 2 3 in \<open>auto simp: diagnosed_def still.keeps_pure\<close>)
    qed (use 1 2 in \<open>auto simp: diagnosed_def still.keeps_fanout\<close>)
  qed (use 1 in \<open>auto simp: diagnosed_def still.keeps_read\<close>)
qed (auto simp: diagnosed_def still.keeps_pure)

text \<open>C12: A diagnosis is atomic: when it raises, no table has changed; when it returns, the only
  change is the saved report, which can be read back under its id and names the service and host
  that were asked for.\<close>

theorem diagnosis_atomic:
  "case diagnose_service env request s of
     (Inl e, s') \<Rightarrow> ct_store s' = ct_store s
   | (Inr report, s') \<Rightarrow> (\<exists>now service. ct_store s' = save_diagnosis now report (ct_store s) \<and>
        get_diagnosis (mv_diagnosis_id report) (ct_store s') = Some report \<and>
        get_service (dq_service_id request) (ct_store s) = Some service \<and>
        mv_target report = se_host service \<and> mv_service_id report = Some (se_service_id service))"
proof -
  have "diagnosed request (ct_store s) (diagnose_service env request s)"
    unfolding diagnose_service_def Let_def
  proof (rule read_bind)
    fix service and s1 :: controller
    assume 1: "requireA (get_service (dq_service_id request))
        (UnknownServiceError (''unknown service: '' @ dq_service_id request)) s = (Inr service, s1)"
      and s1: "ct_store s1 = ct_store s"
    have sv: "get_service (dq_service_id request) (ct_store s) = Some service"
      using 1 by (auto simp: requireA_def readA_def bindA_def act_defs split: option.splits)
    let ?k = "\<lambda>topology correlation. if vp_assignments (select_vantages topology service (ac_nodes correlation) (dq_source_node_id request)) = []
        then failA (NoVantageAgentsError (''no registered agents available in topology '' @ [CHR 0x27] @
            nt_name topology @ [CHR 0x27] @ '' to diagnose '' @ se_service_id service))
        else run_plan env request service topology (select_vantages topology service (ac_nodes correlation) (dq_source_node_id request))"
    show "diagnosed request (ct_store s) (bindA (topology_for_service service (dq_topology request))
        (\<lambda>topology. bindA (correlate_agents (nt_name topology)) (?k topology)) s1)"
    proof (rule read_bind)
      fix topology and s2 :: controller assume 2: "ct_store s2 = ct_store s1"
      show "diagnosed request (ct_store s) (bindA (correlate_agents (nt_name topology)) (?k topology) s2)"
      proof (rule read_bind)
        fix correlation and s3 :: controller assume 3: "ct_store s3 = ct_store s2"
        show "diagnosed request (ct_store s) (?k topology correlation s3)"
          using diagnosed_run_plan [of request s3 service env topology] sv s1 2 3
          by (auto simp: diagnosed_def failA_def)
      qed (use s1 2 in \<open>auto simp: diagnosed_def still.keeps_correlate_agents\<close>)
    qed (use s1 in \<open>auto simp: diagnosed_def still.keeps_topology_for_service\<close>)
  qed (auto simp: diagnosed_def still.keeps_require)
  then show ?thesis by (fastforce simp: diagnosed_def split: sum.splits prod.splits)
qed

text \<open>C15: Registering an inventory is all or nothing: when a service refers to a node that the
  resolved topology does not have, nothing is stored; otherwise every service of the inventory can
  be read back, and no other service is touched.\<close>

theorem registration_atomic:
  "case register_services services name s of
     (Inl e, s') \<Rightarrow> s' = s
   | (Inr xs, s') \<Rightarrow> xs = services \<and>
       (distinct (map se_service_id services) \<longrightarrow>
          (\<forall>sv \<in> set services. get_service (se_service_id sv) (ct_store s') = Some sv)) \<and>
       (\<forall>k. k \<notin> se_service_id ` set services \<longrightarrow> get_service k (ct_store s') = get_service k (ct_store s)) \<and>
       (\<forall>n t. name = Some n \<longrightarrow> get_topology n (ct_store s) = Some t \<longrightarrow>
          (\<forall>sv \<in> set services. \<forall>i. se_node_id sv = Some i \<longrightarrow> has_node t i))"
proof -
  let ?f = "foldl (\<lambda>st s. upsert_service s st)"
  have chk: "has_node t i" if "mapR (check_service_node t) services = Inr us" "sv \<in> set services" "se_node_id sv = Some i"
    for t us sv i
    using that by (induction services arbitrary: us)
      (auto simp: bindR_eq_Inr check_service_node_def split: option.splits if_splits)
  have top: "\<exists>r. resolve_topology name s = (r, s) \<and>
      (\<forall>n t. name = Some n \<longrightarrow> get_topology n (ct_store s) = Some t \<longrightarrow> r = Inr (Some t))"
    by (cases name) (auto simp: resolve_topology_def require_named_topology_def requireA_def readA_def
        bindA_def act_defs split: option.splits)
  then obtain r where r: "resolve_topology name s = (r, s)"
    "\<And>n t. name = Some n \<Longrightarrow> get_topology n (ct_store s) = Some t \<Longrightarrow> r = Inr (Some t)" by blast
  show ?thesis
  proof (cases r)
    case (Inl e)
    then show ?thesis using r by (simp add: register_services_def bindA_def)
  next
    case (Inr topology)
    let ?c = "case topology of None \<Rightarrow> Inr [] | Some t \<Rightarrow> mapR (check_service_node t) services"
    show ?thesis
    proof (cases ?c)
      case (Inl e)
      then show ?thesis using r Inr by (simp add: register_services_def bindA_def act_defs)
    next
      case c: (Inr us)
      have run: "register_services services name s = (Inr services, on_store (\<lambda>st. ?f st services) s)"
        using r Inr c by (simp add: register_services_def bindA_def act_defs writeA_def)
      have nodes: "has_node t i" if "name = Some n" "get_topology n (ct_store s) = Some t"
        "sv \<in> set services" "se_node_id sv = Some i" for n t sv i
        using r(2) [OF that(1,2)] Inr c chk that(3,4) by auto
      show ?thesis
        unfolding run using nodes services.get_put_all_distinct services.get_put_all_other by auto
    qed
  qed
qed

theorem registration_atomic_witness:
  "get_service ''s'' (ct_store (snd (register_services [sample_service] None initial))) = Some sample_service"
proof -
  have "fst (register_services [sample_service] None initial) = Inr [sample_service]" by code_simp
  moreover have "se_service_id sample_service = ''s''" by (simp add: sample_service_def)
  ultimately show ?thesis
    using registration_atomic [where services = "[sample_service]" and name = None and s = initial]
    by (cases "register_services [sample_service] None initial") auto
qed

end
