(* ===== verification/Interleaving.thy ===== *)
theory Interleaving
  imports Controller_Props
begin

text \<open>
  The controller with several threads: every request of the HTTP server runs in a thread of its own and
  the scheduler in another, and they share the store through sessions that commit one by one
  (\<open>_session\<close> of \<open>controller/store.py\<close>), without a lock. Here the operations of
  \<open>controller/service.py\<close> on alerts and incidents are cut at these sessions: a worker is a thread
  between two of them, with what it has read and not yet written. A worker that runs alone does what the
  operation of the theory of the service does; the section on the bound says what is left of the
  invariant of one active incident when they interleave.
\<close>

section \<open>Workers\<close>

text \<open>A thread at the head of the loop over the rules, about to save an alert, about to look for the incident
  of the alert, about to save an incident; closing the alerts it has listed, about to list the incidents,
  closing those; about to save an incident it has changed.\<close>

datatype worker =
    Idle
  | Firing "alert_rule list" multi_vantage_report rat bool
  | Saving_Alert alert "alert_rule list" multi_vantage_report rat bool
  | Attaching alert "alert_rule list" multi_vantage_report rat bool
  | Saving_Incident incident "alert_rule list" multi_vantage_report rat bool
  | Closing_Alerts "alert list" "string option" rat
  | Listing "string option" rat
  | Closing_Incidents "incident list"
  | Changing incident

text \<open>The sessions that look for the firing alert of a rule and for the active incident of an alert.\<close>

definition find_alert ::
  "env \<Rightarrow> alert_rule \<Rightarrow> alert_rule list \<Rightarrow> multi_vantage_report \<Rightarrow> rat \<Rightarrow> bool \<Rightarrow> controller \<Rightarrow> worker \<times> controller" where
  "find_alert env rule rules report now regression s =
     (case find_firing_alert (ru_rule_id rule) (mv_service_id report) (ct_store s) of
        Some old \<Rightarrow> (Saving_Alert (refire_alert (mv_diagnosis_id report) now regression old) rules report now regression, s)
      | None \<Rightarrow> (case next_uuid env s of (k, s1) \<Rightarrow>
          (Saving_Alert (build_alert k rule report now regression) rules report now regression, s1)))"

definition find_incident ::
  "env \<Rightarrow> alert \<Rightarrow> alert_rule list \<Rightarrow> multi_vantage_report \<Rightarrow> rat \<Rightarrow> bool \<Rightarrow> controller \<Rightarrow> worker \<times> controller" where
  "find_incident env a rules report now regression s =
     (case find_active_incident (al_service_id a) (ct_store s) of
        None \<Rightarrow> (case next_uuid env s of (k, s1) \<Rightarrow>
          (Saving_Incident (open_incident k a report now) rules report now regression, s1))
      | Some old \<Rightarrow> (Saving_Incident (absorb_alert a report now old) rules report now regression, s))"

declare find_alert_def [simp] find_incident_def [simp]

text \<open>One session of a thread.\<close>

fun worker_step :: "env \<Rightarrow> worker \<Rightarrow> controller \<Rightarrow> worker \<times> controller" where
  "worker_step env Idle s = (Idle, s)"
| "worker_step env (Firing [] report now regression) s = (Idle, s)"
| "worker_step env (Firing (rule # rules) report now regression) s =
     find_alert env rule rules report now regression s"
| "worker_step env (Saving_Alert a rules report now regression) s =
     (Attaching a rules report now regression, on_store (save_alert a) s)"
| "worker_step env (Attaching a rules report now regression) s =
     find_incident env a rules report now regression s"
| "worker_step env (Saving_Incident i rules report now regression) s =
     (Firing rules report now regression, on_store (save_incident i) s)"
| "worker_step env (Closing_Alerts [] sid now) s = (Listing sid now, s)"
| "worker_step env (Closing_Alerts (a # as) sid now) s = (Closing_Alerts as sid now, on_store (save_alert a) s)"
| "worker_step env (Listing sid now) s =
     (Closing_Incidents (map (close_incident now) (filter active (list_incidents sid None list_limit (ct_store s)))), s)"
| "worker_step env (Closing_Incidents []) s = (Idle, s)"
| "worker_step env (Closing_Incidents (i # is)) s = (Closing_Incidents is, on_store (save_incident i) s)"
| "worker_step env (Changing i) s = (Idle, on_store (save_incident i) s)"

text \<open>How an operation begins: an unhealthy diagnosis reads the rules, a healthy one the firing alerts of its
  service, a request the incident it acknowledges or resolves.\<close>

inductive begins :: "store \<Rightarrow> worker \<Rightarrow> bool" where
  raise: "\<not> is_healthy report \<Longrightarrow>
    begins st (Firing (matching_rules (list_alert_rules st) report) report now regression)"
| resolve: "begins st (Closing_Alerts (map (close_alert now) (list_alerts sid (Some AL_FIRING) list_limit st)) sid now)"
| acknowledge: "get_incident k st = Some i \<Longrightarrow> in_state i \<noteq> INC_RESOLVED \<Longrightarrow> begins st (Changing (acknowledge now i))"
| close: "get_incident k st = Some i \<Longrightarrow> in_state i \<noteq> INC_RESOLVED \<Longrightarrow> begins st (Changing (close_incident now i))"

text \<open>A step of the process: a worker begins an operation or goes on with it, or anything else happens that
  leaves the two tables alone.\<close>

inductive interleaved :: "env \<Rightarrow> worker list \<times> controller \<Rightarrow> worker list \<times> controller \<Rightarrow> bool" for env where
  begin_step: "n < length ws \<Longrightarrow> ws ! n = Idle \<Longrightarrow> begins (ct_store s) w \<Longrightarrow> interleaved env (ws, s) (ws[n := w], s)"
| go_on: "n < length ws \<Longrightarrow> ws ! n \<noteq> Idle \<Longrightarrow> worker_step env (ws ! n) s = (w, s') \<Longrightarrow>
    interleaved env (ws, s) (ws[n := w], s')"
| elsewhere: "st_incidents (ct_store s') = st_incidents (ct_store s) \<Longrightarrow> st_alerts (ct_store s') = st_alerts (ct_store s) \<Longrightarrow>
    ct_uuids s \<le> ct_uuids s' \<Longrightarrow> interleaved env (ws, s) (ws, s')"

inductive_cases interleavedE: "interleaved env c c'"
inductive_cases beginsE: "begins st w"

section \<open>A worker alone\<close>

definition alone :: "env \<Rightarrow> worker \<times> controller \<Rightarrow> worker \<times> controller \<Rightarrow> bool" where
  "alone env c c' = (fst c \<noteq> Idle \<and> c' = worker_step env (fst c) (snd c))"

lemma alone_step: "w \<noteq> Idle \<Longrightarrow> (alone env)\<^sup>*\<^sup>* (worker_step env w s) c \<Longrightarrow> (alone env)\<^sup>*\<^sup>* (w, s) c"
  by (rule converse_rtranclp_into_rtranclp) (simp_all add: alone_def)

lemma firing_alone:
  "(alone env)\<^sup>*\<^sup>* (Firing rules report now regression, s) (Idle, snd (fire_rules env rules report now regression s))"
proof (induction rules arbitrary: s)
  case Nil
  show ?case by (rule alone_step) simp_all
next
  case (Cons rule rules)
  obtain a s1 where a: "fire_rule env rule report now regression s = (a, s1)" by fastforce
  obtain i s2 where i: "attach_to_incident env a report now s1 = (i, s2)" by fastforce
  have "(alone env)\<^sup>*\<^sup>* (Firing (rule # rules) report now regression, s) (Firing rules report now regression, s2)"
    using a i
    by (intro alone_step)
      (auto simp: fire_rule_def attach_to_incident_def next_uuid_def Let_def on_store_def
        intro!: alone_step split: option.splits)
  also have "(alone env)\<^sup>*\<^sup>* (Firing rules report now regression, s2) (Idle, snd (fire_rules env rules report now regression s2))"
    by (rule Cons.IH)
  finally show ?case by (simp add: a i case_prod_beta)
qed

lemma closing_alerts_alone:
  "(alone env)\<^sup>*\<^sup>* (Closing_Alerts as sid now, s) (Listing sid now, on_store (\<lambda>st. foldl (\<lambda>st a. save_alert a st) st as) s)"
proof (induction as arbitrary: s)
  case Nil
  show ?case by (rule alone_step) (simp_all add: on_store_def)
next
  case (Cons a as)
  show ?case by (rule alone_step) (use Cons.IH [of "on_store (save_alert a) s"] in \<open>simp_all add: on_store_def\<close>)
qed

lemma closing_incidents_alone:
  "(alone env)\<^sup>*\<^sup>* (Closing_Incidents is, s) (Idle, on_store (\<lambda>st. foldl (\<lambda>st i. save_incident i st) st is) s)"
proof (induction "is" arbitrary: s)
  case Nil
  show ?case by (rule alone_step) (simp_all add: on_store_def)
next
  case (Cons i "is")
  show ?case by (rule alone_step) (use Cons.IH [of "on_store (save_incident i) s"] in \<open>simp_all add: on_store_def\<close>)
qed

lemma resolving_alone:
  "(alone env)\<^sup>*\<^sup>* (Closing_Alerts (map (close_alert now) (list_alerts sid (Some AL_FIRING) list_limit (ct_store s))) sid now, s)
     (Idle, snd (resolve_service sid now s))"
proof -
  define s1 where "s1 = on_store (\<lambda>st. foldl (\<lambda>st a. save_alert a st) st
    (map (close_alert now) (list_alerts sid (Some AL_FIRING) list_limit (ct_store s)))) s"
  define closed where "closed = map (close_incident now) (filter active (list_incidents sid None list_limit (ct_store s1)))"
  have "(alone env)\<^sup>*\<^sup>* (Listing sid now, s1) (Idle, on_store (\<lambda>st. foldl (\<lambda>st i. save_incident i st) st closed) s1)"
    by (rule alone_step) (use closing_incidents_alone [of env closed s1] in \<open>simp_all add: closed_def\<close>)
  with closing_alerts_alone [of env _ sid now s, folded s1_def]
  have "(alone env)\<^sup>*\<^sup>* (Closing_Alerts (map (close_alert now) (list_alerts sid (Some AL_FIRING) list_limit (ct_store s))) sid now, s)
      (Idle, on_store (\<lambda>st. foldl (\<lambda>st i. save_incident i st) st closed) s1)"
    unfolding s1_def by (rule rtranclp_trans)
  then show ?thesis by (simp only: resolve_service_def Let_def snd_conv closed_def s1_def foldl_map)
qed

section \<open>What the workers hold\<close>

text \<open>The incidents a worker has read or built and not yet written; a tracked incident is stored or held.\<close>

fun held :: "worker \<Rightarrow> incident list" where
  "held (Saving_Incident i rules report now regression) = [i]"
| "held (Closing_Incidents is) = is"
| "held (Changing i) = [i]"
| "held _ = []"

definition tracked :: "worker list \<Rightarrow> controller \<Rightarrow> incident \<Rightarrow> bool" where
  "tracked ws s i = (get_incident (in_incident_id i) (ct_store s) = Some i \<or> (\<exists>w \<in> set ws. i \<in> set (held w)))"

text \<open>A list of the ids of a service that are, or may again become, open or acknowledged.\<close>

definition covers :: "worker list \<Rightarrow> controller \<Rightarrow> string option \<Rightarrow> string list \<Rightarrow> bool" where
  "covers ws s sid ks = (\<forall>i. tracked ws s i \<longrightarrow> active i \<longrightarrow> in_service_id i = sid \<longrightarrow> in_incident_id i \<in> set ks)"

definition workers_ok :: "env \<Rightarrow> worker list \<Rightarrow> controller \<Rightarrow> bool" where
  "workers_ok env ws s =
     (table_rows incident_row_ok (st_incidents (ct_store s)) \<and>
      (\<forall>i j. tracked ws s i \<longrightarrow> tracked ws s j \<longrightarrow> in_incident_id i = in_incident_id j \<longrightarrow>
         in_service_id i = in_service_id j \<and> in_opened_at i = in_opened_at j) \<and>
      (\<forall>i. tracked ws s i \<longrightarrow> (\<exists>n < ct_uuids s. in_incident_id i = ev_uuid env n)) \<and>
      (\<forall>is. Closing_Incidents is \<in> set ws \<longrightarrow> (\<forall>i \<in> set is. \<not> active i)) \<and>
      (\<forall>sid. \<exists>ks. length ks \<le> length ws \<and> covers ws s sid ks))"

lemma workers_okD:
  assumes "workers_ok env ws s"
  shows "table_rows incident_row_ok (st_incidents (ct_store s))"
    "tracked ws s i \<Longrightarrow> tracked ws s j \<Longrightarrow> in_incident_id i = in_incident_id j \<Longrightarrow>
       in_service_id i = in_service_id j \<and> in_opened_at i = in_opened_at j"
    "tracked ws s i \<Longrightarrow> \<exists>n < ct_uuids s. in_incident_id i = ev_uuid env n"
    "Closing_Incidents is \<in> set ws \<Longrightarrow> i \<in> set is \<Longrightarrow> \<not> active i"
    "\<exists>ks. length ks \<le> length ws \<and> covers ws s sid ks"
  using assms unfolding workers_ok_def by blast+

text \<open>The lemmas on the queries need the table of the incidents only.\<close>

definition incidents_only :: "store \<Rightarrow> store" where
  "incidents_only st = empty_store \<lparr> st_incidents := st_incidents st \<rparr>"

lemma incidents_only_simps [simp]:
  "get_incident k (incidents_only st) = get_incident k st"
  "find_active_incident sid (incidents_only st) = find_active_incident sid st"
  "list_incidents sid state n (incidents_only st) = list_incidents sid state n st"
  "tables_ok (incidents_only st) = table_rows incident_row_ok (st_incidents st)"
  "tables_ok (save_incident i (incidents_only st)) = table_rows incident_row_ok (st_incidents (save_incident i st))"
  by (simp_all add: incidents_only_def tables_ok_def empty_store_def get_incident_def find_active_incident_def
      list_incidents_def save_incident_def)

lemmas table_get_row = get_incident_row(1) [of "incidents_only st" for st, simplified]
lemmas table_find_Some = find_active_Some [of "incidents_only st" for st, simplified]
lemmas table_find_None = find_active_None [of "incidents_only st" for st, simplified]
lemmas table_list_in = list_incidents_in [of "incidents_only st" for st, simplified]
lemmas incident_table_save = tables_ok_save_incident [of "incidents_only st" for st, simplified]

text \<open>A step whose incidents all come from tracked ones: no new id, no other service, none reopened.\<close>

lemma workers_ok_derived:
  assumes ok: "workers_ok env ws s" and len: "length ws' = length ws" and drawn: "ct_uuids s \<le> ct_uuids s'"
    and table: "table_rows incident_row_ok (st_incidents (ct_store s'))"
    and closing: "\<And>is i. Closing_Incidents is \<in> set ws' \<Longrightarrow> i \<in> set is \<Longrightarrow> \<not> active i"
    and origin: "\<And>i. tracked ws' s' i \<Longrightarrow> \<exists>j. tracked ws s j \<and> in_incident_id j = in_incident_id i \<and>
      in_service_id j = in_service_id i \<and> in_opened_at j = in_opened_at i \<and> (active i \<longrightarrow> active j)"
  shows "workers_ok env ws' s'"
  unfolding workers_ok_def
proof (intro conjI allI impI ballI)
  fix i j assume "tracked ws' s' i" "tracked ws' s' j" "in_incident_id i = in_incident_id j"
  with origin workers_okD(2) [OF ok] show "in_service_id i = in_service_id j" "in_opened_at i = in_opened_at j"
    by metis+
next
  fix i assume "tracked ws' s' i"
  with origin workers_okD(3) [OF ok] drawn show "\<exists>n < ct_uuids s'. in_incident_id i = ev_uuid env n"
    by (metis less_le_trans)
next
  fix sid
  obtain ks where "length ks \<le> length ws" "covers ws s sid ks" using workers_okD(5) [OF ok] by blast
  with origin len have "length ks \<le> length ws' \<and> covers ws' s' sid ks" unfolding covers_def by metis
  then show "\<exists>ks. length ks \<le> length ws' \<and> covers ws' s' sid ks" by blast
qed (use table closing in auto)


text \<open>When a service has no open or acknowledged incident in the store, each worker holds at most one.\<close>

lemma covers_workers:
  assumes "\<And>is i. Closing_Incidents is \<in> set ws \<Longrightarrow> i \<in> set is \<Longrightarrow> \<not> active i"
    "\<And>i. get_incident (in_incident_id i) (ct_store s) = Some i \<Longrightarrow> in_service_id i = sid \<Longrightarrow> \<not> active i"
  shows "covers ws s sid (map (\<lambda>w. in_incident_id (hd (held w))) ws)"
  unfolding covers_def
proof (intro allI impI)
  fix i assume i: "tracked ws s i" "active i" "in_service_id i = sid"
  with assms(2) obtain w where w: "w \<in> set ws" "i \<in> set (held w)" by (auto simp: tracked_def)
  have "held w = [i]"
    using w i(2) assms(1) by (cases w rule: worker.exhaust) auto
  with w(1) show "in_incident_id i \<in> set (map (\<lambda>w. in_incident_id (hd (held w))) ws)"
    by (auto intro!: image_eqI [where x = w])
qed


lemma tracked_update:
  "n < length ws \<Longrightarrow> tracked (ws[n := w]) s i \<Longrightarrow> tracked ws s i \<or> i \<in> set (held w)"
  by (auto simp: tracked_def dest!: set_update_subset_insert [THEN subsetD])

lemma tracked_held: "n < length ws \<Longrightarrow> i \<in> set (held (ws ! n)) \<Longrightarrow> tracked ws s i"
  unfolding tracked_def using nth_mem by blast

text \<open>A worker that reads: what it now holds comes from what is stored or from what it held.\<close>

lemma workers_ok_read:
  assumes ok: "workers_ok env ws s" and n: "n < length ws" and drawn: "ct_uuids s \<le> ct_uuids s'"
    and same: "st_incidents (ct_store s') = st_incidents (ct_store s)"
    and closing: "\<And>is i. w = Closing_Incidents is \<Longrightarrow> i \<in> set is \<Longrightarrow> \<not> active i"
    and origin: "\<And>i. i \<in> set (held w) \<Longrightarrow> \<exists>j. (get_incident (in_incident_id j) (ct_store s) = Some j \<or> j \<in> set (held (ws ! n))) \<and>
      in_incident_id j = in_incident_id i \<and> in_service_id j = in_service_id i \<and> in_opened_at j = in_opened_at i \<and>
      (active i \<longrightarrow> active j)"
  shows "workers_ok env (ws[n := w]) s'"
proof (rule workers_ok_derived [OF ok])
  fix i assume "tracked (ws[n := w]) s' i"
  moreover have "tracked (ws[n := w]) s' i \<longleftrightarrow> tracked (ws[n := w]) s i"
    by (simp add: tracked_def get_incident_def same)
  ultimately consider "tracked ws s i" | "i \<in> set (held w)" using tracked_update [OF n] by blast
  then show "\<exists>j. tracked ws s j \<and> in_incident_id j = in_incident_id i \<and>
      in_service_id j = in_service_id i \<and> in_opened_at j = in_opened_at i \<and> (active i \<longrightarrow> active j)"
  proof cases
    case 2
    from origin [OF this] show ?thesis using tracked_held [OF n] unfolding tracked_def by blast
  qed blast
next
  fix "is" i assume "Closing_Incidents is \<in> set (ws[n := w])" "i \<in> set is"
  then show "\<not> active i"
    using closing workers_okD(4) [OF ok] by (auto dest!: set_update_subset_insert [THEN subsetD])
qed (use drawn same workers_okD(1) [OF ok] in simp_all)

text \<open>A worker that saves an incident it holds, and keeps the others.\<close>

lemma workers_ok_write:
  assumes ok: "workers_ok env ws s" and n: "n < length ws" and i: "i \<in> set (held (ws ! n))"
    and rest: "set (held w) \<subseteq> set (held (ws ! n))"
    and closing: "\<And>is i. w = Closing_Incidents is \<Longrightarrow> i \<in> set is \<Longrightarrow> \<not> active i"
  shows "workers_ok env (ws[n := w]) (on_store (save_incident i) s)"
proof (rule workers_ok_derived [OF ok])
  note i_in = tracked_held [OF n i]
  fix j assume j: "tracked (ws[n := w]) (on_store (save_incident i) s) j"
  have "tracked (ws[n := w]) s j \<or> j = i"
    using j by (auto simp: tracked_def incidents.get_put split: if_splits)
  then have "tracked ws s j"
    using tracked_update [OF n] tracked_held [OF n] rest i_in by blast
  then show "\<exists>j'. tracked ws s j' \<and> in_incident_id j' = in_incident_id j \<and>
      in_service_id j' = in_service_id j \<and> in_opened_at j' = in_opened_at j \<and> (active j \<longrightarrow> active j')"
    by blast
next
  have "tracked ws s old" if "get_incident (in_incident_id i) (ct_store s) = Some old" for old
    using that table_get_row [OF workers_okD(1) [OF ok] that] by (simp add: tracked_def)
  then show "table_rows incident_row_ok (st_incidents (ct_store (on_store (save_incident i) s)))"
    using workers_okD(2) [OF ok tracked_held [OF n i]] table_get_row [OF workers_okD(1) [OF ok]]
    by (auto intro!: incident_table_save workers_okD(1) [OF ok])
next
  fix "is" j assume "Closing_Incidents is \<in> set (ws[n := w])" "j \<in> set is"
  then show "\<not> active j"
    using closing workers_okD(4) [OF ok] by (auto dest!: set_update_subset_insert [THEN subsetD])
qed simp_all


text \<open>A worker that opens an incident, because it has found none.\<close>

lemma workers_ok_open:
  assumes u: "inj (ev_uuid env)" and ok: "workers_ok env ws s" and n: "n < length ws"
    and none: "find_active_incident (in_service_id new) (ct_store s) = None"
    and new: "in_incident_id new = ev_uuid env (ct_uuids s)"
    and s': "ct_store s' = ct_store s" "ct_uuids s' = Suc (ct_uuids s)"
    and ws'_def: "ws' = ws[n := Saving_Incident new rules report now regression]"
  shows "workers_ok env ws' s'"
proof -
  note table = workers_okD(1) [OF ok]
  have either: "tracked ws s i \<or> i = new" if "tracked ws' s' i" for i
    using tracked_update [OF n, of "Saving_Incident new rules report now regression" s i] that
    by (auto simp: ws'_def tracked_def s')
  have fresh: "in_incident_id i \<noteq> in_incident_id new" if "tracked ws s i" for i
    using workers_okD(3) [OF ok that] new injD [OF u] by fastforce
  have closing: "\<not> active i" if "Closing_Incidents is \<in> set ws'" "i \<in> set is" for "is" i
    using that workers_okD(4) [OF ok] by (auto simp: ws'_def dest!: set_update_subset_insert [THEN subsetD])
  have cover: "\<exists>ks. length ks \<le> length ws' \<and> covers ws' s' sid ks" for sid
  proof (cases "sid = in_service_id new")
    case True
    have "covers ws' s' sid (map (\<lambda>w. in_incident_id (hd (held w))) ws')"
      by (rule covers_workers) (use closing True table_find_None [OF table none] s' in auto)
    then show ?thesis by (metis length_map order_refl)
  next
    case False
    obtain ks where "length ks \<le> length ws" "covers ws s sid ks" using workers_okD(5) [OF ok] by blast
    then have "length ks \<le> length ws' \<and> covers ws' s' sid ks"
      using either False unfolding covers_def by (auto simp: ws'_def)
    then show ?thesis by blast
  qed
  show ?thesis
    unfolding workers_ok_def
  proof (intro conjI allI impI ballI cover)
    fix i assume "tracked ws' s' i"
    then show "\<exists>m < ct_uuids s'. in_incident_id i = ev_uuid env m"
      using either workers_okD(3) [OF ok, of i] new s'(2) by (auto simp: less_Suc_eq)
  next
    fix i j assume ij: "tracked ws' s' i" "tracked ws' s' j" "in_incident_id i = in_incident_id j"
    have "i = j \<or> tracked ws s i \<and> tracked ws s j"
      using either [OF ij(1)] either [OF ij(2)] fresh ij(3) by metis
    then show "in_service_id i = in_service_id j" "in_opened_at i = in_opened_at j"
      using workers_okD(2) [OF ok _ _ ij(3)] by auto
  qed (use table closing s'(1) in auto)
qed

text \<open>What an operation holds when it begins, and one session of a worker.\<close>

lemma begins_held:
  assumes "begins st w" "table_rows incident_row_ok (st_incidents st)" "i \<in> set (held w)"
  shows "\<exists>j. get_incident (in_incident_id j) st = Some j \<and> in_incident_id j = in_incident_id i \<and>
    in_service_id j = in_service_id i \<and> in_opened_at j = in_opened_at i \<and> (active i \<longrightarrow> active j)"
  using assms table_get_row [OF assms(2)]
  by (elim beginsE) (auto simp: active_iff)

lemma workers_ok_step:
  assumes u: "inj (ev_uuid env)" and ok: "workers_ok env ws s" and n: "n < length ws"
    and "worker_step env (ws ! n) s = (w, s')"
  shows "workers_ok env (ws[n := w]) s'"
  using assms(4)
proof (cases "ws ! n")
  case (Attaching a rules report now regression)
  show ?thesis
  proof (cases "find_active_incident (al_service_id a) (ct_store s)")
    case None
    with assms(4) Attaching show ?thesis
      by (auto simp: next_uuid_def intro!: workers_ok_open [OF u ok n _ _ _ _ refl])
  next
    case (Some old)
    with assms(4) Attaching table_find_Some [OF workers_okD(1) [OF ok] Some] show ?thesis
      by (auto intro!: workers_ok_read [OF ok n])
  qed
next
  case (Listing sid now)
  have "get_incident (in_incident_id i) (ct_store s) = Some i"
    if "i \<in> set (list_incidents sid None list_limit (ct_store s))" for i
    using table_list_in [OF workers_okD(1) [OF ok] that] by simp
  with assms(4) Listing show ?thesis
    by (fastforce intro!: workers_ok_read [OF ok n])
next
  case (Closing_Incidents list)
  have "\<not> active i" if "i \<in> set list" for i
    using workers_okD(4) [OF ok _ that] nth_mem [OF n] Closing_Incidents by metis
  with assms(4) Closing_Incidents show ?thesis
    by (cases list) (auto intro!: workers_ok_write [OF ok n] workers_ok_read [OF ok n])
next
  case (Firing rules report now regression)
  with assms(4) show ?thesis
    by (cases rules) (auto intro!: workers_ok_read [OF ok n] simp: next_uuid_def split: option.splits)
next
  case (Closing_Alerts list sid now)
  with assms(4) show ?thesis
    by (cases list) (auto intro!: workers_ok_read [OF ok n] simp: save_alert_def)
qed (auto intro!: workers_ok_write [OF ok n] workers_ok_read [OF ok n] simp: save_alert_def)


section \<open>The bound\<close>

lemma workers_ok_elsewhere:
  assumes ok: "workers_ok env ws s" and same: "st_incidents (ct_store s') = st_incidents (ct_store s)"
    and drawn: "ct_uuids s \<le> ct_uuids s'"
  shows "workers_ok env ws s'"
proof (rule workers_ok_derived [OF ok])
  show "\<exists>j. tracked ws s j \<and> in_incident_id j = in_incident_id i \<and> in_service_id j = in_service_id i \<and>
      in_opened_at j = in_opened_at i \<and> (active i \<longrightarrow> active j)" if "tracked ws s' i" for i
    using that by (auto simp: tracked_def get_incident_def same)
qed (use workers_okD(1,4) [OF ok] drawn same in auto)

lemma workers_ok_interleaved:
  assumes "interleaved env (ws, s) (ws', s')" "inj (ev_uuid env)" "workers_ok env ws s"
  shows "workers_ok env ws' s' \<and> length ws' = length ws"
  using assms(1)
proof (cases rule: interleaved.cases)
  case (begin_step n w)
  note held = begins_held [OF begin_step(5) workers_okD(1) [OF assms(3)]]
  have "w \<noteq> Closing_Incidents is" for "is" using begin_step(5) by (auto elim: beginsE)
  with begin_step held show ?thesis
    by (auto intro!: workers_ok_read [OF assms(3)])
qed (use assms(2,3) workers_ok_step workers_ok_elsewhere in auto)

lemma tracked_idle:
  assumes "set ws \<subseteq> {Idle}"
  shows "tracked ws s i \<longleftrightarrow> get_incident (in_incident_id i) (ct_store s) = Some i"
  using assms by (auto simp: tracked_def)

lemma covers_one_active:
  assumes "one_active (ct_store s)" "set ws \<subseteq> {Idle}"
  shows "\<exists>ks. length ks \<le> 1 \<and> covers ws s sid ks"
proof (cases "\<exists>i. tracked ws s i \<and> active i \<and> in_service_id i = sid")
  case True
  then obtain i where i: "tracked ws s i" "active i" "in_service_id i = sid" by blast
  have "in_incident_id j = in_incident_id i" if "tracked ws s j" "active j" "in_service_id j = sid" for j
    using assms(1) i that unfolding one_active_def tracked_idle [OF assms(2)] by metis
  then have "covers ws s sid [in_incident_id i]" by (simp add: covers_def)
  then show ?thesis by (intro exI [where x = "[in_incident_id i]"]) simp
next
  case False
  then have "covers ws s sid []" by (auto simp: covers_def)
  then show ?thesis by (intro exI [where x = "[]"]) simp
qed

lemma workers_ok_idle:
  assumes "controller_ok env s" "0 < length ws" "set ws \<subseteq> {Idle}"
  shows "workers_ok env ws s"
  unfolding workers_ok_def tracked_idle [OF assms(3)]
proof (intro conjI allI impI ballI)
  show "table_rows incident_row_ok (st_incidents (ct_store s))"
    using controller_okD(1) [OF assms(1)] by (simp add: tables_ok_def)
  show "\<exists>ks. length ks \<le> length ws \<and> covers ws s sid ks" for sid
  proof -
    obtain ks where "length ks \<le> 1" "covers ws s sid ks"
      using covers_one_active [OF controller_okD(2) [OF assms(1)] assms(3)] by blast
    moreover have "1 \<le> length ws" using assms(2) by linarith
    ultimately show ?thesis using le_trans by blast
  qed
  show "\<exists>n < ct_uuids s. in_incident_id i = ev_uuid env n"
    if "get_incident (in_incident_id i) (ct_store s) = Some i" for i
    using controller_okD(4) [OF assms(1)] that unfolding ids_drawn_def by (metis option.distinct(1))
  show "\<not> active i" if "Closing_Incidents list \<in> set ws" "i \<in> set list" for list i
    using that(1) assms(3) by blast
  fix i j
  assume "get_incident (in_incident_id i) (ct_store s) = Some i" "get_incident (in_incident_id j) (ct_store s) = Some j"
    "in_incident_id i = in_incident_id j"
  then have "i = j" by (metis option.inject)
  then show "in_service_id i = in_service_id j" "in_opened_at i = in_opened_at j" by simp_all
qed

lemma workers_ok_reach:
  assumes "(interleaved env)\<^sup>*\<^sup>* (ws, s) (ws', s')" "inj (ev_uuid env)" "workers_ok env ws s"
  shows "workers_ok env ws' s' \<and> length ws' = length ws"
  using assms(1)
proof (induction "(ws', s')" arbitrary: ws' s' rule: rtranclp_induct)
  case (step c)
  obtain ws1 s1 where c: "c = (ws1, s1)" by fastforce
  from step(3) [OF c] step(2) c workers_ok_interleaved assms(2) show ?case by metis
qed (use assms(3) in simp)


text \<open>A schedule names the worker that takes each session; the workers have begun.\<close>

definition run_schedule :: "env \<Rightarrow> nat list \<Rightarrow> worker list \<times> controller \<Rightarrow> worker list \<times> controller" where
  "run_schedule env ns c = foldl (\<lambda>(ws, s) n. case worker_step env (ws ! n) s of (w, s') \<Rightarrow> (ws[n := w], s')) c ns"

lemma run_schedule_interleaved:
  assumes "\<And>n. n \<in> set ns \<Longrightarrow> n < length ws"
  shows "(interleaved env)\<^sup>*\<^sup>* (ws, s) (run_schedule env ns (ws, s))"
  using assms
proof (induction ns arbitrary: ws s)
  case (Cons n ns)
  obtain w s' where w: "worker_step env (ws ! n) s = (w, s')" by fastforce
  have "(interleaved env)\<^sup>*\<^sup>* (ws, s) (ws[n := w], s')"
  proof (cases "ws ! n = Idle")
    case True
    with w list_update_id [of ws n] show ?thesis by simp
  next
    case False
    with Cons.prems w show ?thesis by (auto intro!: r_into_rtranclp interleaved.go_on)
  qed
  also have "(interleaved env)\<^sup>*\<^sup>* (ws[n := w], s') (run_schedule env ns (ws[n := w], s'))"
    by (rule Cons.IH) (use Cons.prems in simp)
  finally show ?case by (simp add: run_schedule_def w)
qed (simp add: run_schedule_def)

lemma two_begin:
  assumes "begins (ct_store s) v" "begins (ct_store s) w"
  shows "(interleaved env)\<^sup>*\<^sup>* ([Idle, Idle], s) ([v, w], s)"
proof -
  have "interleaved env ([Idle, Idle], s) ([Idle, Idle][0 := v], s)"
    by (rule interleaved.begin_step) (simp_all add: assms)
  moreover have "interleaved env ([v, Idle], s) ([v, Idle][1 := w], s)"
    by (rule interleaved.begin_step) (simp_all add: assms)
  ultimately show ?thesis
    by (auto intro: rtranclp.rtrancl_into_rtrancl converse_rtranclp_into_rtranclp)
qed

lemma two_workers:
  assumes "begins (ct_store s) v" "begins (ct_store s) w" "set ns \<subseteq> {0, 1}"
  shows "(interleaved env)\<^sup>*\<^sup>* ([Idle, Idle], s) (run_schedule env ns ([v, w], s))"
  by (rule rtranclp_trans [OF two_begin [OF assms(1,2)] run_schedule_interleaved]) (use assms(3) in auto)

text \<open>C3: However the sessions of the threads of the controller interleave, a service has at most as
  many open or acknowledged incidents as there are threads. With one thread this is the invariant of
  one active incident; the witness shows that two threads that find no incident open one each.\<close>

theorem interleaved_active_bound:
  assumes "reachable env s" "inj (ev_uuid env)"
    "(interleaved env)\<^sup>*\<^sup>* (replicate (Suc n) Idle, s) (ws, t)"
  shows "card {k. \<exists>i. get_incident k (ct_store t) = Some i \<and> active i \<and> in_service_id i = sid} \<le> Suc n"
proof -
  have "workers_ok env (replicate (Suc n) Idle) s"
    by (rule workers_ok_idle) (use reachable_ok [OF assms(1,2)] in auto)
  from workers_ok_reach [OF assms(3,2) this] have ok: "workers_ok env ws t" and len: "length ws = Suc n"
    by simp_all
  obtain ks where ks: "length ks \<le> length ws" "covers ws t sid ks" using workers_okD(5) [OF ok] by blast
  have "{k. \<exists>i. get_incident k (ct_store t) = Some i \<and> active i \<and> in_service_id i = sid} \<subseteq> set ks"
    using ks(2) table_get_row [OF workers_okD(1) [OF ok]] unfolding covers_def tracked_def by blast
  from card_mono [OF _ this] have "card {k. \<exists>i. get_incident k (ct_store t) = Some i \<and> active i \<and> in_service_id i = sid} \<le> card (set ks)"
    by simp
  with card_length [of ks] ks(1) len show ?thesis by linarith
qed

definition ruled_state :: controller where
  "ruled_state = perform sample_env (Register_Rule sample_rule) initial"

definition two_incidents :: "worker list \<times> controller" where
  "two_incidents = (let w = Firing (matching_rules (list_alert_rules (ct_store ruled_state)) (sample_report SOURCE_SIDE))
       (sample_report SOURCE_SIDE) 10 False
     in run_schedule sample_env [0, 1, 0, 1, 0, 1, 0, 1] ([w, w], ruled_state))"

lemma two_incidents_reached: "(interleaved sample_env)\<^sup>*\<^sup>* ([Idle, Idle], ruled_state) two_incidents"
  unfolding two_incidents_def Let_def
  by (intro two_workers begins.raise) (simp_all add: sample_report_def is_healthy_def)

lemma two_incidents_rows:
  "map (\<lambda>(k, r). (k, active (ir_payload r), in_service_id (ir_payload r))) (st_incidents (ct_store (snd two_incidents))) =
     [(''uu'', True, Some ''web''), (''uuu'', True, Some ''web'')]"
  by code_simp

lemma two_incidents_alerts:
  "map (\<lambda>(k, r). (k, al_state (ar_payload r), al_rule_id (ar_payload r), al_service_id (ar_payload r)))
     (st_alerts (ct_store (snd two_incidents))) =
   [([], AL_FIRING, ''r1'', Some ''web''), (''u'', AL_FIRING, ''r1'', Some ''web'')]"
  by code_simp

lemma ruled_reachable: "reachable sample_env ruled_state"
  unfolding ruled_state_def by (intro reachable.intros)

lemma two_incidents_ids:
  "{k. \<exists>i. get_incident k (ct_store (snd two_incidents)) = Some i \<and> active i \<and> in_service_id i = Some ''web''} =
     {''uu'', ''uuu''}"
proof -
  obtain a b where rows: "st_incidents (ct_store (snd two_incidents)) = [(''uu'', a), (''uuu'', b)]"
    "active (ir_payload a)" "active (ir_payload b)"
    "in_service_id (ir_payload a) = Some ''web''" "in_service_id (ir_payload b) = Some ''web''"
    using two_incidents_rows by (auto simp: case_prod_beta map_eq_Cons_conv)
  have get: "get_incident k (ct_store (snd two_incidents)) =
      (if k = ''uu'' then Some (ir_payload a) else if k = ''uuu'' then Some (ir_payload b) else None)" for k
    by (simp add: get_incident_def rows(1))
  show ?thesis unfolding get using rows(2-) by auto
qed

theorem interleaved_active_bound_witness:
  "(interleaved sample_env)\<^sup>*\<^sup>* (replicate 2 Idle, ruled_state) two_incidents \<and>
   card {k. \<exists>i. get_incident k (ct_store (snd two_incidents)) = Some i \<and> active i \<and> in_service_id i = Some ''web''} = 2"
proof -
  have run: "(interleaved sample_env)\<^sup>*\<^sup>* (replicate (Suc 1) Idle, ruled_state) (fst two_incidents, snd two_incidents)"
    using two_incidents_reached by simp
  from interleaved_active_bound [OF ruled_reachable sample_inj run, of "Some ''web''"]
  have "card {''uu'', ''uuu''} \<le> Suc 1" unfolding two_incidents_ids by simp
  moreover have "card {''uu'', ''uuu''} = 2" by simp
  ultimately show ?thesis using two_incidents_reached unfolding two_incidents_ids by (simp add: numeral_2_eq_2)
qed

text \<open>A resolution that is lost: one thread has read the incident to acknowledge it when the other resolves it.\<close>

definition race :: "nat list \<Rightarrow> worker list \<times> controller" where
  "race ns = run_schedule sample_env ns
     (case get_incident ''u'' (ct_store sample_state) of
        None \<Rightarrow> ([], sample_state)
      | Some i \<Rightarrow> ([Changing (acknowledge 20 i), Changing (close_incident 15 i)], sample_state))"

lemma two_changes:
  "run_schedule env [1] ([Changing i, Changing j], s) = ([Changing i, Idle], on_store (save_incident j) s)"
  "run_schedule env [1, 0] ([Changing i, Changing j], s) = ([Idle, Idle], on_store (save_incident i) (on_store (save_incident j) s))"
  "run_schedule env [0] ([Changing i, Idle], s) = ([Idle, Idle], on_store (save_incident i) s)"
  by (simp_all add: run_schedule_def)

lemma lost_resolution:
  "(interleaved sample_env)\<^sup>*\<^sup>* ([Idle, Idle], sample_state) (race [1])"
  "(interleaved sample_env)\<^sup>*\<^sup>* (race [1]) (race [1, 0])"
  "map_option in_state (get_incident ''u'' (ct_store (snd (race [1])))) = Some INC_RESOLVED"
  "map_option in_state (get_incident ''u'' (ct_store (snd (race [1, 0])))) = Some INC_ACKNOWLEDGED"
proof -
  obtain i where get: "get_incident ''u'' (ct_store sample_state) = Some i" and i: "in_state i = INC_OPEN" "in_incident_id i = ''u''"
    using sample_incident by (simp add: open_incident_def)
  let ?v = "Changing (acknowledge 20 i)" and ?w = "Changing (close_incident 15 i)"
  have race: "race ns = run_schedule sample_env ns ([?v, ?w], sample_state)" for ns
    by (simp add: race_def get)
  have begun: "begins (ct_store sample_state) ?v" "begins (ct_store sample_state) ?w"
    using get i by (auto intro: begins.intros)
  show "(interleaved sample_env)\<^sup>*\<^sup>* ([Idle, Idle], sample_state) (race [1])"
    unfolding race by (rule two_workers [OF begun]) simp
  show "(interleaved sample_env)\<^sup>*\<^sup>* (race [1]) (race [1, 0])"
    unfolding race two_changes(1,2) two_changes(3) [symmetric, of _ _ sample_env]
    by (rule run_schedule_interleaved) simp
  show "map_option in_state (get_incident ''u'' (ct_store (snd (race [1])))) = Some INC_RESOLVED"
    "map_option in_state (get_incident ''u'' (ct_store (snd (race [1, 0])))) = Some INC_ACKNOWLEDGED"
    unfolding race two_changes using i by (simp_all add: incidents.get_put)
qed

end
