(* ===== verification/Analysis.thy ===== *)
theory Analysis
  imports Core_Types
begin

text \<open>
  Model of the data and the queries of the package \<open>analysis\<close>: the comparison, conversion and
  iteration of the dynamic values a rule reads from the metrics of a result, the issue and report
  models (\<open>analysis/models.py\<close>), the base class of the rules (\<open>analysis/rule.py\<close>), the
  indexed context (\<open>analysis/context.py\<close>) and the evidence correlator
  (\<open>analysis/evidence.py\<close>).

  What a rule does with a metric of an unexpected type is part of the model: every comparison,
  conversion and method call on a dynamic value returns a \<open>result\<close>. The parser behind
  \<open>float(text)\<close>, the text of floats and containers, and \<open>str(exc)\<close> belong to the
  standard library and are the fields of \<open>analysis_env\<close>.
\<close>

section \<open>Dynamic values\<close>

record analysis_env =
  ae_float_text :: "string \<Rightarrow> rat result"
  ae_repr :: "pyval \<Rightarrow> string"
  ae_exc_text :: "py_error \<Rightarrow> string"

definition num_eq :: "pyval \<Rightarrow> pyval \<Rightarrow> bool" where
  "num_eq a b = (case numR a of Inl _ \<Rightarrow> False
     | Inr x \<Rightarrow> (case numR b of Inl _ \<Rightarrow> False | Inr y \<Rightarrow> x = y))"

text \<open>\<open>a == b\<close>: numbers by value, dictionaries regardless of their order.\<close>

function py_eq :: "pyval \<Rightarrow> pyval \<Rightarrow> bool" where
  "py_eq (PStr s) v = (v = PStr s)"
| "py_eq PNone v = (v = PNone)"
| "py_eq (PBool b) v = num_eq (PBool b) v"
| "py_eq (PInt i) v = num_eq (PInt i) v"
| "py_eq (PFloat r) v = num_eq (PFloat r) v"
| "py_eq (PList xs) v = (case v of
     PList ys \<Rightarrow> length xs = length ys \<and> list_all (\<lambda>p. py_eq (fst p) (snd p)) (zip xs ys)
   | _ \<Rightarrow> False)"
| "py_eq (PDict d) v = (case v of
     PDict d' \<Rightarrow> length d = length d' \<and>
       list_all (\<lambda>p. case map_of d' (fst p) of None \<Rightarrow> False | Some w \<Rightarrow> py_eq (snd p) w) d
   | _ \<Rightarrow> False)"
  by pat_completeness auto

lemma size_snd_lt: "p \<in> set d \<Longrightarrow> size (snd p) < Suc (size_list (size_prod (\<lambda>_. 0) size) d)"
  by (induction d) auto

termination py_eq
proof (relation "measure (\<lambda>(a, b). size a)", goal_cases)
  case (2 xs v ys p)
  then have "fst p \<in> set xs" by (metis in_set_zipE prod.collapse)
  then show ?case by (cases p) (simp add: size_list_estimation' less_Suc_eq_le)
next
  case (3 d v d' p w)
  then show ?case using size_snd_lt [of p d] by (simp add: size_list_conv_sum_list)
qed simp

text \<open>\<open>a < b\<close>: numbers, texts, and lists in the order of the first position that differs;
  anything else is a \<open>TypeError\<close>.\<close>

function py_less :: "pyval \<Rightarrow> pyval \<Rightarrow> bool result" where
  "py_less (PStr a) v = (case v of PStr b \<Rightarrow> Inr (a < b) | _ \<Rightarrow> Inl TypeError)"
| "py_less (PList xs) v = (case v of
     PList ys \<Rightarrow> (case find (\<lambda>p. \<not> py_eq (fst p) (snd p)) (zip xs ys) of
         None \<Rightarrow> Inr (length xs < length ys)
       | Some p \<Rightarrow> py_less (fst p) (snd p))
   | _ \<Rightarrow> Inl TypeError)"
| "py_less (PBool b) v = bindR (numR v) (\<lambda>y. Inr ((if b then 1 else 0) < y))"
| "py_less (PInt i) v = bindR (numR v) (\<lambda>y. Inr (of_int i < y))"
| "py_less (PFloat r) v = bindR (numR v) (\<lambda>y. Inr (r < y))"
| "py_less PNone v = Inl TypeError"
| "py_less (PDict d) v = Inl TypeError"
  by pat_completeness auto

termination py_less
proof (relation "measure (\<lambda>(a, b). size a)", goal_cases)
  case (2 xs v ys p)
  then have "p \<in> set (zip xs ys)" by (auto simp: find_Some_iff set_conv_nth)
  then have "fst p \<in> set xs" by (metis in_set_zipE prod.collapse)
  then show ?case by (cases p) (simp add: size_list_estimation' less_Suc_eq_le)
qed simp

lemma py_less_num: "numR a = Inr x \<Longrightarrow> numR b = Inr y \<Longrightarrow> py_less a b = Inr (x < y)"
  by (cases a) (auto split: if_splits)

text \<open>Comparisons with a number, \<open>v or 0\<close>, \<open>v is not None\<close>.\<close>

definition at_least :: "pyval \<Rightarrow> rat \<Rightarrow> bool result" where
  "at_least v t = bindR (numR v) (\<lambda>x. Inr (t \<le> x))"

definition below :: "pyval \<Rightarrow> rat \<Rightarrow> bool result" where
  "below v t = bindR (numR v) (\<lambda>x. Inr (x < t))"

definition or_zero :: "pyval \<Rightarrow> pyval" where
  "or_zero v = (if truthy v then v else PInt 0)"

text \<open>\<open>max(v0, v1, ...)\<close> keeps the first of the greatest values.\<close>

fun max_from :: "pyval \<Rightarrow> pyval list \<Rightarrow> pyval result" where
  "max_from m [] = Inr m"
| "max_from m (v # vs) = bindR (py_less m v) (\<lambda>b. max_from (if b then v else m) vs)"

text \<open>\<open>max\<close> and \<open>sum\<close> with the default the code gives for an empty list.\<close>

definition max_or :: "pyval \<Rightarrow> pyval list \<Rightarrow> pyval result" where
  "max_or d vs = (case vs of [] \<Rightarrow> Inr d | v # vs' \<Rightarrow> max_from v vs')"

definition average_or_zero :: "pyval list \<Rightarrow> rat result" where
  "average_or_zero vs =
     (if vs = [] then Inr 0
      else bindR (mapR numR vs) (\<lambda>xs. Inr (sum_list xs / of_nat (length xs))))"

fun max_float :: "rat list \<Rightarrow> rat option" where
  "max_float [] = None"
| "max_float (x # xs) = Some (foldl max x xs)"

text \<open>\<open>float(v)\<close>, \<open>int(v)\<close>, \<open>str(v)\<close>, and the format \<open>.nf\<close> of a dynamic number.\<close>

definition py_float :: "analysis_env \<Rightarrow> pyval \<Rightarrow> rat result" where
  "py_float env v = float_of (ae_float_text env) v"

fun py_int :: "pyval \<Rightarrow> int result" where
  "py_int (PBool b) = Inr (if b then 1 else 0)"
| "py_int (PInt i) = Inr i"
| "py_int (PFloat r) = Inr (py_trunc r)"
| "py_int (PStr s) = int_of_str s"
| "py_int _ = Inl TypeError"

fun py_str :: "analysis_env \<Rightarrow> pyval \<Rightarrow> string" where
  "py_str env PNone = ''None''"
| "py_str env (PBool b) = (if b then ''True'' else ''False'')"
| "py_str env (PInt i) = str_of_int i"
| "py_str env (PStr s) = s"
| "py_str env v = ae_repr env v"

definition fmt_num :: "nat \<Rightarrow> pyval \<Rightarrow> string result" where
  "fmt_num n v = bindR (numR v) (\<lambda>x. Inr (fmt_fixed n x))"

text \<open>Iterating over a value, the method \<open>get\<close> of a value, and \<open>', '.join(v)\<close>.\<close>

fun py_iter :: "pyval \<Rightarrow> pyval list result" where
  "py_iter (PList xs) = Inr xs"
| "py_iter (PStr s) = Inr (map (\<lambda>c. PStr [c]) s)"
| "py_iter (PDict d) = Inr (map (\<lambda>p. PStr (fst p)) d)"
| "py_iter _ = Inl TypeError"

fun dict_get :: "pyval \<Rightarrow> string \<Rightarrow> pyval result" where
  "dict_get (PDict d) k = Inr (get_val d k)"
| "dict_get _ k = Inl AttributeError"

fun text_of :: "pyval \<Rightarrow> string result" where
  "text_of (PStr s) = Inr s"
| "text_of _ = Inl TypeError"

definition py_join :: "string \<Rightarrow> pyval \<Rightarrow> string result" where
  "py_join sep v = bindR (py_iter v) (\<lambda>vs. bindR (mapR text_of vs) (\<lambda>ws. Inr (join sep ws)))"

text \<open>\<open>any(...)\<close> and a filtering comprehension with a condition that may raise.\<close>

fun anyR :: "('a \<Rightarrow> bool result) \<Rightarrow> 'a list \<Rightarrow> bool result" where
  "anyR f [] = Inr False"
| "anyR f (x # xs) = bindR (f x) (\<lambda>b. if b then Inr True else anyR f xs)"

fun filterR :: "('a \<Rightarrow> bool result) \<Rightarrow> 'a list \<Rightarrow> 'a list result" where
  "filterR f [] = Inr []"
| "filterR f (x # xs) = bindR (f x) (\<lambda>b. bindR (filterR f xs) (\<lambda>ys. Inr (if b then x # ys else ys)))"

lemma filterR_subset: "filterR f xs = Inr ys \<Longrightarrow> set ys \<subseteq> {x \<in> set xs. f x = Inr True}"
proof (induction xs arbitrary: ys)
  case (Cons x xs)
  then show ?case by (fastforce simp: bindR_eq_Inr split: if_splits)
qed simp

section \<open>Issues and reports\<close>

datatype confidence_level = VERY_HIGH | CL_HIGH | CL_MEDIUM | CL_LOW

definition from_score :: "rat \<Rightarrow> confidence_level" where
  "from_score score =
     (if 90 / 100 \<le> score then VERY_HIGH else if 75 / 100 \<le> score then CL_HIGH
      else if 50 / 100 \<le> score then CL_MEDIUM else CL_LOW)"

record recommendation =
  rc_action :: string
  rc_command :: "string option"
  rc_rationale :: string
  rc_priority :: int

record diagnosed_issue =
  di_rule_id :: string
  di_title :: string
  di_category :: string
  di_severity :: severity
  di_confidence :: rat
  di_confidence_level :: confidence_level
  di_root_cause :: string
  di_correlated_evidence :: "string list"
  di_recommendations :: "recommendation list"
  di_suppressed_rules :: "string list"

record diagnosis_report =
  rp_timestamp :: string
  rp_target_host :: string
  rp_total_probes :: nat
  rp_healthy_probes :: nat
  rp_degraded_probes :: nat
  rp_failed_probes :: nat
  rp_status :: diagnostic_status
  rp_verdict :: string
  rp_issues :: "diagnosed_issue list"
  rp_key_observations :: "string list"
  rp_rule_errors :: "(string \<times> string) list"

text \<open>The field constraint of the model: the confidence is in [0, 1].\<close>

definition validate_issue :: "diagnosed_issue \<Rightarrow> diagnosed_issue result" where
  "validate_issue i = bindR (guardR (0 \<le> di_confidence i \<and> di_confidence i \<le> 1) ValidationError) (\<lambda>_. Inr i)"

definition bounded_confidence :: "rat \<Rightarrow> rat" where
  "bounded_confidence c = max (5 / 100) (min (99 / 100) (py_round c 2))"

definition build_issue ::
  "string \<Rightarrow> string \<Rightarrow> string \<Rightarrow> severity \<Rightarrow> rat \<Rightarrow> string \<Rightarrow> string list \<Rightarrow> recommendation list \<Rightarrow>
   string list \<Rightarrow> diagnosed_issue result" where
  "build_issue rule_id category title severity confidence root_cause evidence recs suppressed =
     (let bounded_conf = bounded_confidence confidence in
      validate_issue
        \<lparr> di_rule_id = rule_id, di_title = title, di_category = category, di_severity = severity,
          di_confidence = bounded_conf, di_confidence_level = from_score bounded_conf,
          di_root_cause = root_cause, di_correlated_evidence = evidence,
          di_recommendations = recs, di_suppressed_rules = suppressed \<rparr>)"

lemma bounded_confidence_range: "5 / 100 \<le> bounded_confidence c" "bounded_confidence c \<le> 99 / 100"
  by (simp_all add: bounded_confidence_def)

lemma build_issue_ok:
  "build_issue rid cat title sev conf cause ev recs sups =
     Inr \<lparr> di_rule_id = rid, di_title = title, di_category = cat, di_severity = sev,
           di_confidence = bounded_confidence conf,
           di_confidence_level = from_score (bounded_confidence conf), di_root_cause = cause,
           di_correlated_evidence = ev, di_recommendations = recs, di_suppressed_rules = sups \<rparr>"
  using bounded_confidence_range [of conf]
  by (simp add: build_issue_def validate_issue_def Let_def)

section \<open>The analysis context\<close>

record analysis_context =
  cx_results :: "diagnostic_result list"
  cx_by_module :: "(string \<times> diagnostic_result list) list"

definition index_result ::
  "(string \<times> diagnostic_result list) list \<Rightarrow> diagnostic_result \<Rightarrow>
   (string \<times> diagnostic_result list) list" where
  "index_result d r =
     AList.update (dr_module r)
       ((case map_of d (dr_module r) of None \<Rightarrow> [] | Some items \<Rightarrow> items) @ [r]) d"

definition make_context :: "diagnostic_result list \<Rightarrow> analysis_context" where
  "make_context results = \<lparr> cx_results = results, cx_by_module = foldl index_result [] results \<rparr>"

definition by_module :: "analysis_context \<Rightarrow> string \<Rightarrow> diagnostic_result list" where
  "by_module ctx m = (case map_of (cx_by_module ctx) m of None \<Rightarrow> [] | Some items \<Rightarrow> items)"

definition first_by_module :: "analysis_context \<Rightarrow> string \<Rightarrow> diagnostic_result option" where
  "first_by_module ctx m = (case by_module ctx m of [] \<Rightarrow> None | r # _ \<Rightarrow> Some r)"

definition metric :: "diagnostic_result \<Rightarrow> string \<Rightarrow> pyval" where
  "metric r k = get_val (dr_metrics r) k"

text \<open>The values of a metric in a list of results, those that are \<open>None\<close> or missing left out.\<close>

definition present_metrics :: "string \<Rightarrow> diagnostic_result list \<Rightarrow> pyval list" where
  "present_metrics k results = filter (\<lambda>v. v \<noteq> PNone) (map (\<lambda>r. metric r k) results)"

text \<open>Interfaces, routing and the gateway.\<close>

definition has_active_interface :: "analysis_context \<Rightarrow> bool" where
  "has_active_interface ctx = list_ex (\<lambda>r. truthy (metric r ''is_up'') \<and>
     \<not> contains ''loopback'' (py_lower (case dr_target r of None \<Rightarrow> [] | Some t \<Rightarrow> t)))
     (by_module ctx ''interface'')"

definition all_interfaces_down :: "analysis_context \<Rightarrow> bool" where
  "all_interfaces_down ctx =
     (if by_module ctx ''interface'' = [] then False else \<not> has_active_interface ctx)"

definition default_gateway :: "analysis_context \<Rightarrow> pyval" where
  "default_gateway ctx =
     (case first_by_module ctx ''routing'' of
        None \<Rightarrow> PNone
      | Some r \<Rightarrow> if dr_metrics r \<noteq> [] then metric r ''default_gateway'' else PNone)"

definition has_default_gateway :: "analysis_context \<Rightarrow> bool" where
  "has_default_gateway ctx =
     (let gw = default_gateway ctx
      in truthy gw \<and> gw \<noteq> PStr ''None'' \<and> gw \<noteq> PStr ''0.0.0.0'')"

text \<open>\<open>Some\<close> of the verdict of the gateway probe, \<open>None\<close> when it was not probed.\<close>

definition is_gateway_reachable :: "analysis_context \<Rightarrow> bool option result" where
  "is_gateway_reachable ctx =
     (case first_by_module ctx ''gateway'' of
        None \<Rightarrow> Inr None
      | Some gw \<Rightarrow>
          if dr_status gw = HEALTHY then Inr (Some True)
          else if dr_status gw = FAILED \<or> dr_status gw = DEGRADED then
            (let loss = metric gw ''packet_loss_percent'' in
             bindR (if loss = PNone then Inr False else at_least loss 99) (\<lambda>lost.
               if lost then Inr (Some False)
               else if dr_status gw = FAILED then Inr (Some False)
               else Inr (Some True)))
          else Inr None)"

text \<open>IP connectivity, DNS, latency and loss.\<close>

definition public_target :: "string option \<Rightarrow> bool" where
  "public_target t = (t = Some ''1.1.1.1'' \<or> t = Some ''8.8.8.8'')"

definition is_ip_connectivity_working :: "analysis_context \<Rightarrow> bool result" where
  "is_ip_connectivity_working ctx =
     (if list_ex (\<lambda>r. public_target (dr_target r) \<and> dr_status r = HEALTHY)
           (by_module ctx ''connectivity'')
      then Inr True
      else anyR (\<lambda>r. let loss = metric r ''packet_loss_percent''
                     in if loss = PNone then Inr False else below loss 100)
             (by_module ctx ''packet_loss''))"

definition is_dns_resolution_working :: "analysis_context \<Rightarrow> bool" where
  "is_dns_resolution_working ctx =
     (case first_by_module ctx ''dns'' of None \<Rightarrow> False | Some r \<Rightarrow> dr_status r = HEALTHY)"

definition get_dns_servers_ctx :: "analysis_context \<Rightarrow> pyval" where
  "get_dns_servers_ctx ctx =
     (case first_by_module ctx ''dns'' of
        None \<Rightarrow> PList []
      | Some r \<Rightarrow> (case map_of (dr_metrics r) ''dns_servers'' of None \<Rightarrow> PList [] | Some v \<Rightarrow> v))"

definition get_max_packet_loss :: "analysis_context \<Rightarrow> pyval result" where
  "get_max_packet_loss ctx =
     max_or (PFloat 0) (present_metrics ''packet_loss_percent'' (by_module ctx ''packet_loss''))"

definition get_avg_packet_loss :: "analysis_context \<Rightarrow> rat result" where
  "get_avg_packet_loss ctx =
     average_or_zero (present_metrics ''packet_loss_percent'' (by_module ctx ''packet_loss''))"

definition get_avg_latency :: "analysis_context \<Rightarrow> rat result" where
  "get_avg_latency ctx =
     average_or_zero (present_metrics ''avg_ms''
       (filter (\<lambda>r. dr_module r \<in> {''latency'', ''traffic_jitter'', ''gateway''}) (cx_results ctx)))"

definition get_max_jitter :: "analysis_context \<Rightarrow> pyval result" where
  "get_max_jitter ctx =
     max_or (PFloat 0) (present_metrics ''jitter_ms'' (by_module ctx ''latency''))"

definition get_jitter :: "analysis_env \<Rightarrow> analysis_context \<Rightarrow> string \<Rightarrow> rat option result" where
  "get_jitter env ctx m =
     bindR (mapR (py_float env) (present_metrics ''jitter_ms'' (by_module ctx m))) (\<lambda>values.
       Inr (max_float values))"

text \<open>Host resources and links.\<close>

definition resource_metric :: "analysis_env \<Rightarrow> analysis_context \<Rightarrow> string \<Rightarrow> rat result" where
  "resource_metric env ctx k =
     (case first_by_module ctx ''resource_network'' of
        None \<Rightarrow> Inr 0
      | Some r \<Rightarrow> (case map_of (dr_metrics r) k of None \<Rightarrow> Inr 0 | Some v \<Rightarrow> py_float env v))"

definition get_active_drop_rate :: "analysis_env \<Rightarrow> analysis_context \<Rightarrow> rat result" where
  "get_active_drop_rate env ctx = resource_metric env ctx ''active_drops_per_sec''"

definition get_active_error_rate :: "analysis_env \<Rightarrow> analysis_context \<Rightarrow> rat result" where
  "get_active_error_rate env ctx = resource_metric env ctx ''active_errors_per_sec''"

definition get_cpu_percent :: "analysis_env \<Rightarrow> analysis_context \<Rightarrow> rat result" where
  "get_cpu_percent env ctx = resource_metric env ctx ''cpu_percent''"

definition get_memory_percent :: "analysis_env \<Rightarrow> analysis_context \<Rightarrow> rat result" where
  "get_memory_percent env ctx = resource_metric env ctx ''memory_percent''"

definition get_transport_result :: "analysis_context \<Rightarrow> int \<Rightarrow> string \<Rightarrow> diagnostic_result option" where
  "get_transport_result ctx port protocol =
     find (\<lambda>r. py_eq (metric r ''port'') (PInt port)) (by_module ctx (py_lower protocol))"

definition get_max_link_utilization :: "analysis_env \<Rightarrow> analysis_context \<Rightarrow> rat result" where
  "get_max_link_utilization env ctx =
     bindR (mapR (py_float env) (present_metrics ''util_percent'' (by_module ctx ''link_utilization'')))
       (\<lambda>utils. Inr (case max_float utils of None \<Rightarrow> 0 | Some u \<Rightarrow> u))"

definition get_max_link_drop_rate :: "analysis_env \<Rightarrow> analysis_context \<Rightarrow> rat result" where
  "get_max_link_drop_rate env ctx =
     bindR (mapR (py_float env) (present_metrics ''drops_per_sec'' (by_module ctx ''link_errors'')))
       (\<lambda>rates. case max_float rates of None \<Rightarrow> get_active_drop_rate env ctx | Some d \<Rightarrow> Inr d)"

text \<open>The jitter pattern: both scopes above the threshold, and load.\<close>

definition under_load :: "diagnostic_result \<Rightarrow> bool" where
  "under_load r = (metric r ''under_load'' = PBool True \<or> metric r ''load_phase'' = PStr ''under_load'')"

definition has_confirmed_jitter_pattern :: "analysis_env \<Rightarrow> analysis_context \<Rightarrow> rat \<Rightarrow> bool result" where
  "has_confirmed_jitter_pattern env ctx threshold =
     bindR (get_jitter env ctx ''gateway'') (\<lambda>gateway.
     bindR (get_jitter env ctx ''latency'') (\<lambda>latency.
     bindR (case latency of
              Some x \<Rightarrow> if x \<noteq> 0 then Inr (Some x) else get_jitter env ctx ''traffic_jitter''
            | None \<Rightarrow> get_jitter env ctx ''traffic_jitter'') (\<lambda>endpoint.
     case (gateway, endpoint) of
       (Some g, Some e) \<Rightarrow>
         if g < threshold \<or> e < threshold then Inr False
         else if list_ex under_load (cx_results ctx) then Inr True
         else bindR (get_max_link_utilization env ctx) (\<lambda>u. Inr (70 \<le> u))
     | _ \<Rightarrow> Inr False)))"

text \<open>The path.\<close>

definition get_path_hops :: "analysis_context \<Rightarrow> pyval list" where
  "get_path_hops ctx =
     (case first_by_module ctx ''traceroute'' of
        None \<Rightarrow> []
      | Some r \<Rightarrow> (case metric r ''hops'' of PList hops \<Rightarrow> hops | _ \<Rightarrow> []))"

definition get_path_fingerprint :: "analysis_context \<Rightarrow> pyval" where
  "get_path_fingerprint ctx =
     (case first_by_module ctx ''traceroute'' of
        None \<Rightarrow> PNone | Some r \<Rightarrow> metric r ''path_fingerprint'')"

definition path_changed :: "analysis_context \<Rightarrow> bool" where
  "path_changed ctx =
     (case first_by_module ctx ''path_change'' of None \<Rightarrow> False | Some r \<Rightarrow> truthy (metric r ''changed''))"

section \<open>The evidence correlator\<close>

datatype anomaly_kind = INTERMEDIATE_HOP_LOSS | PATH_CHANGE | LATENCY_WIGGLE

fun anomaly_kind_value :: "anomaly_kind \<Rightarrow> string" where
  "anomaly_kind_value INTERMEDIATE_HOP_LOSS = ''intermediate_hop_loss''"
| "anomaly_kind_value PATH_CHANGE = ''path_change''"
| "anomaly_kind_value LATENCY_WIGGLE = ''latency_wiggle''"

record evidence_anomaly =
  ea_kind :: anomaly_kind
  ea_title :: string
  ea_summary :: string
  ea_confidence :: rat
  ea_severity :: string
  ea_confirmed :: bool
  ea_evidence :: "string list"

definition anomaly_to_dict :: "evidence_anomaly \<Rightarrow> (string \<times> pyval) list" where
  "anomaly_to_dict a =
     [(''kind'', PStr (anomaly_kind_value (ea_kind a))), (''title'', PStr (ea_title a)),
      (''summary'', PStr (ea_summary a)), (''confidence'', PFloat (py_round (ea_confidence a) 2)),
      (''severity'', PStr (ea_severity a)), (''confirmed'', PBool (ea_confirmed a)),
      (''evidence'', PList (map PStr (ea_evidence a)))]"

text \<open>A hop with an address that loses at least half of the probes, and its line of text.\<close>

definition bad_hop :: "pyval \<Rightarrow> bool result" where
  "bad_hop h =
     bindR (dict_get h ''loss_percent'') (\<lambda>v.
     bindR (at_least (or_zero v) 50) (\<lambda>lossy.
       if lossy then bindR (dict_get h ''address'') (\<lambda>a. Inr (truthy a)) else Inr False))"

definition hop_line :: "analysis_env \<Rightarrow> pyval \<Rightarrow> string result" where
  "hop_line env h =
     bindR (dict_get h ''hop'') (\<lambda>n.
     bindR (dict_get h ''address'') (\<lambda>a.
     bindR (dict_get h ''loss_percent'') (\<lambda>l.
       Inr (''Hop '' @ py_str env n @ '' ('' @ py_str env a @ ''): '' @ py_str env l @ ''% loss''))))"

definition connectivity_healthy :: "diagnostic_result list \<Rightarrow> bool" where
  "connectivity_healthy results =
     list_ex (\<lambda>r. dr_module r = ''connectivity'' \<and> dr_status r = HEALTHY) results"

definition end_to_end_failed :: "diagnostic_result list \<Rightarrow> bool" where
  "end_to_end_failed results =
     list_ex (\<lambda>r. dr_module r \<in> {''connectivity'', ''packet_loss''} \<and>
                  dr_status r \<in> {FAILED, DEGRADED}) results"

definition worst_packet_loss :: "analysis_env \<Rightarrow> diagnostic_result list \<Rightarrow> rat result" where
  "worst_packet_loss env results =
     bindR (mapR (py_float env) (present_metrics ''packet_loss_percent''
              (filter (\<lambda>r. dr_module r = ''packet_loss'') results))) (\<lambda>losses.
       Inr (case max_float losses of None \<Rightarrow> 100 | Some x \<Rightarrow> x))"

definition hop_loss_anomaly ::
  "analysis_env \<Rightarrow> diagnostic_result list \<Rightarrow> rat \<Rightarrow> evidence_anomaly list result" where
  "hop_loss_anomaly env results packet_loss =
     (case find (\<lambda>r. dr_module r = ''traceroute'') results of
        None \<Rightarrow> Inr []
      | Some traceroute \<Rightarrow>
          (case metric traceroute ''hops'' of
             PList hops \<Rightarrow> bindR (filterR bad_hop hops) (\<lambda>bad_hops.
               if bad_hops \<noteq> [] \<and> connectivity_healthy results \<and> packet_loss < 30 \<and>
                  \<not> end_to_end_failed results then
                 bindR (mapR (hop_line env) (take 3 bad_hops)) (\<lambda>lines.
                   Inr [\<lparr> ea_kind = INTERMEDIATE_HOP_LOSS,
                          ea_title = ''Likely ICMP suppression or transient ECMP churn'',
                          ea_summary = ''Intermediate hops show elevated loss without end-to-end connectivity failure.'',
                          ea_confidence = 62 / 100, ea_severity = ''low'', ea_confirmed = False,
                          ea_evidence = lines \<rparr>])
               else Inr [])
           | _ \<Rightarrow> Inr []))"

definition path_change_anomaly :: "diagnostic_result list \<Rightarrow> evidence_anomaly list" where
  "path_change_anomaly results =
     (case find (\<lambda>r. dr_module r = ''path_change'' \<and> truthy (metric r ''changed'')) results of
        None \<Rightarrow> []
      | Some change \<Rightarrow>
          if end_to_end_failed results then []
          else [\<lparr> ea_kind = PATH_CHANGE,
                  ea_title = ''Path change without confirmed service failure'',
                  ea_summary = ''The forwarding path differs from the stored baseline, but no end-to-end failure is confirmed.'',
                  ea_confidence = 58 / 100, ea_severity = ''low'', ea_confirmed = False,
                  ea_evidence = [''Path fingerprint changed from the prior baseline'',
                                 dr_summary change] \<rparr>])"

definition latency_anomaly ::
  "analysis_env \<Rightarrow> diagnostic_result list \<Rightarrow> rat \<Rightarrow> evidence_anomaly list result" where
  "latency_anomaly env results packet_loss =
     (case find (\<lambda>r. dr_module r \<in> {''latency'', ''traffic_jitter''}) results of
        None \<Rightarrow> Inr []
      | Some latency \<Rightarrow>
          if metric latency ''jitter_ms'' = PNone then Inr []
          else bindR (py_float env (metric latency ''jitter_ms'')) (\<lambda>jitter.
            Inr (if 20 \<le> jitter \<and> packet_loss < 30 \<and> \<not> end_to_end_failed results then
              [\<lparr> ea_kind = LATENCY_WIGGLE, ea_title = ''Statistically weak latency wiggle'',
                 ea_summary = ''Latency jitter is elevated but does not cross a confirmed-failure threshold.'',
                 ea_confidence = 55 / 100, ea_severity = ''low'', ea_confirmed = False,
                 ea_evidence = [''Observed jitter '' @ fmt_fixed 2 jitter @
                   '' ms without corresponding packet loss or reachability failure''] \<rparr>]
              else [])))"

definition correlate_evidence ::
  "analysis_env \<Rightarrow> diagnostic_result list \<Rightarrow> evidence_anomaly list result" where
  "correlate_evidence env results =
     bindR (worst_packet_loss env results) (\<lambda>packet_loss.
     bindR (hop_loss_anomaly env results packet_loss) (\<lambda>hop_loss.
     bindR (latency_anomaly env results packet_loss) (\<lambda>latency.
       Inr (hop_loss @ path_change_anomaly results @ latency))))"

section \<open>Properties\<close>

text \<open>The index: looking a module up gives the results of that module, in the order of the probes.\<close>

lemma index_fold:
  "(case map_of (foldl index_result d results) m of None \<Rightarrow> [] | Some items \<Rightarrow> items) =
   (case map_of d m of None \<Rightarrow> [] | Some items \<Rightarrow> items) @ filter (\<lambda>r. dr_module r = m) results"
  by (induction results arbitrary: d) (auto simp: index_result_def update_conv' split: option.splits)

lemma by_module_make [simp]: "by_module (make_context rs) m = filter (\<lambda>r. dr_module r = m) rs"
  by (simp add: by_module_def make_context_def index_fold)

lemma cx_results_make [simp]: "cx_results (make_context rs) = rs"
  by (simp add: make_context_def)

lemma first_by_module_make [simp]:
  "first_by_module (make_context rs) m = find (\<lambda>r. dr_module r = m) rs"
  by (induction rs) (auto simp: first_by_module_def)

lemma first_by_module_eq_None: "first_by_module ctx m = None \<longleftrightarrow> by_module ctx m = []"
  by (auto simp: first_by_module_def split: list.splits)

text \<open>Each part of the correlator reports at most one anomaly, of its kind, with its confidence.\<close>

lemma hop_loss_shape:
  "hop_loss_anomaly env rs p = Inr as \<Longrightarrow> a \<in> set as \<Longrightarrow> \<not> end_to_end_failed rs \<and>
     ea_kind a = INTERMEDIATE_HOP_LOSS \<and> ea_confidence a = 62 / 100 \<and> \<not> ea_confirmed a \<and>
     ea_severity a = ''low'' \<and> ea_evidence a \<noteq> []"
  by (auto simp: hop_loss_anomaly_def bindR_eq_Inr min_def dest!: mapR_eq_Inr_length
      split: option.splits pyval.splits if_splits)

lemma path_change_shape:
  "a \<in> set (path_change_anomaly rs) \<Longrightarrow> \<not> end_to_end_failed rs \<and> ea_kind a = PATH_CHANGE \<and>
     ea_confidence a = 58 / 100 \<and> \<not> ea_confirmed a \<and> ea_severity a = ''low'' \<and> ea_evidence a \<noteq> []"
  by (auto simp: path_change_anomaly_def split: option.splits if_splits)

lemma latency_shape:
  "latency_anomaly env rs p = Inr as \<Longrightarrow> a \<in> set as \<Longrightarrow> \<not> end_to_end_failed rs \<and>
     ea_kind a = LATENCY_WIGGLE \<and> ea_confidence a = 55 / 100 \<and> \<not> ea_confirmed a \<and>
     ea_severity a = ''low'' \<and> ea_evidence a \<noteq> []"
  by (auto simp: latency_anomaly_def bindR_eq_Inr split: option.splits if_splits)

lemma anomaly_lengths:
  "hop_loss_anomaly env rs p = Inr as \<Longrightarrow> length as \<le> 1"
  "length (path_change_anomaly rs) \<le> 1"
  "latency_anomaly env rs p = Inr bs \<Longrightarrow> length bs \<le> 1"
  by (auto simp: hop_loss_anomaly_def path_change_anomaly_def latency_anomaly_def bindR_eq_Inr
      split: option.splits pyval.splits if_splits)

lemma at_most_one: "length xs \<le> 1 \<longleftrightarrow> xs = [] \<or> (\<exists>x. xs = [x])"
  by (cases xs; cases "tl xs") auto

lemma evidence_signals:
  assumes "correlate_evidence env results = Inr anomalies" "a \<in> set anomalies"
  shows "\<not> end_to_end_failed results \<and> \<not> ea_confirmed a \<and> ea_severity a = ''low'' \<and>
      ea_evidence a \<noteq> [] \<and> ea_confidence a \<in> {62 / 100, 58 / 100, 55 / 100}"
proof -
  obtain p as bs where
    as: "hop_loss_anomaly env results p = Inr as" and bs: "latency_anomaly env results p = Inr bs"
    and eq: "anomalies = as @ path_change_anomaly results @ bs"
    using assms(1) by (auto simp: correlate_evidence_def bindR_eq_Inr)
  have "a \<in> set as \<or> a \<in> set (path_change_anomaly results) \<or> a \<in> set bs"
    using assms(2) by (simp add: eq)
  then show ?thesis
    using hop_loss_shape [OF as, of a] path_change_shape [of a results] latency_shape [OF bs, of a]
    by blast
qed

lemma evidence_bounds:
  assumes "correlate_evidence env results = Inr anomalies" "a \<in> set anomalies"
  shows "50 / 100 \<le> ea_confidence a \<and> ea_confidence a \<le> 62 / 100"
  using evidence_signals [OF assms] by auto

text \<open>C29: The anomalies are weak signals: none is reported when an end-to-end probe is degraded or
  failed, each kind is reported at most once, and each is unconfirmed, of severity low, with a
  confidence of at most 0.62 (below the 0.75 of a confirmed failure) and a line of evidence.\<close>

theorem evidence_is_weak:
  assumes "correlate_evidence env results = Inr anomalies"
  shows "(end_to_end_failed results \<longrightarrow> anomalies = []) \<and> distinct (map ea_kind anomalies) \<and>
    (\<forall>a \<in> set anomalies. \<not> ea_confirmed a \<and> ea_severity a = ''low'' \<and> ea_evidence a \<noteq> [] \<and>
       50 / 100 \<le> ea_confidence a \<and> ea_confidence a \<le> 62 / 100)"
proof -
  obtain p as bs where
    as: "hop_loss_anomaly env results p = Inr as" and bs: "latency_anomaly env results p = Inr bs"
    and eq: "anomalies = as @ path_change_anomaly results @ bs"
    using assms by (auto simp: correlate_evidence_def bindR_eq_Inr)
  have kinds: "ea_kind a = INTERMEDIATE_HOP_LOSS" if "a \<in> set as" for a
    using hop_loss_shape [OF as that] by blast
  have kinds': "ea_kind a = PATH_CHANGE" if "a \<in> set (path_change_anomaly results)" for a
    using path_change_shape [OF that] by blast
  have kinds'': "ea_kind a = LATENCY_WIGGLE" if "a \<in> set bs" for a
    using latency_shape [OF bs that] by blast
  note weak = evidence_signals [OF assms]
  have "distinct (map ea_kind as)" "distinct (map ea_kind (path_change_anomaly results))"
    "distinct (map ea_kind bs)"
    using anomaly_lengths(1) [OF as] anomaly_lengths(2) [of results] anomaly_lengths(3) [OF bs]
    unfolding at_most_one by auto
  then have "distinct (map ea_kind anomalies)"
    by (auto simp: eq) (metis kinds kinds' kinds'' anomaly_kind.distinct)+
  moreover have "anomalies = []" if "end_to_end_failed results"
    using that weak by (cases anomalies) auto
  ultimately show ?thesis
    using weak evidence_bounds [OF assms] by blast
qed

definition sample_probe :: "string \<Rightarrow> diagnostic_status \<Rightarrow> (string \<times> pyval) list \<Rightarrow> diagnostic_result" where
  "sample_probe m st ms =
     \<lparr> dr_module = m, dr_category = ''host'', dr_status = st, dr_severity = INFO, dr_summary = m,
       dr_target = Some ''1.1.1.1'', dr_metrics = ms, dr_evidence = [], dr_warnings = [],
       dr_errors = [], dr_metadata = [] \<rparr>"

definition sample_analysis_env :: analysis_env where
  "sample_analysis_env = \<lparr> ae_float_text = (\<lambda>_. Inl ValueError), ae_repr = (\<lambda>_. ''repr''),
                  ae_exc_text = (\<lambda>_. ''error'') \<rparr>"

definition churn_results :: "diagnostic_result list" where
  "churn_results =
     [sample_probe ''connectivity'' HEALTHY [],
      sample_probe ''packet_loss'' HEALTHY [(''packet_loss_percent'', PInt 0)],
      sample_probe ''path_change'' DEGRADED [(''changed'', PBool True)],
      sample_probe ''traceroute'' HEALTHY [(''hops'', PList [PDict
         [(''hop'', PInt 3), (''address'', PStr ''10.0.0.1''), (''loss_percent'', PInt 80)]])]]"

lemma evidence_is_weak_witness:
  "\<exists>as. correlate_evidence sample_analysis_env churn_results = Inr as \<and> as \<noteq> [] \<and>
     (\<forall>a \<in> set as. \<not> ea_confirmed a) \<and> distinct (map ea_kind as)"
proof -
  have "case correlate_evidence sample_analysis_env churn_results of Inl _ \<Rightarrow> False | Inr as \<Rightarrow> length as = 2"
    by code_simp
  then obtain as where "correlate_evidence sample_analysis_env churn_results = Inr as" "length as = 2"
    by (cases "correlate_evidence sample_analysis_env churn_results") auto
  moreover from this have "as \<noteq> []" by auto
  ultimately show ?thesis using evidence_is_weak [of sample_analysis_env churn_results as] by blast
qed

end
