(* ===== verification/Rules_Local.thy ===== *)
theory Rules_Local
  imports Analysis
begin

text \<open>
  The base class of the rules (\<open>analysis/rule.py\<close>) and the rules about the host, its links,
  its gateway, DNS and transit: \<open>analysis/rules/link_rules.py\<close>, \<open>gateway_rules.py\<close>,
  \<open>dns_rules.py\<close>, \<open>transit_rules.py\<close> and \<open>host_rules.py\<close>. A rule is a record with the
  class attributes and its \<open>evaluate\<close>; the recommendations of a rule are a definition of
  their own, and so is the id of a rule another one may suppress.
\<close>

section \<open>Rules\<close>

record diagnostic_rule =
  dg_rule_id :: string
  dg_name :: string
  dg_category :: string
  dg_evaluate :: "analysis_context \<Rightarrow> diagnosed_issue option result"

text \<open>\<open>self.build_issue(...)\<close> as the value of \<open>evaluate\<close>.\<close>

definition report_issue ::
  "string \<Rightarrow> string \<Rightarrow> string \<Rightarrow> severity \<Rightarrow> rat \<Rightarrow> string \<Rightarrow> string list \<Rightarrow> recommendation list \<Rightarrow>
   string list \<Rightarrow> diagnosed_issue option result" where
  "report_issue rid category title sev conf cause evidence recs suppressed =
     bindR (build_issue rid category title sev conf cause evidence recs suppressed) (\<lambda>i. Inr (Some i))"

definition RULE_ALL_INTERFACES_DOWN :: string where
  "RULE_ALL_INTERFACES_DOWN = ''RULE_ALL_INTERFACES_DOWN''"
definition RULE_ACTIVE_PACKET_DROPS :: string where
  "RULE_ACTIVE_PACKET_DROPS = ''RULE_ACTIVE_PACKET_DROPS''"
definition RULE_NO_DEFAULT_GATEWAY :: string where
  "RULE_NO_DEFAULT_GATEWAY = ''RULE_NO_DEFAULT_GATEWAY''"
definition RULE_GATEWAY_UNREACHABLE :: string where
  "RULE_GATEWAY_UNREACHABLE = ''RULE_GATEWAY_UNREACHABLE''"
definition RULE_GATEWAY_HEALTHY_WAN_OUTAGE :: string where
  "RULE_GATEWAY_HEALTHY_WAN_OUTAGE = ''RULE_GATEWAY_HEALTHY_WAN_OUTAGE''"
definition RULE_TOTAL_INTERNET_OUTAGE :: string where
  "RULE_TOTAL_INTERNET_OUTAGE = ''RULE_TOTAL_INTERNET_OUTAGE''"
definition RULE_DNS_FAIL_IP_HEALTHY :: string where
  "RULE_DNS_FAIL_IP_HEALTHY = ''RULE_DNS_FAIL_IP_HEALTHY''"
definition RULE_DNS_TIMEOUT :: string where
  "RULE_DNS_TIMEOUT = ''RULE_DNS_TIMEOUT''"
definition RULE_HIGH_HOP_LOSS :: string where
  "RULE_HIGH_HOP_LOSS = ''RULE_HIGH_HOP_LOSS''"

lemmas rule_id_defs = RULE_ALL_INTERFACES_DOWN_def RULE_ACTIVE_PACKET_DROPS_def
  RULE_NO_DEFAULT_GATEWAY_def RULE_GATEWAY_UNREACHABLE_def RULE_GATEWAY_HEALTHY_WAN_OUTAGE_def
  RULE_TOTAL_INTERNET_OUTAGE_def RULE_DNS_FAIL_IP_HEALTHY_def RULE_DNS_TIMEOUT_def
  RULE_HIGH_HOP_LOSS_def

section \<open>Link rules\<close>

definition all_interfaces_down_recs :: "recommendation list" where
  "all_interfaces_down_recs =
    [recommendation.make ''Verify physical Ethernet cable or toggle Wi-Fi adapter ON'' (Some ''netsh interface show interface'')
        ''No network traffic can egress the host without at least one operational link layer.'' 1,
     recommendation.make ''Check network adapter driver status in device manager / kernel logs'' (Some ''Get-NetAdapter'')
        ''Ensure the network interface card is recognized and enabled by the operating system.'' 2]"

definition all_interfaces_down_rule :: "analysis_env \<Rightarrow> diagnostic_rule" where
  "all_interfaces_down_rule env =
     \<lparr> dg_rule_id = RULE_ALL_INTERFACES_DOWN, dg_name = ''All Host Interfaces Down'',
       dg_category = ''Physical Link'',
       dg_evaluate = (\<lambda>ctx.
         if \<not> all_interfaces_down ctx then Inr None
         else report_issue RULE_ALL_INTERFACES_DOWN ''Physical Link''
           ''Complete Physical Link Disconnection (All Interfaces Down)'' CRITICAL (98 / 100)
           ''All physical and virtual network adapters are down. The host is completely isolated from the local network.''
           [''Every network interface on the host is reported as DOWN'',
            ''No non-loopback network adapter has an active operational link'']
           all_interfaces_down_recs
           [RULE_TOTAL_INTERNET_OUTAGE, RULE_NO_DEFAULT_GATEWAY, RULE_DNS_FAIL_IP_HEALTHY,
            RULE_GATEWAY_UNREACHABLE]) \<rparr>"

definition active_packet_drops_recs :: "recommendation list" where
  "active_packet_drops_recs =
    [recommendation.make ''Inspect physical Ethernet cabling, patch panel, or switch port for CRC/FCS errors'' None
        ''Active frame errors and drops at the NIC level typically signify bad wiring, bad terminations, or duplex mismatches.'' 1,
     recommendation.make ''Check wireless signal-to-noise ratio (SNR) and Wi-Fi channel congestion'' (Some ''netsh wlan show interfaces'')
        ''High RF interference causes packet corruption and retransmission drops.'' 2]"

definition active_packet_drops_rule :: "analysis_env \<Rightarrow> diagnostic_rule" where
  "active_packet_drops_rule env =
     \<lparr> dg_rule_id = RULE_ACTIVE_PACKET_DROPS, dg_name = ''Active Interface Packet Drops and Errors'',
       dg_category = ''Physical Link'',
       dg_evaluate = (\<lambda>ctx.
         bindR (get_active_drop_rate env ctx) (\<lambda>drop_rate.
         bindR (get_active_error_rate env ctx) (\<lambda>err_rate.
           if drop_rate < 1 / 2 \<and> err_rate < 1 / 2 then Inr None
           else report_issue RULE_ACTIVE_PACKET_DROPS ''Physical Link''
             ''Active Hardware/Link-Layer Packet Drops Detected'' HIGH
             (if 5 < drop_rate \<or> 5 < err_rate then 95 / 100 else 85 / 100)
             ''The network interface is actively dropping or corrupting frames at the link layer, indicating hardware degradation, cabling issues, or RF interference.''
             ((if 1 / 2 \<le> drop_rate then [''Network interface actively dropping '' @ fmt_fixed 1 drop_rate @ '' packets/second''] else []) @
              (if 1 / 2 \<le> err_rate then [''Network interface actively logging '' @ fmt_fixed 1 err_rate @ '' transmission/reception errors/second''] else []))
             active_packet_drops_recs []))) \<rparr>"

section \<open>Gateway rules\<close>

definition no_default_gateway_recs :: "recommendation list" where
  "no_default_gateway_recs =
    [recommendation.make ''Renew IP address and default gateway via DHCP'' (Some ''ipconfig /renew'')
        ''Requesting a fresh DHCP lease will pull the router default gateway option from your network.'' 1,
     recommendation.make ''Inspect static IP routing table configuration'' (Some ''route print'')
        ''Verify if a static default gateway needs to be manually assigned.'' 2]"

definition no_default_gateway_rule :: "analysis_env \<Rightarrow> diagnostic_rule" where
  "no_default_gateway_rule env =
     \<lparr> dg_rule_id = RULE_NO_DEFAULT_GATEWAY, dg_name = ''Missing Default Gateway Route'',
       dg_category = ''Routing & Gateway'',
       dg_evaluate = (\<lambda>ctx.
         if all_interfaces_down ctx then Inr None
         else if has_default_gateway ctx then Inr None
         else report_issue RULE_NO_DEFAULT_GATEWAY ''Routing & Gateway''
           ''Missing Default Gateway Route'' CRITICAL (96 / 100)
           ''No default route exists in the host routing table. The operating system cannot route packets destined for external networks.''
           [''Routing table does not contain a default gateway route (0.0.0.0/0)'',
            ''Host has active interface but cannot determine next-hop gateway for non-local traffic'']
           no_default_gateway_recs [RULE_TOTAL_INTERNET_OUTAGE, RULE_DNS_FAIL_IP_HEALTHY]) \<rparr>"

definition gateway_unreachable_recs :: "bool \<Rightarrow> string \<Rightarrow> recommendation list" where
  "gateway_unreachable_recs present gw =
    [recommendation.make ''Verify the gateway address and local subnet mask'' None
        ''An incorrect gateway IP or subnet makes the next hop unreachable.'' 1,
     recommendation.make ''Check the local router/AP power and LAN switch port'' (if present then Some (''ping -n 4 '' @ gw) else None)
        ''Confirm the CPE/router is online on the LAN before blaming WAN/ISP.'' 2]"

definition gateway_unreachable_rule :: "analysis_env \<Rightarrow> diagnostic_rule" where
  "gateway_unreachable_rule env =
     \<lparr> dg_rule_id = RULE_GATEWAY_UNREACHABLE, dg_name = ''Default Gateway Unreachable'',
       dg_category = ''Routing & Gateway'',
       dg_evaluate = (\<lambda>ctx.
         if \<not> has_default_gateway ctx then Inr None
         else bindR (is_gateway_reachable ctx) (\<lambda>reachable.
           if reachable \<noteq> Some False then Inr None
           else (let gw = py_str env (default_gateway ctx) in
             report_issue RULE_GATEWAY_UNREACHABLE ''Routing & Gateway''
               ''Default Gateway Unreachable'' CRITICAL (95 / 100)
               (''The configured default gateway '' @ gw @ '' does not respond to probes. Local next-hop failure prevents Internet access.'')
               [''Default gateway configured: '' @ gw,
                ''ICMP probes to the default gateway timed out or reported ~100% loss'',
                ''Local interface may be up, but the next-hop router is not responding'']
               (gateway_unreachable_recs (truthy (default_gateway ctx)) gw)
               [RULE_GATEWAY_HEALTHY_WAN_OUTAGE, RULE_TOTAL_INTERNET_OUTAGE,
                RULE_DNS_FAIL_IP_HEALTHY, RULE_DNS_TIMEOUT]))) \<rparr>"

definition wan_outage_recs :: "string \<Rightarrow> recommendation list" where
  "wan_outage_recs gw =
    [recommendation.make ''Inspect modem / ISP WAN optical or coax link status'' None
        ''Your host communicates with the local router, but the router cannot route out to the Internet.'' 1,
     recommendation.make (''Test local gateway reachability directly at '' @ gw) (Some (''ping -n 4 '' @ gw))
        ''Verify if the local router management interface is responsive.'' 2]"

definition wan_outage_evidence :: "bool option \<Rightarrow> string \<Rightarrow> string list" where
  "wan_outage_evidence reachable gw =
     [''Default gateway configured: '' @ gw,
      ''Outbound TCP handshakes and ICMP pings to public IPs (1.1.1.1, 8.8.8.8) timed out completely'',
      if reachable = Some True then ''Local gateway '' @ gw @ '' responds to ICMP '' @ em_dash @ '' failure is upstream of the LAN''
      else ''Local host interface and routing table are intact'']"

definition gateway_healthy_wan_outage_rule :: "analysis_env \<Rightarrow> diagnostic_rule" where
  "gateway_healthy_wan_outage_rule env =
     \<lparr> dg_rule_id = RULE_GATEWAY_HEALTHY_WAN_OUTAGE,
       dg_name = ''Local Gateway Healthy but Upstream WAN Outage'', dg_category = ''Routing & Gateway'',
       dg_evaluate = (\<lambda>ctx.
         if \<not> has_default_gateway ctx then Inr None
         else bindR (is_gateway_reachable ctx) (\<lambda>reachable.
           if reachable = Some False then Inr None
           else if reachable = None \<and> all_interfaces_down ctx then Inr None
           else bindR (is_ip_connectivity_working ctx) (\<lambda>ip_working.
                bindR (get_max_packet_loss ctx) (\<lambda>max_loss.
                bindR (if ip_working then Inr False else at_least max_loss 99) (\<lambda>outage.
                  if outage then
                    (let gw = py_str env (default_gateway ctx) in
                     report_issue RULE_GATEWAY_HEALTHY_WAN_OUTAGE ''Routing & Gateway''
                       ''Upstream WAN / ISP Outage (Local Gateway Reachable)'' CRITICAL
                       (if reachable = Some True then 94 / 100 else 88 / 100)
                       (''The local host is connected to default gateway '' @ gw @ '', but the upstream Internet connection (WAN link / ISP) is completely down.'')
                       (wan_outage_evidence reachable gw) (wan_outage_recs gw)
                       [RULE_DNS_FAIL_IP_HEALTHY, RULE_DNS_TIMEOUT])
                  else Inr None))))) \<rparr>"

definition total_outage_recs :: "recommendation list" where
  "total_outage_recs =
    [recommendation.make ''Ping the default gateway, then an upstream IP (1.1.1.1)'' None
        ''Separates LAN next-hop failure from ISP/WAN failure.'' 1,
     recommendation.make ''Check ISP outage status and CPE WAN lights'' None
        ''Broad Internet failure often originates at the modem or provider.'' 2]"

definition total_internet_outage_rule :: "analysis_env \<Rightarrow> diagnostic_rule" where
  "total_internet_outage_rule env =
     \<lparr> dg_rule_id = RULE_TOTAL_INTERNET_OUTAGE, dg_name = ''Total Internet Outage'',
       dg_category = ''Routing & Gateway'',
       dg_evaluate = (\<lambda>ctx.
         if all_interfaces_down ctx \<or> \<not> has_default_gateway ctx then Inr None
         else bindR (is_gateway_reachable ctx) (\<lambda>reachable.
           if reachable = Some False then Inr None
           else bindR (is_ip_connectivity_working ctx) (\<lambda>ip_working.
             if ip_working then Inr None
             else bindR (get_max_packet_loss ctx) (\<lambda>max_loss.
                  bindR (below max_loss 99) (\<lambda>partial.
                    if partial then Inr None
                    else if reachable = Some True then Inr None
                    else report_issue RULE_TOTAL_INTERNET_OUTAGE ''Routing & Gateway''
                      ''Total Internet Connectivity Outage'' CRITICAL (90 / 100)
                      ''The host cannot reach any public Internet targets despite having a local interface and default route.''
                      [''No successful TCP or ICMP connectivity to public Internet targets'',
                       ''Default gateway present: '' @ py_str env (default_gateway ctx),
                       ''Gateway reachability was not confirmed; treating as broad Internet outage'']
                      total_outage_recs [RULE_DNS_FAIL_IP_HEALTHY, RULE_DNS_TIMEOUT]))))) \<rparr>"

section \<open>DNS rules\<close>

definition dns_failure_recs :: "recommendation list" where
  "dns_failure_recs =
    [recommendation.make ''Flush local operating system DNS cache'' (Some ''ipconfig /flushdns'')
        ''Clears stale, negative, or corrupted resolver cache entries.'' 1,
     recommendation.make ''Test resolution directly against an Anycast public resolver (Cloudflare 1.1.1.1)'' (Some ''nslookup google.com 1.1.1.1'')
        ''Determines whether your current upstream resolver is down or if outbound port 53 is blocked.'' 1,
     recommendation.make ''Configure fallback public DNS servers (1.1.1.1 or 8.8.8.8) in network adapter settings'' None
        ''Bypasses unreliable ISP or local router DNS forwarders.'' 2]"

text \<open>The line naming the configured servers, when there are some.\<close>

definition servers_line :: "string \<Rightarrow> pyval \<Rightarrow> string list result" where
  "servers_line label dns_servers =
     (if truthy dns_servers
      then bindR (py_join '', '' dns_servers) (\<lambda>servers. Inr [label @ servers])
      else Inr [])"

definition dns_failure_with_healthy_ip_rule :: "analysis_env \<Rightarrow> diagnostic_rule" where
  "dns_failure_with_healthy_ip_rule env =
     \<lparr> dg_rule_id = RULE_DNS_FAIL_IP_HEALTHY,
       dg_name = ''DNS Resolution Failure with Functional IP Transit'', dg_category = ''DNS'',
       dg_evaluate = (\<lambda>ctx.
         case first_by_module ctx ''dns'' of
           None \<Rightarrow> Inr None
         | Some dns_res \<Rightarrow>
             if dr_status dns_res = HEALTHY then Inr None
             else bindR (is_ip_connectivity_working ctx) (\<lambda>ip_working.
               if \<not> ip_working then Inr None
               else bindR (servers_line ''Configured upstream DNS servers: '' (get_dns_servers_ctx ctx)) (\<lambda>servers.
                 report_issue RULE_DNS_FAIL_IP_HEALTHY ''DNS''
                   ''DNS Resolution Failure with Functional IP Transit'' HIGH
                   (if truthy (get_dns_servers_ctx ctx) then 95 / 100 else 90 / 100)
                   ''The host has full Layer 3/4 Internet connectivity, but domain name resolution is failing. Your configured DNS servers are unresponsive, returning SERVFAIL, or outbound UDP/TCP port 53 is filtered.''
                   ([''DNS resolution failed: '' @ dr_summary dns_res,
                     ''Direct IP transport handshakes and ICMP ping to public addresses (1.1.1.1, 8.8.8.8) succeeded''] @ servers @
                    (if dr_errors dns_res \<noteq> [] then [''Resolver error: '' @ join ''; '' (dr_errors dns_res)] else []))
                   dns_failure_recs []))) \<rparr>"

definition dns_timeout_recs :: "recommendation list" where
  "dns_timeout_recs =
    [recommendation.make ''Query a public resolver directly to isolate local DNS timeout'' (Some ''nslookup google.com 1.1.1.1'')
        ''Confirms whether the timeout is specific to your configured resolvers.'' 1]"

definition timed_out :: "diagnostic_result \<Rightarrow> bool" where
  "timed_out dns_res =
     (let err_blob = py_lower (join '' '' (dr_errors dns_res @ [dr_summary dns_res]))
      in contains ''timeout'' err_blob \<or> contains ''timed out'' err_blob)"

definition dns_timeout_rule :: "analysis_env \<Rightarrow> diagnostic_rule" where
  "dns_timeout_rule env =
     \<lparr> dg_rule_id = RULE_DNS_TIMEOUT, dg_name = ''DNS Resolution Timeout'', dg_category = ''DNS'',
       dg_evaluate = (\<lambda>ctx.
         case first_by_module ctx ''dns'' of
           None \<Rightarrow> Inr None
         | Some dns_res \<Rightarrow>
             if dr_status dns_res \<notin> {FAILED, UNKNOWN} then Inr None
             else if \<not> timed_out dns_res then
               bindR (is_ip_connectivity_working ctx) (\<lambda>_. Inr None)
             else bindR (is_ip_connectivity_working ctx) (\<lambda>ip_working.
               if \<not> ip_working then Inr None
               else bindR (servers_line ''Configured DNS servers: '' (get_dns_servers_ctx ctx)) (\<lambda>servers.
                 report_issue RULE_DNS_TIMEOUT ''DNS'' ''DNS Resolution Timeout'' HIGH (92 / 100)
                   ''DNS queries are timing out while IP transit still works, indicating blocked/unresponsive resolvers or filtered DNS ports.''
                   ([''DNS probe timed out: '' @ dr_summary dns_res,
                     ''IP connectivity to public targets is working''] @ servers)
                   dns_timeout_recs []))) \<rparr>"

definition slow_dns_recs :: "recommendation list" where
  "slow_dns_recs =
    [recommendation.make ''Switch to high-performance recursive DNS resolvers (Cloudflare 1.1.1.1 or Google 8.8.8.8)'' (Some ''nslookup -type=A google.com 1.1.1.1'')
        ''Distant or overburdened ISP resolvers add 150-500ms of overhead to every new domain connection.'' 1]"

definition slow_dns_resolution_rule :: "analysis_env \<Rightarrow> diagnostic_rule" where
  "slow_dns_resolution_rule env =
     \<lparr> dg_rule_id = ''RULE_SLOW_DNS_RESOLUTION'', dg_name = ''High DNS Resolution Latency'',
       dg_category = ''DNS'',
       dg_evaluate = (\<lambda>ctx.
         case first_by_module ctx ''dns'' of
           None \<Rightarrow> Inr None
         | Some dns_res \<Rightarrow>
             if dr_status dns_res \<noteq> HEALTHY then Inr None
             else (let time = metric dns_res ''resolution_time_ms'' in
               bindR (if time = PNone then Inr True else below time 180) (\<lambda>fast.
               if fast then Inr None
               else bindR (get_avg_latency ctx) (\<lambda>avg_latency.
                 if 200 < avg_latency then Inr None
                 else bindR (fmt_num 1 time) (\<lambda>res_time.
                      bindR (servers_line ''Configured DNS servers: '' (get_dns_servers_ctx ctx)) (\<lambda>servers.
                        report_issue ''RULE_SLOW_DNS_RESOLUTION'' ''DNS''
                          ''Sluggish DNS Resolution Latency'' MEDIUM (85 / 100)
                          (''DNS resolution took '' @ res_time @ '' ms despite low network round-trip latency ('' @ fmt_fixed 1 avg_latency @ '' ms), indicating an overloaded or geographically distant recursive resolver.'')
                          ([''DNS resolution time was '' @ res_time @ '' ms'',
                            ''Host IP round-trip latency is only '' @ fmt_fixed 1 avg_latency @ '' ms''] @ servers)
                          slow_dns_recs [])))))) \<rparr>"

section \<open>Transit rules\<close>

definition severe_loss_recs :: "string \<Rightarrow> recommendation list" where
  "severe_loss_recs gw =
    [recommendation.make ''Run continuous ping to default gateway to isolate LAN vs WAN drop source'' (Some (''ping -n 20 '' @ gw))
        ''If 0% loss to gateway but 20% loss to 1.1.1.1, the problem is confirmed upstream on the ISP link.'' 1,
     recommendation.make ''Power cycle cable modem / optical ONT to reset carrier line synchronization'' None
        ''Resolves transient line noise and upstream channel bonding errors.'' 2]"

definition upstream_cause :: string where
  "upstream_cause = ''Upstream transit congestion, buffer overflow on the edge router/modem, or packet policing.''"

definition local_cause :: string where
  "local_cause = ''Local Wi-Fi signal interference or interface buffer exhaustion combined with transit loss.''"

definition severe_packet_loss_rule :: "analysis_env \<Rightarrow> diagnostic_rule" where
  "severe_packet_loss_rule env =
     \<lparr> dg_rule_id = ''RULE_SEVERE_PACKET_LOSS'', dg_name = ''Intermittent WAN Packet Loss'',
       dg_category = ''Internet Transit'',
       dg_evaluate = (\<lambda>ctx.
         bindR (get_max_packet_loss ctx) (\<lambda>max_loss.
         bindR (get_avg_packet_loss ctx) (\<lambda>avg_loss.
         bindR (if avg_loss < 10 then Inr True else at_least max_loss 100) (\<lambda>other.
           if other then Inr None
           else bindR (fmt_num 1 max_loss) (\<lambda>peak.
                bindR (get_active_drop_rate env ctx) (\<lambda>local_drops.
                  report_issue ''RULE_SEVERE_PACKET_LOSS'' ''Internet Transit''
                    (''Severe Packet Loss Observed ('' @ fmt_fixed 1 avg_loss @ ''%)'')
                    (if 20 \<le> avg_loss then HIGH else MEDIUM)
                    (if 20 \<le> avg_loss then 92 / 100 else 80 / 100)
                    (''High packet loss is degrading transport reliability. '' @ (if local_drops = 0 then upstream_cause else local_cause))
                    [''Observed average packet loss of '' @ fmt_fixed 1 avg_loss @ ''% (peak: '' @ peak @ ''%)'',
                     if local_drops = 0 then ''Local network interface reports zero frame drops (isolating loss to WAN / router transit)''
                     else ''Local network interface also recorded '' @ fmt_fixed 1 local_drops @ '' drops/second'']
                    (severe_loss_recs (if truthy (default_gateway ctx)
                       then py_str env (default_gateway ctx) else ''192.168.0.1'')) [])))))) \<rparr>"

definition high_jitter_recs :: "recommendation list" where
  "high_jitter_recs =
    [recommendation.make ''Check for heavy background uploads/downloads on local network (Bufferbloat)'' None
        ''Large buffer queues in home routers cause packet queuing delay spikes during concurrent transfers.'' 1,
     recommendation.make ''Enable Smart Queue Management (SQM / FQ-CoDel / CAKE) on your router'' None
        ''SQM prevents network buffers from bloating during active traffic surges.'' 2]"

definition high_jitter_latency_rule :: "analysis_env \<Rightarrow> diagnostic_rule" where
  "high_jitter_latency_rule env =
     \<lparr> dg_rule_id = ''RULE_HIGH_JITTER_LATENCY'', dg_name = ''High Network Jitter and Bufferbloat'',
       dg_category = ''Internet Transit'',
       dg_evaluate = (\<lambda>ctx.
         bindR (get_max_jitter ctx) (\<lambda>jitter.
         bindR (below jitter 40) (\<lambda>low.
           if low then Inr None
           else bindR (has_confirmed_jitter_pattern env ctx 40) (\<lambda>confirmed.
             if \<not> confirmed then Inr None
             else bindR (get_cpu_percent env ctx) (\<lambda>cpu.
               if 85 \<le> cpu then Inr None
               else bindR (fmt_num 2 jitter) (\<lambda>shown.
                 report_issue ''RULE_HIGH_JITTER_LATENCY'' ''Internet Transit''
                   ''Elevated Network Jitter / Bufferbloat Detected'' MEDIUM (85 / 100)
                   (''High packet delay variation ('' @ shown @ '' ms jitter) detected on healthy host CPU, indicating bufferbloat on the local gateway or congested ISP intermediate hops.'')
                   [''RFC 3550 Interarrival Jitter measured at '' @ shown @ '' ms'',
                    ''Host CPU utilization is low ('' @ fmt_fixed 1 cpu @ ''%), indicating delay variance is purely network-induced'']
                   high_jitter_recs [])))))) \<rparr>"

section \<open>Host rules\<close>

definition host_saturation_recs :: "recommendation list" where
  "host_saturation_recs =
    [recommendation.make ''Identify and terminate runaway host processes consuming CPU or memory'' (Some ''Get-Process | Sort-Object CPU -Descending | Select-Object -First 10'')
        ''CPU starvation delays network driver interrupt handling (DPC/ISR) and causes packet buffer drops.'' 1,
     recommendation.make ''Inspect system swap/pagefile thrashing'' None
        ''Memory paging freezes userspace networking threads and inflates socket processing latency.'' 2]"

definition above :: "pyval \<Rightarrow> rat \<Rightarrow> bool result" where
  "above v t = bindR (numR v) (\<lambda>x. Inr (t < x))"

definition host_saturation_rule :: "analysis_env \<Rightarrow> diagnostic_rule" where
  "host_saturation_rule env =
     \<lparr> dg_rule_id = ''RULE_HOST_RESOURCE_SATURATION'',
       dg_name = ''Host Resource Exhaustion Degrading Network Stack'', dg_category = ''Host Resources'',
       dg_evaluate = (\<lambda>ctx.
         bindR (get_cpu_percent env ctx) (\<lambda>cpu.
         bindR (get_memory_percent env ctx) (\<lambda>ram.
           if cpu < 85 \<and> ram < 90 then Inr None
           else bindR (get_max_jitter ctx) (\<lambda>jitter.
                bindR (above jitter 20) (\<lambda>high.
                bindR (if high then bindR (fmt_num 2 jitter) (\<lambda>shown.
                         Inr [''Concurrent elevated network jitter: '' @ shown @ '' ms'']) else Inr []) (\<lambda>jitter_line.
                  report_issue ''RULE_HOST_RESOURCE_SATURATION'' ''Host Resources''
                    ''Host Resource Exhaustion Impacting Network Performance''
                    (if 95 \<le> cpu \<or> 95 \<le> ram then HIGH else MEDIUM)
                    (if 90 \<le> cpu \<and> 90 \<le> ram then 92 / 100 else 85 / 100)
                    ''Severe host CPU or memory saturation is preventing timely processing of network packets, masquerading as or compounding network latency.''
                    ((if 85 \<le> cpu then [''Host CPU utilization is critical at '' @ fmt_fixed 1 cpu @ ''%''] else []) @
                     (if 90 \<le> ram then [''Host Memory utilization is critical at '' @ fmt_fixed 1 ram @ ''%''] else []) @ jitter_line)
                    host_saturation_recs [])))))) \<rparr>"

end
