(* ===== verification/Rules_Remote.thy ===== *)
theory Rules_Remote
  imports Rules_Local
begin

text \<open>
  The rules about transport, the path, the links under load, flows, baselines and the mesh:
  \<open>analysis/rules/transport_rules.py\<close>, \<open>path_rules.py\<close>, \<open>link_domain_rules.py\<close>,
  \<open>flow_rules.py\<close>, \<open>cross_rules.py\<close>, \<open>baseline_rules.py\<close>, \<open>mesh_rules.py\<close>, and the
  list \<open>DEFAULT_RULES\<close> of \<open>analysis/rules/__init__.py\<close>.
\<close>

section \<open>Transport rules\<close>

definition port_blocked_recs :: "string \<Rightarrow> recommendation list" where
  "port_blocked_recs failed =
    [recommendation.make (''Inspect local outbound firewall rules for blocked port(s) '' @ failed) (Some ''Get-NetFirewallRule -Direction Outbound -Action Block'')
        ''Host-level firewalls or antivirus endpoint protection often filter non-standard outbound ports.'' 1,
     recommendation.make ''Check corporate proxy, UTM appliance, or cloud security group ACLs'' None
        ''Perimeter firewalls or captive portals frequently drop egress traffic on restricted ports.'' 2]"

definition target_or :: "string \<Rightarrow> diagnostic_result \<Rightarrow> string" where
  "target_or d r = (case dr_target r of None \<Rightarrow> d | Some t \<Rightarrow> if t \<noteq> [] then t else d)"

definition port_blocked_firewall_rule :: "analysis_env \<Rightarrow> diagnostic_rule" where
  "port_blocked_firewall_rule env =
     \<lparr> dg_rule_id = ''RULE_PORT_BLOCKED_FIREWALL'',
       dg_name = ''Port-Specific Firewall or Security Group Blocking'',
       dg_category = ''Firewall & Transport'',
       dg_evaluate = (\<lambda>ctx.
         bindR (is_ip_connectivity_working ctx) (\<lambda>ip_working.
           if \<not> ip_working then Inr None
           else
             (let tcp_results = by_module ctx ''tcp'';
                  failed_ports = filter (\<lambda>r. dr_status r = FAILED) tcp_results;
                  healthy_ports = filter (\<lambda>r. dr_status r = HEALTHY) tcp_results;
                  port_text = (\<lambda>r. py_str env (metric r ''port'')) in
              if failed_ports = [] \<or> healthy_ports = [] then Inr None
              else
                (let failed = join '', '' (map port_text failed_ports);
                     healthy = join '', '' (map port_text healthy_ports);
                     target_host = target_or ''target'' (hd failed_ports) in
                 report_issue ''RULE_PORT_BLOCKED_FIREWALL'' ''Firewall & Transport''
                   (''Port Filtering Detected (TCP '' @ failed @ '' Blocked)'') HIGH (88 / 100)
                   (''Host-level or perimeter firewall is selectively filtering TCP port(s) '' @ failed @ '' to '' @ target_host @ '' while other transport ports remain open.'')
                   [''Failed connection on TCP port(s): '' @ failed,
                    ''Successful connection on TCP port(s): '' @ healthy,
                    ''Basic ICMP Layer 3 reachability is verified'']
                   (port_blocked_recs failed) [])))) \<rparr>"

text \<open>The names of the failed targets that have one. The second recommendation indexes the first
  of them.\<close>

definition failed_names :: "diagnostic_result list \<Rightarrow> string list" where
  "failed_names failed_targets =
     filter (\<lambda>t. t \<noteq> []) (map (target_or []) failed_targets)"

definition target_specific_recs :: "string \<Rightarrow> string \<Rightarrow> recommendation list" where
  "target_specific_recs names first =
    [recommendation.make (''Verify service status and uptime for '' @ names) None
        ''General connectivity is functional; the issue is isolated to the remote service provider.'' 1,
     recommendation.make ''Perform traceroute to isolate remote network hop drops'' (Some (''tracert '' @ first))
        ''Pinpoints whether routing drops occur inside the destination AS or hosting provider.'' 2]"

definition target_specific_failure_rule :: "analysis_env \<Rightarrow> diagnostic_rule" where
  "target_specific_failure_rule env =
     \<lparr> dg_rule_id = ''RULE_TARGET_SPECIFIC_FAILURE'', dg_name = ''Remote Destination Outage'',
       dg_category = ''Firewall & Transport'',
       dg_evaluate = (\<lambda>ctx.
         let conn_results = by_module ctx ''connectivity'';
             failed_targets = filter (\<lambda>r. dr_status r = FAILED) conn_results;
             healthy_targets = filter (\<lambda>r. dr_status r = HEALTHY) conn_results in
         if list_ex (\<lambda>r. public_target (dr_target r)) healthy_targets \<and> failed_targets \<noteq> [] then
           bindR (nthR (failed_names failed_targets) 0) (\<lambda>first.
             (let names = join '', '' (failed_names failed_targets) in
              report_issue ''RULE_TARGET_SPECIFIC_FAILURE'' ''Firewall & Transport''
                (''Remote Destination Outage ('' @ names @ '')'') HIGH (91 / 100)
                (''Public Internet transit is operational, but '' @ names @ '' is down, rejecting connections, or experiencing remote routing failure.'')
                [''Connection failed specifically to: '' @ names,
                 ''Public baseline hosts (1.1.1.1 / 8.8.8.8) are fully reachable'',
                 ''Local network and default gateway are healthy'']
                (target_specific_recs names first) []))
         else Inr None) \<rparr>"

section \<open>Path rules\<close>

text \<open>\<open>max(f(x) for x in xs)\<close> of a list that is not empty, the values computed one by one, and
  the value \<open>h.get(k) or 0\<close> of a hop.\<close>

fun max_loop :: "('a \<Rightarrow> pyval result) \<Rightarrow> pyval \<Rightarrow> 'a list \<Rightarrow> pyval result" where
  "max_loop f m [] = Inr m"
| "max_loop f m (x # xs) =
     bindR (f x) (\<lambda>v. bindR (py_less m v) (\<lambda>b. max_loop f (if b then v else m) xs))"

definition max_of :: "('a \<Rightarrow> pyval result) \<Rightarrow> 'a list \<Rightarrow> pyval result" where
  "max_of f xs = (case xs of [] \<Rightarrow> Inl ValueError | x # xs' \<Rightarrow> bindR (f x) (\<lambda>m. max_loop f m xs'))"

definition hop_value :: "string \<Rightarrow> pyval \<Rightarrow> pyval result" where
  "hop_value k h = bindR (dict_get h k) (\<lambda>v. Inr (or_zero v))"

text \<open>\<open>ctx.is_ip_connectivity_working() and ctx.get_max_packet_loss() < 15.0\<close>.\<close>

definition end_to_end_ok :: "analysis_context \<Rightarrow> bool result" where
  "end_to_end_ok ctx =
     bindR (is_ip_connectivity_working ctx) (\<lambda>ip_working.
       if ip_working then bindR (get_max_packet_loss ctx) (\<lambda>loss. below loss 15) else Inr False)"

definition path_change_recs :: "recommendation list" where
  "path_change_recs =
    [recommendation.make ''Compare current traceroute hops with the previous baseline'' None
        ''Identifies whether the change is local (ISP peering) or remote.'' 1,
     recommendation.make ''Re-run path diagnostics after a few minutes to confirm stability'' None
        ''Transient ECMP hashing can look like a path change.'' 2]"

definition path_change_rule :: "analysis_env \<Rightarrow> diagnostic_rule" where
  "path_change_rule env =
     \<lparr> dg_rule_id = ''RULE_PATH_CHANGE'', dg_name = ''Forwarding Path Changed'', dg_category = ''Path'',
       dg_evaluate = (\<lambda>ctx.
         if \<not> path_changed ctx then Inr None
         else bindR (end_to_end_ok ctx) (\<lambda>fine.
           if fine then Inr None
           else report_issue ''RULE_PATH_CHANGE'' ''Path'' ''Forwarding Path Change Detected''
             MEDIUM (72 / 100)
             ''The hop sequence toward the target differs from the previously stored baseline, indicating routing change, failover, or load-balancing shift.''
             (case first_by_module ctx ''path_change'' of
                None \<Rightarrow> [''Path fingerprint differs from baseline'']
              | Some change \<Rightarrow> dr_evidence change)
             path_change_recs [])) \<rparr>"

definition high_hop_loss_recs :: "recommendation list" where
  "high_hop_loss_recs =
    [recommendation.make ''Repeat traceroute and compare ICMP vs TCP traceroute if available'' None
        ''Some routers rate-limit ICMP TTL-exceeded replies, causing false loss.'' 1,
     recommendation.make ''Correlate with end-to-end packet_loss probes to the same target'' None
        ''True loss usually appears in end-to-end ICMP as well.'' 2]"

definition candidate_hops :: "analysis_context \<Rightarrow> pyval" where
  "candidate_hops ctx =
     (if get_path_hops ctx \<noteq> [] then PList (get_path_hops ctx)
      else (case first_by_module ctx ''hop_metrics'' of
              None \<Rightarrow> PList []
            | Some r \<Rightarrow> (case map_of (dr_metrics r) ''hops'' of None \<Rightarrow> PList [] | Some v \<Rightarrow> v)))"

definition high_hop_loss_rule :: "analysis_env \<Rightarrow> diagnostic_rule" where
  "high_hop_loss_rule env =
     \<lparr> dg_rule_id = RULE_HIGH_HOP_LOSS, dg_name = ''High Per-Hop Packet Loss'', dg_category = ''Path'',
       dg_evaluate = (\<lambda>ctx.
         bindR (py_iter (candidate_hops ctx)) (\<lambda>hops.
         bindR (filterR bad_hop hops) (\<lambda>bad.
           if bad = [] then Inr None
           else bindR (end_to_end_ok ctx) (\<lambda>fine.
             if fine then Inr None
             else bindR (mapR (hop_line env) (take 5 bad)) (\<lambda>evidence.
               report_issue RULE_HIGH_HOP_LOSS ''Path'' ''Elevated Packet Loss on Path Hops'' HIGH (68 / 100)
                 ''One or more intermediate hops show high probe loss, which may indicate congestion, ICMP rate-limiting, or a failing router.''
                 evidence high_hop_loss_recs []))))) \<rparr>"

definition last_mile_recs :: "recommendation list" where
  "last_mile_recs =
    [recommendation.make ''Check local gateway, Wi-Fi, and ISP modem/ONT'' None
        ''Access-segment faults dominate early traceroute hops.'' 1]"

definition core_path_recs :: "recommendation list" where
  "core_path_recs =
    [recommendation.make ''Capture path fingerprints and open a ticket with your ISP including hop list'' None
        ''Core issues are outside local remediation.'' 1]"

text \<open>\<open>a >= x and b < y\<close>, the second test only when the first holds.\<close>

definition at_least_and_below :: "pyval \<Rightarrow> rat \<Rightarrow> pyval \<Rightarrow> rat \<Rightarrow> bool result" where
  "at_least_and_below a x b y = bindR (at_least a x) (\<lambda>p. if p then below b y else Inr False)"

definition last_mile_vs_core_rule :: "analysis_env \<Rightarrow> diagnostic_rule" where
  "last_mile_vs_core_rule env =
     \<lparr> dg_rule_id = ''RULE_LAST_MILE_VS_CORE'', dg_name = ''Last-Mile vs Core Path Degradation'',
       dg_category = ''Path'',
       dg_evaluate = (\<lambda>ctx.
         let hops = get_path_hops ctx; early = take 2 hops; late = drop 2 hops in
         if length hops < 3 then Inr None
         else
           bindR (max_of (hop_value ''loss_percent'') early) (\<lambda>early_loss.
           bindR (max_of (hop_value ''loss_percent'') late) (\<lambda>late_loss.
           bindR (max_of (hop_value ''avg_rtt_ms'') early) (\<lambda>early_rtt.
           bindR (max_of (hop_value ''avg_rtt_ms'') late) (\<lambda>late_rtt.
           bindR (at_least_and_below early_loss 50 late_loss 30) (\<lambda>last_mile.
             if last_mile then
               report_issue ''RULE_LAST_MILE_VS_CORE'' ''Path''
                 ''Likely Last-Mile / Access Path Issue'' HIGH (78 / 100)
                 ''High loss or instability appears on the first hops while deeper hops look healthier, pointing at LAN/CPE/access network.''
                 [''Early-hop max loss '' @ py_str env early_loss @ ''%'',
                  ''Later-hop max loss '' @ py_str env late_loss @ ''%'']
                 last_mile_recs []
             else
               bindR (at_least_and_below late_loss 50 early_loss 20) (\<lambda>deep_loss.
               bindR (if deep_loss then bindR (numR early_rtt) (\<lambda>e. above late_rtt (e + 80))
                      else Inr False) (\<lambda>core.
                 if core then
                   report_issue ''RULE_LAST_MILE_VS_CORE'' ''Path''
                     ''Likely Core / Transit Path Degradation'' HIGH (75 / 100)
                     ''Degradation appears deeper in the path after a healthy access segment, suggesting ISP transit or remote network issues.''
                     [''Early-hop max loss '' @ py_str env early_loss @ ''%, RTT '' @ py_str env early_rtt @ '' ms'',
                      ''Later-hop max loss '' @ py_str env late_loss @ ''%, RTT '' @ py_str env late_rtt @ '' ms'']
                     core_path_recs []
                 else Inr None)))))))) \<rparr>"

section \<open>Link rules under load\<close>

definition link_saturation_recs :: "recommendation list" where
  "link_saturation_recs =
    [recommendation.make ''Identify top talkers or background uploads/downloads on the saturated interface'' None
        ''Saturation is often a single elephant flow or backup job.'' 1,
     recommendation.make ''Upgrade link speed or enable QoS for latency-sensitive traffic'' None
        ''Persistent high utilization needs capacity or prioritization.'' 2]"

text \<open>\<open>f"{r.target}"\<close>.\<close>

definition py_target :: "diagnostic_result \<Rightarrow> string" where
  "py_target r = (case dr_target r of None \<Rightarrow> ''None'' | Some t \<Rightarrow> t)"

definition saturated_line :: "diagnostic_result \<Rightarrow> string list result" where
  "saturated_line r =
     (let u = metric r ''util_percent'' in
      bindR (if u = PNone then Inr False else at_least u 75) (\<lambda>busy.
        if busy then bindR (fmt_num 1 u) (\<lambda>shown.
          Inr [py_target r @ '': '' @ shown @ ''% util''])
        else Inr []))"

definition link_saturation_rule :: "analysis_env \<Rightarrow> diagnostic_rule" where
  "link_saturation_rule env =
     \<lparr> dg_rule_id = ''RULE_LINK_SATURATION'', dg_name = ''Link Utilization Saturation'',
       dg_category = ''Link'',
       dg_evaluate = (\<lambda>ctx.
         bindR (get_max_link_utilization env ctx) (\<lambda>util.
           if util < 75 then Inr None
           else bindR (mapR saturated_line (by_module ctx ''link_utilization'')) (\<lambda>lines.
             report_issue ''RULE_LINK_SATURATION'' ''Link'' ''Network Link Near or At Capacity''
               (if 90 \<le> util then HIGH else MEDIUM) (if 90 \<le> util then 86 / 100 else 78 / 100)
               ''One or more local interfaces are carrying traffic close to their negotiated capacity, which causes queueing delay and drops.''
               ((''Peak observed interface utilization: '' @ fmt_fixed 1 util @ ''%'') # concat lines)
               link_saturation_recs []))) \<rparr>"

definition interface_errors_recs :: "recommendation list" where
  "interface_errors_recs =
    [recommendation.make ''Inspect cabling, switch port, and NIC driver/firmware'' None
        ''Link-layer errors rarely self-heal without physical or driver remediation.'' 1]"

definition metric_or :: "diagnostic_result \<Rightarrow> string \<Rightarrow> pyval \<Rightarrow> pyval" where
  "metric_or r k d = (case map_of (dr_metrics r) k of None \<Rightarrow> d | Some v \<Rightarrow> v)"

text \<open>The loop: the greatest error rate so far and the lines of evidence.\<close>

definition error_step ::
  "analysis_env \<Rightarrow> diagnostic_result \<Rightarrow> rat \<times> string list \<Rightarrow> (rat \<times> string list) result" where
  "error_step env r acc =
     bindR (py_float env (metric_or r ''drops_per_sec'' (PFloat 0))) (\<lambda>d.
     bindR (py_float env (metric_or r ''errors_per_sec'' (PFloat 0))) (\<lambda>e.
       Inr (max (fst acc) e,
         if 1 / 2 \<le> d \<or> 1 / 2 \<le> e
         then snd acc @ [py_target r @ '': '' @ fmt_fixed 2 d @ '' drops/s, '' @ fmt_fixed 2 e @ '' errs/s'']
         else snd acc)))"

fun error_loop ::
  "analysis_env \<Rightarrow> diagnostic_result list \<Rightarrow> rat \<times> string list \<Rightarrow> (rat \<times> string list) result" where
  "error_loop env [] acc = Inr acc"
| "error_loop env (r # rs) acc = bindR (error_step env r acc) (error_loop env rs)"

definition interface_errors_rule :: "analysis_env \<Rightarrow> diagnostic_rule" where
  "interface_errors_rule env =
     \<lparr> dg_rule_id = ''RULE_INTERFACE_ERRORS'', dg_name = ''Interface Errors and Drops'',
       dg_category = ''Link'',
       dg_evaluate = (\<lambda>ctx.
         bindR (get_max_link_drop_rate env ctx) (\<lambda>drop_rate.
         bindR (error_loop env (by_module ctx ''link_errors'') (0, [])) (\<lambda>acc.
           if drop_rate < 1 / 2 \<and> fst acc < 1 / 2 then Inr None
           else report_issue ''RULE_INTERFACE_ERRORS'' ''Link'' ''Active Interface Errors or Drops''
             HIGH (9 / 10)
             ''NIC counters show active drops or errors, typically from cabling, duplex mismatch, driver issues, or RF interference.''
             (if snd acc \<noteq> [] then snd acc else [''Drop rate '' @ fmt_fixed 2 drop_rate @ ''/s''])
             interface_errors_recs [RULE_ACTIVE_PACKET_DROPS]))) \<rparr>"

section \<open>Flow, cross-domain, baseline and mesh rules\<close>

definition elephant_flow_recs :: "recommendation list" where
  "elephant_flow_recs =
    [recommendation.make ''Rate-limit, reschedule, or move the elephant flow to an off-peak window'' None
        ''Reducing a dominant flow restores headroom for interactive traffic.'' 1,
     recommendation.make ''Correlate with link utilization diagnostics on the same segment'' None
        ''Confirms whether the elephant flow is saturating a specific interface.'' 2]"

text \<open>\<open>v[:n]\<close>, and \<open>e.get(k, d)\<close>.\<close>

fun py_slice :: "nat \<Rightarrow> pyval \<Rightarrow> pyval result" where
  "py_slice n (PList xs) = Inr (PList (take n xs))"
| "py_slice n (PStr s) = Inr (PStr (take n s))"
| "py_slice n _ = Inl TypeError"

fun dict_get_or :: "pyval \<Rightarrow> string \<Rightarrow> pyval \<Rightarrow> pyval result" where
  "dict_get_or (PDict d) k v = Inr (case map_of d k of None \<Rightarrow> v | Some w \<Rightarrow> w)"
| "dict_get_or _ k v = Inl AttributeError"

definition elephant_line :: "analysis_env \<Rightarrow> pyval \<Rightarrow> string result" where
  "elephant_line env e =
     bindR (dict_get e ''src'') (\<lambda>src.
     bindR (dict_get e ''dst'') (\<lambda>dst.
     bindR (dict_get_or e ''share'' (PInt 0)) (\<lambda>v.
     bindR (py_float env v) (\<lambda>share.
       Inr (py_str env src @ '' '' @ arrow @ '' '' @ py_str env dst @ '': '' @
            fmt_fixed 1 (share * 100) @ ''% of observed bytes'')))))"

definition elephant_flow_rule :: "analysis_env \<Rightarrow> diagnostic_rule" where
  "elephant_flow_rule env =
     \<lparr> dg_rule_id = ''RULE_ELEPHANT_FLOW'', dg_name = ''Elephant Flow Dominating Traffic'',
       dg_category = ''Flow'',
       dg_evaluate = (\<lambda>ctx.
         case first_by_module ctx ''flow_analysis'' of
           None \<Rightarrow> Inr None
         | Some flow \<Rightarrow>
             (let elephants = metric flow ''elephant_flows'' in
              if \<not> truthy elephants then Inr None
              else bindR (py_slice 5 elephants) (\<lambda>s. bindR (py_iter s) (\<lambda>es.
                   bindR (mapR (elephant_line env) es) (\<lambda>evidence.
                     report_issue ''RULE_ELEPHANT_FLOW'' ''Flow''
                       ''Elephant Flow Dominating Observed Traffic'' MEDIUM (84 / 100)
                       ''One or a few conversations account for a large share of observed bytes, which can saturate links and inflate latency for other flows.''
                       evidence elephant_flow_recs []))))) \<rparr>"

definition congestion_recs :: "recommendation list" where
  "congestion_recs =
    [recommendation.make ''Reduce local traffic load or upgrade the saturated interface'' None
        ''Congestion at the edge explains both util spikes and loss signals.'' 1]"

definition link_congestion_rule :: "analysis_env \<Rightarrow> diagnostic_rule" where
  "link_congestion_rule env =
     \<lparr> dg_rule_id = ''RULE_LINK_CONGESTION_WITH_PATH_LOSS'',
       dg_name = ''Link Congestion Correlated with Path Loss'', dg_category = ''Cross-Domain'',
       dg_evaluate = (\<lambda>ctx.
         bindR (get_max_link_utilization env ctx) (\<lambda>util.
         bindR (anyR (\<lambda>r. at_least (or_zero (metric r ''congestion_score'')) 45)
                  (by_module ctx ''link_congestion'')) (\<lambda>severe.
           if util < 75 \<and> \<not> severe then Inr None
           else
             bindR (if get_path_hops ctx \<noteq> [] then max_of (hop_value ''loss_percent'') (get_path_hops ctx)
                    else Inr (PFloat 0)) (\<lambda>hop_loss.
             bindR (get_max_packet_loss ctx) (\<lambda>e2e_loss.
             bindR (below hop_loss 30) (\<lambda>p.
             bindR (if p then below e2e_loss 5 else Inr False) (\<lambda>fine.
               if fine then Inr None
               else report_issue ''RULE_LINK_CONGESTION_WITH_PATH_LOSS'' ''Cross-Domain''
                 ''Local Link Congestion Correlated with Path Loss'' HIGH (8 / 10)
                 ''High local link utilization coincides with elevated path or end-to-end loss, suggesting congestion-induced drops rather than a pure remote failure.''
                 [''Peak link utilization '' @ fmt_fixed 1 util @ ''%'',
                  ''Max path hop loss '' @ py_str env hop_loss @ ''%'',
                  ''Max end-to-end loss '' @ py_str env e2e_loss @ ''%'']
                 congestion_recs [RULE_HIGH_HOP_LOSS]))))))) \<rparr>"

definition sudden_degradation_recs :: "recommendation list" where
  "sudden_degradation_recs =
    [recommendation.make ''Identify what changed recently (config, load, path, or interface state)'' None
        ''Baseline deviations imply a delta from the recent healthy window.'' 1,
     recommendation.make ''Re-run host, link, and path diagnostics against the affected target'' None
        ''Localizes whether the regression is endpoint, link, or path scoped.'' 2]"

definition deviated_delta :: "diagnostic_result \<Rightarrow> bool result" where
  "deviated_delta r =
     (if \<not> truthy (metric r ''deviated'') then Inr False
      else bindR (py_int (or_zero (metric r ''sample_count''))) (\<lambda>n.
        if n < 5 then Inr False else at_least (or_zero (metric r ''ratio'')) (3 / 2)))"

definition sudden_degradation_rule :: "analysis_env \<Rightarrow> diagnostic_rule" where
  "sudden_degradation_rule env =
     \<lparr> dg_rule_id = ''RULE_SUDDEN_DEGRADATION'', dg_name = ''Sudden Metric Degradation vs Baseline'',
       dg_category = ''Baseline'',
       dg_evaluate = (\<lambda>ctx.
         bindR (filterR deviated_delta (by_module ctx ''baseline_delta'')) (\<lambda>bad.
           if bad = [] then Inr None
           else bindR (max_of (\<lambda>r. Inr (or_zero (metric r ''ratio''))) bad) (\<lambda>ratio.
                bindR (at_least ratio (5 / 2)) (\<lambda>bad_ratio.
                  report_issue ''RULE_SUDDEN_DEGRADATION'' ''Baseline''
                    ''Sudden Performance Degradation Relative to Baseline''
                    (if bad_ratio then HIGH else MEDIUM) (8 / 10)
                    ''One or more latency, loss, or utilization metrics are significantly worse than their recent rolling baseline, suggesting a recent change rather than a long-standing condition.''
                    (map dr_summary (take 5 bad)) sudden_degradation_recs [])))) \<rparr>"

definition mesh_partition_recs :: "recommendation list" where
  "mesh_partition_recs =
    [recommendation.make ''Compare failed vs healthy mesh targets for shared subnet/VLAN/path'' None
        ''Shared attributes among failures localize the partition boundary.'' 1,
     recommendation.make ''Verify local gateway and uplink before blaming remote destinations'' None
        ''Total mesh failure is often local; partial failure is often path/ACL.'' 2]"

definition mesh_cause :: "int \<Rightarrow> int \<Rightarrow> string" where
  "mesh_cause failed targets =
     (if failed = targets
      then ''All configured mesh targets are unreachable from this vantage point, indicating a local uplink failure or a broad network outage.''
      else str_of_int failed @ ''/'' @ str_of_int targets @
        '' mesh targets failed while others remain reachable, suggesting a regional partition, selective ACL, or destination-specific outage.'')"

definition mesh_partition_rule :: "analysis_env \<Rightarrow> diagnostic_rule" where
  "mesh_partition_rule env =
     \<lparr> dg_rule_id = ''RULE_MESH_PARTITION'', dg_name = ''Mesh Target Partition or Widespread Failure'',
       dg_category = ''Mesh'',
       dg_evaluate = (\<lambda>ctx.
         case first_by_module ctx ''mesh_summary'' of
           None \<Rightarrow> Inr None
         | Some summary \<Rightarrow>
             bindR (py_int (or_zero (metric summary ''failed_count''))) (\<lambda>failed.
             bindR (py_int (or_zero (metric summary ''target_count''))) (\<lambda>targets.
               if targets = 0 \<or> failed = 0 then Inr None
               else
                 (let failed_targets = filter (\<lambda>t. t \<noteq> []) (map (target_or [])
                        (filter (\<lambda>r. dr_status r = FAILED) (by_module ctx ''mesh_ping''))) in
                  report_issue ''RULE_MESH_PARTITION'' ''Mesh''
                    (if failed = targets then ''Total Mesh Reachability Failure'' else ''Partial Mesh Partition'')
                    (if failed = targets then CRITICAL else HIGH)
                    (if failed = targets then 9 / 10 else 82 / 100)
                    (mesh_cause failed targets)
                    (dr_summary summary #
                     (if failed_targets \<noteq> []
                      then [''Failed targets: '' @ join '', '' (take 8 failed_targets)] else []))
                    mesh_partition_recs [])))) \<rparr>"

section \<open>The default rules\<close>

definition DEFAULT_RULES :: "analysis_env \<Rightarrow> diagnostic_rule list" where
  "DEFAULT_RULES env =
     [all_interfaces_down_rule env, active_packet_drops_rule env, no_default_gateway_rule env,
      gateway_unreachable_rule env, gateway_healthy_wan_outage_rule env,
      total_internet_outage_rule env, dns_failure_with_healthy_ip_rule env, dns_timeout_rule env,
      slow_dns_resolution_rule env, severe_packet_loss_rule env, high_jitter_latency_rule env,
      port_blocked_firewall_rule env, target_specific_failure_rule env, host_saturation_rule env,
      path_change_rule env, high_hop_loss_rule env, last_mile_vs_core_rule env,
      link_saturation_rule env, interface_errors_rule env, elephant_flow_rule env,
      link_congestion_rule env, sudden_degradation_rule env, mesh_partition_rule env]"

end
