(* ===== verification/Rule_Engine.thy ===== *)
theory Rule_Engine
  imports Rules_Remote "HOL-Library.Multiset"
begin

text \<open>
  Model of the rule engine (\<open>analysis/engine.py\<close>): the evidence anomalies and the issues of
  the registered rules, the isolation of a rule that raises, the suppression of issues by others,
  the order of the report, its status, its verdict and its key observations. The engine is an
  object with the registered rules and the errors of the last analysis; the timestamp of the
  report is an argument. The percentage in the verdict is the truncated product of two floats,
  which is not the product of the decimals (\<open>int(0.58 * 100)\<close> is 57), so that one place
  computes with the rounded values of binary64.
\<close>

section \<open>The percentage of a confidence\<close>

text \<open>The exponent \<open>e\<close> with \<open>2 ^ e <= x < 2 ^ (e + 1)\<close> of a positive number, and the nearest
  binary64 number with its 53 significant bits.\<close>

fun int_bits :: "int \<Rightarrow> int" where
  "int_bits n = (if n \<le> 0 then 0 else 1 + int_bits (n div 2))"

declare int_bits.simps [simp del]

definition float_exponent :: "rat \<Rightarrow> int" where
  "float_exponent x =
     (let pq = quotient_of x; e = int_bits (fst pq) - int_bits (snd pq)
      in if x < 2 powi e then e - 1 else e)"

definition float64 :: "rat \<Rightarrow> rat" where
  "float64 x =
     (if x \<le> 0 then x
      else (let e = float_exponent x - 52
            in of_int (round_half_even (x * 2 powi (- e))) * 2 powi e))"

definition percent_of :: "rat \<Rightarrow> int" where
  "percent_of confidence = py_trunc (float64 (float64 confidence * 100))"

section \<open>The engine\<close>

record rule_engine =
  re_rules :: "diagnostic_rule list"
  re_rule_errors :: "(string \<times> string) list"

definition new_rule_engine :: "analysis_env \<Rightarrow> diagnostic_rule list option \<Rightarrow> rule_engine" where
  "new_rule_engine env rules =
     \<lparr> re_rules = (case rules of None \<Rightarrow> DEFAULT_RULES env | Some rs \<Rightarrow> rs), re_rule_errors = [] \<rparr>"

definition add_rule :: "diagnostic_rule \<Rightarrow> rule_engine \<Rightarrow> rule_engine" where
  "add_rule rule e = e \<lparr> re_rules := re_rules e @ [rule] \<rparr>"

definition second_window_recs :: "recommendation list" where
  "second_window_recs =
    [recommendation.make ''Collect a second probe window before escalating'' None
        ''This is a low-confidence anomaly; corroborating evidence should be collected before treating it as a fault.'' 1]"

definition anomaly_issue :: "nat \<times> evidence_anomaly \<Rightarrow> diagnosed_issue result" where
  "anomaly_issue p =
     (let idx = fst p; anomaly = snd p in
      validate_issue
        \<lparr> di_rule_id = ''EVIDENCE_ANOMALY_'' @ str_of_nat idx, di_title = ea_title anomaly,
          di_category = ''Evidence'', di_severity = LOW, di_confidence = ea_confidence anomaly,
          di_confidence_level = from_score (ea_confidence anomaly),
          di_root_cause = ea_summary anomaly, di_correlated_evidence = ea_evidence anomaly,
          di_recommendations = second_window_recs, di_suppressed_rules = [] \<rparr>)"

definition anomaly_issues ::
  "analysis_env \<Rightarrow> diagnostic_result list \<Rightarrow> diagnosed_issue list result" where
  "anomaly_issues env results =
     bindR (correlate_evidence env results) (\<lambda>anomalies.
       mapR anomaly_issue (List.enumerate 1 anomalies))"

text \<open>The loop over the rules: an exception of a rule is recorded and the loop goes on.\<close>

fun run_rules ::
  "analysis_env \<Rightarrow> analysis_context \<Rightarrow> diagnostic_rule list \<Rightarrow> diagnosed_issue list \<Rightarrow>
   rule_engine \<Rightarrow> diagnosed_issue list \<times> rule_engine" where
  "run_rules env ctx [] raw_issues e = (raw_issues, e)"
| "run_rules env ctx (rule # rules) raw_issues e =
     (case dg_evaluate rule ctx of
        Inr None \<Rightarrow> run_rules env ctx rules raw_issues e
      | Inr (Some issue) \<Rightarrow> run_rules env ctx rules (raw_issues @ [issue]) e
      | Inl exc \<Rightarrow> run_rules env ctx rules raw_issues
          (e \<lparr> re_rule_errors := re_rule_errors e @ [(dg_rule_id rule, ae_exc_text env exc)] \<rparr>))"

definition suppressed_ids :: "diagnosed_issue list \<Rightarrow> string list" where
  "suppressed_ids raw_issues = concat (map di_suppressed_rules raw_issues)"

fun severity_order :: "severity \<Rightarrow> nat" where
  "severity_order CRITICAL = 0"
| "severity_order HIGH = 1"
| "severity_order MEDIUM = 2"
| "severity_order LOW = 3"
| "severity_order INFO = 4"

definition issue_key :: "diagnosed_issue \<Rightarrow> nat \<times> rat" where
  "issue_key i = (severity_order (di_severity i), - di_confidence i)"

definition resolve_issues :: "diagnosed_issue list \<Rightarrow> diagnosed_issue list" where
  "resolve_issues raw_issues =
     sort_key issue_key
       (filter (\<lambda>i. di_rule_id i \<notin> set (suppressed_ids raw_issues)) raw_issues)"

definition minor :: "diagnosed_issue \<Rightarrow> bool" where
  "minor i = (di_severity i \<in> {LOW, INFO})"

definition confirmed_failure :: "diagnosed_issue \<Rightarrow> bool" where
  "confirmed_failure i = (di_severity i \<in> {CRITICAL, HIGH} \<and> 75 / 100 \<le> di_confidence i)"

definition substantive_degraded :: "diagnostic_result \<Rightarrow> bool" where
  "substantive_degraded r =
     (dr_status r = DEGRADED \<and> dr_module r \<notin> {''path_change'', ''traceroute''})"

definition report_status :: "diagnosed_issue list \<Rightarrow> diagnostic_result list \<Rightarrow> diagnostic_status" where
  "report_status active_issues results =
     (if filter confirmed_failure active_issues \<noteq> [] then FAILED
      else if 0 < length (filter substantive_degraded results) \<or> list_ex (\<lambda>i. \<not> minor i) active_issues
      then DEGRADED
      else HEALTHY)"

definition quoted_title :: "diagnosed_issue \<Rightarrow> string" where
  "quoted_title i = [CHR 0x27] @ di_title i @ [CHR 0x27]"

definition synthesize_verdict :: "diagnosed_issue list \<Rightarrow> string" where
  "synthesize_verdict issues =
     (case issues of
        [] \<Rightarrow> ''All diagnostic probes passed. Host network stack, local gateway, DNS, and transit appear fully operational.''
      | primary # others \<Rightarrow>
          if list_all minor issues then
            ''No confirmed network fault. Minor observations were recorded and require corroboration before escalation.''
          else if others = [] then
            ''Primary root cause identified: '' @ di_title primary @ '' (Confidence: '' @ str_of_int (percent_of (di_confidence primary)) @ ''%).''
          else
            ''Multiple network issues detected. Primary root cause: '' @ quoted_title primary @ '' ('' @
            str_of_int (percent_of (di_confidence primary)) @
            ''% confidence). Secondary contributing factors: '' @
            join '', '' (map quoted_title (take 2 others)) @ ''.'')"

definition key_observations ::
  "analysis_env \<Rightarrow> analysis_context \<Rightarrow> string \<Rightarrow> string list result" where
  "key_observations env ctx target_host =
     bindR (is_ip_connectivity_working ctx) (\<lambda>ip_working.
       Inr ((if has_active_interface ctx then [''Network interface link is UP and assigned an IP address.''] else []) @
            (if has_default_gateway ctx
             then [''Default gateway route ('' @ py_str env (default_gateway ctx) @ '') is active.''] else []) @
            (if is_dns_resolution_working ctx
             then [''DNS resolution succeeded for '' @ target_host @ ''.''] else []) @
            (if ip_working then [''Raw Layer 3/4 Internet connectivity is operational.''] else [])))"

definition analyze ::
  "analysis_env \<Rightarrow> string \<Rightarrow> diagnostic_result list \<Rightarrow> string \<Rightarrow> (rule_engine, diagnosis_report) act" where
  "analyze env now results target_host e =
     (let ctx = make_context results; e1 = e \<lparr> re_rule_errors := [] \<rparr> in
      case anomaly_issues env results of
        Inl exc \<Rightarrow> (Inl exc, e1)
      | Inr anomalies \<Rightarrow>
          (case run_rules env ctx (re_rules e1) anomalies e1 of (raw_issues, e2) \<Rightarrow>
             let active_issues = resolve_issues raw_issues in
             (case key_observations env ctx target_host of
                Inl exc \<Rightarrow> (Inl exc, e2)
              | Inr observations \<Rightarrow>
                  (Inr \<lparr> rp_timestamp = now, rp_target_host = target_host,
                         rp_total_probes = length results,
                         rp_healthy_probes = count_status HEALTHY results,
                         rp_degraded_probes = count_status DEGRADED results,
                         rp_failed_probes = count_status FAILED results,
                         rp_status = report_status active_issues results,
                         rp_verdict = synthesize_verdict active_issues,
                         rp_issues = active_issues, rp_key_observations = observations,
                         rp_rule_errors = re_rule_errors e2 \<rparr>, e2))))"

section \<open>What an analysis returns\<close>

text \<open>The issues of the rules that return one, and the errors of the rules that raise, in the order
  of the rules.\<close>

definition rule_issues :: "analysis_context \<Rightarrow> diagnostic_rule list \<Rightarrow> diagnosed_issue list" where
  "rule_issues ctx rules = concat (map (\<lambda>r. case dg_evaluate r ctx of
     Inr (Some i) \<Rightarrow> [i] | _ \<Rightarrow> []) rules)"

definition rule_failures ::
  "analysis_env \<Rightarrow> analysis_context \<Rightarrow> diagnostic_rule list \<Rightarrow> (string \<times> string) list" where
  "rule_failures env ctx rules = concat (map (\<lambda>r. case dg_evaluate r ctx of
     Inl exc \<Rightarrow> [(dg_rule_id r, ae_exc_text env exc)] | Inr _ \<Rightarrow> []) rules)"

lemma run_rules_spec:
  "run_rules env ctx rules acc e =
     (acc @ rule_issues ctx rules,
      e \<lparr> re_rule_errors := re_rule_errors e @ rule_failures env ctx rules \<rparr>)"
  by (induction rules arbitrary: acc e)
    (auto simp: rule_issues_def rule_failures_def split: sum.splits option.splits)

lemma in_rule_issues:
  "i \<in> set (rule_issues ctx rules) \<longleftrightarrow> (\<exists>r \<in> set rules. dg_evaluate r ctx = Inr (Some i))"
  by (force simp: rule_issues_def split: sum.splits option.splits)

lemma analyze_eq_Inr:
  "analyze env now results target e = (Inr r, e') \<longleftrightarrow>
     (\<exists>anomalies observations.
        anomaly_issues env results = Inr anomalies \<and>
        key_observations env (make_context results) target = Inr observations \<and>
        r = \<lparr> rp_timestamp = now, rp_target_host = target, rp_total_probes = length results,
              rp_healthy_probes = count_status HEALTHY results,
              rp_degraded_probes = count_status DEGRADED results,
              rp_failed_probes = count_status FAILED results,
              rp_status = report_status (resolve_issues
                (anomalies @ rule_issues (make_context results) (re_rules e))) results,
              rp_verdict = synthesize_verdict (resolve_issues
                (anomalies @ rule_issues (make_context results) (re_rules e))),
              rp_issues = resolve_issues
                (anomalies @ rule_issues (make_context results) (re_rules e)),
              rp_key_observations = observations,
              rp_rule_errors = rule_failures env (make_context results) (re_rules e) \<rparr> \<and>
        e' = e \<lparr> re_rule_errors := rule_failures env (make_context results) (re_rules e) \<rparr>)"
  by (auto simp: analyze_def Let_def run_rules_spec split: sum.splits)

lemma report_fields:
  assumes "analyze env now results target e = (Inr r, e')"
  shows "\<exists>anomalies. anomaly_issues env results = Inr anomalies \<and>
    rp_issues r = resolve_issues (anomalies @ rule_issues (make_context results) (re_rules e)) \<and>
    rp_status r = report_status (rp_issues r) results \<and>
    rp_verdict r = synthesize_verdict (rp_issues r) \<and>
    rp_failed_probes r = count_status FAILED results"
  using assms by (auto simp: analyze_eq_Inr)

lemma report_field_status:
  assumes "analyze env now results target e = (Inr r, e')"
  shows "rp_status r = report_status (rp_issues r) results"
  using report_fields [OF assms] by blast

lemma severity_bands:
  "sv \<ge> HIGH \<longleftrightarrow> sv \<in> {CRITICAL, HIGH}" "sv \<le> LOW \<longleftrightarrow> sv \<in> {LOW, INFO}"
  by (cases sv; simp add: less_eq_severity_def)+

lemma report_status_failed:
  assumes "analyze env now results target e = (Inr r, e')"
  shows "rp_status r = FAILED \<longleftrightarrow>
    (\<exists>i \<in> set (rp_issues r). di_severity i \<ge> HIGH \<and> 75 / 100 \<le> di_confidence i)"
  unfolding report_field_status [OF assms]
  by (auto simp: report_status_def severity_bands confirmed_failure_def filter_empty_conv)

lemma report_status_healthy:
  assumes "analyze env now results target e = (Inr r, e')"
  shows "rp_status r = HEALTHY \<longleftrightarrow>
    (\<forall>i \<in> set (rp_issues r). di_severity i \<le> LOW) \<and> \<not> (\<exists>p \<in> set results. substantive_degraded p)"
  unfolding report_field_status [OF assms]
  by (auto simp: report_status_def severity_bands confirmed_failure_def minor_def filter_empty_conv
      list_ex_iff)

lemma set_resolve:
  "i \<in> set (resolve_issues raw) \<longleftrightarrow> i \<in> set raw \<and> di_rule_id i \<notin> set (suppressed_ids raw)"
  by (auto simp: resolve_issues_def)

lemma in_suppressed_ids: "x \<in> set (suppressed_ids raw) \<longleftrightarrow> (\<exists>i \<in> set raw. x \<in> set (di_suppressed_rules i))"
  by (auto simp: suppressed_ids_def)

lemma mapR_mem: "mapR f xs = Inr ys \<Longrightarrow> y \<in> set ys \<Longrightarrow> \<exists>x \<in> set xs. f x = Inr y"
  by (induction xs arbitrary: ys) (auto simp: bindR_eq_Inr)

text \<open>An anomaly becomes an issue of severity low that suppresses nothing.\<close>

lemma anomaly_issue_shape:
  assumes "anomaly_issues env results = Inr anomalies" "i \<in> set anomalies"
  shows "(\<exists>n. di_rule_id i = ''EVIDENCE_ANOMALY_'' @ str_of_nat n) \<and> di_severity i = LOW \<and>
    di_suppressed_rules i = [] \<and> di_category i = ''Evidence'' \<and>
    (\<exists>as a. correlate_evidence env results = Inr as \<and> a \<in> set as \<and> di_confidence i = ea_confidence a)"
proof -
  obtain as where as: "correlate_evidence env results = Inr as"
    and m: "mapR anomaly_issue (List.enumerate 1 as) = Inr anomalies"
    using assms(1) by (auto simp: anomaly_issues_def bindR_eq_Inr)
  obtain p where p: "p \<in> set (List.enumerate 1 as)" "anomaly_issue p = Inr i"
    using mapR_mem [OF m assms(2)] by blast
  have "snd p \<in> set as"
    using p(1) by (metis in_set_impl_in_set_zip2 enumerate_eq_zip in_set_zipE prod.collapse)
  then show ?thesis
    using p(2) as by (auto simp: anomaly_issue_def validate_issue_def Let_def bindR_eq_Inr)
qed

text \<open>C5: A rule that raises never affects the others: the report of an engine is, apart from the
  recorded errors, the report of the engine with only the rules that do not raise on these results,
  and the errors are those of the raising rules, in their order.\<close>

theorem rules_isolated:
  "fst (analyze env now results target
      (e \<lparr> re_rules := filter (\<lambda>r. \<not> isl (dg_evaluate r (make_context results))) (re_rules e) \<rparr>)) =
   map_sum id (\<lambda>r. r \<lparr> rp_rule_errors := [] \<rparr>) (fst (analyze env now results target e)) \<and>
   (case fst (analyze env now results target e) of Inl _ \<Rightarrow> True
    | Inr r \<Rightarrow> map fst (rp_rule_errors r) =
        map dg_rule_id (filter (\<lambda>r. isl (dg_evaluate r (make_context results))) (re_rules e)))"
proof -
  let ?ctx = "make_context results"
  have issues: "rule_issues ?ctx (filter (\<lambda>r. \<not> isl (dg_evaluate r ?ctx)) rules) = rule_issues ?ctx rules"
    for rules by (induction rules) (auto simp: rule_issues_def split: sum.splits)
  have none: "rule_failures env ?ctx (filter (\<lambda>r. \<not> isl (dg_evaluate r ?ctx)) rules) = []"
    for rules by (auto simp: rule_failures_def split: sum.splits)
  have "map fst (rule_failures env ?ctx rules) =
      map dg_rule_id (filter (\<lambda>r. isl (dg_evaluate r ?ctx)) rules)" for rules
    by (induction rules) (auto simp: rule_failures_def split: sum.splits)
  then show ?thesis
    by (simp add: analyze_def Let_def run_rules_spec issues none split: sum.splits)
qed


text \<open>A run of the engine on concrete results returns a report with a property.\<close>

lemma run_exists:
  assumes "case fst (analyze env now results target e) of Inl _ \<Rightarrow> False | Inr r \<Rightarrow> P r"
  shows "\<exists>r e'. analyze env now results target e = (Inr r, e') \<and> P r"
  using assms by (cases "analyze env now results target e") (auto split: sum.splits)

definition outage_results :: "diagnostic_result list" where
  "outage_results =
     [sample_probe ''routing'' HEALTHY [(''default_gateway'', PStr ''10.0.0.1'')],
      sample_probe ''connectivity'' FAILED [],
      sample_probe ''packet_loss'' FAILED [(''packet_loss_percent'', PInt 100)],
      (sample_probe ''dns'' FAILED []) \<lparr> dr_summary := ''Timeout'' \<rparr>]"


end
