(* ===== verification/Default_Rules.thy ===== *)
theory Default_Rules
  imports Rule_Engine
begin

text \<open>
  What the default rules report: every issue carries the id and the category of its rule, a
  severity of at least medium, a confidence between 0.68 and 0.98 with its level, and a
  recommendation; when the link and gateway rules fire; and what that means for the report of the
  default engine.
\<close>

section \<open>The shape of an issue\<close>

definition conforms :: "diagnostic_rule \<Rightarrow> diagnosed_issue \<Rightarrow> bool" where
  "conforms rule i =
     (di_rule_id i = dg_rule_id rule \<and> di_category i = dg_category rule \<and>
      MEDIUM \<le> di_severity i \<and> 68 / 100 \<le> di_confidence i \<and> di_confidence i \<le> 98 / 100 \<and>
      di_confidence_level i = from_score (di_confidence i) \<and> di_recommendations i \<noteq> [])"

lemma bounded_confidence_between:
  assumes "68 / 100 \<le> c" "c \<le> 98 / 100"
  shows "68 / 100 \<le> bounded_confidence c \<and> bounded_confidence c \<le> 98 / 100"
proof -
  have "py_round (68 / 100) 2 \<le> py_round c 2" "py_round c 2 \<le> py_round (98 / 100) 2"
    using assms by (simp_all add: py_round_mono)
  moreover have "py_round (68 / 100) 2 = 68 / 100" "py_round (98 / 100) 2 = 98 / 100"
    by code_simp+
  ultimately show ?thesis by (simp add: bounded_confidence_def)
qed

lemma report_issue_eq:
  "report_issue rid cat title sev conf cause ev recs sups = Inr (Some i) \<longleftrightarrow>
     i = \<lparr> di_rule_id = rid, di_title = title, di_category = cat, di_severity = sev,
           di_confidence = bounded_confidence conf,
           di_confidence_level = from_score (bounded_confidence conf), di_root_cause = cause,
           di_correlated_evidence = ev, di_recommendations = recs, di_suppressed_rules = sups \<rparr>"
  by (auto simp: report_issue_def build_issue_ok)

lemma report_issue_not_none [simp]:
  "report_issue rid cat title sev conf cause ev recs sups \<noteq> Inr None"
  "report_issue rid cat title sev conf cause ev recs sups \<noteq> Inl exc"
  by (simp_all add: report_issue_def build_issue_ok)

lemma severity_ge_medium [simp]:
  "MEDIUM \<le> CRITICAL" "MEDIUM \<le> HIGH" "MEDIUM \<le> (MEDIUM :: severity)"
  by (simp_all add: less_eq_severity_def)

text \<open>Every issue an evaluation can return has a property, along the structure of the evaluation.\<close>

definition emits :: "(diagnosed_issue \<Rightarrow> bool) \<Rightarrow> diagnosed_issue option result \<Rightarrow> bool" where
  "emits P m \<longleftrightarrow> (\<forall>i. m = Inr (Some i) \<longrightarrow> P i)"

lemma emitsD: "emits P m \<Longrightarrow> m = Inr (Some i) \<Longrightarrow> P i"
  by (simp add: emits_def)

lemma emits_none: "emits P (Inr None)"
  by (simp add: emits_def)

lemma emits_bind: "(\<And>x. m = Inr x \<Longrightarrow> emits P (f x)) \<Longrightarrow> emits P (bindR m f)"
  by (auto simp: emits_def bindR_eq_Inr)

lemma emits_if: "(b \<Longrightarrow> emits P x) \<Longrightarrow> (\<not> b \<Longrightarrow> emits P y) \<Longrightarrow> emits P (if b then x else y)"
  by simp

lemma emits_option:
  "(m = None \<Longrightarrow> emits P x) \<Longrightarrow> (\<And>r. m = Some r \<Longrightarrow> emits P (f r)) \<Longrightarrow>
     emits P (case m of None \<Rightarrow> x | Some r \<Rightarrow> f r)"
  by (cases m) simp_all

lemma emits_let: "(\<And>x. x = a \<Longrightarrow> emits P (f x)) \<Longrightarrow> emits P (let x = a in f x)"
  by (simp add: Let_def)

lemmas emits_intros = emits_none emits_bind emits_if emits_option emits_let

lemma emits_report:
  assumes "MEDIUM \<le> sev" "68 / 100 \<le> conf" "conf \<le> 98 / 100" "recs \<noteq> []"
  shows "emits (\<lambda>i. di_rule_id i = rid \<and> di_category i = cat \<and> MEDIUM \<le> di_severity i \<and>
      68 / 100 \<le> di_confidence i \<and> di_confidence i \<le> 98 / 100 \<and>
      di_confidence_level i = from_score (di_confidence i) \<and> di_recommendations i \<noteq> [])
    (report_issue rid cat title sev conf cause ev recs sups)"
  using assms bounded_confidence_between [of conf] by (simp add: emits_def report_issue_eq)

lemma conforms_emits:
  "conforms rule = (\<lambda>i. di_rule_id i = dg_rule_id rule \<and> di_category i = dg_category rule \<and>
      MEDIUM \<le> di_severity i \<and> 68 / 100 \<le> di_confidence i \<and> di_confidence i \<le> 98 / 100 \<and>
      di_confidence_level i = from_score (di_confidence i) \<and> di_recommendations i \<noteq> [])"
  by (simp add: conforms_def fun_eq_iff)

lemma recs_not_empty [simp]:
  "all_interfaces_down_recs \<noteq> []" "active_packet_drops_recs \<noteq> []" "no_default_gateway_recs \<noteq> []"
  "gateway_unreachable_recs present gw \<noteq> []" "wan_outage_recs gw \<noteq> []" "total_outage_recs \<noteq> []"
  "dns_failure_recs \<noteq> []" "dns_timeout_recs \<noteq> []" "slow_dns_recs \<noteq> []" "severe_loss_recs gw \<noteq> []"
  "high_jitter_recs \<noteq> []" "host_saturation_recs \<noteq> []"
  unfolding all_interfaces_down_recs_def active_packet_drops_recs_def no_default_gateway_recs_def
    gateway_unreachable_recs_def wan_outage_recs_def total_outage_recs_def dns_failure_recs_def
    dns_timeout_recs_def slow_dns_recs_def severe_loss_recs_def high_jitter_recs_def
    host_saturation_recs_def
  by (rule list.distinct)+

lemma recs_not_empty' [simp]:
  "port_blocked_recs failed \<noteq> []" "target_specific_recs names first \<noteq> []" "path_change_recs \<noteq> []"
  "high_hop_loss_recs \<noteq> []" "last_mile_recs \<noteq> []" "core_path_recs \<noteq> []" "link_saturation_recs \<noteq> []"
  "interface_errors_recs \<noteq> []" "elephant_flow_recs \<noteq> []" "congestion_recs \<noteq> []"
  "sudden_degradation_recs \<noteq> []" "mesh_partition_recs \<noteq> []"
  unfolding port_blocked_recs_def target_specific_recs_def path_change_recs_def
    high_hop_loss_recs_def last_mile_recs_def core_path_recs_def link_saturation_recs_def
    interface_errors_recs_def elephant_flow_recs_def congestion_recs_def
    sudden_degradation_recs_def mesh_partition_recs_def
  by (rule list.distinct)+

lemma link_conform:
  "emits (conforms (all_interfaces_down_rule env)) (dg_evaluate (all_interfaces_down_rule env) ctx)"
  "emits (conforms (active_packet_drops_rule env)) (dg_evaluate (active_packet_drops_rule env) ctx)"
  unfolding conforms_emits all_interfaces_down_rule_def active_packet_drops_rule_def
    diagnostic_rule.select_convs
  by (intro emits_intros emits_report; simp)+

lemma gateway_conform:
  "emits (conforms (no_default_gateway_rule env)) (dg_evaluate (no_default_gateway_rule env) ctx)"
  "emits (conforms (gateway_unreachable_rule env)) (dg_evaluate (gateway_unreachable_rule env) ctx)"
  "emits (conforms (gateway_healthy_wan_outage_rule env)) (dg_evaluate (gateway_healthy_wan_outage_rule env) ctx)"
  "emits (conforms (total_internet_outage_rule env)) (dg_evaluate (total_internet_outage_rule env) ctx)"
  unfolding conforms_emits no_default_gateway_rule_def
    gateway_unreachable_rule_def
    gateway_healthy_wan_outage_rule_def
    total_internet_outage_rule_def
    diagnostic_rule.select_convs
  by (intro emits_intros emits_report; simp)+

lemma dns_conform:
  "emits (conforms (dns_failure_with_healthy_ip_rule env)) (dg_evaluate (dns_failure_with_healthy_ip_rule env) ctx)"
  "emits (conforms (dns_timeout_rule env)) (dg_evaluate (dns_timeout_rule env) ctx)"
  "emits (conforms (slow_dns_resolution_rule env)) (dg_evaluate (slow_dns_resolution_rule env) ctx)"
  unfolding conforms_emits dns_failure_with_healthy_ip_rule_def
    dns_timeout_rule_def
    slow_dns_resolution_rule_def
    diagnostic_rule.select_convs
  by (intro emits_intros emits_report; simp)+

lemma transit_conform:
  "emits (conforms (severe_packet_loss_rule env)) (dg_evaluate (severe_packet_loss_rule env) ctx)"
  "emits (conforms (high_jitter_latency_rule env)) (dg_evaluate (high_jitter_latency_rule env) ctx)"
  "emits (conforms (host_saturation_rule env)) (dg_evaluate (host_saturation_rule env) ctx)"
  unfolding conforms_emits severe_packet_loss_rule_def
    high_jitter_latency_rule_def
    host_saturation_rule_def
    diagnostic_rule.select_convs
  by (intro emits_intros emits_report; simp)+

lemma transport_conform:
  "emits (conforms (port_blocked_firewall_rule env)) (dg_evaluate (port_blocked_firewall_rule env) ctx)"
  "emits (conforms (target_specific_failure_rule env)) (dg_evaluate (target_specific_failure_rule env) ctx)"
  unfolding conforms_emits port_blocked_firewall_rule_def
    target_specific_failure_rule_def
    diagnostic_rule.select_convs
  by (intro emits_intros emits_report; simp)+

lemma path_conform:
  "emits (conforms (path_change_rule env)) (dg_evaluate (path_change_rule env) ctx)"
  "emits (conforms (high_hop_loss_rule env)) (dg_evaluate (high_hop_loss_rule env) ctx)"
  "emits (conforms (last_mile_vs_core_rule env)) (dg_evaluate (last_mile_vs_core_rule env) ctx)"
  unfolding conforms_emits path_change_rule_def
    high_hop_loss_rule_def
    last_mile_vs_core_rule_def
    diagnostic_rule.select_convs
  by (intro emits_intros emits_report; simp)+

lemma load_conform:
  "emits (conforms (link_saturation_rule env)) (dg_evaluate (link_saturation_rule env) ctx)"
  "emits (conforms (interface_errors_rule env)) (dg_evaluate (interface_errors_rule env) ctx)"
  "emits (conforms (elephant_flow_rule env)) (dg_evaluate (elephant_flow_rule env) ctx)"
  "emits (conforms (link_congestion_rule env)) (dg_evaluate (link_congestion_rule env) ctx)"
  unfolding conforms_emits link_saturation_rule_def
    interface_errors_rule_def
    elephant_flow_rule_def
    link_congestion_rule_def
    diagnostic_rule.select_convs
  by (intro emits_intros emits_report; simp)+

lemma baseline_conform:
  "emits (conforms (sudden_degradation_rule env)) (dg_evaluate (sudden_degradation_rule env) ctx)"
  "emits (conforms (mesh_partition_rule env)) (dg_evaluate (mesh_partition_rule env) ctx)"
  unfolding conforms_emits sudden_degradation_rule_def
    mesh_partition_rule_def
    diagnostic_rule.select_convs
  by (intro emits_intros emits_report; simp)+

lemmas rule_conform = link_conform gateway_conform dns_conform transit_conform transport_conform
  path_conform load_conform baseline_conform

lemma default_rule_conforms:
  assumes "rule \<in> set (DEFAULT_RULES env)" "dg_evaluate rule ctx = Inr (Some i)"
  shows "conforms rule i"
proof -
  have "list_all (\<lambda>r. emits (conforms r) (dg_evaluate r ctx)) (DEFAULT_RULES env)"
    by (simp only: DEFAULT_RULES_def list.pred_inject rule_conform simp_thms)
  with assms show ?thesis by (auto simp: list_all_iff dest: emitsD)
qed

section \<open>Who reported an issue\<close>

lemmas default_rule_defs =
  all_interfaces_down_rule_def active_packet_drops_rule_def
   no_default_gateway_rule_def gateway_unreachable_rule_def
   gateway_healthy_wan_outage_rule_def total_internet_outage_rule_def
   dns_failure_with_healthy_ip_rule_def dns_timeout_rule_def
   slow_dns_resolution_rule_def severe_packet_loss_rule_def
   high_jitter_latency_rule_def port_blocked_firewall_rule_def
   target_specific_failure_rule_def host_saturation_rule_def path_change_rule_def
   high_hop_loss_rule_def last_mile_vs_core_rule_def link_saturation_rule_def
   interface_errors_rule_def elephant_flow_rule_def link_congestion_rule_def
   sudden_degradation_rule_def mesh_partition_rule_def

lemma default_rule_ids:
  "map dg_rule_id (DEFAULT_RULES env) =
     [RULE_ALL_INTERFACES_DOWN, RULE_ACTIVE_PACKET_DROPS, RULE_NO_DEFAULT_GATEWAY,
      RULE_GATEWAY_UNREACHABLE, RULE_GATEWAY_HEALTHY_WAN_OUTAGE, RULE_TOTAL_INTERNET_OUTAGE,
      RULE_DNS_FAIL_IP_HEALTHY, RULE_DNS_TIMEOUT, ''RULE_SLOW_DNS_RESOLUTION'',
      ''RULE_SEVERE_PACKET_LOSS'', ''RULE_HIGH_JITTER_LATENCY'', ''RULE_PORT_BLOCKED_FIREWALL'',
      ''RULE_TARGET_SPECIFIC_FAILURE'', ''RULE_HOST_RESOURCE_SATURATION'', ''RULE_PATH_CHANGE'',
      RULE_HIGH_HOP_LOSS, ''RULE_LAST_MILE_VS_CORE'', ''RULE_LINK_SATURATION'',
      ''RULE_INTERFACE_ERRORS'', ''RULE_ELEPHANT_FLOW'', ''RULE_LINK_CONGESTION_WITH_PATH_LOSS'',
      ''RULE_SUDDEN_DEGRADATION'', ''RULE_MESH_PARTITION'']"
  unfolding DEFAULT_RULES_def list.map default_rule_defs diagnostic_rule.select_convs
  by (rule refl)

lemma default_ids_distinct: "distinct (map dg_rule_id (DEFAULT_RULES env))"
  unfolding default_rule_ids by code_simp

lemma default_categories:
  "''Evidence'' \<notin> set (map dg_category (DEFAULT_RULES env))"
  unfolding DEFAULT_RULES_def list.map default_rule_defs diagnostic_rule.select_convs
  by code_simp

lemma default_id_not_anomaly:
  assumes "rule \<in> set (DEFAULT_RULES env)"
  shows "dg_rule_id rule \<noteq> ''EVIDENCE_ANOMALY_'' @ s"
proof -
  have "list_all (\<lambda>x. starts_with ''R'' x) (map dg_rule_id (DEFAULT_RULES env))"
    unfolding default_rule_ids by code_simp
  then show ?thesis
    using assms by (auto simp: list_all_iff starts_with_def)
qed

text \<open>An issue of a report is an anomaly or the issue of a registered rule, and what it suppresses is
  not in the report.\<close>

lemma reported:
  assumes "analyze env now results target e = (Inr r, e')" "i \<in> set (rp_issues r)"
  shows "(\<exists>rule \<in> set (re_rules e). dg_evaluate rule (make_context results) = Inr (Some i)) \<or>
    (\<exists>anomalies. anomaly_issues env results = Inr anomalies \<and> i \<in> set anomalies)"
  using assms report_fields [OF assms(1)] by (auto simp: set_resolve in_rule_issues)

lemma not_suppressed:
  assumes "analyze env now results target e = (Inr r, e')"
    and "i \<in> set (rp_issues r)" "j \<in> set (rp_issues r)"
  shows "di_rule_id i \<notin> set (di_suppressed_rules j)"
  using report_fields [OF assms(1)] assms(2,3) by (auto simp: set_resolve in_suppressed_ids)

lemma reported_by:
  assumes "analyze env now results target (new_rule_engine env None) = (Inr r, e')"
    and "i \<in> set (rp_issues r)" "di_rule_id i = dg_rule_id rule" "rule \<in> set (DEFAULT_RULES env)"
  shows "dg_evaluate rule (make_context results) = Inr (Some i)"
proof -
  have "\<not> (\<exists>anomalies. anomaly_issues env results = Inr anomalies \<and> i \<in> set anomalies)"
    using anomaly_issue_shape [of env results _ i] default_id_not_anomaly [OF assms(4)] assms(3)
    by metis
  then obtain rule' where rule': "rule' \<in> set (DEFAULT_RULES env)"
      "dg_evaluate rule' (make_context results) = Inr (Some i)"
    using reported [OF assms(1,2)] by (auto simp: new_rule_engine_def)
  then have "dg_rule_id rule' = dg_rule_id rule"
    using default_rule_conforms [OF rule'] assms(3) by (simp add: conforms_def)
  then have "rule' = rule"
    using default_ids_distinct [of env] rule'(1) assms(4) by (auto simp: distinct_map dest: inj_onD)
  with rule'(2) show ?thesis by simp
qed

text \<open>Every issue of a report of the default engine is an unconfirmed anomaly of severity low, or
  the issue of a default rule with the id and the category of that rule, a severity of at least
  medium, a confidence between 0.68 and 0.98 with its level, and a recommendation. So the report is
  HEALTHY exactly when only anomalies are left and no probe other than the path probes is
  degraded.\<close>

theorem default_report_issues:
  assumes "analyze env now results target (new_rule_engine env None) = (Inr r, e')"
  shows "(\<forall>i \<in> set (rp_issues r).
      (di_category i = ''Evidence'' \<and> di_severity i = LOW \<and> di_confidence i \<le> 62 / 100) \<or>
      (\<exists>rule \<in> set (DEFAULT_RULES env).
         dg_evaluate rule (make_context results) = Inr (Some i) \<and> conforms rule i)) \<and>
    (rp_status r = HEALTHY \<longleftrightarrow>
       (\<forall>i \<in> set (rp_issues r). di_category i = ''Evidence'') \<and>
       \<not> (\<exists>p \<in> set results. substantive_degraded p))"
proof -
  let ?ctx = "make_context results"
  let ?weak = "\<lambda>i. di_category i = ''Evidence'' \<and> di_severity i = LOW \<and> di_confidence i \<le> 62 / 100"
  let ?rule = "\<lambda>i. \<exists>rule \<in> set (DEFAULT_RULES env). dg_evaluate rule ?ctx = Inr (Some i) \<and> conforms rule i"
  have weak: "?weak i" if "anomaly_issues env results = Inr an" "i \<in> set an" for an i
    using anomaly_issue_shape [OF that] evidence_bounds [of env results] by fastforce
  have rule: "?rule i" if "rule \<in> set (DEFAULT_RULES env)" "dg_evaluate rule ?ctx = Inr (Some i)" for rule i
    using that default_rule_conforms by blast
  have all: "?weak i \<or> ?rule i" if "i \<in> set (rp_issues r)" for i
    using reported [OF assms that] weak rule by (auto simp: new_rule_engine_def)
  have strong: "di_category i \<noteq> ''Evidence'' \<and> \<not> di_severity i \<le> LOW" if "?rule i" for i
  proof -
    have "MEDIUM \<le> di_severity i" "di_category i \<in> set (map dg_category (DEFAULT_RULES env))"
      using that by (auto simp: conforms_def)
    then show ?thesis using default_categories [of env] by (auto simp: less_eq_severity_def)
  qed
  have minor: "di_severity i \<le> LOW \<longleftrightarrow> di_category i = ''Evidence''" if "i \<in> set (rp_issues r)" for i
    using all [OF that] strong [of i] by auto
  have "rp_status r = HEALTHY \<longleftrightarrow> (\<forall>i \<in> set (rp_issues r). di_category i = ''Evidence'') \<and>
       \<not> (\<exists>p \<in> set results. substantive_degraded p)"
    using report_status_healthy [OF assms] minor by blast
  with all show ?thesis by blast
qed

lemma default_report_issues_witness:
  "\<exists>r. fst (analyze sample_analysis_env [] outage_results ''x'' (new_rule_engine sample_analysis_env None)) = Inr r \<and>
     rp_issues r \<noteq> [] \<and> rp_status r = FAILED \<and>
     (\<forall>i \<in> set (rp_issues r). di_category i = ''Evidence'' \<or>
        (\<exists>rule \<in> set (DEFAULT_RULES sample_analysis_env). conforms rule i))"
proof -
  have "case fst (analyze sample_analysis_env [] outage_results ''x'' (new_rule_engine sample_analysis_env None)) of
      Inl _ \<Rightarrow> False | Inr r \<Rightarrow> length (rp_issues r) = 2 \<and> rp_status r = FAILED"
    by code_simp
  from run_exists [OF this] obtain r e' where
    r: "analyze sample_analysis_env [] outage_results ''x'' (new_rule_engine sample_analysis_env None) = (Inr r, e')"
    "length (rp_issues r) = 2" "rp_status r = FAILED" by blast
  then have "rp_issues r \<noteq> []" by auto
  with r default_report_issues [OF r(1)] show ?thesis by (metis fst_conv)
qed

section \<open>The gateway rules\<close>

lemma emits_reportI:
  "P \<lparr> di_rule_id = rid, di_title = title, di_category = cat, di_severity = sev,
       di_confidence = bounded_confidence conf,
       di_confidence_level = from_score (bounded_confidence conf), di_root_cause = cause,
       di_correlated_evidence = ev, di_recommendations = recs, di_suppressed_rules = sups \<rparr> \<Longrightarrow>
   emits P (report_issue rid cat title sev conf cause ev recs sups)"
  by (simp add: emits_def report_issue_eq)

text \<open>When each rule of the group fires and what it suppresses.\<close>

lemma all_down_fires:
  "emits (\<lambda>i. all_interfaces_down ctx \<and>
       di_suppressed_rules i = [RULE_TOTAL_INTERNET_OUTAGE, RULE_NO_DEFAULT_GATEWAY,
         RULE_DNS_FAIL_IP_HEALTHY, RULE_GATEWAY_UNREACHABLE])
     (dg_evaluate (all_interfaces_down_rule env) ctx)"
  unfolding all_interfaces_down_rule_def diagnostic_rule.select_convs
  by (intro emits_intros emits_reportI; simp)

lemma no_gateway_fires:
  "emits (\<lambda>i. (\<not> all_interfaces_down ctx \<and> \<not> has_default_gateway ctx) \<and>
       di_suppressed_rules i = [RULE_TOTAL_INTERNET_OUTAGE, RULE_DNS_FAIL_IP_HEALTHY])
     (dg_evaluate (no_default_gateway_rule env) ctx)"
  unfolding no_default_gateway_rule_def diagnostic_rule.select_convs
  by (intro emits_intros emits_reportI; simp)

lemma unreachable_fires:
  "emits (\<lambda>i. (has_default_gateway ctx \<and> is_gateway_reachable ctx = Inr (Some False)) \<and>
       di_suppressed_rules i = [RULE_GATEWAY_HEALTHY_WAN_OUTAGE, RULE_TOTAL_INTERNET_OUTAGE,
         RULE_DNS_FAIL_IP_HEALTHY, RULE_DNS_TIMEOUT])
     (dg_evaluate (gateway_unreachable_rule env) ctx)"
  unfolding gateway_unreachable_rule_def diagnostic_rule.select_convs
  by (intro emits_intros emits_reportI; simp)

lemma wan_outage_fires:
  "emits (\<lambda>i. (has_default_gateway ctx \<and> is_ip_connectivity_working ctx = Inr False \<and>
       (\<exists>g. is_gateway_reachable ctx = Inr g \<and> g \<noteq> Some False)) \<and>
       di_suppressed_rules i = [RULE_DNS_FAIL_IP_HEALTHY, RULE_DNS_TIMEOUT])
     (dg_evaluate (gateway_healthy_wan_outage_rule env) ctx)"
  unfolding gateway_healthy_wan_outage_rule_def diagnostic_rule.select_convs
  by (intro emits_intros emits_reportI; auto split: if_splits)

lemma option_bool_None: "x \<noteq> Some False \<Longrightarrow> x \<noteq> Some True \<Longrightarrow> x = None"
  by (cases x) auto

lemma total_outage_fires:
  "emits (\<lambda>i. (\<not> all_interfaces_down ctx \<and> has_default_gateway ctx \<and>
       is_gateway_reachable ctx = Inr None \<and> is_ip_connectivity_working ctx = Inr False) \<and>
       di_suppressed_rules i = [RULE_DNS_FAIL_IP_HEALTHY, RULE_DNS_TIMEOUT])
     (dg_evaluate (total_internet_outage_rule env) ctx)"
  unfolding total_internet_outage_rule_def diagnostic_rule.select_convs
  by (intro emits_intros emits_reportI; simp add: option_bool_None)

lemma dns_failure_fires:
  "emits (\<lambda>i. is_ip_connectivity_working ctx = Inr True)
     (dg_evaluate (dns_failure_with_healthy_ip_rule env) ctx)"
  unfolding dns_failure_with_healthy_ip_rule_def diagnostic_rule.select_convs
  by (intro emits_intros emits_reportI; simp)

definition reported_ids :: "diagnosis_report \<Rightarrow> string set" where
  "reported_ids r = di_rule_id ` set (rp_issues r)"

lemma reported_fires:
  assumes "analyze env now results target (new_rule_engine env None) = (Inr r, e')"
    and "emits P (dg_evaluate rule (make_context results))" "rule \<in> set (DEFAULT_RULES env)"
    and "dg_rule_id rule \<in> reported_ids r"
  shows "\<exists>i \<in> set (rp_issues r). di_rule_id i = dg_rule_id rule \<and> P i"
  using assms(2,4) reported_by [OF assms(1) _ _ assms(3)] unfolding reported_ids_def
  by (force dest: emitsD)

lemma gateway_rule_ids [simp]:
  "dg_rule_id (all_interfaces_down_rule env) = RULE_ALL_INTERFACES_DOWN"
  "dg_rule_id (no_default_gateway_rule env) = RULE_NO_DEFAULT_GATEWAY"
  "dg_rule_id (gateway_unreachable_rule env) = RULE_GATEWAY_UNREACHABLE"
  "dg_rule_id (gateway_healthy_wan_outage_rule env) = RULE_GATEWAY_HEALTHY_WAN_OUTAGE"
  "dg_rule_id (total_internet_outage_rule env) = RULE_TOTAL_INTERNET_OUTAGE"
  "dg_rule_id (dns_failure_with_healthy_ip_rule env) = RULE_DNS_FAIL_IP_HEALTHY"
  by (simp_all only: default_rule_defs diagnostic_rule.select_convs)

lemma gateway_rules_default [simp]:
  "all_interfaces_down_rule env \<in> set (DEFAULT_RULES env)"
  "no_default_gateway_rule env \<in> set (DEFAULT_RULES env)"
  "gateway_unreachable_rule env \<in> set (DEFAULT_RULES env)"
  "gateway_healthy_wan_outage_rule env \<in> set (DEFAULT_RULES env)"
  "total_internet_outage_rule env \<in> set (DEFAULT_RULES env)"
  "dns_failure_with_healthy_ip_rule env \<in> set (DEFAULT_RULES env)"
  by (simp_all add: DEFAULT_RULES_def)

text \<open>What a report that names one of the causes says about the observations and the other issues.\<close>

lemma cause_reported:
  assumes "analyze env now results target (new_rule_engine env None) = (Inr r, e')"
    and "emits (\<lambda>i. Q \<and> di_suppressed_rules i = hides) (dg_evaluate rule (make_context results))"
    and "rule \<in> set (DEFAULT_RULES env)" "dg_rule_id rule = rid" "rid \<in> reported_ids r"
  shows "Q \<and> set hides \<inter> reported_ids r = {}"
proof -
  obtain i where i: "i \<in> set (rp_issues r)" "Q" "di_suppressed_rules i = hides"
    using reported_fires [OF assms(1-3)] assms(4,5) by blast
  with not_suppressed [OF assms(1) _ i(1)] show ?thesis by (auto simp: reported_ids_def)
qed

lemma gateway_facts:
  assumes "analyze env now results target (new_rule_engine env None) = (Inr r, e')"
  shows "RULE_ALL_INTERFACES_DOWN \<in> reported_ids r \<Longrightarrow>
      {RULE_TOTAL_INTERNET_OUTAGE, RULE_NO_DEFAULT_GATEWAY, RULE_DNS_FAIL_IP_HEALTHY,
       RULE_GATEWAY_UNREACHABLE} \<inter> reported_ids r = {}"
    and "RULE_NO_DEFAULT_GATEWAY \<in> reported_ids r \<Longrightarrow> \<not> has_default_gateway (make_context results) \<and>
      {RULE_TOTAL_INTERNET_OUTAGE, RULE_DNS_FAIL_IP_HEALTHY} \<inter> reported_ids r = {}"
    and "RULE_GATEWAY_UNREACHABLE \<in> reported_ids r \<Longrightarrow> has_default_gateway (make_context results) \<and>
      {RULE_GATEWAY_HEALTHY_WAN_OUTAGE, RULE_TOTAL_INTERNET_OUTAGE, RULE_DNS_FAIL_IP_HEALTHY,
       RULE_DNS_TIMEOUT} \<inter> reported_ids r = {}"
    and "RULE_GATEWAY_HEALTHY_WAN_OUTAGE \<in> reported_ids r \<Longrightarrow> has_default_gateway (make_context results) \<and>
      {RULE_DNS_FAIL_IP_HEALTHY, RULE_DNS_TIMEOUT} \<inter> reported_ids r = {}"
    and "RULE_TOTAL_INTERNET_OUTAGE \<in> reported_ids r \<Longrightarrow>
      is_gateway_reachable (make_context results) = Inr None \<and>
      {RULE_DNS_FAIL_IP_HEALTHY, RULE_DNS_TIMEOUT} \<inter> reported_ids r = {}"
  using cause_reported [OF assms all_down_fires gateway_rules_default(1) gateway_rule_ids(1)]
    cause_reported [OF assms no_gateway_fires gateway_rules_default(2) gateway_rule_ids(2)]
    cause_reported [OF assms unreachable_fires gateway_rules_default(3) gateway_rule_ids(3)]
    cause_reported [OF assms wan_outage_fires gateway_rules_default(4) gateway_rule_ids(4)]
    cause_reported [OF assms total_outage_fires gateway_rules_default(5) gateway_rule_ids(5)]
  by simp_all



section \<open>What the report does not see\<close>


definition udp_failure_results :: "diagnostic_result list" where
  "udp_failure_results =
     [sample_probe ''routing'' HEALTHY [(''default_gateway'', PStr ''10.0.0.1'')],
      sample_probe ''udp'' FAILED []]"


lemma bind_report_raises:
  "bindR m (\<lambda>x. report_issue rid cat (title x) sev conf (cause x) (ev x) (recs x) sups) = Inl exc \<longleftrightarrow>
     m = Inl exc"
  by (simp add: bindR_eq_Inl)

lemma if_raises: "(if b then x else Inr None) = Inl exc \<longleftrightarrow> b \<and> x = Inl exc"
  by simp

lemma target_or_empty: "target_or [] p \<noteq> [] \<longleftrightarrow> dr_target p \<noteq> None \<and> dr_target p \<noteq> Some []"
  by (simp add: target_or_def split: option.splits)

lemma failed_names_empty:
  "failed_names ps = [] \<longleftrightarrow> \<not> (\<exists>p \<in> set ps. dr_target p \<noteq> None \<and> dr_target p \<noteq> Some [])"
  unfolding failed_names_def filter_empty_conv target_or_empty [symmetric] by simp

text \<open>The rule for an outage of a destination raises exactly when a public address is reachable,
  some connectivity probe failed, and no failed one has a target name.\<close>

theorem target_specific_raises:
  "dg_evaluate (target_specific_failure_rule env) (make_context results) = Inl exc \<longleftrightarrow>
     exc = IndexError \<and>
     (\<exists>p \<in> set results. dr_module p = ''connectivity'' \<and> dr_status p = HEALTHY \<and>
        public_target (dr_target p)) \<and>
     (\<exists>p \<in> set results. dr_module p = ''connectivity'' \<and> dr_status p = FAILED) \<and>
     \<not> (\<exists>p \<in> set results. dr_module p = ''connectivity'' \<and> dr_status p = FAILED \<and>
          dr_target p \<noteq> None \<and> dr_target p \<noteq> Some [])"
  unfolding target_specific_failure_rule_def diagnostic_rule.select_convs Let_def bind_report_raises
    if_raises nthR_eq_Inl
  by (auto simp: failed_names_empty list_ex_iff filter_empty_conv)

end
