(* ===== verification/Http_Api.thy ===== *)
theory Http_Api
  imports Controller_Props
begin

text \<open>
  Model of the HTTP API of the controller (\<open>controller/http_server.py\<close> over
  \<open>core/http_utils.py\<close>) and of the background scheduler (\<open>controller/scheduler.py\<close>).

  A request is its method, its target, the two headers the handler reads and the bytes waiting on
  the connection. The reply is the status and the object whose JSON text is sent; an exception that
  leaves the handler (the connection is closed without a reply) is the error of the action. The
  parsing of a JSON body into the fields of a model is pydantic's, the record \<open>api_models\<close>; the
  constraints the models declare are checked by the model's own validation functions.
\<close>

section \<open>Request targets\<close>

text \<open>\<open>urlparse\<close> of a target in origin form (a path that starts with one slash): the fragment and the
  query are cut off, and the parameters after \<open>;\<close> in the last segment of the path.\<close>

definition before :: "char \<Rightarrow> string \<Rightarrow> string" where
  "before c s = takeWhile (\<lambda>x. x \<noteq> c) s"

definition after :: "char \<Rightarrow> string \<Rightarrow> string" where
  "after c s = drop 1 (dropWhile (\<lambda>x. x \<noteq> c) s)"

definition url_path :: "string \<Rightarrow> string" where
  "url_path target =
     (let segments = split_on CHR ''/'' (before CHR ''?'' (before CHR ''#'' target))
      in join ''/'' (butlast segments @ [before CHR '';'' (last segments)]))"

definition url_query :: "string \<Rightarrow> string" where
  "url_query target = after CHR ''?'' (before CHR ''#'' target)"

text \<open>\<open>parse_qs\<close>: the decoded names and values of the pairs with a value.\<close>

definition hex_value :: "char \<Rightarrow> nat option" where
  "hex_value c =
     (let n = (of_char c :: nat) in
      if 48 \<le> n \<and> n \<le> 57 then Some (n - 48)
      else if 65 \<le> n \<and> n \<le> 70 then Some (n - 55)
      else if 97 \<le> n \<and> n \<le> 102 then Some (n - 87) else None)"

fun unquote :: "string \<Rightarrow> string" where
  "unquote (c # a # b # s) =
     (if c = CHR ''%'' then
        (case (hex_value a, hex_value b) of
           (Some x, Some y) \<Rightarrow> char_of (16 * x + y) # unquote s
         | _ \<Rightarrow> c # unquote (a # b # s))
      else c # unquote (a # b # s))"
| "unquote s = s"

definition unquote_plus :: "string \<Rightarrow> string" where
  "unquote_plus s = unquote (map (\<lambda>c. if c = CHR ''+'' then CHR '' '' else c) s)"

definition query_pairs :: "string \<Rightarrow> (string \<times> string) list" where
  "query_pairs query =
     map (\<lambda>p. (unquote_plus (before CHR ''='' p), unquote_plus (after CHR ''='' p)))
       (filter (\<lambda>p. after CHR ''='' p \<noteq> []) (split_on CHR ''&'' query))"

text \<open>\<open>query.get(name, [None])[0]\<close>, and the same when it is tested for truth.\<close>

definition query_value :: "string \<Rightarrow> string \<Rightarrow> string option" where
  "query_value target name = map_of (query_pairs (url_query target)) name"

text \<open>\<open>route.split("/")[n]\<close>, \<open>route.rsplit("/", 1)[-1]\<close>, \<open>route.endswith(e)\<close>.\<close>

definition segment :: "nat \<Rightarrow> string \<Rightarrow> string result" where
  "segment n route = nthR (split_on CHR ''/'' route) n"

definition last_segment :: "string \<Rightarrow> string" where
  "last_segment route = last (split_on CHR ''/'' route)"

definition ends_with :: "string \<Rightarrow> string \<Rightarrow> bool" where
  "ends_with e s = starts_with (rev e) (rev s)"

section \<open>Requests and replies\<close>

datatype http_method = GET | POST | DELETE

datatype http_status =
    OK_200 | CREATED_201 | BAD_REQUEST_400 | UNAUTHORIZED_401 | NOT_FOUND_404 | CONFLICT_409
  | ENTITY_TOO_LARGE_413 | NOT_IMPLEMENTED_501

record http_request =
  hr_method :: http_method
  hr_target :: string
  hr_authorization :: "string option"
  hr_content_length :: "string option"
  hr_stream :: "byte list"

datatype payload =
    J_Error string
  | J_Health
  | J_Agents "registered_agent list"
  | J_Agent registered_agent
  | J_Job fanout_job
  | J_Topology network_topology
  | J_Topologies "string list"
  | J_Correlation agent_correlation
  | J_Correlated nat "host_port_binding list"
  | J_Bindings "host_port_binding list"
  | J_Services "service_endpoint list"
  | J_Report multi_vantage_report
  | J_Diagnoses "multi_vantage_report list"
  | J_Schedule schedule_entry
  | J_Schedules "schedule_entry list"
  | J_Deleted
  | J_Ran nat "multi_vantage_report list"
  | J_Rule alert_rule
  | J_Rules "alert_rule list"
  | J_Alerts "alert list"
  | J_Incidents "incident list"
  | J_Incident incident

record http_reply =
  hp_status :: http_status
  hp_payload :: payload

type_synonym body = "(string \<times> pyval) list"

record api_models =
  am_loads :: "byte list \<Rightarrow> pyval option"
  am_agent :: "body \<Rightarrow> (string \<times> string \<times> (string \<times> string) list) result"
  am_job :: "body \<Rightarrow> fanout_job_request result"
  am_topology :: "body \<Rightarrow> network_topology result"
  am_correlation :: "body \<Rightarrow> (string option \<times> switch_telemetry list) result"
  am_inventory :: "body \<Rightarrow> service_endpoint list result"
  am_diagnosis :: "body \<Rightarrow> diagnosis_request result"
  am_schedule :: "body \<Rightarrow> schedule_entry result"
  am_rule :: "body \<Rightarrow> alert_rule result"

definition reply :: "http_status \<Rightarrow> payload \<Rightarrow> (controller, http_reply) act" where
  "reply status p = returnA \<lparr> hp_status = status, hp_payload = p \<rparr>"

text \<open>\<open>str(exc)\<close>: the message the code gave, or the text of a built-in or pydantic error.\<close>

definition exc_message :: "env \<Rightarrow> py_error \<Rightarrow> string" where
  "exc_message env e = (case e of
      UnknownAgentError m \<Rightarrow> m | UnknownTopologyError m \<Rightarrow> m | UnknownNodeError m \<Rightarrow> m
    | UnknownServiceError m \<Rightarrow> m | UnknownDiagnosisError m \<Rightarrow> m | UnknownScheduleError m \<Rightarrow> m
    | UnknownAlertRuleError m \<Rightarrow> m | UnknownIncidentError m \<Rightarrow> m | NoVantageAgentsError m \<Rightarrow> m
    | NoBindingsError m \<Rightarrow> m | _ \<Rightarrow> ev_message env e)"

text \<open>The \<open>except\<close> clauses of the handler, in their order; \<open>None\<close> for an exception none of them
  catches.\<close>

fun error_status :: "py_error \<Rightarrow> http_status option" where
  "error_status (UnknownTopologyError m) = Some NOT_FOUND_404"
| "error_status (UnknownDiagnosisError m) = Some NOT_FOUND_404"
| "error_status (UnknownServiceError m) = Some NOT_FOUND_404"
| "error_status (UnknownScheduleError m) = Some NOT_FOUND_404"
| "error_status (UnknownAlertRuleError m) = Some NOT_FOUND_404"
| "error_status (UnknownIncidentError m) = Some NOT_FOUND_404"
| "error_status (NoVantageAgentsError m) = Some CONFLICT_409"
| "error_status (NoBindingsError m) = Some CONFLICT_409"
| "error_status ValidationError = Some BAD_REQUEST_400"
| "error_status (UnknownAgentError m) = Some BAD_REQUEST_400"
| "error_status (UnknownNodeError m) = Some BAD_REQUEST_400"
| "error_status ValueError = Some BAD_REQUEST_400"
| "error_status BERError = Some BAD_REQUEST_400"
| "error_status MalformedBody = Some BAD_REQUEST_400"
| "error_status BodyTooLarge = Some BAD_REQUEST_400"
| "error_status (TargetNotAllowedError m) = Some BAD_REQUEST_400"
| "error_status _ = None"

definition catch_errors :: "env \<Rightarrow> (controller, http_reply) act \<Rightarrow> (controller, http_reply) act" where
  "catch_errors env m s =
     (case m s of
        (Inr r, s') \<Rightarrow> (Inr r, s')
      | (Inl e, s') \<Rightarrow> (case error_status e of
            Some status \<Rightarrow> reply status (J_Error (exc_message env e)) s'
          | None \<Rightarrow> (Inl e, s')))"

text \<open>\<open>hmac.compare_digest\<close> of two texts raises unless both are ASCII.\<close>

definition ascii :: "string \<Rightarrow> bool" where
  "ascii s = list_all (\<lambda>c. (of_char c :: nat) < 128) s"

definition compare_digest :: "string \<Rightarrow> string \<Rightarrow> bool result" where
  "compare_digest a b = (if ascii a \<and> ascii b then Inr (a = b) else Inl TypeError)"

section \<open>Routes\<close>

definition topology_action :: "string \<Rightarrow> string \<Rightarrow> bool" where
  "topology_action action route =
     (starts_with ''/v1/topology/'' route \<and> ends_with action route \<and>
      length (split_on CHR ''/'' route) = 5)"

text \<open>\<open>AlertState(text) if text else None\<close>, \<open>IncidentState(text) if text else None\<close>.\<close>

definition alert_state_of :: "string option \<Rightarrow> alert_state option result" where
  "alert_state_of text =
     (case text of None \<Rightarrow> Inr None
      | Some v \<Rightarrow> if v = [] then Inr None else if v = ''firing'' then Inr (Some AL_FIRING)
          else if v = ''resolved'' then Inr (Some AL_RESOLVED) else Inl ValueError)"

definition incident_state_of :: "string option \<Rightarrow> incident_state option result" where
  "incident_state_of text =
     (case text of None \<Rightarrow> Inr None
      | Some v \<Rightarrow> if v = [] then Inr None else if v = ''open'' then Inr (Some INC_OPEN)
          else if v = ''acknowledged'' then Inr (Some INC_ACKNOWLEDGED)
          else if v = ''resolved'' then Inr (Some INC_RESOLVED) else Inl ValueError)"

definition get_route :: "env \<Rightarrow> string \<Rightarrow> string \<Rightarrow> (controller, http_reply) act" where
  "get_route env target route =
     (if route = ''/v1/health'' then reply OK_200 J_Health
      else if route = ''/v1/agents'' then
        bindA (readA list_agents) (\<lambda>agents. reply OK_200 (J_Agents agents))
      else if starts_with ''/v1/jobs/'' route then
        bindA (readA (get_job (last_segment route))) (\<lambda>job.
          case job of None \<Rightarrow> reply NOT_FOUND_404 (J_Error ''job not found'')
          | Some j \<Rightarrow> reply OK_200 (J_Job j))
      else if route = ''/v1/topology'' then
        bindA (readA list_topology_names) (\<lambda>names. reply OK_200 (J_Topologies names))
      else if topology_action ''/agents'' route then
        bindA (liftA (segment 3 route)) (\<lambda>name.
        bindA (correlate_agents name) (\<lambda>c. reply OK_200 (J_Correlation c)))
      else if topology_action ''/bindings'' route then
        bindA (liftA (segment 3 route)) (\<lambda>name.
        bindA (stored_bindings (Some name)) (\<lambda>bs. reply OK_200 (J_Bindings bs)))
      else if starts_with ''/v1/topology/'' route then
        bindA (require_named_topology (last_segment route)) (\<lambda>t. reply OK_200 (J_Topology t))
      else if route = ''/v1/services'' then
        bindA (readA list_services) (\<lambda>services. reply OK_200 (J_Services services))
      else if route = ''/v1/diagnoses'' then
        bindA (readA (list_diagnoses 50)) (\<lambda>rs. reply OK_200 (J_Diagnoses rs))
      else if starts_with ''/v1/diagnoses/'' route then
        bindA (require_diagnosis (last_segment route)) (\<lambda>r. reply OK_200 (J_Report r))
      else if route = ''/v1/schedules'' then
        bindA (readA (list_schedules (query_value target ''service_id''))) (\<lambda>scs.
          reply OK_200 (J_Schedules scs))
      else if route = ''/v1/alert-rules'' then
        bindA (readA list_alert_rules) (\<lambda>rules. reply OK_200 (J_Rules rules))
      else if route = ''/v1/alerts'' then
        bindA (liftA (alert_state_of (query_value target ''state''))) (\<lambda>state.
        bindA (readA (list_alerts (query_value target ''service_id'') state list_limit)) (\<lambda>alerts.
          reply OK_200 (J_Alerts alerts)))
      else if route = ''/v1/incidents'' then
        bindA (liftA (incident_state_of (query_value target ''state''))) (\<lambda>state.
        bindA (readA (list_incidents (query_value target ''service_id'') state list_limit)) (\<lambda>incidents.
          reply OK_200 (J_Incidents incidents)))
      else if route = ''/v1/bindings'' then
        bindA (stored_bindings (query_value target ''topology'')) (\<lambda>bs. reply OK_200 (J_Bindings bs))
      else if starts_with ''/v1/incidents/'' route then
        bindA (require_incident (last_segment route)) (\<lambda>i. reply OK_200 (J_Incident i))
      else reply NOT_FOUND_404 (J_Error ''unknown endpoint''))"

text \<open>\<open>FanoutJobRequest.model_validate\<close> with the constraints of the two models.\<close>

definition decode_job :: "api_models \<Rightarrow> body \<Rightarrow> fanout_job_request result" where
  "decode_job models b =
     bindR (am_job models b) (\<lambda>r.
     bindR (validate_probe_request (fr_probe r)) (\<lambda>_. validate_fanout_request r))"

definition post_route ::
  "env \<Rightarrow> api_models \<Rightarrow> string \<Rightarrow> string \<Rightarrow> body \<Rightarrow> (controller, http_reply) act" where
  "post_route env models target route b =
     (if route = ''/v1/agents'' then
        bindA (liftA (am_agent models b)) (\<lambda>(agent_id, url, tags).
        bindA (register_agent agent_id url tags) (\<lambda>agent. reply CREATED_201 (J_Agent agent)))
      else if route = ''/v1/jobs'' then
        bindA (liftA (decode_job models b)) (\<lambda>request.
        bindA (dispatch_job env request) (\<lambda>job. reply OK_200 (J_Job job)))
      else if route = ''/v1/topology'' then
        bindA (liftA (am_topology models b)) (\<lambda>topology.
        bindA (import_topology topology) (\<lambda>t. reply CREATED_201 (J_Topology t)))
      else if topology_action ''/correlate'' route then
        bindA (liftA (segment 3 route)) (\<lambda>name.
        bindA (liftA (am_correlation models (AList.update ''topology'' (PStr name) b))) (\<lambda>(topology, switches).
        bindA (correlate_ports topology switches) (\<lambda>bs. reply OK_200 (J_Correlated (length bs) bs))))
      else if topology_action ''/augment'' route then
        bindA (liftA (segment 3 route)) (\<lambda>name.
        bindA (augment_topology (Some name)) (\<lambda>t. reply OK_200 (J_Topology t)))
      else if route = ''/v1/services'' then
        bindA (liftA (bindR (am_inventory models b) validate_inventory)) (\<lambda>inventory.
        bindA (register_services inventory (query_value target ''topology'')) (\<lambda>services.
          reply CREATED_201 (J_Services services)))
      else if route = ''/v1/diagnose'' then
        bindA (liftA (bindR (am_diagnosis models b) validate_diagnosis_request)) (\<lambda>request.
        bindA (diagnose_service env request) (\<lambda>report. reply OK_200 (J_Report report)))
      else if route = ''/v1/schedules'' then
        bindA (liftA (am_schedule models b)) (\<lambda>schedule.
        bindA (create_schedule env schedule) (\<lambda>sc. reply CREATED_201 (J_Schedule sc)))
      else if route = ''/v1/monitor/run'' then
        bindA (pureA (run_due_schedules env None)) (\<lambda>reports.
          reply OK_200 (J_Ran (length reports) reports))
      else if route = ''/v1/alert-rules'' then
        bindA (liftA (am_rule models b)) (\<lambda>rule.
        bindA (register_alert_rule rule) (\<lambda>r. reply CREATED_201 (J_Rule r)))
      else if starts_with ''/v1/incidents/'' route \<and> ends_with ''/ack'' route then
        bindA (liftA (segment 3 route)) (\<lambda>incident_id.
        bindA (acknowledge_incident env incident_id None) (\<lambda>i. reply OK_200 (J_Incident i)))
      else if starts_with ''/v1/incidents/'' route \<and> ends_with ''/resolve'' route then
        bindA (liftA (segment 3 route)) (\<lambda>incident_id.
        bindA (resolve_incident env incident_id None) (\<lambda>i. reply OK_200 (J_Incident i)))
      else reply NOT_FOUND_404 (J_Error ''unknown endpoint''))"

definition delete_route :: "string \<Rightarrow> (controller, http_reply) act" where
  "delete_route route =
     (if starts_with ''/v1/schedules/'' route then
        bindA (remove_schedule (last_segment route)) (\<lambda>_. reply OK_200 J_Deleted)
      else if starts_with ''/v1/alert-rules/'' route then
        bindA (remove_alert_rule (last_segment route)) (\<lambda>_. reply OK_200 J_Deleted)
      else reply NOT_FOUND_404 (J_Error ''unknown endpoint''))"

section \<open>The handler\<close>

text \<open>\<open>_dispatch\<close>: the token first, then the route with its errors.\<close>

definition dispatch ::
  "env \<Rightarrow> api_models \<Rightarrow> string \<Rightarrow> http_request \<Rightarrow> body option \<Rightarrow> (controller, http_reply) act" where
  "dispatch env models bearer_token req b =
     bindA (liftA (compare_digest (case hr_authorization req of None \<Rightarrow> [] | Some h \<Rightarrow> h)
              (''Bearer '' @ bearer_token))) (\<lambda>authorized.
       if \<not> authorized then reply UNAUTHORIZED_401 (J_Error ''valid bearer token required'')
       else
         (let route = url_path (hr_target req); fields = (case b of None \<Rightarrow> [] | Some d \<Rightarrow> d) in
          catch_errors env
            (case hr_method req of
               GET \<Rightarrow> get_route env (hr_target req) route
             | POST \<Rightarrow> post_route env models (hr_target req) route fields
             | DELETE \<Rightarrow> delete_route route)))"

definition handle ::
  "env \<Rightarrow> api_models \<Rightarrow> string \<Rightarrow> http_request \<Rightarrow> (controller, http_reply) act" where
  "handle env models bearer_token req =
     (case hr_method req of
        POST \<Rightarrow>
          (case read_json_body (am_loads models) (hr_content_length req) (hr_stream req) MAX_BODY_BYTES of
             Inr b \<Rightarrow> dispatch env models bearer_token req (Some b)
           | Inl BodyTooLarge \<Rightarrow> reply ENTITY_TOO_LARGE_413 (J_Error (exc_message env BodyTooLarge))
           | Inl MalformedBody \<Rightarrow> reply BAD_REQUEST_400 (J_Error (exc_message env MalformedBody))
           | Inl e \<Rightarrow> failA e)
      | _ \<Rightarrow> dispatch env models bearer_token req None)"

section \<open>The scheduler\<close>

text \<open>The scheduler thread: a tick is one pass over the due schedules, whose reports are dropped; the
  loop runs until the stop event is set. The event is read once per round, \<open>None\<close> of a run is
  a thread that has not stopped within the readings given.\<close>

record monitor_scheduler =
  ms_alive :: bool
  ms_stop :: bool

definition start_scheduler :: "monitor_scheduler \<Rightarrow> monitor_scheduler" where
  "start_scheduler m = (if ms_alive m then m else m \<lparr> ms_stop := False, ms_alive := True \<rparr>)"

definition stop_scheduler :: "monitor_scheduler \<Rightarrow> monitor_scheduler" where
  "stop_scheduler m = m \<lparr> ms_stop := True \<rparr>"

definition tick :: "env \<Rightarrow> controller \<Rightarrow> controller" where
  "tick env s = snd (run_due_schedules env None s)"

fun monitor_loop :: "env \<Rightarrow> bool list \<Rightarrow> controller \<Rightarrow> controller option" where
  "monitor_loop env [] s = None"
| "monitor_loop env (stop # stops) s = (if stop then Some s else monitor_loop env stops (tick env s))"

section \<open>What a request does to the state\<close>

interpretation same: state_preorder "\<lambda>s t. t = s"
  by unfold_locales auto

lemma same_read: "same.keeps (readA f)" "same.keeps (requireA g e)" "same.keeps (reply status p)"
  unfolding readA_def requireA_def reply_def
  by (intro same.keeps_bind same.keeps_pure; simp add: same.keeps_pure split: option.splits)+

lemma same_lookups:
  "same.keeps (require_named_topology n)" "same.keeps (require_diagnosis i)"
  "same.keeps (require_incident i)" "same.keeps (stored_bindings name)" "same.keeps (correlate_agents n)"
  unfolding require_named_topology_def require_diagnosis_def require_incident_def stored_bindings_def
    correlate_agents_def
  by (intro same.keeps_bind same_read same.keeps_pure same.keeps_if)+

lemma same_get: "same.keeps (get_route env target route)"
  unfolding get_route_def
  by (intro same.keeps_if same.keeps_bind same_read same_lookups same.keeps_pure)
    (simp add: same_read split: option.splits)

lemma snd_catch [simp]: "snd (catch_errors env m s) = snd (m s)"
  by (auto simp: catch_errors_def reply_def returnA_def case_prod_beta split: sum.splits option.splits prod.splits)

lemma snd_reply [simp]: "snd (reply status p s) = s"
  by (simp add: reply_def returnA_def)

lemma snd_bind_reply: "snd (bindA m (\<lambda>x. reply (st x) (p x)) s) = snd (m s)"
  by (auto simp: bindA_def split: prod.splits sum.splits)

lemma snd_bind_lift: "snd (bindA (liftA r) f s) = (case r of Inl e \<Rightarrow> s | Inr x \<Rightarrow> snd (f x s))"
  by (simp split: sum.splits)

text \<open>A request is at most one call of the service.\<close>

definition one_call :: "env \<Rightarrow> (controller, http_reply) act \<Rightarrow> bool" where
  "one_call env m \<longleftrightarrow> (\<forall>s. snd (m s) = s \<or> (\<exists>c. snd (m s) = perform env c s))"

lemma one_call_same: "same.keeps m \<Longrightarrow> one_call env m"
  by (simp add: one_call_def same.keeps_def)

lemma one_call_lift: "(\<And>x. r = Inr x \<Longrightarrow> one_call env (f x)) \<Longrightarrow> one_call env (bindA (liftA r) f)"
  by (cases r) (auto simp: one_call_def)

lemma one_call_if: "one_call env m \<Longrightarrow> one_call env m' \<Longrightarrow> one_call env (if b then m else m')"
  by simp

lemma one_call_perform:
  assumes "\<And>s. snd (m s) = perform env c s"
  shows "one_call env (bindA m (\<lambda>x. reply (st x) (p x)))"
  using assms by (auto simp: one_call_def snd_bind_reply)

lemma snd_pureA: "snd (pureA f s) = snd (f s)"
  by (simp add: pureA_def case_prod_beta)

lemma one_call_prod: "(\<And>a b. one_call env (f a b)) \<Longrightarrow> one_call env (case p of (a, b) \<Rightarrow> f a b)"
  by (cases p) simp

lemma one_call_reply: "one_call env (reply status p)"
  by (rule one_call_same) (rule same_read)

lemma calls:
  "one_call env (bindA (register_agent i url tags) (\<lambda>x. reply (st x) (p x)))"
  "one_call env (bindA (dispatch_job env job) (\<lambda>x. reply (st' x) (p' x)))"
  "one_call env (bindA (import_topology topology) (\<lambda>x. reply (st'' x) (p'' x)))"
  "one_call env (bindA (correlate_ports name switches) (\<lambda>x. reply (st3 x) (p3 x)))"
  "one_call env (bindA (augment_topology name) (\<lambda>x. reply (st4 x) (p4 x)))"
  "one_call env (bindA (register_services inventory name) (\<lambda>x. reply (st5 x) (p5 x)))"
  by (rule one_call_perform [where c = "Register_Agent i url tags"], simp)
    (rule one_call_perform [where c = "Dispatch_Job job"], simp,
     rule one_call_perform [where c = "Import_Topology topology"], simp,
     rule one_call_perform [where c = "Correlate_Ports name switches"], simp,
     rule one_call_perform [where c = "Augment name"], simp,
     rule one_call_perform [where c = "Register_Services inventory name"], simp)

lemma calls':
  "one_call env (bindA (diagnose_service env request) (\<lambda>x. reply (st x) (p x)))"
  "one_call env (bindA (create_schedule env schedule) (\<lambda>x. reply (st' x) (p' x)))"
  "one_call env (bindA (pureA (run_due_schedules env None)) (\<lambda>x. reply (st'' x) (p'' x)))"
  "one_call env (bindA (register_alert_rule rule) (\<lambda>x. reply (st3 x) (p3 x)))"
  "one_call env (bindA (acknowledge_incident env i None) (\<lambda>x. reply (st4 x) (p4 x)))"
  "one_call env (bindA (resolve_incident env i None) (\<lambda>x. reply (st5 x) (p5 x)))"
  by (rule one_call_perform [where c = "Diagnose request"], simp)
    (rule one_call_perform [where c = "Create_Schedule schedule"], simp,
     rule one_call_perform [where c = "Run_Due None"], simp add: snd_pureA,
     rule one_call_perform [where c = "Register_Rule rule"], simp,
     rule one_call_perform [where c = "Acknowledge i None"], simp,
     rule one_call_perform [where c = "Resolve i None"], simp)

lemma one_call_post: "one_call env (post_route env models target route b)"
  unfolding post_route_def
  by (intro one_call_if one_call_lift one_call_prod calls calls' one_call_reply)

lemma one_call_delete: "one_call env (delete_route route)"
  unfolding delete_route_def
  by (intro one_call_if one_call_reply
      one_call_perform [where c = "Delete_Schedule (last_segment route)"]
      one_call_perform [where c = "Delete_Rule (last_segment route)"]) simp_all

lemma one_call_dispatch: "one_call env (dispatch env models token req b)"
proof -
  have "one_call env (case hr_method req of GET \<Rightarrow> get_route env t r
      | POST \<Rightarrow> post_route env models t r fields | DELETE \<Rightarrow> delete_route r)" for t r fields
    using one_call_same [OF same_get] one_call_post one_call_delete
    by (cases "hr_method req") simp_all
  then have "one_call env (catch_errors env (case hr_method req of GET \<Rightarrow> get_route env t r
      | POST \<Rightarrow> post_route env models t r fields | DELETE \<Rightarrow> delete_route r))" for t r fields
    by (simp add: one_call_def)
  then show ?thesis
    unfolding dispatch_def Let_def
    by (intro one_call_lift one_call_if one_call_reply)
qed

text \<open>A handled request is dispatched, or answered with the error of its body.\<close>

lemma read_json_errors:
  "read_json_body loads content_length stream m = Inl e \<Longrightarrow> e = BodyTooLarge \<or> e = MalformedBody"
  by (auto simp: read_json_body_def bindR_eq_Inl Let_def
      split: sum.splits if_splits option.splits pyval.splits)

lemma handle_shape:
  obtains b where "handle env models token req = dispatch env models token req b"
  | status m where "handle env models token req = reply status (J_Error m)" "hr_method req = POST"
      "status \<in> {ENTITY_TOO_LARGE_413, BAD_REQUEST_400}"
proof (cases "hr_method req")
  case POST
  show ?thesis
  proof (cases "read_json_body (am_loads models) (hr_content_length req) (hr_stream req) MAX_BODY_BYTES")
    case (Inl e)
    then show ?thesis using read_json_errors [OF Inl] POST that(2) by (auto simp: handle_def)
  next
    case (Inr b)
    with POST that(1) show ?thesis by (simp add: handle_def)
  qed
qed (use that(1) in \<open>simp_all add: handle_def\<close>)

lemma one_call_handle: "one_call env (handle env models token req)"
  by (rule handle_shape [of env models token req])
    (simp_all add: one_call_dispatch one_call_same same_read)

lemma reachable_handle: "reachable env s \<Longrightarrow> reachable env (snd (handle env models token req s))"
  using one_call_handle [of env models token req] by (metis one_call_def reachable.step)

section \<open>Properties\<close>

text \<open>What happens to the controller: requests, from anyone, and ticks of the scheduler.\<close>

datatype event = Request http_request | Tick

fun serve :: "env \<Rightarrow> api_models \<Rightarrow> string \<Rightarrow> event list \<Rightarrow> controller \<Rightarrow> controller" where
  "serve env models token [] s = s"
| "serve env models token (Request req # es) s =
     serve env models token es (snd (handle env models token req s))"
| "serve env models token (Tick # es) s = serve env models token es (tick env s)"

lemma reachable_serve: "reachable env s \<Longrightarrow> reachable env (serve env models token es s)"
proof (induction es arbitrary: s)
  case (Cons e es)
  have "reachable env (tick env s)"
    using reachable.step [OF Cons.prems, of "Run_Due None"] by (simp add: tick_def)
  with Cons show ?case by (cases e) (simp_all add: reachable_handle)
qed simp


text \<open>C4: Nothing happens without the token: a request changes the state only if it carries exactly the
  bearer token and is not a GET, and without the token it is answered with an error (401 unless the
  body is refused first), or not at all when the header is not ASCII.\<close>

theorem authorization_gate:
  "(snd (handle env models token req s) \<noteq> s \<longrightarrow>
      hr_authorization req = Some (''Bearer '' @ token) \<and> hr_method req \<noteq> GET) \<and>
   (hr_authorization req \<noteq> Some (''Bearer '' @ token) \<longrightarrow>
      (case fst (handle env models token req s) of
         Inr r \<Rightarrow> (\<exists>m. hp_payload r = J_Error m) \<and>
           (hp_status r = UNAUTHORIZED_401 \<or>
            hr_method req = POST \<and> hp_status r \<in> {ENTITY_TOO_LARGE_413, BAD_REQUEST_400})
       | Inl e \<Rightarrow> e = TypeError \<and>
           \<not> (ascii (''Bearer '' @ token) \<and> (\<exists>h. hr_authorization req = Some h \<and> ascii h))))"
proof (rule handle_shape [of env models token req])
  fix b
  assume h: "handle env models token req = dispatch env models token req b"
  show ?thesis
    unfolding h dispatch_def Let_def compare_digest_def
    by (auto simp: reply_def returnA_def same.keepsD [OF same_get] ascii_def split: option.splits)
next
  fix status m
  assume "handle env models token req = reply status (J_Error m)" "hr_method req = POST"
      "status \<in> {ENTITY_TOO_LARGE_413, BAD_REQUEST_400}"
  then show ?thesis by (auto simp: reply_def returnA_def)
qed

section \<open>Every request is answered\<close>

text \<open>Every exception an action can raise is one of those the handler answers.\<close>

definition answered :: "(controller, 'a) act \<Rightarrow> bool" where
  "answered m \<longleftrightarrow> (\<forall>s. case fst (m s) of Inl e \<Rightarrow> error_status e \<noteq> None | Inr _ \<Rightarrow> True)"

definition answered_result :: "'a result \<Rightarrow> bool" where
  "answered_result r = (case r of Inl e \<Rightarrow> error_status e \<noteq> None | Inr _ \<Rightarrow> True)"

lemma answered_basic: "answered (returnA x)" "answered (readA f)" "answered (writeA g)" "answered (pureA h)"
  "answered (reply status p)"
  by (simp_all add: answered_def act_defs readA_def writeA_def pureA_def reply_def case_prod_beta)

lemma answered_fail: "error_status e \<noteq> None \<Longrightarrow> answered (failA e)"
  by (simp add: answered_def act_defs)

lemma answered_lift: "answered_result r \<Longrightarrow> answered (liftA r)"
  by (simp add: answered_def answered_result_def act_defs)

lemma answered_bind: "answered m \<Longrightarrow> (\<And>x. answered (f x)) \<Longrightarrow> answered (bindA m f)"
proof (unfold answered_def, rule allI)
  fix s
  assume m: "\<forall>s. case fst (m s) of Inl e \<Rightarrow> error_status e \<noteq> None | Inr _ \<Rightarrow> True"
    and f: "\<And>x. \<forall>s. case fst (f x s) of Inl e \<Rightarrow> error_status e \<noteq> None | Inr _ \<Rightarrow> True"
  obtain r s' where ms: "m s = (r, s')" by fastforce
  show "case fst (bindA m f s) of Inl e \<Rightarrow> error_status e \<noteq> None | Inr _ \<Rightarrow> True"
    using m [rule_format, of s] f [rule_format, of _ s'] by (cases r) (simp_all add: bindA_def ms)
qed

lemma answered_bind_lift:
  "answered_result r \<Longrightarrow> (\<And>x. r = Inr x \<Longrightarrow> answered (f x)) \<Longrightarrow> answered (bindA (liftA r) f)"
  by (cases r) (auto simp: answered_def answered_result_def)

lemma answered_if: "answered m \<Longrightarrow> answered m' \<Longrightarrow> answered (if b then m else m')"
  by simp

lemma answered_prod: "(\<And>a b. answered (f a b)) \<Longrightarrow> answered (case p of (a, b) \<Rightarrow> f a b)"
  by (cases p) simp

lemma answered_map: "(\<And>x. answered (f x)) \<Longrightarrow> answered (mapA f xs)"
  by (induction xs) (auto intro!: answered_bind answered_basic)

lemma answered_require: "error_status e \<noteq> None \<Longrightarrow> answered (requireA f e)"
  unfolding requireA_def
  by (intro answered_bind answered_basic) (auto intro: answered_basic answered_fail split: option.splits)

lemma result_basic: "answered_result (Inr x)" "error_status e \<noteq> None \<Longrightarrow> answered_result (Inl e)"
  "error_status e \<noteq> None \<Longrightarrow> answered_result (guardR b e)"
  by (simp_all add: answered_result_def guardR_def)

lemma result_bind: "answered_result r \<Longrightarrow> (\<And>x. r = Inr x \<Longrightarrow> answered_result (f x)) \<Longrightarrow> answered_result (bindR r f)"
  by (cases r) (simp_all add: answered_result_def)

lemma result_map: "(\<And>x. x \<in> set xs \<Longrightarrow> answered_result (f x)) \<Longrightarrow> answered_result (mapR f xs)"
  by (induction xs) (auto intro!: result_bind result_basic)

lemma result_if: "answered_result r \<Longrightarrow> answered_result r' \<Longrightarrow> answered_result (if b then r else r')"
  by simp

lemmas answered_intros = answered_bind_lift answered_bind answered_basic answered_if answered_prod answered_map
lemmas result_intros = result_bind result_basic result_map result_if

text \<open>The validations of the models.\<close>

lemma check_edges_answered: "answered_result (check_edges ids es)"
  by (induction ids es rule: check_edges.induct) (auto intro!: result_intros)

lemma validations_answered:
  "answered_result (validate_topology t)" "answered_result (validate_schedule sc)"
  "answered_result (validate_rule ru)" "answered_result (validate_inventory ss)"
  "answered_result (validate_diagnosis_request dq)" "answered_result (validate_probe_request pr)"
  "answered_result (validate_fanout_request fr)" "answered_result (validate_vantage_observation vo)"
  by (auto simp: validate_topology_def validate_schedule_def validate_rule_def validate_inventory_def
      validate_diagnosis_request_def validate_probe_request_def validate_fanout_request_def
      validate_vantage_observation_def validate_node_def validate_edge_def validate_graph_def
      validate_service_def Let_def check_edges_answered intro!: result_intros split: option.splits)

lemma require_answered:
  "answered (require_named_topology n)" "answered (require_diagnosis i)" "answered (require_incident i)"
  "answered (requireA (get_service sid) (UnknownServiceError m))"
  unfolding require_named_topology_def require_diagnosis_def require_incident_def
  by (rule answered_require; simp)+

lemma resolve_topology_answered: "answered (resolve_topology name)"
  unfolding resolve_topology_def
  by (cases name) (auto intro!: answered_bind answered_basic require_answered)

lemma lookup_answered:
  "answered (correlate_agents n)" "answered (stored_bindings name)" "answered (require_topology name)"
  "answered (remove_schedule i)" "answered (remove_alert_rule i)"
  unfolding correlate_agents_def stored_bindings_def require_topology_def remove_schedule_def
    remove_alert_rule_def deleteA_def
  by (auto intro!: answered_bind answered_basic answered_if answered_fail require_answered
      resolve_topology_answered split: option.splits)

text \<open>A listed topology is stored, so the topology of a service is found or reported missing.\<close>

lemma listed_stored: "c \<in> set (list_topology_names st) \<Longrightarrow> get_topology c st \<noteq> None"
  by (auto simp: list_topology_names_def get_topology_def map_of_eq_None_iff)

lemma answered_read_lift:
  assumes "\<And>st. answered_result (g st)" "\<And>st x. g st = Inr x \<Longrightarrow> answered (f x)"
  shows "answered (bindA (readA g) (\<lambda>r. bindA (liftA r) f))"
  unfolding answered_def
proof
  fix s :: controller
  show "case fst (bindA (readA g) (\<lambda>r. bindA (liftA r) f) s) of Inl e \<Rightarrow> error_status e \<noteq> None | Inr _ \<Rightarrow> True"
    using assms(1) [of "ct_store s"] assms(2) [of "ct_store s"]
    by (cases "g (ct_store s)") (simp_all add: readA_def answered_def answered_result_def)
qed

lemma topology_for_service_answered: "answered (topology_for_service service name)"
proof (cases name)
  case None
  show ?thesis
    unfolding topology_for_service_def None option.case
  proof (rule answered_read_lift, goal_cases)
    case (1 st)
    show ?case by (auto simp: answered_result_def split: option.splits list.splits)
  next
    case (2 st x)
    then have "x \<noteq> None"
      using listed_stored [of _ st] by (auto simp: find_Some_iff split: option.splits list.splits)
    then show ?case by (auto intro: answered_basic)
  qed
qed (simp add: topology_for_service_def require_answered)

lemma fanout_answered: "answered (fanout env agents request)"
  by (simp add: answered_def fanout_def)

lemma dispatch_answered: "answered (dispatch_job env request)"
proof -
  have "answered_result (mapR (enabled_agent st) ids)" for st ids
    by (auto simp: enabled_agent_def intro!: result_intros split: option.splits)
  then show ?thesis
    unfolding dispatch_job_def Let_def mark_all_def
    by (intro answered_read_lift [where g = "\<lambda>st. mapR (enabled_agent st) (dedup (fr_agent_ids request))",
          unfolded readA_def])
      (auto intro!: answered_intros fanout_answered)
qed

lemma diagnose_answered: "answered (diagnose_service env request)"
  unfolding diagnose_service_def Let_def run_plan_def localize_def save_report_def
  by (auto intro!: answered_intros answered_fail require_answered topology_for_service_answered
      lookup_answered fanout_answered answered_lift validations_answered result_map)

lemma augment_errors: "answered_result (augment_topology_with_bindings t bs)"
proof -
  have "answered_result (refresh_edge tags e)" "answered_result (new_edge tags b)" for tags e b
    by (auto simp: refresh_edge_def new_edge_def validate_edge_def Let_def intro!: result_intros
        split: option.splits)
  then show ?thesis
    unfolding augment_topology_with_bindings_def Let_def
    by (intro result_bind result_map validations_answered)
qed

lemma operations_answered:
  "answered (register_agent i url tags)" "answered (import_topology t)"
  "answered (register_services inventory name)" "answered (create_schedule env schedule)"
  "answered (register_alert_rule rule)" "answered (correlate_ports name switches)"
  "answered (augment_topology name)" "answered (change_incident env i now change)"
proof -
  have nodes: "answered_result (case topology of None \<Rightarrow> Inr [] | Some t \<Rightarrow> mapR (check_service_node t) ss)"
    for topology ss
    by (auto simp: check_service_node_def intro!: result_intros split: option.splits)
  show "answered (register_agent i url tags)" "answered (import_topology t)"
    unfolding register_agent_def import_topology_def Let_def
    by (intro answered_intros validations_answered result_basic; simp)+
  show "answered (register_services inventory name)"
    unfolding register_services_def
    by (intro answered_bind answered_lift answered_basic resolve_topology_answered nodes)
  show "answered (create_schedule env schedule)"
    unfolding create_schedule_def Let_def
    by (intro answered_intros validations_answered require_answered)
  show "answered (register_alert_rule rule)"
    unfolding register_alert_rule_def
    by (intro answered_bind_lift validations_answered answered_read_lift answered_intros)
      (simp split: option.splits add: answered_result_def)
  show "answered (correlate_ports name switches)" "answered (augment_topology name)"
    "answered (change_incident env i now change)"
    unfolding correlate_ports_def augment_topology_def change_incident_def Let_def
    by (auto intro!: answered_intros lookup_answered require_answered answered_fail answered_lift
        augment_errors)
qed

text \<open>The routes.\<close>

lemma split_on_length: "length (split_on c s) = Suc (length (filter (\<lambda>x. x = c) s))"
  by (induction s) (auto split: list.splits)

lemma segment_answered:
  assumes "starts_with p route" "3 \<le> length (filter (\<lambda>x. x = CHR ''/'') p)"
  shows "answered_result (segment 3 route)"
proof -
  have "length (filter (\<lambda>x. x = CHR ''/'') p) \<le> length (filter (\<lambda>x. x = CHR ''/'') route)"
    using starts_withD [OF assms(1)] by (metis filter_append le_add1 length_append)
  then show ?thesis
    using assms(2) by (simp add: segment_def nthR_def split_on_length answered_result_def)
qed

lemma segments_answered:
  "topology_action action route \<Longrightarrow> answered_result (segment 3 route)"
  "starts_with ''/v1/incidents/'' route \<Longrightarrow> answered_result (segment 3 route)"
  by (auto simp: topology_action_def intro!: segment_answered)

lemma state_texts_answered: "answered_result (alert_state_of v)" "answered_result (incident_state_of v)"
  by (auto simp: alert_state_of_def incident_state_of_def answered_result_def split: option.splits)

lemma answered_cond: "(b \<Longrightarrow> answered m) \<Longrightarrow> (\<not> b \<Longrightarrow> answered m') \<Longrightarrow> answered (if b then m else m')"
  by simp

lemma get_answered: "answered (get_route env target route)"
  unfolding get_route_def
  by (intro answered_cond answered_bind_lift answered_bind answered_basic require_answered lookup_answered
      segments_answered state_texts_answered)
    (auto intro: answered_basic split: option.splits)

text \<open>The parsers of the models fail only with a validation error.\<close>

definition only_validation :: "'a result \<Rightarrow> bool" where
  "only_validation r = (case r of Inl e \<Rightarrow> e = ValidationError | Inr _ \<Rightarrow> True)"

definition models_validate :: "api_models \<Rightarrow> bool" where
  "models_validate models \<longleftrightarrow> (\<forall>b.
     only_validation (am_agent models b) \<and> only_validation (am_job models b) \<and>
     only_validation (am_topology models b) \<and> only_validation (am_correlation models b) \<and>
     only_validation (am_inventory models b) \<and> only_validation (am_diagnosis models b) \<and>
     only_validation (am_schedule models b) \<and> only_validation (am_rule models b))"

lemma only_validation_answered: "only_validation r \<Longrightarrow> answered_result r"
  by (auto simp: only_validation_def answered_result_def split: sum.splits)

lemma models_answered:
  assumes "models_validate models"
  shows "answered_result (am_agent models b)" "answered_result (am_job models b)"
    "answered_result (am_topology models b)" "answered_result (am_correlation models b)"
    "answered_result (am_inventory models b)" "answered_result (am_diagnosis models b)"
    "answered_result (am_schedule models b)" "answered_result (am_rule models b)"
  using assms by (simp_all add: models_validate_def only_validation_answered)

lemma decode_job_answered: "models_validate models \<Longrightarrow> answered_result (decode_job models b)"
  unfolding decode_job_def by (intro result_bind models_answered validations_answered)

lemma incident_answered:
  "answered (acknowledge_incident env i now)" "answered (resolve_incident env i now)"
  by (simp_all only: acknowledge_incident_def resolve_incident_def operations_answered)

text \<open>An operation followed by its reply.\<close>

lemma answered_reply: "answered m \<Longrightarrow> answered (bindA m (\<lambda>x. reply (st x) (p x)))"
  by (intro answered_bind answered_basic)

lemma post_answered:
  assumes "models_validate models"
  shows "answered (post_route env models target route b)"
  unfolding post_route_def
  by (intro answered_cond;
      (intro answered_bind_lift models_answered [OF assms] decode_job_answered [OF assms] answered_prod
         answered_reply operations_answered dispatch_answered diagnose_answered incident_answered
         result_bind validations_answered answered_basic
       | erule segments_answered | erule conjE, erule segments_answered)+)

lemma delete_answered: "answered (delete_route route)"
  unfolding delete_route_def by (intro answered_cond answered_bind answered_basic lookup_answered)

lemma catch_total: "answered m \<Longrightarrow> \<exists>r s'. catch_errors env m s = (Inr r, s')"
  unfolding answered_def catch_errors_def
  by (drule spec [of _ s]) (auto simp: reply_def returnA_def split: prod.splits sum.splits option.splits)

lemma dispatch_total:
  assumes "models_validate models" "ascii (''Bearer '' @ token)"
    and "ascii (case hr_authorization req of None \<Rightarrow> [] | Some h \<Rightarrow> h)"
  shows "\<exists>r s'. dispatch env models token req b s = (Inr r, s')"
proof -
  have "answered (case hr_method req of GET \<Rightarrow> get_route env t r
      | POST \<Rightarrow> post_route env models t r fields | DELETE \<Rightarrow> delete_route r)" for t r fields
    using get_answered post_answered [OF assms(1)] delete_answered by (cases "hr_method req") simp_all
  then show ?thesis
    using assms(2,3)
    by (simp add: dispatch_def compare_digest_def Let_def catch_total reply_def returnA_def)
qed


definition sample_models :: api_models where
  "sample_models =
     \<lparr> am_loads = (\<lambda>_. Some (PDict [])), am_agent = (\<lambda>_. Inr (''a1'', ''http://10.0.0.2:8081'', [])),
       am_job = (\<lambda>_. Inl ValidationError), am_topology = (\<lambda>_. Inl ValidationError),
       am_correlation = (\<lambda>_. Inl ValidationError), am_inventory = (\<lambda>_. Inr []),
       am_diagnosis = (\<lambda>_. Inl ValidationError), am_schedule = (\<lambda>_. Inl ValidationError),
       am_rule = (\<lambda>_. Inr sample_rule) \<rparr>"

definition sample_request :: "http_method \<Rightarrow> string \<Rightarrow> string option \<Rightarrow> http_request" where
  "sample_request m target auth =
     \<lparr> hr_method = m, hr_target = target, hr_authorization = auth,
       hr_content_length = Some ''2'', hr_stream = [123, 125] \<rparr>"



lemma authorization_gate_witness:
  "snd (handle sample_env sample_models ''tok''
      (sample_request POST ''/v1/alert-rules'' (Some ''Bearer other'')) initial) = initial \<and>
   (case fst (handle sample_env sample_models ''tok''
      (sample_request POST ''/v1/alert-rules'' (Some ''Bearer other'')) initial) of
      Inr r \<Rightarrow> \<exists>m. hp_payload r = J_Error m | Inl e \<Rightarrow> e = TypeError)"
  using authorization_gate [of sample_env sample_models "''tok''"
      "sample_request POST ''/v1/alert-rules'' (Some ''Bearer other'')" initial]
  by (auto simp: sample_request_def split: sum.splits)

end
