(* ===== verification/Ping.thy ===== *)
theory Ping
  imports Host_Env
begin

text \<open>
  Model of the ICMP probes: \<open>diagnostics/host/icmp_utils.py\<close> (running and parsing
  \<open>ping\<close>, with the module's cache), \<open>packet_loss.py\<close>, \<open>latency.py\<close>,
  the local mesh of \<open>diagnostics/mesh/runner.py\<close> and the probes of
  \<open>diagnostics/traffic/speed.py\<close>.

  A function that prints a table is modelled here by the results it returns; its table is in the
  theory Probe_Tables.
\<close>

section \<open>Parsing the output of ping\<close>

definition CACHE_TTL :: rat where "CACHE_TTL = 15"

definition loss_pattern :: regex where
  "loss_pattern = Cat (Group 1 decimal) (Cat (sign CHR ''%'') (Cat spaces
     (Cat (Opt (Cat (word_ci ''packet'') some_spaces)) (word_ci ''loss''))))"

definition percent_pattern :: regex where
  "percent_pattern = Cat (Group 1 decimal) (sign CHR ''%'')"

definition sample_mark :: regex where
  "sample_mark = Alt (word_ci ''time'') (Alt (word_ci ''zeit'') (Alt (word_ci ''temps'')
     (Alt (word_ci ''tempo'') (Chars (\<lambda>c. c = CHR ''='' \<or> c = CHR ''<'')))))"

definition sample_pattern :: regex where
  "sample_pattern = Cat sample_mark (Cat spaces (Cat (Group 1 decimal) (Cat spaces (word_ci ''ms''))))"

definition summary_pattern :: regex where
  "summary_pattern = Cat (Alt (word_ci ''rtt'') (word_ci ''round-trip'')) (Cat some_spaces
     (Cat (word_ci ''min/avg/max/'') (Cat (Alt (word_ci ''mdev'') (word_ci ''stddev'')) (Cat spaces
     (Cat (sign CHR ''='') (Cat spaces (Cat (Group 1 decimal) (Cat (sign CHR ''/'')
     (Cat (Group 2 decimal) (Cat (sign CHR ''/'') (Group 3 decimal)))))))))))"

definition parse_loss :: "string \<Rightarrow> rat option" where
  "parse_loss output =
     (case re_search loss_pattern output of
        Some m \<Rightarrow> Some (decimal_value (group 1 m))
      | None \<Rightarrow> (let pct_matches = findall percent_pattern output
                 in if pct_matches \<noteq> [] then Some (decimal_value (last pct_matches)) else None))"

definition parse_samples :: "string \<Rightarrow> rat list" where
  "parse_samples output = map decimal_value (findall sample_pattern output)"

definition parse_ping_output :: "string \<Rightarrow> int \<Rightarrow> rat option \<times> rat list" where
  "parse_ping_output output requested =
     (let loss = parse_loss output;
          samples = parse_samples output;
          latencies =
            (if samples = [] then
               (case re_search summary_pattern output of
                  Some m \<Rightarrow> map (\<lambda>n. decimal_value (group n m)) [1, 2, 3]
                | None \<Rightarrow> [])
             else samples)
      in (loss, if loss = Some 100 then [] else latencies))"

section \<open>Running ping\<close>

definition ping_command :: "string \<Rightarrow> string \<Rightarrow> int \<Rightarrow> string list" where
  "ping_command system host requested =
     [''ping'', if system = ''windows'' then ''-n'' else ''-c'', str_of_int requested, host]"

definition failed_ping :: "string \<Rightarrow> int \<Rightarrow> string \<Rightarrow> ping_data" where
  "failed_ping host requested exc =
     \<lparr> pd_host = host, pd_count = requested, pd_packet_loss_percent = None, pd_latencies = [],
       pd_min_ms = 0, pd_avg_ms = 0, pd_max_ms = 0, pd_jitter_ms = 0, pd_std_dev_ms = 0,
       pd_raw_output = [], pd_error = Some exc \<rparr>"

definition ping_data_of :: "host_env \<Rightarrow> string \<Rightarrow> int \<Rightarrow> string \<Rightarrow> ping_data" where
  "ping_data_of env host requested output =
     (case parse_ping_output output requested of
        (loss, latencies) \<Rightarrow>
          (let s = summarize_latencies (he_sqrt env) latencies
           in \<lparr> pd_host = host, pd_count = requested, pd_packet_loss_percent = loss,
                pd_latencies = latencies, pd_min_ms = ls_min s, pd_avg_ms = ls_avg s,
                pd_max_ms = ls_max s, pd_jitter_ms = ls_jitter s, pd_std_dev_ms = ls_std_dev s,
                pd_raw_output = output, pd_error = None \<rparr>))"

definition cached_ping :: "string \<Rightarrow> int \<Rightarrow> rat \<Rightarrow> host \<Rightarrow> ping_data option" where
  "cached_ping host requested now h =
     (case map_of (ho_ping_cache h) (host, requested) of
        Some (cached_time, data) \<Rightarrow> if now - cached_time < CACHE_TTL then Some data else None
      | None \<Rightarrow> None)"

definition fresh_ping :: "host_env \<Rightarrow> string \<Rightarrow> int \<Rightarrow> rat \<Rightarrow> host \<Rightarrow> ping_data \<times> host" where
  "fresh_ping env host requested now h =
     (case run_command env (ping_command (he_system env) host requested) (of_int requested * 3 + 5) h of
        (Completed _ out err, h') \<Rightarrow>
          (let data = ping_data_of env host requested (out @ err)
           in (data, h' \<lparr> ho_ping_cache := AList.update (host, requested) (now, data) (ho_ping_cache h') \<rparr>))
      | (Run_Failed exc, h') \<Rightarrow> (failed_ping host requested exc, h')
      | (Run_Raised _ exc, h') \<Rightarrow> (failed_ping host requested exc, h'))"

definition run_ping :: "host_env \<Rightarrow> string \<Rightarrow> int \<Rightarrow> bool \<Rightarrow> host \<Rightarrow> ping_data \<times> host" where
  "run_ping env host requested use_cache h =
     (case read_clock env h of
        (now, h1) \<Rightarrow>
          (case if use_cache then cached_ping host requested now h1 else None of
             Some data \<Rightarrow> (data, h1)
           | None \<Rightarrow> fresh_ping env host requested now h1))"

section \<open>Probes\<close>

definition error_of :: "ping_data \<Rightarrow> string" where
  "error_of data = (case pd_error data of None \<Rightarrow> [] | Some e \<Rightarrow> e)"

definition raw_output :: "string \<Rightarrow> (string \<times> pyval) list" where
  "raw_output out = [(''raw_output'', PStr out)]"

definition classify_loss :: "rat \<Rightarrow> diagnostic_status \<times> severity" where
  "classify_loss loss =
     (if loss = 0 then (HEALTHY, INFO) else if loss < 5 then (DEGRADED, LOW)
      else if loss < 20 then (DEGRADED, MEDIUM) else (FAILED, HIGH))"

definition packet_loss_result :: "host_env \<Rightarrow> string \<Rightarrow> int \<Rightarrow> ping_data \<Rightarrow> diagnostic_result" where
  "packet_loss_result env host requested data =
     (if error_of data \<noteq> [] then
        (new_result ''packet_loss'' ''host'' UNKNOWN MEDIUM (''Unable to ping '' @ host))
          \<lparr> dr_target := Some host, dr_errors := [error_of data] \<rparr>
      else
        (case pd_packet_loss_percent data of
           None \<Rightarrow>
             (new_result ''packet_loss'' ''host'' UNKNOWN MEDIUM
                (''Could not determine packet loss for '' @ host))
               \<lparr> dr_target := Some host, dr_metadata := raw_output (pd_raw_output data) \<rparr>
         | Some loss \<Rightarrow>
             (new_result ''packet_loss'' ''host'' (fst (classify_loss loss)) (snd (classify_loss loss))
                (he_repr env loss @ ''% packet loss to '' @ host))
               \<lparr> dr_target := Some host,
                  dr_metrics := [(''packet_loss_percent'', PFloat loss), (''packets_sent'', PInt requested)],
                  dr_evidence := [he_repr env loss @ ''% packet loss observed''],
                  dr_metadata := raw_output (pd_raw_output data) \<rparr>))"

definition ping_host :: "host_env \<Rightarrow> string \<Rightarrow> int \<Rightarrow> host \<Rightarrow> diagnostic_result \<times> host" where
  "ping_host env host requested h =
     (case run_ping env host requested True h of
        (data, h') \<Rightarrow> (packet_loss_result env host requested data, h'))"

definition latency_samples :: "ping_data \<Rightarrow> (string \<times> pyval) list" where
  "latency_samples data =
     [(''min_ms'', PFloat (pd_min_ms data)), (''avg_ms'', PFloat (pd_avg_ms data)),
      (''max_ms'', PFloat (pd_max_ms data)), (''jitter_ms'', PFloat (pd_jitter_ms data)),
      (''std_dev_ms'', PFloat (pd_std_dev_ms data)), (''samples'', PInt (int (length (pd_latencies data))))]"

definition classify_latency :: "rat \<Rightarrow> diagnostic_status \<times> severity" where
  "classify_latency average =
     (if average < 100 then (HEALTHY, INFO) else if average < 250 then (HEALTHY, INFO)
      else if average < 400 then (DEGRADED, LOW) else (DEGRADED, MEDIUM))"

definition latency_result :: "string \<Rightarrow> ping_data \<Rightarrow> diagnostic_result" where
  "latency_result host data =
     (let total_loss = (pd_packet_loss_percent data = Some 100);
          none = ''No latency samples received from '' @ host
      in if error_of data \<noteq> [] then
           (new_result ''latency'' ''host'' UNKNOWN MEDIUM (''Latency measurement failed for '' @ host))
             \<lparr> dr_target := Some host, dr_errors := [error_of data] \<rparr>
         else if pd_latencies data = [] then
           (new_result ''latency'' ''host'' (if total_loss then FAILED else UNKNOWN)
              (if total_loss then HIGH else MEDIUM) (if total_loss then none @ '' (100% loss)'' else none))
             \<lparr> dr_target := Some host, dr_metadata := raw_output (pd_raw_output data) \<rparr>
         else
           (new_result ''latency'' ''host'' (fst (classify_latency (pd_avg_ms data)))
              (snd (classify_latency (pd_avg_ms data)))
              (''Average latency to '' @ host @ '': '' @ fmt_fixed 2 (pd_avg_ms data) @
               '' ms (RFC Jitter: '' @ fmt_fixed 2 (pd_jitter_ms data) @ '' ms)''))
             \<lparr> dr_target := Some host, dr_metrics := latency_samples data,
                dr_evidence := [str_of_nat (length (pd_latencies data)) @ '' latency samples collected'',
                  ''RFC 3550 PDV Jitter: '' @ fmt_fixed 2 (pd_jitter_ms data) @ '' ms''],
                dr_metadata := raw_output (pd_raw_output data) \<rparr>)"

definition measure_latency :: "host_env \<Rightarrow> string \<Rightarrow> int \<Rightarrow> host \<Rightarrow> diagnostic_result \<times> host" where
  "measure_latency env host requested h =
     (case run_ping env host requested True h of (data, h') \<Rightarrow> (latency_result host data, h'))"

definition public_hosts :: "string list" where
  "public_hosts = [''1.1.1.1'', ''8.8.8.8'']"

definition run_packet_loss_diagnostics ::
  "host_env \<Rightarrow> string list option \<Rightarrow> int \<Rightarrow> host \<Rightarrow> diagnostic_result list \<times> host" where
  "run_packet_loss_diagnostics env hosts requested =
     for_each (\<lambda>host. ping_host env host requested)
       (case hosts of None \<Rightarrow> public_hosts | Some hs \<Rightarrow> if hs = [] then public_hosts else hs)"

definition run_latency_diagnostics ::
  "host_env \<Rightarrow> string list option \<Rightarrow> int \<Rightarrow> host \<Rightarrow> diagnostic_result list \<times> host" where
  "run_latency_diagnostics env hosts requested =
     for_each (\<lambda>host. measure_latency env host requested)
       (case hosts of None \<Rightarrow> public_hosts | Some hs \<Rightarrow> if hs = [] then public_hosts else hs)"

subsection \<open>Speed and jitter\<close>

definition classify_goodput :: "rat \<Rightarrow> diagnostic_status \<times> severity" where
  "classify_goodput mbps =
     (if mbps < 1 then (DEGRADED, MEDIUM) else if mbps < 5 then (DEGRADED, LOW) else (HEALTHY, INFO))"

definition almost_equal :: string where
  "almost_equal = [CHR 0xE2, CHR 0x89, CHR 0x88]"

definition download_result :: "string \<Rightarrow> download_outcome \<Rightarrow> diagnostic_result result" where
  "download_result url outcome =
     (case outcome of
        Transfer_Raised e \<Rightarrow> Inl e
      | Transfer_Failed exc \<Rightarrow>
          Inr ((new_result ''traffic_speed'' ''traffic'' UNKNOWN MEDIUM ''Download speed test failed'')
            \<lparr> dr_target := Some url, dr_errors := [exc] \<rparr>)
      | Transferred bytes_read elapsed \<Rightarrow>
          (let mbps = estimate_goodput_mbps (of_int bytes_read) elapsed
           in Inr ((new_result ''traffic_speed'' ''traffic'' (fst (classify_goodput mbps)) (snd (classify_goodput mbps))
                 (''Download goodput '' @ almost_equal @ '' '' @ fmt_fixed 2 mbps @ '' Mbps''))
                \<lparr> dr_target := Some url,
                   dr_metrics := [(''goodput_mbps'', PFloat mbps), (''bytes'', PInt bytes_read),
                     (''elapsed_seconds'', PFloat (py_round elapsed 3)), (''direction'', PStr ''download'')],
                   dr_evidence := [''Transferred '' @ str_of_int bytes_read @ '' bytes in '' @
                     fmt_fixed 2 elapsed @ ''s''] \<rparr>)))"

definition measure_download_speed :: "host_env \<Rightarrow> string \<Rightarrow> rat \<Rightarrow> (host, diagnostic_result) act" where
  "measure_download_speed env url timeout h =
     (case ask (\<lambda>n. he_download env n url timeout) h of (outcome, h') \<Rightarrow> (download_result url outcome, h'))"

definition classify_jitter :: "rat \<Rightarrow> diagnostic_status \<times> severity" where
  "classify_jitter jitter =
     (if 50 \<le> jitter then (DEGRADED, MEDIUM) else if 20 \<le> jitter then (DEGRADED, LOW) else (HEALTHY, INFO))"

definition jitter_result :: "host_env \<Rightarrow> string \<Rightarrow> ping_data \<Rightarrow> diagnostic_result" where
  "jitter_result env host data =
     (if error_of data \<noteq> [] \<or> pd_latencies data = [] then
        (new_result ''traffic_jitter'' ''traffic'' UNKNOWN MEDIUM (''Jitter measurement failed for '' @ host))
          \<lparr> dr_target := Some host,
             dr_errors := (if error_of data \<noteq> [] then [error_of data] else [''No latency samples'']) \<rparr>
      else
        (let s = summarize_latencies (he_sqrt env) (pd_latencies data)
         in (new_result ''traffic_jitter'' ''traffic'' (fst (classify_jitter (ls_jitter s)))
               (snd (classify_jitter (ls_jitter s)))
               (''RFC 3550 jitter to '' @ host @ '': '' @ fmt_fixed 2 (ls_jitter s) @ '' ms''))
              \<lparr> dr_target := Some host,
                 dr_metrics := [(''jitter_ms'', PFloat (ls_jitter s)), (''avg_ms'', PFloat (ls_avg s)),
                   (''min_ms'', PFloat (ls_min s)), (''max_ms'', PFloat (ls_max s)),
                   (''samples'', PInt (int (ls_samples s))),
                   (''packet_loss_percent'', case pd_packet_loss_percent data of None \<Rightarrow> PNone | Some l \<Rightarrow> PFloat l)],
                 dr_evidence := [str_of_nat (ls_samples s) @ '' samples, jitter '' @ fmt_fixed 2 (ls_jitter s) @ '' ms''] \<rparr>))"

definition measure_traffic_jitter :: "host_env \<Rightarrow> string \<Rightarrow> int \<Rightarrow> host \<Rightarrow> diagnostic_result \<times> host" where
  "measure_traffic_jitter env host requested h =
     (case run_ping env host requested False h of (data, h') \<Rightarrow> (jitter_result env host data, h'))"

definition collect_traffic_diagnostics ::
  "host_env \<Rightarrow> string \<Rightarrow> string \<Rightarrow> bool \<Rightarrow> (host, diagnostic_result list) act" where
  "collect_traffic_diagnostics env speed_url jitter_host include_speed h =
     (case measure_traffic_jitter env jitter_host 10 h of
        (jitter, h1) \<Rightarrow>
          if include_speed then
            bindA (measure_download_speed env speed_url 30) (\<lambda>speed. returnA [speed, jitter]) h1
          else (Inr [jitter], h1))"

subsection \<open>The local mesh\<close>

text \<open>The JSON object of a topology file: the two keys the loader reads, \<open>None\<close> for a missing
  one. An edge is an object (its \<open>dst\<close> as text, \<open>None\<close> when it has no truthy one), an
  array (its elements as text) or neither.\<close>

datatype mesh_edge = Edge_Object "string option" | Edge_Array "string list" | Edge_Other

record mesh_topology =
  mt_targets :: "string list option"
  mt_edges :: "mesh_edge list option"

definition load_topology :: "mesh_topology \<Rightarrow> mesh_topology result" where
  "load_topology data =
     (if mt_targets data = None \<and> mt_edges data = None then Inl ValueError else Inr data)"

definition edge_targets :: "mesh_edge \<Rightarrow> string list" where
  "edge_targets e =
     (case e of
        Edge_Object (Some dst) \<Rightarrow> [dst]
      | Edge_Object None \<Rightarrow> []
      | Edge_Array xs \<Rightarrow> if 2 \<le> length xs then [xs ! 1] else []
      | Edge_Other \<Rightarrow> [])"

definition or_empty :: "'a list option \<Rightarrow> 'a list" where
  "or_empty xs = (case xs of None \<Rightarrow> [] | Some ys \<Rightarrow> ys)"

definition topology_targets :: "mesh_topology \<Rightarrow> string list" where
  "topology_targets t = or_empty (mt_targets t) @ concat (map edge_targets (or_empty (mt_edges t)))"

text \<open>\<open>list(dict.fromkeys(xs))\<close>.\<close>

fun unique :: "string list \<Rightarrow> string list" where
  "unique [] = []"
| "unique (x # xs) = x # filter (\<lambda>y. y \<noteq> x) (unique xs)"

definition mesh_targets :: "string list option \<Rightarrow> mesh_topology option \<Rightarrow> string list result" where
  "mesh_targets targets topology =
     bindR (case topology of
              None \<Rightarrow> Inr (or_empty targets)
            | Some data \<Rightarrow> bindR (load_topology data) (\<lambda>t. Inr (topology_targets t))) (\<lambda>ts.
     Inr (unique (if ts = [] then public_hosts else ts)))"

definition mesh_observation :: "string \<Rightarrow> diagnostic_result \<Rightarrow> diagnostic_result" where
  "mesh_observation t r =
     r \<lparr> dr_module := ''mesh_ping'', dr_category := ''mesh'', dr_target := Some t,
         dr_metadata := dr_metadata r @ [(''mesh'', PBool True)] \<rparr>"

definition mesh_status :: "nat \<Rightarrow> nat \<Rightarrow> diagnostic_status \<times> severity \<times> string" where
  "mesh_status failed targets =
     (if failed = targets \<and> targets \<noteq> 0 then (FAILED, CRITICAL, ''All mesh targets unreachable'')
      else if 0 < failed then
        (DEGRADED, HIGH, str_of_nat failed @ ''/'' @ str_of_nat targets @ '' mesh targets failed'')
      else (HEALTHY, INFO, ''All '' @ str_of_nat targets @ '' mesh targets reachable''))"

definition mesh_summary :: "string list \<Rightarrow> nat \<Rightarrow> diagnostic_result" where
  "mesh_summary targets failed =
     (case mesh_status failed (length targets) of
        (status, sev, summary) \<Rightarrow>
          (new_result ''mesh_summary'' ''mesh'' status sev summary)
            \<lparr> dr_metrics := [(''target_count'', PInt (int (length targets))),
                 (''failed_count'', PInt (int failed)), (''targets'', PList (map PStr targets))],
               dr_evidence := [summary] \<rparr>)"

definition run_local_mesh ::
  "host_env \<Rightarrow> string list option \<Rightarrow> mesh_topology option \<Rightarrow> int \<Rightarrow> (host, diagnostic_result list) act" where
  "run_local_mesh env targets topology requested h =
     (case mesh_targets targets topology of
        Inl e \<Rightarrow> (Inl e, h)
      | Inr ts \<Rightarrow>
          (case for_each (\<lambda>t. ping_host env t requested) ts h of
             (rs, h') \<Rightarrow>
               (Inr (map2 mesh_observation ts rs @
                     [mesh_summary ts (length (filter (\<lambda>r. dr_status r = FAILED) rs))]), h')))"

section \<open>Reading a sample\<close>

definition sample_tail :: "char \<Rightarrow> bool" where
  "sample_tail c = (is_space c \<or> is_digit c \<or> c = CHR ''.'' \<or> lower_char c = CHR ''m'' \<or> lower_char c = CHR ''s'')"

lemma language_word_ci: "language (word_ci w) u \<Longrightarrow> map lower_char u = w"
  by (induction w arbitrary: u) (auto simp: word_ci.simps elim!: language_EpsE language_CatE language_CharsE)

lemma language_Many_Chars: "language r u \<Longrightarrow> r = Many (Chars P) \<Longrightarrow> \<forall>c \<in> set u. P c"
  by (induction rule: language.induct) (auto elim!: language_CharsE)

lemma language_some_digits: "language some_digits u \<Longrightarrow> \<forall>c \<in> set u. is_digit c"
  unfolding some_digits_def digit_def
  by (auto elim!: language_CatE language_CharsE dest!: language_Many_Chars)

lemma language_decimal: "language decimal u \<Longrightarrow> \<forall>c \<in> set u. is_digit c \<or> c = CHR ''.''"
  unfolding decimal_def sign_def
  by (auto elim!: language_CatE language_OptE language_CharsE dest!: language_some_digits)

definition marks :: "string list" where
  "marks = [''time'', ''zeit'', ''temps'', ''tempo'', ''='', ''<'']"

lemma language_mark: "language sample_mark k \<Longrightarrow> map lower_char k \<in> set marks"
  unfolding sample_mark_def marks_def
  by (auto elim!: language_AltE language_CharsE dest!: language_word_ci) (simp_all add: lower_char_def)

lemma language_sample:
  assumes "language sample_pattern w"
  obtains k x where "w = k @ x" "map lower_char k \<in> set marks" "x \<noteq> []" "\<forall>c \<in> set x. sample_tail c"
    "lower_char (last w) = CHR ''s''"
proof -
  from assms obtain k a b c d where w: "w = k @ a @ b @ c @ d" and k: "language sample_mark k"
    and parts: "language spaces a" "language decimal b" "language spaces c" "language (word_ci ''ms'') d"
    unfolding sample_pattern_def by (auto elim!: language_CatE language_GroupE)
  have d: "map lower_char d = ''ms''" using language_word_ci parts(4) .
  then obtain m s where ms: "d = [m, s]" "lower_char m = CHR ''m''" "lower_char s = CHR ''s''" by auto
  have sp: "\<forall>c \<in> set a. is_space c" "\<forall>x \<in> set c. is_space x"
    using parts language_Many_Chars unfolding spaces_def by blast+
  have "\<forall>x \<in> set (a @ b @ c @ d). sample_tail x"
    using sp language_decimal [OF parts(2)] ms by (auto simp: sample_tail_def)
  then show ?thesis using that [of k "a @ b @ c @ d"] w language_mark [OF k] ms by simp
qed

lemma mark_tail:
  "a @ b \<in> set marks \<Longrightarrow> a \<noteq> [] \<Longrightarrow> b \<noteq> [] \<Longrightarrow>
     hd b \<noteq> CHR ''='' \<and> hd b \<noteq> CHR ''<'' \<and> (hd b = CHR ''t'' \<longrightarrow> b = ''t'')"
  by (auto simp: marks_def append_eq_Cons_conv)

text \<open>No sample begins inside another one: the first character of a mark is found nowhere else in
  a sample.\<close>

lemma sample_overlap:
  assumes "language sample_pattern (p @ u)" "p \<noteq> []" "u \<noteq> []" "u @ t = s"
  shows "hd s \<noteq> CHR ''='' \<and> hd s \<noteq> CHR ''<'' \<and> \<not> starts_with ''time'' s"
proof -
  obtain k x where kx: "p @ u = k @ x" "map lower_char k \<in> set marks" "x \<noteq> []"
    "\<forall>c \<in> set x. sample_tail c" "lower_char (last (p @ u)) = CHR ''s''"
    using language_sample [OF assms(1)] by metis
  show ?thesis
  proof (cases "length k \<le> length p")
    case True
    then obtain q where "x = q @ u" using kx(1) by (auto simp: append_eq_append_conv2)
    then have "sample_tail (hd u)" using kx(4) assms(3) by (cases u) auto
    moreover have "hd s = hd u" using assms(3,4) by auto
    ultimately show ?thesis by (cases s) (auto simp: sample_tail_def starts_with_def is_space_def is_digit_def lower_char_def)
  next
    case False
    then obtain k' where k': "k = p @ k'" "k' \<noteq> []" "u = k' @ x"
      using kx(1) by (auto simp: append_eq_append_conv2)
    then obtain c where s: "s = c # tl k' @ x @ t" "c = hd k'" using assms(4) by (cases k') auto
    obtain c1 y where x: "x = c1 # y" using kx(3) by (cases x) auto
    have "c1 \<noteq> CHR ''i''" using kx(4) x by (auto simp: sample_tail_def is_space_def is_digit_def lower_char_def)
    moreover have "map lower_char p @ map lower_char k' \<in> set marks" using kx(2) k'(1) by simp
    note mark_tail [OF this]
    ultimately show ?thesis using assms(2) k'(2) s x
      by (cases k') (auto simp: starts_with_def lower_char_def)
  qed
qed

lemma first_word_ci: "map lower_char u = w \<Longrightarrow> first_match (word_ci w) (u @ t, g) = Some (t, g)"
proof (induction w arbitrary: u)
  case (Cons c w)
  then obtain c' u' where "u = c' # u'" "lower_char c' = c" "map lower_char u' = w" by auto
  with Cons.IH [of u'] show ?case
    by (auto simp: word_ci.simps first_Chars intro!: first_Cat)
qed (simp add: word_ci.simps first_Eps)

lemma first_Cat_None: "first_match a st = None \<Longrightarrow> first_match (Cat a b) st = None"
  by (auto simp: first_match_def split: list.splits)

lemma first_word_ci_None: "lower_char c' \<noteq> c \<Longrightarrow> first_match (word_ci (c # w)) (c' # t, g) = None"
  by (auto simp: word_ci.simps first_Chars intro!: first_Cat_None)

definition number_text :: "string \<Rightarrow> string \<Rightarrow> string" where
  "number_text ds fs = ds @ (if fs = [] then [] else CHR ''.'' # fs)"

definition number_ok :: "string \<Rightarrow> string \<Rightarrow> bool" where
  "number_ok ds fs = (ds \<noteq> [] \<and> (\<forall>c \<in> set ds. is_digit c) \<and> (\<forall>c \<in> set fs. is_digit c))"

lemma first_some_digits:
  assumes "w \<noteq> []" "\<forall>c \<in> set w. is_digit c" "stops is_digit t"
  shows "first_match some_digits (w @ t, g) = Some (t, g)"
proof -
  obtain c v where w: "w = c # v" using assms(1) by (cases w) auto
  have "first_match digit (w @ t, g) = Some (v @ t, g)" using assms(2) w by (simp add: digit_def first_Chars)
  moreover have "first_match (Many digit) (v @ t, g) = Some (t, g)"
    unfolding digit_def using assms w by (intro first_Many_Chars) auto
  ultimately show ?thesis unfolding some_digits_def by (rule first_Cat)
qed

lemma first_decimal:
  assumes "number_ok ds fs" "stops (\<lambda>c. is_digit c \<or> c = CHR ''.'') t"
  shows "first_match decimal (number_text ds fs @ t, g) = Some (t, g)"
proof -
  have t: "stops is_digit t" using assms(2) by (auto simp: stops_def)
  show ?thesis
  proof (cases "fs = []")
    case True
    have "first_match some_digits (ds @ t, g) = Some (t, g)"
      using assms(1) t by (intro first_some_digits) (auto simp: number_ok_def)
    moreover have "first_match (Cat (sign CHR ''.'') some_digits) (t, g) = None"
      using assms(2) by (intro first_Cat_None) (auto simp: sign_def first_Chars stops_def split: list.splits)
    ultimately show ?thesis unfolding decimal_def
      by (auto simp: number_text_def True intro!: first_Cat first_Opt_None)
  next
    case False
    have "first_match some_digits (ds @ CHR ''.'' # fs @ t, g) = Some (CHR ''.'' # fs @ t, g)"
      using assms(1) by (intro first_some_digits) (auto simp: number_ok_def stops_def is_digit_def)
    moreover have "first_match (Cat (sign CHR ''.'') some_digits) (CHR ''.'' # fs @ t, g) = Some (t, g)"
      using assms(1) t False
      by (intro first_Cat [where ?st1.0 = "(fs @ t, g)"] first_some_digits) (auto simp: sign_def first_Chars number_ok_def)
    ultimately show ?thesis unfolding decimal_def
      by (simp add: number_text_def False first_Cat first_Opt_Some)
  qed
qed

definition lead_ok :: "string \<Rightarrow> bool" where
  "lead_ok lead = (\<exists>mark sp. lead = mark @ sp \<and> mark \<in> {''time'', ''='', ''<''} \<and> (\<forall>c \<in> set sp. is_space c))"

lemma first_mark:
  "mark \<in> {''time'', ''='', ''<''} \<Longrightarrow> first_match sample_mark (mark @ t, g) = Some (t, g)"
  unfolding sample_mark_def
  using first_word_ci [of "''time''" "''time''" t g]
  by (auto simp: first_Alt1 first_Alt2 first_word_ci_None first_Chars lower_char_def)

lemma sample_matched:
  assumes "lead_ok lead" "number_ok ds fs" "\<forall>c \<in> set sp. is_space c"
  shows "re_match sample_pattern (lead @ number_text ds fs @ sp @ ''ms'' @ post) =
    Some (post, [(1, number_text ds fs)])"
proof -
  obtain mark sp0 where lead: "lead = mark @ sp0" "mark \<in> {''time'', ''='', ''<''}" "\<forall>c \<in> set sp0. is_space c"
    using assms(1) by (auto simp: lead_ok_def)
  let ?n = "number_text ds fs"
  have d: "\<exists>c w. ?n = c # w \<and> is_digit c" using assms(2) by (cases ds) (auto simp: number_text_def number_ok_def)
  have stop: "stops is_space (?n @ sp @ ''ms'' @ post)"
    using d is_digit_not_space by (auto simp: stops_def)
  have "stops (\<lambda>c. is_digit c \<or> c = CHR ''.'') (sp @ ''ms'' @ post)"
    using assms(3) by (cases sp) (auto simp: stops_def is_digit_def is_space_def Let_def)
  then have "first_match (Group 1 decimal) (?n @ sp @ ''ms'' @ post, []) = Some (sp @ ''ms'' @ post, [(1, ?n)])"
    using assms(2) by (intro first_Group first_decimal)
  moreover have "first_match spaces (sp @ ''ms'' @ post, [(1, ?n)]) = Some (''ms'' @ post, [(1, ?n)])"
    unfolding spaces_def using assms(3) by (intro first_Many_Chars) (auto simp: stops_def is_space_def)
  moreover have "first_match (word_ci ''ms'') (''ms'' @ post, [(1, ?n)]) = Some (post, [(1, ?n)])"
    by (rule first_word_ci) (simp add: lower_char_def)
  moreover have "first_match spaces (sp0 @ ?n @ sp @ ''ms'' @ post, []) = Some (?n @ sp @ ''ms'' @ post, [])"
    unfolding spaces_def using lead(3) stop by (intro first_Many_Chars) auto
  moreover have "first_match sample_mark (mark @ sp0 @ ?n @ sp @ ''ms'' @ post, []) =
      Some (sp0 @ ?n @ sp @ ''ms'' @ post, [])" using lead(2) by (rule first_mark)
  ultimately show ?thesis
    unfolding re_match_def sample_pattern_def lead(1) by (simp add: first_Cat)
qed

lemma parse_samples_hit:
  assumes "lead_ok lead" "number_ok ds fs" "\<forall>c \<in> set sp. is_space c"
  shows "decimal_value (number_text ds fs) \<in>
    set (parse_samples (pre @ lead @ number_text ds fs @ sp @ ''ms'' @ post))"
proof -
  let ?s = "lead @ number_text ds fs @ sp @ ''ms'' @ post"
  have "hd ?s = CHR ''='' \<or> hd ?s = CHR ''<'' \<or> starts_with ''time'' ?s"
    using assms(1) by (auto simp: lead_ok_def starts_with_def)
  then have "number_text ds fs \<in> set (findall sample_pattern (pre @ ?s))"
    using sample_matched [OF assms, of post]
    by (intro findall_hit [where m = "(post, [(1, number_text ds fs)])"])
      (auto simp: group_def dest: sample_overlap)
  then show ?thesis by (simp add: parse_samples_def)
qed

section \<open>Properties\<close>

lemma summary_max:
  assumes "x \<in> set xs"
  shows "py_round x 2 \<le> ls_max (summarize_latencies f xs)"
proof -
  have "xs \<noteq> []" "x \<le> Max (set xs)" using assms by auto
  then show ?thesis by (simp add: summarize_latencies_def py_round_mono)
qed

text \<open>C30: Every number that stands between one of the marks \<open>time\<close>, \<open>=\<close>,
  \<open><\<close> and the unit \<open>ms\<close> anywhere in the output of ping is a latency sample, whatever
  surrounds it, and the maximum is at least that number, unless the loss is total. The elapsed time in
  the summary line of Linux (\<open>time 2003ms\<close>) is such a number: three replies of 20 ms are then
  reported as a degraded path.\<close>

theorem every_time_is_a_sample:
  assumes "lead_ok lead" "number_ok ds fs" "\<forall>c \<in> set sp. is_space c"
    and "out = pre @ lead @ number_text ds fs @ sp @ ''ms'' @ post" "parse_loss out \<noteq> Some 100"
  shows "decimal_value (number_text ds fs) \<in> set (snd (parse_ping_output out n)) \<and>
    py_round (decimal_value (number_text ds fs)) 2 \<le> pd_max_ms (ping_data_of env host n out)"
proof -
  have "decimal_value (number_text ds fs) \<in> set (snd (parse_ping_output out n))"
    using parse_samples_hit [OF assms(1-3), of pre post] assms(4,5)
    by (auto simp: parse_ping_output_def Let_def)
  then show ?thesis using summary_max by (auto simp: ping_data_of_def Let_def case_prod_beta)
qed

definition linux_reply :: "string \<Rightarrow> string" where
  "linux_reply seq = ''64 bytes from 10.0.0.1: icmp_seq='' @ seq @ '' ttl=64 time=20.0 ms'' @ [CHR 0x0A]"

definition linux_output :: string where
  "linux_output = concat (map linux_reply [''1'', ''2'', ''3'']) @
     ''3 packets transmitted, 3 received, 0% packet loss, time 2003ms'' @ [CHR 0x0A] @
     ''rtt min/avg/max/mdev = 20.0/20.0/20.0/0.0 ms''"

definition sample_host_env :: "(nat \<Rightarrow> run_outcome) \<Rightarrow> host_env" where
  "sample_host_env outcome =
     \<lparr> he_system = ''linux'', he_clock = (\<lambda>n. of_nat n), he_run = (\<lambda>n _ _. outcome n),
       he_download = (\<lambda>_ _ _. Transfer_Failed ''offline''),
       he_connect = (\<lambda>_ _ _ _. Connect_Failed ''timed out''),
       he_resolve = (\<lambda>_ _. Resolve_Failed ''unknown name''), he_tcp = (\<lambda>_ _ _ _. Tcp_Code 111 0),
       he_udp = (\<lambda>_ _ _ _ _. Udp_Timeout), he_read_file = (\<lambda>_ _. File_Missing),
       he_if_addrs = (\<lambda>_. []), he_if_stats = (\<lambda>_. []),
       he_net_io = (\<lambda>_. io_counters.make 0 0 0 0 0 0 0 0), he_nic_io = (\<lambda>_. []), he_cpu = (\<lambda>_. 0),
       he_memory = (\<lambda>_. memory_stats.make 0 0), he_sqrt = (\<lambda>x. x), he_repr = (\<lambda>_. ''0.0''),
       he_sha256 = (\<lambda>s. s), he_float_text = (\<lambda>_. Inl ValueError) \<rparr>"

definition fresh_host :: host where
  "fresh_host = \<lparr> ho_clock = 0, ho_calls = 0, ho_ping_cache = [], ho_history = [] \<rparr>"

lemma linux_loss: "parse_loss linux_output = Some 0"
  by code_simp

lemma linux_samples: "parse_samples linux_output = [20, 20, 20, 2003]"
  by code_simp

lemma linux_parsed: "parse_ping_output linux_output 3 = (Some 0, [20, 20, 20, 2003])"
  by (simp add: parse_ping_output_def linux_loss linux_samples)

lemma linux_summary:
  "summarize_latencies (\<lambda>x. x) [20, 20, 20, 2003] =
     \<lparr> ls_min = 20, ls_avg = 2063 / 4, ls_max = 2003, ls_jitter = 661, ls_std_dev = 73730419 / 100,
       ls_samples = 4 \<rparr>"
  by code_simp

lemma every_time_is_a_sample_witness:
  "2003 \<in> set (snd (parse_ping_output linux_output 3)) \<and>
   (let r = fst (measure_latency (sample_host_env (\<lambda>_. Completed 0 linux_output [])) ''10.0.0.1'' 3 fresh_host)
    in dr_status r = DEGRADED \<and> dr_severity r = MEDIUM)"
proof -
  obtain pre where "linux_output = pre @ ''time '' @ number_text ''2003'' [] @ [] @ ''ms'' @
      [CHR 0x0A] @ ''rtt min/avg/max/mdev = 20.0/20.0/20.0/0.0 ms''"
    by (simp add: linux_output_def number_text_def)
  moreover have "lead_ok ''time ''" unfolding lead_ok_def
    by (intro exI [of _ "''time''"] exI [of _ "'' ''"]) (simp add: is_space_def)
  moreover have "decimal_value (number_text ''2003'' []) = 2003" by code_simp
  ultimately have "2003 \<in> set (snd (parse_ping_output linux_output 3))"
    using every_time_is_a_sample [of "''time ''" "''2003''" "[]" "[]" linux_output pre _ 3] linux_loss
    by (simp add: number_ok_def is_digit_def)
  moreover have "fst (run_ping (sample_host_env (\<lambda>_. Completed 0 linux_output [])) ''10.0.0.1'' 3 True fresh_host) =
      ping_data_of (sample_host_env (\<lambda>_. Completed 0 linux_output [])) ''10.0.0.1'' 3 linux_output"
    by (simp add: run_ping_def read_clock_def cached_ping_def fresh_ping_def run_command_def ask_def
      sample_host_env_def fresh_host_def Let_def)
  ultimately show ?thesis
    by (simp add: measure_latency_def case_prod_beta latency_result_def Let_def error_of_def new_result_def
      ping_data_of_def linux_parsed classify_latency_def sample_host_env_def linux_summary)
qed

text \<open>C31: Loss and latency of a host that are asked for within the life of a cache entry come from one
  run of ping: a completed run is stored, the second probe reads the same data, and the system is
  asked once. A run that failed is not stored.\<close>

theorem loss_and_latency_share_a_run:
  assumes "he_run env (ho_calls h) (ping_command (he_system env) host n) (of_int n * 3 + 5) = Completed rc out err"
    and "cached_ping host n (he_clock env (ho_clock h)) h = None"
    and "he_clock env (ho_clock h + 1) - he_clock env (ho_clock h) < CACHE_TTL"
    and "ping_host env host n h = (loss, h1)" "measure_latency env host n h1 = (latency, h2)"
  shows "loss = packet_loss_result env host n (ping_data_of env host n (out @ err)) \<and>
    latency = latency_result host (ping_data_of env host n (out @ err)) \<and> ho_calls h2 = ho_calls h + 1"
proof -
  let ?d = "ping_data_of env host n (out @ err)"
  have "ping_host env host n h = (packet_loss_result env host n ?d,
      h \<lparr> ho_clock := ho_clock h + 1, ho_calls := ho_calls h + 1,
          ho_ping_cache := AList.update (host, n) (he_clock env (ho_clock h), ?d) (ho_ping_cache h) \<rparr>)"
    using assms(1,2) by (simp add: ping_host_def run_ping_def read_clock_def cached_ping_def fresh_ping_def
      run_command_def ask_def Let_def split: option.splits)
  with assms(4) have loss: "loss = packet_loss_result env host n ?d"
    and h1: "h1 = h \<lparr> ho_clock := ho_clock h + 1, ho_calls := ho_calls h + 1,
          ho_ping_cache := AList.update (host, n) (he_clock env (ho_clock h), ?d) (ho_ping_cache h) \<rparr>"
    by simp_all
  have "measure_latency env host n h1 = (latency_result host ?d, h1 \<lparr> ho_clock := ho_clock h + 2 \<rparr>)"
    using assms(3) by (simp add: h1 measure_latency_def run_ping_def read_clock_def cached_ping_def update_conv')
  with assms(5) have "latency = latency_result host ?d" "h2 = h1 \<lparr> ho_clock := ho_clock h + 2 \<rparr>"
    by simp_all
  then show ?thesis using loss by (simp add: h1)
qed

lemma loss_and_latency_share_a_run_witness:
  "\<exists>loss h1 latency h2. ping_host (sample_host_env (\<lambda>_. Completed 0 linux_output [])) ''10.0.0.1'' 3 fresh_host = (loss, h1) \<and>
     measure_latency (sample_host_env (\<lambda>_. Completed 0 linux_output [])) ''10.0.0.1'' 3 h1 = (latency, h2) \<and>
     ho_calls h2 = 1"
proof -
  obtain loss h1 where 1: "ping_host (sample_host_env (\<lambda>_. Completed 0 linux_output [])) ''10.0.0.1'' 3 fresh_host = (loss, h1)"
    by fastforce
  obtain latency h2 where 2: "measure_latency (sample_host_env (\<lambda>_. Completed 0 linux_output [])) ''10.0.0.1'' 3 h1 = (latency, h2)"
    by fastforce
  have "ho_calls h2 = ho_calls fresh_host + 1"
    using loss_and_latency_share_a_run [OF _ _ _ 1 2, of 0 linux_output "[]"]
    by (simp add: sample_host_env_def fresh_host_def cached_ping_def CACHE_TTL_def)
  then show ?thesis using 1 2 by (auto simp: fresh_host_def)
qed

lemma set_unique [simp]: "set (unique xs) = set xs"
  by (induction xs) auto

lemma unique_Nil [simp]: "unique xs = [] \<longleftrightarrow> xs = []"
  by (cases xs) auto

lemma distinct_unique: "distinct (unique xs)"
  by (induction xs) auto

lemma status_map2_mesh:
  "length ts = length rs \<Longrightarrow> map dr_status (map2 mesh_observation ts rs) = map dr_status rs"
  by (induction ts rs rule: list_induct2) (auto simp: mesh_observation_def)

lemma length_filter_map: "length (filter (\<lambda>r. f r = x) rs) = length (filter (\<lambda>y. y = x) (map f rs))"
  by (simp add: filter_map comp_def)

lemma mesh_targets_ok: "mesh_targets targets topology = Inr ts \<Longrightarrow> ts \<noteq> [] \<and> distinct ts"
  by (auto simp: mesh_targets_def bindR_eq_Inr distinct_unique public_hosts_def split: option.splits if_splits)

text \<open>The summary of a mesh: its metrics count the targets and the failed probes, it is FAILED when
  every probe failed and HEALTHY when none did. A ping that could not be run is UNKNOWN and counts as
  reachable.\<close>

lemma mesh_results:
  assumes "run_local_mesh env targets topology n h = (Inr rs, h')"
  shows "\<exists>ts probes. mesh_targets targets topology = Inr ts \<and> length probes = length ts \<and>
    (\<forall>r \<in> set probes. dr_module r = ''mesh_ping'') \<and>
    rs = probes @ [mesh_summary ts (count_status FAILED probes)]"
proof -
  obtain ts where ts: "mesh_targets targets topology = Inr ts"
    using assms by (auto simp: run_local_mesh_def split: sum.splits)
  obtain ps h2 where ps: "for_each (\<lambda>t. ping_host env t n) ts h = (ps, h2)" by fastforce
  have len: "length ts = length ps" using length_for_each [of "\<lambda>t. ping_host env t n" ts h] ps by simp
  let ?probes = "map2 mesh_observation ts ps"
  have "count_status FAILED ?probes = length (filter (\<lambda>r. dr_status r = FAILED) ps)"
    using status_map2_mesh [OF len] by (simp add: count_status_def length_filter_map [where f = dr_status])
  then have "rs = ?probes @ [mesh_summary ts (count_status FAILED ?probes)]"
    using assms ts ps by (simp add: run_local_mesh_def)
  moreover have "\<forall>r \<in> set ?probes. dr_module r = ''mesh_ping''" by (auto simp: mesh_observation_def)
  moreover have "length ?probes = length ts" using len by simp
  ultimately show ?thesis using ts by blast
qed

lemma classify_loss_metric:
  "0 \<le> loss \<Longrightarrow> classify_loss_severity loss =
     (case classify_loss loss of (HEALTHY, _) \<Rightarrow> ''healthy'' | (_, LOW) \<Rightarrow> ''low'' | (_, MEDIUM) \<Rightarrow> ''medium'' | _ \<Rightarrow> ''high'')"
  by (auto simp: classify_loss_def classify_loss_severity_def)

end
