(* ===== verification/Host_Probes.thy ===== *)
theory Host_Probes
  imports Ping
begin

text \<open>
  Model of the probes of \<open>diagnostics/host\<close>: the routing table (\<open>routing.py\<close>), the
  default gateway (\<open>gateway.py\<close>), TCP connectivity (\<open>connectivity.py\<close>), name
  resolution (\<open>dns.py\<close>) and TCP and UDP ports (\<open>tcp_udp.py\<close>). A probe is an action
  on the host: it returns a result or raises what its handlers do not catch.
\<close>

section \<open>The routing table\<close>

text \<open>The gateway, the interface and the number of routes found so far.\<close>

type_synonym route_info = "string option \<times> string option \<times> nat"

definition opt_str :: "string option \<Rightarrow> pyval" where
  "opt_str s = (case s of None \<Rightarrow> PNone | Some t \<Rightarrow> PStr t)"

text \<open>The element after the first \<open>w\<close>, when there is one: \<open>parts[parts.index(w) + 1]\<close>.\<close>

fun word_after :: "string \<Rightarrow> string list \<Rightarrow> string option" where
  "word_after w [] = None"
| "word_after w (x # xs) =
     (if x = w then (case xs of [] \<Rightarrow> None | y # _ \<Rightarrow> Some y) else word_after w xs)"

definition replace_some :: "'a option \<Rightarrow> 'a option \<Rightarrow> 'a option" where
  "replace_some new old = (case new of None \<Rightarrow> old | Some x \<Rightarrow> Some x)"

definition linux_route :: "route_info \<Rightarrow> string \<Rightarrow> route_info" where
  "linux_route info line =
     (case (info, py_split (py_strip line)) of
        (_, []) \<Rightarrow> info
      | ((gw, iface, routes), p # ps) \<Rightarrow>
          if p = ''default'' then
            (replace_some (word_after ''via'' (p # ps)) gw, replace_some (word_after ''dev'' (p # ps)) iface, routes + 1)
          else (gw, iface, routes + 1))"

definition windows_route :: "bool \<times> route_info \<Rightarrow> string \<Rightarrow> bool \<times> route_info" where
  "windows_route state line =
     (case state of (active, gw, iface, routes) \<Rightarrow>
       (let line_str = py_strip line; parts = py_split line_str in
        if contains ''Active Routes:'' line_str then (True, gw, iface, routes)
        else if \<not> active then state
        else if starts_with ''='' line_str \<or> contains ''Persistent Routes:'' line_str \<or>
                contains ''IPv6 Route Table'' line_str then (False, gw, iface, routes)
        else if 5 \<le> length parts \<and> parts ! 0 \<noteq> ''Network'' then
          (if parts ! 0 = ''0.0.0.0'' \<and> parts ! 1 = ''0.0.0.0'' \<and> gw = None
           then (active, Some (parts ! 2), Some (parts ! 3), routes + 1)
           else (active, gw, iface, routes + 1))
        else state))"

fun darwin_routes :: "bool \<Rightarrow> route_info \<Rightarrow> string list \<Rightarrow> route_info" where
  "darwin_routes in_ipv4 info [] = info"
| "darwin_routes in_ipv4 (gw, iface, routes) (line # lines) =
     (let line_str = py_strip line; parts = py_split line_str in
      if contains ''Internet:'' line_str then darwin_routes True (gw, iface, routes) lines
      else if in_ipv4 \<and> contains ''Internet6:'' line_str then (gw, iface, routes)
      else if in_ipv4 \<and> 3 \<le> length parts \<and> \<not> starts_with ''Destination'' (parts ! 0) then
        (if parts ! 0 = ''default''
         then darwin_routes in_ipv4 (Some (parts ! 1), Some (last parts), routes + 1) lines
         else darwin_routes in_ipv4 (gw, iface, routes + 1) lines)
      else darwin_routes in_ipv4 (gw, iface, routes) lines)"

definition parse_routing_table :: "string \<Rightarrow> string \<Rightarrow> route_info" where
  "parse_routing_table system output =
     (let lines = splitlines output in
      if system = ''windows'' then snd (foldl windows_route (False, None, None, 0) lines)
      else if system = ''linux'' then foldl linux_route (None, None, 0) lines
      else if system = ''darwin'' then darwin_routes False (None, None, 0) lines
      else (None, None, 0))"

definition route_command :: "string \<Rightarrow> string list option" where
  "route_command system =
     (if system = ''windows'' then Some [''route'', ''print'']
      else if system = ''linux'' then Some [''ip'', ''route'']
      else if system = ''darwin'' then Some [''netstat'', ''-rn'']
      else None)"

definition or_none_text :: "string option \<Rightarrow> string" where
  "or_none_text s = (case s of None \<Rightarrow> ''None'' | Some t \<Rightarrow> if t = [] then ''None'' else t)"

definition routing_result :: "string \<Rightarrow> string \<Rightarrow> diagnostic_result" where
  "routing_result system output =
     (case parse_routing_table system output of
        (gw, iface, routes) \<Rightarrow>
          (new_result ''routing'' ''host'' (if some_text gw then HEALTHY else FAILED)
             (if some_text gw then INFO else HIGH)
             (if some_text gw then ''Default gateway '' @ or_none_text gw @ '' operational ('' @ str_of_nat routes @ '' active routes)''
              else ''No default gateway found in routing table''))
            \<lparr> dr_target := gw,
               dr_metrics := [(''os'', PStr system), (''route_count'', PInt (int routes)),
                 (''default_gateway'', opt_str gw), (''default_interface'', opt_str iface)],
               dr_evidence := [''Default gateway: '' @ or_none_text gw, ''Default interface: '' @ or_none_text iface,
                 ''Active routes counted: '' @ str_of_nat routes],
               dr_metadata := raw_output output \<rparr>)"

definition routing_failure :: "string \<Rightarrow> string \<Rightarrow> diagnostic_result" where
  "routing_failure summary detail =
     (new_result ''routing'' ''host'' FAILED HIGH summary) \<lparr> dr_errors := [detail] \<rparr>"

definition inspect_routing_table :: "host_env \<Rightarrow> (host, diagnostic_result) act" where
  "inspect_routing_table env h =
     (case route_command (he_system env) of
        None \<Rightarrow>
          (Inr ((new_result ''routing'' ''host'' UNKNOWN MEDIUM ''Unsupported operating system'')
             \<lparr> dr_errors := [''Unsupported OS: '' @ he_system env] \<rparr>), h)
      | Some command \<Rightarrow>
          (case run_command env command 5 h of
             (Completed rc out err, h') \<Rightarrow>
               (Inr (if rc \<noteq> 0 then routing_failure ''Failed to read routing table'' (py_strip err)
                     else routing_result (he_system env) (py_strip out)), h')
           | (Run_Failed exc, h') \<Rightarrow> (Inr (routing_failure ''Unable to inspect routing table'' exc), h')
           | (Run_Raised e _, h') \<Rightarrow> (Inl e, h')))"

section \<open>The gateway\<close>

definition usable_gateway :: "string option \<Rightarrow> bool" where
  "usable_gateway gw = (case gw of None \<Rightarrow> False | Some g \<Rightarrow> g \<notin> {[], ''None'', ''0.0.0.0''})"

definition no_gateway_result :: diagnostic_result where
  "no_gateway_result =
     (new_result ''gateway'' ''host'' FAILED CRITICAL ''No default gateway configured to probe'')
       \<lparr> dr_evidence := [''Routing table has no usable default gateway''] \<rparr>"

definition classify_gateway :: "host_env \<Rightarrow> string \<Rightarrow> rat \<Rightarrow> rat \<Rightarrow> diagnostic_status \<times> severity \<times> string" where
  "classify_gateway env gw loss avg_ms =
     (if 99 \<le> loss then
        (FAILED, CRITICAL, ''Default gateway '' @ gw @ '' is unreachable ('' @ he_repr env loss @ ''% loss)'')
      else if 0 < loss then
        (DEGRADED, HIGH, ''Default gateway '' @ gw @ '' is partially reachable ('' @ he_repr env loss @ ''% loss)'')
      else
        (HEALTHY, INFO, ''Default gateway '' @ gw @ '' is reachable (RTT '' @ fmt_fixed 1 avg_ms @ '' ms)''))"

definition gateway_result :: "host_env \<Rightarrow> string \<Rightarrow> int \<Rightarrow> ping_data \<Rightarrow> diagnostic_result" where
  "gateway_result env gw requested data =
     (if error_of data \<noteq> [] then
        (new_result ''gateway'' ''host'' UNKNOWN MEDIUM (''Unable to probe gateway '' @ gw))
          \<lparr> dr_target := Some gw, dr_errors := [error_of data] \<rparr>
      else
        (case pd_packet_loss_percent data of
           None \<Rightarrow>
             (new_result ''gateway'' ''host'' UNKNOWN MEDIUM (''Could not determine reachability of gateway '' @ gw))
               \<lparr> dr_target := Some gw, dr_metadata := raw_output (pd_raw_output data) \<rparr>
         | Some loss \<Rightarrow>
             (case classify_gateway env gw loss (pd_avg_ms data) of
                (status, sev, summary) \<Rightarrow>
                  (new_result ''gateway'' ''host'' status sev summary)
                    \<lparr> dr_target := Some gw,
                       dr_metrics := [(''packet_loss_percent'', PFloat loss), (''avg_ms'', PFloat (pd_avg_ms data)),
                         (''min_ms'', PFloat (pd_min_ms data)), (''max_ms'', PFloat (pd_max_ms data)),
                         (''jitter_ms'', PFloat (pd_jitter_ms data)), (''packets_sent'', PInt requested)],
                       dr_evidence := [''ICMP probe to gateway '' @ gw @ '': '' @ he_repr env loss @
                         ''% loss, avg RTT '' @ fmt_fixed 1 (pd_avg_ms data) @ '' ms''],
                       dr_metadata := raw_output (pd_raw_output data) \<rparr>)))"

definition routed_gateway :: "diagnostic_result \<Rightarrow> string option" where
  "routed_gateway routing =
     (case get_val (dr_metrics routing) ''default_gateway'' of PStr s \<Rightarrow> Some s | _ \<Rightarrow> None)"

definition probe_gateway :: "host_env \<Rightarrow> string option \<Rightarrow> int \<Rightarrow> host \<Rightarrow> diagnostic_result \<times> host" where
  "probe_gateway env gw requested h =
     (if \<not> usable_gateway gw then (no_gateway_result, h)
      else (case run_ping env (or_none_text gw) requested False h of
              (data, h') \<Rightarrow> (gateway_result env (or_none_text gw) requested data, h')))"

definition check_gateway_reachability ::
  "host_env \<Rightarrow> string option \<Rightarrow> int \<Rightarrow> (host, diagnostic_result) act" where
  "check_gateway_reachability env gw requested =
     bindA (case gw of Some g \<Rightarrow> returnA (Some g)
            | None \<Rightarrow> bindA (inspect_routing_table env) (\<lambda>routing. returnA (routed_gateway routing))) (\<lambda>found.
     totalA (probe_gateway env found requested))"

section \<open>Connectivity\<close>

definition connectivity_result :: "string \<Rightarrow> int \<Rightarrow> connect_outcome \<Rightarrow> diagnostic_result result" where
  "connectivity_result host port outcome =
     (let endpoint = host @ '':'' @ str_of_int port in
      case outcome of
        Connected elapsed \<Rightarrow>
          Inr ((new_result ''connectivity'' ''host'' HEALTHY INFO (endpoint @ '' is reachable''))
            \<lparr> dr_target := Some host,
               dr_metrics := [(''port'', PInt port), (''latency_ms'', PFloat (py_round (elapsed * 1000) 2))],
               dr_evidence := [''TCP connection to port '' @ str_of_int port @ '' succeeded''] \<rparr>)
      | Connect_Failed exc \<Rightarrow>
          Inr ((new_result ''connectivity'' ''host'' FAILED HIGH (endpoint @ '' is unreachable''))
            \<lparr> dr_target := Some host, dr_metrics := [(''port'', PInt port)],
               dr_evidence := [''TCP connection attempt failed''], dr_errors := [exc] \<rparr>)
      | Connect_Raised e \<Rightarrow> Inl e)"

definition check_host :: "host_env \<Rightarrow> string \<Rightarrow> int \<Rightarrow> rat \<Rightarrow> (host, diagnostic_result) act" where
  "check_host env host port timeout h =
     (case ask (\<lambda>n. he_connect env n host port timeout) h of
        (outcome, h') \<Rightarrow> (connectivity_result host port outcome, h'))"

definition run_connectivity_checks :: "host_env \<Rightarrow> string list option \<Rightarrow> (host, diagnostic_result list) act" where
  "run_connectivity_checks env hosts =
     mapA (\<lambda>host. check_host env host 443 3)
       (if or_empty hosts = [] then [''1.1.1.1'', ''8.8.8.8'', ''google.com''] else or_empty hosts)"

section \<open>Name resolution\<close>

definition add_server :: "string list \<Rightarrow> string \<Rightarrow> string list" where
  "add_server servers s = (if s \<in> set servers then servers else servers @ [s])"

text \<open>\<open>\b(?:\d{1,3}\.){3}\d{1,3}\b\<close>: the search goes on from the rest of the line with the
  character read last.\<close>

definition octet :: regex where
  "octet = Cat digit (Opt (Cat digit (Opt digit)))"

definition address_pattern :: regex where
  "address_pattern = Group 1 (Cat octet (Cat (sign CHR ''.'') (Cat octet (Cat (sign CHR ''.'')
     (Cat octet (Cat (sign CHR ''.'') (Cat octet word_end)))))))"

fun find_addresses_upto :: "nat \<Rightarrow> char option \<Rightarrow> string \<Rightarrow> string list" where
  "find_addresses_upto 0 prev s = []"
| "find_addresses_upto (Suc n) prev [] = []"
| "find_addresses_upto (Suc n) prev (c # s) =
     (case if (case prev of None \<Rightarrow> True | Some p \<Rightarrow> \<not> is_word p) then re_match address_pattern (c # s) else None of
        Some m \<Rightarrow> group 1 m # find_addresses_upto n (Some (last (group 1 m))) (fst m)
      | None \<Rightarrow> find_addresses_upto n (Some c) s)"

definition find_addresses :: "string \<Rightarrow> string list" where
  "find_addresses line = find_addresses_upto (length line) None line"

definition netsh_line :: "string list \<Rightarrow> string \<Rightarrow> string list" where
  "netsh_line servers line =
     (if contains ''DNS servers'' line \<or> contains ''Statically Configured'' line \<or> starts_with '' '' line
      then foldl (\<lambda>acc ip. if starts_with ''127.'' ip \<or> starts_with ''169.254.'' ip then acc else add_server acc ip)
             servers (find_addresses line)
      else servers)"

definition nameserver_pattern :: regex where
  "nameserver_pattern = Cat (word_exact ''nameserver['') (Cat some_digits (Cat (sign CHR '']'')
     (Cat spaces (Cat (sign CHR '':'') (Cat spaces (Group 1 (Cat (Chars (\<lambda>c. \<not> is_space c)) (Many (Chars (\<lambda>c. \<not> is_space c))))))))))"

definition resolv_line :: "string list \<Rightarrow> string \<Rightarrow> string list" where
  "resolv_line servers line =
     (let stripped = py_strip line; parts = py_split stripped in
      if starts_with ''nameserver'' stripped \<and> 2 \<le> length parts then add_server servers (parts ! 1) else servers)"

text \<open>The output of a command that ended with status 0; every exception is swallowed.\<close>

definition output_of :: "host_env \<Rightarrow> string list \<Rightarrow> host \<Rightarrow> string option \<times> host" where
  "output_of env command h =
     (case run_command env command 3 h of
        (Completed rc out err, h') \<Rightarrow> (if rc = 0 then Some out else None, h')
      | (_, h') \<Rightarrow> (None, h'))"

definition netsh_command :: "string list" where
  "netsh_command = [''netsh'', ''interface'', ''ip'', ''show'', ''dnsservers'']"

definition powershell_command :: "string list" where
  "powershell_command = [''powershell'', ''-NoProfile'', ''-Command'',
     ''(Get-DnsClientServerAddress -AddressFamily IPv4).ServerAddresses'']"

definition servers_of :: "(string \<Rightarrow> string list) \<Rightarrow> string option \<Rightarrow> string list" where
  "servers_of f out = (case out of None \<Rightarrow> [] | Some s \<Rightarrow> f s)"

definition windows_servers :: "host_env \<Rightarrow> host \<Rightarrow> string list \<times> host" where
  "windows_servers env h =
     (case output_of env netsh_command h of
        (out, h1) \<Rightarrow>
          (let servers = servers_of (\<lambda>s. foldl netsh_line [] (splitlines s)) out in
           if servers \<noteq> [] then (servers, h1)
           else (case output_of env powershell_command h1 of
                   (out2, h2) \<Rightarrow> (servers_of (\<lambda>s. foldl add_server [] (py_split s)) out2, h2))))"

definition system_servers :: "host_env \<Rightarrow> host \<Rightarrow> string list \<times> host" where
  "system_servers env h =
     (if he_system env = ''windows'' then windows_servers env h
      else if he_system env = ''darwin'' then
        (case output_of env [''scutil'', ''--dns''] h of
           (out, h1) \<Rightarrow> (servers_of (\<lambda>s. foldl add_server [] (findall nameserver_pattern s)) out, h1))
      else ([], h))"

definition resolv_conf_servers :: "file_outcome \<Rightarrow> string list result" where
  "resolv_conf_servers outcome =
     (case outcome of
        File_Text text \<Rightarrow> Inr (foldl resolv_line [] (split_on CHR 0x0A text))
      | File_Missing \<Rightarrow> Inr []
      | File_Raised e \<Rightarrow> Inl e)"

definition get_dns_servers :: "host_env \<Rightarrow> (host, string list) act" where
  "get_dns_servers env =
     bindA (totalA (system_servers env)) (\<lambda>servers.
       if servers \<noteq> [] then returnA servers
       else bindA (askA (\<lambda>n. he_read_file env n ''/etc/resolv.conf'')) (\<lambda>outcome.
         liftA (resolv_conf_servers outcome)))"

text \<open>\<open>sorted(set(xs))\<close>.\<close>

definition sorted_addresses :: "string list \<Rightarrow> string list" where
  "sorted_addresses xs = sort (remdups xs)"

definition dns_result :: "string \<Rightarrow> resolve_outcome \<Rightarrow> diagnostic_result result" where
  "dns_result hostname outcome =
     (case outcome of
        Resolved addresses elapsed \<Rightarrow>
          (let ips = sorted_addresses addresses in
           Inr ((new_result ''dns'' ''host'' HEALTHY INFO (''DNS resolution succeeded for '' @ hostname))
             \<lparr> dr_target := Some hostname,
                dr_metrics := [(''resolution_time_ms'', PFloat (py_round (elapsed * 1000) 2)),
                  (''address_count'', PInt (int (length ips))), (''addresses'', PList (map PStr ips))],
                dr_evidence := [''Resolved '' @ hostname @ '' successfully''] \<rparr>))
      | Resolve_Failed exc \<Rightarrow>
          Inr ((new_result ''dns'' ''host'' FAILED HIGH (''DNS resolution failed for '' @ hostname))
            \<lparr> dr_target := Some hostname, dr_errors := [exc] \<rparr>)
      | Resolve_Raised e \<Rightarrow> Inl e)"

definition resolve_hostname :: "host_env \<Rightarrow> string \<Rightarrow> (host, diagnostic_result) act" where
  "resolve_hostname env hostname h =
     (case ask (\<lambda>n. he_resolve env n hostname) h of (outcome, h') \<Rightarrow> (dns_result hostname outcome, h'))"

definition with_servers :: "string list \<Rightarrow> diagnostic_result \<Rightarrow> diagnostic_result" where
  "with_servers servers r =
     r \<lparr> dr_metrics := AList.update ''dns_servers'' (PList (map PStr servers)) (dr_metrics r) \<rparr>"

definition servers_evidence :: "string list \<Rightarrow> diagnostic_result \<Rightarrow> diagnostic_result" where
  "servers_evidence servers r =
     (if servers = [] then r
      else r \<lparr> dr_evidence := dr_evidence r @ [''Configured DNS servers: '' @ join '', '' servers] \<rparr>)"

definition run_dns_diagnostics :: "host_env \<Rightarrow> string \<Rightarrow> (host, diagnostic_result) act" where
  "run_dns_diagnostics env hostname =
     bindA (resolve_hostname env hostname) (\<lambda>r.
     bindA (get_dns_servers env) (\<lambda>servers. returnA (servers_evidence servers (with_servers servers r))))"

section \<open>TCP and UDP ports\<close>

definition endpoint :: "string \<Rightarrow> int \<Rightarrow> string" where
  "endpoint host port = host @ '':'' @ str_of_int port"

definition tcp_failed :: "string \<Rightarrow> int \<Rightarrow> string \<Rightarrow> diagnostic_result" where
  "tcp_failed host port exc =
     (new_result ''tcp'' ''host'' FAILED MEDIUM (''TCP test failed for port '' @ str_of_int port))
       \<lparr> dr_target := Some (endpoint host port),
          dr_metrics := [(''protocol'', PStr ''tcp''), (''port'', PInt port)], dr_errors := [exc] \<rparr>"

definition tcp_result :: "string \<Rightarrow> int \<Rightarrow> tcp_outcome \<Rightarrow> diagnostic_result result" where
  "tcp_result host port outcome =
     (case outcome of
        Tcp_Code code elapsed \<Rightarrow>
          Inr (if code = 0 then
            (new_result ''tcp'' ''host'' HEALTHY INFO (''TCP port '' @ str_of_int port @ '' is reachable''))
              \<lparr> dr_target := Some (endpoint host port),
                 dr_metrics := [(''protocol'', PStr ''tcp''), (''port'', PInt port),
                   (''latency_ms'', PFloat (py_round (elapsed * 1000) 2))],
                 dr_evidence := [''TCP handshake to '' @ endpoint host port @ '' succeeded''] \<rparr>
          else
            (new_result ''tcp'' ''host'' FAILED MEDIUM (''TCP port '' @ str_of_int port @ '' is unreachable''))
              \<lparr> dr_target := Some (endpoint host port),
                 dr_metrics := [(''protocol'', PStr ''tcp''), (''port'', PInt port), (''error_code'', PInt code)],
                 dr_evidence := [''TCP connection failed with error code '' @ str_of_int code] \<rparr>)
      | Tcp_Unresolved \<Rightarrow> Inr (tcp_failed host port (''Could not resolve '' @ host))
      | Tcp_Failed exc \<Rightarrow> Inr (tcp_failed host port exc)
      | Tcp_Raised e \<Rightarrow> Inl e)"

definition test_tcp :: "host_env \<Rightarrow> string \<Rightarrow> int \<Rightarrow> rat \<Rightarrow> (host, diagnostic_result) act" where
  "test_tcp env host port timeout h =
     (case ask (\<lambda>n. he_tcp env n host port timeout) h of (outcome, h') \<Rightarrow> (tcp_result host port outcome, h'))"

text \<open>A DNS query for the address of google.com, an NTP request, one byte for any other port. Only
  the first two wait for an answer.\<close>

definition DNS_QUERY :: "byte list" where
  "DNS_QUERY = [0xAA, 0xBB, 0x01, 0x00, 0x00, 0x01, 0x00, 0x00, 0x00, 0x00, 0x00, 0x00,
     0x06, 0x67, 0x6F, 0x6F, 0x67, 0x6C, 0x65, 0x03, 0x63, 0x6F, 0x6D, 0x00, 0x00, 0x01, 0x00, 0x01]"

definition NTP_REQUEST :: "byte list" where
  "NTP_REQUEST = 0x1B # replicate 47 0"

definition udp_datagram :: "int \<Rightarrow> byte list" where
  "udp_datagram port = (if port = 53 then DNS_QUERY else if port = 123 then NTP_REQUEST else [0])"

definition udp_evidence :: "int \<Rightarrow> nat \<Rightarrow> string" where
  "udp_evidence port received =
     (if port = 53 then ''UDP DNS response received ('' @ str_of_nat received @ '' bytes)''
      else if port = 123 then ''UDP NTP response received ('' @ str_of_nat received @ '' bytes)''
      else ''UDP datagram transmitted without ICMP Port Unreachable'')"

definition udp_metrics :: "int \<Rightarrow> (string \<times> pyval) list" where
  "udp_metrics port = [(''protocol'', PStr ''udp''), (''port'', PInt port)]"

definition udp_rejected :: "string \<Rightarrow> int \<Rightarrow> string \<Rightarrow> diagnostic_result" where
  "udp_rejected host port exc =
     (new_result ''udp'' ''host'' FAILED MEDIUM (''UDP port '' @ str_of_int port @ '' is closed or rejected''))
       \<lparr> dr_target := Some (endpoint host port), dr_metrics := udp_metrics port, dr_errors := [exc] \<rparr>"

definition udp_result :: "string \<Rightarrow> int \<Rightarrow> udp_outcome \<Rightarrow> diagnostic_result result" where
  "udp_result host port outcome =
     (case outcome of
        Udp_Done received elapsed \<Rightarrow>
          Inr ((new_result ''udp'' ''host'' HEALTHY INFO (''UDP port '' @ str_of_int port @ '' is reachable''))
            \<lparr> dr_target := Some (endpoint host port),
               dr_metrics := udp_metrics port @ [(''latency_ms'', PFloat (py_round (elapsed * 1000) 2))],
               dr_evidence := [udp_evidence port received] \<rparr>)
      | Udp_Timeout \<Rightarrow>
          Inr (if port \<in> {53, 123} then
            (new_result ''udp'' ''host'' FAILED MEDIUM (''UDP port '' @ str_of_int port @ '' timed out waiting for reply''))
              \<lparr> dr_target := Some (endpoint host port), dr_metrics := udp_metrics port,
                 dr_errors := [''Request timed out''] \<rparr>
          else
            (new_result ''udp'' ''host'' HEALTHY INFO
               (''UDP port '' @ str_of_int port @ '' datagram sent (no ICMP rejection)''))
              \<lparr> dr_target := Some (endpoint host port), dr_metrics := udp_metrics port,
                 dr_evidence := [''Datagram sent, no ICMP port unreachable returned''] \<rparr>)
      | Udp_Unresolved \<Rightarrow> Inr (udp_rejected host port (''Could not resolve '' @ host))
      | Udp_Failed exc \<Rightarrow> Inr (udp_rejected host port exc)
      | Udp_Raised e \<Rightarrow> Inl e)"

definition test_udp :: "host_env \<Rightarrow> string \<Rightarrow> int \<Rightarrow> rat \<Rightarrow> (host, diagnostic_result) act" where
  "test_udp env host port timeout h =
     (case ask (\<lambda>n. he_udp env n host port (udp_datagram port) timeout) h of
        (outcome, h') \<Rightarrow> (udp_result host port outcome, h'))"

definition run_transport_diagnostics ::
  "host_env \<Rightarrow> string \<Rightarrow> int list option \<Rightarrow> int list option \<Rightarrow> (host, diagnostic_result list) act" where
  "run_transport_diagnostics env host tcp_ports udp_ports =
     bindA (mapA (\<lambda>port. test_tcp env host port 3)
       (if or_empty tcp_ports = [] then [53, 80, 443] else or_empty tcp_ports)) (\<lambda>tcp.
     bindA (mapA (\<lambda>port. test_udp env host port 3)
       (if or_empty udp_ports = [] then [53] else or_empty udp_ports)) (\<lambda>udp. returnA (tcp @ udp)))"

end
