(* ===== verification/Link_Probes.thy ===== *)
theory Link_Probes
  imports Host_Probes
begin

text \<open>
  Model of the probes that read the counters of the operating system: the interfaces
  (\<open>diagnostics/host/interface.py\<close>), the resources and the activity of the host
  (\<open>resource_network.py\<close>), utilization, errors and congestion of the links
  (\<open>diagnostics/link/collector.py\<close>); and of the collectors that run all probes of a host
  (\<open>diagnostics/host/collector.py\<close>). The exception of a division by zero is
  \<open>OtherError\<close> with its name.
\<close>

section \<open>Interfaces\<close>

definition addresses_of :: "address_family \<Rightarrow> (address_family \<times> string) list \<Rightarrow> string list" where
  "addresses_of family addrs = map snd (filter (\<lambda>a. fst a = family) addrs)"

definition last_option :: "'a list \<Rightarrow> 'a option" where
  "last_option xs = (if xs = [] then None else Some (last xs))"

definition loopback_name :: "string \<Rightarrow> bool" where
  "loopback_name name = (contains ''loopback'' (py_lower name) \<or> starts_with ''lo'' name)"

definition has_active :: "(string \<times> if_stats) list \<Rightarrow> bool" where
  "has_active stats = (\<exists>(n, s) \<in> set stats. is_isup s \<and> \<not> loopback_name n)"

definition interface_result ::
  "(string \<times> if_stats) list \<Rightarrow> string \<times> (address_family \<times> string) list \<Rightarrow> diagnostic_result" where
  "interface_result stats entry =
     (case entry of (name, addrs) \<Rightarrow>
       (let st = map_of stats name;
            up = (case st of None \<Rightarrow> False | Some s \<Rightarrow> is_isup s);
            speed = (case st of None \<Rightarrow> 0 | Some s \<Rightarrow> is_speed s);
            mtu = (case st of None \<Rightarrow> PNone | Some s \<Rightarrow> PInt (is_mtu s))
        in (new_result ''interface'' ''host''
              (if up \<or> has_active stats then HEALTHY else FAILED) (if up \<or> has_active stats then INFO else HIGH)
              (''Interface '' @ name @ (if up then '' is operational''
                 else if has_active stats then '' is inactive/disconnected'' else '' is down (no active network)'')))
             \<lparr> dr_target := Some name,
                dr_metrics := [(''is_up'', PBool up), (''speed_mbps'', PInt speed), (''mtu'', mtu),
                  (''ipv4'', PList (map PStr (addresses_of AF_INET addrs))),
                  (''ipv6'', PList (map PStr (addresses_of AF_INET6 addrs))),
                  (''mac'', opt_str (last_option (addresses_of AF_HARDWARE addrs)))],
                dr_evidence := [''Interface state: '' @ (if up then ''UP'' else ''DOWN'')] \<rparr>))"

definition inspect_interfaces :: "host_env \<Rightarrow> host \<Rightarrow> diagnostic_result list \<times> host" where
  "inspect_interfaces env h =
     (case ask (he_if_addrs env) h of
        (addresses, h1) \<Rightarrow>
          (case ask (he_if_stats env) h1 of
             (stats, h2) \<Rightarrow> (map (interface_result stats) addresses, h2)))"

section \<open>Resources and activity\<close>

definition zero_division :: py_error where
  "zero_division = OtherError ''ZeroDivisionError''"

definition per_second :: "(io_counters \<Rightarrow> int) \<Rightarrow> io_counters \<Rightarrow> io_counters \<Rightarrow> rat \<Rightarrow> rat" where
  "per_second f before after interval = of_int (f after - f before) / interval"

definition classify_resources ::
  "rat \<Rightarrow> rat \<Rightarrow> rat \<Rightarrow> rat \<Rightarrow> diagnostic_status \<times> severity \<times> string \<times> string list \<times> string list" where
  "classify_resources errors drops cpu mem =
     (let usage = ''(CPU: '' @ fmt_fixed 1 cpu @ ''%, RAM: '' @ fmt_fixed 1 mem @ ''%)'' in
      if 0 < errors \<or> 0 < drops then
        (DEGRADED, HIGH, ''Active network packet drops/errors detected ('' @ fmt_fixed 1 drops @ '' drops/s, '' @
           fmt_fixed 1 errors @ '' errs/s)'',
         [''Interface is actively dropping or corrupting packets: '' @ fmt_fixed 1 drops @ '' drops/s''], [])
      else if 95 \<le> cpu \<or> 95 \<le> mem then
        (FAILED, HIGH, ''Host resources saturated '' @ usage, [], [''Host CPU or memory under extreme pressure''])
      else if 85 \<le> cpu \<or> 90 \<le> mem then
        (DEGRADED, MEDIUM, ''High host resource utilization '' @ usage, [''High CPU or RAM usage detected''], [])
      else (HEALTHY, INFO, ''Host resources healthy '' @ usage, [], []))"

definition resource_result ::
  "rat \<Rightarrow> io_counters \<Rightarrow> io_counters \<Rightarrow> rat \<Rightarrow> memory_stats \<Rightarrow> diagnostic_result" where
  "resource_result interval before after cpu mem =
     (let errors = per_second io_errin before after interval + per_second io_errout before after interval;
          drops = per_second io_dropin before after interval + per_second io_dropout before after interval
      in case classify_resources errors drops cpu (me_percent mem) of
           (status, sev, summary, warnings, errs) \<Rightarrow>
             (new_result ''resource_network'' ''host'' status sev summary)
               \<lparr> dr_metrics := [(''cpu_percent'', PFloat cpu), (''memory_percent'', PFloat (me_percent mem)),
                    (''memory_available_mb'', PFloat (py_round (of_int (me_available mem) / 1024 / 1024) 2)),
                    (''boot_cumulative_errors'', PInt (io_errin after + io_errout after)),
                    (''boot_cumulative_drops'', PInt (io_dropin after + io_dropout after)),
                    (''active_errors_per_sec'', PFloat errors), (''active_drops_per_sec'', PFloat drops)],
                  dr_evidence := [''CPU: '' @ fmt_fixed 1 cpu @ ''%, RAM: '' @ fmt_fixed 1 (me_percent mem) @ ''%'',
                    ''Active drop rate: '' @ fmt_fixed 2 drops @ ''/s, error rate: '' @ fmt_fixed 2 errors @ ''/s''],
                  dr_warnings := warnings, dr_errors := errs \<rparr>)"

definition activity_result :: "rat \<Rightarrow> io_counters \<Rightarrow> io_counters \<Rightarrow> diagnostic_result" where
  "activity_result interval before after =
     (let rate = (\<lambda>f. PFloat (per_second f before after interval)) in
      (new_result ''network_activity'' ''host'' HEALTHY INFO ''Network activity measured'')
        \<lparr> dr_metrics := [(''rx_bytes_per_sec'', rate io_bytes_recv), (''tx_bytes_per_sec'', rate io_bytes_sent),
             (''rx_packets_per_sec'', rate io_packets_recv), (''tx_packets_per_sec'', rate io_packets_sent),
             (''rx_errors_per_sec'', rate io_errin), (''tx_errors_per_sec'', rate io_errout),
             (''rx_drops_per_sec'', rate io_dropin), (''tx_drops_per_sec'', rate io_dropout)] \<rparr>)"

definition inspect_resources_and_activity ::
  "host_env \<Rightarrow> rat \<Rightarrow> (host, diagnostic_result \<times> diagnostic_result) act" where
  "inspect_resources_and_activity env interval =
     bindA (askA (he_net_io env)) (\<lambda>before.
     bindA (askA (he_cpu env)) (\<lambda>cpu.
     bindA (askA (he_net_io env)) (\<lambda>after.
     bindA (askA (he_memory env)) (\<lambda>mem.
       if interval = 0 then failA zero_division
       else returnA (resource_result interval before after cpu mem, activity_result interval before after)))))"

definition inspect_resources :: "host_env \<Rightarrow> (host, diagnostic_result) act" where
  "inspect_resources env = bindA (inspect_resources_and_activity env 1) (\<lambda>rs. returnA (fst rs))"

definition measure_network_activity :: "host_env \<Rightarrow> rat \<Rightarrow> (host, diagnostic_result) act" where
  "measure_network_activity env interval =
     bindA (inspect_resources_and_activity env interval) (\<lambda>rs. returnA (snd rs))"

section \<open>Links\<close>

definition loopback_link :: "string \<Rightarrow> bool" where
  "loopback_link name = (contains ''loopback'' (py_lower name) \<or> starts_with ''lo'' (py_lower name))"

definition iface_speed_mbps :: "(string \<times> if_stats) list \<Rightarrow> string \<Rightarrow> rat option" where
  "iface_speed_mbps stats name =
     (case map_of stats name of
        None \<Rightarrow> None
      | Some st \<Rightarrow> if 0 < is_speed st then Some (of_int (is_speed st)) else None)"

definition classify_utilization :: "rat option \<Rightarrow> diagnostic_status \<times> severity" where
  "classify_utilization util =
     (case util of
        None \<Rightarrow> (HEALTHY, INFO)
      | Some u \<Rightarrow> if 90 \<le> u then (DEGRADED, HIGH) else if 75 \<le> u then (DEGRADED, MEDIUM) else (HEALTHY, INFO))"

definition utilization_result ::
  "host_env \<Rightarrow> rat \<Rightarrow> string \<Rightarrow> io_counters \<Rightarrow> io_counters \<Rightarrow> rat option \<Rightarrow> diagnostic_result" where
  "utilization_result env interval name before after speed =
     (let rx = bps_from_byte_delta (of_int (io_bytes_recv after - io_bytes_recv before)) interval;
          tx = bps_from_byte_delta (of_int (io_bytes_sent after - io_bytes_sent before)) interval;
          all_bps = rx + tx;
          util = utilization_percent all_bps (link_capacity_bps speed)
      in (new_result ''link_utilization'' ''link'' (fst (classify_utilization util)) (snd (classify_utilization util))
            (case util of
               Some u \<Rightarrow> name @ '': '' @ fmt_fixed 1 u @ ''% util''
             | None \<Rightarrow> name @ '': '' @ fmt_fixed 2 (all_bps / 1000000) @ '' Mbps (speed unknown)''))
           \<lparr> dr_target := Some name,
              dr_metrics := [(''rx_bps'', PFloat (py_round rx 1)), (''tx_bps'', PFloat (py_round tx 1)),
                (''total_bps'', PFloat (py_round all_bps 1)), (''util_percent'', opt_rat util),
                (''speed_mbps'', opt_rat speed)],
              dr_evidence := [''RX '' @ fmt_fixed 2 (rx / 1000000) @ '' Mbps / TX '' @ fmt_fixed 2 (tx / 1000000) @
                '' Mbps over '' @ he_repr env interval @ ''s''] \<rparr>)"

definition is_down :: "(string \<times> if_stats) list \<Rightarrow> string \<Rightarrow> bool" where
  "is_down stats name = (case map_of stats name of None \<Rightarrow> False | Some st \<Rightarrow> \<not> is_isup st)"

definition probe_utilization ::
  "host_env \<Rightarrow> rat \<Rightarrow> (string \<times> io_counters) list \<Rightarrow> (string \<times> if_stats) list \<Rightarrow> string \<times> io_counters \<Rightarrow>
   host \<Rightarrow> diagnostic_result list \<times> host" where
  "probe_utilization env interval before stats entry h =
     (case entry of (name, after) \<Rightarrow>
       (case map_of before name of
          None \<Rightarrow> ([], h)
        | Some before_c \<Rightarrow>
            if is_down stats name \<or> loopback_link name then ([], h)
            else (case ask (he_if_stats env) h of
                    (now_stats, h') \<Rightarrow>
                      ([utilization_result env interval name before_c after (iface_speed_mbps now_stats name)], h'))))"

definition measure_link_utilization :: "host_env \<Rightarrow> rat \<Rightarrow> host \<Rightarrow> diagnostic_result list \<times> host" where
  "measure_link_utilization env interval h =
     (case ask (he_nic_io env) h of (before, h1) \<Rightarrow>
     (case ask (he_nic_io env) h1 of (after, h2) \<Rightarrow>
     (case ask (he_if_stats env) h2 of (stats, h3) \<Rightarrow>
     (case for_each (probe_utilization env interval before stats) after h3 of
        (rs, h4) \<Rightarrow> (concat rs, h4)))))"

definition classify_link_errors :: "rat \<Rightarrow> rat \<Rightarrow> diagnostic_status \<times> severity" where
  "classify_link_errors drops errors =
     (if 5 \<le> drops \<or> 5 \<le> errors then (FAILED, HIGH)
      else if 1 / 2 \<le> drops \<or> 1 / 2 \<le> errors then (DEGRADED, MEDIUM) else (HEALTHY, INFO))"

definition link_error_result :: "rat \<Rightarrow> string \<Rightarrow> io_counters \<Rightarrow> io_counters \<Rightarrow> diagnostic_result" where
  "link_error_result interval name before after =
     (let drops = of_int ((io_dropin after - io_dropin before) + (io_dropout after - io_dropout before)) / interval;
          errors = of_int ((io_errin after - io_errin before) + (io_errout after - io_errout before)) / interval
      in (new_result ''link_errors'' ''link'' (fst (classify_link_errors drops errors)) (snd (classify_link_errors drops errors))
            (name @ '': '' @ fmt_fixed 2 drops @ '' drops/s, '' @ fmt_fixed 2 errors @ '' errs/s''))
           \<lparr> dr_target := Some name,
              dr_metrics := [(''drops_per_sec'', PFloat (py_round drops 3)), (''errors_per_sec'', PFloat (py_round errors 3))],
              dr_evidence := [''Active drops='' @ fmt_fixed 2 drops @ ''/s errors='' @ fmt_fixed 2 errors @ ''/s''],
              dr_warnings := (if 1 / 2 \<le> drops \<or> 1 / 2 \<le> errors then [''Active link-layer drops/errors''] else []) \<rparr>)"

definition link_error_results ::
  "rat \<Rightarrow> (string \<times> io_counters) list \<Rightarrow> (string \<times> io_counters) list \<Rightarrow> diagnostic_result list" where
  "link_error_results interval before after =
     List.map_filter (\<lambda>(name, after_c).
       case map_of before name of
         None \<Rightarrow> None
       | Some before_c \<Rightarrow> if loopback_link name then None else Some (link_error_result interval name before_c after_c)) after"

definition measure_link_errors :: "host_env \<Rightarrow> rat \<Rightarrow> (host, diagnostic_result list) act" where
  "measure_link_errors env interval =
     bindA (askA (he_nic_io env)) (\<lambda>before.
     bindA (askA (he_nic_io env)) (\<lambda>after.
       let rs = link_error_results interval before after in
       if interval = 0 \<and> rs \<noteq> [] then failA zero_division else returnA rs))"

text \<open>\<open>float(err.metrics.get(k, 0.0))\<close> when there is an error result, else 0.\<close>

definition rate_of :: "host_env \<Rightarrow> diagnostic_result option \<Rightarrow> string \<Rightarrow> rat result" where
  "rate_of env err k =
     (case err of
        None \<Rightarrow> Inr 0
      | Some r \<Rightarrow> (case map_of (dr_metrics r) k of None \<Rightarrow> Inr 0 | Some v \<Rightarrow> float_of (he_float_text env) v))"

definition classify_congestion :: "string \<Rightarrow> diagnostic_status \<times> severity" where
  "classify_congestion state =
     (if state = ''severe'' then (FAILED, HIGH)
      else if state \<in> {''moderate'', ''mild''} then (DEGRADED, MEDIUM) else (HEALTHY, INFO))"

definition target_text :: "diagnostic_result \<Rightarrow> string" where
  "target_text r = (case dr_target r of None \<Rightarrow> ''None'' | Some t \<Rightarrow> t)"

definition congestion_result ::
  "host_env \<Rightarrow> rat \<Rightarrow> (string option \<times> diagnostic_result) list \<Rightarrow> diagnostic_result \<Rightarrow> diagnostic_result result" where
  "congestion_result env latency_delta errors_by_iface u =
     (let err = map_of errors_by_iface (dr_target u); util = get_val (dr_metrics u) ''util_percent'' in
      bindR (rate_of env err ''drops_per_sec'') (\<lambda>drop_rate.
      bindR (rate_of env err ''errors_per_sec'') (\<lambda>error_rate.
      bindR (if util = PNone then Inr None else bindR (numR util) (\<lambda>v. Inr (Some v))) (\<lambda>percent.
        let score = congestion_score percent drop_rate error_rate latency_delta;
            state = congestion_state score
        in Inr ((new_result ''link_congestion'' ''link'' (fst (classify_congestion state)) (snd (classify_congestion state))
             (target_text u @ '': congestion '' @ state @ '' (score '' @ he_repr env score @ '')''))
           \<lparr> dr_target := dr_target u,
              dr_metrics := [(''congestion_score'', PFloat score), (''congestion_state'', PStr state),
                (''util_percent'', util), (''drops_per_sec'', PFloat drop_rate), (''errors_per_sec'', PFloat error_rate)],
              dr_evidence := [''Congestion score '' @ he_repr env score @ '' '' @ arrow @ '' '' @ state] \<rparr>)))))"

definition measure_link_congestion ::
  "host_env \<Rightarrow> diagnostic_result list option \<Rightarrow> diagnostic_result list option \<Rightarrow> rat \<Rightarrow>
   (host, diagnostic_result list) act" where
  "measure_link_congestion env util_results error_results latency_delta =
     bindA (if or_empty util_results = [] then totalA (measure_link_utilization env 1)
            else returnA (or_empty util_results)) (\<lambda>utils.
     liftA (mapR (congestion_result env latency_delta
       (rev (map (\<lambda>r. (dr_target r, r)) (or_empty error_results)))) utils))"

definition run_link_diagnostics :: "host_env \<Rightarrow> rat \<Rightarrow> (host, diagnostic_result list) act" where
  "run_link_diagnostics env interval =
     bindA (totalA (measure_link_utilization env interval)) (\<lambda>util.
     bindA (measure_link_errors env interval) (\<lambda>errors.
     bindA (measure_link_congestion env (Some util) (Some errors) 0) (\<lambda>congestion.
       returnA (util @ errors @ congestion))))"

section \<open>The collector of a host\<close>

text \<open>\<open>compare_probe_metrics\<close> on a host: every sample is stored with the time it is stored at.\<close>

definition record_probe :: "host_env \<Rightarrow> string \<Rightarrow> string \<Rightarrow> string \<Rightarrow> rat \<Rightarrow> host \<Rightarrow> diagnostic_result \<times> host" where
  "record_probe env domain key name v h =
     (case read_clock env h of (now, h1) \<Rightarrow>
     (case record_and_compare (he_repr env) now domain key name v True WARN_RATIO FAIL_RATIO (ho_history h1) of
        (r, history') \<Rightarrow> (r, h1 \<lparr> ho_history := history' \<rparr>)))"

primrec compare_probes :: "host_env \<Rightarrow> diagnostic_result list \<Rightarrow> (host, diagnostic_result list) act" where
  "compare_probes env [] = returnA []"
| "compare_probes env (r # rs) =
     (case probe_metric r of
        None \<Rightarrow> compare_probes env rs
      | Some (domain, key, name) \<Rightarrow>
          bindA (liftA (float_of (he_float_text env) (get_val (dr_metrics r) name))) (\<lambda>v.
          bindA (totalA (record_probe env domain key name v)) (\<lambda>d.
          bindA (compare_probes env rs) (\<lambda>ds. returnA (d # ds)))))"

definition collect_host_diagnostics ::
  "host_env \<Rightarrow> string \<Rightarrow> string list option \<Rightarrow> int \<Rightarrow> bool \<Rightarrow> (host, diagnostic_result list) act" where
  "collect_host_diagnostics env target_host connectivity_hosts ping_count include_baselines =
     bindA (mapA (\<lambda>host. check_host env host 443 3)
       (if or_empty connectivity_hosts = [] then [''1.1.1.1'', ''8.8.8.8'', target_host]
        else or_empty connectivity_hosts)) (\<lambda>connectivity.
     bindA (totalA (inspect_interfaces env)) (\<lambda>interfaces.
     bindA (inspect_routing_table env) (\<lambda>routing.
     bindA (check_gateway_reachability env None (min 4 ping_count)) (\<lambda>gateway.
     bindA (run_dns_diagnostics env target_host) (\<lambda>dns.
     bindA (mapA (\<lambda>port. test_tcp env ''1.1.1.1'' port 3) [53, 80, 443]) (\<lambda>tcp.
     bindA (test_udp env ''1.1.1.1'' 53 3) (\<lambda>udp.
     bindA (totalA (for_each (\<lambda>host. ping_host env host ping_count) public_hosts)) (\<lambda>losses.
     bindA (totalA (for_each (\<lambda>host. measure_latency env host ping_count) public_hosts)) (\<lambda>latencies.
     bindA (inspect_resources_and_activity env 1) (\<lambda>(resources, activity).
     let results = connectivity @ interfaces @ [routing, gateway, dns] @ tcp @ [udp] @ losses @ latencies @
           [resources, activity]
     in if include_baselines then bindA (compare_probes env results) (\<lambda>extras. returnA (results @ extras))
        else returnA results))))))))))"

end
