(* ===== verification/Path.thy ===== *)
theory Path
  imports Ping
begin

text \<open>
  Model of the path probes (\<open>diagnostics/path\<close>): parsing the output of \<open>traceroute\<close> and
  \<open>tracert\<close>, the fingerprint of a path, the metrics of the hops over several traces, and the
  detection of path changes against the history database. The SHA-256 digest is the field
  \<open>he_sha256\<close> of the environment. The dictionary of hops is an association list.
\<close>

section \<open>Hops\<close>

record hop =
  hp_hop :: int
  hp_address :: "string option"
  hp_hostname :: "string option"
  hp_rtts_ms :: "rat list"
  hp_loss_percent :: "rat option"
  hp_timed_out :: bool

definition new_hop :: "int \<Rightarrow> hop" where
  "new_hop n = \<lparr> hp_hop = n, hp_address = None, hp_hostname = None, hp_rtts_ms = [], hp_loss_percent = None,
     hp_timed_out = False \<rparr>"

definition avg_rtt :: "hop \<Rightarrow> rat option" where
  "avg_rtt h = (if hp_rtts_ms h = [] then None else Some (py_round (mean (hp_rtts_ms h)) 2))"

definition or_text :: "string option \<Rightarrow> string \<Rightarrow> string" where
  "or_text s d = (case s of None \<Rightarrow> d | Some t \<Rightarrow> if t = [] then d else t)"

definition path_fingerprint :: "host_env \<Rightarrow> hop list \<Rightarrow> string" where
  "path_fingerprint env hops =
     take 16 (he_sha256 env (join ''|'' (map (\<lambda>h. str_of_int (hp_hop h) @ '':'' @ or_text (hp_address h) ''*'') hops)))"

section \<open>Parsing a trace\<close>

definition hop_pattern :: regex where
  "hop_pattern = Cat spaces (Cat (Group 1 some_digits) (Cat some_spaces
     (Cat (Group 2 (Many (Chars (\<lambda>c. c \<noteq> CHR 0x0A)))) at_end)))"

definition rtt_pattern :: regex where
  "rtt_pattern = Cat (Group 1 decimal) (Cat spaces (word_ci ''ms''))"

definition windows_rtt_pattern :: regex where
  "windows_rtt_pattern = Cat (Opt (sign CHR ''<'')) rtt_pattern"

definition octets :: regex where
  "octets = Cat digit (Opt (Cat digit (Opt digit)))"

definition ipv4 :: regex where
  "ipv4 = Cat octets (Cat (sign CHR ''.'') (Cat octets (Cat (sign CHR ''.'') (Cat octets (Cat (sign CHR ''.'') octets)))))"

definition hex_char :: "char \<Rightarrow> bool" where
  "hex_char c = (is_digit c \<or> lower_char c \<in> set ''abcdef'')"

definition trailing_address :: regex where
  "trailing_address = Cat (Group 1 (Alt ipv4
     (Cat (Chars (\<lambda>c. hex_char c \<or> c = CHR '':'')) (Many (Chars (\<lambda>c. hex_char c \<or> c = CHR '':'')))))) (Cat spaces at_end)"

definition is_name_char :: "char \<Rightarrow> bool" where
  "is_name_char c = (is_digit c \<or> lower_char c \<in> set ''abcdefghijklmnopqrstuvwxyz'' \<or> c \<in> set ''._-'')"

definition bracketed_address :: regex where
  "bracketed_address = Cat (Group 1 (Cat (Chars is_name_char) (Many (Chars is_name_char)))) (Cat some_spaces
     (Cat (sign CHR ''['') (Cat (Group 2 (Cat (Chars (\<lambda>c. c \<noteq> CHR '']'')) (Many (Chars (\<lambda>c. c \<noteq> CHR '']'')))))
     (sign CHR '']''))))"

definition parenthesized_address :: regex where
  "parenthesized_address = Cat (Group 1 (Cat (Chars (\<lambda>c. \<not> is_space c)) (Many (Chars (\<lambda>c. \<not> is_space c)))))
     (Cat some_spaces (Cat (sign CHR ''('') (Cat (Group 2 (Cat (Chars (\<lambda>c. c \<noteq> CHR '')'')) (Many (Chars (\<lambda>c. c \<noteq> CHR '')'')))))
     (sign CHR '')''))))"

definition only_stars :: "string \<Rightarrow> bool" where
  "only_stars rest = (py_strip (filter (\<lambda>c. c \<noteq> CHR ''*'') rest) = [])"

definition add_rtts :: "regex \<Rightarrow> string \<Rightarrow> hop \<Rightarrow> hop" where
  "add_rtts r rest h = h \<lparr> hp_rtts_ms := hp_rtts_ms h @ map decimal_value (findall r rest) \<rparr>"

definition set_address :: "hop \<Rightarrow> string \<Rightarrow> hop" where
  "set_address h a = h \<lparr> hp_address := Some a \<rparr>"

definition set_named_address :: "hop \<Rightarrow> match_state \<Rightarrow> hop" where
  "set_named_address h m = h \<lparr> hp_hostname := Some (group 1 m), hp_address := Some (group 2 m) \<rparr>"

definition windows_hop :: "string \<Rightarrow> hop \<Rightarrow> hop" where
  "windows_hop rest h =
     (if contains ''Request timed out'' rest \<or> only_stars rest then
        (if CHR ''*'' \<in> set rest \<or> contains ''timed out'' (py_lower rest) then h \<lparr> hp_timed_out := True \<rparr> else h)
      else
        (let h' = add_rtts windows_rtt_pattern rest h in
         case re_search bracketed_address rest of
           Some m \<Rightarrow> set_named_address h' m
         | None \<Rightarrow> (case re_search trailing_address rest of Some m \<Rightarrow> set_address h' (group 1 m) | None \<Rightarrow> h')))"

definition unix_hop :: "string \<Rightarrow> hop \<Rightarrow> hop" where
  "unix_hop rest h =
     (if only_stars rest \<or> starts_with ''*'' rest then h \<lparr> hp_timed_out := True \<rparr>
      else
        (let h' = add_rtts rtt_pattern rest h in
         case re_search parenthesized_address rest of
           Some m \<Rightarrow> set_named_address h' m
         | None \<Rightarrow> (case re_search (Group 1 ipv4) rest of Some m \<Rightarrow> set_address h' (group 1 m) | None \<Rightarrow> h')))"

definition trace_line :: "string \<Rightarrow> (int \<times> hop) list \<Rightarrow> string \<Rightarrow> (int \<times> hop) list" where
  "trace_line system hops line =
     (case re_match hop_pattern line of
        None \<Rightarrow> hops
      | Some m \<Rightarrow>
          (let n = digits_value (group 1 m); rest = py_strip (group 2 m);
               h = (case map_of hops n of None \<Rightarrow> new_hop n | Some h \<Rightarrow> h)
           in AList.update n ((if system = ''windows'' then windows_hop else unix_hop) rest h) hops))"

definition loss_of :: "int \<Rightarrow> nat \<Rightarrow> rat" where
  "loss_of expected received = py_round (max 0 ((of_int expected - of_nat received) / of_int expected * 100)) 1"

definition with_loss :: "hop \<Rightarrow> hop" where
  "with_loss h =
     h \<lparr> hp_loss_percent := Some (if hp_timed_out h \<and> hp_rtts_ms h = [] then 100
                                 else loss_of 3 (length (hp_rtts_ms h))) \<rparr>"

definition by_number :: "(int \<times> 'a) list \<Rightarrow> 'a list" where
  "by_number hops = map snd (sort_key fst hops)"

definition parse_traceroute_output :: "string \<Rightarrow> string \<Rightarrow> hop list" where
  "parse_traceroute_output output system =
     map with_loss (by_number (foldl (trace_line system) [] (splitlines output)))"

section \<open>Running a trace\<close>

definition trace_command :: "string \<Rightarrow> string \<Rightarrow> int \<Rightarrow> string list" where
  "trace_command system target max_hops =
     (if system = ''windows'' then [''tracert'', ''-d'', ''-h'', str_of_int max_hops, target]
      else [''traceroute'', ''-n'', ''-m'', str_of_int max_hops, target])"

definition run_traceroute ::
  "host_env \<Rightarrow> string \<Rightarrow> int \<Rightarrow> host \<Rightarrow> (hop list \<times> string \<times> string option) \<times> host" where
  "run_traceroute env target max_hops h =
     (case run_command env (trace_command (he_system env) target max_hops) 60 h of
        (Completed _ out err, h') \<Rightarrow> ((parse_traceroute_output (out @ err) (he_system env), out @ err, None), h')
      | (Run_Failed exc, h') \<Rightarrow> (([], [], Some exc), h')
      | (Run_Raised _ exc, h') \<Rightarrow> (([], [], Some exc), h'))"

definition opt_text :: "string option \<Rightarrow> pyval" where
  "opt_text s = (case s of None \<Rightarrow> PNone | Some t \<Rightarrow> PStr t)"

definition hop_dict :: "hop \<Rightarrow> pyval" where
  "hop_dict h = PDict [(''hop'', PInt (hp_hop h)), (''address'', opt_text (hp_address h)),
     (''hostname'', opt_text (hp_hostname h)), (''avg_rtt_ms'', opt_rat (avg_rtt h)),
     (''loss_percent'', opt_rat (hp_loss_percent h)), (''timed_out'', PBool (hp_timed_out h)),
     (''rtts_ms'', PList (map PFloat (hp_rtts_ms h)))]"

definition loss_or_zero :: "hop \<Rightarrow> rat" where
  "loss_or_zero h = (case hp_loss_percent h of None \<Rightarrow> 0 | Some l \<Rightarrow> l)"

definition target_reached :: "string \<Rightarrow> hop list \<Rightarrow> bool" where
  "target_reached target hops =
     ((\<exists>h \<in> set hops. some_text (hp_address h) \<and> contains target (or_text (hp_address h) [])) \<or>
      (some_text (hp_address (last hops)) \<and> \<not> hp_timed_out (last hops)))"

definition classify_trace :: "string \<Rightarrow> hop list \<Rightarrow> diagnostic_status \<times> severity" where
  "classify_trace target hops =
     (let high_loss = length (filter (\<lambda>h. 50 \<le> loss_or_zero h) hops) in
      if 3 \<le> high_loss \<or> (hp_timed_out (last hops) \<and> \<not> target_reached target hops) then (DEGRADED, MEDIUM)
      else if 0 < high_loss then (DEGRADED, LOW) else (HEALTHY, INFO))"

text \<open>\<open>max((h.loss_percent or 0) for h in hops)\<close>: the int 0 when no hop has a loss.\<close>

definition max_loss_value :: "hop list \<Rightarrow> pyval" where
  "max_loss_value hops =
     (let m = Max (set (map loss_or_zero hops)) in if m = 0 then PInt 0 else PFloat m)"

definition trace_result :: "host_env \<Rightarrow> string \<Rightarrow> hop list \<times> string \<times> string option \<Rightarrow> diagnostic_result" where
  "trace_result env target trace =
     (case trace of (hops, raw, error) \<Rightarrow>
       if some_text error then
         (new_result ''traceroute'' ''path'' UNKNOWN MEDIUM (''Traceroute to '' @ target @ '' failed''))
           \<lparr> dr_target := Some target, dr_errors := [or_text error []] \<rparr>
       else if hops = [] then
         (new_result ''traceroute'' ''path'' FAILED HIGH (''No hops discovered toward '' @ target))
           \<lparr> dr_target := Some target, dr_metadata := raw_output raw \<rparr>
       else
         (let fingerprint = path_fingerprint env hops in
          (new_result ''traceroute'' ''path'' (fst (classify_trace target hops)) (snd (classify_trace target hops))
             (''Path to '' @ target @ '': '' @ str_of_nat (length hops) @ '' hops (fingerprint '' @ fingerprint @ '')''))
            \<lparr> dr_target := Some target,
               dr_metrics := [(''hop_count'', PInt (int (length hops))), (''hops'', PList (map hop_dict hops)),
                 (''path_fingerprint'', PStr fingerprint),
                 (''high_loss_hops'', PInt (int (length (filter (\<lambda>h. 50 \<le> loss_or_zero h) hops)))),
                 (''max_hop_loss_percent'', max_loss_value hops)],
               dr_evidence := [''Discovered '' @ str_of_nat (length hops) @ '' hops toward '' @ target,
                 ''Path fingerprint: '' @ fingerprint],
               dr_metadata := raw_output raw \<rparr>))"

definition traceroute_to_result :: "host_env \<Rightarrow> string \<Rightarrow> int \<Rightarrow> host \<Rightarrow> diagnostic_result \<times> host" where
  "traceroute_to_result env target max_hops h =
     (case run_traceroute env target max_hops h of (trace, h') \<Rightarrow> (trace_result env target trace, h'))"

section \<open>Hop metrics\<close>

definition merge_hop :: "(int \<times> hop) list \<Rightarrow> hop \<Rightarrow> (int \<times> hop) list" where
  "merge_hop aggregates h =
     (let agg = (case map_of aggregates (hp_hop h) of
                   Some a \<Rightarrow> a
                 | None \<Rightarrow> (new_hop (hp_hop h)) \<lparr> hp_address := hp_address h, hp_hostname := hp_hostname h \<rparr>);
          agg2 = (if some_text (hp_address h) then agg \<lparr> hp_address := hp_address h \<rparr> else agg)
      in AList.update (hp_hop h) (agg2 \<lparr> hp_rtts_ms := hp_rtts_ms agg2 @ hp_rtts_ms h \<rparr>) aggregates)"

text \<open>The traces one after the other, with the aggregates and the errors so far.\<close>

primrec aggregate_traces ::
  "host_env \<Rightarrow> string \<Rightarrow> int \<Rightarrow> nat \<Rightarrow> (int \<times> hop) list \<times> string list \<Rightarrow> host \<Rightarrow>
   ((int \<times> hop) list \<times> string list) \<times> host" where
  "aggregate_traces env target max_hops 0 acc h = (acc, h)"
| "aggregate_traces env target max_hops (Suc n) acc h =
     (case run_traceroute env target max_hops h of
        ((hops, _, error), h') \<Rightarrow>
          aggregate_traces env target max_hops n
            (if some_text error then (fst acc, snd acc @ [or_text error []])
             else (foldl merge_hop (fst acc) hops, snd acc)) h')"

definition hop_metric :: "int \<Rightarrow> hop \<Rightarrow> pyval \<times> rat" where
  "hop_metric expected h =
     (let received = length (hp_rtts_ms h);
          loss = (if expected \<noteq> 0 then loss_of expected received else 0)
      in (PDict [(''hop'', PInt (hp_hop h)), (''address'', opt_text (hp_address h)),
            (''avg_rtt_ms'', opt_rat (avg_rtt h)), (''loss_percent'', PFloat loss),
            (''samples'', PInt (int received))], loss))"

definition hop_metrics_result ::
  "host_env \<Rightarrow> string \<Rightarrow> int \<Rightarrow> (int \<times> hop) list \<times> string list \<Rightarrow> diagnostic_result" where
  "hop_metrics_result env target probes acc =
     (case acc of (aggregates, errors) \<Rightarrow>
       if aggregates = [] \<and> errors \<noteq> [] then
         (new_result ''hop_metrics'' ''path'' UNKNOWN MEDIUM (''Hop metrics failed for '' @ target))
           \<lparr> dr_target := Some target, dr_errors := errors \<rparr>
       else
         (let hop_list = map (hop_metric (probes * 3)) (by_number aggregates);
              max_loss = (if hop_list = [] then 0 else Max (set (map snd hop_list)))
          in (new_result ''hop_metrics'' ''path'' (if max_loss < 30 then HEALTHY else DEGRADED)
                (if max_loss < 30 then INFO else MEDIUM)
                (''Aggregated hop metrics to '' @ target @ '' over '' @ str_of_int probes @ '' traces''))
               \<lparr> dr_target := Some target,
                  dr_metrics := [(''hops'', PList (map fst hop_list)), (''probes'', PInt probes),
                    (''max_hop_loss_percent'', PFloat max_loss)],
                  dr_evidence := [''Max per-hop loss: '' @ he_repr env max_loss @ ''%''],
                  dr_errors := errors \<rparr>))"

definition measure_hop_metrics ::
  "host_env \<Rightarrow> string \<Rightarrow> int \<Rightarrow> int \<Rightarrow> host \<Rightarrow> diagnostic_result \<times> host" where
  "measure_hop_metrics env target probes max_hops h =
     (case aggregate_traces env target max_hops (nat probes) ([], []) h of
        (acc, h') \<Rightarrow> (hop_metrics_result env target probes acc, h'))"

section \<open>Path changes\<close>

text \<open>The fingerprint of a trace is a text or missing.\<close>

definition fingerprint_of :: "diagnostic_result \<Rightarrow> string option" where
  "fingerprint_of r = (case get_val (dr_metrics r) ''path_fingerprint'' of PStr s \<Rightarrow> Some s | _ \<Rightarrow> None)"

definition hops_of :: "diagnostic_result \<Rightarrow> pyval" where
  "hops_of r = (case map_of (dr_metrics r) ''hops'' of None \<Rightarrow> PList [] | Some v \<Rightarrow> v)"

definition change_result :: "string \<Rightarrow> string option \<Rightarrow> snapshot option \<Rightarrow> diagnostic_result" where
  "change_result target fingerprint previous =
     (case previous of
        None \<Rightarrow>
          (new_result ''path_change'' ''path'' HEALTHY INFO
             (''No prior path baseline for '' @ target @ ''; baseline stored''))
            \<lparr> dr_target := Some target,
               dr_metrics := [(''changed'', PBool False), (''baseline_created'', PBool True),
                 (''path_fingerprint'', opt_text fingerprint)],
               dr_evidence := [''First path observation stored as baseline''] \<rparr>
      | Some p \<Rightarrow>
          if sn_fingerprint p \<noteq> fingerprint then
            (new_result ''path_change'' ''path'' DEGRADED MEDIUM (''Forwarding path to '' @ target @ '' changed''))
              \<lparr> dr_target := Some target,
                 dr_metrics := [(''changed'', PBool True), (''previous_fingerprint'', opt_text (sn_fingerprint p)),
                   (''path_fingerprint'', opt_text fingerprint)],
                 dr_evidence := [''Previous fingerprint: '' @ (case sn_fingerprint p of None \<Rightarrow> ''None'' | Some s \<Rightarrow> s),
                   ''Current fingerprint: '' @ (case fingerprint of None \<Rightarrow> ''None'' | Some s \<Rightarrow> s)],
                 dr_warnings := [''Routing path differs from the last observed baseline''] \<rparr>
          else
            (new_result ''path_change'' ''path'' HEALTHY INFO (''Path to '' @ target @ '' unchanged''))
              \<lparr> dr_target := Some target,
                 dr_metrics := [(''changed'', PBool False), (''path_fingerprint'', opt_text fingerprint),
                   (''previous_fingerprint'', opt_text (sn_fingerprint p))],
                 dr_evidence := [''Path fingerprint matches previous baseline''] \<rparr>)"

definition detect_path_change :: "host_env \<Rightarrow> string \<Rightarrow> diagnostic_result \<Rightarrow> host \<Rightarrow> diagnostic_result \<times> host" where
  "detect_path_change env target current h =
     (case read_clock env h of
        (now, h1) \<Rightarrow>
          (let fingerprint = fingerprint_of current;
               history' = save_snapshot now ''path'' target
                 [(''hops'', hops_of current), (''fingerprint'', opt_text fingerprint)] fingerprint (ho_history h1)
           in (change_result target fingerprint (previous_snapshot ''path'' target history'),
               h1 \<lparr> ho_history := history' \<rparr>)))"

definition collect_path_diagnostics ::
  "host_env \<Rightarrow> string \<Rightarrow> int \<Rightarrow> int \<Rightarrow> host \<Rightarrow> diagnostic_result list \<times> host" where
  "collect_path_diagnostics env target max_hops hop_probes h =
     (case traceroute_to_result env target max_hops h of (trace, h1) \<Rightarrow>
     (case detect_path_change env target trace h1 of (change, h2) \<Rightarrow>
       if 1 < hop_probes then
         (case measure_hop_metrics env target hop_probes max_hops h2 of (metrics, h3) \<Rightarrow> ([trace, change, metrics], h3))
       else ([trace, change], h2)))"

section \<open>What a trace holds\<close>

lemma digits_value_nonneg: "0 \<le> digits_value w"
proof -
  have "0 \<le> a \<Longrightarrow> 0 \<le> foldl (\<lambda>a c. 10 * a + int (digit_val c)) a w" for a by (induction w arbitrary: a) auto
  then show ?thesis by (simp add: digits_value_def)
qed

lemma decimal_value_nonneg: "0 \<le> decimal_value w"
  using digits_value_nonneg by (auto simp: decimal_value_def split: list.splits)

definition hop_ok :: "int \<Rightarrow> hop \<Rightarrow> bool" where
  "hop_ok n h = (hp_hop h = n \<and> (\<forall>x \<in> set (hp_rtts_ms h). 0 \<le> x))"

lemma hop_ok_simps [simp]:
  "hop_ok n (new_hop n)"
  "hop_ok n (h \<lparr> hp_timed_out := b \<rparr>) = hop_ok n h"
  "hop_ok n (h \<lparr> hp_loss_percent := l \<rparr>) = hop_ok n h"
  "hop_ok n (set_address h a) = hop_ok n h"
  "hop_ok n (set_named_address h m) = hop_ok n h"
  "hop_ok n (add_rtts r rest h) = hop_ok n h"
  by (auto simp: hop_ok_def new_hop_def set_address_def set_named_address_def add_rtts_def decimal_value_nonneg)

lemma hop_ok_lines [simp]:
  "hop_ok n (windows_hop rest h) = hop_ok n h" "hop_ok n (unix_hop rest h) = hop_ok n h"
  by (auto simp: windows_hop_def unix_hop_def Let_def split: option.splits)

definition hops_ok :: "(int \<times> hop) list \<Rightarrow> bool" where
  "hops_ok hops = (distinct (map fst hops) \<and> (\<forall>(n, h) \<in> set hops. hop_ok n h))"

lemma hops_ok_update: "hops_ok hops \<Longrightarrow> hop_ok n h \<Longrightarrow> hops_ok (AList.update n h hops)"
  unfolding hops_ok_def using distinct_update [of hops n h]
  by (induction hops) (auto split: if_splits)

lemma hops_ok_lookup: "hops_ok hops \<Longrightarrow> map_of hops n = Some h \<Longrightarrow> hop_ok n h"
  by (auto simp: hops_ok_def dest!: map_of_SomeD)

lemma hops_ok_trace_line: "hops_ok hops \<Longrightarrow> hops_ok (trace_line system hops line)"
  by (auto simp: trace_line_def Let_def split: option.splits intro!: hops_ok_update dest: hops_ok_lookup)

lemma hops_ok_lines: "hops_ok hops \<Longrightarrow> hops_ok (foldl (trace_line system) hops lines)"
  by (induction lines arbitrary: hops) (auto simp: hops_ok_trace_line)

lemma by_number_sorted:
  assumes "hops_ok hops"
  shows "sorted_wrt (<) (map hp_hop (by_number hops)) \<and> (\<forall>h \<in> set (by_number hops). hop_ok (hp_hop h) h)"
proof -
  have fst: "map hp_hop (by_number hops) = map fst (sort_key fst hops)"
    using assms by (auto simp: by_number_def hops_ok_def hop_ok_def)
  have "distinct (map fst (sort_key fst hops))"
    using assms by (simp add: hops_ok_def distinct_map inj_on_def)
  then have "sorted_wrt (<) (map hp_hop (by_number hops))"
    unfolding fst by (simp add: strict_sorted_iff)
  moreover have "\<forall>h \<in> set (by_number hops). hop_ok (hp_hop h) h"
    using assms by (auto simp: by_number_def hops_ok_def hop_ok_def)
  ultimately show ?thesis by blast
qed

lemma loss_of_bounds: "0 < expected \<Longrightarrow> 0 \<le> loss_of expected n \<and> loss_of expected n \<le> 100"
proof -
  assume "0 < expected"
  then have "(of_int expected - of_nat n) / of_int expected * 100 \<le> (100 :: rat)" by (simp add: field_simps)
  then have "max 0 ((of_int expected - of_nat n) / of_int expected * 100) \<le> (100 :: rat)" by simp
  from py_round_mono [OF this, of 1] show ?thesis by (simp add: loss_of_def py_round_nonneg)
qed

section \<open>Properties\<close>

text \<open>C32: Whatever the output of the tool, the parsed hops have strictly increasing numbers, the
  samples are not negative, and every hop has a loss between 0 and 100, which is 100 for a hop that
  timed out without a sample. A line that begins with a star counts as timed out even when answers
  of the same hop follow on it.\<close>

theorem parsed_trace:
  "sorted_wrt (<) (map hp_hop (parse_traceroute_output out system)) \<and>
   (\<forall>h. h \<in> set (parse_traceroute_output out system) \<longrightarrow>
      (\<forall>x \<in> set (hp_rtts_ms h). 0 \<le> x) \<and>
      (\<exists>l. hp_loss_percent h = Some l \<and> 0 \<le> l \<and> l \<le> 100 \<and> (hp_timed_out h \<and> hp_rtts_ms h = [] \<longrightarrow> l = 100)))"
proof -
  let ?hops = "foldl (trace_line system) [] (splitlines out)"
  have "hops_ok ?hops" by (rule hops_ok_lines) (simp add: hops_ok_def)
  note ok = by_number_sorted [OF this]
  have "hp_hop \<circ> with_loss = hp_hop" by (simp add: with_loss_def fun_eq_iff)
  then have "sorted_wrt (<) (map hp_hop (parse_traceroute_output out system))"
    using ok by (simp add: parse_traceroute_output_def)
  moreover have "(\<forall>x \<in> set (hp_rtts_ms (with_loss h)). 0 \<le> x) \<and>
      (\<exists>l. hp_loss_percent (with_loss h) = Some l \<and> 0 \<le> l \<and> l \<le> 100 \<and>
        (hp_timed_out (with_loss h) \<and> hp_rtts_ms (with_loss h) = [] \<longrightarrow> l = 100))"
    if "hop_ok (hp_hop h) h" for h
    using that loss_of_bounds [of 3] by (simp add: with_loss_def hop_ok_def)
  ultimately show ?thesis using ok by (auto simp: parse_traceroute_output_def)
qed

lemma parsed_trace_witness:
  "sorted_wrt (<) (map hp_hop (parse_traceroute_output '' 2  10.0.0.1  0.5 ms  0.5 ms  0.5 ms'' ''linux'')) \<and>
   map hp_loss_percent (parse_traceroute_output '' 2  10.0.0.1  0.5 ms  0.5 ms  0.5 ms'' ''linux'') = [Some 0] \<and>
   map hp_loss_percent (parse_traceroute_output '' 3  * 10.0.0.2  9.1 ms  9.2 ms'' ''linux'') = [Some 100]"
proof -
  have "map hp_loss_percent (parse_traceroute_output '' 2  10.0.0.1  0.5 ms  0.5 ms  0.5 ms'' ''linux'') = [Some 0]"
    by code_simp
  moreover have "map hp_loss_percent (parse_traceroute_output '' 3  * 10.0.0.2  9.1 ms  9.2 ms'' ''linux'') = [Some 100]"
    by code_simp
  ultimately show ?thesis
    using parsed_trace [of "'' 2  10.0.0.1  0.5 ms  0.5 ms  0.5 ms''" "''linux''"] by blast
qed

text \<open>The clock runs strictly forward and is ahead of every stored snapshot.\<close>

definition clock_ahead :: "host_env \<Rightarrow> host \<Rightarrow> bool" where
  "clock_ahead env h =
     ((\<forall>i j. i < j \<longrightarrow> he_clock env i < he_clock env j) \<and>
      (\<forall>s \<in> set (ho_history h). sn_created_at s < he_clock env (ho_clock h)))"

text \<open>A path change is reported exactly when the fingerprint differs from that of the snapshot
  stored last for the target, and the new fingerprint is stored, also when it is missing because the
  trace failed: so a trace that fails between two equal traces is reported as two path changes.\<close>

theorem path_change_compares_last:
  assumes "clock_ahead env h" "detect_path_change env target r h = (c, h')"
  shows "(dr_status c = DEGRADED \<longleftrightarrow>
      (\<exists>p. latest_snapshot ''path'' target (ho_history h) = Some p \<and> sn_fingerprint p \<noteq> fingerprint_of r)) \<and>
    (dr_status c \<noteq> DEGRADED \<longrightarrow> dr_status c = HEALTHY) \<and>
    (get_val (dr_metrics c) ''changed'' = PBool True \<longleftrightarrow> dr_status c = DEGRADED) \<and>
    map_option sn_fingerprint (latest_snapshot ''path'' target (ho_history h')) = Some (fingerprint_of r) \<and>
    clock_ahead env h'"
proof -
  let ?now = "he_clock env (ho_clock h)"
  let ?payload = "[(''hops'', hops_of r), (''fingerprint'', opt_text (fingerprint_of r))]"
  let ?hist = "save_snapshot ?now ''path'' target ?payload (fingerprint_of r) (ho_history h)"
  have old: "sn_created_at s < ?now" if "s \<in> set (ho_history h)" for s
    using assms(1) that by (simp add: clock_ahead_def)
  note saved = latest_after_save [OF old, where domain = "''path''" and key = target
      and payload = ?payload and fp = "fingerprint_of r"]
  have c: "c = change_result target (fingerprint_of r) (latest_snapshot ''path'' target (ho_history h))"
    and h': "h' = h \<lparr> ho_clock := ho_clock h + 1, ho_history := ?hist \<rparr>"
    using assms(2) saved by (simp_all add: detect_path_change_def read_clock_def Let_def)
  have "clock_ahead env h'"
    using assms(1) old less_trans [OF old] by (auto simp: clock_ahead_def h' save_snapshot_def)
  then show ?thesis
    using saved by (auto simp: c h' change_result_def new_result_def get_val_def split: option.splits)
qed

definition three_traces :: "host \<Rightarrow> diagnostic_result list" where
  "three_traces h =
     (let env = sample_host_env (\<lambda>_. Completed 0 [] []);
          ok = (new_result ''traceroute'' ''path'' HEALTHY INFO []) \<lparr> dr_metrics := [(''path_fingerprint'', PStr ''f'')] \<rparr>;
          failed = trace_result env ''t'' ([], [], Some ''timed out'')
      in fst (for_each (detect_path_change env ''t'') [ok, failed, ok] h))"

lemma path_change_compares_last_witness:
  "dr_status (fst (detect_path_change (sample_host_env (\<lambda>_. Completed 0 [] [])) ''t''
     (trace_result (sample_host_env (\<lambda>_. Completed 0 [] [])) ''t'' ([], [], Some ''timed out'')) fresh_host)) = HEALTHY \<and>
   map dr_status (three_traces fresh_host) = [HEALTHY, DEGRADED, DEGRADED]"
proof -
  obtain c h' where c: "detect_path_change (sample_host_env (\<lambda>_. Completed 0 [] [])) ''t''
      (trace_result (sample_host_env (\<lambda>_. Completed 0 [] [])) ''t'' ([], [], Some ''timed out'')) fresh_host = (c, h')"
    by fastforce
  have "clock_ahead (sample_host_env (\<lambda>_. Completed 0 [] [])) fresh_host"
    by (simp add: clock_ahead_def sample_host_env_def fresh_host_def)
  from path_change_compares_last [OF this c] have "dr_status c = HEALTHY"
    by (auto simp: fresh_host_def latest_snapshot_def recent_def)
  moreover have "map dr_status (three_traces fresh_host) = [HEALTHY, DEGRADED, DEGRADED]" by code_simp
  ultimately show ?thesis using c by simp
qed

end
