(* ===== verification/Flow.thy ===== *)
theory Flow
  imports Analysis Host_Env
begin

text \<open>
  Model of the flow analysis (\<open>diagnostics/flow/analysis.py\<close>) and of the replay of flow
  records from a file (\<open>ingest/sflow.py\<close>, \<open>ingest/ipfix.py\<close>). A record is a value of
  the JSON file; the JSON parser is the parameter \<open>loads\<close>. The dictionary of conversations is an
  association list in the order of their first records.
\<close>

section \<open>Replaying a file\<close>

primrec load_lines :: "(string \<Rightarrow> pyval result) \<Rightarrow> string list \<Rightarrow> pyval list result" where
  "load_lines loads [] = Inr []"
| "load_lines loads (line # lines) =
     (let l = py_strip line in
      if l = [] then load_lines loads lines
      else bindR (loads l) (\<lambda>r. bindR (load_lines loads lines) (\<lambda>rs. Inr (r # rs))))"

definition load_sflow_records :: "(string \<Rightarrow> pyval result) \<Rightarrow> string \<Rightarrow> pyval list result" where
  "load_sflow_records loads file_text =
     (let text = py_strip file_text in
      if text = [] then Inr []
      else if starts_with ''['' text then
        bindR (loads text) (\<lambda>data. case data of PList xs \<Rightarrow> Inr xs | _ \<Rightarrow> Inl ValueError)
      else load_lines loads (splitlines text))"

definition load_ipfix_records :: "(string \<Rightarrow> pyval result) \<Rightarrow> string \<Rightarrow> pyval list result" where
  "load_ipfix_records loads file_text = load_sflow_records loads file_text"

section \<open>Conversations\<close>

definition ELEPHANT_SHARE :: rat where "ELEPHANT_SHARE = 1 / 4"

record flow_record =
  fl_src :: string
  fl_dst :: string
  fl_bytes :: rat
  fl_packets :: rat

definition or_val :: "pyval \<Rightarrow> pyval \<Rightarrow> pyval" where
  "or_val a b = (if truthy a then a else b)"

text \<open>\<open>rec.get(a) or rec.get(b) or d\<close>.\<close>

definition field_of :: "pyval \<Rightarrow> string \<Rightarrow> string \<Rightarrow> pyval \<Rightarrow> pyval result" where
  "field_of r a b d = bindR (dict_get r a) (\<lambda>x. bindR (dict_get r b) (\<lambda>y. Inr (or_val x (or_val y d))))"

definition read_record :: "analysis_env \<Rightarrow> pyval \<Rightarrow> flow_record result" where
  "read_record env r =
     bindR (field_of r ''src'' ''source'' (PStr ''unknown'')) (\<lambda>src.
     bindR (field_of r ''dst'' ''destination'' (PStr ''unknown'')) (\<lambda>dst.
     bindR (field_of r ''bytes'' ''octetDeltaCount'' (PInt 0)) (\<lambda>b.
     bindR (py_float env b) (\<lambda>nbytes.
     bindR (field_of r ''packets'' ''packetDeltaCount'' (PInt 0)) (\<lambda>p.
     bindR (py_float env p) (\<lambda>pkts.
       Inr \<lparr> fl_src = py_str env src, fl_dst = py_str env dst, fl_bytes = nbytes, fl_packets = pkts \<rparr>))))))"

type_synonym conversations = "((string \<times> string) \<times> (rat \<times> rat)) list"

definition count_flow :: "conversations \<Rightarrow> flow_record \<Rightarrow> conversations" where
  "count_flow pairs r =
     (let old = (case map_of pairs (fl_src r, fl_dst r) of None \<Rightarrow> (0, 0) | Some s \<Rightarrow> s)
      in AList.update (fl_src r, fl_dst r) (fst old + fl_bytes r, snd old + fl_packets r) pairs)"

definition conversations_of :: "flow_record list \<Rightarrow> conversations" where
  "conversations_of rs = foldl count_flow [] rs"

definition total_bytes :: "flow_record list \<Rightarrow> rat" where
  "total_bytes rs = sum_list (map fl_bytes rs)"

definition ranked :: "conversations \<Rightarrow> conversations" where
  "ranked pairs = sort_key (\<lambda>p. - fst (snd p)) pairs"

record talker =
  ta_src :: string
  ta_dst :: string
  ta_bytes :: rat
  ta_packets :: rat
  ta_share :: rat

definition share_of :: "rat \<Rightarrow> rat \<Rightarrow> rat" where
  "share_of total_b b = (if total_b \<noteq> 0 then py_round (b / total_b) 4 else 0)"

definition talker_of :: "rat \<Rightarrow> (string \<times> string) \<times> (rat \<times> rat) \<Rightarrow> talker" where
  "talker_of total_b p =
     \<lparr> ta_src = fst (fst p), ta_dst = snd (fst p), ta_bytes = fst (snd p), ta_packets = snd (snd p),
       ta_share = share_of total_b (fst (snd p)) \<rparr>"

definition top_talkers :: "flow_record list \<Rightarrow> talker list" where
  "top_talkers rs = map (talker_of (total_bytes rs)) (take 10 (ranked (conversations_of rs)))"

definition elephant :: "talker \<Rightarrow> bool" where
  "elephant t = (ELEPHANT_SHARE \<le> ta_share t)"

definition talker_dict :: "talker \<Rightarrow> pyval" where
  "talker_dict t = PDict [(''src'', PStr (ta_src t)), (''dst'', PStr (ta_dst t)), (''bytes'', PFloat (ta_bytes t)),
     (''packets'', PFloat (ta_packets t)), (''share'', PFloat (ta_share t))]"

definition flow_result :: "flow_record list \<Rightarrow> diagnostic_result" where
  "flow_result rs =
     (let top_t = top_talkers rs; elephants = filter elephant top_t
      in (new_result ''flow_analysis'' ''flow'' (if elephants \<noteq> [] then DEGRADED else HEALTHY)
            (if elephants \<noteq> [] then MEDIUM else INFO)
            (if elephants \<noteq> [] then str_of_nat (length elephants) @ '' elephant flow(s) dominate traffic''
             else ''Analyzed '' @ str_of_nat (length rs) @ '' flow records; no elephant flows''))
           \<lparr> dr_metrics := [(''flow_count'', PInt (int (length rs))), (''total_bytes'', PFloat (total_bytes rs)),
                (''top_talkers'', PList (map talker_dict top_t)),
                (''elephant_flows'', PList (map talker_dict elephants)),
                (''elephant_count'', PInt (int (length elephants)))],
              dr_evidence := [''Total bytes observed: '' @ str_of_int (py_trunc (total_bytes rs)),
                ''Unique conversations: '' @ str_of_nat (length (conversations_of rs))],
              dr_warnings := map (\<lambda>e. ''Elephant flow '' @ ta_src e @ '' '' @ arrow @ '' '' @ ta_dst e @ '' ('' @
                fmt_fixed 1 (ta_share e * 100) @ ''%)'') elephants \<rparr>)"

definition analyze_flows :: "analysis_env \<Rightarrow> pyval list \<Rightarrow> diagnostic_result result" where
  "analyze_flows env records =
     (if records = [] then
        Inr ((new_result ''flow_analysis'' ''flow'' UNKNOWN INFO ''No flow records to analyze'')
          \<lparr> dr_metrics := [(''flow_count'', PInt 0)] \<rparr>)
      else bindR (mapR (read_record env) records) (\<lambda>rs. Inr (flow_result rs)))"

definition collect_flow_diagnostics ::
  "analysis_env \<Rightarrow> (string \<Rightarrow> pyval result) \<Rightarrow> string \<Rightarrow> diagnostic_result list result" where
  "collect_flow_diagnostics env loads file_text =
     bindR (load_sflow_records loads file_text) (\<lambda>records. bindR (analyze_flows env records) (\<lambda>r. Inr [r]))"

section \<open>Conservation of bytes\<close>

lemma keys_count: "distinct (map fst pairs) \<Longrightarrow> distinct (map fst (count_flow pairs r))"
  by (simp add: count_flow_def distinct_update Let_def)

lemma keys_conversations: "distinct (map fst (conversations_of rs))"
proof -
  have "distinct (map fst pairs) \<Longrightarrow> distinct (map fst (foldl count_flow pairs rs))" for pairs
    by (induction rs arbitrary: pairs) (auto simp: keys_count)
  then show ?thesis by (simp add: conversations_of_def)
qed

definition bytes_of :: "conversations \<Rightarrow> rat" where
  "bytes_of pairs = sum_list (map (\<lambda>p. fst (snd p)) pairs)"

lemma bytes_update:
  "distinct (map fst pairs) \<Longrightarrow> bytes_of (AList.update k v pairs) =
     bytes_of pairs - (case map_of pairs k of None \<Rightarrow> 0 | Some w \<Rightarrow> fst w) + fst v"
  by (induction pairs) (auto simp: bytes_of_def split: option.splits)

lemma bytes_count: "distinct (map fst pairs) \<Longrightarrow> bytes_of (count_flow pairs r) = bytes_of pairs + fl_bytes r"
  by (auto simp: count_flow_def bytes_update Let_def split: option.splits)

lemma bytes_conserved: "bytes_of (conversations_of rs) = total_bytes rs"
proof -
  have "distinct (map fst pairs) \<Longrightarrow> bytes_of (foldl count_flow pairs rs) = bytes_of pairs + total_bytes rs" for pairs
    by (induction rs arbitrary: pairs) (auto simp: total_bytes_def keys_count bytes_count)
  then show ?thesis by (simp add: conversations_of_def bytes_of_def)
qed

lemma in_update: "p \<in> set (AList.update k v pairs) \<Longrightarrow> p \<in> set pairs \<or> p = (k, v)"
  by (induction pairs) (auto split: if_splits)

definition nonneg :: "conversations \<Rightarrow> bool" where
  "nonneg pairs = (\<forall>p \<in> set pairs. 0 \<le> fst (snd p))"

lemma nonneg_lookup: "nonneg pairs \<Longrightarrow> map_of pairs k = Some s \<Longrightarrow> 0 \<le> fst s"
  using map_of_SomeD [of pairs k s] by (fastforce simp: nonneg_def)

lemma nonneg_count:
  assumes "nonneg pairs" "0 \<le> fl_bytes r"
  shows "nonneg (count_flow pairs r)"
  unfolding nonneg_def
proof
  fix p assume "p \<in> set (count_flow pairs r)"
  then have "p \<in> set pairs \<or> fst (snd p) = fst (case map_of pairs (fl_src r, fl_dst r) of None \<Rightarrow> (0, 0) | Some s \<Rightarrow> s) + fl_bytes r"
    unfolding count_flow_def Let_def by (auto dest!: in_update)
  then show "0 \<le> fst (snd p)"
  proof
    assume "p \<in> set pairs"
    then show ?thesis using assms(1) by (simp add: nonneg_def)
  next
    assume "fst (snd p) = fst (case map_of pairs (fl_src r, fl_dst r) of None \<Rightarrow> (0, 0) | Some s \<Rightarrow> s) + fl_bytes r"
    then show ?thesis using nonneg_lookup [OF assms(1)] assms(2)
      by (cases "map_of pairs (fl_src r, fl_dst r)") simp_all
  qed
qed

lemma nonneg_conversations:
  assumes "\<forall>r \<in> set rs. 0 \<le> fl_bytes r"
  shows "nonneg (conversations_of rs)"
proof -
  have "nonneg pairs \<Longrightarrow> \<forall>r \<in> set rs. 0 \<le> fl_bytes r \<Longrightarrow> nonneg (foldl count_flow pairs rs)" for pairs
    by (induction rs arbitrary: pairs) (simp_all add: nonneg_count)
  from this [of "[]"] show ?thesis using assms by (simp add: conversations_of_def nonneg_def)
qed

section \<open>Elephants\<close>

lemma share_bound: "1 / 4 \<le> py_round x 4 \<Longrightarrow> 6 / 25 \<le> x"
  using py_round_error [of x 4] unfolding abs_le_iff by simp

lemma sum_list_ge: "\<forall>x \<in> set xs. c \<le> x \<Longrightarrow> of_nat (length xs) * c \<le> sum_list (xs :: rat list)"
  by (induction xs) (auto simp: algebra_simps)

lemma ranked_props:
  "mset (ranked pairs) = mset pairs" "sorted (map (\<lambda>p. - fst (snd p)) (ranked pairs))" "bytes_of (ranked pairs) = bytes_of pairs"
proof -
  show m: "mset (ranked pairs) = mset pairs" by (simp add: ranked_def)
  show "sorted (map (\<lambda>p. - fst (snd p)) (ranked pairs))" by (simp add: ranked_def)
  have "mset (map (\<lambda>p. fst (snd p)) (ranked pairs)) = mset (map (\<lambda>p. fst (snd p)) pairs)" by (simp add: m)
  then have "sum_mset (mset (map (\<lambda>p. fst (snd p)) (ranked pairs))) = sum_mset (mset (map (\<lambda>p. fst (snd p)) pairs))" by simp
  then show "bytes_of (ranked pairs) = bytes_of pairs" unfolding bytes_of_def by (simp only: sum_mset_sum_list)
qed

text \<open>A conversation with an elephant's share is among the first four of the ranking.\<close>

lemma elephant_rank:
  assumes "nonneg pairs" "i < length pairs" "ELEPHANT_SHARE \<le> share_of (bytes_of pairs) (fst (snd (ranked pairs ! i)))"
  shows "i < 4"
proof -
  let ?xs = "map (\<lambda>p. fst (snd p)) (ranked pairs)"
  have t0: "bytes_of pairs \<noteq> 0" using assms(3) by (auto simp: share_of_def ELEPHANT_SHARE_def)
  have "0 \<le> bytes_of pairs" using assms(1) unfolding bytes_of_def nonneg_def by (intro sum_list_nonneg) auto
  with t0 have t: "0 < bytes_of pairs" by simp
  have len: "length ?xs = length pairs" using arg_cong [OF ranked_props(1) [of pairs], of size] by simp
  have "6 / 25 \<le> ?xs ! i / bytes_of pairs"
    using assms(2,3) t0 len by (intro share_bound) (auto simp: share_of_def ELEPHANT_SHARE_def)
  then have big: "6 / 25 * bytes_of pairs \<le> ?xs ! i" using t by (simp add: field_simps)
  have "?xs ! i \<le> x" if "x \<in> set (take (Suc i) ?xs)" for x
  proof -
    from that obtain j where "j < length (take (Suc i) ?xs)" "take (Suc i) ?xs ! j = x"
      unfolding in_set_conv_nth by blast
    then have j: "j \<le> i" "x = ?xs ! j" by auto
    have "map (\<lambda>p. - fst (snd p)) (ranked pairs) ! j \<le> map (\<lambda>p. - fst (snd p)) (ranked pairs) ! i"
      using j(1) assms(2) len by (intro sorted_nth_mono ranked_props) auto
    then show ?thesis using j assms(2) len by simp
  qed
  then have "of_nat (length (take (Suc i) ?xs)) * ?xs ! i \<le> sum_list (take (Suc i) ?xs)"
    by (intro sum_list_ge) blast
  also have "\<dots> \<le> sum_list (take (Suc i) ?xs) + sum_list (drop (Suc i) ?xs)"
    using assms(1) mset_eq_setD [OF ranked_props(1) [of pairs]]
    by (auto simp: nonneg_def intro!: sum_list_nonneg dest!: in_set_dropD)
  also have "\<dots> = bytes_of pairs"
    using ranked_props(3) [of pairs] unfolding bytes_of_def by (metis append_take_drop_id sum_list_append)
  finally have "of_nat (Suc i) * ?xs ! i \<le> bytes_of pairs" using assms(2) len by simp
  moreover have "of_nat (Suc i) * (6 / 25 * bytes_of pairs) \<le> of_nat (Suc i) * ?xs ! i"
    by (rule mult_left_mono [OF big]) simp
  ultimately have "of_nat (Suc i) * (6 / 25) * bytes_of pairs \<le> 1 * bytes_of pairs" by (simp only: mult.assoc mult_1)
  then have "of_nat (Suc i) * (6 / 25) \<le> (1 :: rat)" using t by (simp only: mult_le_cancel_right_pos)
  then have "of_nat (6 * Suc i) \<le> (of_nat 25 :: rat)" by simp
  then have "6 * Suc i \<le> 25" by (simp only: of_nat_le_iff)
  then show ?thesis by simp
qed

definition conversation_elephants :: "flow_record list \<Rightarrow> conversations" where
  "conversation_elephants rs =
     filter (\<lambda>p. ELEPHANT_SHARE \<le> share_of (total_bytes rs) (fst (snd p))) (ranked (conversations_of rs))"

lemma filter_take_all:
  assumes "\<And>i. i < length xs \<Longrightarrow> P (xs ! i) \<Longrightarrow> i < n"
  shows "filter P (take n xs) = filter P xs"
proof -
  have "filter P (drop n xs) = []"
  proof (rule ccontr)
    assume "filter P (drop n xs) \<noteq> []"
    then obtain x where "x \<in> set (drop n xs)" "P x" by (auto simp: filter_empty_conv)
    then obtain k where "k < length (drop n xs)" "P (drop n xs ! k)" by (auto simp: in_set_conv_nth)
    then have "n + k < length xs" "P (xs ! (n + k))" by auto
    then show False using assms [of "n + k"] by simp
  qed
  then show ?thesis by (metis append_Nil2 append_take_drop_id filter_append)
qed

lemma elephants_in_rank:
  assumes "\<forall>r \<in> set rs. 0 \<le> fl_bytes r" "i < length (ranked (conversations_of rs))"
    "ELEPHANT_SHARE \<le> share_of (total_bytes rs) (fst (snd (ranked (conversations_of rs) ! i)))"
  shows "i < 4"
  using elephant_rank [OF nonneg_conversations [OF assms(1)], of i] assms(2,3)
    arg_cong [OF ranked_props(1) [of "conversations_of rs"], of size] bytes_conserved [of rs] by simp

text \<open>The analysis conserves bytes: the conversations share the total of the records. For records
  without negative bytes, the reported elephants are all conversations whose share is at least a
  quarter, the limit to the ten largest hides none of them, and there are at most four.\<close>

theorem elephants_complete:
  assumes "\<forall>r \<in> set rs. 0 \<le> fl_bytes r"
  shows "bytes_of (conversations_of rs) = total_bytes rs \<and>
    filter elephant (top_talkers rs) = map (talker_of (total_bytes rs)) (conversation_elephants rs) \<and>
    length (conversation_elephants rs) \<le> 4 \<and>
    (dr_status (flow_result rs) = DEGRADED \<longleftrightarrow> conversation_elephants rs \<noteq> [])"
proof -
  let ?P = "\<lambda>p. ELEPHANT_SHARE \<le> share_of (total_bytes rs) (fst (snd p))"
  let ?r = "ranked (conversations_of rs)"
  have e: "elephant (talker_of (total_bytes rs) p) = ?P p" for p by (simp add: elephant_def talker_of_def)
  have four: "filter ?P (take n ?r) = filter ?P ?r" if "4 \<le> n" for n
    by (rule filter_take_all) (use elephants_in_rank [OF assms] that in fastforce)
  have "filter elephant (top_talkers rs) = map (talker_of (total_bytes rs)) (filter ?P (take 10 ?r))"
    by (simp add: top_talkers_def filter_map comp_def e)
  then have top10: "filter elephant (top_talkers rs) = map (talker_of (total_bytes rs)) (conversation_elephants rs)"
    using four [of 10] by (simp add: conversation_elephants_def)
  have "length (filter ?P (take 4 ?r)) \<le> 4" using length_filter_le [of ?P "take 4 ?r"] by simp
  then have "length (conversation_elephants rs) \<le> 4" using four [of 4] by (simp add: conversation_elephants_def)
  then show ?thesis using top10 bytes_conserved by (simp add: flow_result_def Let_def new_result_def)
qed

lemma elephants_complete_witness:
  "length (conversation_elephants [flow_record.make ''a'' ''b'' 60 1, flow_record.make ''a'' ''c'' 30 1,
     flow_record.make ''a'' ''b'' 10 1]) = 2 \<and>
   dr_status (flow_result [flow_record.make ''a'' ''b'' 60 1, flow_record.make ''a'' ''c'' 30 1,
     flow_record.make ''a'' ''b'' 10 1]) = DEGRADED"
proof -
  let ?rs = "[flow_record.make ''a'' ''b'' 60 1, flow_record.make ''a'' ''c'' 30 1, flow_record.make ''a'' ''b'' 10 1]"
  have two: "length (conversation_elephants ?rs) = 2" by code_simp
  then have "conversation_elephants ?rs \<noteq> []" by auto
  then show ?thesis using elephants_complete [of ?rs] two by (simp add: flow_record.defs)
qed

end
