(* ===== verification/Agent.thy ===== *)
theory Agent
  imports Http_Api Link_Probes Path
begin

text \<open>
  Model of the remote agent: its configuration (\<open>agent/config.py\<close>), the service
  (\<open>agent/service.py\<close>) and the HTTP handler in front of it (\<open>agent/http_server.py\<close>).

  The agent runs the probes of the host it is on, so its state is that \<open>host\<close> and the number of
  readings of the performance counter and of observations made. Every observation takes a fresh
  identifier and the time from the environment. The parsing of a JSON body into the fields of a
  probe request is pydantic's (\<open>ae_request\<close>); the constraints the model declares are checked by
  \<open>validate_probe_request\<close>.
\<close>

section \<open>Configuration\<close>

record agent_config =
  ac_agent_id :: string
  ac_bearer_token :: string
  ac_hostname :: string
  ac_allowed_targets :: "string list"
  ac_topology_tags :: "(string \<times> string) list"

type_synonym variables = "(string \<times> string) list"

definition env_get :: "variables \<Rightarrow> string \<Rightarrow> string \<Rightarrow> string" where
  "env_get vars name d = (case map_of vars name of None \<Rightarrow> d | Some v \<Rightarrow> v)"

definition tag_prefix :: string where
  "tag_prefix = ''NETFORGE_TAG_''"

definition tag_of :: "string \<times> string \<Rightarrow> (string \<times> string) option" where
  "tag_of entry =
     (case entry of (key, v) \<Rightarrow>
       if starts_with tag_prefix key \<and> v \<noteq> [] then Some (py_lower (drop (length tag_prefix) key), v) else None)"

text \<open>A later variable of the same lowered name replaces the value of an earlier one.\<close>

definition dict_from :: "(string \<times> 'v) list \<Rightarrow> (string \<times> 'v) list" where
  "dict_from pairs = foldl (\<lambda>d p. AList.update (fst p) (snd p) d) [] pairs"

definition targets_of :: "string \<Rightarrow> string list" where
  "targets_of text = filter (\<lambda>t. t \<noteq> []) (map py_strip (split_on CHR '','' text))"

definition agent_from_env :: "string \<Rightarrow> variables \<Rightarrow> agent_config result" where
  "agent_from_env gethostname vars =
     (let agent_id = py_strip (env_get vars ''NETFORGE_AGENT_ID'' []);
          token = env_get vars ''NETFORGE_AGENT_TOKEN'' []
      in if agent_id = [] \<or> token = [] then Inl ValueError
         else Inr \<lparr> ac_agent_id = agent_id, ac_bearer_token = token, ac_hostname = gethostname,
                ac_allowed_targets = targets_of (env_get vars ''NETFORGE_ALLOWED_TARGETS'' []),
                ac_topology_tags = dict_from (List.map_filter tag_of vars) \<rparr>)"

record controller_config =
  cc_controller_token :: string
  cc_agent_token :: string
  cc_database_path :: string

definition controller_from_env :: "variables \<Rightarrow> controller_config result" where
  "controller_from_env vars =
     (let controller_token = env_get vars ''NETFORGE_CONTROLLER_TOKEN'' [];
          agent_token = env_get vars ''NETFORGE_AGENT_TOKEN'' []
      in if controller_token = [] \<or> agent_token = [] then Inl ValueError
         else Inr \<lparr> cc_controller_token = controller_token, cc_agent_token = agent_token,
                cc_database_path = env_get vars ''NETFORGE_CONTROLLER_DB'' ''.netforge_controller.db'' \<rparr>)"

section \<open>State\<close>

record agent_env =
  ae_host :: host_env
  ae_perf_counter :: "nat \<Rightarrow> rat"
  ae_uuid :: "nat \<Rightarrow> string"
  ae_now :: "nat \<Rightarrow> rat"
  ae_loads :: "byte list \<Rightarrow> pyval option"
  ae_request :: "body \<Rightarrow> probe_request result"
  ae_message :: "py_error \<Rightarrow> string"

record agent =
  ag_host :: host
  ag_readings :: nat
  ag_observations :: nat

text \<open>An action on the host, run by the agent.\<close>

definition on_host :: "(host, 'a) act \<Rightarrow> (agent, 'a) act" where
  "on_host m a = (case m (ag_host a) of (r, h) \<Rightarrow> (r, a \<lparr> ag_host := h \<rparr>))"

definition perf_counter :: "agent_env \<Rightarrow> (agent, rat) act" where
  "perf_counter env a = (Inr (ae_perf_counter env (ag_readings a)), a \<lparr> ag_readings := ag_readings a + 1 \<rparr>)"

section \<open>The service\<close>

definition authorize :: "agent_config \<Rightarrow> string option \<Rightarrow> unit result" where
  "authorize config authorization =
     (case authorization of
        None \<Rightarrow> Inl AuthorizationError
      | Some a \<Rightarrow>
          if a = [] then Inl AuthorizationError
          else bindR (compare_digest a (''Bearer '' @ ac_bearer_token config)) (\<lambda>same.
            if same then Inr () else Inl AuthorizationError))"

definition authorize_target :: "agent_config \<Rightarrow> probe_request \<Rightarrow> unit result" where
  "authorize_target config request =
     (if \<not> targeted_probe (pr_probe_type request) then Inr ()
      else if ac_allowed_targets config = [] then
        Inl (TargetNotAllowedError ''agent has no allowed targets configured'')
      else (case pr_target request of
              Some t \<Rightarrow> if t \<in> set (ac_allowed_targets config) then Inr ()
                        else Inl (TargetNotAllowedError (''target is not allowed: '' @ t))
            | None \<Rightarrow> Inl (TargetNotAllowedError ''target is not allowed: None'')))"

definition or_blank :: "string option \<Rightarrow> string" where
  "or_blank t = (case t of None \<Rightarrow> [] | Some s \<Rightarrow> s)"

definition port_or_zero :: "int option \<Rightarrow> int" where
  "port_or_zero p = (case p of None \<Rightarrow> 0 | Some n \<Rightarrow> n)"

definition run_probe :: "host_env \<Rightarrow> probe_request \<Rightarrow> (host, diagnostic_result list) act" where
  "run_probe env request =
     (let target = or_blank (pr_target request); one = (\<lambda>m. bindA m (\<lambda>r. returnA [r])) in
      case pr_probe_type request of
        ICMP \<Rightarrow> one (totalA (ping_host env target (pr_count request)))
      | TCP \<Rightarrow> one (test_tcp env target (port_or_zero (pr_port request)) (pr_timeout_seconds request))
      | DNS \<Rightarrow> bindA (resolve_hostname env target) (\<lambda>r.
               bindA (get_dns_servers env) (\<lambda>servers. returnA [with_servers servers r]))
      | TRACEROUTE \<Rightarrow> one (totalA (traceroute_to_result env target (pr_max_hops request)))
      | INTERFACES \<Rightarrow> totalA (inspect_interfaces env)
      | ROUTE \<Rightarrow> one (inspect_routing_table env)
      | GATEWAY \<Rightarrow> one (check_gateway_reachability env None (pr_count request)))"

text \<open>The raw output a probe kept is evidence, also when it is empty.\<close>

definition raw_evidence_of :: "diagnostic_result \<Rightarrow> (string \<times> pyval) list" where
  "raw_evidence_of r =
     (let raw = get_val (dr_metadata r) ''raw_output'' in if raw = PNone then [] else [(''raw_output'', raw)])"

definition sample_count_of :: "probe_request \<Rightarrow> int" where
  "sample_count_of request = (if pr_probe_type request \<in> {ICMP, TRACEROUTE} then pr_count request else 1)"

definition context_of ::
  "agent_env \<Rightarrow> agent_config \<Rightarrow> probe_request \<Rightarrow> rat \<Rightarrow> nat \<Rightarrow> diagnostic_result \<Rightarrow> observation_context" where
  "context_of env config request duration_ms n r =
     \<lparr> oc_schema_version = ''1.0'', oc_observation_id = ae_uuid env n, oc_timestamp = (ae_now env n, Some 0),
       oc_agent_id = ac_agent_id config, oc_hostname = ac_hostname config,
       oc_probe_type = probe_type_value (pr_probe_type request),
       oc_target = (if some_text (pr_target request) then pr_target request else dr_target r),
       oc_source_ip = None, oc_source_interface = pr_source_interface request, oc_target_interface = None,
       oc_sample_count = sample_count_of request, oc_duration_ms = Some duration_ms,
       oc_topology_tags = ac_topology_tags config, oc_raw_evidence = raw_evidence_of r,
       oc_evidence_quality = (if raw_evidence_of r \<noteq> [] then PARSED_EXTERNAL else SINGLE_SOURCE),
       oc_confidence = None \<rparr>"

definition to_observation ::
  "agent_env \<Rightarrow> agent_config \<Rightarrow> probe_request \<Rightarrow> rat \<Rightarrow> diagnostic_result \<Rightarrow> (agent, agent_observation) act" where
  "to_observation env config request duration_ms r a =
     (bindR (validate_remote_context (context_of env config request duration_ms (ag_observations a) r)) (\<lambda>c.
        Inr \<lparr> ao_context = c, ao_result = r \<rparr>),
      a \<lparr> ag_observations := ag_observations a + 1 \<rparr>)"

definition probe :: "agent_env \<Rightarrow> agent_config \<Rightarrow> probe_request \<Rightarrow> (agent, agent_observation list) act" where
  "probe env config request =
     bindA (liftA (authorize_target config request)) (\<lambda>_.
     bindA (perf_counter env) (\<lambda>started.
     bindA (on_host (run_probe (ae_host env) request)) (\<lambda>results.
     bindA (perf_counter env) (\<lambda>stopped.
       mapA (to_observation env config request (py_round ((stopped - started) * 1000) 2)) results))))"

record interface_entry =
  ie_name :: string
  ie_is_up :: bool
  ie_speed_mbps :: int
  ie_mtu :: int

record agent_inventory =
  ai_agent_id :: string
  ai_hostname :: string
  ai_topology_tags :: "(string \<times> string) list"
  ai_interfaces :: "interface_entry list"
  ai_capabilities :: "string list"

definition inventory :: "agent_env \<Rightarrow> agent_config \<Rightarrow> (agent, agent_inventory) act" where
  "inventory env config =
     bindA (on_host (askA (he_if_stats (ae_host env)))) (\<lambda>stats.
       returnA \<lparr> ai_agent_id = ac_agent_id config, ai_hostname = ac_hostname config,
         ai_topology_tags = ac_topology_tags config,
         ai_interfaces = map (\<lambda>(name, st). \<lparr> ie_name = name, ie_is_up = is_isup st, ie_speed_mbps = is_speed st,
                                ie_mtu = is_mtu st \<rparr>) stats,
         ai_capabilities = map probe_type_value [ICMP, TCP, DNS, TRACEROUTE, INTERFACES, ROUTE, GATEWAY] \<rparr>)"

section \<open>The HTTP handler\<close>

datatype agent_payload =
    A_Error string
  | A_Health string
  | A_Inventory agent_inventory
  | A_Results "agent_observation list"

record agent_reply =
  ar_status :: http_status
  ar_payload :: agent_payload

definition agent_answer :: "http_status \<Rightarrow> agent_payload \<Rightarrow> (agent, agent_reply) act" where
  "agent_answer status p = returnA \<lparr> ar_status = status, ar_payload = p \<rparr>"

definition agent_error_text :: "agent_env \<Rightarrow> py_error \<Rightarrow> string" where
  "agent_error_text env e =
     (case e of TargetNotAllowedError m \<Rightarrow> m
      | AuthorizationError \<Rightarrow> ''valid bearer token required''
      | _ \<Rightarrow> ae_message env e)"

text \<open>The two \<open>except\<close> clauses; every other exception leaves the handler.\<close>

definition agent_catch :: "agent_env \<Rightarrow> (agent, agent_reply) act \<Rightarrow> (agent, agent_reply) act" where
  "agent_catch env m a =
     (case m a of
        (Inr r, a') \<Rightarrow> (Inr r, a')
      | (Inl e, a') \<Rightarrow>
          (case e of
             AuthorizationError \<Rightarrow> agent_answer UNAUTHORIZED_401 (A_Error (agent_error_text env e)) a'
           | ValidationError \<Rightarrow> agent_answer BAD_REQUEST_400 (A_Error (agent_error_text env e)) a'
           | TargetNotAllowedError m \<Rightarrow> agent_answer BAD_REQUEST_400 (A_Error (agent_error_text env e)) a'
           | _ \<Rightarrow> (Inl e, a')))"

definition agent_route ::
  "agent_env \<Rightarrow> agent_config \<Rightarrow> http_request \<Rightarrow> body option \<Rightarrow> (agent, agent_reply) act" where
  "agent_route env config req b =
     bindA (liftA (authorize config (hr_authorization req))) (\<lambda>_.
       if hr_method req = GET \<and> hr_target req = ''/v1/health'' then
         agent_answer OK_200 (A_Health (ac_agent_id config))
       else if hr_method req = GET \<and> hr_target req = ''/v1/inventory'' then
         bindA (inventory env config) (\<lambda>i. agent_answer OK_200 (A_Inventory i))
       else if hr_method req = POST \<and> hr_target req = ''/v1/probe'' then
         bindA (liftA (bindR (ae_request env (or_empty b)) validate_probe_request)) (\<lambda>request.
         bindA (probe env config request) (\<lambda>observations. agent_answer OK_200 (A_Results observations)))
       else agent_answer NOT_FOUND_404 (A_Error ''unknown endpoint''))"

definition agent_dispatch ::
  "agent_env \<Rightarrow> agent_config \<Rightarrow> http_request \<Rightarrow> body option \<Rightarrow> (agent, agent_reply) act" where
  "agent_dispatch env config req b = agent_catch env (agent_route env config req b)"

text \<open>The handler has the methods GET and POST; the base class answers any other method with 501.\<close>

definition agent_handle :: "agent_env \<Rightarrow> agent_config \<Rightarrow> http_request \<Rightarrow> (agent, agent_reply) act" where
  "agent_handle env config req =
     (case hr_method req of
        GET \<Rightarrow> agent_dispatch env config req None
      | POST \<Rightarrow>
          (case read_json_body (ae_loads env) (hr_content_length req) (hr_stream req) MAX_BODY_BYTES of
             Inr b \<Rightarrow> agent_dispatch env config req (Some b)
           | Inl BodyTooLarge \<Rightarrow> agent_answer ENTITY_TOO_LARGE_413 (A_Error (agent_error_text env BodyTooLarge))
           | Inl MalformedBody \<Rightarrow> agent_answer BAD_REQUEST_400 (A_Error (agent_error_text env MalformedBody))
           | Inl e \<Rightarrow> failA e)
      | DELETE \<Rightarrow> agent_answer NOT_IMPLEMENTED_501 (A_Error ''Unsupported method''))"

section \<open>What the agent lets through\<close>

lemma agent_answer_simps [simp]:
  "agent_answer status p a = (Inr \<lparr> ar_status = status, ar_payload = p \<rparr>, a)"
  by (simp add: agent_answer_def returnA_def)

lemma authorize_Inr [simp]:
  "authorize config h = Inr u \<longleftrightarrow>
     h = Some (''Bearer '' @ ac_bearer_token config) \<and> ascii (''Bearer '' @ ac_bearer_token config)"
  by (auto simp: authorize_def compare_digest_def split: option.splits)

lemma authorize_target_Inr:
  "authorize_target config request = Inr u \<longleftrightarrow>
     (targeted_probe (pr_probe_type request) \<longrightarrow>
        (\<exists>t \<in> set (ac_allowed_targets config). pr_target request = Some t))"
  by (auto simp: authorize_target_def split: option.splits)

lemma authorize_target_errors: "authorize_target config request = Inl e \<Longrightarrow> \<exists>m. e = TargetNotAllowedError m"
  by (auto simp: authorize_target_def split: if_splits option.splits)

lemma snd_agent_catch [simp]: "snd (agent_catch env m a) = snd (m a)"
  by (auto simp: agent_catch_def split: prod.splits sum.splits py_error.splits)

lemma snd_liftA_bind: "snd (bindA (liftA r) f a) = (case r of Inl e \<Rightarrow> a | Inr x \<Rightarrow> snd (f x a))"
  by (simp split: sum.splits)

text \<open>A probe request that was read, is well formed and names no target outside the list.\<close>

definition permitted :: "agent_env \<Rightarrow> agent_config \<Rightarrow> body \<Rightarrow> probe_request \<Rightarrow> bool" where
  "permitted env config b request =
     (bindR (ae_request env b) validate_probe_request = Inr request \<and>
      (targeted_probe (pr_probe_type request) \<longrightarrow>
         (\<exists>t \<in> set (ac_allowed_targets config). pr_target request = Some t)))"

lemma probe_not_permitted:
  assumes "authorize_target config request = Inl e"
  shows "probe env config request a = (Inl e, a)"
  using assms by (simp add: probe_def)

lemma agent_route_changes:
  assumes "snd (agent_route env config req b a) \<noteq> a"
  shows "hr_authorization req = Some (''Bearer '' @ ac_bearer_token config) \<and>
    (hr_method req = GET \<and> hr_target req = ''/v1/inventory'' \<or>
     (\<exists>request. hr_method req = POST \<and> hr_target req = ''/v1/probe'' \<and> permitted env config (or_empty b) request))"
proof -
  have auth: "authorize config (hr_authorization req) = Inr ()"
    using assms by (cases "authorize config (hr_authorization req)") (auto simp: agent_route_def)
  have "\<exists>request. permitted env config (or_empty b) request"
    if post: "hr_method req = POST" "hr_target req = ''/v1/probe''"
  proof (cases "bindR (ae_request env (or_empty b)) validate_probe_request")
    case (Inl e)
    then show ?thesis using assms auth post by (simp add: agent_route_def)
  next
    case (Inr request)
    show ?thesis
    proof (cases "authorize_target config request")
      case (Inl e)
      then show ?thesis using assms auth post Inr by (simp add: agent_route_def probe_not_permitted bindA_Inl)
    next
      case ok: (Inr u)
      then show ?thesis using Inr by (auto simp: permitted_def authorize_target_Inr)
    qed
  qed
  then show ?thesis using assms auth
    by (auto simp: agent_route_def split: if_splits)
qed

section \<open>What the agent reports\<close>

text \<open>The observation of a result, as a function: the context with the confidence of its quality.\<close>

definition observed ::
  "agent_env \<Rightarrow> agent_config \<Rightarrow> probe_request \<Rightarrow> rat \<Rightarrow> nat \<Rightarrow> diagnostic_result \<Rightarrow> agent_observation" where
  "observed env config request duration_ms n r =
     (let c = context_of env config request duration_ms n r
      in \<lparr> ao_context = c \<lparr> oc_confidence := Some (quality_confidence (oc_evidence_quality c)) \<rparr>, ao_result = r \<rparr>)"

definition sound_config :: "agent_config \<Rightarrow> bool" where
  "sound_config config = (ac_agent_id config \<noteq> [] \<and> ac_hostname config \<noteq> [] \<and> ac_bearer_token config \<noteq> [])"

lemma agent_from_env_sound:
  assumes "agent_from_env gethostname vars = Inr config" "gethostname \<noteq> []"
  shows "sound_config config \<and> [] \<notin> set (ac_allowed_targets config)"
  using assms by (auto simp: agent_from_env_def sound_config_def targets_of_def Let_def split: if_splits)

lemma context_fields:
  assumes "sound_config config" "0 \<le> duration_ms" "0 \<le> pr_count request"
  shows "context_fields_ok (context_of env config request duration_ms n r)"
  using assms
  by (cases "pr_probe_type request") (simp_all add: context_fields_ok_def context_of_def sound_config_def sample_count_of_def)

lemma to_observation_ok:
  assumes "sound_config config" "0 \<le> duration_ms" "0 \<le> pr_count request"
  shows "to_observation env config request duration_ms r a =
    (Inr (observed env config request duration_ms (ag_observations a) r), a \<lparr> ag_observations := ag_observations a + 1 \<rparr>)"
  using context_fields [OF assms]
  by (simp add: to_observation_def validate_remote_context_def observed_def context_of_def Let_def)

lemma observations_ok:
  assumes "sound_config config" "0 \<le> duration_ms" "0 \<le> pr_count request"
  shows "mapA (to_observation env config request duration_ms) rs a =
    (Inr (map (\<lambda>(i, r). observed env config request duration_ms (ag_observations a + i) r) (enumerate 0 rs)),
     a \<lparr> ag_observations := ag_observations a + length rs \<rparr>)"
proof (induction rs arbitrary: a)
  case (Cons r rs)
  have shift: "map (\<lambda>(i, r). f (Suc n + i) r) (enumerate 0 xs) = map (\<lambda>(i, r). f (n + i) r) (enumerate (Suc 0) xs)"
    for f :: "nat \<Rightarrow> diagnostic_result \<Rightarrow> agent_observation" and n xs
    by (rule nth_equalityI) (auto simp: nth_enumerate_eq)
  note step = bindA_Inr [where m = "to_observation env config request duration_ms r" and s = a,
      OF to_observation_ok [OF assms, of env r a]]
    bindA_Inr [where m = "mapA (to_observation env config request duration_ms) rs"
      and s = "a \<lparr> ag_observations := ag_observations a + 1 \<rparr>",
      OF Cons.IH [of "a \<lparr> ag_observations := ag_observations a + 1 \<rparr>"]]
  show ?case
    using shift [of "observed env config request duration_ms" "ag_observations a" rs]
    by (simp add: step returnA_def del: One_nat_def) simp
qed (simp add: returnA_def)

lemma observed_valid:
  assumes "sound_config config" "0 \<le> duration_ms" "0 \<le> pr_count request"
  shows "validate_remote_context (ao_context (observed env config request duration_ms n r)) =
    Inr (ao_context (observed env config request duration_ms n r))"
proof -
  have "0 \<le> quality_confidence q" "quality_confidence q \<le> 1" for q by (cases q; simp)+
  then show ?thesis using context_fields [OF assms, of env n r]
    by (simp add: observed_def validate_remote_context_def Let_def context_of_def context_fields_ok_def)
qed

lemma observed_simps:
  "ao_result (observed env config request d n r) = r"
  "oc_agent_id (ao_context (observed env config request d n r)) = ac_agent_id config"
  "oc_hostname (ao_context (observed env config request d n r)) = ac_hostname config"
  "oc_probe_type (ao_context (observed env config request d n r)) = probe_type_value (pr_probe_type request)"
  "oc_observation_id (ao_context (observed env config request d n r)) = ae_uuid env n"
  "oc_sample_count (ao_context (observed env config request d n r)) = sample_count_of request"
  "oc_evidence_quality (ao_context (observed env config request d n r)) =
     (if get_val (dr_metadata r) ''raw_output'' = PNone then SINGLE_SOURCE else PARSED_EXTERNAL)"
  "oc_confidence (ao_context (observed env config request d n r)) =
     Some (quality_confidence (oc_evidence_quality (ao_context (observed env config request d n r))))"
  by (simp_all add: observed_def context_of_def raw_evidence_of_def Let_def)

lemma perf_duration:
  assumes "\<forall>i. ae_perf_counter env i \<le> ae_perf_counter env (Suc i)"
  shows "0 \<le> py_round ((ae_perf_counter env (Suc n) - ae_perf_counter env n) * 1000) 2"
  using assms by (intro py_round_nonneg) simp

lemma probe_runs:
  assumes "authorize_target config request = Inr u" "run_probe (ae_host env) request (ag_host a) = (Inr results, h)"
  shows "probe env config request a = mapA (to_observation env config request
    (py_round ((ae_perf_counter env (Suc (ag_readings a)) - ae_perf_counter env (ag_readings a)) * 1000) 2)) results
    (a \<lparr> ag_host := h, ag_readings := Suc (Suc (ag_readings a)) \<rparr>)"
  using assms by (simp add: probe_def perf_counter_def on_host_def bindA_def liftA_def)

text \<open>An exception of another class leaves the handler: a header that is not ASCII gets no reply.\<close>

lemma agent_header_unanswered:
  assumes "hr_method req = GET" "hr_authorization req = Some h" "h \<noteq> []" "\<not> ascii h"
  shows "agent_handle env config req a = (Inl TypeError, a)"
  using assms
  by (simp add: agent_handle_def agent_dispatch_def agent_catch_def agent_route_def authorize_def compare_digest_def)

section \<open>A concrete agent\<close>

definition sample_vars :: variables where
  "sample_vars = [(''NETFORGE_AGENT_ID'', '' a1 ''), (''NETFORGE_AGENT_TOKEN'', ''t''),
     (''NETFORGE_ALLOWED_TARGETS'', ''10.0.0.1, 10.0.0.2,''), (''NETFORGE_TAG_SITE'', ''x''), (''NETFORGE_TAG_site'', ''y'')]"

definition sample_config :: agent_config where
  "sample_config = \<lparr> ac_agent_id = ''a1'', ac_bearer_token = ''t'', ac_hostname = ''h'',
     ac_allowed_targets = [''10.0.0.1'', ''10.0.0.2''], ac_topology_tags = [(''site'', ''y'')] \<rparr>"

lemma sample_config: "agent_from_env ''h'' sample_vars = Inr sample_config"
  by code_simp

definition icmp_request :: "string \<Rightarrow> probe_request" where
  "icmp_request t = \<lparr> pr_probe_type = ICMP, pr_target = Some t, pr_port = None, pr_count = 3, pr_max_hops = 20,
     pr_timeout_seconds = 5, pr_source_interface = None \<rparr>"

definition sample_agent_env :: "string \<Rightarrow> agent_env" where
  "sample_agent_env t =
     \<lparr> ae_host = sample_host_env (\<lambda>_. Completed 0 [] []), ae_perf_counter = of_nat, ae_uuid = (\<lambda>n. replicate n CHR ''u''),
       ae_now = of_nat, ae_loads = (\<lambda>_. Some (PDict [])), ae_request = (\<lambda>_. Inr (icmp_request t)),
       ae_message = (\<lambda>_. []) \<rparr>"

definition probe_call :: http_request where
  "probe_call = \<lparr> hr_method = POST, hr_target = ''/v1/probe'', hr_authorization = Some ''Bearer t'',
     hr_content_length = Some ''2'', hr_stream = [123, 125] \<rparr>"

definition fresh_agent :: agent where
  "fresh_agent = \<lparr> ag_host = fresh_host, ag_readings = 0, ag_observations = 0 \<rparr>"

section \<open>Properties\<close>





end
