(* ===== verification/Typed_Results.thy ===== *)
theory Typed_Results
  imports Default_Rules
begin

text \<open>
  The contract between the probes and the rules. The metrics of a result are a dictionary of dynamic
  values; a rule that finds a value of another type than it expects raises. \<open>typed_result\<close> says
  which types the rules of \<open>analysis/rules\<close> and the queries of \<open>analysis/context.py\<close> and
  \<open>analysis/evidence.py\<close> rely on, and the section on the rules shows that none of them raises on
  results that keep to it.
\<close>

section \<open>Types of metrics\<close>

definition is_number :: "pyval \<Rightarrow> bool" where
  "is_number v = (case v of PBool _ \<Rightarrow> True | PInt _ \<Rightarrow> True | PFloat _ \<Rightarrow> True | _ \<Rightarrow> False)"

definition num_or_none :: "pyval \<Rightarrow> bool" where
  "num_or_none v = (v = PNone \<or> is_number v)"

definition text_list :: "pyval \<Rightarrow> bool" where
  "text_list v = (case v of PList xs \<Rightarrow> list_all (\<lambda>x. case x of PStr _ \<Rightarrow> True | _ \<Rightarrow> False) xs | _ \<Rightarrow> False)"

definition typed_hop :: "pyval \<Rightarrow> bool" where
  "typed_hop h = (case h of
     PDict d \<Rightarrow> num_or_none (get_val d ''loss_percent'') \<and> num_or_none (get_val d ''avg_rtt_ms'') | _ \<Rightarrow> False)"

definition typed_flow :: "pyval \<Rightarrow> bool" where
  "typed_flow f = (case f of
     PDict d \<Rightarrow> (case map_of d ''share'' of None \<Rightarrow> True | Some v \<Rightarrow> is_number v) | _ \<Rightarrow> False)"

definition list_of :: "(pyval \<Rightarrow> bool) \<Rightarrow> pyval \<Rightarrow> bool" where
  "list_of P v = (case v of PList xs \<Rightarrow> list_all P xs | _ \<Rightarrow> False)"

text \<open>A number or \<open>None\<close>; a number whenever the key is there; lists.\<close>

definition optional_keys :: "string list" where
  "optional_keys = [''packet_loss_percent'', ''avg_ms'', ''jitter_ms'', ''util_percent'', ''resolution_time_ms'',
     ''congestion_score'', ''ratio'', ''sample_count'', ''failed_count'', ''target_count'']"

definition strict_keys :: "string list" where
  "strict_keys = [''drops_per_sec'', ''errors_per_sec'', ''active_drops_per_sec'', ''active_errors_per_sec'',
     ''cpu_percent'', ''memory_percent'']"

definition metric_type :: "string \<Rightarrow> pyval \<Rightarrow> bool" where
  "metric_type k v =
     (if k \<in> set optional_keys then num_or_none v
      else if k \<in> set strict_keys then is_number v
      else if k = ''hops'' then list_of typed_hop v
      else if k = ''dns_servers'' then text_list v
      else if k = ''elephant_flows'' then list_of typed_flow v
      else True)"

definition typed_metrics :: "(string \<times> pyval) list \<Rightarrow> bool" where
  "typed_metrics d = list_all (\<lambda>(k, v). metric_type k v) d"

text \<open>The rule for a failed destination also needs a name of every connectivity target.\<close>

definition typed_result :: "diagnostic_result \<Rightarrow> bool" where
  "typed_result r = (typed_metrics (dr_metrics r) \<and> (dr_module r = ''connectivity'' \<longrightarrow> some_text (dr_target r)))"

lemma is_number_simps [simp]:
  "is_number (PBool b)" "is_number (PInt i)" "is_number (PFloat x)" "\<not> is_number PNone" "\<not> is_number (PStr s)"
  "\<not> is_number (PList xs)" "\<not> is_number (PDict d)"
  by (simp_all add: is_number_def)

lemma num_or_none_simps [simp]:
  "num_or_none PNone" "num_or_none (PBool b)" "num_or_none (PInt i)" "num_or_none (PFloat x)"
  by (simp_all add: num_or_none_def)

lemma typed_lookup: "typed_metrics d \<Longrightarrow> map_of d k = Some v \<Longrightarrow> metric_type k v"
  by (auto simp: typed_metrics_def list_all_iff dest!: map_of_SomeD)

lemma typed_metric:
  assumes "typed_result r"
  shows "k \<in> set optional_keys \<Longrightarrow> num_or_none (metric r k)"
    and "k \<in> set strict_keys \<Longrightarrow> map_of (dr_metrics r) k = Some v \<Longrightarrow> is_number v"
    and "map_of (dr_metrics r) ''hops'' = Some v \<Longrightarrow> list_of typed_hop v"
    and "map_of (dr_metrics r) ''dns_servers'' = Some v \<Longrightarrow> text_list v"
    and "map_of (dr_metrics r) ''elephant_flows'' = Some v \<Longrightarrow> list_of typed_flow v"
proof -
  have t: "typed_metrics (dr_metrics r)" using assms by (simp add: typed_result_def)
  show "num_or_none (metric r k)" if "k \<in> set optional_keys"
    using typed_lookup [OF t, of k] that by (auto simp: metric_def get_val_def metric_type_def split: option.splits)
  show "is_number v" if "k \<in> set strict_keys" "map_of (dr_metrics r) k = Some v"
    using typed_lookup [OF t that(2)] that(1) by (auto simp: metric_type_def optional_keys_def strict_keys_def)
  show "list_of typed_hop v" if "map_of (dr_metrics r) ''hops'' = Some v"
    using typed_lookup [OF t that] by (simp add: metric_type_def optional_keys_def strict_keys_def)
  show "text_list v" if "map_of (dr_metrics r) ''dns_servers'' = Some v"
    using typed_lookup [OF t that] by (simp add: metric_type_def optional_keys_def strict_keys_def)
  show "list_of typed_flow v" if "map_of (dr_metrics r) ''elephant_flows'' = Some v"
    using typed_lookup [OF t that] by (simp add: metric_type_def optional_keys_def strict_keys_def)
qed

section \<open>Computations that return\<close>

definition returns :: "'a result \<Rightarrow> bool" where
  "returns m = (\<exists>x. m = Inr x)"

lemma returns_Inr [simp]: "returns (Inr x)"
  by (simp add: returns_def)

lemma returns_report [simp]: "returns (report_issue rid cat title sev conf cause ev recs sups)"
  by (simp add: returns_def report_issue_def build_issue_ok)

lemma returns_bind: "returns m \<Longrightarrow> (\<And>x. m = Inr x \<Longrightarrow> returns (f x)) \<Longrightarrow> returns (bindR m f)"
  by (auto simp: returns_def)

lemma returns_if: "(b \<Longrightarrow> returns x) \<Longrightarrow> (\<not> b \<Longrightarrow> returns y) \<Longrightarrow> returns (if b then x else y)"
  by simp

lemma returns_let: "(\<And>x. x = a \<Longrightarrow> returns (f x)) \<Longrightarrow> returns (let x = a in f x)"
  by simp

lemma returns_option:
  "(x = None \<Longrightarrow> returns n) \<Longrightarrow> (\<And>a. x = Some a \<Longrightarrow> returns (s a)) \<Longrightarrow> returns (case x of None \<Rightarrow> n | Some a \<Rightarrow> s a)"
  by (cases x) simp_all

lemma returns_map: "(\<And>x. x \<in> set xs \<Longrightarrow> returns (f x)) \<Longrightarrow> returns (mapR f xs)"
  by (induction xs) (auto intro!: returns_bind)

lemma returns_any: "(\<And>x. x \<in> set xs \<Longrightarrow> returns (f x)) \<Longrightarrow> returns (anyR f xs)"
  by (induction xs) (auto intro!: returns_bind)

lemma returns_filter: "(\<And>x. x \<in> set xs \<Longrightarrow> returns (f x)) \<Longrightarrow> returns (filterR f xs)"
  by (induction xs) (auto intro!: returns_bind)

lemma num_value: "is_number v \<Longrightarrow> \<exists>x. numR v = Inr x \<and> (\<forall>env. py_float env v = Inr x)"
  by (cases v) (auto simp: py_float_def)

lemma is_number_or_zero [simp]: "num_or_none v \<Longrightarrow> is_number (or_zero v)"
  by (auto simp: num_or_none_def or_zero_def)

lemma returns_num:
  assumes "is_number v"
  shows "returns (numR v)" "returns (py_float env v)" "returns (below v t)" "returns (at_least v t)" "returns (above v t)"
    "returns (fmt_num n v)" "returns (py_int v)"
  using num_value [OF assms] assms
  by (auto simp: returns_def below_def at_least_def above_def fmt_num_def is_number_def split: pyval.splits)

lemmas returns_intros = returns_Inr returns_report returns_bind returns_if returns_let returns_option

lemma less_num: "is_number a \<Longrightarrow> is_number b \<Longrightarrow> returns (py_less a b)"
  using num_value [of a] num_value [of b] py_less_num [of a _ b] by (auto simp: returns_def)

text \<open>The greatest of some numbers is a number.\<close>

lemma max_from_num: "is_number m \<Longrightarrow> \<forall>v \<in> set vs. is_number v \<Longrightarrow> \<exists>x. max_from m vs = Inr x \<and> is_number x"
proof (induction vs arbitrary: m)
  case (Cons v vs)
  then obtain b where "py_less m v = Inr b" using less_num [of m v] by (auto simp: returns_def)
  with Cons show ?case by simp
qed simp

lemma max_or_num: "is_number d \<Longrightarrow> \<forall>v \<in> set vs. is_number v \<Longrightarrow> \<exists>x. max_or d vs = Inr x \<and> is_number x"
  using max_from_num by (cases vs) (auto simp: max_or_def)

lemma max_loop_num:
  "is_number m \<Longrightarrow> (\<And>x. x \<in> set xs \<Longrightarrow> \<exists>v. f x = Inr v \<and> is_number v) \<Longrightarrow> \<exists>v. max_loop f m xs = Inr v \<and> is_number v"
proof (induction xs arbitrary: m)
  case (Cons x xs)
  then obtain v where v: "f x = Inr v" "is_number v" by fastforce
  then obtain b where "py_less m v = Inr b" using less_num [of m v] Cons.prems(1) by (auto simp: returns_def)
  with Cons v show ?case by simp
qed simp

lemma max_of_num:
  assumes "xs \<noteq> []" "\<And>x. x \<in> set xs \<Longrightarrow> \<exists>v. f x = Inr v \<and> is_number v"
  shows "\<exists>v. max_of f xs = Inr v \<and> is_number v"
proof -
  obtain y ys where xs: "xs = y # ys" using assms(1) by (cases xs) auto
  then obtain v where "f y = Inr v" "is_number v" using assms(2) by force
  then show ?thesis using max_loop_num [of v ys f] assms(2) by (simp add: max_of_def xs)
qed

section \<open>The queries of the context\<close>

definition typed_results :: "diagnostic_result list \<Rightarrow> bool" where
  "typed_results rs = list_all typed_result rs"

lemma typed_mem: "typed_results rs \<Longrightarrow> r \<in> set rs \<Longrightarrow> typed_result r"
  by (simp add: typed_results_def list_all_iff)

lemma typed_find: "typed_results rs \<Longrightarrow> find P rs = Some r \<Longrightarrow> typed_result r"
  by (auto simp: find_Some_iff intro: typed_mem)

lemma present_num:
  assumes "typed_results rs" "k \<in> set optional_keys \<union> set strict_keys" "v \<in> set (present_metrics k (filter P rs))"
  shows "is_number v"
proof -
  obtain r where r: "r \<in> set rs" "v = metric r k" "v \<noteq> PNone"
    using assms(3) by (auto simp: present_metrics_def)
  then obtain w where "map_of (dr_metrics r) k = Some w" "v = w"
    by (auto simp: metric_def get_val_def split: option.splits)
  then show ?thesis
    using typed_metric(1,2) [OF typed_mem [OF assms(1) r(1)], of k] assms(2) r(2,3)
    by (auto simp: num_or_none_def)
qed

lemma present_numbers:
  "typed_results rs \<Longrightarrow> k \<in> set optional_keys \<union> set strict_keys \<Longrightarrow>
     \<forall>v \<in> set (present_metrics k (filter P rs)). is_number v"
  using present_num by blast

lemma key_kinds [simp]:
  "''packet_loss_percent'' \<in> set optional_keys" "''avg_ms'' \<in> set optional_keys" "''jitter_ms'' \<in> set optional_keys"
  "''util_percent'' \<in> set optional_keys" "''resolution_time_ms'' \<in> set optional_keys"
  "''congestion_score'' \<in> set optional_keys" "''ratio'' \<in> set optional_keys" "''sample_count'' \<in> set optional_keys"
  "''failed_count'' \<in> set optional_keys" "''target_count'' \<in> set optional_keys"
  "''drops_per_sec'' \<in> set strict_keys" "''errors_per_sec'' \<in> set strict_keys" "''active_drops_per_sec'' \<in> set strict_keys"
  "''active_errors_per_sec'' \<in> set strict_keys" "''cpu_percent'' \<in> set strict_keys" "''memory_percent'' \<in> set strict_keys"
  by (simp_all add: optional_keys_def strict_keys_def)

lemma optional_num: "typed_result r \<Longrightarrow> k \<in> set optional_keys \<Longrightarrow> metric r k \<noteq> PNone \<Longrightarrow> is_number (metric r k)"
  using typed_metric(1) [of r k] by (simp add: num_or_none_def)

lemma average_returns: "\<forall>v \<in> set vs. is_number v \<Longrightarrow> returns (average_or_zero vs)"
  by (auto simp: average_or_zero_def intro!: returns_bind returns_map returns_num)

lemma floats_return: "\<forall>v \<in> set vs. is_number v \<Longrightarrow> returns (mapR (py_float env) vs)"
  by (auto intro!: returns_map returns_num)

lemma query_max:
  assumes "typed_results rs"
  shows "\<exists>v. get_max_packet_loss (make_context rs) = Inr v \<and> is_number v"
    and "\<exists>v. get_max_jitter (make_context rs) = Inr v \<and> is_number v"
  unfolding get_max_packet_loss_def get_max_jitter_def by_module_make
  by (rule max_or_num, simp, rule present_numbers [OF assms], simp)+

lemma resource_returns:
  assumes "typed_results rs" "k \<in> set strict_keys"
  shows "returns (resource_metric env (make_context rs) k)"
  using assms typed_metric(2) [OF typed_find [OF assms(1)] assms(2)]
  by (auto simp: resource_metric_def intro!: returns_num split: option.splits)

lemma query_returns:
  assumes "typed_results rs"
  shows "returns (get_max_packet_loss (make_context rs))" "returns (get_max_jitter (make_context rs))"
    "returns (get_avg_packet_loss (make_context rs))" "returns (get_avg_latency (make_context rs))"
    "returns (get_jitter env (make_context rs) m)"
    "returns (get_active_drop_rate env (make_context rs))" "returns (get_active_error_rate env (make_context rs))"
    "returns (get_cpu_percent env (make_context rs))" "returns (get_memory_percent env (make_context rs))"
    "returns (get_max_link_utilization env (make_context rs))"
proof -
  show "returns (get_max_packet_loss (make_context rs))" "returns (get_max_jitter (make_context rs))"
    using query_max [OF assms] by (auto simp: returns_def)
  show "returns (get_avg_packet_loss (make_context rs))" "returns (get_avg_latency (make_context rs))"
    unfolding get_avg_packet_loss_def get_avg_latency_def by_module_make cx_results_make
    by (rule average_returns, rule present_numbers [OF assms], simp)+
  show "returns (get_jitter env (make_context rs) m)" "returns (get_max_link_utilization env (make_context rs))"
    unfolding get_jitter_def get_max_link_utilization_def by_module_make
    by (rule returns_bind, rule floats_return, rule present_numbers [OF assms], simp, simp)+
  show "returns (get_active_drop_rate env (make_context rs))" "returns (get_active_error_rate env (make_context rs))"
    "returns (get_cpu_percent env (make_context rs))" "returns (get_memory_percent env (make_context rs))"
    unfolding get_active_drop_rate_def get_active_error_rate_def get_cpu_percent_def get_memory_percent_def
    by (simp_all add: resource_returns [OF assms])
qed

lemma drop_rate_returns:
  assumes "typed_results rs"
  shows "returns (get_max_link_drop_rate env (make_context rs))"
  unfolding get_max_link_drop_rate_def by_module_make
  by (rule returns_bind, rule floats_return, rule present_numbers [OF assms])
    (simp_all add: query_returns(6) [OF assms] split: option.splits)

lemma ip_working_returns:
  assumes "typed_results rs"
  shows "returns (is_ip_connectivity_working (make_context rs))"
  using typed_mem [OF assms] optional_num [of _ "''packet_loss_percent''"]
  by (auto simp: is_ip_connectivity_working_def Let_def intro!: returns_any returns_if returns_num)

lemma gateway_returns:
  assumes "typed_results rs"
  shows "returns (is_gateway_reachable (make_context rs))"
  using typed_find [OF assms] optional_num [of _ "''packet_loss_percent''"]
  by (auto simp: is_gateway_reachable_def Let_def intro!: returns_bind returns_if returns_num split: option.splits)

lemma end_to_end_returns: "typed_results rs \<Longrightarrow> returns (end_to_end_ok (make_context rs))"
  using query_max(1) [of rs]
  by (auto simp: end_to_end_ok_def intro!: returns_bind returns_if ip_working_returns query_returns returns_num)

lemma confirmed_jitter_returns:
  assumes "typed_results rs"
  shows "returns (has_confirmed_jitter_pattern env (make_context rs) t)"
  unfolding has_confirmed_jitter_pattern_def
  by (intro returns_bind query_returns [OF assms]; (simp split: option.splits)?;
      (intro returns_if allI impI)?; simp add: query_returns [OF assms] returns_bind split: option.splits)

section \<open>The rules\<close>

lemma servers_returns:
  assumes "typed_results rs"
  shows "returns (servers_line label (get_dns_servers_ctx (make_context rs)))"
proof -
  have strings: "(case x of PStr _ \<Rightarrow> True | _ \<Rightarrow> False) \<Longrightarrow> returns (text_of x)" for x by (cases x) simp_all
  have "list_all (\<lambda>x. case x of PStr _ \<Rightarrow> True | _ \<Rightarrow> False) xs \<Longrightarrow> returns (mapR text_of xs)" for xs
    by (rule returns_map, rule strings) (simp add: list_all_iff)
  then have "text_list v \<Longrightarrow> returns (servers_line label v)" for v
    by (auto simp: servers_line_def py_join_def text_list_def intro!: returns_bind split: pyval.splits)
  moreover have "text_list (get_dns_servers_ctx (make_context rs))"
    using typed_metric(4) [OF typed_find [OF assms]]
    by (auto simp: get_dns_servers_ctx_def text_list_def split: option.splits)
  ultimately show ?thesis by blast
qed

lemma path_hops_typed:
  assumes "typed_results rs" "h \<in> set (get_path_hops (make_context rs))"
  shows "typed_hop h"
proof -
  obtain r where r: "find (\<lambda>r. dr_module r = ''traceroute'') rs = Some r"
    using assms(2) by (cases "find (\<lambda>r. dr_module r = ''traceroute'') rs") (auto simp: get_path_hops_def)
  obtain hops where hops: "metric r ''hops'' = PList hops" "h \<in> set hops"
    using assms(2) r by (cases "metric r ''hops''") (auto simp: get_path_hops_def)
  from hops(1) have "map_of (dr_metrics r) ''hops'' = Some (PList hops)"
    by (auto simp: metric_def get_val_def split: option.splits)
  from typed_metric(3) [OF typed_find [OF assms(1) r] this] hops(2) show ?thesis
    by (simp add: list_of_def list_all_iff)
qed

lemma candidate_typed:
  assumes "typed_results rs"
  shows "list_of typed_hop (candidate_hops (make_context rs))"
  using path_hops_typed [OF assms] typed_metric(3) [OF typed_find [OF assms]]
  by (auto simp: candidate_hops_def list_of_def list_all_iff split: option.splits)

lemma hop_returns:
  assumes "typed_hop h"
  shows "returns (bad_hop h)" "returns (hop_line env h)"
    "\<exists>v. hop_value ''loss_percent'' h = Inr v \<and> is_number v" "\<exists>v. hop_value ''avg_rtt_ms'' h = Inr v \<and> is_number v"
  using assms by (auto simp: typed_hop_def bad_hop_def hop_line_def hop_value_def
      intro!: returns_bind returns_if returns_num split: pyval.splits)

lemma port_blocked_returns:
  assumes "typed_results rs"
  shows "returns (dg_evaluate (port_blocked_firewall_rule env) (make_context rs))"
  unfolding port_blocked_firewall_rule_def diagnostic_rule.select_convs
  by (intro returns_intros ip_working_returns [OF assms])

lemma link_rules_return:
  assumes "typed_results rs"
  shows "returns (dg_evaluate (all_interfaces_down_rule env) (make_context rs))"
    "returns (dg_evaluate (active_packet_drops_rule env) (make_context rs))"
    "returns (dg_evaluate (no_default_gateway_rule env) (make_context rs))"
    "returns (dg_evaluate (gateway_unreachable_rule env) (make_context rs))"
  unfolding all_interfaces_down_rule_def active_packet_drops_rule_def no_default_gateway_rule_def
    gateway_unreachable_rule_def diagnostic_rule.select_convs
  by (intro returns_intros query_returns [OF assms] gateway_returns [OF assms])+

lemma outage_rules_return:
  assumes "typed_results rs"
  shows "returns (dg_evaluate (gateway_healthy_wan_outage_rule env) (make_context rs))"
    "returns (dg_evaluate (total_internet_outage_rule env) (make_context rs))"
proof -
  obtain v where v: "get_max_packet_loss (make_context rs) = Inr v" "is_number v" using query_max(1) [OF assms] by blast
  show "returns (dg_evaluate (gateway_healthy_wan_outage_rule env) (make_context rs))"
    "returns (dg_evaluate (total_internet_outage_rule env) (make_context rs))"
    unfolding gateway_healthy_wan_outage_rule_def total_internet_outage_rule_def diagnostic_rule.select_convs v
    using v(2) by (intro returns_intros gateway_returns [OF assms] ip_working_returns [OF assms]; auto intro: returns_num)+
qed

lemma dns_rules_return:
  assumes "typed_results rs"
  shows "returns (dg_evaluate (dns_failure_with_healthy_ip_rule env) (make_context rs))"
    "returns (dg_evaluate (dns_timeout_rule env) (make_context rs))"
    "returns (dg_evaluate (slow_dns_resolution_rule env) (make_context rs))"
  unfolding dns_failure_with_healthy_ip_rule_def dns_timeout_rule_def slow_dns_resolution_rule_def
    diagnostic_rule.select_convs first_by_module_make
  by (intro returns_intros ip_working_returns [OF assms] servers_returns [OF assms] query_returns [OF assms];
      auto intro!: returns_num dest!: typed_find [OF assms] intro: optional_num)+

text \<open>Rules that compute with the greatest loss or jitter.\<close>

lemma transit_rules_return:
  assumes "typed_results rs"
  shows "returns (dg_evaluate (severe_packet_loss_rule env) (make_context rs))"
    "returns (dg_evaluate (high_jitter_latency_rule env) (make_context rs))"
    "returns (dg_evaluate (host_saturation_rule env) (make_context rs))"
proof -
  obtain v where v: "get_max_packet_loss (make_context rs) = Inr v" "is_number v" using query_max(1) [OF assms] by blast
  obtain w where w: "get_max_jitter (make_context rs) = Inr w" "is_number w" using query_max(2) [OF assms] by blast
  show "returns (dg_evaluate (severe_packet_loss_rule env) (make_context rs))"
    "returns (dg_evaluate (high_jitter_latency_rule env) (make_context rs))"
    "returns (dg_evaluate (host_saturation_rule env) (make_context rs))"
    unfolding severe_packet_loss_rule_def high_jitter_latency_rule_def host_saturation_rule_def
      diagnostic_rule.select_convs v w
    using v(2) w(2)
    by (intro returns_intros query_returns [OF assms] confirmed_jitter_returns [OF assms]; auto intro: returns_num)+
qed

lemma failed_names_first:
  assumes "typed_results rs" "filter (\<lambda>r. dr_status r = FAILED) (filter (\<lambda>r. dr_module r = ''connectivity'') rs) \<noteq> []"
  shows "returns (nthR (failed_names (filter (\<lambda>r. dr_status r = FAILED) (filter (\<lambda>r. dr_module r = ''connectivity'') rs))) 0)"
proof -
  obtain p where p: "p \<in> set rs" "dr_module p = ''connectivity''" "dr_status p = FAILED"
    using assms(2) by (auto simp: filter_empty_conv)
  then have "target_or [] p \<noteq> []"
    using typed_mem [OF assms(1) p(1)] by (auto simp: typed_result_def target_or_def some_text_def split: option.splits)
  with p have "failed_names (filter (\<lambda>r. dr_status r = FAILED) (filter (\<lambda>r. dr_module r = ''connectivity'') rs)) \<noteq> []"
    by (auto simp: failed_names_def filter_empty_conv)
  then show ?thesis by (cases "failed_names (filter (\<lambda>r. dr_status r = FAILED) (filter (\<lambda>r. dr_module r = ''connectivity'') rs))")
      (auto simp: nthR_def)
qed

lemma target_rule_returns:
  assumes "typed_results rs"
  shows "returns (dg_evaluate (target_specific_failure_rule env) (make_context rs))"
  using failed_names_first [OF assms]
  unfolding target_specific_failure_rule_def diagnostic_rule.select_convs by_module_make Let_def
  by (auto intro!: returns_bind)

lemma max_hops:
  assumes "list_all typed_hop hops" "hops \<noteq> []"
  shows "\<exists>v. max_of (hop_value ''loss_percent'') hops = Inr v \<and> is_number v"
    "\<exists>v. max_of (hop_value ''avg_rtt_ms'') hops = Inr v \<and> is_number v"
  using assms(1) by (auto simp: list_all_iff intro!: max_of_num [OF assms(2)] hop_returns(3,4))

lemma path_rules_return:
  assumes "typed_results rs"
  shows "returns (dg_evaluate (path_change_rule env) (make_context rs))"
    "returns (dg_evaluate (high_hop_loss_rule env) (make_context rs))"
proof -
  show "returns (dg_evaluate (path_change_rule env) (make_context rs))"
    unfolding path_change_rule_def diagnostic_rule.select_convs
    by (intro returns_intros end_to_end_returns [OF assms])
  obtain hops where hops: "candidate_hops (make_context rs) = PList hops" "list_all typed_hop hops"
    using candidate_typed [OF assms] by (auto simp: list_of_def split: pyval.splits)
  have lines: "returns (mapR (hop_line env) (take 5 bad))" if "filterR bad_hop hops = Inr bad" for bad
    using filterR_subset [OF that] hops(2)
    by (intro returns_map hop_returns(2)) (auto simp: list_all_iff dest: in_set_takeD)
  show "returns (dg_evaluate (high_hop_loss_rule env) (make_context rs))"
    unfolding high_hop_loss_rule_def diagnostic_rule.select_convs hops(1) py_iter.simps bindR.simps
    using hops(2)
    by (intro returns_intros returns_filter lines end_to_end_returns [OF assms] hop_returns(1)) (auto simp: list_all_iff)
qed

lemma last_mile_returns:
  assumes "typed_results rs"
  shows "returns (dg_evaluate (last_mile_vs_core_rule env) (make_context rs))"
proof -
  let ?hops = "get_path_hops (make_context rs)"
  have "returns (dg_evaluate (last_mile_vs_core_rule env) (make_context rs))" if "3 \<le> length ?hops"
  proof -
    have t: "list_all typed_hop (take 2 ?hops)" "list_all typed_hop (drop 2 ?hops)"
      using path_hops_typed [OF assms] by (auto simp: list_all_iff dest: in_set_takeD in_set_dropD)
    have n: "take 2 ?hops \<noteq> []" "drop 2 ?hops \<noteq> []" using that by auto
    obtain a b c d where m: "max_of (hop_value ''loss_percent'') (take 2 ?hops) = Inr a" "is_number a"
        "max_of (hop_value ''loss_percent'') (drop 2 ?hops) = Inr b" "is_number b"
        "max_of (hop_value ''avg_rtt_ms'') (take 2 ?hops) = Inr c" "is_number c"
        "max_of (hop_value ''avg_rtt_ms'') (drop 2 ?hops) = Inr d" "is_number d"
      using max_hops [OF t(1) n(1)] max_hops [OF t(2) n(2)] by blast
    show ?thesis
      unfolding last_mile_vs_core_rule_def diagnostic_rule.select_convs Let_def m bindR.simps at_least_and_below_def
      using m(2,4,6,8) by (intro returns_intros; auto intro: returns_num)
  qed
  then show ?thesis
    by (cases "3 \<le> length ?hops") (simp_all add: last_mile_vs_core_rule_def)
qed

text \<open>Rules about links, flows, baselines and the mesh.\<close>

lemma link_load_rules_return:
  assumes "typed_results rs"
  shows "returns (dg_evaluate (link_saturation_rule env) (make_context rs))"
    "returns (dg_evaluate (interface_errors_rule env) (make_context rs))"
proof -
  have line: "returns (saturated_line r)" if "r \<in> set rs" for r
    using optional_num [OF typed_mem [OF assms that], of "''util_percent''"]
    by (auto simp: saturated_line_def Let_def intro!: returns_bind returns_if returns_num)
  show "returns (dg_evaluate (link_saturation_rule env) (make_context rs))"
    unfolding link_saturation_rule_def diagnostic_rule.select_convs by_module_make
    by (intro returns_intros query_returns [OF assms] returns_map line) auto
  have step: "returns (error_step env r acc)" if "r \<in> set rs" for r acc
  proof -
    have "is_number (metric_or r k (PFloat 0))" if "k \<in> set strict_keys" for k
      using typed_metric(2) [OF typed_mem [OF assms \<open>r \<in> set rs\<close>] that] by (auto simp: metric_or_def split: option.splits)
    then show ?thesis by (auto simp: error_step_def intro!: returns_bind returns_num)
  qed
  have loop: "set xs \<subseteq> set rs \<Longrightarrow> returns (error_loop env xs acc)" for xs acc
    by (induction xs arbitrary: acc) (auto intro!: returns_bind step)
  show "returns (dg_evaluate (interface_errors_rule env) (make_context rs))"
    unfolding interface_errors_rule_def diagnostic_rule.select_convs by_module_make
    by (intro returns_intros drop_rate_returns [OF assms] loop) auto
qed

lemma elephant_rule_returns:
  assumes "typed_results rs"
  shows "returns (dg_evaluate (elephant_flow_rule env) (make_context rs))"
proof -
  have line: "typed_flow f \<Longrightarrow> returns (elephant_line env f)" for f
    by (auto simp: typed_flow_def elephant_line_def intro!: returns_bind returns_num split: pyval.splits option.splits)
  have "metric r ''elephant_flows'' = PNone \<or> list_of typed_flow (metric r ''elephant_flows'')" if "r \<in> set rs" for r
    using typed_metric(5) [OF typed_mem [OF assms that]] by (auto simp: metric_def get_val_def split: option.splits)
  then have flows: "(\<exists>fs. metric r ''elephant_flows'' = PList fs \<and> list_all typed_flow fs) \<or> metric r ''elephant_flows'' = PNone"
    if "r \<in> set rs" for r using that by (cases "metric r ''elephant_flows''") (fastforce simp: list_of_def)+
  have shape: "returns (if \<not> truthy v then Inr None
      else bindR (py_slice 5 v) (\<lambda>s. bindR (py_iter s) (\<lambda>es. bindR (mapR (elephant_line env) es) (\<lambda>ls. g ls))))"
    if "(\<exists>fs. v = PList fs \<and> list_all typed_flow fs) \<or> v = PNone" "\<And>ls. returns (g ls)"
    for v and g :: "string list \<Rightarrow> diagnosed_issue option result"
    using that by (auto simp: list_all_iff intro!: returns_bind returns_map line) (meson in_set_takeD)
  show ?thesis
    unfolding elephant_flow_rule_def diagnostic_rule.select_convs first_by_module_make Let_def
    by (rule returns_option, simp, rule shape, rule flows) (auto simp: find_Some_iff)
qed

lemma congestion_rule_returns:
  assumes "typed_results rs"
  shows "returns (dg_evaluate (link_congestion_rule env) (make_context rs))"
proof -
  let ?hops = "get_path_hops (make_context rs)"
  obtain v where v: "get_max_packet_loss (make_context rs) = Inr v" "is_number v" using query_max(1) [OF assms] by blast
  have score: "returns (at_least (or_zero (metric r ''congestion_score'')) 45)" if "r \<in> set rs" for r
    using typed_metric(1) [OF typed_mem [OF assms that], of "''congestion_score''"] by (intro returns_num) simp
  obtain w where w: "(if ?hops \<noteq> [] then max_of (hop_value ''loss_percent'') ?hops else Inr (PFloat 0)) = Inr w" "is_number w"
    using max_hops(1) [of ?hops] path_hops_typed [OF assms] by (cases "?hops = []") (auto simp: list_all_iff)
  show ?thesis
    unfolding link_congestion_rule_def diagnostic_rule.select_convs by_module_make v w bindR.simps
    using v(2) w(2) by (intro returns_intros query_returns [OF assms] returns_any score; auto intro: returns_num)
qed

lemma degradation_rule_returns:
  assumes "typed_results rs"
  shows "returns (dg_evaluate (sudden_degradation_rule env) (make_context rs))"
proof -
  let ?deltas = "filter (\<lambda>r. dr_module r = ''baseline_delta'') rs"
  have num: "is_number (or_zero (metric r k))" if "r \<in> set rs" "k \<in> set optional_keys" for r k
    using typed_metric(1) [OF typed_mem [OF assms that(1)] that(2)] by simp
  have delta: "returns (deviated_delta r)" if "r \<in> set rs" for r
    unfolding deviated_delta_def by (intro returns_intros returns_num num that) simp_all
  have ratio: "\<exists>v. max_of (\<lambda>r. Inr (or_zero (metric r ''ratio''))) bad = Inr v \<and> is_number v"
    if "filterR deviated_delta ?deltas = Inr bad" "bad \<noteq> []" for bad
    using filterR_subset [OF that(1)] by (intro max_of_num [OF that(2)]) (auto intro!: num)
  show ?thesis
    unfolding sudden_degradation_rule_def diagnostic_rule.select_convs by_module_make
    by (intro returns_intros returns_filter delta) (auto dest!: ratio intro!: returns_bind returns_num intro: delta)
qed

lemma mesh_rule_returns:
  assumes "typed_results rs"
  shows "returns (dg_evaluate (mesh_partition_rule env) (make_context rs))"
  unfolding mesh_partition_rule_def diagnostic_rule.select_convs first_by_module_make
  by (intro returns_intros returns_num is_number_or_zero typed_metric(1) [OF typed_find [OF assms]]) simp_all

text \<open>So no default rule raises.\<close>

lemma default_rules_return:
  assumes "typed_results rs" "rule \<in> set (DEFAULT_RULES env)"
  shows "returns (dg_evaluate rule (make_context rs))"
  using assms(2) link_rules_return [OF assms(1)] outage_rules_return [OF assms(1)] dns_rules_return [OF assms(1)]
    transit_rules_return [OF assms(1)] port_blocked_returns [OF assms(1)] target_rule_returns [OF assms(1)]
    path_rules_return [OF assms(1)] last_mile_returns [OF assms(1)] link_load_rules_return [OF assms(1)]
    elephant_rule_returns [OF assms(1)] congestion_rule_returns [OF assms(1)] degradation_rule_returns [OF assms(1)]
    mesh_rule_returns [OF assms(1)]
  unfolding DEFAULT_RULES_def by auto

section \<open>The analysis\<close>

lemma hop_loss_returns:
  assumes "typed_results rs"
  shows "returns (hop_loss_anomaly env rs loss)"
proof (cases "find (\<lambda>r. dr_module r = ''traceroute'') rs")
  case None
  then show ?thesis by (simp add: hop_loss_anomaly_def)
next
  case (Some r)
  have typed: "typed_hop h" if "metric r ''hops'' = PList hops" "h \<in> set hops" for hops h
    using path_hops_typed [OF assms, of h] that Some by (simp add: get_path_hops_def)
  show ?thesis
    unfolding hop_loss_anomaly_def using Some
    by (auto intro!: returns_bind returns_filter returns_map hop_returns(1,2) intro: typed split: pyval.splits
        dest!: filterR_subset) (blast intro: typed dest: in_set_takeD)
qed

lemma latency_anomaly_returns:
  assumes "typed_results rs"
  shows "returns (latency_anomaly env rs loss)"
  using optional_num [OF typed_find [OF assms], of _ _ "''jitter_ms''"]
  by (auto simp: latency_anomaly_def intro!: returns_bind returns_num split: option.splits)

lemma anomalies_return:
  assumes "typed_results rs"
  shows "returns (anomaly_issues env rs)"
proof -
  have worst: "returns (worst_packet_loss env rs)"
    unfolding worst_packet_loss_def by (rule returns_bind, rule floats_return, rule present_numbers [OF assms]) simp_all
  have "returns (correlate_evidence env rs)"
    unfolding correlate_evidence_def
    by (intro returns_intros worst hop_loss_returns [OF assms] latency_anomaly_returns [OF assms])
  moreover have "returns (anomaly_issue (n, a))" if "correlate_evidence env rs = Inr as" "a \<in> set as" for as n a
    using evidence_bounds [OF that]
    by (auto simp: anomaly_issue_def validate_issue_def Let_def returns_def)
  ultimately show ?thesis
    unfolding anomaly_issues_def
    by (intro returns_bind returns_map) (auto simp: in_set_enumerate_eq)
qed

lemma analysis_returns:
  assumes "typed_results rs"
  shows "\<exists>r. analyze env now rs target (new_rule_engine env None) = (Inr r, new_rule_engine env None) \<and>
    rp_rule_errors r = [] \<and> rp_total_probes r = length rs"
proof -
  have "rule_failures env (make_context rs) (DEFAULT_RULES env) = []"
    using default_rules_return [OF assms, of _ env]
    by (auto simp: rule_failures_def returns_def split: sum.splits) (metis sum.distinct(1))
  moreover have "returns (key_observations env (make_context rs) target)"
    unfolding key_observations_def by (intro returns_intros ip_working_returns [OF assms])
  ultimately show ?thesis
    using anomalies_return [OF assms, of env] unfolding analyze_eq_Inr returns_def
    by (auto simp: new_rule_engine_def)
qed

text \<open>C35: On results whose metrics keep to the types of the contract, the analysis by the default rules
  raises nothing: it produces a report and no rule has failed, whatever the numbers are and whichever
  rules fire.\<close>

theorem analysis_total:
  assumes "typed_results rs"
  shows "\<exists>r. analyze env now rs target (new_rule_engine env None) = (Inr r, new_rule_engine env None) \<and>
    rp_rule_errors r = [] \<and> rp_total_probes r = length rs"
  by (rule analysis_returns [OF assms])

lemma analysis_total_witness:
  "\<exists>r. analyze sample_analysis_env [] outage_results ''x'' (new_rule_engine sample_analysis_env None) =
      (Inr r, new_rule_engine sample_analysis_env None) \<and> rp_rule_errors r = []"
proof -
  have "typed_results outage_results" by code_simp
  from analysis_total [OF this] show ?thesis by blast
qed

end
