(* ===== verification/Local_Diagnosis.thy ===== *)
theory Local_Diagnosis
  imports Typed_Results Link_Probes Path Flow
begin

text \<open>
  Local diagnosis end to end: the collector of \<open>collectors/local.py\<close>, the commands of
  \<open>cli.py\<close> that collect observations, analyse them with the default rules and turn the report
  into an exit code, and what holds of the probes and the rules together. A command here
  is the report (or the summary) it prints and the exit code; the printing is in Probe_Tables and Cli.
\<close>

section \<open>The collector\<close>

text \<open>Utilization, errors, congestion, and the comparison of the utilization with its baselines.\<close>

definition collect_link :: "host_env \<Rightarrow> rat \<Rightarrow> (host, diagnostic_result list) act" where
  "collect_link env interval =
     bindA (totalA (measure_link_utilization env interval)) (\<lambda>util.
     bindA (measure_link_errors env interval) (\<lambda>errors.
     bindA (measure_link_congestion env (Some util) (Some errors) 0) (\<lambda>congestion.
     bindA (compare_probes env util) (\<lambda>extras. returnA (util @ errors @ congestion @ extras)))))"

definition all_domains :: "string list" where
  "all_domains = [''host'', ''link'', ''path'']"

definition collect_local :: "host_env \<Rightarrow> string list option \<Rightarrow> string \<Rightarrow> (host, diagnostic_result list) act" where
  "collect_local env domains target =
     (let ds = (if or_empty domains = [] then all_domains else or_empty domains) in
      bindA (if ''host'' \<in> set ds then collect_host_diagnostics env target None 5 True else returnA []) (\<lambda>host.
      bindA (if ''link'' \<in> set ds then collect_link env 1 else returnA []) (\<lambda>link.
      bindA (if ''path'' \<in> set ds then totalA (collect_path_diagnostics env target 30 1) else returnA []) (\<lambda>path.
        returnA (host @ link @ path)))))"

section \<open>Commands\<close>

definition exit_from_report :: "diagnosis_report \<Rightarrow> bool \<Rightarrow> int" where
  "exit_from_report report strict =
     (if strict \<and> rp_status report \<noteq> HEALTHY then 1 else if rp_status report = FAILED then 1 else 0)"

definition analyse_results ::
  "analysis_env \<Rightarrow> string \<Rightarrow> string \<Rightarrow> bool \<Rightarrow> diagnostic_result list \<Rightarrow> (host, diagnosis_report \<times> int) act" where
  "analyse_results aenv now label strict results =
     bindA (liftA (fst (analyze aenv now results label (new_rule_engine aenv None)))) (\<lambda>report.
       returnA (report, exit_from_report report strict))"

definition diagnose_host ::
  "host_env \<Rightarrow> analysis_env \<Rightarrow> string \<Rightarrow> string \<Rightarrow> bool \<Rightarrow> (host, diagnosis_report \<times> int) act" where
  "diagnose_host env aenv now target strict =
     bindA (collect_host_diagnostics env target None 5 True) (analyse_results aenv now target strict)"

definition diagnose_path ::
  "host_env \<Rightarrow> analysis_env \<Rightarrow> string \<Rightarrow> string \<Rightarrow> bool \<Rightarrow> (host, diagnosis_report \<times> int) act" where
  "diagnose_path env aenv now target strict =
     bindA (totalA (collect_path_diagnostics env target 30 1)) (analyse_results aenv now target strict)"

text \<open>The option of the interval has the minimum 0.1, below which the command is refused (exit code 2,
  before its body runs).\<close>

definition diagnose_link ::
  "host_env \<Rightarrow> analysis_env \<Rightarrow> string \<Rightarrow> rat \<Rightarrow> bool \<Rightarrow> (host, diagnosis_report \<times> int) act" where
  "diagnose_link env aenv now interval strict =
     bindA (collect_link env interval) (analyse_results aenv now ''local-links'' strict)"

definition diagnose_all ::
  "host_env \<Rightarrow> analysis_env \<Rightarrow> string \<Rightarrow> string \<Rightarrow> bool \<Rightarrow> (host, diagnosis_report \<times> int) act" where
  "diagnose_all env aenv now target strict =
     bindA (collect_local env (Some all_domains) target) (analyse_results aenv now target strict)"

text \<open>The suite \<open>host all\<close>: fixed targets, then the summary and its findings, or a diagnosis.\<close>

definition host_suite :: "host_env \<Rightarrow> (host, diagnostic_result list) act" where
  "host_suite env =
     bindA (run_connectivity_checks env None) (\<lambda>connectivity.
     bindA (totalA (inspect_interfaces env)) (\<lambda>interfaces.
     bindA (inspect_routing_table env) (\<lambda>routing.
     bindA (check_gateway_reachability env None 4) (\<lambda>gateway.
     bindA (run_dns_diagnostics env ''google.com'') (\<lambda>dns.
     bindA (run_transport_diagnostics env ''1.1.1.1'' None None) (\<lambda>transport.
     bindA (totalA (run_packet_loss_diagnostics env None 5)) (\<lambda>losses.
     bindA (totalA (run_latency_diagnostics env None 5)) (\<lambda>latencies.
     bindA (inspect_resources_and_activity env 1) (\<lambda>(resources, activity).
       returnA (connectivity @ interfaces @ [routing, gateway, dns] @ transport @ losses @ latencies @
         [resources, activity]))))))))))"

definition summary_exit :: "run_summary \<Rightarrow> bool \<Rightarrow> int" where
  "summary_exit s strict =
     (if strict \<and> (0 < rs_failed s \<or> 0 < rs_degraded s) then 1 else if 0 < rs_failed s then 1 else 0)"

definition host_all ::
  "host_env \<Rightarrow> analysis_env \<Rightarrow> string \<Rightarrow> bool \<Rightarrow> bool \<Rightarrow> string \<Rightarrow>
   (host, (run_summary \<times> string list) \<times> diagnosis_report option \<times> int) act" where
  "host_all env aenv now strict diagnose target =
     bindA (host_suite env) (\<lambda>results.
       let summary = summarize results; shown = (summary, generate_findings results) in
       if diagnose then
         bindA (analyse_results aenv now target strict results) (\<lambda>(report, code). returnA (shown, Some report, code))
       else returnA (shown, None, summary_exit summary strict))"

section \<open>What actions yield\<close>

definition yields :: "('a \<Rightarrow> bool) \<Rightarrow> ('s, 'a) act \<Rightarrow> bool" where
  "yields P m = (\<forall>s x s'. m s = (Inr x, s') \<longrightarrow> P x)"

lemma yieldsD: "yields P m \<Longrightarrow> m s = (Inr x, s') \<Longrightarrow> P x"
  by (auto simp: yields_def)

lemma yields_bind: "yields P m \<Longrightarrow> (\<And>x. P x \<Longrightarrow> yields Q (f x)) \<Longrightarrow> yields Q (bindA m f)"
  by (fastforce simp: yields_def bindA_eq_Inr)

lemma yields_return [simp]: "yields P (returnA x) \<longleftrightarrow> P x"
  by (simp add: yields_def returnA_def)

lemma yields_lift: "(\<And>x. r = Inr x \<Longrightarrow> P x) \<Longrightarrow> yields P (liftA r)"
  by (simp add: yields_def liftA_def)

lemma yields_total: "(\<And>s. P (fst (f s))) \<Longrightarrow> yields P (totalA f)"
  by (auto simp: yields_def totalA_def split: prod.splits) (metis fst_conv)

lemma yields_if: "(b \<Longrightarrow> yields P m) \<Longrightarrow> (\<not> b \<Longrightarrow> yields P n) \<Longrightarrow> yields P (if b then m else n)"
  by simp

lemma yields_map: "(\<And>x. x \<in> set xs \<Longrightarrow> yields P (f x)) \<Longrightarrow> yields (list_all P) (mapA f xs)"
  by (induction xs) (auto intro!: yields_bind)

lemma for_each_all: "(\<And>x s. P (fst (f x s))) \<Longrightarrow> list_all P (fst (for_each f xs s))"
  by (induction xs arbitrary: s) (auto simp: case_prod_beta)

lemma mapR_all: "mapR f xs = Inr ys \<Longrightarrow> (\<And>x y. x \<in> set xs \<Longrightarrow> f x = Inr y \<Longrightarrow> P y) \<Longrightarrow> list_all P ys"
  unfolding list_all_iff by (blast dest: mapR_mem)

section \<open>The types of what the probes measure\<close>

named_theorems typing

lemma metric_types [typing]:
  "typed_metrics [] = True" "typed_metrics ((k, v) # d) = (metric_type k v \<and> typed_metrics d)"
  "typed_metrics (d @ d') = (typed_metrics d \<and> typed_metrics d')"
  "num_or_none (opt_rat x) = True"
  by (auto simp: typed_metrics_def opt_rat_def split: option.splits)

lemma typed_new [typing]:
  "typed_result (new_result md cat st sev summary) = (md \<noteq> ''connectivity'')"
  "typed_result (r \<lparr> dr_evidence := ev \<rparr>) = typed_result r" "typed_result (r \<lparr> dr_errors := er \<rparr>) = typed_result r"
  "typed_result (r \<lparr> dr_warnings := w \<rparr>) = typed_result r" "typed_result (r \<lparr> dr_metadata := me \<rparr>) = typed_result r"
  "dr_module r \<noteq> ''connectivity'' \<Longrightarrow> typed_result (r \<lparr> dr_target := t \<rparr>) = typed_result r"
  "typed_result (r \<lparr> dr_metrics := ms \<rparr>) =
     (typed_metrics ms \<and> (dr_module r = ''connectivity'' \<longrightarrow> some_text (dr_target r)))"
  by (auto simp: typed_result_def new_result_def typed_metrics_def some_text_def)

lemma module_new [simp]: "dr_module (new_result md cat st sev summary) = md"
  by (simp add: new_result_def)

lemmas types = typing metric_type_def optional_keys_def strict_keys_def list_of_def

lemma typed_ping [simp]: "typed_result (packet_loss_result env host n data)" "typed_result (latency_result host data)"
  "typed_result (gateway_result env host n data)" "typed_result no_gateway_result"
  by (auto simp: packet_loss_result_def latency_result_def latency_samples_def gateway_result_def no_gateway_result_def
      types Let_def split: option.splits prod.splits)

lemma typed_routing [simp]: "typed_result (routing_result system out)" "typed_result (routing_failure summary detail)"
  by (auto simp: routing_result_def routing_failure_def types split: prod.splits)

lemma typed_ports [simp]: "typed_result (tcp_failed host port exc)" "typed_result (udp_rejected host port exc)"
  by (simp_all add: tcp_failed_def udp_rejected_def udp_metrics_def types)

lemma typed_interface [simp]: "typed_result (interface_result stats entry)"
  by (auto simp: interface_result_def types Let_def split: prod.splits)

lemma typed_resources [simp]:
  "typed_result (resource_result interval before after cpu mem)" "typed_result (activity_result interval before after)"
  by (auto simp: resource_result_def activity_result_def types Let_def split: prod.splits)

lemma typed_links [simp]: "typed_result (utilization_result env interval name before after speed)"
  "typed_result (link_error_result interval name before after)"
  by (auto simp: utilization_result_def link_error_result_def types Let_def)

lemma typed_trace [simp]: "typed_result (trace_result env target trace)" "typed_result (change_result target fp prev)"
  "typed_result (hop_metrics_result env target n acc)"
proof -
  have hop: "list_all typed_hop (map hop_dict hops)" "list_all typed_hop (map fst (map (hop_metric m) hops))" for hops m
    by (auto simp: list_all_iff hop_dict_def hop_metric_def typed_hop_def get_val_def opt_rat_def Let_def split: option.splits)
  show "typed_result (trace_result env target trace)" "typed_result (hop_metrics_result env target n acc)"
    using hop by (auto simp: trace_result_def hop_metrics_result_def types Let_def split: prod.splits)
  show "typed_result (change_result target fp prev)"
    by (auto simp: change_result_def types split: option.splits)
qed

lemma typed_compare [simp]: "typed_result (compare_result rp domain key name v hw wr fr stats)"
  by (auto simp: compare_result_def typed_result_def types Let_def split: option.splits)

lemma typed_flows [simp]: "typed_result (flow_result rs)"
  by (auto simp: flow_result_def types Let_def list_all_iff talker_dict_def typed_flow_def)

lemma typed_mesh [simp]: "typed_result (mesh_summary ts n)" "typed_result r \<Longrightarrow> typed_result (mesh_observation t r)"
  by (auto simp: mesh_summary_def mesh_observation_def types typed_result_def new_result_def split: prod.splits)

section \<open>What the collectors yield\<close>

lemma typed_results_eq: "typed_results = list_all typed_result"
  by (simp add: fun_eq_iff typed_results_def)

lemma typed_append [simp]: "typed_results (rs @ ss) = (typed_results rs \<and> typed_results ss)"
  "typed_results (r # rs) = (typed_result r \<and> typed_results rs)" "typed_results []"
  by (simp_all add: typed_results_def)

lemma yields_check_host: "host \<noteq> [] \<Longrightarrow> yields typed_result (check_host env host port timeout)"
  by (auto simp: yields_def check_host_def connectivity_result_def types Let_def new_result_def typed_result_def some_text_def
      split: prod.splits connect_outcome.splits)

lemma yields_routing: "yields typed_result (inspect_routing_table env)"
  by (auto simp: yields_def inspect_routing_table_def types split: option.splits prod.splits run_outcome.splits if_splits)

lemma yields_gateway: "yields typed_result (check_gateway_reachability env gw n)"
  unfolding check_gateway_reachability_def
  by (rule yields_bind [where P = "\<lambda>_. True"], simp add: yields_def, rule yields_total)
    (simp add: probe_gateway_def split: prod.splits)

lemma yields_resolve: "yields typed_result (resolve_hostname env name)"
  by (auto simp: yields_def resolve_hostname_def dns_result_def types Let_def split: prod.splits resolve_outcome.splits)

lemma typed_update:
  "typed_metrics d \<Longrightarrow> metric_type k v \<Longrightarrow> typed_metrics (AList.update k v d)"
  by (induction d) (auto simp: typed_metrics_def)

lemma typed_with_servers: "typed_result r \<Longrightarrow> typed_result (with_servers servers r)"
  by (auto simp: with_servers_def typed_result_def types text_list_def list_all_iff intro!: typed_update)

lemma yields_dns: "yields typed_result (run_dns_diagnostics env name)"
  unfolding run_dns_diagnostics_def
  by (rule yields_bind [OF yields_resolve], rule yields_bind [where P = "\<lambda>_. True"])
    (auto simp: yields_def [of "\<lambda>_. True"] servers_evidence_def types typed_with_servers)

lemma yields_tcp: "yields typed_result (test_tcp env host port timeout)"
  by (auto simp: yields_def test_tcp_def tcp_result_def types split: prod.splits tcp_outcome.splits if_splits)

lemma yields_udp: "yields typed_result (test_udp env host port timeout)"
  by (auto simp: yields_def test_udp_def udp_result_def udp_metrics_def types split: prod.splits udp_outcome.splits if_splits)

lemma yields_resources:
  "yields (\<lambda>(a, b). typed_result a \<and> typed_result b) (inspect_resources_and_activity env interval)"
  unfolding inspect_resources_and_activity_def
  by (intro yields_bind [where P = "\<lambda>_. True"] yields_if) (simp_all add: yields_def failA_def returnA_def)

lemma yields_compare: "yields typed_results (compare_probes env rs)"
proof (induction rs)
  case (Cons r rs)
  have "typed_result (fst (record_probe env domain key name v h))" for domain key name v h
    by (simp add: record_probe_def record_and_compare_def Let_def split: prod.splits)
  then have "yields typed_result (totalA (record_probe env domain key name v))" for domain key name v
    by (rule yields_total)
  then have step: "yields typed_results (bindA (totalA (record_probe env domain key name v)) (\<lambda>d.
      bindA (compare_probes env rs) (\<lambda>ds. returnA (d # ds))))" for domain key name v
    by (rule yields_bind) (rule yields_bind [OF Cons], simp)
  have any: "yields (\<lambda>_. True) m" for m :: "(host, rat) act" by (simp add: yields_def)
  show ?case
    unfolding compare_probes.simps using Cons
    by (auto split: option.splits intro!: yields_bind [OF any, where f = "\<lambda>v. bindA (totalA (record_probe env _ _ _ v)) _"] step)
qed simp

lemma typed_probes:
  "typed_result (fst (ping_host env host n h))" "typed_result (fst (measure_latency env host n h))"
  "typed_results (fst (inspect_interfaces env h))"
  by (simp_all add: ping_host_def measure_latency_def inspect_interfaces_def typed_results_def list_all_iff split: prod.splits)

lemma yields_host:
  assumes "target \<noteq> []"
  shows "yields typed_results (collect_host_diagnostics env target None n baselines)"
proof -
  have mapped: "yields typed_results (mapA f xs)" if "\<And>x. x \<in> set xs \<Longrightarrow> yields typed_result (f x)" for f and xs :: "'b list"
    unfolding typed_results_eq using that by (rule yields_map)
  have each: "yields typed_results (totalA (for_each f xs))" if "\<And>x h. typed_result (fst (f x h))"
    for f :: "'c \<Rightarrow> host \<Rightarrow> diagnostic_result \<times> host" and xs
    unfolding typed_results_eq by (intro yields_total for_each_all that)
  show ?thesis
    unfolding collect_host_diagnostics_def Let_def
    by (rule yields_bind [OF mapped [OF yields_check_host]],
        use assms in \<open>force simp: or_empty_def\<close>,
        rule yields_bind [OF yields_total [where P = typed_results]], rule typed_probes,
        rule yields_bind [OF yields_routing], rule yields_bind [OF yields_gateway], rule yields_bind [OF yields_dns],
        rule yields_bind [OF mapped [OF yields_tcp]], rule yields_bind [OF yields_udp],
        rule yields_bind [OF each [OF typed_probes(1)]], rule yields_bind [OF each [OF typed_probes(2)]],
        rule yields_bind [OF yields_resources])
      (auto split: prod.splits intro!: yields_bind [OF yields_compare])
qed

lemma typed_utilization: "typed_results (fst (measure_link_utilization env interval h))"
proof -
  have "list_all typed_results (fst (for_each (probe_utilization env interval before stats) after h))" for before stats after h
    by (rule for_each_all) (auto simp: probe_utilization_def split: prod.splits option.splits)
  then show ?thesis
    by (auto simp: measure_link_utilization_def typed_results_def list_all_iff split: prod.splits) (metis fst_conv)
qed

lemma yields_congestion:
  assumes "typed_results (or_empty utils)"
  shows "yields typed_results (measure_link_congestion env utils errors delta)"
proof -
  have one: "typed_result r" if "congestion_result env delta es u = Inr r" "typed_result u" for es u r
    using that(1) typed_metric(1) [OF that(2), of "''util_percent''"]
    by (clarsimp simp: congestion_result_def bindR_eq_Inr Let_def metric_def) (simp add: types)
  have many: "typed_results rs" if "mapR (congestion_result env delta es) us = Inr rs" "typed_results us" for es us rs
    unfolding typed_results_eq
    by (rule mapR_all [OF that(1)], rule one, assumption, rule typed_mem [OF that(2)])
  show ?thesis
    unfolding measure_link_congestion_def
    by (rule yields_bind [where P = typed_results], rule yields_if, rule yields_total, rule typed_utilization,
        simp add: assms, rule yields_lift, erule many)
qed

lemma yields_errors: "yields typed_results (measure_link_errors env interval)"
proof -
  have "typed_results (link_error_results interval before after)" for before after
    by (auto simp: link_error_results_def typed_results_def list_all_iff map_filter_def split: option.splits prod.splits if_splits)
  then show ?thesis
    unfolding measure_link_errors_def
    by (intro yields_bind [where P = "\<lambda>_. True"]) (simp_all add: yields_def returnA_def failA_def Let_def)
qed

lemma yields_link: "yields typed_results (collect_link env interval)"
  unfolding collect_link_def
  by (rule yields_bind [OF yields_total [where P = typed_results]], rule typed_utilization, rule yields_bind [OF yields_errors],
      rule yields_bind [OF yields_congestion], simp add: or_empty_def, rule yields_bind [OF yields_compare]) simp

lemma typed_path: "typed_results (fst (collect_path_diagnostics env target max_hops n h))"
  by (simp add: collect_path_diagnostics_def traceroute_to_result_def detect_path_change_def measure_hop_metrics_def Let_def
      split: prod.splits)

lemma yields_local:
  assumes "target \<noteq> []"
  shows "yields typed_results (collect_local env domains target)"
  unfolding collect_local_def Let_def
  by (rule yields_bind [where P = typed_results], rule yields_if, rule yields_host [OF assms], simp,
      rule yields_bind [where P = typed_results], rule yields_if, rule yields_link, simp,
      rule yields_bind [where P = typed_results], rule yields_if, rule yields_total, rule typed_path) simp_all

lemma yields_suite: "yields typed_results (host_suite env)"
proof -
  have mapped: "yields typed_results (mapA f xs)" if "\<And>x. x \<in> set xs \<Longrightarrow> yields typed_result (f x)" for f and xs :: "'b list"
    unfolding typed_results_eq using that by (rule yields_map)
  have conn: "yields typed_results (run_connectivity_checks env None)"
    unfolding run_connectivity_checks_def by (intro mapped yields_check_host) (auto simp: or_empty_def)
  have transport: "yields typed_results (run_transport_diagnostics env host tcp udp)" for host tcp udp
    unfolding run_transport_diagnostics_def
    by (rule yields_bind [OF mapped [OF yields_tcp]], rule yields_bind [OF mapped [OF yields_udp]]) simp
  have ping: "typed_results (fst (run_packet_loss_diagnostics env hosts n h))"
    "typed_results (fst (run_latency_diagnostics env hosts n h))" for hosts n h
    unfolding run_packet_loss_diagnostics_def run_latency_diagnostics_def typed_results_eq
    by (rule for_each_all, rule typed_probes)+
  show ?thesis
    unfolding host_suite_def
    by (rule yields_bind [OF conn], rule yields_bind [OF yields_total [where P = typed_results]], rule typed_probes,
        rule yields_bind [OF yields_routing], rule yields_bind [OF yields_gateway], rule yields_bind [OF yields_dns],
        rule yields_bind [OF transport], rule yields_bind [OF yields_total [where P = typed_results]], rule ping,
        rule yields_bind [OF yields_total [where P = typed_results]], rule ping, rule yields_bind [OF yields_resources])
      (auto split: prod.splits)
qed

section \<open>What the commands return\<close>

lemma analysed:
  assumes "yields typed_results m" "m h = (Inr results, h')"
  shows "\<exists>report. bindA m (analyse_results aenv now label strict) h = (Inr (report, exit_from_report report strict), h') \<and>
    rp_rule_errors report = [] \<and> rp_total_probes report = length results"
proof -
  obtain report where "analyze aenv now results label (new_rule_engine aenv None) = (Inr report, new_rule_engine aenv None)"
    "rp_rule_errors report = []" "rp_total_probes report = length results"
    using analysis_returns [OF yieldsD [OF assms]] by blast
  then show ?thesis
    by (simp add: bindA_def assms(2) analyse_results_def liftA_def returnA_def)
qed

lemma exit_codes:
  "exit_from_report report strict =
    (if rp_status report = FAILED \<or> strict \<and> rp_status report \<noteq> HEALTHY then 1 else 0)"
  by (auto simp: exit_from_report_def)

definition offline_host :: host_env where
  "offline_host = sample_host_env (\<lambda>_. Run_Failed ''no such file'')"

lemma offline_collection:
  "\<exists>results h'. collect_local offline_host (Some all_domains) ''google.com'' fresh_host = (Inr results, h') \<and> length results = 18"
proof -
  have "(case collect_local offline_host (Some all_domains) ''google.com'' fresh_host of
    (Inr results, _) \<Rightarrow> length results = 18 | _ \<Rightarrow> False)"
    by code_simp
  then show ?thesis by (auto split: prod.splits sum.splits)
qed

text \<open>The command \<open>diagnose\<close> with the domain \<open>all\<close>: whenever the probes of the host, the links and
  the path return, for any non-empty target and whatever they measured, the analysis raises nothing
  and no rule fails; the report counts every probe, and the exit code is 1 exactly for a failed
  report, or in strict mode for one that is not healthy.\<close>

theorem diagnose_all_returns:
  assumes "target \<noteq> []" "collect_local env (Some all_domains) target h = (Inr results, h')"
  shows "\<exists>report. diagnose_all env aenv now target strict h =
      (Inr (report, if rp_status report = FAILED \<or> strict \<and> rp_status report \<noteq> HEALTHY then 1 else 0), h') \<and>
    rp_rule_errors report = [] \<and> rp_total_probes report = length results"
  unfolding diagnose_all_def exit_codes [symmetric] by (rule analysed [OF yields_local [OF assms(1)] assms(2)])

lemma diagnose_all_returns_witness:
  "\<exists>report h'. diagnose_all offline_host sample_analysis_env [] ''google.com'' True fresh_host =
      (Inr (report, if rp_status report = FAILED \<or> True \<and> rp_status report \<noteq> HEALTHY then 1 else 0), h') \<and>
    rp_rule_errors report = [] \<and> rp_total_probes report = 18"
proof -
  obtain results h' where "collect_local offline_host (Some all_domains) ''google.com'' fresh_host = (Inr results, h')"
    "length results = 18"
    using offline_collection by blast
  then show ?thesis using diagnose_all_returns [of "''google.com''" offline_host fresh_host results h'] by fastforce
qed

section \<open>Interfaces and the rule of the outage\<close>

lemma probed_interfaces:
  "by_module (make_context (fst (inspect_interfaces env h))) ''interface'' =
     map (interface_result (he_if_stats env (ho_calls h + 1))) (he_if_addrs env (ho_calls h))"
  by (auto simp: by_module_make inspect_interfaces_def ask_def interface_result_def new_result_def Let_def filter_id_conv
      split: prod.splits)

lemma outage_rule_fires:
  "dg_evaluate (all_interfaces_down_rule aenv) ctx \<noteq> Inr None \<longleftrightarrow> all_interfaces_down ctx"
  by (simp add: all_interfaces_down_rule_def report_issue_def build_issue_ok)


definition idle_host :: host_env where
  "idle_host = offline_host \<lparr> he_if_addrs := (\<lambda>_. [(''lo'', []), (''eth0'', [])]),
     he_if_stats := (\<lambda>_. [(''lo'', \<lparr> is_isup = True, is_speed = 0, is_mtu = 65536 \<rparr>),
       (''eth0'', \<lparr> is_isup = False, is_speed = 0, is_mtu = 1500 \<rparr>)]) \<rparr>"


section \<open>The default route\<close>

text \<open>The table is read with the last default line: each one replaces the gateway found before.\<close>

lemma last_default_wins:
  assumes "parse_routing_table ''linux'' (join [CHR 0x0A] lines) = info" "lines \<noteq> []"
    and "splitlines (join [CHR 0x0A] lines) = lines"
    and "py_split (py_strip (last lines)) = ''default'' # ps" "word_after ''via'' (''default'' # ps) = Some gw"
  shows "fst info = Some gw"
proof -
  have "linux_route i (last lines) = (Some gw, replace_some (word_after ''dev'' (''default'' # ps)) (fst (snd i)), snd (snd i) + 1)" for i
    using assms(4,5) by (cases i) (simp add: linux_route_def replace_some_def)
  moreover have "foldl linux_route i (butlast lines @ [last lines]) = linux_route (foldl linux_route i (butlast lines)) (last lines)" for i
    by simp
  ultimately show ?thesis using assms(1-3) by (auto simp: parse_routing_table_def Let_def)
qed

text \<open>When the command that prints the routing table cannot be run, the gateway is reported as not configured:
  the probe sends no ping and returns the critical result of a host without default gateway, and for any
  collection with this routing result, unless all interfaces are down, the rule of the missing default
  route fires with its fixed confidence, although nothing is known of the routes.\<close>

theorem unread_table_is_missing_route:
  assumes "route_command (he_system env) = Some command" "he_run env (ho_calls h) command 5 = Run_Failed exc"
  shows "check_gateway_reachability env None n h = (Inr no_gateway_result, h \<lparr> ho_calls := ho_calls h + 1 \<rparr>) \<and>
    (\<exists>r. inspect_routing_table env h = (Inr r, h \<lparr> ho_calls := ho_calls h + 1 \<rparr>) \<and>
       (find (\<lambda>r. dr_module r = ''routing'') rs = Some r \<and> \<not> all_interfaces_down (make_context rs) \<longrightarrow>
        (\<exists>issue. dg_evaluate (no_default_gateway_rule aenv) (make_context rs) = Inr (Some issue) \<and>
           di_rule_id issue = RULE_NO_DEFAULT_GATEWAY \<and> di_severity issue = CRITICAL \<and> di_confidence issue = 96 / 100)))"
proof -
  let ?r = "routing_failure ''Unable to inspect routing table'' exc"
  have r: "inspect_routing_table env h = (Inr ?r, h \<lparr> ho_calls := ho_calls h + 1 \<rparr>)"
    using assms by (simp add: inspect_routing_table_def run_command_def ask_def)
  then have "check_gateway_reachability env None n h = (Inr no_gateway_result, h \<lparr> ho_calls := ho_calls h + 1 \<rparr>)"
    by (simp add: check_gateway_reachability_def bindA_def returnA_def totalA_def routed_gateway_def routing_failure_def
        new_result_def get_val_def probe_gateway_def usable_gateway_def)
  moreover have confidence: "bounded_confidence (96 / 100) = 96 / 100" by code_simp
  moreover have "\<not> has_default_gateway (make_context rs)" if "find (\<lambda>r. dr_module r = ''routing'') rs = Some ?r"
    using that by (simp add: has_default_gateway_def default_gateway_def routing_failure_def new_result_def)
  ultimately show ?thesis using r
    by (auto simp: no_default_gateway_rule_def report_issue_def build_issue_ok confidence)
qed

lemma unread_table_is_missing_route_witness:
  "\<exists>r issue. inspect_routing_table offline_host fresh_host = (Inr r, fresh_host \<lparr> ho_calls := 1 \<rparr>) \<and>
     check_gateway_reachability offline_host None 4 fresh_host = (Inr no_gateway_result, fresh_host \<lparr> ho_calls := 1 \<rparr>) \<and>
     dg_evaluate (no_default_gateway_rule aenv) (make_context [r]) = Inr (Some issue) \<and> di_confidence issue = 96 / 100"
proof -
  obtain r where r: "inspect_routing_table offline_host fresh_host = (Inr r, fresh_host \<lparr> ho_calls := 1 \<rparr>)"
    "dr_module r = ''routing''"
    by (simp add: inspect_routing_table_def run_command_def ask_def offline_host_def sample_host_env_def route_command_def
        fresh_host_def routing_failure_def)
  then have "find (\<lambda>r. dr_module r = ''routing'') [r] = Some r" "\<not> all_interfaces_down (make_context [r])"
    by (simp_all add: all_interfaces_down_def)
  then show ?thesis
    using r unread_table_is_missing_route [of offline_host "[''ip'', ''route'']" fresh_host "''no such file''" 4 "[r]" aenv]
    by (auto simp: offline_host_def sample_host_env_def route_command_def fresh_host_def)
qed

end
