(* ===== verification/Client.thy ===== *)
theory Client
  imports Http_Api Analysis "HOL-Library.Countable"
begin

text \<open>
  Model of the client of the controller (\<open>controller/client.py\<close>): the requests it builds, how it reads
  replies and errors, and every call of the API. The connection is an action on the state of whatever
  is at its other end, a \<open>transport\<close>; the section on the controller puts the HTTP handler of the
  controller there, so that a call of the client is an operation on the state of the controller.

  JSON and pydantic are the record \<open>client_env\<close>: parsing and the validation of a reply as one of the
  models. Texts are UTF-8 bytes, so \<open>urlencode\<close> works byte by byte.
\<close>

section \<open>URL encoding\<close>

text \<open>\<open>urllib.parse.quote_plus\<close>: letters, digits and \<open>_.-~\<close> stand for themselves.\<close>

definition unreserved :: "char \<Rightarrow> bool" where
  "unreserved c =
     (let n = (of_char c :: nat) in
      48 \<le> n \<and> n \<le> 57 \<or> 65 \<le> n \<and> n \<le> 90 \<or> 97 \<le> n \<and> n \<le> 122 \<or> n = 95 \<or> n = 46 \<or> n = 45 \<or> n = 126)"

definition hex_upper :: "nat \<Rightarrow> char" where
  "hex_upper n = (if n < 10 then char_of (48 + n) else char_of (55 + n))"

definition quote_char :: "char \<Rightarrow> string" where
  "quote_char c =
     (if unreserved c then [c]
      else if c = CHR '' '' then ''+''
      else let n = (of_char c :: nat) in [CHR ''%'', hex_upper (n div 16), hex_upper (n mod 16)])"

definition quote_plus :: "string \<Rightarrow> string" where
  "quote_plus s = concat (map quote_char s)"

definition urlencode :: "(string \<times> string) list \<Rightarrow> string" where
  "urlencode pairs = join ''&'' (map (\<lambda>(k, v). quote_plus k @ ''='' @ quote_plus v) pairs)"

text \<open>What a form needs of the encoding of its texts: it can be decoded, and none of the separators is
  left in it.\<close>

locale form_codec =
  fixes enc dec :: "string \<Rightarrow> string"
  assumes dec_enc: "dec (enc s) = s"
    and no_separator: "c \<in> {CHR ''&'', CHR ''='', CHR ''#'', CHR ''?''} \<Longrightarrow> c \<notin> set (enc s)"
    and enc_empty: "enc s = [] \<longleftrightarrow> s = []"
begin

definition form_pair :: "string \<times> string \<Rightarrow> string" where
  "form_pair p = enc (fst p) @ ''='' @ enc (snd p)"

definition form_read :: "string \<Rightarrow> string \<times> string" where
  "form_read p = (dec (before CHR ''='' p), dec (after CHR ''='' p))"

lemma before_skip: "c \<notin> set s \<Longrightarrow> before c (s @ t) = s @ before c t"
  by (induction s) (auto simp: before_def)

lemma after_skip: "c \<notin> set s \<Longrightarrow> after c (s @ t) = after c t"
  by (induction s) (auto simp: after_def)

lemma form_pair_parts:
  "before CHR ''='' (form_pair p) = enc (fst p)" "after CHR ''='' (form_pair p) = enc (snd p)"
  using no_separator [of "CHR ''=''" "fst p"]
  by (simp_all add: form_pair_def before_skip after_skip) (simp_all add: before_def after_def)

lemma form_read_pair: "form_read (form_pair p) = p"
  by (simp add: form_read_def form_pair_parts dec_enc)

lemma no_ampersand: "CHR ''&'' \<notin> set (form_pair p)" "CHR ''#'' \<notin> set (form_pair p)"
  using no_separator [of "CHR ''&''"] no_separator [of "CHR ''#''"] by (simp_all add: form_pair_def)

lemma split_form: "ps \<noteq> [] \<Longrightarrow> split_on CHR ''&'' (join ''&'' (map form_pair ps)) = map form_pair ps"
proof (induction ps rule: induct_list012)
  case (2 p)
  then show ?case by (simp add: split_on_no_sep no_ampersand)
next
  case (3 p q ps)
  then show ?case using split_on_append_sep [OF no_ampersand(1), of p] by simp
qed simp

text \<open>A form is read back, without the pairs whose value is empty.\<close>

lemma form_round_trip:
  "map form_read (filter (\<lambda>p. after CHR ''='' p \<noteq> []) (split_on CHR ''&'' (join ''&'' (map form_pair ps)))) =
     filter (\<lambda>p. snd p \<noteq> []) ps"
proof (cases ps)
  case Nil
  then show ?thesis by (simp add: after_def)
next
  case (Cons p qs)
  have "map form_read (filter (\<lambda>p. after CHR ''='' p \<noteq> []) (map form_pair xs)) = filter (\<lambda>p. snd p \<noteq> []) xs" for xs
    by (induction xs) (simp_all add: form_pair_parts form_read_pair enc_empty)
  from this [of ps] show ?thesis using split_form [of ps] Cons by simp
qed

lemma form_no_fragment: "CHR ''#'' \<notin> set (join ''&'' (map form_pair ps))"
  by (induction ps rule: induct_list012) (auto simp: no_ampersand)

end

lemma hex_uppers: "\<forall>n < 16. hex_value (hex_upper n) = Some n"
proof (intro allI impI)
  fix n :: nat assume "n < 16"
  then have "(55 + n) mod 256 = 55 + n" "(48 + n) mod 256 = 48 + n" by simp_all
  then show "hex_value (hex_upper n) = Some n"
    using \<open>n < 16\<close> by (simp add: hex_value_def hex_upper_def Let_def)
qed

lemma not_hex: "hex_value CHR ''+'' = None" "hex_value CHR ''&'' = None" "hex_value CHR ''='' = None"
  "hex_value CHR ''#'' = None" "hex_value CHR ''?'' = None" "hex_value CHR ''/'' = None"
  by (simp_all add: hex_value_def)

lemma hex_upper_plain:
  assumes "n < 16"
  shows "hex_upper n \<notin> {CHR ''+'', CHR ''&'', CHR ''='', CHR ''#'', CHR ''?'', CHR ''/''}"
  using hex_uppers [rule_format, OF assms] not_hex by (metis empty_iff insertE option.distinct(1))

lemma nibbles: "of_char c div (16 :: nat) < 16" "of_char c mod (16 :: nat) < 16"
  using nat_of_char_less_256 [of c] by (simp_all add: less_mult_imp_div_less del: nat_of_char_less_256)

lemma quote_char_separators:
  "d \<in> set (quote_char c) \<Longrightarrow> d \<notin> {CHR ''&'', CHR ''='', CHR ''#'', CHR ''?'', CHR ''/''}"
  using hex_upper_plain [OF nibbles(1), of c] hex_upper_plain [OF nibbles(2), of c]
  by (auto simp: quote_char_def unreserved_def Let_def split: if_splits)

lemma unquote_plain: "c \<noteq> CHR ''%'' \<Longrightarrow> unquote (c # s) = c # unquote s"
  by (cases s rule: unquote.cases) auto

lemma unquote_hex:
  assumes "x < 16" "y < 16"
  shows "unquote (CHR ''%'' # hex_upper x # hex_upper y # s) = char_of (16 * x + y) # unquote s"
  using hex_uppers assms by simp

lemma unquote_quote_char: "unquote_plus (quote_char c @ s) = c # unquote_plus s"
proof (cases "unreserved c")
  case True
  then have "c \<noteq> CHR ''%''" "c \<noteq> CHR ''+''" by (auto simp: unreserved_def)
  with True show ?thesis by (simp add: quote_char_def unquote_plus_def unquote_plain)
next
  case reserved: False
  show ?thesis
  proof (cases "c = CHR '' ''")
    case True
    with reserved show ?thesis by (simp add: quote_char_def unquote_plus_def unquote_plain)
  next
    case False
    have "hex_upper (of_char c div 16) \<noteq> CHR ''+''" "hex_upper (of_char c mod 16) \<noteq> CHR ''+''"
      using hex_upper_plain [OF nibbles(1), of c] hex_upper_plain [OF nibbles(2), of c] by blast+
    then show ?thesis using reserved False unquote_hex [OF nibbles, of c c]
      by (simp add: quote_char_def unquote_plus_def Let_def)
  qed
qed

lemma unquote_quote: "unquote_plus (quote_plus s) = s"
  by (induction s) (simp_all add: quote_plus_def unquote_quote_char, simp add: unquote_plus_def)

lemma quote_plus_separators:
  "c \<in> {CHR ''&'', CHR ''='', CHR ''#'', CHR ''?'', CHR ''/''} \<Longrightarrow> c \<notin> set (quote_plus s)"
  unfolding quote_plus_def using quote_char_separators by fastforce

interpretation url_form: form_codec quote_plus unquote_plus
proof
  show "unquote_plus (quote_plus s) = s" for s by (rule unquote_quote)
  show "c \<notin> set (quote_plus s)" if "c \<in> {CHR ''&'', CHR ''='', CHR ''#'', CHR ''?''}" for c s
    using quote_plus_separators [of c s] that by blast
  show "quote_plus s = [] \<longleftrightarrow> s = []" for s
    by (cases s) (auto simp: quote_plus_def quote_char_def Let_def split: if_splits)
qed

lemma urlencode_form: "urlencode ps = join ''&'' (map url_form.form_pair ps)"
  by (simp add: urlencode_def url_form.form_pair_def [abs_def] case_prod_beta')

lemma query_pairs_urlencode: "query_pairs (urlencode ps) = filter (\<lambda>p. snd p \<noteq> []) ps"
  using url_form.form_round_trip [of ps]
  by (simp add: query_pairs_def urlencode_form url_form.form_read_def [abs_def])

section \<open>Requests\<close>

text \<open>The JSON of a value as bytes is \<open>ce_dumps\<close> (\<open>json.dumps\<close> and \<open>encode\<close>); \<open>ce_loads\<close> reads the body
  of a reply, \<open>ce_loads_text\<close> a text; \<open>ce_ignore\<close> decodes bytes and drops what is not UTF-8;
  \<open>ce_str\<close> is \<open>str\<close>. The others validate a value as a model.\<close>

record client_env =
  ce_loads :: "byte list \<Rightarrow> pyval option"
  ce_loads_text :: "string \<Rightarrow> pyval option"
  ce_ignore :: "byte list \<Rightarrow> string"
  ce_str :: "pyval \<Rightarrow> string"
  ce_topology :: "pyval \<Rightarrow> network_topology result"
  ce_service :: "pyval \<Rightarrow> service_endpoint result"
  ce_report :: "pyval \<Rightarrow> multi_vantage_report result"
  ce_schedule :: "pyval \<Rightarrow> schedule_entry result"
  ce_rule :: "pyval \<Rightarrow> alert_rule result"
  ce_alert :: "pyval \<Rightarrow> alert result"
  ce_incident :: "pyval \<Rightarrow> incident result"
  ce_binding :: "pyval \<Rightarrow> host_port_binding result"

record client =
  cl_base_url :: string
  cl_token :: string
  cl_timeout :: rat

record client_request =
  cq_method :: http_method
  cq_url :: string
  cq_body :: "pyval option"
  cq_authorization :: string

text \<open>\<open>urlopen\<close>: the body of a reply with a status below 300, an \<open>HTTPError\<close> with its status and body, a
  \<open>URLError\<close> with the text of its reason, or another exception.\<close>

datatype http_outcome =
    Response "byte list"
  | Http_Failure int "byte list"
  | Url_Failure string
  | Transport_Raised py_error

type_synonym 's transport = "client_request \<Rightarrow> rat \<Rightarrow> 's \<Rightarrow> http_outcome \<times> 's"

definition rstrip_char :: "char \<Rightarrow> string \<Rightarrow> string" where
  "rstrip_char c s = rev (dropWhile (\<lambda>x. x = c) (rev s))"

definition new_client :: "string \<Rightarrow> string \<Rightarrow> rat \<Rightarrow> client" where
  "new_client base_url token timeout =
     \<lparr> cl_base_url = rstrip_char CHR ''/'' base_url, cl_token = token, cl_timeout = timeout \<rparr>"

definition clean_query :: "(string \<times> string option) list \<Rightarrow> (string \<times> string) list" where
  "clean_query query = List.map_filter (\<lambda>(k, v). map_option (Pair k) v) query"

definition request_url :: "client \<Rightarrow> string \<Rightarrow> (string \<times> string option) list \<Rightarrow> string" where
  "request_url cl path query =
     cl_base_url cl @ path @ (if clean_query query = [] then [] else ''?'' @ urlencode (clean_query query))"

definition read_response :: "client_env \<Rightarrow> byte list \<Rightarrow> pyval result" where
  "read_response env raw =
     (if raw = [] then Inr (PDict [])
      else (case ce_loads env raw of Some v \<Rightarrow> Inr v | None \<Rightarrow> Inl ValueError))"

text \<open>The error of a failure reply: the field \<open>error\<close> of its object, the whole body when it is not JSON.
  Another JSON value has no \<open>get\<close>.\<close>

definition reply_error :: "client_env \<Rightarrow> int \<Rightarrow> byte list \<Rightarrow> py_error" where
  "reply_error env code raw =
     (let detail = ce_ignore env raw in
      case ce_loads_text env detail of
        None \<Rightarrow> ControllerAPIError code detail
      | Some (PDict d) \<Rightarrow>
          ControllerAPIError code (case map_of d ''error'' of None \<Rightarrow> detail | Some v \<Rightarrow> ce_str env v)
      | Some _ \<Rightarrow> AttributeError)"

definition send_request ::
  "client_env \<Rightarrow> 's transport \<Rightarrow> client \<Rightarrow> http_method \<Rightarrow> string \<Rightarrow> pyval \<Rightarrow> (string \<times> string option) list \<Rightarrow>
   ('s, pyval) act" where
  "send_request env transport cl m path b query s =
     (let q = \<lparr> cq_method = m, cq_url = request_url cl path query, cq_body = (if b = PNone then None else Some b),
                cq_authorization = ''Bearer '' @ cl_token cl \<rparr>
      in case transport q (cl_timeout cl) s of
           (Response raw, s') \<Rightarrow> (read_response env raw, s')
         | (Http_Failure code raw, s') \<Rightarrow> (Inl (reply_error env code raw), s')
         | (Url_Failure reason, s') \<Rightarrow> (Inl (ControllerAPIError 0 reason), s')
         | (Transport_Raised e, s') \<Rightarrow> (Inl e, s'))"

text \<open>\<open>resp.get(key, default)\<close> of a value that need not be an object.\<close>

definition get_or :: "pyval \<Rightarrow> string \<Rightarrow> pyval \<Rightarrow> pyval result" where
  "get_or v k d =
     (case v of PDict m \<Rightarrow> Inr (case map_of m k of None \<Rightarrow> d | Some x \<Rightarrow> x) | _ \<Rightarrow> Inl AttributeError)"

definition read_list :: "(pyval \<Rightarrow> 'a result) \<Rightarrow> string \<Rightarrow> pyval \<Rightarrow> 'a list result" where
  "read_list model k v = bindR (get_or v k (PList [])) (\<lambda>xs. bindR (py_iter xs) (mapR model))"

definition fetch_with :: "(pyval \<Rightarrow> 'a result) \<Rightarrow> ('s, pyval) act \<Rightarrow> ('s, 'a) act" where
  "fetch_with model m = bindA m (\<lambda>v. liftA (model v))"

section \<open>The calls of the API\<close>

text \<open>Each call takes the connection \<open>send\<close>, which is \<open>send_request\<close> of a client.\<close>

type_synonym 's sender = "http_method \<Rightarrow> string \<Rightarrow> pyval \<Rightarrow> (string \<times> string option) list \<Rightarrow> ('s, pyval) act"

definition text_field :: "string \<Rightarrow> string option \<Rightarrow> (string \<times> pyval) list" where
  "text_field k v = (case v of None \<Rightarrow> [] | Some t \<Rightarrow> if t = [] then [] else [(k, PStr t)])"

definition client_health :: "'s sender \<Rightarrow> ('s, pyval) act" where
  "client_health send = send GET ''/v1/health'' PNone []"

definition client_list_agents :: "'s sender \<Rightarrow> ('s, pyval) act" where
  "client_list_agents send = fetch_with (\<lambda>v. get_or v ''agents'' (PList [])) (send GET ''/v1/agents'' PNone [])"

definition client_register_agent :: "'s sender \<Rightarrow> string \<Rightarrow> string \<Rightarrow> (string \<times> string) list \<Rightarrow> ('s, pyval) act" where
  "client_register_agent send agent_id url tags =
     send POST ''/v1/agents''
       (PDict [(''agent_id'', PStr agent_id), (''url'', PStr url),
         (''topology_tags'', PDict (map (\<lambda>(k, v). (k, PStr v)) tags))]) []"

definition client_list_topology_names :: "'s sender \<Rightarrow> ('s, pyval) act" where
  "client_list_topology_names send =
     fetch_with (\<lambda>v. get_or v ''topologies'' (PList [])) (send GET ''/v1/topology'' PNone [])"

definition client_import_topology :: "client_env \<Rightarrow> 's sender \<Rightarrow> pyval \<Rightarrow> ('s, network_topology) act" where
  "client_import_topology env send topology = fetch_with (ce_topology env) (send POST ''/v1/topology'' topology [])"

definition client_register_services ::
  "client_env \<Rightarrow> 's sender \<Rightarrow> pyval \<Rightarrow> string option \<Rightarrow> ('s, service_endpoint list) act" where
  "client_register_services env send inventory topology =
     fetch_with (read_list (ce_service env) ''services'')
       (send POST ''/v1/services'' inventory [(''topology'', topology)])"

definition client_list_services :: "client_env \<Rightarrow> 's sender \<Rightarrow> ('s, service_endpoint list) act" where
  "client_list_services env send =
     fetch_with (read_list (ce_service env) ''services'') (send GET ''/v1/services'' PNone [])"

definition optional_fields :: "string option \<Rightarrow> string option \<Rightarrow> string option \<Rightarrow> (string \<times> pyval) list" where
  "optional_fields probe_type source_node_id topology =
     text_field ''probe_type'' probe_type @ text_field ''source_node_id'' source_node_id @
     text_field ''topology'' topology"

definition client_diagnose ::
  "client_env \<Rightarrow> 's sender \<Rightarrow> string \<Rightarrow> string option \<Rightarrow> int \<Rightarrow> string option \<Rightarrow> string option \<Rightarrow>
   ('s, multi_vantage_report) act" where
  "client_diagnose env send service_id probe_type n source_node_id topology =
     fetch_with (ce_report env)
       (send POST ''/v1/diagnose''
         (PDict ([(''service_id'', PStr service_id), (''count'', PInt n)] @
           optional_fields probe_type source_node_id topology)) [])"

definition client_list_diagnoses :: "client_env \<Rightarrow> 's sender \<Rightarrow> ('s, multi_vantage_report list) act" where
  "client_list_diagnoses env send =
     fetch_with (read_list (ce_report env) ''diagnoses'') (send GET ''/v1/diagnoses'' PNone [])"

definition client_run_monitor :: "client_env \<Rightarrow> 's sender \<Rightarrow> ('s, multi_vantage_report list) act" where
  "client_run_monitor env send =
     fetch_with (read_list (ce_report env) ''reports'') (send POST ''/v1/monitor/run'' (PDict []) [])"

definition client_list_schedules ::
  "client_env \<Rightarrow> 's sender \<Rightarrow> string option \<Rightarrow> ('s, schedule_entry list) act" where
  "client_list_schedules env send service_id =
     fetch_with (read_list (ce_schedule env) ''schedules'')
       (send GET ''/v1/schedules'' PNone [(''service_id'', service_id)])"

definition client_create_schedule ::
  "client_env \<Rightarrow> 's sender \<Rightarrow> string \<Rightarrow> rat \<Rightarrow> int \<Rightarrow> string option \<Rightarrow> string option \<Rightarrow> string option \<Rightarrow>
   ('s, schedule_entry) act" where
  "client_create_schedule env send service_id interval_seconds n probe_type source_node_id topology =
     fetch_with (ce_schedule env)
       (send POST ''/v1/schedules''
         (PDict ([(''service_id'', PStr service_id), (''interval_seconds'', PFloat interval_seconds),
            (''count'', PInt n)] @ optional_fields probe_type source_node_id topology)) [])"

definition client_delete_schedule :: "'s sender \<Rightarrow> string \<Rightarrow> ('s, bool) act" where
  "client_delete_schedule send schedule_id =
     fetch_with (\<lambda>v. bindR (get_or v ''deleted'' PNone) (\<lambda>d. Inr (truthy d)))
       (send DELETE (''/v1/schedules/'' @ schedule_id) PNone [])"

definition client_list_alert_rules :: "client_env \<Rightarrow> 's sender \<Rightarrow> ('s, alert_rule list) act" where
  "client_list_alert_rules env send =
     fetch_with (read_list (ce_rule env) ''rules'') (send GET ''/v1/alert-rules'' PNone [])"

definition client_create_alert_rule ::
  "client_env \<Rightarrow> 's sender \<Rightarrow> string \<Rightarrow> rat \<Rightarrow> string \<Rightarrow> string option \<Rightarrow> string list option \<Rightarrow>
   ('s, alert_rule) act" where
  "client_create_alert_rule env send name min_confidence sev service_id fire_on =
     fetch_with (ce_rule env)
       (send POST ''/v1/alert-rules''
         (PDict ([(''name'', PStr name), (''min_confidence'', PFloat min_confidence), (''severity'', PStr sev)] @
            text_field ''service_id'' service_id @
            (case fire_on of None \<Rightarrow> []
             | Some ls \<Rightarrow> if ls = [] then [] else [(''fire_on_localizations'', PList (map PStr ls))]))) [])"

definition client_list_alerts ::
  "client_env \<Rightarrow> 's sender \<Rightarrow> string option \<Rightarrow> string option \<Rightarrow> ('s, alert list) act" where
  "client_list_alerts env send service_id state =
     fetch_with (read_list (ce_alert env) ''alerts'')
       (send GET ''/v1/alerts'' PNone [(''service_id'', service_id), (''state'', state)])"

definition client_list_incidents ::
  "client_env \<Rightarrow> 's sender \<Rightarrow> string option \<Rightarrow> string option \<Rightarrow> ('s, incident list) act" where
  "client_list_incidents env send service_id state =
     fetch_with (read_list (ce_incident env) ''incidents'')
       (send GET ''/v1/incidents'' PNone [(''service_id'', service_id), (''state'', state)])"

definition client_get_incident :: "client_env \<Rightarrow> 's sender \<Rightarrow> string \<Rightarrow> ('s, incident) act" where
  "client_get_incident env send incident_id =
     fetch_with (ce_incident env) (send GET (''/v1/incidents/'' @ incident_id) PNone [])"

definition client_ack_incident :: "client_env \<Rightarrow> 's sender \<Rightarrow> string \<Rightarrow> ('s, incident) act" where
  "client_ack_incident env send incident_id =
     fetch_with (ce_incident env) (send POST (''/v1/incidents/'' @ incident_id @ ''/ack'') (PDict []) [])"

definition client_resolve_incident :: "client_env \<Rightarrow> 's sender \<Rightarrow> string \<Rightarrow> ('s, incident) act" where
  "client_resolve_incident env send incident_id =
     fetch_with (ce_incident env) (send POST (''/v1/incidents/'' @ incident_id @ ''/resolve'') (PDict []) [])"

definition client_correlate ::
  "client_env \<Rightarrow> 's sender \<Rightarrow> string \<Rightarrow> pyval \<Rightarrow> ('s, host_port_binding list) act" where
  "client_correlate env send topology switches =
     fetch_with (read_list (ce_binding env) ''bindings'')
       (send POST (''/v1/topology/'' @ topology @ ''/correlate'') (PDict [(''switches'', switches)]) [])"

definition client_list_bindings ::
  "client_env \<Rightarrow> 's sender \<Rightarrow> string option \<Rightarrow> ('s, host_port_binding list) act" where
  "client_list_bindings env send topology =
     fetch_with (read_list (ce_binding env) ''bindings'')
       (send GET (case topology of None \<Rightarrow> ''/v1/bindings''
                  | Some t \<Rightarrow> if t = [] then ''/v1/bindings'' else ''/v1/topology/'' @ t @ ''/bindings'') PNone [])"

definition client_augment_topology :: "client_env \<Rightarrow> 's sender \<Rightarrow> string \<Rightarrow> ('s, network_topology) act" where
  "client_augment_topology env send topology =
     fetch_with (ce_topology env) (send POST (''/v1/topology/'' @ topology @ ''/augment'') (PDict []) [])"

section \<open>The controller at the other end\<close>

text \<open>How the handler of the controller writes its replies: the JSON text of a value, and the dump of every
  model.\<close>

record wire =
  wi_text :: "pyval \<Rightarrow> byte list"
  wi_agent :: "registered_agent \<Rightarrow> pyval"
  wi_job :: "fanout_job \<Rightarrow> pyval"
  wi_topology :: "network_topology \<Rightarrow> pyval"
  wi_correlation :: "agent_correlation \<Rightarrow> pyval"
  wi_binding :: "host_port_binding \<Rightarrow> pyval"
  wi_service :: "service_endpoint \<Rightarrow> pyval"
  wi_report :: "multi_vantage_report \<Rightarrow> pyval"
  wi_schedule :: "schedule_entry \<Rightarrow> pyval"
  wi_rule :: "alert_rule \<Rightarrow> pyval"
  wi_alert :: "alert \<Rightarrow> pyval"
  wi_incident :: "incident \<Rightarrow> pyval"

definition reply_json :: "wire \<Rightarrow> payload \<Rightarrow> pyval" where
  "reply_json w p =
     (let many = (\<lambda>k xs. PDict [(k, PList xs)]) in
      case p of
        J_Error m \<Rightarrow> PDict [(''error'', PStr m)]
      | J_Health \<Rightarrow> PDict [(''status'', PStr ''healthy''), (''service'', PStr ''netforge-controller'')]
      | J_Agents xs \<Rightarrow> many ''agents'' (map (wi_agent w) xs)
      | J_Agent a \<Rightarrow> wi_agent w a
      | J_Job j \<Rightarrow> wi_job w j
      | J_Topology t \<Rightarrow> wi_topology w t
      | J_Topologies ns \<Rightarrow> many ''topologies'' (map PStr ns)
      | J_Correlation c \<Rightarrow> wi_correlation w c
      | J_Correlated n bs \<Rightarrow> PDict [(''count'', PInt (int n)), (''bindings'', PList (map (wi_binding w) bs))]
      | J_Bindings bs \<Rightarrow> many ''bindings'' (map (wi_binding w) bs)
      | J_Services xs \<Rightarrow> many ''services'' (map (wi_service w) xs)
      | J_Report r \<Rightarrow> wi_report w r
      | J_Diagnoses rs \<Rightarrow> many ''diagnoses'' (map (wi_report w) rs)
      | J_Schedule s \<Rightarrow> wi_schedule w s
      | J_Schedules xs \<Rightarrow> many ''schedules'' (map (wi_schedule w) xs)
      | J_Deleted \<Rightarrow> PDict [(''deleted'', PBool True)]
      | J_Ran n rs \<Rightarrow> PDict [(''ran'', PInt (int n)), (''reports'', PList (map (wi_report w) rs))]
      | J_Rule r \<Rightarrow> wi_rule w r
      | J_Rules rs \<Rightarrow> many ''rules'' (map (wi_rule w) rs)
      | J_Alerts xs \<Rightarrow> many ''alerts'' (map (wi_alert w) xs)
      | J_Incidents xs \<Rightarrow> many ''incidents'' (map (wi_incident w) xs)
      | J_Incident i \<Rightarrow> wi_incident w i)"

definition status_code :: "http_status \<Rightarrow> int" where
  "status_code st = (case st of OK_200 \<Rightarrow> 200 | CREATED_201 \<Rightarrow> 201 | BAD_REQUEST_400 \<Rightarrow> 400
    | UNAUTHORIZED_401 \<Rightarrow> 401 | NOT_FOUND_404 \<Rightarrow> 404 | CONFLICT_409 \<Rightarrow> 409 | ENTITY_TOO_LARGE_413 \<Rightarrow> 413
    | NOT_IMPLEMENTED_501 \<Rightarrow> 501)"

definition received :: "wire \<Rightarrow> string \<Rightarrow> client_request \<Rightarrow> http_request" where
  "received w base q =
     (let raw = (case cq_body q of None \<Rightarrow> [] | Some b \<Rightarrow> wi_text w b) in
      \<lparr> hr_method = cq_method q, hr_target = drop (length base) (cq_url q), hr_authorization = Some (cq_authorization q),
         hr_content_length = (if cq_body q = None then None else Some (str_of_nat (length raw))), hr_stream = raw \<rparr>)"

definition sent_back :: "wire \<Rightarrow> http_reply \<Rightarrow> http_outcome" where
  "sent_back w r =
     (let raw = wi_text w (reply_json w (hp_payload r)) in
      if hp_status r \<in> {OK_200, CREATED_201} then Response raw else Http_Failure (status_code (hp_status r)) raw)"

text \<open>A request whose handler raises gets no reply: the connection is closed, which is not a
  \<open>URLError\<close> for the client.\<close>

definition controller_at :: "env \<Rightarrow> api_models \<Rightarrow> string \<Rightarrow> wire \<Rightarrow> string \<Rightarrow> controller transport" where
  "controller_at env models token w base q timeout s =
     (case handle env models token (received w base q) s of
        (Inr r, s') \<Rightarrow> (sent_back w r, s')
      | (Inl e, s') \<Rightarrow> (Transport_Raised (OtherError ''RemoteDisconnected''), s'))"

text \<open>What the client and the controller rely on: JSON texts and
  the dumps of incidents are read back.\<close>

definition faithful_wire :: "client_env \<Rightarrow> wire \<Rightarrow> bool" where
  "faithful_wire cenv w \<longleftrightarrow>
     (\<forall>v. wi_text w v \<noteq> [] \<and> ce_loads cenv (wi_text w v) = Some v \<and>
          ce_loads_text cenv (ce_ignore cenv (wi_text w v)) = Some v) \<and>
     (\<forall>s. ce_str cenv (PStr s) = s) \<and> (\<forall>i. ce_incident cenv (wi_incident w i) = Inr i)"

text \<open>The client of a controller with the same token.\<close>

definition over :: "env \<Rightarrow> api_models \<Rightarrow> client_env \<Rightarrow> wire \<Rightarrow> client \<Rightarrow> controller sender" where
  "over env models cenv w cl =
     send_request cenv (controller_at env models (cl_token cl) w (cl_base_url cl)) cl"

lemma join_split_on: "join [c] (split_on c s) = s"
proof (induction s)
  case (Cons x s)
  then show ?case by (cases "split_on c s" rule: remdups_adj.cases) (auto split: list.splits)
qed simp

lemma split_on_subset: "w \<in> set (split_on c s) \<Longrightarrow> set w \<subseteq> set s"
  by (induction s arbitrary: w) (auto split: list.splits if_splits, blast)

text \<open>The path of a target that is a path without special characters and an optional query.\<close>

definition plain :: "string \<Rightarrow> bool" where
  "plain s \<longleftrightarrow> set s \<inter> {CHR ''?'', CHR ''#'', CHR '';''} = {}"

lemma before_none: "c \<notin> set s \<Longrightarrow> before c s = s"
  by (induction s) (auto simp: before_def)

lemma after_none: "c \<notin> set s \<Longrightarrow> after c s = []"
  by (induction s) (auto simp: after_def)

lemma plain_path:
  assumes "plain path"
  shows "url_path path = path" "CHR ''#'' \<notin> set q \<Longrightarrow> url_path (path @ ''?'' @ q) = path"
    "CHR ''#'' \<notin> set q \<Longrightarrow> url_query (path @ ''?'' @ q) = q" "url_query path = []"
proof -
  have "CHR '';'' \<notin> set (last (split_on CHR ''/'' path))"
    using split_on_subset [OF last_in_set [OF split_on_nonempty]] assms by (fastforce simp: plain_def)
  then have join: "join ''/'' (butlast (split_on CHR ''/'' path) @ [before CHR '';'' (last (split_on CHR ''/'' path))]) = path"
    by (simp add: before_none join_split_on)
  have free: "CHR ''#'' \<notin> set path" "CHR ''?'' \<notin> set path" using assms by (auto simp: plain_def)
  show "url_path path = path" "url_query path = []"
    using join free by (simp_all add: url_path_def url_query_def before_none after_none)
  assume "CHR ''#'' \<notin> set q"
  with free have hash: "before CHR ''#'' (path @ ''?'' @ q) = path @ ''?'' @ q" by (intro before_none) auto
  have "before CHR ''?'' (path @ ''?'' @ q) = path" "after CHR ''?'' (path @ ''?'' @ q) = q"
    using url_form.before_skip [OF free(2)] url_form.after_skip [OF free(2)] by (simp_all add: before_def after_def)
  with join hash show "url_path (path @ ''?'' @ q) = path" "url_query (path @ ''?'' @ q) = q"
    by (simp_all add: url_path_def url_query_def)
qed

text \<open>What reaches the caller of a reply of the controller.\<close>

definition delivered :: "client_env \<Rightarrow> wire \<Rightarrow> http_reply \<Rightarrow> pyval result" where
  "delivered cenv w r =
     (if hp_status r \<in> {OK_200, CREATED_201} then Inr (reply_json w (hp_payload r))
      else (case hp_payload r of
              J_Error m \<Rightarrow> Inl (ControllerAPIError (status_code (hp_status r)) m)
            | p \<Rightarrow> Inl (reply_error cenv (status_code (hp_status r)) (wi_text w (reply_json w p)))))"

definition target_of :: "string \<Rightarrow> (string \<times> string option) list \<Rightarrow> string" where
  "target_of path query = path @ (if clean_query query = [] then [] else ''?'' @ urlencode (clean_query query))"

lemma over_controller:
  assumes "faithful_wire cenv w"
  shows "over env models cenv w cl m path b query s =
    (case handle env models (cl_token cl) \<lparr> hr_method = m, hr_target = target_of path query,
            hr_authorization = Some (''Bearer '' @ cl_token cl),
            hr_content_length = (if b = PNone then None else Some (str_of_nat (length (wi_text w b)))),
            hr_stream = (if b = PNone then [] else wi_text w b) \<rparr> s of
       (Inr r, s') \<Rightarrow> (delivered cenv w r, s')
     | (Inl e, s') \<Rightarrow> (Inl (OtherError ''RemoteDisconnected''), s'))"
proof -
  have url: "drop (length (cl_base_url cl)) (request_url cl path query) = target_of path query"
    by (simp add: request_url_def target_of_def)
  have returned: "(case sent_back w r of Response raw \<Rightarrow> (read_response cenv raw, s')
      | Http_Failure code raw \<Rightarrow> (Inl (reply_error cenv code raw), s')
      | Url_Failure reason \<Rightarrow> (Inl (ControllerAPIError 0 reason), s')
      | Transport_Raised e \<Rightarrow> (Inl e, s')) = (delivered cenv w r, s')" for r s'
    using assms unfolding faithful_wire_def
    by (auto simp: sent_back_def delivered_def read_response_def reply_error_def reply_json_def Let_def
        split: payload.splits)
  show ?thesis
    unfolding over_def send_request_def controller_at_def received_def Let_def
    by (auto simp: url returned [symmetric] split: sum.splits prod.splits if_splits)
qed

lemma over_get:
  assumes "faithful_wire cenv w" "ascii (''Bearer '' @ cl_token cl)"
  shows "over env models cenv w cl GET path PNone query s =
    (case catch_errors env (get_route env (target_of path query) (url_path (target_of path query))) s of
       (Inr r, s') \<Rightarrow> (delivered cenv w r, s')
     | (Inl e, s') \<Rightarrow> (Inl (OtherError ''RemoteDisconnected''), s'))"
  using assms by (simp add: over_controller handle_def dispatch_def compare_digest_def Let_def)

text \<open>A filter of a listing arrives: the query of the target has the values of the client, the empty
  ones left out.\<close>

lemma clean_query_some: "clean_query [] = []" "clean_query ((k, None) # q) = clean_query q"
  "clean_query ((k, Some v) # q) = (k, v) # clean_query q"
  by (simp_all add: clean_query_def map_filter_simps)

lemma filters_arrive:
  assumes "plain path"
  shows "url_path (target_of path query) = path"
    "query_value (target_of path query) k = map_of (filter (\<lambda>p. snd p \<noteq> []) (clean_query query)) k"
proof -
  have fragment: "CHR ''#'' \<notin> set (urlencode ps)" for ps
    by (simp add: urlencode_form url_form.form_no_fragment)
  then show "url_path (target_of path query) = path"
    using plain_path [OF assms] by (simp add: target_of_def)
  show "query_value (target_of path query) k = map_of (filter (\<lambda>p. snd p \<noteq> []) (clean_query query)) k"
    using plain_path [OF assms] fragment
    by (auto simp: target_of_def query_value_def query_pairs_urlencode) (simp add: query_pairs_def after_def)
qed

section \<open>Calls as operations of the controller\<close>

text \<open>A call that posts an empty object.\<close>

definition empty_body :: "api_models \<Rightarrow> wire \<Rightarrow> bool" where
  "empty_body models w \<longleftrightarrow>
     am_loads models (wi_text w (PDict [])) = Some (PDict []) \<and> int (length (wi_text w (PDict []))) \<le> MAX_BODY_BYTES"

lemma over_post_empty:
  assumes "faithful_wire cenv w" "ascii (''Bearer '' @ cl_token cl)" "empty_body models w" "plain path"
  shows "over env models cenv w cl POST path (PDict []) [] s =
    (case catch_errors env (post_route env models path path []) s of
       (Inr r, s') \<Rightarrow> (delivered cenv w r, s')
     | (Inl e, s') \<Rightarrow> (Inl (OtherError ''RemoteDisconnected''), s'))"
proof -
  have "wi_text w (PDict []) \<noteq> []" using assms(1) by (simp add: faithful_wire_def)
  then have "read_json_body (am_loads models) (Some (str_of_nat (length (wi_text w (PDict []))))) (wi_text w (PDict []))
      MAX_BODY_BYTES = Inr []"
    using assms(3) by (simp add: read_json_body_def empty_body_def Let_def)
  then show ?thesis
    using assms plain_path(1) [OF assms(4)]
    by (simp add: over_controller handle_def dispatch_def compare_digest_def target_of_def clean_query_some Let_def)
qed

lemma incident_segments:
  assumes "CHR ''/'' \<notin> set i"
  shows "split_on CHR ''/'' (''/v1/incidents/'' @ i @ CHR ''/'' # s) = [[], ''v1'', ''incidents'', i] @ split_on CHR ''/'' s"
proof -
  have "split_on CHR ''/'' ([] @ CHR ''/'' # ''v1'' @ CHR ''/'' # ''incidents'' @ CHR ''/'' # i @ CHR ''/'' # s) =
      [] # ''v1'' # ''incidents'' # i # split_on CHR ''/'' s"
    by (subst split_on_append_sep, use assms in simp)+ simp
  then show ?thesis by simp
qed

lemma post_incident:
  assumes "CHR ''/'' \<notin> set i"
  shows "post_route env models t (''/v1/incidents/'' @ i @ ''/'' @ y @ ''resolve'') b =
      (if ends_with ''/resolve'' (''/v1/incidents/'' @ i @ ''/'' @ y @ ''resolve'')
       then bindA (resolve_incident env i None) (\<lambda>i. reply OK_200 (J_Incident i))
       else reply NOT_FOUND_404 (J_Error ''unknown endpoint''))"
proof -
  have "segment 3 (''/v1/incidents/'' @ i @ ''/'' @ y @ ''resolve'') = Inr i"
    using incident_segments [OF assms, of "y @ ''resolve''"] by (simp add: segment_def nthR_def)
  moreover have "\<not> ends_with ''/ack'' (''/v1/incidents/'' @ i @ ''/'' @ y @ ''resolve'')"
    by (simp add: ends_with_def starts_with_def)
  moreover have "bindA (liftA (Inr i)) f = f i" for f :: "string \<Rightarrow> (controller, http_reply) act"
    by (simp add: fun_eq_iff)
  ultimately show ?thesis
    by (simp add: post_route_def topology_action_def starts_with_def del: append_Cons)
qed

lemma get_incidents:
  "get_route env target ''/v1/incidents'' =
     bindA (liftA (incident_state_of (query_value target ''state''))) (\<lambda>state.
     bindA (readA (list_incidents (query_value target ''service_id'') state list_limit)) (\<lambda>incidents.
       reply OK_200 (J_Incidents incidents)))"
  by (simp add: get_route_def topology_action_def starts_with_def)

lemma mapR_inverse: "(\<And>x. f (g x) = Inr x) \<Longrightarrow> mapR f (map g xs) = Inr xs"
  by (induction xs) simp_all

section \<open>A concrete connection\<close>

text \<open>JSON and dumps as numberings of the values, apart from the empty object.\<close>

instance pyval :: countable by countable_datatype
instance severity :: countable by countable_datatype
instance incident_state :: countable by countable_datatype

type_synonym incident_fields =
  "(string \<times> string option \<times> string \<times> incident_state \<times> severity) \<times> string \<times> string list \<times> rat \<times> rat \<times> rat option"

definition incident_fields :: "incident \<Rightarrow> incident_fields" where
  "incident_fields i = ((in_incident_id i, in_service_id i, in_target i, in_state i, in_severity i),
     in_summary i, in_alert_ids i, in_opened_at i, in_updated_at i, in_resolved_at i)"

definition incident_from :: "incident_fields \<Rightarrow> incident" where
  "incident_from = (\<lambda>((i, s, t, st, sev), sm, al, t0, t1, t2). incident.make i s t st sev sm al t0 t1 t2)"

lemma incident_from_fields [simp]: "incident_from (incident_fields i) = i"
  by (simp add: incident_from_def incident_fields_def incident.make_def)

definition numbering :: "pyval \<Rightarrow> nat" where
  "numbering v = (if v = PDict [] then 1 else 2 + to_nat v)"

definition numbered :: "nat \<Rightarrow> pyval" where
  "numbered n = (if n = 1 then PDict [] else from_nat (n - 2))"

lemma numbered_numbering [simp]: "numbered (numbering v) = v"
  by (simp add: numbered_def numbering_def)

definition sample_wire :: wire where
  "sample_wire = \<lparr> wi_text = (\<lambda>v. replicate (numbering v) 0), wi_agent = (\<lambda>_. PNone), wi_job = (\<lambda>_. PNone),
     wi_topology = (\<lambda>_. PNone), wi_correlation = (\<lambda>_. PNone), wi_binding = (\<lambda>_. PNone), wi_service = (\<lambda>_. PNone),
     wi_report = (\<lambda>_. PNone), wi_schedule = (\<lambda>_. PNone), wi_rule = (\<lambda>_. PNone), wi_alert = (\<lambda>_. PNone),
     wi_incident = (\<lambda>i. PInt (int (to_nat (incident_fields i)))) \<rparr>"

definition sample_client_env :: client_env where
  "sample_client_env = \<lparr> ce_loads = (\<lambda>bs. Some (numbered (length bs))), ce_loads_text = (\<lambda>s. Some (numbered (length s))),
     ce_ignore = map (\<lambda>_. CHR ''x''), ce_str = (\<lambda>v. case v of PStr s \<Rightarrow> s | _ \<Rightarrow> []), ce_topology = (\<lambda>_. Inl ValidationError),
     ce_service = (\<lambda>_. Inl ValidationError), ce_report = (\<lambda>_. Inl ValidationError), ce_schedule = (\<lambda>_. Inl ValidationError),
     ce_rule = (\<lambda>_. Inl ValidationError), ce_alert = (\<lambda>_. Inl ValidationError),
     ce_incident = (\<lambda>v. case v of PInt n \<Rightarrow> Inr (incident_from (from_nat (nat n))) | _ \<Rightarrow> Inl ValidationError),
     ce_binding = (\<lambda>_. Inl ValidationError) \<rparr>"

definition wired_models :: api_models where
  "wired_models = sample_models \<lparr> am_loads := (\<lambda>bs. Some (numbered (length bs))) \<rparr>"

lemma sample_faithful: "faithful_wire sample_client_env sample_wire" "empty_body wired_models sample_wire"
  by (simp_all add: faithful_wire_def empty_body_def sample_client_env_def sample_wire_def wired_models_def MAX_BODY_BYTES_def)
    (auto simp: numbering_def numbered_def)

definition sample_client :: client where
  "sample_client = new_client ''http://127.0.0.1:8080/'' ''t'' 10"

section \<open>Properties\<close>

text \<open>C37: Listing the incidents through the client gives exactly what the controller holds, for every text of
  the filters, whatever characters are in it: the incidents of the service in the state, newest first and
  at most the limit, read from the state and leaving it unchanged; an empty service filter counts as
  none, and an unknown state is the API error 400.\<close>

theorem client_lists_incidents:
  assumes "faithful_wire cenv w" "ascii (''Bearer '' @ cl_token cl)"
  shows "client_list_incidents cenv (over env models cenv w cl) sid state s =
    (case incident_state_of state of
       Inr st \<Rightarrow> (Inr (list_incidents (if sid = Some [] then None else sid) st list_limit (ct_store s)), s)
     | Inl e \<Rightarrow> (Inl (ControllerAPIError 400 (exc_message env e)), s))"
proof -
  let ?q = "[(''service_id'', sid), (''state'', state)]"
  have p: "plain ''/v1/incidents''" by (simp add: plain_def)
  have vals: "query_value (target_of ''/v1/incidents'' ?q) ''service_id'' = (if sid = Some [] then None else sid)"
    "query_value (target_of ''/v1/incidents'' ?q) ''state'' = (if state = Some [] then None else state)"
    unfolding filters_arrive(2) [OF p] by (cases sid; cases state; simp add: clean_query_some)+
  have state: "incident_state_of (if state = Some [] then None else state) = incident_state_of state"
    by (simp add: incident_state_of_def)
  have errors: "incident_state_of state = Inl e \<Longrightarrow> e = ValueError" for e
    by (auto simp: incident_state_of_def split: option.splits if_splits)
  have inc: "mapR (ce_incident cenv) (map (wi_incident w) is) = Inr is" for "is"
    using assms(1) by (intro mapR_inverse) (simp add: faithful_wire_def)
  show ?thesis
    unfolding client_list_incidents_def fetch_with_def bindA_def over_get [OF assms] filters_arrive(1) [OF p] get_incidents vals
    by (auto simp: state catch_errors_def bindA_def liftA_def readA_def getA_def reply_def returnA_def delivered_def
        reply_json_def read_list_def get_or_def inc status_code_def split: sum.splits dest: errors)
qed

lemma client_lists_incidents_witness:
  "client_list_incidents sample_client_env (over sample_env wired_models sample_client_env sample_wire sample_client)
     (Some ''a&b=c'') (Some ''open'') sample_state =
   (Inr (list_incidents (Some ''a&b=c'') (Some INC_OPEN) list_limit (ct_store sample_state)), sample_state)"
proof -
  have "ascii (''Bearer '' @ cl_token sample_client)"
    by (simp add: sample_client_def new_client_def ascii_def)
  from client_lists_incidents [OF sample_faithful(1) this, of sample_env wired_models "Some ''a&b=c''" "Some ''open''"]
  show ?thesis by (simp add: incident_state_of_def)
qed

lemma resolved_over:
  assumes "faithful_wire cenv w" "ascii (''Bearer '' @ cl_token cl)" "empty_body models w"
    and "plain i" "CHR ''/'' \<notin> set i"
  shows "plain x \<Longrightarrow> client_resolve_incident cenv (over env models cenv w cl) (i @ ''/'' @ x) s =
      client_resolve_incident cenv (over env models cenv w cl) i s"
    and "client_resolve_incident cenv (over env models cenv w cl) i s =
      (if get_incident i (ct_store s) = None
       then (Inl (ControllerAPIError 404 (''unknown incident: '' @ i)), s)
       else resolve_incident env i None s)"
proof -
  have plain: "plain (''/v1/incidents/'' @ i @ ''/resolve'')"
    using assms(4) by (auto simp: plain_def)
  have route: "post_route env models t (''/v1/incidents/'' @ i @ ''/'' @ x @ ''/resolve'') [] =
      bindA (resolve_incident env i None) (\<lambda>i. reply OK_200 (J_Incident i))"
    "post_route env models t (''/v1/incidents/'' @ i @ ''/resolve'') [] =
      bindA (resolve_incident env i None) (\<lambda>i. reply OK_200 (J_Incident i))" for t x
    using post_incident [OF assms(5), of env models t "x @ ''/''" "[]"] post_incident [OF assms(5), of env models t "[]" "[]"]
    by (simp_all add: ends_with_def starts_with_def)
  note calls = client_resolve_incident_def fetch_with_def append_assoc bindA_def [of "over _ _ _ _ _ _ _ _ _"]
  show "client_resolve_incident cenv (over env models cenv w cl) (i @ ''/'' @ x) s =
      client_resolve_incident cenv (over env models cenv w cl) i s" if "plain x"
  proof -
    have "plain (''/v1/incidents/'' @ i @ ''/'' @ x @ ''/resolve'')"
      using assms(4) that by (auto simp: plain_def)
    then show ?thesis
      unfolding calls by (simp only: over_post_empty [OF assms(1-3)] plain route)
  qed
  show "client_resolve_incident cenv (over env models cenv w cl) i s =
      (if get_incident i (ct_store s) = None
       then (Inl (ControllerAPIError 404 (''unknown incident: '' @ i)), s)
       else resolve_incident env i None s)"
    using assms(1)
    unfolding calls over_post_empty [OF assms(1-3) plain] route
    by (auto simp: faithful_wire_def resolve_incident_def change_incident_def require_incident_def requireA_def readA_def getA_def
        bindA_def failA_def returnA_def catch_errors_def reply_def liftA_def delivered_def reply_json_def exc_message_def
        status_code_def pureA_def writeA_def modifyA_def split: option.splits sum.splits prod.splits)
qed

text \<open>The client does not quote identifiers in paths, and the controller reads the incident of a
  resolution from the fourth segment: resolving \<open>i/x\<close> resolves the incident \<open>i\<close>, exactly as
  resolving \<open>i\<close> does, which is the operation of the controller, or the API error 404.\<close>

theorem client_resolves_prefix:
  assumes "faithful_wire cenv w" "ascii (''Bearer '' @ cl_token cl)" "empty_body models w"
    and "plain i" "plain x" "CHR ''/'' \<notin> set i"
  shows "client_resolve_incident cenv (over env models cenv w cl) (i @ ''/'' @ x) s =
      client_resolve_incident cenv (over env models cenv w cl) i s \<and>
    client_resolve_incident cenv (over env models cenv w cl) i s =
      (if get_incident i (ct_store s) = None
       then (Inl (ControllerAPIError 404 (''unknown incident: '' @ i)), s)
       else resolve_incident env i None s)"
  using resolved_over [OF assms(1-4,6)] assms(5) by blast

lemma client_resolves_prefix_witness:
  "\<exists>i s'. client_resolve_incident sample_client_env (over sample_env wired_models sample_client_env sample_wire sample_client)
     ''u/x'' sample_state = (Inr i, s') \<and> in_state i = INC_RESOLVED \<and> in_incident_id i = ''u''"
proof -
  have "ascii (''Bearer '' @ cl_token sample_client)"
    by (simp add: sample_client_def new_client_def ascii_def)
  moreover have "plain ''u''" "plain ''x''" "CHR ''/'' \<notin> set ''u''" by (simp_all add: plain_def)
  moreover have "\<exists>i s'. resolve_incident sample_env ''u'' None sample_state = (Inr i, s') \<and>
      in_state i = INC_RESOLVED \<and> in_incident_id i = ''u''"
    by (simp add: resolve_incident_def change_incident_def require_incident_def requireA_def readA_def getA_def bindA_def
        returnA_def pureA_def sample_incident open_incident_def close_incident_def writeA_def modifyA_def split: prod.splits)
  ultimately show ?thesis
    using client_resolves_prefix [OF sample_faithful(1) _ sample_faithful(2), of sample_client "''u''" "''x''" sample_env sample_state]
    by (simp add: sample_incident)
qed

end
