(* ===== verification/Dispatch.thy ===== *)
theory Dispatch
  imports Agent Client
begin

text \<open>
  Model of the dispatcher of the controller (\<open>controller/dispatch.py\<close>): a probe sent to one agent, and
  what comes back. The fan-out over several agents, which collects the results and turns every
  exception into its text, is in the theory of the service; here is the probe each of its futures runs,
  and what it does when the handler of an agent is at the other end.
\<close>

section \<open>A probe sent to an agent\<close>

text \<open>JSON, the dump of a request, the validation of an observation, and \<open>str\<close> of an exception.\<close>

record dispatch_env =
  de_loads :: "byte list \<Rightarrow> pyval option"
  de_request_json :: "probe_request \<Rightarrow> byte list"
  de_observation :: "pyval \<Rightarrow> agent_observation result"
  de_text :: "py_error \<Rightarrow> string"

record agent_request =
  aq_url :: string
  aq_body :: "byte list"
  aq_authorization :: string
  aq_timeout :: rat

text \<open>\<open>urlopen\<close>: the body of a reply, one of the exceptions the dispatcher names with its text (an HTTP
  error, a \<open>URLError\<close>, a timeout), or another one.\<close>

datatype agent_outcome =
    Agent_Reply "byte list"
  | Agent_Failed string
  | Agent_Raised py_error

definition probe_url :: "registered_agent \<Rightarrow> string" where
  "probe_url agent = rstrip_char CHR ''/'' (ra_url agent) @ ''/v1/probe''"

definition probe_call_of :: "dispatch_env \<Rightarrow> string \<Rightarrow> registered_agent \<Rightarrow> probe_request \<Rightarrow> agent_request" where
  "probe_call_of env token agent request =
     \<lparr> aq_url = probe_url agent, aq_body = de_request_json env request, aq_authorization = ''Bearer '' @ token,
        aq_timeout = pr_timeout_seconds request + 5 \<rparr>"

definition read_results :: "dispatch_env \<Rightarrow> byte list \<Rightarrow> agent_observation list result" where
  "read_results env raw =
     (case de_loads env raw of
        None \<Rightarrow> Inl ValueError
      | Some payload \<Rightarrow> read_list (de_observation env) ''results'' payload)"

definition dispatch_probe ::
  "dispatch_env \<Rightarrow> (agent_request \<Rightarrow> 's \<Rightarrow> agent_outcome \<times> 's) \<Rightarrow> string \<Rightarrow> registered_agent \<Rightarrow> probe_request \<Rightarrow>
   's \<Rightarrow> (string + agent_observation list) \<times> 's" where
  "dispatch_probe env transport token agent request s =
     (case transport (probe_call_of env token agent request) s of
        (Agent_Reply raw, s') \<Rightarrow> (case read_results env raw of Inl e \<Rightarrow> Inl (de_text env e) | Inr obs \<Rightarrow> Inr obs, s')
      | (Agent_Failed m, s') \<Rightarrow> (Inl m, s')
      | (Agent_Raised e, s') \<Rightarrow> (Inl (de_text env e), s'))"

section \<open>The agent at the other end\<close>

record agent_wire =
  aw_text :: "pyval \<Rightarrow> byte list"
  aw_observation :: "agent_observation \<Rightarrow> pyval"
  aw_inventory :: "agent_inventory \<Rightarrow> pyval"

definition agent_json :: "agent_wire \<Rightarrow> agent_payload \<Rightarrow> pyval" where
  "agent_json w p =
     (case p of
        A_Error m \<Rightarrow> PDict [(''error'', PStr m)]
      | A_Health agent_id \<Rightarrow>
          PDict [(''status'', PStr ''healthy''), (''agent_id'', PStr agent_id), (''schema_version'', PStr ''1.0'')]
      | A_Inventory i \<Rightarrow> aw_inventory w i
      | A_Results obs \<Rightarrow> PDict [(''results'', PList (map (aw_observation w) obs))])"

definition agent_receives :: "registered_agent \<Rightarrow> agent_request \<Rightarrow> http_request" where
  "agent_receives agent q =
     \<lparr> hr_method = POST, hr_target = drop (length (rstrip_char CHR ''/'' (ra_url agent))) (aq_url q),
        hr_authorization = Some (aq_authorization q), hr_content_length = Some (str_of_nat (length (aq_body q))),
        hr_stream = aq_body q \<rparr>"

definition agent_at ::
  "agent_env \<Rightarrow> agent_config \<Rightarrow> agent_wire \<Rightarrow> registered_agent \<Rightarrow> agent_request \<Rightarrow> agent \<Rightarrow> agent_outcome \<times> agent" where
  "agent_at env config w agent q a =
     (case agent_handle env config (agent_receives agent q) a of
        (Inr r, a') \<Rightarrow>
          (if ar_status r = OK_200 then Agent_Reply (aw_text w (agent_json w (ar_payload r)))
           else Agent_Failed (''HTTP Error '' @ str_of_int (status_code (ar_status r))), a')
      | (Inl e, a') \<Rightarrow> (Agent_Raised (OtherError ''RemoteDisconnected''), a'))"

text \<open>The request is read as it was written, and so are the observations.\<close>

definition faithful_agent :: "dispatch_env \<Rightarrow> agent_env \<Rightarrow> agent_wire \<Rightarrow> probe_request \<Rightarrow> bool" where
  "faithful_agent denv env w request \<longleftrightarrow>
     (\<exists>d. ae_loads env (de_request_json denv request) = Some (PDict d) \<and> ae_request env d = Inr request) \<and>
     de_request_json denv request \<noteq> [] \<and> int (length (de_request_json denv request)) \<le> MAX_BODY_BYTES \<and>
     (\<forall>v. de_loads denv (aw_text w v) = Some v) \<and> (\<forall>ob. de_observation denv (aw_observation w ob) = Inr ob)"

lemma agent_route_probe:
  assumes "authorize config (hr_authorization req) = Inr u" "hr_method req = POST" "hr_target req = ''/v1/probe''"
    and "bindR (ae_request env (or_empty b)) validate_probe_request = Inr request"
  shows "agent_route env config req b a =
    bindA (probe env config request) (\<lambda>observations. agent_answer OK_200 (A_Results observations)) a"
  using assms by (simp add: agent_route_def del: authorize_Inr)

lemma agent_receives_probe:
  assumes "faithful_agent denv env w request" "validate_probe_request request = Inr request"
    and "ascii (''Bearer '' @ ac_bearer_token config)"
  shows "agent_handle env config (agent_receives agent (probe_call_of denv (ac_bearer_token config) agent request)) a =
    agent_catch env (bindA (probe env config request) (\<lambda>observations. agent_answer OK_200 (A_Results observations))) a"
proof -
  let ?req = "agent_receives agent (probe_call_of denv (ac_bearer_token config) agent request)"
  obtain d where d: "ae_loads env (de_request_json denv request) = Some (PDict d)" "ae_request env d = Inr request"
    using assms(1) unfolding faithful_agent_def by blast
  have fields: "hr_method ?req = POST" "hr_target ?req = ''/v1/probe''"
    "hr_authorization ?req = Some (''Bearer '' @ ac_bearer_token config)"
    "hr_content_length ?req = Some (str_of_nat (length (de_request_json denv request)))"
    "hr_stream ?req = de_request_json denv request"
    by (simp_all add: agent_receives_def probe_call_of_def probe_url_def)
  have body: "read_json_body (ae_loads env) (hr_content_length ?req) (hr_stream ?req) MAX_BODY_BYTES = Inr d"
    using assms(1) d(1) unfolding fields by (simp add: read_json_body_def faithful_agent_def Let_def)
  have "authorize config (hr_authorization ?req) = Inr ()"
    using assms(3) unfolding fields by (simp only: authorize_Inr)
  then have "agent_route env config ?req (Some d) a =
      bindA (probe env config request) (\<lambda>observations. agent_answer OK_200 (A_Results observations)) a"
    using d(2) assms(2) fields by (intro agent_route_probe) (simp_all add: or_empty_def)
  then show ?thesis
    using fields(1) by (simp add: agent_handle_def body agent_dispatch_def agent_catch_def)
qed

section \<open>Numberings\<close>

instance diagnostic_status :: countable by countable_datatype
instance evidence_quality :: countable by countable_datatype

text \<open>Records are numbered through the tuple of their fields.\<close>

instance diagnostic_result_ext :: (countable) countable
  by (rule countable_classI [where f = "\<lambda>r. to_nat (dr_module r, dr_category r, dr_status r, dr_severity r, dr_summary r,
      dr_target r, dr_metrics r, dr_evidence r, dr_warnings r, dr_errors r, dr_metadata r, diagnostic_result.more r)"])
    (simp add: diagnostic_result.equality)

instance observation_context_ext :: (countable) countable
  by (rule countable_classI [where f = "\<lambda>c. to_nat (oc_schema_version c, oc_observation_id c, oc_timestamp c, oc_agent_id c,
      oc_hostname c, oc_probe_type c, oc_target c, oc_source_ip c, oc_source_interface c, oc_target_interface c,
      oc_sample_count c, oc_duration_ms c, oc_topology_tags c, oc_raw_evidence c, oc_evidence_quality c, oc_confidence c,
      observation_context.more c)"])
    (simp add: observation_context.equality)

instance agent_observation_ext :: (countable) countable
  by (rule countable_classI [where f = "\<lambda>ob. to_nat (ao_context ob, ao_result ob, agent_observation.more ob)"])
    (simp add: agent_observation.equality)

definition sample_dispatch_env :: dispatch_env where
  "sample_dispatch_env = \<lparr> de_loads = (\<lambda>bs. Some (numbered (length bs))), de_request_json = (\<lambda>_. [123, 125]),
     de_observation = (\<lambda>v. case v of PInt n \<Rightarrow> Inr (from_nat (nat n)) | _ \<Rightarrow> Inl ValidationError),
     de_text = (\<lambda>_. ''error'') \<rparr>"

definition sample_agent_wire :: agent_wire where
  "sample_agent_wire = \<lparr> aw_text = (\<lambda>v. replicate (numbering v) 0), aw_observation = (\<lambda>ob. PInt (int (to_nat ob))),
     aw_inventory = (\<lambda>_. PNone) \<rparr>"

definition sample_agent :: registered_agent where
  "sample_agent = \<lparr> ra_agent_id = ''a1'', ra_url = ''http://10.0.0.9:8081/'', ra_topology_tags = [], ra_enabled = True,
     ra_last_seen_at = None \<rparr>"

lemma sample_faithful_agent:
  "faithful_agent sample_dispatch_env (sample_agent_env t) sample_agent_wire (icmp_request t)"
  by (simp add: faithful_agent_def sample_dispatch_env_def sample_agent_env_def sample_agent_wire_def MAX_BODY_BYTES_def)

section \<open>Properties\<close>

text \<open>Dispatching a probe is running it on the agent: with the right token, a valid request reaches the
  service of the agent, the controller gets exactly the observations the agent made and the agent is
  left as the probe leaves it; a target that is not on the allow list gives an error, and the agent
  does nothing; a probe that raises gives an error too.\<close>

theorem dispatched_probe:
  assumes "faithful_agent denv env w request" "validate_probe_request request = Inr request"
    and "ascii (''Bearer '' @ ac_bearer_token config)"
  shows "snd (dispatch_probe denv (agent_at env config w agent) (ac_bearer_token config) agent request a) =
      snd (probe env config request a) \<and>
    (case fst (probe env config request a) of
       Inr obs \<Rightarrow> fst (dispatch_probe denv (agent_at env config w agent) (ac_bearer_token config) agent request a) = Inr obs
     | Inl e \<Rightarrow> \<exists>m. fst (dispatch_probe denv (agent_at env config w agent) (ac_bearer_token config) agent request a) = Inl m) \<and>
    (targeted_probe (pr_probe_type request) \<and> pr_target request \<notin> Some ` set (ac_allowed_targets config) \<longrightarrow>
       (\<exists>m. dispatch_probe denv (agent_at env config w agent) (ac_bearer_token config) agent request a = (Inl m, a)))"
proof -
  have read: "read_results denv (aw_text w (agent_json w (A_Results obs))) = Inr obs" for obs
    using assms(1)
    by (simp add: read_results_def agent_json_def faithful_agent_def read_list_def get_or_def mapR_inverse)
  have run: "dispatch_probe denv (agent_at env config w agent) (ac_bearer_token config) agent request a =
      (case probe env config request a of
         (Inr obs, a') \<Rightarrow> (Inr obs, a')
       | (Inl e, a') \<Rightarrow> (fst (dispatch_probe denv (agent_at env config w agent) (ac_bearer_token config) agent request a), a'))"
    and err: "fst (probe env config request a) = Inl e \<Longrightarrow>
      \<exists>m. fst (dispatch_probe denv (agent_at env config w agent) (ac_bearer_token config) agent request a) = Inl m" for e
    unfolding dispatch_probe_def agent_at_def agent_receives_probe [OF assms] agent_catch_def
    by (auto simp: bindA_def read split: prod.splits sum.splits py_error.splits)
  have refused: "\<exists>m. probe env config request a = (Inl m, a)"
    if "targeted_probe (pr_probe_type request)" "pr_target request \<notin> Some ` set (ac_allowed_targets config)"
  proof (cases "authorize_target config request")
    case (Inl e)
    then show ?thesis by (simp add: probe_not_permitted)
  next
    case (Inr u)
    then show ?thesis using that unfolding authorize_target_Inr by auto
  qed
  show ?thesis
    using run err refused by (auto split: prod.splits sum.splits)
qed

lemma dispatched_probe_witness:
  "(\<exists>obs. fst (dispatch_probe sample_dispatch_env (agent_at (sample_agent_env ''10.0.0.1'') sample_config sample_agent_wire sample_agent)
      ''t'' sample_agent (icmp_request ''10.0.0.1'') fresh_agent) = Inr obs \<and> length obs = 1) \<and>
   (\<exists>m. dispatch_probe sample_dispatch_env (agent_at (sample_agent_env ''10.0.0.3'') sample_config sample_agent_wire sample_agent)
      ''t'' sample_agent (icmp_request ''10.0.0.3'') fresh_agent = (Inl m, fresh_agent))"
proof -
  have valid: "validate_probe_request (icmp_request t) = Inr (icmp_request t)" if "t \<noteq> []" for t
    using that by (simp add: validate_probe_request_def icmp_request_def targeted_probe_def some_text_def guardR_def)
  have token: "ac_bearer_token sample_config = ''t''" by (simp add: sample_config_def)
  then have ascii: "ascii (''Bearer '' @ ac_bearer_token sample_config)" by (simp add: ascii_def)
  have "case fst (probe (sample_agent_env ''10.0.0.1'') sample_config (icmp_request ''10.0.0.1'') fresh_agent) of
      Inr obs \<Rightarrow> length obs = 1 | Inl _ \<Rightarrow> False"
    by code_simp
  then obtain obs where "fst (probe (sample_agent_env ''10.0.0.1'') sample_config (icmp_request ''10.0.0.1'') fresh_agent) = Inr obs"
    "length obs = 1" by (auto split: sum.splits)
  moreover have "targeted_probe (pr_probe_type (icmp_request ''10.0.0.3''))"
    "pr_target (icmp_request ''10.0.0.3'') \<notin> Some ` set (ac_allowed_targets sample_config)"
    by (simp_all add: icmp_request_def targeted_probe_def sample_config_def)
  ultimately show ?thesis
    using dispatched_probe [OF sample_faithful_agent valid ascii, of "''10.0.0.1''" sample_agent fresh_agent]
      dispatched_probe [OF sample_faithful_agent valid ascii, of "''10.0.0.3''" sample_agent fresh_agent]
    unfolding token by auto
qed

text \<open>The time the dispatcher waits does not depend on the count, the time the agent may take does: a probe
  with the default timeout of 5 seconds is given up after 10, while its ping may run for
  \<open>3 * count + 5\<close>.\<close>

lemma ping_outlives_dispatch:
  assumes "pr_timeout_seconds request = 5" "2 \<le> pr_count request"
  shows "aq_timeout (probe_call_of env token agent request) < of_int (pr_count request * 3 + 5)"
proof -
  have "(2 :: rat) \<le> of_int (pr_count request)" using assms(2) by (metis of_int_le_iff of_int_numeral)
  then show ?thesis using assms(1) by (simp add: probe_call_of_def)
qed

end
