(* ===== verification/Render.thy ===== *)
theory Render
  imports Controller_Props Default_Rules
begin

text \<open>
  Model of the renderers: the reports of \<open>analysis/formatter.py\<close> and the tables of
  \<open>controller/render.py\<close>. What they print is a list of outputs, which the terminal library lays out: a
  line of text with its markup, a panel (its content, its title, its border), a banner (a panel with a subtitle
  only) or a table (its title, its
  columns, its cells). Local time and the format \<open>g\<close> of a float are the record \<open>render_env\<close>.
\<close>

section \<open>Outputs\<close>

datatype printed =
    Text string
  | Panel string string string
  | Banner string string
  | Table string "string list" "string list list"

record render_env =
  re_local_time :: "rat \<Rightarrow> string"
  re_general :: "rat \<Rightarrow> string"

definition newline :: string where
  "newline = [CHR 0x0A]"

definition bullet :: string where
  "bullet = [CHR 0xE2, CHR 0x80, CHR 0xA2]"

text \<open>A text in a style: \<open>[style]text[/style]\<close>.\<close>

definition styled :: "string \<Rightarrow> string \<Rightarrow> string" where
  "styled style text = ''['' @ style @ '']'' @ text @ ''[/'' @ style @ '']''"

definition or_dash :: "string option \<Rightarrow> string" where
  "or_dash t = (case t of None \<Rightarrow> ''-'' | Some s \<Rightarrow> if s = [] then ''-'' else s)"

text \<open>A cell of a table may be \<open>None\<close>, which is left blank.\<close>

definition cell :: "string option \<Rightarrow> string" where
  "cell t = (case t of None \<Rightarrow> [] | Some s \<Rightarrow> s)"

definition percent :: "rat \<Rightarrow> string" where
  "percent x = str_of_int (py_trunc (x * 100)) @ ''%''"

section \<open>The values of the enumerations\<close>

fun status_value :: "diagnostic_status \<Rightarrow> string" where
  "status_value HEALTHY = ''healthy''" | "status_value DEGRADED = ''degraded''"
| "status_value FAILED = ''failed''" | "status_value UNKNOWN = ''unknown''"

fun severity_value :: "severity \<Rightarrow> string" where
  "severity_value INFO = ''info''" | "severity_value LOW = ''low''" | "severity_value MEDIUM = ''medium''"
| "severity_value HIGH = ''high''" | "severity_value CRITICAL = ''critical''"

text \<open>\<open>severity.value.upper()\<close>.\<close>

fun severity_upper :: "severity \<Rightarrow> string" where
  "severity_upper INFO = ''INFO''" | "severity_upper LOW = ''LOW''" | "severity_upper MEDIUM = ''MEDIUM''"
| "severity_upper HIGH = ''HIGH''" | "severity_upper CRITICAL = ''CRITICAL''"

fun level_value :: "confidence_level \<Rightarrow> string" where
  "level_value VERY_HIGH = ''VERY HIGH''" | "level_value CL_HIGH = ''HIGH''" | "level_value CL_MEDIUM = ''MEDIUM''"
| "level_value CL_LOW = ''LOW''"

fun quality_value :: "evidence_quality \<Rightarrow> string" where
  "quality_value Q_UNKNOWN = ''unknown''" | "quality_value SINGLE_SOURCE = ''single_source''"
| "quality_value PARSED_EXTERNAL = ''parsed_external''" | "quality_value CORROBORATED = ''corroborated''"
| "quality_value VERIFIED = ''verified''"

fun incident_state_value :: "incident_state \<Rightarrow> string" where
  "incident_state_value INC_OPEN = ''open''" | "incident_state_value INC_ACKNOWLEDGED = ''acknowledged''"
| "incident_state_value INC_RESOLVED = ''resolved''"

fun alert_state_value :: "alert_state \<Rightarrow> string" where
  "alert_state_value AL_FIRING = ''firing''" | "alert_state_value AL_RESOLVED = ''resolved''"

fun role_value :: "node_role \<Rightarrow> string" where
  "role_value R_AGENT = ''agent''" | "role_value R_GATEWAY = ''gateway''" | "role_value R_SWITCH = ''switch''"
| "role_value R_HOST = ''host''" | "role_value R_TARGET = ''target''" | "role_value R_SERVICE = ''service''"

fun localization_value :: "fault_localization \<Rightarrow> string" where
  "localization_value LOC_HEALTHY = ''healthy''" | "localization_value SOURCE_SIDE = ''source_side''"
| "localization_value VANTAGE_ISOLATED = ''vantage_isolated''" | "localization_value TARGET_SIDE = ''target_side''"
| "localization_value PATH_SHARED = ''path_shared''" | "localization_value INCONCLUSIVE = ''inconclusive''"

section \<open>The report of a diagnosis\<close>

definition status_banner :: "diagnostic_status \<Rightarrow> string \<times> string" where
  "status_banner st =
     (if st = HEALTHY then (''green'', ''HEALTHY (No Active Pathologies)'')
      else if st = DEGRADED then (''yellow'', ''DEGRADED (Performance Warning)'')
      else (''red'', ''FAILURE (Root-Cause Issues Identified)''))"

definition report_header :: "diagnosis_report \<Rightarrow> printed" where
  "report_header report =
     (case status_banner (rp_status report) of (color, text) \<Rightarrow>
       Panel (''[bold]Target Host:[/bold] '' @ rp_target_host report @ ''    '' @
              ''[bold]Probes Evaluated:[/bold] '' @ str_of_nat (rp_total_probes report) @ ''    '' @
              ''[bold]Status:[/bold] '' @ styled color text @ newline @ newline @
              ''[bold]Executive Verdict:[/bold]'' @ newline @ styled color (rp_verdict report))
         ''[bold cyan]NetForge Root-Cause Diagnostic Analysis[/bold cyan]'' color)"

fun severity_color :: "severity \<Rightarrow> string" where
  "severity_color CRITICAL = ''bold red''" | "severity_color HIGH = ''red''" | "severity_color MEDIUM = ''yellow''"
| "severity_color LOW = ''blue''" | "severity_color INFO = ''dim''"

fun level_color :: "confidence_level \<Rightarrow> string" where
  "level_color VERY_HIGH = ''bold green''" | "level_color CL_HIGH = ''green''" | "level_color CL_MEDIUM = ''yellow''"
| "level_color CL_LOW = ''red''"

definition card_title :: "nat \<Rightarrow> diagnosed_issue \<Rightarrow> string" where
  "card_title idx issue =
     styled (severity_color (di_severity issue)) (''['' @ severity_upper (di_severity issue) @ '']'') @
     '' [bold]'' @ str_of_nat idx @ ''. '' @ di_title issue @ ''[/bold] ([cyan]'' @ di_category issue @ ''[/cyan]) -- '' @
     styled (level_color (di_confidence_level issue))
       (percent (di_confidence issue) @ '' Confidence ('' @ level_value (di_confidence_level issue) @ '')'')"

definition recommendation_lines :: "nat \<Rightarrow> recommendation \<Rightarrow> string" where
  "recommendation_lines idx r =
     ''  '' @ str_of_nat idx @ ''. '' @
     (if rc_priority r = 1 then ''[red][Urgent][/red] '' else ''[dim][Secondary][/dim] '') @
     ''[bold]'' @ rc_action r @ ''[/bold]'' @
     (if some_text (rc_command r) then newline @ ''     Command: [bold cyan]'' @ the (rc_command r) @ ''[/bold cyan]'' else []) @
     newline @ ''     [dim]Why: '' @ rc_rationale r @ ''[/dim]''"

definition numbered_from_1 :: "(nat \<Rightarrow> 'a \<Rightarrow> 'b) \<Rightarrow> 'a list \<Rightarrow> 'b list" where
  "numbered_from_1 f xs = map (\<lambda>(i, x). f i x) (enumerate 1 xs)"

definition card_body :: "diagnosed_issue \<Rightarrow> string list" where
  "card_body issue =
     [''[bold]Root Cause Analysis:[/bold]'' @ newline @ di_root_cause issue] @
     (if di_correlated_evidence issue = [] then []
      else [newline @ ''[bold]Correlated Evidence:[/bold]'' @ newline @
            join newline (map (\<lambda>e. ''  * '' @ e) (di_correlated_evidence issue))]) @
     (if di_recommendations issue = [] then []
      else [newline @ ''[bold green]Recommended Actions:[/bold green]'' @ newline @
            join newline (numbered_from_1 recommendation_lines (di_recommendations issue))])"

definition issue_card :: "nat \<Rightarrow> diagnosed_issue \<Rightarrow> printed list" where
  "issue_card idx issue =
     [Panel (join newline (card_body issue)) (card_title idx issue)
        (if di_severity issue \<in> {MEDIUM, LOW} then ''yellow'' else ''red''), Text []]"

definition render_diagnosis_report :: "diagnosis_report \<Rightarrow> printed list" where
  "render_diagnosis_report report =
     [Text [], report_header report] @
     (if rp_key_observations report = [] then []
      else Text (newline @ ''[bold]Baseline System State:[/bold]'') #
           map (\<lambda>obs. Text (''  [green][OK][/green] '' @ obs)) (rp_key_observations report)) @
     (if rp_issues report = [] then
        [Text (newline @ ''[green]All network layers evaluated healthy. No actionable anomalies found.[/green]'' @ newline)]
      else Text (newline @ ''[bold yellow]Diagnosed Root Causes ('' @ str_of_nat (length (rp_issues report)) @
             ''):[/bold yellow]'' @ newline) # concat (numbered_from_1 issue_card (rp_issues report)))"

section \<open>The report of several vantages\<close>

fun localization_style :: "fault_localization \<Rightarrow> string \<times> string" where
  "localization_style LOC_HEALTHY = (''green'', ''HEALTHY'')"
| "localization_style TARGET_SIDE = (''bold red'', ''TARGET-SIDE'')"
| "localization_style PATH_SHARED = (''red'', ''SHARED-PATH'')"
| "localization_style SOURCE_SIDE = (''yellow'', ''SOURCE-SIDE'')"
| "localization_style VANTAGE_ISOLATED = (''yellow'', ''ISOLATED-VANTAGE'')"
| "localization_style INCONCLUSIVE = (''dim'', ''INCONCLUSIVE'')"

fun status_style :: "diagnostic_status \<Rightarrow> string" where
  "status_style HEALTHY = ''green''" | "status_style DEGRADED = ''yellow''" | "status_style FAILED = ''red''"
| "status_style UNKNOWN = ''dim''"

definition trail_cells :: "evidence_step \<Rightarrow> string list" where
  "trail_cells st =
     [str_of_nat (es_order st), es_vantage st, es_role st,
      styled (status_style (es_status st)) (status_value (es_status st)),
      quality_value (es_quality st), percent (es_confidence st), es_observation st]"

definition render_multivantage_report :: "multi_vantage_report \<Rightarrow> printed list" where
  "render_multivantage_report report =
     (case localization_style (mv_localization report) of (color, label) \<Rightarrow>
       [Text [],
        Panel (''[bold]Target:[/bold] '' @ mv_target report @ ''    '' @
            ''[bold]Service:[/bold] '' @ or_dash (mv_service_id report) @ ''    '' @
            ''[bold]Topology:[/bold] '' @ or_dash (mv_topology report) @ newline @
            ''[bold]Vantages:[/bold] '' @ str_of_nat (mv_vantage_count report) @ ''    '' @
            ''[green]Reachable:[/green] '' @ str_of_nat (mv_reachable_count report) @ ''    '' @
            ''[red]Failed:[/red] '' @ str_of_nat (mv_failed_count report) @ ''    '' @
            ''[yellow]Degraded:[/yellow] '' @ str_of_nat (mv_degraded_count report) @ newline @ newline @
            ''[bold]Localization:[/bold] '' @ styled color label @ '' ('' @ percent (mv_confidence report) @ '' confidence)'' @
            newline @ ''[bold]Verdict:[/bold] '' @ styled color (mv_verdict report))
          ''[bold cyan]NetForge Multi-Vantage Diagnosis[/bold cyan]'' color] @
       (if mv_agent_errors report = [] then []
        else Text (newline @ ''[bold yellow]Vantage dispatch errors:[/bold yellow]'') #
             map (\<lambda>(agent_id, err). Text (''  '' @ styled ''yellow'' (bullet @ '' '' @ agent_id @ '': '' @ err)))
               (mv_agent_errors report)) @
       [Text [], Table ''Evidence Trail'' [''#'', ''Vantage'', ''Role'', ''Status'', ''Quality'', ''Conf'', ''Observation'']
          (map trail_cells (mv_evidence_trail report)), Text []])"

section \<open>The tables of the controller\<close>

definition fmt_ts :: "render_env \<Rightarrow> rat option \<Rightarrow> string" where
  "fmt_ts env t = (case t of None \<Rightarrow> ''-'' | Some v \<Rightarrow> if v = 0 then ''-'' else re_local_time env v)"

definition conf_color :: "rat \<Rightarrow> string" where
  "conf_color c = (if 9 / 10 \<le> c then ''green'' else if 75 / 100 \<le> c then ''yellow'' else ''red'')"

fun incident_state_color :: "incident_state \<Rightarrow> string" where
  "incident_state_color INC_OPEN = ''red''" | "incident_state_color INC_ACKNOWLEDGED = ''yellow''"
| "incident_state_color INC_RESOLVED = ''green''"

fun alert_state_color :: "alert_state \<Rightarrow> string" where
  "alert_state_color AL_FIRING = ''red''" | "alert_state_color AL_RESOLVED = ''green''"

fun quality_color :: "evidence_quality \<Rightarrow> string" where
  "quality_color CORROBORATED = ''bold green''" | "quality_color VERIFIED = ''green''"
| "quality_color PARSED_EXTERNAL = ''cyan''" | "quality_color SINGLE_SOURCE = ''yellow''"
| "quality_color Q_UNKNOWN = ''dim''"

definition titled :: "string \<Rightarrow> nat \<Rightarrow> string" where
  "titled title n = title @ '' ('' @ str_of_nat n @ '')''"

definition binding_cells :: "host_port_binding \<Rightarrow> string list" where
  "binding_cells b =
     [hb_host_node_id b, hb_switch_node_id b, or_dash (Some (hb_switch_port b)),
      (case hb_if_index b of None \<Rightarrow> ''-'' | Some i \<Rightarrow> str_of_int i), method_value (hb_method b),
      styled (conf_color (hb_confidence b)) (percent (hb_confidence b)),
      styled (quality_color (hb_quality b)) (quality_value (hb_quality b))]"

definition render_bindings :: "host_port_binding list \<Rightarrow> printed list" where
  "render_bindings bs =
     (if bs = [] then [Text ''[yellow]No host-to-switch-port bindings.[/yellow]'']
      else [Table (titled ''Host-to-Switch-Port Bindings'' (length bs))
              [''Host'', ''Switch'', ''Port'', ''ifIndex'', ''Method'', ''Conf'', ''Quality''] (map binding_cells bs)])"

definition incident_cells :: "render_env \<Rightarrow> incident \<Rightarrow> string list" where
  "incident_cells env i =
     [take 8 (in_incident_id i), cell (in_service_id i), or_dash (Some (in_target i)),
      styled (incident_state_color (in_state i)) (incident_state_value (in_state i)),
      styled (severity_color (in_severity i)) (severity_value (in_severity i)),
      str_of_nat (length (in_alert_ids i)), fmt_ts env (Some (in_opened_at i))]"

definition render_incidents :: "render_env \<Rightarrow> incident list \<Rightarrow> printed list" where
  "render_incidents env xs =
     (if xs = [] then [Text ''[green]No incidents.[/green]'']
      else [Table (titled ''Incidents'' (length xs))
              [''Incident'', ''Service'', ''Target'', ''State'', ''Severity'', ''Alerts'', ''Opened'']
              (map (incident_cells env) xs)])"

definition alert_cells :: "alert \<Rightarrow> string list" where
  "alert_cells a =
     [take 8 (al_alert_id a), cell (al_service_id a), localization_value (al_localization a),
      styled (alert_state_color (al_state a)) (alert_state_value (al_state a)),
      styled (severity_color (al_severity a)) (severity_value (al_severity a)),
      styled (conf_color (al_confidence a)) (percent (al_confidence a)),
      (if al_regression a then ''[red]yes[/red]'' else ''no''), al_message a]"

definition render_alerts :: "alert list \<Rightarrow> printed list" where
  "render_alerts xs =
     (if xs = [] then [Text ''[green]No alerts.[/green]'']
      else [Table (titled ''Alerts'' (length xs))
              [''Alert'', ''Service'', ''Localization'', ''State'', ''Severity'', ''Conf'', ''Regr'', ''Message'']
              (map alert_cells xs)])"

definition yes_no :: "bool \<Rightarrow> string" where
  "yes_no b = (if b then ''[green]yes[/green]'' else ''[dim]no[/dim]'')"

definition schedule_cells :: "render_env \<Rightarrow> schedule_entry \<Rightarrow> string list" where
  "schedule_cells env s =
     [take 8 (sc_schedule_id s), sc_service_id s, re_general env (sc_interval_seconds s) @ ''s'',
      str_of_int (sc_count s), yes_no (sc_enabled s), fmt_ts env (sc_last_run_at s), fmt_ts env (sc_next_run_at s)]"

definition render_schedules :: "render_env \<Rightarrow> schedule_entry list \<Rightarrow> printed list" where
  "render_schedules env xs =
     (if xs = [] then [Text ''[yellow]No schedules configured.[/yellow]'']
      else [Table (titled ''Monitor Schedules'' (length xs))
              [''Schedule'', ''Service'', ''Interval'', ''Count'', ''Enabled'', ''Last run'', ''Next run'']
              (map (schedule_cells env) xs)])"

text \<open>How many nodes have each role, sorted by the name of the role.\<close>

definition role_counts :: "topology_node list \<Rightarrow> (string \<times> nat) list" where
  "role_counts nodes =
     sort_key fst (foldl (\<lambda>d n. AList.map_default (role_value (tn_role n)) 1 (\<lambda>c. c + 1) d) [] nodes)"

definition render_topology :: "network_topology \<Rightarrow> printed list" where
  "render_topology t =
     (let role_lines = join newline (map (\<lambda>(role, n). ''  [bold]'' @ role @ '':[/bold] '' @ str_of_nat n) (role_counts (nt_nodes t)))
      in [Panel (''[bold]Topology:[/bold] '' @ nt_name t @ newline @
            ''[bold]Nodes:[/bold] '' @ str_of_nat (length (nt_nodes t)) @ ''    [bold]Edges:[/bold] '' @
            str_of_nat (length (nt_edges t)) @ newline @ newline @
            (if role_lines = [] then ''  (none)'' else role_lines))
          ''[bold cyan]NetForge Topology[/bold cyan]'' []])"

definition render_reports :: "multi_vantage_report list \<Rightarrow> printed list" where
  "render_reports rs =
     (if rs = [] then [Text ''[yellow]No reports produced (nothing was due).[/yellow]'']
      else concat (map render_multivantage_report rs))"

section \<open>The counts of a topology\<close>

lemma counted:
  "map_of (foldl (\<lambda>d n. AList.map_default (f n) 1 (\<lambda>c. c + 1) d) d ns) k =
     (let m = length (filter (\<lambda>n. f n = k) ns) in
      case map_of d k of None \<Rightarrow> if m = 0 then None else Some m | Some c \<Rightarrow> Some (c + m :: nat))"
proof (induction ns arbitrary: d)
  case (Cons n ns)
  show ?case
    unfolding foldl_Cons Cons.IH
    by (cases "map_of d (f n)"; cases "f n = k") (auto simp: map_of_map_default Let_def split: option.splits)
qed (simp add: Let_def split: option.splits)

lemma counted_keys:
  "distinct (map fst d) \<Longrightarrow> distinct (map fst (foldl (\<lambda>d n. AList.map_default (f n) 1 (\<lambda>c. c + 1) d) d ns))"
  by (induction ns arbitrary: d) (simp_all add: distinct_map_default)

text \<open>The summary of a topology counts every node exactly once: the roles are sorted and distinct, each
  with the number of its nodes, a role without nodes is left out, and the counts add up to the number
  of nodes.\<close>

theorem role_counts_exact:
  "sorted (map fst (role_counts ns)) \<and> distinct (map fst (role_counts ns)) \<and>
   map_of (role_counts ns) k =
     (if filter (\<lambda>n. role_value (tn_role n) = k) ns = [] then None
      else Some (length (filter (\<lambda>n. role_value (tn_role n) = k) ns))) \<and>
   (\<Sum>p \<leftarrow> role_counts ns. snd p) = length ns"
proof -
  let ?d = "foldl (\<lambda>d n. AList.map_default (role_value (tn_role n)) (1 :: nat) (\<lambda>c. c + 1) d) [] ns"
  have d: "distinct (map fst ?d)" by (rule counted_keys) simp
  have perm: "mset (role_counts ns) = mset ?d" by (simp add: role_counts_def)
  then have "mset (map fst (role_counts ns)) = mset (map fst ?d)" by (simp only: mset_map)
  from mset_eq_imp_distinct_iff [OF this] have distinct: "distinct (map fst (role_counts ns))"
    using d by blast
  have total: "(\<Sum>p \<leftarrow> foldl (\<lambda>d n. AList.map_default (f n) 1 (\<lambda>c. c + 1) d) d ns. snd p) = (\<Sum>p \<leftarrow> d. snd p) + length ns"
    for f :: "topology_node \<Rightarrow> string" and d :: "(string \<times> nat) list"
  proof (induction ns arbitrary: d)
    case (Cons n ns)
    have "(\<Sum>p \<leftarrow> AList.map_default k 1 (\<lambda>c. c + 1) d. snd p) = (\<Sum>p \<leftarrow> d. snd p) + 1" for k :: string and d :: "(string \<times> nat) list"
      by (induction d) auto
    with Cons show ?case by simp
  qed simp
  have "map_of (role_counts ns) = map_of ?d"
    unfolding map_of_inject_set [OF distinct d] by (simp add: role_counts_def)
  moreover have "(\<Sum>p \<leftarrow> role_counts ns. snd p) = (\<Sum>p \<leftarrow> ?d. snd p)"
    using arg_cong [OF perm, of "\<lambda>m. sum_mset (image_mset snd m)"] by (simp only: sum_mset_sum_list flip: mset_map)
  moreover have "sorted (map fst (role_counts ns))" by (simp add: role_counts_def)
  ultimately show ?thesis
    using distinct counted [of "\<lambda>n. role_value (tn_role n)" "[]" ns k] total [of "\<lambda>n. role_value (tn_role n)" "[]"]
    by (simp add: Let_def)
qed

end
