(* ===== verification/Probe_Tables.thy ===== *)
theory Probe_Tables
  imports Client Render Local_Diagnosis
begin

text \<open>
  Model of the tables the modules of the probes print: \<open>run_...\<close> of \<open>diagnostics/host\<close>,
  \<open>diagnostics/link/collector.py\<close>, \<open>diagnostics/path/traceroute.py\<close>, \<open>diagnostics/traffic/speed.py\<close>,
  \<open>diagnostics/mesh/runner.py\<close> and \<open>diagnostics/flow/analysis.py\<close>. Such a function measures, prints a
  table of what it measured and returns the results; formatting a metric of another type than the
  table expects raises. The section on printing shows that no table raises on what its probe measures,
  so that printing never changes what a command does.
\<close>

section \<open>Cells\<close>

text \<open>What is printed, and the exit code.\<close>

type_synonym shown = "printed list \<times> int"

definition done_with :: "printed list \<Rightarrow> shown" where
  "done_with out = (out, 0)"

text \<open>\<open>r.metrics[k]\<close>.\<close>

definition metric_at :: "diagnostic_result \<Rightarrow> string \<Rightarrow> pyval result" where
  "metric_at r k = (case map_of (dr_metrics r) k of None \<Rightarrow> Inl KeyError | Some v \<Rightarrow> Inr v)"

definition metric_cell :: "(pyval \<Rightarrow> string result) \<Rightarrow> diagnostic_result \<Rightarrow> string \<Rightarrow> string result" where
  "metric_cell fmt r k = (let v = metric r k in if v = PNone then Inr ''-'' else fmt v)"

text \<open>\<open>r.metrics.get(k, 0) / scale\<close> with two digits, and \<open>r.metrics.get(k, 0)\<close> with \<open>n\<close> digits and a unit.\<close>

definition scaled_cell :: "rat \<Rightarrow> diagnostic_result \<Rightarrow> string \<Rightarrow> string result" where
  "scaled_cell scale r k = bindR (numR (metric_or r k (PInt 0))) (\<lambda>x. Inr (fmt_fixed 2 (x / scale)))"

definition fixed_cell :: "nat \<Rightarrow> string \<Rightarrow> diagnostic_result \<Rightarrow> string \<Rightarrow> string result" where
  "fixed_cell n unit_text r k = bindR (fmt_num n (metric_or r k (PInt 0))) (\<lambda>t. Inr (t @ unit_text))"

definition percent_cell :: "analysis_env \<Rightarrow> diagnostic_result \<Rightarrow> string \<Rightarrow> string" where
  "percent_cell env r k = (if metric r k = PNone then ''-'' else py_str env (metric r k) @ ''%'')"

definition millis_cell :: "analysis_env \<Rightarrow> diagnostic_result \<Rightarrow> string \<Rightarrow> string" where
  "millis_cell env r k = (case map_of (dr_metrics r) k of None \<Rightarrow> ''-'' | Some v \<Rightarrow> py_str env v @ '' ms'')"

text \<open>A cell has to be a text, or \<open>None\<close> for a blank one.\<close>

definition text_cell :: "pyval \<Rightarrow> string result" where
  "text_cell v = (case v of PStr s \<Rightarrow> Inr s | PNone \<Rightarrow> Inr [] | _ \<Rightarrow> Inl (OtherError ''NotRenderableError''))"

text \<open>\<open>", ".join(v) or default\<close>.\<close>

definition joined_cell :: "string \<Rightarrow> pyval \<Rightarrow> string result" where
  "joined_cell default_text v = bindR (py_join '', '' v) (\<lambda>t. Inr (if t = [] then default_text else t))"

definition or_cell :: "analysis_env \<Rightarrow> pyval \<Rightarrow> string \<Rightarrow> string" where
  "or_cell env v default_text = py_str env (or_val v (PStr default_text))"

text \<open>A table with a row for every result.\<close>

definition rows_table :: "string \<Rightarrow> string list \<Rightarrow> ('a \<Rightarrow> string list result) \<Rightarrow> 'a list \<Rightarrow> printed list result" where
  "rows_table title cols row rs = bindR (mapR row rs) (\<lambda>cells. Inr [Table title cols cells])"

text \<open>Measuring, printing, and returning what was measured.\<close>

definition printing :: "('s, 'a) act \<Rightarrow> ('a \<Rightarrow> printed list result) \<Rightarrow> ('s, 'a \<times> printed list) act" where
  "printing m table = bindA m (\<lambda>x. liftA (bindR (table x) (\<lambda>out. Inr (x, out))))"

section \<open>The tables of the host\<close>

definition two_state :: "diagnostic_result \<Rightarrow> string" where
  "two_state r = (if dr_status r = HEALTHY then ''[green]HEALTHY[/green]'' else ''[red]FAILED[/red]'')"

definition connectivity_row :: "analysis_env \<Rightarrow> diagnostic_result \<Rightarrow> string list result" where
  "connectivity_row env r = Inr [or_dash (dr_target r), two_state r, millis_cell env r ''latency_ms'']"

definition connectivity_table :: "analysis_env \<Rightarrow> diagnostic_result list \<Rightarrow> printed list result" where
  "connectivity_table env = rows_table ''Connectivity Diagnostics'' [''Host'', ''Status'', ''Latency''] (connectivity_row env)"

definition interface_cells :: "analysis_env \<Rightarrow> diagnostic_result \<Rightarrow> string list result" where
  "interface_cells env r =
     bindR (joined_cell ''-'' (metric_or r ''ipv4'' (PList []))) (\<lambda>ipv4.
     bindR (text_cell (or_val (metric r ''mac'') (PStr ''-''))) (\<lambda>mac.
       Inr [or_dash (dr_target r),
            (if truthy (metric_or r ''is_up'' (PBool False)) then ''[green]UP[/green]'' else ''[dim]DOWN[/dim]''),
            ipv4, mac, py_str env (metric_or r ''speed_mbps'' (PInt 0)) @ '' Mbps'', or_cell env (metric r ''mtu'') ''-'']))"

definition interface_table :: "analysis_env \<Rightarrow> diagnostic_result list \<Rightarrow> printed list result" where
  "interface_table env = rows_table ''Network Interfaces'' [''Interface'', ''State'', ''IPv4'', ''MAC'', ''Speed'', ''MTU'']
     (interface_cells env)"

definition routing_table :: "analysis_env \<Rightarrow> bool \<Rightarrow> diagnostic_result \<Rightarrow> printed list" where
  "routing_table env verbose r =
     Table ''Routing Diagnostics'' [''Property'', ''Value'']
       [[''Status'', status_value (dr_status r)],
        [''Default Gateway'', or_cell env (metric r ''default_gateway'') ''Not found''],
        [''Default Interface'', or_cell env (metric r ''default_interface'') ''Not found''],
        [''Active Routes'', py_str env (metric_or r ''route_count'' (PInt 0))],
        [''Operating System'', or_cell env (metric r ''os'') ''-'']] #
     (if verbose \<and> truthy (get_val (dr_metadata r) ''raw_output'')
      then [Text (newline @ ''[dim]Raw Routing Table:[/dim]''), Text (py_str env (get_val (dr_metadata r) ''raw_output''))]
      else [])"

definition gateway_table :: "analysis_env \<Rightarrow> diagnostic_result \<Rightarrow> printed list result" where
  "gateway_table env r =
     bindR (if dr_metrics r = [] then Inr ''-'' else fixed_cell 1 '' ms'' r ''avg_ms'') (\<lambda>avg.
       Inr [Table ''Gateway Reachability'' [''Gateway'', ''Loss'', ''Avg RTT'', ''Status'']
         [[or_dash (dr_target r), percent_cell env r ''packet_loss_percent'', avg, status_value (dr_status r)]]])"

text \<open>The name servers are those just read; the addresses are read back from the metrics.\<close>

definition dns_table :: "analysis_env \<Rightarrow> string \<Rightarrow> diagnostic_result \<Rightarrow> printed list result" where
  "dns_table env hostname r =
     bindR (joined_cell ''Unknown'' (metric r ''dns_servers'')) (\<lambda>servers.
     bindR (joined_cell ''-'' (metric_or r ''addresses'' (PList []))) (\<lambda>addresses.
       Inr [Table ''DNS Diagnostics'' [''Property'', ''Value'']
         [[''Hostname'', hostname], [''DNS Servers'', servers], [''Status'', status_value (dr_status r)],
          [''Resolution Time'', millis_cell env r ''resolution_time_ms''], [''Addresses'', addresses]]]))"

definition upper_char :: "char \<Rightarrow> char" where
  "upper_char c = (let n = (of_char c :: nat) in if 97 \<le> n \<and> n \<le> 122 then char_of (n - 32) else c)"

text \<open>\<open>v.upper()\<close>.\<close>

fun py_upper :: "pyval \<Rightarrow> string result" where
  "py_upper (PStr s) = Inr (map upper_char s)"
| "py_upper _ = Inl AttributeError"

definition transport_row :: "analysis_env \<Rightarrow> string \<Rightarrow> diagnostic_result \<Rightarrow> string list result" where
  "transport_row env host r =
     bindR (py_upper (metric_or r ''protocol'' (PStr ''tcp''))) (\<lambda>protocol.
     bindR (metric_at r ''port'') (\<lambda>port.
       Inr [protocol, host, py_str env port, two_state r, millis_cell env r ''latency_ms'']))"

definition transport_table :: "analysis_env \<Rightarrow> string \<Rightarrow> diagnostic_result list \<Rightarrow> printed list result" where
  "transport_table env host =
     rows_table ''Transport Diagnostics (TCP / UDP)'' [''Protocol'', ''Host'', ''Port'', ''Status'', ''Latency'']
       (transport_row env host)"

definition loss_row :: "analysis_env \<Rightarrow> diagnostic_result \<Rightarrow> string list result" where
  "loss_row env r = Inr [or_dash (dr_target r), percent_cell env r ''packet_loss_percent'', status_value (dr_status r)]"

definition loss_table :: "analysis_env \<Rightarrow> diagnostic_result list \<Rightarrow> printed list result" where
  "loss_table env = rows_table ''Packet Loss Diagnostics'' [''Host'', ''Loss'', ''Status''] (loss_row env)"

definition latency_row :: "diagnostic_result \<Rightarrow> string list result" where
  "latency_row r =
     bindR (fixed_cell 2 '' ms'' r ''min_ms'') (\<lambda>lo.
     bindR (fixed_cell 2 '' ms'' r ''avg_ms'') (\<lambda>avg.
     bindR (fixed_cell 2 '' ms'' r ''max_ms'') (\<lambda>hi.
     bindR (fixed_cell 2 '' ms'' r ''jitter_ms'') (\<lambda>jitter.
       Inr [or_dash (dr_target r), lo, avg, hi, jitter, status_value (dr_status r)]))))"

definition latency_table :: "diagnostic_result list \<Rightarrow> printed list result" where
  "latency_table = rows_table ''Latency Diagnostics'' [''Host'', ''Min'', ''Avg'', ''Max'', ''Jitter'', ''Status''] latency_row"

text \<open>\<open>r.metrics[k] / scale\<close> with \<open>n\<close> digits and a unit.\<close>

definition quantity :: "nat \<Rightarrow> rat \<Rightarrow> string \<Rightarrow> diagnostic_result \<Rightarrow> string \<Rightarrow> string result" where
  "quantity n scale unit_text r k =
     bindR (metric_at r k) (\<lambda>v. bindR (numR v) (\<lambda>x. Inr (fmt_fixed n (x / scale) @ unit_text)))"

definition alarm_cell :: "diagnostic_result \<Rightarrow> string \<Rightarrow> string result" where
  "alarm_cell r k =
     bindR (numR (metric_or r k (PFloat 0))) (\<lambda>x.
       Inr ((if 0 < x then ''[red]'' else ''[green]'') @ fmt_fixed 2 x @ ''/s[/]''))"

definition resource_table :: "analysis_env \<Rightarrow> diagnostic_result \<times> diagnostic_result \<Rightarrow> printed list result" where
  "resource_table env both =
     (case both of (resources, activity) \<Rightarrow>
       bindR (quantity 1 1 ''%'' resources ''cpu_percent'') (\<lambda>cpu.
       bindR (quantity 1 1 ''%'' resources ''memory_percent'') (\<lambda>mem.
       bindR (quantity 2 1024 '' KB/s'' activity ''rx_bytes_per_sec'') (\<lambda>rx.
       bindR (quantity 2 1024 '' KB/s'' activity ''tx_bytes_per_sec'') (\<lambda>tx.
       bindR (quantity 2 1 ''/s'' activity ''rx_packets_per_sec'') (\<lambda>rx_packets.
       bindR (quantity 2 1 ''/s'' activity ''tx_packets_per_sec'') (\<lambda>tx_packets.
       bindR (alarm_cell resources ''active_drops_per_sec'') (\<lambda>drops.
       bindR (alarm_cell resources ''active_errors_per_sec'') (\<lambda>errors.
         Inr [Table ''Resource / Network Interaction'' [''Metric'', ''Value'']
           [[''CPU'', cpu], [''Memory'', mem], [''RX Throughput'', rx], [''TX Throughput'', tx],
            [''RX Packets'', rx_packets], [''TX Packets'', tx_packets], [''Active Drops/s'', drops],
            [''Active Errors/s'', errors],
            [''Boot Cumulative Drops'', py_str env (metric_or resources ''boot_cumulative_drops'' (PInt 0))],
            [''Boot Cumulative Errors'', py_str env (metric_or resources ''boot_cumulative_errors'' (PInt 0))]]])))))))))"

section \<open>The tables of links, traffic, paths, the mesh and flows\<close>

text \<open>\<open>{r.target: r for r in rs}.get(t)\<close>: of several results with the same target the last one is taken.\<close>

definition by_target :: "diagnostic_result list \<Rightarrow> string option \<Rightarrow> diagnostic_result option" where
  "by_target rs t = map_of (rev (map (\<lambda>r. (dr_target r, r)) rs)) t"

definition link_row ::
  "diagnostic_result list \<Rightarrow> diagnostic_result list \<Rightarrow> diagnostic_result \<Rightarrow> string list result" where
  "link_row errors congestion u =
     (let e = by_target errors (dr_target u); c = by_target congestion (dr_target u) in
      bindR (metric_cell (fmt_num 1) u ''util_percent'') (\<lambda>util.
      bindR (case e of None \<Rightarrow> Inr ''-'' | Some r \<Rightarrow> fixed_cell 2 [] r ''drops_per_sec'') (\<lambda>drops.
      bindR (case c of None \<Rightarrow> Inr ''-'' | Some r \<Rightarrow> text_cell (metric_or r ''congestion_state'' (PStr ''-''))) (\<lambda>state.
        Inr [or_dash (dr_target u), util, drops, state,
             status_value (dr_status (case c of None \<Rightarrow> u | Some r \<Rightarrow> r))]))))"

definition link_table ::
  "diagnostic_result list \<times> diagnostic_result list \<times> diagnostic_result list \<Rightarrow> printed list result" where
  "link_table parts =
     (case parts of (util, errors, congestion) \<Rightarrow>
       rows_table ''Link Diagnostics'' [''Interface'', ''Util %'', ''Drops/s'', ''Congestion'', ''Status'']
         (link_row errors congestion) util)"

definition speed_table :: "analysis_env \<Rightarrow> diagnostic_result \<Rightarrow> printed list result" where
  "speed_table env r =
     bindR (fixed_cell 2 '' Mbps'' r ''goodput_mbps'') (\<lambda>goodput.
       Inr [Table ''Traffic Speed'' [''Metric'', ''Value'']
         [[''Goodput'', goodput], [''Bytes'', py_str env (metric_or r ''bytes'' (PStr ''-''))],
          [''Elapsed'', py_str env (metric_or r ''elapsed_seconds'' (PInt 0)) @ '' s''],
          [''Status'', status_value (dr_status r)]]])"

definition jitter_table :: "diagnostic_result \<Rightarrow> printed list result" where
  "jitter_table r =
     bindR (fixed_cell 2 '' ms'' r ''jitter_ms'') (\<lambda>jitter.
     bindR (fixed_cell 2 '' ms'' r ''avg_ms'') (\<lambda>avg.
       Inr [Table ''Traffic Jitter'' [''Host'', ''Jitter'', ''Avg RTT'', ''Status'']
         [[or_dash (dr_target r), jitter, avg, status_value (dr_status r)]]]))"

definition mesh_table :: "analysis_env \<Rightarrow> diagnostic_result list \<Rightarrow> printed list result" where
  "mesh_table env rs =
     rows_table ''Ping Mesh'' [''Target'', ''Loss'', ''Status''] (loss_row env)
       (filter (\<lambda>r. dr_module r = ''mesh_ping'') rs)"

definition hop_row :: "analysis_env \<Rightarrow> pyval \<Rightarrow> string list result" where
  "hop_row env hop =
     bindR (get_or hop ''avg_rtt_ms'' PNone) (\<lambda>avg.
     bindR (get_or hop ''hop'' PNone) (\<lambda>n.
     bindR (get_or hop ''address'' PNone) (\<lambda>address.
     bindR (text_cell (if truthy address then address else PStr ''*'')) (\<lambda>address_cell.
     bindR (get_or hop ''loss_percent'' (PInt 0)) (\<lambda>loss.
       Inr [py_str env n, address_cell, (if avg = PNone then ''*'' else py_str env avg @ '' ms''),
            py_str env loss @ ''%''])))))"

definition hops_table :: "analysis_env \<Rightarrow> string \<Rightarrow> diagnostic_result \<Rightarrow> printed list result" where
  "hops_table env title r =
     bindR (py_iter (metric_or r ''hops'' (PList []))) (\<lambda>hops.
       rows_table title [''Hop'', ''Address'', ''Avg RTT'', ''Loss''] (hop_row env) hops)"

text \<open>\<open>d[k]\<close>.\<close>

definition item_at :: "pyval \<Rightarrow> string \<Rightarrow> pyval result" where
  "item_at v k =
     (case v of PDict d \<Rightarrow> (case map_of d k of None \<Rightarrow> Inl KeyError | Some x \<Rightarrow> Inr x) | _ \<Rightarrow> Inl TypeError)"

definition talker_row :: "pyval \<Rightarrow> string list result" where
  "talker_row t =
     bindR (bindR (item_at t ''src'') text_cell) (\<lambda>src.
     bindR (bindR (item_at t ''dst'') text_cell) (\<lambda>dst.
     bindR (bindR (item_at t ''bytes'') numR) (\<lambda>b.
     bindR (bindR (item_at t ''share'') numR) (\<lambda>share.
       Inr [src, dst, str_of_int (py_trunc b), fmt_fixed 1 (share * 100) @ ''%'']))))"

text \<open>\<open>r.metrics.get("top_talkers", [])[:10]\<close>: a slice of a list.\<close>

definition talkers_table :: "diagnostic_result \<Rightarrow> printed list result" where
  "talkers_table r =
     (case metric_or r ''top_talkers'' (PList []) of
        PList ts \<Rightarrow> rows_table ''Top Talkers'' [''Src'', ''Dst'', ''Bytes'', ''Share''] talker_row (take 10 ts)
      | _ \<Rightarrow> Inl TypeError)"

section \<open>Measuring and printing\<close>

definition print_connectivity ::
  "host_env \<Rightarrow> analysis_env \<Rightarrow> string list option \<Rightarrow> (host, diagnostic_result list \<times> printed list) act" where
  "print_connectivity env a hosts = printing (run_connectivity_checks env hosts) (connectivity_table a)"

definition print_interfaces :: "host_env \<Rightarrow> analysis_env \<Rightarrow> (host, diagnostic_result list \<times> printed list) act" where
  "print_interfaces env a = printing (totalA (inspect_interfaces env)) (interface_table a)"

definition print_routing :: "host_env \<Rightarrow> analysis_env \<Rightarrow> bool \<Rightarrow> (host, diagnostic_result \<times> printed list) act" where
  "print_routing env a verbose = printing (inspect_routing_table env) (\<lambda>r. Inr (routing_table a verbose r))"

definition print_gateway :: "host_env \<Rightarrow> analysis_env \<Rightarrow> int \<Rightarrow> (host, diagnostic_result \<times> printed list) act" where
  "print_gateway env a n = printing (check_gateway_reachability env None n) (gateway_table a)"

definition print_dns :: "host_env \<Rightarrow> analysis_env \<Rightarrow> string \<Rightarrow> (host, diagnostic_result \<times> printed list) act" where
  "print_dns env a hostname = printing (run_dns_diagnostics env hostname) (dns_table a hostname)"

definition print_transport ::
  "host_env \<Rightarrow> analysis_env \<Rightarrow> string \<Rightarrow> int list option \<Rightarrow> int list option \<Rightarrow>
   (host, diagnostic_result list \<times> printed list) act" where
  "print_transport env a host tcp_ports udp_ports =
     printing (run_transport_diagnostics env host tcp_ports udp_ports) (transport_table a host)"

definition print_packet_loss ::
  "host_env \<Rightarrow> analysis_env \<Rightarrow> string list option \<Rightarrow> int \<Rightarrow> (host, diagnostic_result list \<times> printed list) act" where
  "print_packet_loss env a hosts n = printing (totalA (run_packet_loss_diagnostics env hosts n)) (loss_table a)"

definition print_latency ::
  "host_env \<Rightarrow> string list option \<Rightarrow> int \<Rightarrow> (host, diagnostic_result list \<times> printed list) act" where
  "print_latency env hosts n = printing (totalA (run_latency_diagnostics env hosts n)) latency_table"

definition print_resources ::
  "host_env \<Rightarrow> analysis_env \<Rightarrow> (host, (diagnostic_result \<times> diagnostic_result) \<times> printed list) act" where
  "print_resources env a = printing (inspect_resources_and_activity env 1) (resource_table a)"

text \<open>The parts of \<open>run_link_diagnostics\<close>, whose concatenation it returns.\<close>

definition link_parts ::
  "host_env \<Rightarrow> rat \<Rightarrow> (host, diagnostic_result list \<times> diagnostic_result list \<times> diagnostic_result list) act" where
  "link_parts env interval =
     bindA (totalA (measure_link_utilization env interval)) (\<lambda>util.
     bindA (measure_link_errors env interval) (\<lambda>errors.
     bindA (measure_link_congestion env (Some util) (Some errors) 0) (\<lambda>congestion.
       returnA (util, errors, congestion))))"

definition print_link :: "host_env \<Rightarrow> rat \<Rightarrow> (host, diagnostic_result list \<times> printed list) act" where
  "print_link env interval =
     bindA (printing (link_parts env interval) link_table) (\<lambda>((util, errors, congestion), out).
       returnA (util @ errors @ congestion, out))"

definition print_speed :: "host_env \<Rightarrow> analysis_env \<Rightarrow> string \<Rightarrow> (host, diagnostic_result \<times> printed list) act" where
  "print_speed env a url = printing (measure_download_speed env url 30) (speed_table a)"

definition print_jitter :: "host_env \<Rightarrow> string \<Rightarrow> int \<Rightarrow> (host, diagnostic_result \<times> printed list) act" where
  "print_jitter env host n = printing (totalA (measure_traffic_jitter env host n)) jitter_table"

definition print_mesh ::
  "host_env \<Rightarrow> analysis_env \<Rightarrow> string list option \<Rightarrow> mesh_topology option \<Rightarrow> int \<Rightarrow>
   (host, diagnostic_result list \<times> printed list) act" where
  "print_mesh env a targets topology n = printing (run_local_mesh env targets topology n) (mesh_table a)"

definition print_traceroute ::
  "host_env \<Rightarrow> analysis_env \<Rightarrow> string \<Rightarrow> int \<Rightarrow> (host, diagnostic_result \<times> printed list) act" where
  "print_traceroute env a target max_hops =
     printing (totalA (traceroute_to_result env target max_hops)) (hops_table a (''Traceroute to '' @ target))"

text \<open>\<open>run_flow_top\<close> on the text of the file.\<close>

definition flow_top :: "analysis_env \<Rightarrow> (string \<Rightarrow> pyval result) \<Rightarrow> string \<Rightarrow> (diagnostic_result \<times> printed list) result" where
  "flow_top env loads text =
     bindR (load_sflow_records loads text) (\<lambda>records.
     bindR (analyze_flows env records) (\<lambda>r. bindR (talkers_table r) (\<lambda>out. Inr (r, out))))"

text \<open>The suite \<open>host all\<close> with its headings.\<close>

definition under :: "string \<Rightarrow> ('s, 'a \<times> printed list) act \<Rightarrow> ('s, 'a \<times> printed list) act" where
  "under title m = bindA m (\<lambda>(x, out). returnA (x, Text (newline @ styled ''bold'' title) # out))"

definition print_suite :: "host_env \<Rightarrow> analysis_env \<Rightarrow> (host, diagnostic_result list \<times> printed list) act" where
  "print_suite env a =
     bindA (under ''1. Connectivity'' (print_connectivity env a None)) (\<lambda>(connectivity, t1).
     bindA (under ''2. Interfaces'' (print_interfaces env a)) (\<lambda>(interfaces, t2).
     bindA (under ''3. Routing'' (print_routing env a False)) (\<lambda>(routing, t3).
     bindA (under ''4. Gateway'' (print_gateway env a 4)) (\<lambda>(gateway, t4).
     bindA (under ''5. DNS'' (print_dns env a ''google.com'')) (\<lambda>(dns, t5).
     bindA (under ''6. Transport (TCP / UDP)'' (print_transport env a ''1.1.1.1'' None None)) (\<lambda>(transport, t6).
     bindA (under ''7. Packet Loss'' (print_packet_loss env a None 5)) (\<lambda>(losses, t7).
     bindA (under ''8. Latency & Jitter'' (print_latency env None 5)) (\<lambda>(latencies, t8).
     bindA (under ''9. Resource / Network Interaction'' (print_resources env a)) (\<lambda>((resources, activity), t9).
       returnA (connectivity @ interfaces @ [routing, gateway, dns] @ transport @ losses @ latencies @
           [resources, activity],
         t1 @ t2 @ t3 @ t4 @ t5 @ t6 @ t7 @ t8 @ t9))))))))))"

definition summary_panel :: "run_summary \<Rightarrow> printed" where
  "summary_panel s =
     Panel (newline @ ''[bold]Checks:[/bold] '' @ str_of_nat (rs_total_checks s) @ newline @ newline @
         ''[green]Healthy:[/green] '' @ str_of_nat (rs_healthy s) @ newline @
         ''[yellow]Degraded:[/yellow] '' @ str_of_nat (rs_degraded s) @ newline @
         ''[red]Failed:[/red] '' @ str_of_nat (rs_failed s) @ newline @
         ''[dim]Unknown:[/dim] '' @ str_of_nat (rs_unknown s) @ newline)
       ''NetForge Diagnostic Summary'' []"

definition bulleted :: "string \<Rightarrow> printed" where
  "bulleted s = Text (''  '' @ bullet @ '' '' @ s)"

definition summary_output :: "run_summary \<Rightarrow> string list \<Rightarrow> printed list" where
  "summary_output summary findings =
     [Text newline, summary_panel summary] @
     (if findings = [] then [Text (newline @ ''[green]No degraded or failed diagnostics detected.[/green]'')]
      else Text (newline @ ''[bold yellow]Findings[/bold yellow]'') # map bulleted findings)"

definition host_banner :: printed where
  "host_banner = Banner ''[bold cyan]NetForge Host Diagnostics[/bold cyan]'' ''Comprehensive Host Analysis''"

definition print_host_all ::
  "host_env \<Rightarrow> analysis_env \<Rightarrow> string \<Rightarrow> bool \<Rightarrow> bool \<Rightarrow> string \<Rightarrow> (host, shown) act" where
  "print_host_all env a now strict diagnose target =
     bindA (print_suite env a) (\<lambda>(results, tables).
       let summary = summarize results;
           out = host_banner # tables @ summary_output summary (generate_findings results) in
       if diagnose then
         bindA (analyse_results a now target strict results) (\<lambda>(report, code).
           returnA (out @ render_diagnosis_report report, code))
       else returnA (out, summary_exit summary strict))"

section \<open>Printing never raises\<close>

text \<open>\<open>silently p\<close> is \<open>p\<close> without its output.\<close>

definition silently :: "('s, 'a \<times> 'b) act \<Rightarrow> ('s, 'a) act" where
  "silently p = bindA p (\<lambda>x. returnA (fst x))"

lemma silently_apply:
  "silently p s = (case p s of (Inl e, s') \<Rightarrow> (Inl e, s') | (Inr (x, out), s') \<Rightarrow> (Inr x, s'))"
  by (simp add: silently_def bindA_def returnA_def split: prod.splits sum.splits)

lemma silently_bind:
  assumes "silently p = m" "\<And>x out. silently (q x out) = k x"
  shows "silently (bindA p (\<lambda>(x, out). q x out)) = bindA m k"
proof
  fix s
  have "silently (q x out) s' = k x s'" for x out s' by (simp add: assms(2))
  then show "silently (bindA p (\<lambda>(x, out). q x out)) s = bindA m k s"
    unfolding assms(1) [symmetric] by (cases "p s") (auto simp: silently_apply bindA_def split: sum.splits)
qed

lemma silently_return [simp]: "silently (returnA (x, out)) = returnA x"
  by (simp add: silently_def bindA_def returnA_def fun_eq_iff)

lemma bindA_assoc: "bindA (bindA m f) g = bindA m (\<lambda>x. bindA (f x) g)"
  by (auto simp: bindA_def fun_eq_iff split: prod.splits sum.splits)

lemma silently_printing:
  assumes "yields (\<lambda>x. returns (table x)) m"
  shows "silently (printing m table) = m"
proof
  fix s
  show "silently (printing m table) s = m s"
    using yieldsD [OF assms, of s]
    by (auto simp: silently_def printing_def bindA_def returnA_def liftA_def returns_def split: prod.splits sum.splits)
qed

lemma silently_under [simp]: "silently (under title m) = silently m"
proof
  fix s
  show "silently (under title m) s = silently m s"
    by (auto simp: silently_def under_def bindA_def returnA_def split: prod.splits sum.splits)
qed

lemma rows_return: "(\<And>x. x \<in> set rs \<Longrightarrow> returns (row x)) \<Longrightarrow> returns (rows_table title cols row rs)"
  unfolding rows_table_def by (intro returns_bind returns_map) simp_all

lemma fixed_returns: "is_number (metric_or r k (PInt 0)) \<Longrightarrow> returns (fixed_cell n u r k)"
  unfolding fixed_cell_def by (intro returns_bind returns_num) simp_all

lemma joined_returns [simp]: "returns (joined_cell d (PList (map PStr xs)))"
proof -
  have "mapR text_of (map PStr xs) = Inr xs" by (induction xs) simp_all
  then show ?thesis by (simp add: joined_cell_def py_join_def)
qed

text \<open>The looks of the metrics a table reads.\<close>

lemmas measured = metric_def metric_or_def metric_at_def get_val_def new_result_def

lemma connectivity_prints: "yields (\<lambda>rs. returns (connectivity_table a rs)) m"
  unfolding connectivity_table_def yields_def by (auto intro!: rows_return simp: connectivity_row_def)

lemma text_cell_opt: "returns (text_cell (or_val (opt_str t) (PStr s)))"
  by (auto simp: opt_str_def or_val_def text_cell_def split: option.splits)

lemma interfaces_print: "yields (\<lambda>rs. returns (interface_table a rs)) (totalA (inspect_interfaces env))"
proof (rule yields_total)
  have "returns (interface_cells a (interface_result stats entry))" for stats entry
    by (cases entry) (simp add: interface_cells_def interface_result_def measured Let_def returns_bind text_cell_opt)
  then show "returns (interface_table a (fst (inspect_interfaces env h)))" for h
    unfolding interface_table_def by (intro rows_return) (auto simp: inspect_interfaces_def split: prod.splits)
qed

lemma gateway_prints: "yields (\<lambda>r. returns (gateway_table a r)) (check_gateway_reachability env gw n)"
proof -
  have "returns (gateway_table a no_gateway_result)"
    by (simp add: gateway_table_def no_gateway_result_def new_result_def)
  moreover have "returns (gateway_table a (gateway_result env g k data))" for g k data
    unfolding gateway_table_def
    by (intro returns_bind returns_if fixed_returns)
      (auto simp: gateway_result_def measured split: option.splits prod.splits if_splits)
  ultimately show ?thesis
    unfolding check_gateway_reachability_def
    by (intro yields_bind [where P = "\<lambda>_. True"] yields_total)
      (auto simp: yields_def [of "\<lambda>_. True"] probe_gateway_def split: prod.splits)
qed

lemma resolve_metrics:
  "resolve_hostname env name h = (Inr r, h') \<Longrightarrow>
    metric_or r ''addresses'' (PList []) = PList [] \<or> (\<exists>ips. metric_or r ''addresses'' (PList []) = PList (map PStr ips))"
  by (auto simp: resolve_hostname_def dns_result_def measured Let_def split: prod.splits resolve_outcome.splits)

lemma dns_prints: "yields (\<lambda>r. returns (dns_table a name r)) (run_dns_diagnostics env name)"
proof -
  have found: "yields (\<lambda>r. \<exists>ips. metric_or r ''addresses'' (PList []) = PList (map PStr ips)) (resolve_hostname env name)"
    by (auto simp: yields_def dest!: resolve_metrics intro: exI [of _ "[]"])
  have "returns (dns_table a name (servers_evidence servers (with_servers servers r)))"
    if "\<exists>ips. metric_or r ''addresses'' (PList []) = PList (map PStr ips)" for servers r
  proof -
    have "metric (servers_evidence servers (with_servers servers r)) ''dns_servers'' = PList (map PStr servers)"
      "metric_or (servers_evidence servers (with_servers servers r)) ''addresses'' (PList []) = metric_or r ''addresses'' (PList [])"
      by (simp_all add: servers_evidence_def with_servers_def metric_def metric_or_def get_val_def update_conv')
    then show ?thesis using that by (auto simp: dns_table_def intro!: returns_bind)
  qed
  then show ?thesis
    unfolding run_dns_diagnostics_def
    by (intro yields_bind [OF found] yields_bind [where P = "\<lambda>_. True"]) (simp_all add: yields_def [of "\<lambda>_. True"])
qed

lemma port_rows: "returns (transport_row a host (tcp_failed host' port exc))"
  "returns (transport_row a host (udp_rejected host' port exc))"
  by (simp_all add: transport_row_def tcp_failed_def udp_rejected_def udp_metrics_def measured)

lemma transport_prints:
  "yields (\<lambda>rs. returns (transport_table a host rs)) (run_transport_diagnostics env host' tcp_ports udp_ports)"
proof -
  let ?row = "\<lambda>r. returns (transport_row a host r)"
  have tcp: "yields ?row (test_tcp env host' port timeout)" for port timeout
    by (auto simp: yields_def test_tcp_def tcp_result_def port_rows split: prod.splits tcp_outcome.splits)
      (auto simp: transport_row_def measured)
  have udp: "yields ?row (test_udp env host' port timeout)" for port timeout
    by (auto simp: yields_def test_udp_def udp_result_def port_rows split: prod.splits udp_outcome.splits)
      (auto simp: transport_row_def measured udp_metrics_def)
  show ?thesis
    unfolding run_transport_diagnostics_def transport_table_def
    by (rule yields_bind [OF yields_map [OF tcp]], rule yields_bind [OF yields_map [OF udp]])
      (auto intro!: rows_return simp: list_all_iff)
qed

lemma losses_print: "yields (\<lambda>rs. returns (loss_table a rs)) m"
  unfolding loss_table_def yields_def by (auto intro!: rows_return simp: loss_row_def)

lemma latencies_print: "yields (\<lambda>rs. returns (latency_table rs)) (totalA (run_latency_diagnostics env hosts n))"
proof (rule yields_total)
  have "returns (latency_row (latency_result host data))" for host data
    unfolding latency_row_def
    by (intro returns_bind fixed_returns) (auto simp: latency_result_def latency_samples_def measured Let_def)
  then have "returns (latency_row (fst (measure_latency env host n h)))" for host h
    by (simp add: measure_latency_def split: prod.splits)
  then have "list_all (\<lambda>r. returns (latency_row r)) (fst (run_latency_diagnostics env hosts n h))" for h
    unfolding run_latency_diagnostics_def by (intro for_each_all)
  then show "returns (latency_table (fst (run_latency_diagnostics env hosts n h)))" for h
    unfolding latency_table_def by (intro rows_return) (simp add: list_all_iff)
qed

lemma resources_print: "yields (\<lambda>both. returns (resource_table a both)) (inspect_resources_and_activity env interval)"
proof -
  have "returns (resource_table a (resource_result i before after cpu mem, activity_result i before after))"
    for i before after cpu mem
    by (auto simp: resource_table_def quantity_def alarm_cell_def resource_result_def activity_result_def measured Let_def
        split: prod.splits)
  then show ?thesis
    unfolding inspect_resources_and_activity_def
    by (intro yields_bind [where P = "\<lambda>_. True"] yields_if) (simp_all add: yields_def failA_def returnA_def)
qed

text \<open>The tables of the suite.\<close>

lemma suite_silent:
  "silently (print_connectivity env a hosts) = run_connectivity_checks env hosts"
  "silently (print_interfaces env a) = totalA (inspect_interfaces env)"
  "silently (print_routing env a verbose) = inspect_routing_table env"
  "silently (print_gateway env a n) = check_gateway_reachability env None n"
  "silently (print_dns env a name) = run_dns_diagnostics env name"
  "silently (print_transport env a host tcp_ports udp_ports) = run_transport_diagnostics env host tcp_ports udp_ports"
  "silently (print_packet_loss env a hosts n) = totalA (run_packet_loss_diagnostics env hosts n)"
  "silently (print_latency env hosts n) = totalA (run_latency_diagnostics env hosts n)"
  "silently (print_resources env a) = inspect_resources_and_activity env 1"
  unfolding print_connectivity_def print_interfaces_def print_routing_def print_gateway_def print_dns_def
    print_transport_def print_packet_loss_def print_latency_def print_resources_def
  by (rule silently_printing connectivity_prints interfaces_print gateway_prints dns_prints transport_prints losses_print
      latencies_print resources_print | simp add: yields_def)+

lemma suite_prints: "silently (print_suite env a) = host_suite env"
  unfolding print_suite_def host_suite_def run_connectivity_checks_def [symmetric]
  by (intro silently_bind) (simp_all add: suite_silent silently_bind case_prod_beta)

text \<open>The other tables.\<close>

lemma opt_text_cell [simp]: "returns (text_cell (opt_text t))" "returns (text_cell (PStr s))"
  by (auto simp: opt_text_def text_cell_def split: option.splits)

lemma text_cell_text: "\<exists>s. v = PStr s \<Longrightarrow> returns (text_cell v)"
  by auto

lemma by_target_mem: "by_target rs t = Some r \<Longrightarrow> r \<in> set rs"
  by (auto simp: by_target_def dest!: map_of_SomeD)

definition link_printable :: "diagnostic_result list \<times> diagnostic_result list \<times> diagnostic_result list \<Rightarrow> bool" where
  "link_printable parts =
     (case parts of (util, errors, congestion) \<Rightarrow>
       list_all typed_result util \<and> list_all typed_result errors \<and>
       list_all (\<lambda>r. \<exists>s. metric_or r ''congestion_state'' (PStr ''-'') = PStr s) congestion)"

lemma typed_drops: "typed_result r \<Longrightarrow> is_number (metric_or r ''drops_per_sec'' (PInt 0))"
  using typed_metric(2) [of r "''drops_per_sec''"] by (auto simp: metric_or_def strict_keys_def split: option.splits)

lemma typed_util: "typed_result r \<Longrightarrow> returns (metric_cell (fmt_num n) r ''util_percent'')"
  using typed_metric(1) [of r "''util_percent''"] returns_num(6)
  by (auto simp: metric_cell_def num_or_none_def optional_keys_def Let_def)

lemma link_table_returns: "link_printable parts \<Longrightarrow> returns (link_table parts)"
  by (cases parts)
    (auto simp: link_printable_def link_table_def link_row_def Let_def list_all_iff
      intro!: rows_return returns_bind returns_option text_cell_text typed_util fixed_returns typed_drops dest!: by_target_mem)

lemma congestion_states:
  "yields (list_all (\<lambda>r. \<exists>s. metric_or r ''congestion_state'' (PStr ''-'') = PStr s))
     (measure_link_congestion env utils errors delta)"
proof -
  have one: "\<exists>s. metric_or r ''congestion_state'' (PStr ''-'') = PStr s" if "congestion_result env delta es u = Inr r" for es u r
    using that by (auto simp: congestion_result_def bindR_eq_Inr Let_def measured)
  show ?thesis
    unfolding measure_link_congestion_def
    by (rule yields_bind [where P = "\<lambda>_. True"], simp add: yields_def, rule yields_lift, erule mapR_all, erule one)
qed

lemma link_prints: "yields (\<lambda>parts. returns (link_table parts)) (link_parts env interval)"
  unfolding link_parts_def
  by (rule yields_bind [OF yields_total [where P = typed_results]], rule typed_utilization, rule yields_bind [OF yields_errors],
      rule yields_bind [OF congestion_states]) (simp add: link_table_returns link_printable_def typed_results_eq)

lemma download_prints: "yields (\<lambda>r. returns (speed_table a r)) (measure_download_speed env url timeout)"
  by (auto simp: yields_def measure_download_speed_def download_result_def speed_table_def measured Let_def
      intro!: returns_bind fixed_returns split: prod.splits download_outcome.splits)

lemma jitter_prints: "yields (\<lambda>r. returns (jitter_table r)) (totalA (measure_traffic_jitter env host n))"
proof (rule yields_total)
  have "returns (jitter_table (jitter_result env host data))" for data
    unfolding jitter_table_def by (intro returns_bind fixed_returns) (auto simp: jitter_result_def measured Let_def)
  then show "returns (jitter_table (fst (measure_traffic_jitter env host n h)))" for h
    by (simp add: measure_traffic_jitter_def split: prod.splits)
qed

lemma mesh_prints: "yields (\<lambda>rs. returns (mesh_table a rs)) m"
  unfolding mesh_table_def yields_def by (auto intro!: rows_return simp: loss_row_def)

lemma hops_return:
  assumes "\<exists>f hops. metric_or r ''hops'' (PList []) = PList (map f hops) \<and> (\<forall>hop \<in> set hops. returns (hop_row a (f hop)))"
  shows "returns (hops_table a title r)"
  using assms by (auto simp: hops_table_def intro!: rows_return)

lemma traced_row: "returns (hop_row a (hop_dict hop))" "returns (hop_row a (fst (hop_metric n hop)))"
  by (auto simp: hop_row_def get_or_def hop_dict_def hop_metric_def Let_def intro!: returns_bind)

lemma traced_hops:
  "metric_or (trace_result env target (hops, raw, error)) ''hops'' (PList []) =
     PList (map hop_dict (if some_text error then [] else hops))"
  by (simp add: trace_result_def measured Let_def)

lemma trace_prints: "returns (hops_table a title (fst (traceroute_to_result env target max_hops h)))"
  by (auto simp: traceroute_to_result_def traced_row intro!: hops_return traced_hops exI split: prod.splits)

lemma measured_hops:
  "metric_or (hop_metrics_result env target n (aggregates, errors)) ''hops'' (PList []) =
     PList (map (\<lambda>hop. fst (hop_metric (n * 3) hop)) (by_number aggregates))"
  by (simp add: hop_metrics_result_def measured Let_def by_number_def)

lemma hop_metrics_print: "returns (hops_table a title (fst (measure_hop_metrics env target n max_hops h)))"
  by (auto simp: measure_hop_metrics_def traced_row intro!: hops_return measured_hops exI split: prod.splits)

lemma talkers_print: "returns (talkers_table (flow_result rs))"
proof -
  have "returns (talker_row (talker_dict t))" for t
    by (simp add: talker_row_def talker_dict_def item_at_def text_cell_def)
  then have "returns (rows_table title cols talker_row (take 10 (map talker_dict ts)))" for title cols ts
    by (intro rows_return) (fastforce dest: in_set_takeD)
  then show ?thesis by (simp add: talkers_table_def flow_result_def measured Let_def)
qed

text \<open>Printing changes nothing in the functions that print what they measured.\<close>

lemma others_silent:
  "silently (print_link env interval) = run_link_diagnostics env interval"
  "silently (print_speed env a url) = measure_download_speed env url 30"
  "silently (print_jitter env host n) = totalA (measure_traffic_jitter env host n)"
  "silently (print_mesh env a targets topology n) = run_local_mesh env targets topology n"
  "silently (print_traceroute env a target max_hops) = totalA (traceroute_to_result env target max_hops)"
proof -
  have "silently (print_link env interval) = bindA (link_parts env interval) (\<lambda>(u, e, c). returnA (u @ e @ c))"
    unfolding print_link_def
    by (rule trans [OF silently_bind [OF silently_printing [OF link_prints], where k = "\<lambda>(u, e, c). returnA (u @ e @ c)"]])
      (auto split: prod.splits)
  then show "silently (print_link env interval) = run_link_diagnostics env interval"
    by (simp add: link_parts_def run_link_diagnostics_def bindA_assoc)
  show "silently (print_speed env a url) = measure_download_speed env url 30"
    "silently (print_jitter env host n) = totalA (measure_traffic_jitter env host n)"
    "silently (print_mesh env a targets topology n) = run_local_mesh env targets topology n"
    "silently (print_traceroute env a target max_hops) = totalA (traceroute_to_result env target max_hops)"
    unfolding print_speed_def print_jitter_def print_mesh_def print_traceroute_def
    by (rule silently_printing download_prints jitter_prints mesh_prints yields_total trace_prints)+
qed

lemma flow_top_outcome:
  "bindR (flow_top env loads text) (\<lambda>x. Inr (fst x)) =
    bindR (load_sflow_records loads text) (analyze_flows env)"
proof -
  have "bindR (bindR (talkers_table r) (\<lambda>out. Inr (r, out))) (\<lambda>x. Inr (fst x)) = Inr r" if "analyze_flows env rs = Inr r" for rs r
  proof -
    have "returns (talkers_table r)"
      using that talkers_print
      by (auto simp: analyze_flows_def bindR_eq_Inr split: if_splits)
        (simp add: talkers_table_def measured rows_table_def)
    then show ?thesis by (auto simp: returns_def)
  qed
  then show ?thesis
    by (cases "load_sflow_records loads text"; simp add: flow_top_def)
      (rename_tac rs, case_tac "analyze_flows env rs"; simp)
qed

section \<open>The suite of the host, printed\<close>

definition is_table :: "printed \<Rightarrow> bool" where
  "is_table p = (case p of Table _ _ _ \<Rightarrow> True | _ \<Rightarrow> False)"

definition host_verdict ::
  "analysis_env \<Rightarrow> string \<Rightarrow> bool \<Rightarrow> bool \<Rightarrow> string \<Rightarrow> diagnostic_result list \<Rightarrow>
   (host, (run_summary \<times> string list) \<times> diagnosis_report option \<times> int) act" where
  "host_verdict a now strict diagnose target results =
     (if diagnose then bindA (analyse_results a now target strict results) (\<lambda>(report, code).
        returnA ((summarize results, generate_findings results), Some report, code))
      else returnA ((summarize results, generate_findings results), None, summary_exit (summarize results) strict))"

definition host_output :: "printed list \<Rightarrow> (run_summary \<times> string list) \<times> diagnosis_report option \<times> int \<Rightarrow> shown" where
  "host_output tables outcome =
     (case outcome of ((summary, findings), report, code) \<Rightarrow>
       (host_banner # tables @ summary_output summary findings @
          (case report of None \<Rightarrow> [] | Some r \<Rightarrow> render_diagnosis_report r), code))"

lemma host_all_verdict:
  "host_all env a now strict diagnose target = bindA (host_suite env) (host_verdict a now strict diagnose target)"
  unfolding host_all_def
  by (rule arg_cong [where f = "bindA (host_suite env)"]) (simp add: host_verdict_def Let_def fun_eq_iff)

lemma print_host_verdict:
  "print_host_all env a now strict diagnose target =
     bindA (print_suite env a) (\<lambda>(results, tables).
       bindA (host_verdict a now strict diagnose target results) (\<lambda>v. returnA (host_output tables v)))"
  unfolding print_host_all_def
  by (rule arg_cong [where f = "bindA (print_suite env a)"])
    (simp add: host_verdict_def host_output_def Let_def fun_eq_iff bindA_assoc case_prod_beta, simp add: case_prod_unfold)

definition tables_of :: "printed list \<Rightarrow> nat" where
  "tables_of out = length (filter is_table out)"

lemma tables_of_simps [simp]: "tables_of [] = 0" "tables_of (x @ y) = tables_of x + tables_of y"
  "tables_of (Table t c r # out) = Suc (tables_of out)" "tables_of (Text s # out) = tables_of out"
  by (simp_all add: tables_of_def is_table_def)

abbreviation one_table :: "('a \<Rightarrow> printed list result) \<Rightarrow> bool" where
  "one_table table \<equiv> (\<forall>x out. table x = Inr out \<longrightarrow> tables_of out = 1)"

lemma rows_one [simp]: "rows_table title cols row rs = Inr out \<Longrightarrow> tables_of out = 1"
  by (auto simp: rows_table_def bindR_eq_Inr)

lemma printed_tables:
  "one_table (connectivity_table a)" "one_table (interface_table a)" "one_table (\<lambda>r. Inr (routing_table a verbose r))"
  "one_table (gateway_table a)" "one_table (dns_table a name)" "one_table (transport_table a host)" "one_table (loss_table a)"
  "one_table latency_table" "one_table (resource_table a)"
  by (auto simp: connectivity_table_def interface_table_def routing_table_def gateway_table_def dns_table_def
      transport_table_def loss_table_def latency_table_def resource_table_def bindR_eq_Inr)

lemma one_printed: "one_table table \<Longrightarrow> yields (\<lambda>(x, out). tables_of out = 1) (under title (printing m table))"
  by (auto simp: yields_def under_def printing_def bindA_eq_Inr liftA_def returnA_def bindR_eq_Inr split: prod.splits)

lemma yields_split: "yields (\<lambda>(x, out). P out) m \<Longrightarrow> (\<And>x out. P out \<Longrightarrow> yields Q (f x out)) \<Longrightarrow> yields Q (bindA m (\<lambda>(x, out). f x out))"
  by (auto intro!: yields_bind)

lemma suite_tables: "yields (\<lambda>(results, tables). tables_of tables = 9) (print_suite env a)"
  unfolding print_suite_def print_connectivity_def print_interfaces_def print_routing_def print_gateway_def print_dns_def
    print_transport_def print_packet_loss_def print_latency_def print_resources_def
  by (rule yields_split [OF one_printed], rule printed_tables)+ (auto split: prod.splits)

text \<open>What the tables show of a host that did not answer.\<close>

lemma silent_host_has_latency_zero:
  "error_of data \<noteq> [] \<or> pd_latencies data = [] \<Longrightarrow>
    latency_row (latency_result host data) =
      Inr [or_dash (Some host), ''0.00 ms'', ''0.00 ms'', ''0.00 ms'', ''0.00 ms'', status_value (dr_status (latency_result host data))]"
proof -
  have zero: "fmt_fixed 2 0 = ''0.00''" by code_simp
  assume "error_of data \<noteq> [] \<or> pd_latencies data = []"
  then have "dr_metrics (latency_result host data) = [] \<and> dr_target (latency_result host data) = Some host"
    by (auto simp: latency_result_def new_result_def Let_def)
  then show ?thesis by (simp add: latency_row_def fixed_cell_def metric_or_def fmt_num_def zero)
qed


lemma banner_and_summary: "tables_of (host_banner # out) = tables_of out" "tables_of (summary_output summary findings) = 0"
  by (simp_all add: summary_output_def summary_panel_def bulleted_def tables_of_def is_table_def host_banner_def)

lemma failed_run:
  "(case r of (Inr (_, None, code), _) \<Rightarrow> code = 1 | _ \<Rightarrow> False) \<Longrightarrow>
    \<exists>summary findings s. r = (Inr ((summary, findings), None, 1 :: int), s)"
  by (cases r) (auto split: sum.splits option.splits)


end
