(* ===== verification/Cli.thy ===== *)
theory Cli
  imports Agent Probe_Tables Captures
begin

text \<open>
  Model of the command line (\<open>cli.py\<close>): what a command asks of the host or of the controller, what it
  prints and the code it exits with. A command is an action on the state of the host, or on whatever is
  at the other end of the client; an exception that no command catches is the error of the action. The
  progress display and the parsing of the options (of the library typer) are left out.
\<close>

section \<open>Environment\<close>

text \<open>The JSON texts of the models, the files, and the environments of the parts.\<close>

record cli_env =
  ci_host :: host_env
  ci_analysis :: analysis_env
  ci_client :: client_env
  ci_render :: render_env
  ci_now :: string
  ci_load_json :: "string \<Rightarrow> pyval result"
  ci_read_text :: "string \<Rightarrow> string result"
  ci_loads :: "string \<Rightarrow> pyval result"
  ci_report_json :: "diagnosis_report \<Rightarrow> string"
  ci_result_json :: "diagnostic_result \<Rightarrow> string"
  ci_vantage_json :: "multi_vantage_report \<Rightarrow> string"
  ci_vantages_json :: "multi_vantage_report list \<Rightarrow> string"
  ci_bindings_json :: "host_port_binding list \<Rightarrow> string"
  ci_topology_json :: "network_topology \<Rightarrow> string"

section \<open>Tables of the probes\<close>

definition table_of :: "string \<Rightarrow> string list \<Rightarrow> (diagnostic_result \<Rightarrow> string list result) \<Rightarrow> diagnostic_result list \<Rightarrow> shown result" where
  "table_of title cols row rs = bindR (rows_table title cols row rs) (\<lambda>out. Inr (done_with out))"

definition link_util_row :: "diagnostic_result \<Rightarrow> string list result" where
  "link_util_row r =
     bindR (metric_cell (fmt_num 1) r ''util_percent'') (\<lambda>util.
     bindR (scaled_cell 1000000 r ''rx_bps'') (\<lambda>rx.
     bindR (scaled_cell 1000000 r ''tx_bps'') (\<lambda>tx.
       Inr [or_dash (dr_target r), util, rx, tx, status_value (dr_status r)])))"

definition link_util :: "cli_env \<Rightarrow> rat \<Rightarrow> (host, shown) act" where
  "link_util env interval =
     bindA (totalA (measure_link_utilization (ci_host env) interval)) (\<lambda>rs.
       liftA (table_of ''Link Utilization'' [''Interface'', ''Util %'', ''RX Mbps'', ''TX Mbps'', ''Status''] link_util_row rs))"

definition link_errors_row :: "diagnostic_result \<Rightarrow> string list result" where
  "link_errors_row r =
     bindR (scaled_cell 1 r ''drops_per_sec'') (\<lambda>drops.
     bindR (scaled_cell 1 r ''errors_per_sec'') (\<lambda>errors.
       Inr [or_dash (dr_target r), drops, errors, status_value (dr_status r)]))"

definition link_errors :: "cli_env \<Rightarrow> rat \<Rightarrow> (host, shown) act" where
  "link_errors env interval =
     bindA (measure_link_errors (ci_host env) interval) (\<lambda>rs.
       liftA (table_of ''Link Errors'' [''Interface'', ''Drops/s'', ''Errors/s'', ''Status''] link_errors_row rs))"

definition bandwidth_row :: "diagnostic_result \<Rightarrow> string list result" where
  "bandwidth_row r =
     bindR (scaled_cell 1000000 r ''total_bps'') (\<lambda>mbps.
     bindR (metric_cell (fmt_num 1) r ''util_percent'') (\<lambda>util. Inr [or_dash (dr_target r), mbps, util]))"

definition traffic_bandwidth :: "cli_env \<Rightarrow> rat \<Rightarrow> (host, shown) act" where
  "traffic_bandwidth env interval =
     bindA (totalA (measure_link_utilization (ci_host env) interval)) (\<lambda>rs.
       liftA (table_of ''Interface Bandwidth Sample'' [''Interface'', ''Total Mbps'', ''Util %''] bandwidth_row rs))"

definition path_hops :: "cli_env \<Rightarrow> string \<Rightarrow> int \<Rightarrow> (host, shown) act" where
  "path_hops env target probes =
     bindA (totalA (measure_hop_metrics (ci_host env) target probes 20)) (\<lambda>r.
       liftA (bindR (hops_table (ci_analysis env) (''Hop Metrics '' @ arrow @ '' '' @ target) r) (\<lambda>out. Inr (done_with out))))"

definition path_diff :: "cli_env \<Rightarrow> string \<Rightarrow> (host, shown) act" where
  "path_diff env target =
     bindA (totalA (traceroute_to_result (ci_host env) target 30)) (\<lambda>trace.
     bindA (totalA (detect_path_change (ci_host env) target trace)) (\<lambda>change.
       returnA (done_with (Text (''[bold]'' @ dr_summary change @ ''[/bold] ('' @ status_value (dr_status change) @ '')'') #
         map bulleted (dr_evidence change)))))"

definition path_all :: "cli_env \<Rightarrow> string \<Rightarrow> (host, shown) act" where
  "path_all env target =
     bindA (print_traceroute (ci_host env) (ci_analysis env) target 30) (\<lambda>(trace, out).
     bindA (totalA (detect_path_change (ci_host env) target trace)) (\<lambda>change.
       returnA (done_with (out @ [Text (newline @ ''[bold]Path change:[/bold] '' @ dr_summary change)]))))"

definition flow_analyze :: "cli_env \<Rightarrow> string \<Rightarrow> bool \<Rightarrow> shown result" where
  "flow_analyze env path json_output =
     bindR (ci_read_text env path) (\<lambda>text.
     bindR (collect_flow_diagnostics (ci_analysis env) (ci_loads env) text) (\<lambda>results.
     bindR (nthR results 0) (\<lambda>r.
       Inr (done_with (if json_output then [Text (ci_result_json env r)]
         else Text (''[bold]'' @ dr_summary r @ ''[/bold]'') #
              map (\<lambda>w. Text (''  [yellow]'' @ bullet @ '' '' @ w @ ''[/yellow]'')) (dr_warnings r))))))"

text \<open>Commands that only call a function that measures and prints.\<close>

definition printed_only :: "('s, 'a \<times> printed list) act \<Rightarrow> ('s, shown) act" where
  "printed_only m = bindA m (\<lambda>x. returnA (done_with (snd x)))"

definition cmd_connectivity :: "cli_env \<Rightarrow> (host, shown) act" where
  "cmd_connectivity env = printed_only (print_connectivity (ci_host env) (ci_analysis env) None)"

definition cmd_interface :: "cli_env \<Rightarrow> (host, shown) act" where
  "cmd_interface env = printed_only (print_interfaces (ci_host env) (ci_analysis env))"

definition cmd_routing :: "cli_env \<Rightarrow> bool \<Rightarrow> (host, shown) act" where
  "cmd_routing env verbose = printed_only (print_routing (ci_host env) (ci_analysis env) verbose)"

definition cmd_gateway :: "cli_env \<Rightarrow> int \<Rightarrow> (host, shown) act" where
  "cmd_gateway env n = printed_only (print_gateway (ci_host env) (ci_analysis env) n)"

definition cmd_dns :: "cli_env \<Rightarrow> string \<Rightarrow> (host, shown) act" where
  "cmd_dns env hostname = printed_only (print_dns (ci_host env) (ci_analysis env) hostname)"

definition cmd_transport :: "cli_env \<Rightarrow> string \<Rightarrow> (host, shown) act" where
  "cmd_transport env host = printed_only (print_transport (ci_host env) (ci_analysis env) host None None)"

definition cmd_packet_loss :: "cli_env \<Rightarrow> int \<Rightarrow> (host, shown) act" where
  "cmd_packet_loss env n = printed_only (print_packet_loss (ci_host env) (ci_analysis env) None n)"

definition cmd_latency :: "cli_env \<Rightarrow> int \<Rightarrow> (host, shown) act" where
  "cmd_latency env n = printed_only (print_latency (ci_host env) None n)"

definition cmd_resources :: "cli_env \<Rightarrow> (host, shown) act" where
  "cmd_resources env = printed_only (print_resources (ci_host env) (ci_analysis env))"

definition cmd_host_all :: "cli_env \<Rightarrow> bool \<Rightarrow> bool \<Rightarrow> string \<Rightarrow> (host, shown) act" where
  "cmd_host_all env strict diagnose target =
     print_host_all (ci_host env) (ci_analysis env) (ci_now env) strict diagnose target"

definition link_all :: "cli_env \<Rightarrow> rat \<Rightarrow> (host, shown) act" where
  "link_all env interval = printed_only (print_link (ci_host env) interval)"

definition path_trace :: "cli_env \<Rightarrow> string \<Rightarrow> int \<Rightarrow> (host, shown) act" where
  "path_trace env target max_hops = printed_only (print_traceroute (ci_host env) (ci_analysis env) target max_hops)"

definition traffic_speed :: "cli_env \<Rightarrow> string \<Rightarrow> (host, shown) act" where
  "traffic_speed env url = printed_only (print_speed (ci_host env) (ci_analysis env) url)"

definition traffic_jitter :: "cli_env \<Rightarrow> string \<Rightarrow> int \<Rightarrow> (host, shown) act" where
  "traffic_jitter env host n = printed_only (print_jitter (ci_host env) host n)"

definition cmd_flow_top :: "cli_env \<Rightarrow> string \<Rightarrow> shown result" where
  "cmd_flow_top env path =
     bindR (ci_read_text env path) (\<lambda>text.
     bindR (flow_top (ci_analysis env) (ci_loads env) text) (\<lambda>x. Inr (done_with (snd x))))"

text \<open>The targets of a mesh: the list of the option, or those of the topology file.\<close>

definition mesh_run :: "cli_env \<Rightarrow> string \<Rightarrow> mesh_topology option \<Rightarrow> int \<Rightarrow> (host, shown) act" where
  "mesh_run env targets topology n =
     printed_only (print_mesh (ci_host env) (ci_analysis env)
       (if topology = None then Some (targets_of targets) else None) topology n)"

text \<open>The contract of \<open>collectors/agent_api.py\<close>: a request of an older shape, which is not implemented.\<close>

definition agent_probe_request ::
  "string \<Rightarrow> string \<Rightarrow> string \<Rightarrow> (string \<times> pyval) list option \<Rightarrow> diagnostic_result list result" where
  "agent_probe_request agent_url probe_name target options = Inl not_implemented"

definition AGENT_API_SCHEMA :: pyval where
  "AGENT_API_SCHEMA = PDict [(''endpoint'', PStr ''/v1/probe''), (''method'', PStr ''POST''),
     (''request'', PDict [(''probe'', PStr ''string (ping|traceroute|connectivity)''), (''target'', PStr ''string''),
        (''options'', PStr ''object'')]),
     (''response'', PDict [(''results'', PStr ''DiagnosticResult[]'')])]"

definition cmd_mesh_status :: "cli_env \<Rightarrow> shown" where
  "cmd_mesh_status env = done_with
     [Text ''[bold]Local mesh:[/bold] available via `netforge mesh run`'',
      Text ''[bold]Remote agents:[/bold] stubbed (not implemented)'',
      Text (''Agent API schema: '' @ py_str (ci_analysis env) AGENT_API_SCHEMA)]"

section \<open>Diagnoses of the host\<close>

definition show_report :: "cli_env \<Rightarrow> bool \<Rightarrow> printed \<Rightarrow> diagnosis_report \<times> int \<Rightarrow> shown" where
  "show_report env json_output banner outcome =
     (case outcome of (report, code) \<Rightarrow>
       (if json_output then [Text (ci_report_json env report)] else banner # render_diagnosis_report report, code))"

definition collecting :: "string \<Rightarrow> printed" where
  "collecting what = Text (''[bold cyan]NetForge[/bold cyan]: collecting '' @ what @ ''...'')"

definition diagnose_command :: "cli_env \<Rightarrow> string \<Rightarrow> string \<Rightarrow> rat \<Rightarrow> bool \<Rightarrow> bool \<Rightarrow> (host, shown) act" where
  "diagnose_command env layer target interval json_output strict =
     (let h = ci_host env; a = ci_analysis env; now = ci_now env;
          on = (\<lambda>what. what @ '' [bold]'' @ target @ ''[/bold]'')
      in if layer = ''host'' then
           bindA (diagnose_host h a now target strict) (\<lambda>d.
             returnA (show_report env json_output (collecting (on ''host observations for'')) d))
         else if layer = ''path'' then
           bindA (diagnose_path h a now target strict) (\<lambda>d.
             returnA (show_report env json_output (collecting (on ''path observations for'')) d))
         else if layer = ''link'' then
           bindA (diagnose_link h a now interval strict) (\<lambda>d.
             returnA (show_report env json_output (collecting ''link observations'') d))
         else
           bindA (diagnose_all h a now target strict) (\<lambda>d.
             returnA (show_report env json_output (collecting (on ''host+link+path for'')) d)))"

section \<open>The controller\<close>

text \<open>\<open>_run\<close>: an API error is printed and ends the command with the code 1; every other exception leaves
  it. What follows the call may raise as well.\<close>

definition api_error_text :: "int \<Rightarrow> string \<Rightarrow> string" where
  "api_error_text code message = ''controller API error ('' @ str_of_int code @ ''): '' @ message"

definition run_call :: "('s, 'a) act \<Rightarrow> ('a \<Rightarrow> shown result) \<Rightarrow> ('s, shown) act" where
  "run_call m k s =
     (case m s of
        (Inr x, s') \<Rightarrow> (k x, s')
      | (Inl e, s') \<Rightarrow>
          (case e of
             ControllerAPIError code message \<Rightarrow>
               (Inr ([Text (styled ''red'' (api_error_text code message))], 1), s')
           | _ \<Rightarrow> (Inl e, s')))"

definition show_with :: "('a \<Rightarrow> printed list) \<Rightarrow> 'a \<Rightarrow> shown result" where
  "show_with f x = Inr (done_with (f x))"

definition field_text :: "cli_env \<Rightarrow> pyval \<Rightarrow> string \<Rightarrow> string result" where
  "field_text env v k = bindR (get_or v k PNone) (\<lambda>x. Inr (ce_str (ci_client env) x))"

definition cmd_health :: "cli_env \<Rightarrow> 's sender \<Rightarrow> ('s, shown) act" where
  "cmd_health env send = run_call (client_health send) (\<lambda>data.
     bindR (field_text env data ''status'') (\<lambda>status. bindR (field_text env data ''service'') (\<lambda>service.
       Inr (done_with [Text (styled ''green'' status @ '' '' @ em_dash @ '' '' @ service)]))))"

text \<open>\<open>dict(t.split("=", 1) for t in tag)\<close>.\<close>

definition tags_of :: "string list \<Rightarrow> (string \<times> string) list result" where
  "tags_of tags = bindR (mapR (\<lambda>t. if CHR ''='' \<in> set t then Inr (before CHR ''='' t, after CHR ''='' t) else Inl ValueError) tags)
     (\<lambda>pairs. Inr (dict_from pairs))"

definition cmd_agent_register :: "cli_env \<Rightarrow> 's sender \<Rightarrow> string \<Rightarrow> string \<Rightarrow> string list \<Rightarrow> ('s, shown) act" where
  "cmd_agent_register env send agent_id url tag =
     bindA (liftA (tags_of tag)) (\<lambda>tags.
     run_call (client_register_agent send agent_id url tags) (\<lambda>agent.
       bindR (field_text env agent ''agent_id'') (\<lambda>i. bindR (field_text env agent ''url'') (\<lambda>u.
         Inr (done_with [Text (''[green]Registered agent[/green] '' @ i @ '' -> '' @ u)])))))"

definition tags_text :: "cli_env \<Rightarrow> pyval \<Rightarrow> string result" where
  "tags_text env v =
     (if \<not> truthy v then Inr []
      else (case v of
              PDict d \<Rightarrow> Inr (join '', '' (map (\<lambda>(k, x). k @ ''='' @ ce_str (ci_client env) x) d))
            | _ \<Rightarrow> Inl AttributeError))"

definition agent_row :: "cli_env \<Rightarrow> pyval \<Rightarrow> string list result" where
  "agent_row env a =
     bindR (bindR (get_or a ''topology_tags'' PNone) (tags_text env)) (\<lambda>tags.
     bindR (get_or a ''enabled'' PNone) (\<lambda>enabled.
     bindR (bindR (get_or a ''agent_id'' (PStr ''-'')) text_cell) (\<lambda>i.
     bindR (get_or a ''url'' (PStr ''-'')) (\<lambda>u.
       Inr [i, ce_str (ci_client env) u, yes_no (truthy enabled), or_dash (Some tags)]))))"

definition cmd_agent_list :: "cli_env \<Rightarrow> 's sender \<Rightarrow> ('s, shown) act" where
  "cmd_agent_list env send = run_call (client_list_agents send) (\<lambda>v.
     bindR (py_iter v) (\<lambda>agents. bindR (mapR (agent_row env) agents) (\<lambda>cells.
       Inr (done_with [Table (titled ''Agents'' (length agents)) [''Agent'', ''URL'', ''Enabled'', ''Tags''] cells]))))"

definition cmd_topology_import :: "cli_env \<Rightarrow> 's sender \<Rightarrow> string \<Rightarrow> ('s, shown) act" where
  "cmd_topology_import env send path =
     bindA (liftA (ci_load_json env path)) (\<lambda>document.
     run_call (client_import_topology (ci_client env) send document) (show_with render_topology))"

definition cmd_topology_list :: "cli_env \<Rightarrow> 's sender \<Rightarrow> ('s, shown) act" where
  "cmd_topology_list env send = run_call (client_list_topology_names send) (\<lambda>v.
     if \<not> truthy v then Inr (done_with [Text ''[yellow]No topologies imported.[/yellow]''])
     else bindR (py_iter v) (\<lambda>names.
       Inr (done_with (map (\<lambda>n. bulleted (styled ''bold'' (ce_str (ci_client env) n))) names))))"

definition cmd_service_register :: "cli_env \<Rightarrow> 's sender \<Rightarrow> string \<Rightarrow> string option \<Rightarrow> ('s, shown) act" where
  "cmd_service_register env send path topology =
     bindA (liftA (ci_load_json env path)) (\<lambda>document.
     run_call (client_register_services (ci_client env) send document topology) (show_with (\<lambda>services.
       [Text (''[green]Registered[/green] '' @ str_of_nat (length services) @ '' service(s)'')])))"

fun protocol_value :: "service_protocol \<Rightarrow> string" where
  "protocol_value PROTO_TCP = ''tcp''" | "protocol_value PROTO_UDP = ''udp''"

definition service_row :: "service_endpoint \<Rightarrow> string list" where
  "service_row s = [se_service_id s, se_name s, se_host s, str_of_int (se_port s), protocol_value (se_protocol s), or_dash (se_node_id s)]"

definition cmd_service_list :: "cli_env \<Rightarrow> 's sender \<Rightarrow> ('s, shown) act" where
  "cmd_service_list env send = run_call (client_list_services (ci_client env) send) (show_with (\<lambda>services.
     [Table (titled ''Services'' (length services)) [''Service'', ''Name'', ''Host'', ''Port'', ''Proto'', ''Node'']
        (map service_row services)]))"

definition cmd_diagnose ::
  "cli_env \<Rightarrow> 's sender \<Rightarrow> string \<Rightarrow> string option \<Rightarrow> int \<Rightarrow> string option \<Rightarrow> string option \<Rightarrow> bool \<Rightarrow> bool \<Rightarrow> ('s, shown) act" where
  "cmd_diagnose env send service_id probe_type n source_node topology json_output strict =
     run_call (client_diagnose (ci_client env) send service_id probe_type n source_node topology) (\<lambda>report.
       Inr (if json_output then [Text (ci_vantage_json env report)] else render_multivantage_report report,
            if strict \<and> mv_localization report \<noteq> LOC_HEALTHY then 1 else 0))"

definition diagnosis_cells :: "multi_vantage_report \<Rightarrow> string list" where
  "diagnosis_cells r = [or_dash (mv_service_id r), mv_target r, localization_value (mv_localization r), percent (mv_confidence r),
     str_of_nat (mv_vantage_count r)]"

definition cmd_diagnoses :: "cli_env \<Rightarrow> 's sender \<Rightarrow> ('s, shown) act" where
  "cmd_diagnoses env send = run_call (client_list_diagnoses (ci_client env) send) (show_with (\<lambda>rs.
     [Table (titled ''Diagnoses'' (length rs)) [''Service'', ''Target'', ''Localization'', ''Conf'', ''Vantages''] (map diagnosis_cells rs)]))"

definition cmd_monitor_run :: "cli_env \<Rightarrow> 's sender \<Rightarrow> bool \<Rightarrow> ('s, shown) act" where
  "cmd_monitor_run env send json_output = run_call (client_run_monitor (ci_client env) send) (show_with (\<lambda>rs.
     if json_output then [Text (ci_vantages_json env rs)]
     else Text (''[bold cyan]NetForge[/bold cyan]: ran '' @ styled ''bold'' (str_of_nat (length rs)) @ '' due schedule(s)'') # render_reports rs))"

definition cmd_schedule_list :: "cli_env \<Rightarrow> 's sender \<Rightarrow> string option \<Rightarrow> ('s, shown) act" where
  "cmd_schedule_list env send service_id =
     run_call (client_list_schedules (ci_client env) send service_id) (show_with (render_schedules (ci_render env)))"

definition cmd_schedule_add ::
  "cli_env \<Rightarrow> 's sender \<Rightarrow> string \<Rightarrow> rat \<Rightarrow> int \<Rightarrow> string option \<Rightarrow> string option \<Rightarrow> string option \<Rightarrow> ('s, shown) act" where
  "cmd_schedule_add env send service_id interval n probe_type source_node topology =
     run_call (client_create_schedule (ci_client env) send service_id interval n probe_type source_node topology)
       (show_with (\<lambda>s. [Text (''[green]Scheduled[/green] '' @ sc_schedule_id s @ '' every '' @
          re_general (ci_render env) (sc_interval_seconds s) @ ''s for '' @ sc_service_id s)]))"

definition cmd_schedule_remove :: "cli_env \<Rightarrow> 's sender \<Rightarrow> string \<Rightarrow> ('s, shown) act" where
  "cmd_schedule_remove env send schedule_id = run_call (client_delete_schedule send schedule_id) (show_with (\<lambda>deleted.
     [Text ((if deleted then ''[green]Deleted[/green] '' else ''[red]Not deleted[/red] '') @ schedule_id)]))"

definition cmd_alert_list :: "cli_env \<Rightarrow> 's sender \<Rightarrow> string option \<Rightarrow> string option \<Rightarrow> ('s, shown) act" where
  "cmd_alert_list env send service_id state =
     run_call (client_list_alerts (ci_client env) send service_id state) (show_with render_alerts)"

definition rule_row :: "alert_rule \<Rightarrow> string list" where
  "rule_row r = [take 8 (ru_rule_id r), ru_name r, (if some_text (ru_service_id r) then the (ru_service_id r) else ''*''),
     severity_value (ru_severity r), fmt_fixed 2 (ru_min_confidence r), yes_no (ru_enabled r)]"

definition cmd_rule_list :: "cli_env \<Rightarrow> 's sender \<Rightarrow> ('s, shown) act" where
  "cmd_rule_list env send = run_call (client_list_alert_rules (ci_client env) send) (show_with (\<lambda>rules.
     [Table (titled ''Alert Rules'' (length rules)) [''Rule'', ''Name'', ''Service'', ''Severity'', ''Min conf'', ''Enabled''] (map rule_row rules)]))"

definition cmd_rule_add ::
  "cli_env \<Rightarrow> 's sender \<Rightarrow> string \<Rightarrow> rat \<Rightarrow> string \<Rightarrow> string option \<Rightarrow> string option \<Rightarrow> ('s, shown) act" where
  "cmd_rule_add env send name min_confidence sev service_id fire_on =
     run_call (client_create_alert_rule (ci_client env) send name min_confidence sev service_id
         (if some_text fire_on then Some (targets_of (the fire_on)) else None))
       (show_with (\<lambda>rule. [Text (''[green]Rule registered[/green] '' @ ru_rule_id rule @ '' ('' @ ru_name rule @ '')'')]))"

definition cmd_incident_list :: "cli_env \<Rightarrow> 's sender \<Rightarrow> string option \<Rightarrow> string option \<Rightarrow> ('s, shown) act" where
  "cmd_incident_list env send service_id state =
     run_call (client_list_incidents (ci_client env) send service_id state) (show_with (render_incidents (ci_render env)))"

definition cmd_incident_show :: "cli_env \<Rightarrow> 's sender \<Rightarrow> string \<Rightarrow> ('s, shown) act" where
  "cmd_incident_show env send incident_id =
     run_call (client_get_incident (ci_client env) send incident_id) (show_with (\<lambda>i.
       render_incidents (ci_render env) [i] @ [Text (''[bold]Summary:[/bold] '' @ in_summary i)]))"

definition cmd_incident_ack :: "cli_env \<Rightarrow> 's sender \<Rightarrow> string \<Rightarrow> ('s, shown) act" where
  "cmd_incident_ack env send incident_id =
     run_call (client_ack_incident (ci_client env) send incident_id) (show_with (\<lambda>i.
       [Text (''[yellow]Acknowledged[/yellow] '' @ in_incident_id i @ '' -> '' @ incident_state_value (in_state i))]))"

definition cmd_incident_resolve :: "cli_env \<Rightarrow> 's sender \<Rightarrow> string \<Rightarrow> ('s, shown) act" where
  "cmd_incident_resolve env send incident_id =
     run_call (client_resolve_incident (ci_client env) send incident_id) (show_with (\<lambda>i.
       [Text (''[green]Resolved[/green] '' @ in_incident_id i @ '' -> '' @ incident_state_value (in_state i))]))"

definition cmd_correlate :: "cli_env \<Rightarrow> 's sender \<Rightarrow> string \<Rightarrow> string \<Rightarrow> bool \<Rightarrow> ('s, shown) act" where
  "cmd_correlate env send topology telemetry json_output =
     bindA (liftA (ci_load_json env telemetry)) (\<lambda>data.
       let switches = (case data of PDict d \<Rightarrow> (case map_of d ''switches'' of None \<Rightarrow> PList [] | Some v \<Rightarrow> v) | _ \<Rightarrow> data) in
       run_call (client_correlate (ci_client env) send topology switches) (show_with (\<lambda>bs.
         if json_output then [Text (ci_bindings_json env bs)] else render_bindings bs)))"

definition cmd_binding_list :: "cli_env \<Rightarrow> 's sender \<Rightarrow> string option \<Rightarrow> ('s, shown) act" where
  "cmd_binding_list env send topology =
     run_call (client_list_bindings (ci_client env) send topology) (show_with render_bindings)"

definition cmd_augment :: "cli_env \<Rightarrow> 's sender \<Rightarrow> string \<Rightarrow> bool \<Rightarrow> ('s, shown) act" where
  "cmd_augment env send topology json_output =
     run_call (client_augment_topology (ci_client env) send topology) (show_with (\<lambda>t.
       if json_output then [Text (ci_topology_json env t)] else render_topology t))"

section \<open>What the commands show\<close>

lemma run_call_simps:
  "m s = (Inr x, s') \<Longrightarrow> run_call m k s = (k x, s')"
  "m s = (Inl (ControllerAPIError c msg), s') \<Longrightarrow> run_call m k s = (Inr ([Text (styled ''red'' (api_error_text c msg))], 1), s')"
  by (simp_all add: run_call_def)

text \<open>A command that measures and prints ends with 0, in the state the probe leaves, unless the probe itself raises.\<close>

lemma printed_only_ends:
  assumes "silently m = n" "n s = (Inr x, s')"
  shows "\<exists>out. printed_only m s = (Inr (out, 0), s')"
  using assms by (auto simp: silently_apply printed_only_def bindA_def returnA_def done_with_def split: prod.splits sum.splits)

lemmas commands_end =
  suite_silent [THEN printed_only_ends] others_silent [THEN printed_only_ends]

lemma host_commands_end:
  "\<exists>out. cmd_interface env s = (Inr (out, 0), snd (inspect_interfaces (ci_host env) s))"
  "\<exists>out. cmd_packet_loss env n s = (Inr (out, 0), snd (run_packet_loss_diagnostics (ci_host env) None n s))"
  "\<exists>out. cmd_latency env n s = (Inr (out, 0), snd (run_latency_diagnostics (ci_host env) None n s))"
  "\<exists>out. path_trace env target max_hops s = (Inr (out, 0), snd (traceroute_to_result (ci_host env) target max_hops s))"
  "\<exists>out. traffic_jitter env host n s = (Inr (out, 0), snd (measure_traffic_jitter (ci_host env) host n s))"
  unfolding cmd_interface_def cmd_packet_loss_def cmd_latency_def path_trace_def traffic_jitter_def
  by (rule commands_end, simp add: totalA_def case_prod_beta)+

lemma report_status_known:
  assumes "analyze env now results target e = (Inr r, e')"
  shows "rp_status r \<noteq> UNKNOWN"
  unfolding report_field_status [OF assms] by (simp add: report_status_def)

lemma analysed_status:
  assumes "bindA m (analyse_results aenv now label strict) h = (Inr (report, code), h')"
  shows "rp_status report \<noteq> UNKNOWN"
proof -
  obtain results h1 where r: "m h = (Inr results, h1)" "analyse_results aenv now label strict results h1 = (Inr (report, code), h')"
    using assms by (auto simp: bindA_eq_Inr)
  then have "fst (analyze aenv now results label (new_rule_engine aenv None)) = Inr report"
    by (cases "fst (analyze aenv now results label (new_rule_engine aenv None))")
      (auto simp: analyse_results_def returnA_def)
  then show ?thesis by (metis report_status_known prod.collapse)
qed


definition offline_cli :: cli_env where
  "offline_cli = \<lparr> ci_host = offline_host, ci_analysis = sample_analysis_env, ci_client = sample_client_env,
     ci_render = \<lparr> re_local_time = (\<lambda>_. []), re_general = fmt_fixed 0 \<rparr>, ci_now = [],
     ci_load_json = (\<lambda>_. Inl ValueError), ci_read_text = (\<lambda>_. Inl ValueError), ci_loads = (\<lambda>_. Inl ValueError),
     ci_report_json = (\<lambda>_. []), ci_result_json = (\<lambda>_. []), ci_vantage_json = (\<lambda>_. []), ci_vantages_json = (\<lambda>_. []),
     ci_bindings_json = (\<lambda>_. []), ci_topology_json = (\<lambda>_. []) \<rparr>"


text \<open>Resolving an incident from the command line, with the controller at the other end: the command
  always ends without a traceback; for a known incident it applies the operation of the controller and
  exits with 0, for an unknown one it prints the API error 404, changes nothing and exits with 1.\<close>

theorem resolve_command:
  assumes "faithful_wire (ci_client env) w" "ascii (''Bearer '' @ cl_token cl)" "empty_body models w"
    and "plain i" "CHR ''/'' \<notin> set i"
  shows "\<exists>out code s'. cmd_incident_resolve env (over cenv models (ci_client env) w cl) i s = (Inr (out, code), s') \<and>
    (if get_incident i (ct_store s) = None
     then code = 1 \<and> s' = s \<and>
       out = [Text (styled ''red'' (''controller API error (404): unknown incident: '' @ i))]
     else code = 0 \<and> s' = snd (resolve_incident cenv i None s))"
proof -
  have "client_resolve_incident (ci_client env) (over cenv models (ci_client env) w cl) i s =
      (if get_incident i (ct_store s) = None
       then (Inl (ControllerAPIError 404 (''unknown incident: '' @ i)), s)
       else resolve_incident cenv i None s)"
    using resolved_over [OF assms(1-3), of i] assms(4,5) by simp
  moreover have "\<exists>x. fst (resolve_incident cenv i None s) = Inr x" if "get_incident i (ct_store s) \<noteq> None"
    using that by (auto simp: resolve_incident_def change_incident_def require_incident_def requireA_def readA_def getA_def
        bindA_def returnA_def pureA_def writeA_def modifyA_def split: prod.splits)
  moreover have "str_of_int 404 = ''404''" by code_simp
  ultimately show ?thesis
    by (auto simp: cmd_incident_resolve_def run_call_def show_with_def done_with_def api_error_text_def
        prod_eq_iff split: prod.splits)
qed

lemma resolve_command_witness:
  "\<exists>out s'. cmd_incident_resolve offline_cli (over sample_env wired_models sample_client_env sample_wire sample_client) ''u''
     sample_state = (Inr (out, 0), s')"
proof -
  have "ascii (''Bearer '' @ cl_token sample_client)" "plain ''u''" "CHR ''/'' \<notin> set ''u''"
    by (simp_all add: sample_client_def new_client_def ascii_def plain_def)
  moreover have "ci_client offline_cli = sample_client_env" by (simp add: offline_cli_def)
  ultimately show ?thesis
    using resolve_command [of offline_cli sample_wire sample_client wired_models "''u''" sample_env sample_state] sample_faithful
    by (auto simp: sample_incident)
qed

end
