(* ===== verification/Startup.thy ===== *)
theory Startup
  imports Dispatch
begin

text \<open>
  Model of the entry points \<open>controller/__main__.py\<close> and \<open>agent/__main__.py\<close> with
  \<open>serve_http\<close> of \<open>core/http_utils.py\<close>: from the environment variables and the options of the command
  line to the process that serves requests, which is the handler of the service behind a listener. Parsing
  the options (argparse), the sockets and the TLS handshake belong to the standard library. The section on
  deployments starts a controller and an agent from their environments and lets the one probe the other.
\<close>

section \<open>Listeners\<close>

text \<open>The address, the port, and the certificate with its key when connections are encrypted; without a key
  file the key is read from the certificate file.\<close>

record listener =
  li_host :: string
  li_port :: int
  li_tls :: "(string \<times> string option) option"

definition serve_http :: "string \<Rightarrow> int \<Rightarrow> string option \<Rightarrow> string option \<Rightarrow> listener" where
  "serve_http host port certfile keyfile =
     \<lparr> li_host = host, li_port = port,
        li_tls = (if some_text certfile then Some (the certfile, keyfile) else None) \<rparr>"

section \<open>The controller\<close>

record controller_options =
  co_host :: string
  co_port :: int
  co_certfile :: "string option"
  co_keyfile :: "string option"
  co_monitor :: bool
  co_poll_interval :: rat

definition default_controller_options :: controller_options where
  "default_controller_options = \<lparr> co_host = ''127.0.0.1'', co_port = 8080, co_certfile = None, co_keyfile = None,
     co_monitor = False, co_poll_interval = 5 \<rparr>"

text \<open>The tokens the handler and the dispatcher hold, the file of the store, the scheduler with its interval.\<close>

record controller_process =
  cp_bearer_token :: string
  cp_agent_token :: string
  cp_database_path :: string
  cp_scheduler :: "(monitor_scheduler \<times> rat) option"
  cp_listener :: listener

definition controller_main :: "variables \<Rightarrow> controller_options \<Rightarrow> controller_process result" where
  "controller_main vars options =
     bindR (controller_from_env vars) (\<lambda>config.
       Inr \<lparr> cp_bearer_token = cc_controller_token config, cp_agent_token = cc_agent_token config,
         cp_database_path = cc_database_path config,
         cp_scheduler = (if co_monitor options
           then Some (start_scheduler \<lparr> ms_alive = False, ms_stop = False \<rparr>, co_poll_interval options) else None),
         cp_listener = serve_http (co_host options) (co_port options) (co_certfile options) (co_keyfile options) \<rparr>)"

definition controller_requests :: "env \<Rightarrow> api_models \<Rightarrow> controller_process \<Rightarrow> http_request \<Rightarrow> (controller, http_reply) act" where
  "controller_requests env models p = handle env models (cp_bearer_token p)"

section \<open>The agent\<close>

record agent_options =
  ap_host :: string
  ap_port :: int
  ap_certfile :: "string option"
  ap_keyfile :: "string option"

definition default_agent_options :: agent_options where
  "default_agent_options = \<lparr> ap_host = ''127.0.0.1'', ap_port = 8081, ap_certfile = None, ap_keyfile = None \<rparr>"

record agent_process =
  ap_config :: agent_config
  ap_listener :: listener

definition agent_main :: "string \<Rightarrow> variables \<Rightarrow> agent_options \<Rightarrow> agent_process result" where
  "agent_main gethostname vars options =
     bindR (agent_from_env gethostname vars) (\<lambda>config.
       Inr \<lparr> ap_config = config,
         ap_listener = serve_http (ap_host options) (ap_port options) (ap_certfile options) (ap_keyfile options) \<rparr>)"

section \<open>Deployments\<close>

lemma controller_started:
  "controller_main vars options = Inr p \<Longrightarrow>
    cp_bearer_token p = env_get vars ''NETFORGE_CONTROLLER_TOKEN'' [] \<and> cp_bearer_token p \<noteq> [] \<and>
    cp_agent_token p = env_get vars ''NETFORGE_AGENT_TOKEN'' [] \<and> cp_agent_token p \<noteq> []"
  by (auto simp: controller_main_def controller_from_env_def bindR_eq_Inr Let_def split: if_splits)

lemma agent_started:
  "agent_main gethostname vars options = Inr p \<Longrightarrow>
    ac_bearer_token (ap_config p) = env_get vars ''NETFORGE_AGENT_TOKEN'' [] \<and> ac_bearer_token (ap_config p) \<noteq> [] \<and>
    ac_allowed_targets (ap_config p) = targets_of (env_get vars ''NETFORGE_ALLOWED_TARGETS'' [])"
  by (auto simp: agent_main_def agent_from_env_def bindR_eq_Inr Let_def split: if_splits)

text \<open>A process does not start without its tokens.\<close>

lemma no_start_without_token:
  "env_get vars ''NETFORGE_AGENT_TOKEN'' [] = [] \<Longrightarrow>
    controller_main vars options = Inl ValueError \<and> agent_main gethostname vars options' = Inl ValueError"
  by (simp add: controller_main_def controller_from_env_def agent_main_def agent_from_env_def Let_def)

text \<open>A request without the token of the agent does nothing there.\<close>

lemma wrong_token_refused:
  assumes "faithful_agent denv env w request" "token \<noteq> ac_bearer_token config"
    and "ascii (''Bearer '' @ ac_bearer_token config)" "ascii (''Bearer '' @ token)"
  shows "\<exists>m. dispatch_probe denv (agent_at env config w agent) token agent request a = (Inl m, a)"
proof -
  let ?req = "agent_receives agent (probe_call_of denv token agent request)"
  obtain d where d: "ae_loads env (de_request_json denv request) = Some (PDict d)"
    using assms(1) unfolding faithful_agent_def by blast
  have fields: "hr_method ?req = POST" "hr_authorization ?req = Some (''Bearer '' @ token)"
    "hr_content_length ?req = Some (str_of_nat (length (de_request_json denv request)))"
    "hr_stream ?req = de_request_json denv request"
    by (simp_all add: agent_receives_def probe_call_of_def)
  have body: "read_json_body (ae_loads env) (hr_content_length ?req) (hr_stream ?req) MAX_BODY_BYTES = Inr d"
    using assms(1) d unfolding fields by (simp add: read_json_body_def faithful_agent_def Let_def)
  have "authorize config (hr_authorization ?req) = Inl AuthorizationError"
    using assms(2-4) unfolding fields by (simp add: authorize_def compare_digest_def)
  then have "agent_handle env config ?req a =
      (Inr \<lparr> ar_status = UNAUTHORIZED_401, ar_payload = A_Error (agent_error_text env AuthorizationError) \<rparr>, a)"
    using fields(1) by (simp add: agent_handle_def body agent_dispatch_def agent_catch_def agent_route_def)
  then show ?thesis by (simp add: dispatch_probe_def agent_at_def)
qed

definition deployed_dispatch ::
  "dispatch_env \<Rightarrow> agent_env \<Rightarrow> agent_wire \<Rightarrow> controller_process \<Rightarrow> agent_process \<Rightarrow> registered_agent \<Rightarrow> probe_request \<Rightarrow>
   agent \<Rightarrow> (string + agent_observation list) \<times> agent" where
  "deployed_dispatch denv env w c p agent request =
     dispatch_probe denv (agent_at env (ap_config p) w agent) (cp_agent_token c) agent request"


text \<open>One agent, and two controllers of which one has another token.\<close>

definition controller_variables :: "string \<Rightarrow> variables" where
  "controller_variables token = [(''NETFORGE_CONTROLLER_TOKEN'', ''c''), (''NETFORGE_AGENT_TOKEN'', token)]"

lemma sample_controller:
  "token \<noteq> [] \<Longrightarrow> \<exists>c. controller_main (controller_variables token) default_controller_options = Inr c \<and> cp_agent_token c = token"
  by (simp add: controller_main_def controller_from_env_def controller_variables_def env_get_def Let_def)

lemma sample_agent_started:
  "\<exists>p. agent_main ''h'' sample_vars default_agent_options = Inr p \<and> ap_config p = sample_config"
  by (simp add: agent_main_def sample_config)


end
