(* ===== verification/Spec2Isabelle.thy ===== *)
theory Spec2Isabelle
  imports Aes Asn1 Snmp_Message Snmp_Engine Core_Types Multivantage Topology History Telemetry Captures
    Correlation Monitoring Store Service Lifecycle Pipeline Controller_Props Interleaving Analysis Rules_Local Rules_Remote Rule_Engine Default_Rules Http_Api
    Py_Regex Host_Env Ping Host_Probes Link_Probes Path Flow
    Agent Typed_Results Local_Diagnosis Client Dispatch Render Probe_Tables Cli Startup
begin

text \<open>
  NetForge is a framework for network diagnostics and root-cause analysis in Python. This development
  models its code under \<open>src/\<close>, a theory for every part, and proves what makes the parts and their
  compositions correct.

  \<^bold>\<open>The program.\<close> A host runs probes (\<open>diagnostics/\<close>), each of which asks the operating system
  something and returns diagnostic results (\<open>core/result.py\<close>). A rule engine (\<open>analysis/\<close>) turns a list of
  results into a report of issues with their evidence and recommendations. Two processes distribute this: an
  agent (\<open>agent/\<close>) runs probes on its host for whoever holds its token, and a controller
  (\<open>controller/\<close>) keeps agents, topologies, services, schedules, alerts and incidents in a store, sends
  probes to several agents, localizes a fault from what they see (\<open>analysis/multivantage.py\<close>), and raises
  and resolves alerts and incidents. Switch telemetry comes from SNMPv3 and LLDP (\<open>ingest/\<close>, with the
  cipher and the codec written out in Python), measurements are compared with their history
  (\<open>storage/\<close>), and a command line (\<open>cli.py\<close>) diagnoses the host or talks to the controller.

  \<^bold>\<open>Conventions\<close> (theory Prelude).
  \<^item> A record is a class, a datatype an enumeration or a union, with the names of the source; a pydantic model
    is a record with a validation function. An exception is a value of \<open>py_error\<close>, a function that may raise
    returns \<open>py_error + 'a\<close>, sequenced by \<open>bindR\<close>; an operation on a state is an action
    \<open>'s \<Rightarrow> result \<times> 's\<close>, sequenced by \<open>bindA\<close>, which keeps the state it has reached when it raises, as
    a database that commits every statement does.
  \<^item> A text is the list of the bytes of its UTF-8 encoding; the classes of \<open>str\<close> and \<open>re\<close> are those of
    ASCII. A float is a rational: sums and quotients are exact, explicit rounding is modelled, and the one place
    where binary rounding shows (the percentage in a verdict) computes with it. Bytes and the words of AES are
    machine words, Python integers are \<open>int\<close>. A dictionary whose order can be seen is an association list; a
    table of SQLite is one in rowid order. A dynamic value (\<open>Any\<close>, JSON) is the datatype \<open>pyval\<close>, and
    using it at the wrong type raises.
  \<^item> What is outside the code is a parameter: the operating system (\<open>host_env\<close>, numbered calls with their
    outcomes), the clock, \<open>uuid4\<close> and the network of the controller (\<open>env\<close>), \<open>float(text)\<close> and
    \<open>repr\<close> (\<open>analysis_env\<close>), JSON and pydantic parsing (\<open>api_models\<close>, \<open>agent_env\<close>,
    \<open>client_env\<close>, \<open>dispatch_env\<close>, \<open>wire\<close>, \<open>loads\<close>), the hash functions of SNMPv3, the datagrams
    and time-outs of a socket (\<open>net\<close>), local time (\<open>render_env\<close>). Definitions that use one take it as an
    argument; where a theorem needs something of it (that JSON reads what it wrote, that identifiers are
    fresh, the length of a digest), it is a named hypothesis, and a witness shows a parameter that meets it.

  \<^bold>\<open>The theories\<close>, from the bottom up.
  \<^item> Aes (\<open>ingest/aes.py\<close>): AES-128 and its CFB mode; rounds are permutations, decryption inverts
    encryption (the locale \<open>cfb_cipher\<close>), lengths, errors.
  \<^item> Asn1 (\<open>ingest/asn1.py\<close>): the BER codec; round trips of integers, identifiers, sequences and values;
    decoding ends and fails only with the errors listed. Lengths are right below \<open>256 ^ 127\<close> bytes. The digit
    loop that does not end for a negative arc is a \<open>partial_function\<close>.
  \<^item> Snmp_Message, Snmp_Engine (\<open>ingest/snmp_engine.py\<close>): keys, messages, the engine with discovery,
    time window, exchange, get and walk. Round trip of messages at every security level; what an accepted
    digest, reply and clock guarantee; a walk returns exactly the subtree; sending ends after its attempts.
  \<^item> Core_Types (\<open>core/\<close>, \<open>agent/models.py\<close>): results, the summary, observations, request bodies, metrics.
  \<^item> Multivantage (\<open>analysis/multivantage.py\<close>): fault localization; it refines a decision table and does not
    depend on the order of the observations.
  \<^item> Topology (\<open>controller/topology.py\<close>, \<open>vantage.py\<close>): the validated graph, its queries, the plan of a
    diagnosis; every plan uses distinct nodes of enabled agents.
  \<^item> History (\<open>storage/\<close>): snapshots, rolling statistics, comparison with a baseline.
  \<^item> Telemetry, Captures (\<open>ingest/snmp_counters.py\<close>, \<open>lldp.py\<close>): transports behind the locale
    \<open>snmp_transport\<close>, polling, rates, captured files, credentials and which of them give a transport.
  \<^item> Correlation (\<open>controller/correlation.py\<close>): hosts bound to switch ports, and the augmented topology, which is valid.
  \<^item> Monitoring, Store, Service (\<open>controller/monitoring.py\<close>, \<open>models.py\<close>, \<open>store.py\<close>,
    \<open>service.py\<close>): pure decisions, the tables with their queries, every operation of the controller.
    The tables share the laws of the locales \<open>kv_store\<close> and \<open>kv_table\<close>; incidents follow the step relation
    \<open>incident_step\<close>.
  \<^item> Lifecycle, Pipeline, Controller_Props: the invariant of the controller, kept by every operation (the locale
    \<open>state_preorder\<close> carries it through the actions), what a diagnosis does to alerts and incidents,
    isolation of failing schedules, and the properties over all reachable states.
  \<^item> Interleaving: the operations on alerts and incidents cut at the sessions of the store, and several
    threads that take turns at them (the step relation \<open>interleaved\<close>). A thread alone does what the
    operation does; together they may open as many incidents of a service as there are threads and no more, and
    one may lose the resolution of another, which the theory shows on schedules.
  \<^item> Analysis, Rules_Local, Rules_Remote, Rule_Engine, Default_Rules (\<open>analysis/\<close>): the context, the
    evidence, all default rules with their texts, the engine with suppression and ranking; a rule
    that raises changes nothing but its own entry, the report has the shape of its issues.
  \<^item> Http_Api (\<open>controller/http_server.py\<close>, \<open>scheduler.py\<close>): every endpoint over the service, the loop of
    the scheduler; authorization, answers to every request, invariants over any sequence of requests and ticks.
  \<^item> Py_Regex, Host_Env, Ping, Host_Probes, Link_Probes, Path, Flow (\<open>diagnostics/\<close>, \<open>ingest/sflow.py\<close>):
    \<open>re\<close> with its backtracking, sound and complete for the language of an expression; the host; every probe
    with the parsing of what the system prints.
  \<^item> Agent (\<open>agent/\<close>, \<open>controller/config.py\<close>): configuration, the service with its allow list, the handler.
  \<^item> Typed_Results, Local_Diagnosis (\<open>collectors/local.py\<close>, \<open>cli.py\<close>): the types the rules rely on,
    that every probe keeps to them, and so that no diagnosis of a host fails in a rule.
  \<^item> Client, Dispatch (\<open>controller/client.py\<close>, \<open>dispatch.py\<close>): requests and replies at their level; the
    handler of the other process is put at the other end, so that a call is an operation on its state. The
    locale \<open>form_codec\<close> is the law of the URL encoding.
  \<^item> Render, Probe_Tables, Cli (\<open>controller/render.py\<close>, \<open>analysis/formatter.py\<close>, the printing functions
    of \<open>diagnostics/\<close>, \<open>cli.py\<close>): what is printed, as lines, panels and tables with their markup, and the exit
    code of every command. No table raises on what its probe measures.
  \<^item> Startup (the two \<open>__main__.py\<close>, \<open>serve_http\<close>): from the environment to the process, and a
    controller with an agent started from theirs.

  \<^bold>\<open>Bounds.\<close> The listings of the store stop at \<open>list_limit\<close> 100 as in the code, which the theorems on
  resolving state; bodies end at \<open>MAX_BODY_BYTES\<close>; a walk at \<open>MAX_WALK_OIDS\<close>. The fuel of the
  loops over a text is its length, over the attempts of a socket its number of retries and the length
  of the script; the monitor loop takes the readings of its stop event, and is \<open>None\<close> when they are used up
  before the event is set.

  \<^bold>\<open>Not modelled.\<close> Sockets, TLS contexts, threads and the accept loop; the SQL text and the connection of
  SQLite (each statement is an operation on a table); the headers and the bytes of an HTTP reply beyond
  status and payload; argparse, typer and rich, that is the parsing of options, progress display and the layout of
  tables; logging; module level wiring, re-exports and imports; tests, documentation and deployment files.
  Requests of one process are handled one after the other, as in the theories up to Startup; only for
  alerts and incidents does Interleaving follow the threads of the server and of the scheduler from one commit to
  the next. Interleavings within the other operations (the baselines, the cache of ping) are not covered.
\<close>

end
